(* ===== verification/Prelude.thy ===== *)
theory Prelude
  imports Main "HOL-Library.Monad_Syntax"
begin

text \<open>
  Shared ground of the development.
  \<^item> Rust's checked integer arithmetic at a given width. Every profile the contracts are
    built with sets \<open>overflow-checks = true\<close>, so an overflow aborts the transaction. A
    computation that may abort has an \<open>option\<close> result, with \<open>None\<close> for the abort, and is
    written with the \<open>do\<close> syntax of the option monad.
  \<^item> The result type of an entry point: \<open>Inl Panic\<close> for an abort, \<open>Inl (Fail e)\<close> for an
    error the code returns, \<open>Inr\<close> for success, with \<open>and_then\<close> as in the code.
  \<^item> Lemmas on truncating division that the money computations share.
\<close>

named_theorems op_defs \<open>definitions of the modelled operations\<close>
named_theorems no_abort \<open>conditions under which a computation does not abort\<close>

section \<open>Checked integers\<close>

definition fits :: "nat \<Rightarrow> nat \<Rightarrow> nat option" where
  "fits bits n = (if n < 2 ^ bits then Some n else None)"

definition checked_add :: "nat \<Rightarrow> nat \<Rightarrow> nat \<Rightarrow> nat option" where
  "checked_add bits a b = fits bits (a + b)"

definition checked_sub :: "nat \<Rightarrow> nat \<Rightarrow> nat option" where
  "checked_sub a b = (if b \<le> a then Some (a - b) else None)"

definition checked_mul :: "nat \<Rightarrow> nat \<Rightarrow> nat \<Rightarrow> nat option" where
  "checked_mul bits a b = fits bits (a * b)"

definition checked_div :: "nat \<Rightarrow> nat \<Rightarrow> nat option" where
  "checked_div a b = (if b = 0 then None else Some (a div b))"

text \<open>The position of the highest set bit, that is \<open>BITS - leading_zeros\<close> of the code.\<close>

fun bit_length :: "nat \<Rightarrow> nat" where
  "bit_length n = (if n = 0 then 0 else Suc (bit_length (n div 2)))"

declare bit_length.simps [simp del]

text \<open>\<open>Ord::clamp\<close> of the standard library aborts when the bounds are in the wrong order.\<close>

definition ord_clamp :: "'a::linorder \<Rightarrow> 'a \<Rightarrow> 'a \<Rightarrow> 'a option" where
  "ord_clamp t lo hi = (if lo \<le> hi then Some (max lo (min t hi)) else None)"

lemma ord_clamp_Some: "ord_clamp t lo hi = Some u \<longleftrightarrow> lo \<le> hi \<and> u = max lo (min t hi)"
  by (auto simp: ord_clamp_def)

lemma fits_Some [simp]: "fits bits n = Some m \<longleftrightarrow> m = n \<and> n < 2 ^ bits"
  by (auto simp: fits_def)

lemma fits_None [simp]: "fits bits n = None \<longleftrightarrow> 2 ^ bits \<le> n"
  by (auto simp: fits_def)

lemma checked_add_Some [simp]:
  "checked_add bits a b = Some c \<longleftrightarrow> c = a + b \<and> a + b < 2 ^ bits"
  by (simp add: checked_add_def)

lemma checked_sub_Some [simp]: "checked_sub a b = Some c \<longleftrightarrow> b \<le> a \<and> c = a - b"
  by (auto simp: checked_sub_def)

lemma checked_mul_Some [simp]:
  "checked_mul bits a b = Some c \<longleftrightarrow> c = a * b \<and> a * b < 2 ^ bits"
  by (simp add: checked_mul_def)

lemma checked_div_Some [simp]: "checked_div a b = Some c \<longleftrightarrow> b \<noteq> 0 \<and> c = a div b"
  by (auto simp: checked_div_def)

lemma bit_length_0 [simp]: "bit_length 0 = 0"
  by (subst bit_length.simps) simp

lemma bit_length_pos: "0 < n \<Longrightarrow> bit_length n = Suc (bit_length (n div 2))"
  by (subst bit_length.simps) simp

lemma bit_length_bounds: "n < 2 ^ bit_length n \<and> (0 < n \<longrightarrow> 2 ^ (bit_length n - 1) \<le> n)"
proof (induction n rule: bit_length.induct)
  case (1 n)
  show ?case
  proof (cases "n = 0")
    case False
    with 1 have up: "n div 2 < 2 ^ bit_length (n div 2)"
      and low: "0 < n div 2 \<longrightarrow> 2 ^ (bit_length (n div 2) - 1) \<le> n div 2"
      by auto
    have "2 ^ bit_length (n div 2) \<le> n"
    proof (cases "n div 2 = 0")
      case True
      then show ?thesis using False by simp
    next
      case nz: False
      then have "0 < bit_length (n div 2)"
        by (simp add: bit_length_pos)
      then have "2 ^ bit_length (n div 2) = 2 * 2 ^ (bit_length (n div 2) - 1)"
        by (simp flip: power_Suc)
      also have "\<dots> \<le> 2 * (n div 2)" using low nz by simp
      also have "\<dots> \<le> n" by simp
      finally show ?thesis .
    qed
    moreover have "n < 2 * 2 ^ bit_length (n div 2)" using up by linarith
    ultimately show ?thesis using False by (simp add: bit_length_pos)
  qed simp
qed

lemma less_bit_length: "n < 2 ^ bit_length n"
  using bit_length_bounds by blast

lemma bit_length_le: "0 < n \<Longrightarrow> 2 ^ (bit_length n - 1) \<le> n"
  using bit_length_bounds by blast

section \<open>Results of entry points\<close>

datatype 'e failure = Panic | Fail 'e

type_synonym ('e, 'a) res = "'e failure + 'a"

definition and_then :: "('e, 'a) res \<Rightarrow> ('a \<Rightarrow> ('e, 'b) res) \<Rightarrow> ('e, 'b) res" where
  "and_then m f = (case m of Inl e \<Rightarrow> Inl e | Inr x \<Rightarrow> f x)"

definition map_res :: "('a \<Rightarrow> 'b) \<Rightarrow> ('e, 'a) res \<Rightarrow> ('e, 'b) res" where
  "map_res f m = (case m of Inl e \<Rightarrow> Inl e | Inr x \<Rightarrow> Inr (f x))"

definition map_err :: "('e \<Rightarrow> 'g) \<Rightarrow> ('e, 'a) res \<Rightarrow> ('g, 'a) res" where
  "map_err f m = (case m of Inl Panic \<Rightarrow> Inl Panic | Inl (Fail e) \<Rightarrow> Inl (Fail (f e)) | Inr x \<Rightarrow> Inr x)"

definition or_panic :: "'a option \<Rightarrow> ('e, 'a) res" where
  "or_panic m = (case m of None \<Rightarrow> Inl Panic | Some x \<Rightarrow> Inr x)"

definition ok_or :: "'e \<Rightarrow> 'a option \<Rightarrow> ('e, 'a) res" where
  "ok_or e m = (case m of None \<Rightarrow> Inl (Fail e) | Some x \<Rightarrow> Inr x)"

definition fail_if :: "bool \<Rightarrow> 'e \<Rightarrow> ('e, unit) res" where
  "fail_if b e = (if b then Inl (Fail e) else Inr ())"

lemma and_then_simps [simp]:
  "and_then (Inr x) f = f x"
  "and_then (Inl e) f = Inl e"
  by (simp_all add: and_then_def)

lemma map_res_simps [simp]:
  "map_res f (Inr x) = Inr (f x)"
  "map_res f (Inl e) = Inl e"
  by (simp_all add: map_res_def)

lemma map_err_simps [simp]:
  "map_err f (Inr x) = Inr x"
  "map_err f (Inl Panic) = Inl Panic"
  "map_err f (Inl (Fail e)) = Inl (Fail (f e))"
  by (simp_all add: map_err_def)

lemma or_panic_simps [simp]:
  "or_panic (Some x) = Inr x"
  "or_panic None = Inl Panic"
  by (simp_all add: or_panic_def)

lemma ok_or_simps [simp]:
  "ok_or e (Some x) = Inr x"
  "ok_or e None = Inl (Fail e)"
  by (simp_all add: ok_or_def)

lemma fail_if_simps [simp]:
  "fail_if True e = Inl (Fail e)"
  "fail_if False e = Inr ()"
  by (simp_all add: fail_if_def)

lemma and_then_Inr [simp]: "and_then m f = Inr y \<longleftrightarrow> (\<exists>x. m = Inr x \<and> f x = Inr y)"
  by (cases m) auto

lemma map_res_Inr [simp]: "map_res f m = Inr y \<longleftrightarrow> (\<exists>x. m = Inr x \<and> y = f x)"
  by (cases m) auto

lemma map_err_Inr [simp]: "map_err f m = Inr y \<longleftrightarrow> m = Inr y"
  by (auto simp: map_err_def split: sum.splits failure.splits)

lemma or_panic_Inr [simp]: "or_panic m = Inr y \<longleftrightarrow> m = Some y"
  by (cases m) auto

lemma ok_or_Inr [simp]: "ok_or e m = Inr y \<longleftrightarrow> m = Some y"
  by (cases m) auto

lemma fail_if_Inr [simp]: "fail_if b e = Inr u \<longleftrightarrow> \<not> b"
  by (simp add: fail_if_def)

lemma bind_Some [simp]: "(m \<bind> f = Some y) \<longleftrightarrow> (\<exists>x. m = Some x \<and> f x = Some y)"
  by (cases m) auto

lemma bind_SomeI: "m = Some x \<Longrightarrow> f x = r \<Longrightarrow> m \<bind> f = r"
  by simp

lemma bind_map_option [simp]: "map_option f m \<bind> g = m \<bind> (\<lambda>x. g (f x))"
  by (cases m) auto

lemma bind_Some_id [simp]: "m \<bind> Some = m"
  by (cases m) auto

text \<open>
  The simplification rules that turn the equation of a computation with its result around;
  an evaluation on a concrete input goes forward and does without them.
\<close>

lemmas inversion_simps =
  and_then_Inr map_res_Inr map_err_Inr or_panic_Inr ok_or_Inr fail_if_Inr bind_Some

section \<open>Truncating division\<close>

lemma div_mono_mult: "(a::nat) \<le> b \<Longrightarrow> x * a div t \<le> x * b div t"
  by (simp add: div_le_mono)

lemma mult_div_le_self: "p \<le> t \<Longrightarrow> x * p div t \<le> (x::nat)"
  by (metis div_le_mono div_mult_self_is_m le0 le_eq_less_or_eq le_trans mult_le_mono2 mult_0_right div_0)

lemma mult_div_bounds:
  assumes "0 < (t::nat)"
  shows "x * p div t * t \<le> x * p" and "x * p < (x * p div t + 1) * t"
  using assms by (simp_all add: div_times_less_eq_dividend dividend_less_div_times)

text \<open>The sum of two truncated parts misses the truncated whole by at most one.\<close>

lemma div_add_bounds:
  fixes a b c :: nat
  shows "a div c + b div c \<le> (a + b) div c" and "(a + b) div c \<le> a div c + b div c + 1"
proof -
  show "a div c + b div c \<le> (a + b) div c"
    by (simp add: div_add1_eq [of a b c])
next
  have "(a mod c + b mod c) div c \<le> 1"
  proof (cases "c = 0")
    case False
    then have "a mod c + b mod c < 2 * c"
      by (simp add: add_strict_mono mult_2)
    with False have "(a mod c + b mod c) div c < 2"
      by (simp add: div_less_iff_less_mult)
    then show ?thesis by simp
  qed simp
  then show "(a + b) div c \<le> a div c + b div c + 1"
    by (simp add: div_add1_eq [of a b c])
qed

text \<open>Evaluates the greatest common divisor of numerals.\<close>

lemma gcd_numeral_rec: "gcd (a::nat) (numeral b) = gcd (numeral b) (a mod numeral b)"
  by (metis gcd.commute gcd_red_nat)

section \<open>Transition systems\<close>

inductive reachable :: "('s \<Rightarrow> bool) \<Rightarrow> ('s \<Rightarrow> 's \<Rightarrow> bool) \<Rightarrow> 's \<Rightarrow> bool" for init step where
  initial: "init s \<Longrightarrow> reachable init step s"
| next_state: "reachable init step s \<Longrightarrow> step s s' \<Longrightarrow> reachable init step s'"

text \<open>The contract between a system and a predicate that all its operations keep.\<close>

locale invariant_system =
  fixes init :: "'s \<Rightarrow> bool"
    and step :: "'s \<Rightarrow> 's \<Rightarrow> bool"
    and inv :: "'s \<Rightarrow> bool"
  assumes init_inv: "init s \<Longrightarrow> inv s"
    and step_inv: "inv s \<Longrightarrow> step s s' \<Longrightarrow> inv s'"
begin

lemma reachable_inv: "reachable init step s \<Longrightarrow> inv s"
  by (induction rule: reachable.induct) (auto intro: init_inv step_inv)

lemma steps_inv: "step\<^sup>*\<^sup>* s s' \<Longrightarrow> inv s \<Longrightarrow> inv s'"
  by (induction rule: rtranclp_induct) (auto intro: step_inv)

end

text \<open>A system whose invariant implies that a preorder holds along its steps.\<close>

locale monotone_system = invariant_system init step inv
  for init :: "'s \<Rightarrow> bool" and step :: "'s \<Rightarrow> 's \<Rightarrow> bool" and inv :: "'s \<Rightarrow> bool" +
  fixes le :: "'s \<Rightarrow> 's \<Rightarrow> bool"
  assumes le_refl: "inv s \<Longrightarrow> le s s"
    and le_trans: "inv s \<Longrightarrow> inv t \<Longrightarrow> inv u \<Longrightarrow> le s t \<Longrightarrow> le t u \<Longrightarrow> le s u"
    and step_le: "inv s \<Longrightarrow> step s s' \<Longrightarrow> le s s'"
begin

lemma steps_le:
  assumes "step\<^sup>*\<^sup>* s s'" "inv s"
  shows "le s s'"
  using assms
proof (induction rule: rtranclp_induct)
  case base
  then show ?case by (rule le_refl)
next
  case (step t u)
  then have "inv t" "inv u" using steps_inv step_inv by blast+
  with step show ?case using le_trans step_le by blast
qed

end

lemmas checked_op_defs [op_defs] =
  fits_def checked_add_def checked_sub_def checked_mul_def checked_div_def ord_clamp_def

end
