(* ===== verification/Fractions.thy ===== *)
theory Fractions
  imports Prelude
begin

text \<open>
  Ratios and the lossy multiplication by a ratio
  (\<open>finance/src/ratio.rs\<close>, \<open>finance/src/fraction.rs\<close>, \<open>finance/src/fractionable/mod.rs\<close>).
  A \<open>ratio\<close> is what the trait \<open>Ratio<U>\<close> exposes, its two parts already converted to
  an unsigned integer. The product is computed at twice the width, where it cannot
  overflow; only the conversion of the quotient back to the operand's width aborts.
\<close>

record ratio =
  parts :: nat
  whole :: nat

definition mk_ratio :: "nat \<Rightarrow> nat \<Rightarrow> ratio" where
  "mk_ratio p t = \<lparr>parts = p, whole = t\<rparr>"

lemma mk_ratio_simps [simp]: "parts (mk_ratio p t) = p" "whole (mk_ratio p t) = t"
  by (simp_all add: mk_ratio_def)

definition safe_mul :: "nat \<Rightarrow> nat \<Rightarrow> ratio \<Rightarrow> nat option" where
  "safe_mul bits x r =
     (if parts r = whole r then Some x
      else do {
        res_double \<leftarrow> checked_div (x * parts r) (whole r);
        fits bits res_double
      })"

lemma safe_mul_Some_iff:
  "0 < whole r \<Longrightarrow>
   safe_mul bits x r = Some y \<longleftrightarrow>
     y = x * parts r div whole r \<and> (parts r = whole r \<or> y < 2 ^ bits)"
  by (auto simp: safe_mul_def)

lemma safe_mul_Some:
  "0 < whole r \<Longrightarrow> safe_mul bits x r = Some y \<Longrightarrow> y = x * parts r div whole r"
  by (simp add: safe_mul_Some_iff)

lemma safe_mul_eq:
  "0 < whole r \<Longrightarrow> x * parts r div whole r < 2 ^ bits \<Longrightarrow>
   safe_mul bits x r = Some (x * parts r div whole r)"
  by (simp add: safe_mul_Some_iff)

text \<open>A proper fraction never aborts and never exceeds its operand.\<close>

lemma safe_mul_proper [no_abort]:
  assumes "0 < whole r" "parts r \<le> whole r" "x < 2 ^ bits"
  shows "safe_mul bits x r = Some (x * parts r div whole r)"
proof -
  have "x * parts r div whole r \<le> x" using assms(2) by (rule mult_div_le_self)
  with assms show ?thesis by (simp add: safe_mul_eq)
qed

lemma safe_mul_fits:
  "safe_mul bits x r = Some y \<Longrightarrow> x < 2 ^ bits \<Longrightarrow> y < 2 ^ bits"
  by (auto simp: safe_mul_def split: if_splits)

lemma safe_mul_mono:
  assumes "0 < whole r" "safe_mul bits x r = Some y" "safe_mul bits x' r = Some y'" "x \<le> x'"
  shows "y \<le> y'"
  using assms by (simp add: safe_mul_Some_iff div_le_mono mult_le_mono1)

text \<open>If the larger operand does not abort, neither does a smaller one.\<close>

lemma safe_mul_mono_defined:
  assumes "0 < whole r" "safe_mul bits x' r = Some y'" "x \<le> x'"
  shows "\<exists>y. safe_mul bits x r = Some y \<and> y \<le> y'"
proof -
  have "x * parts r div whole r \<le> x' * parts r div whole r"
    using assms(3) by (simp add: div_le_mono)
  with assms show ?thesis by (auto simp: safe_mul_Some_iff)
qed

lemma safe_mul_identity [simp]: "parts r = whole r \<Longrightarrow> safe_mul bits x r = Some x"
  by (simp add: safe_mul_def)

lemma safe_mul_zero: "0 < whole r \<Longrightarrow> safe_mul bits 0 r = Some 0"
  by (simp add: safe_mul_Some_iff)

end
