(* ===== verification/Percent.thy ===== *)
theory Percent
  imports Fractions
begin

text \<open>
  Percents, kept in permille (\<open>finance/src/percent/mod.rs\<close>), percents with an upper
  bound (\<open>finance/src/percent/bound.rs\<close>), and the errors of the finance package
  (\<open>finance/src/error.rs\<close>). The text of \<open>std::any::type_name\<close> that
  \<open>BrokenInvariant\<close> carries beside its message is left out.
\<close>

section \<open>Errors\<close>

datatype overflow_operation = OpAdd | OpSub | OpMul

datatype finance_error =
    BrokenInvariant string
  | OverflowError overflow_operation
  | CurrencyError
  | UpperBoundCrossed nat nat
  | CosmWasmError

definition broken_invariant_if :: "bool \<Rightarrow> string \<Rightarrow> (finance_error, unit) res" where
  "broken_invariant_if check msg = (if check then Inl (Fail (BrokenInvariant msg)) else Inr ())"

lemma broken_invariant_if_Inr [simp]: "broken_invariant_if c msg = Inr u \<longleftrightarrow> \<not> c"
  by (simp add: broken_invariant_if_def)

section \<open>Percents\<close>

datatype percent = Percent (units: nat)

instantiation percent :: linorder
begin

definition less_eq_percent :: "percent \<Rightarrow> percent \<Rightarrow> bool" where
  "less_eq_percent p q \<longleftrightarrow> units p \<le> units q"

definition less_percent :: "percent \<Rightarrow> percent \<Rightarrow> bool" where
  "less_percent p q \<longleftrightarrow> units p < units q"

instance
  by standard (auto simp: less_eq_percent_def less_percent_def percent.expand)

end

lemmas percent_order = less_eq_percent_def less_percent_def

lemma units_min [simp]: "units (min p q) = min (units p) (units q)"
  by (simp add: min_def percent_order)

lemma units_max [simp]: "units (max p q) = max (units p) (units q)"
  by (simp add: max_def percent_order)

lemma percent_eq_iff: "p = q \<longleftrightarrow> units p = units q"
  by (auto intro: percent.expand)

definition percent_ok :: "percent \<Rightarrow> bool" where
  "percent_ok p \<longleftrightarrow> units p < 2 ^ 32"

definition percent_zero :: percent where
  "percent_zero = Percent 0"

definition percent_hundred :: percent where
  "percent_hundred = Percent 1000"

lemma units_consts [simp]: "units percent_zero = 0" "units percent_hundred = 1000"
  by (simp_all add: percent_zero_def percent_hundred_def)

definition from_percent :: "nat \<Rightarrow> percent" where
  "from_percent n = Percent (n * 10)"

definition from_permille :: "nat \<Rightarrow> percent" where
  "from_permille n = Percent n"

lemma units_from [simp]: "units (from_percent n) = n * 10" "units (from_permille n) = n"
  by (simp_all add: from_percent_def from_permille_def)

definition percent_is_zero :: "percent \<Rightarrow> bool" where
  "percent_is_zero p \<longleftrightarrow> p = percent_zero"

lemma percent_is_zero_iff [simp]: "percent_is_zero p \<longleftrightarrow> units p = 0"
  by (simp add: percent_is_zero_def percent_eq_iff)

definition percent_checked_add :: "percent \<Rightarrow> percent \<Rightarrow> (finance_error, percent) res" where
  "percent_checked_add p q =
     ok_or (OverflowError OpAdd) (map_option from_permille (checked_add 32 (units p) (units q)))"

definition percent_checked_sub :: "percent \<Rightarrow> percent \<Rightarrow> (finance_error, percent) res" where
  "percent_checked_sub p q =
     ok_or (OverflowError OpSub) (map_option from_permille (checked_sub (units p) (units q)))"

definition percent_add :: "percent \<Rightarrow> percent \<Rightarrow> percent option" where
  "percent_add p q = map_option Percent (checked_add 32 (units p) (units q))"

definition percent_sub :: "percent \<Rightarrow> percent \<Rightarrow> percent option" where
  "percent_sub p q = map_option Percent (checked_sub (units p) (units q))"

lemma percent_add_Some:
  "percent_add p q = Some r \<longleftrightarrow> r = Percent (units p + units q) \<and> units p + units q < 2 ^ 32"
  by (auto simp: percent_add_def)

lemma percent_sub_Some:
  "percent_sub p q = Some r \<longleftrightarrow> units q \<le> units p \<and> r = Percent (units p - units q)"
  by (auto simp: percent_sub_def)

text \<open>A percent as a ratio, \<open>impl Ratio<Units> for Percent\<close>.\<close>

definition percent_ratio :: "percent \<Rightarrow> ratio" where
  "percent_ratio p = mk_ratio (units p) (units percent_hundred)"

lemma percent_ratio_simps [simp]:
  "parts (percent_ratio p) = units p" "whole (percent_ratio p) = 1000"
  by (simp_all add: percent_ratio_def)

text \<open>
  Percents are fractionable by ratios of permilles, at 32 bits, and by ratios of coins, at
  128 bits and then narrowed. \<open>percent_of\<close> is \<open>Percent::of\<close> on a percent.
\<close>

definition percent_safe_mul :: "percent \<Rightarrow> ratio \<Rightarrow> percent option" where
  "percent_safe_mul p r = map_option from_permille (safe_mul 32 (units p) r)"

definition percent_safe_mul_coin :: "percent \<Rightarrow> ratio \<Rightarrow> percent option" where
  "percent_safe_mul_coin p r =
     do {
       res \<leftarrow> safe_mul 128 (units p) r;
       permille \<leftarrow> fits 32 res;
       Some (from_permille permille)
     }"

text \<open>\<open>Percent::from_ratio\<close>, on permilles and on coins.\<close>

definition percent_from_ratio :: "nat \<Rightarrow> nat \<Rightarrow> percent option" where
  "percent_from_ratio n d = percent_safe_mul percent_hundred (mk_ratio n d)"

definition percent_from_coins :: "nat \<Rightarrow> nat \<Rightarrow> percent option" where
  "percent_from_coins n d = percent_safe_mul_coin percent_hundred (mk_ratio n d)"

lemma percent_from_ratio_Some:
  "0 < d \<Longrightarrow> percent_from_ratio n d = Some p \<longleftrightarrow>
     p = Percent (1000 * n div d) \<and> 1000 * n div d < 2 ^ 32"
  by (auto simp: percent_from_ratio_def percent_safe_mul_def safe_mul_Some_iff from_permille_def)

lemma percent_from_coins_Some:
  "0 < d \<Longrightarrow> percent_from_coins n d = Some p \<longleftrightarrow>
     p = Percent (1000 * n div d) \<and> 1000 * n div d < 2 ^ 32"
  by (auto simp: percent_from_coins_def percent_safe_mul_coin_def safe_mul_Some_iff
      from_permille_def)

lemma percent_from_coins_None:
  assumes "0 < d"
  shows "percent_from_coins n d = None \<longleftrightarrow> 2 ^ 32 \<le> 1000 * n div d"
proof (cases "percent_from_coins n d")
  case None
  then have "\<not> 1000 * n div d < 2 ^ 32"
    using percent_from_coins_Some [OF assms, of n "Percent (1000 * n div d)"] by auto
  with None show ?thesis by simp
next
  case (Some p)
  then show ?thesis using percent_from_coins_Some [OF assms, of n p] by simp
qed

section \<open>Display\<close>

text \<open>
  The text of a percent: the whole part and, only when it is not zero, the tenth. The
  decimal digits of an unsigned integer are the standard library's.
\<close>

fun digits :: "nat \<Rightarrow> string" where
  "digits n =
     (if n < 10 then [char_of (48 + n)]
      else digits (n div 10) @ [char_of (48 + n mod 10)])"

declare digits.simps [simp del]

definition percent_display :: "percent \<Rightarrow> string" where
  "percent_display p =
     (let no_fraction = units p div 10; fractional = units p - no_fraction * 10
      in digits no_fraction @ (if fractional \<noteq> 0 then ''.'' @ digits fractional else []) @ ''%'')"

section \<open>Bound percents\<close>

text \<open>\<open>BoundPercent<UPPER_BOUND>::try_from_percent\<close>, also the check on deserialization.\<close>

definition bound_try_from_percent :: "nat \<Rightarrow> percent \<Rightarrow> (finance_error, percent) res" where
  "bound_try_from_percent upper_bound p =
     (if units p \<le> upper_bound then Inr p
      else Inl (Fail (UpperBoundCrossed upper_bound (units p))))"

lemma bound_try_from_percent_Inr:
  "bound_try_from_percent ub p = Inr q \<longleftrightarrow> q = p \<and> units p \<le> ub"
  by (auto simp: bound_try_from_percent_def)

lemmas percent_op_defs [op_defs] =
  percent_checked_add_def percent_checked_sub_def percent_add_def percent_sub_def percent_safe_mul_def
  percent_safe_mul_coin_def percent_from_ratio_def percent_from_coins_def safe_mul_def from_permille_def
  from_percent_def bound_try_from_percent_def

end
