(* ===== verification/Coins.thy ===== *)
theory Coins
  imports Percent
begin

text \<open>
  Coins (\<open>finance/src/coin/mod.rs\<close>, \<open>finance/src/fractionable/coin.rs\<close>). \<open>Coin<C>\<close>
  carries its currency as a phantom type parameter, and so does \<open>'c coin\<close>: no operation
  below mixes currencies. The amount is a \<open>u128\<close>; \<open>coin_ok\<close> states that bound.
\<close>

datatype 'c coin = Coin (amount: nat)

instantiation coin :: (type) linorder
begin

definition less_eq_coin :: "'a coin \<Rightarrow> 'a coin \<Rightarrow> bool" where
  "less_eq_coin a b \<longleftrightarrow> amount a \<le> amount b"

definition less_coin :: "'a coin \<Rightarrow> 'a coin \<Rightarrow> bool" where
  "less_coin a b \<longleftrightarrow> amount a < amount b"

instance
  by standard (auto simp: less_eq_coin_def less_coin_def coin.expand)

end

lemmas coin_order = less_eq_coin_def less_coin_def

lemma amount_min [simp]: "amount (min a b) = min (amount a) (amount b)"
  by (simp add: min_def coin_order)

lemma amount_max [simp]: "amount (max a b) = max (amount a) (amount b)"
  by (simp add: max_def coin_order)

lemma coin_eq_iff: "a = b \<longleftrightarrow> amount a = amount b"
  by (auto intro: coin.expand)

definition coin_ok :: "'c coin \<Rightarrow> bool" where
  "coin_ok c \<longleftrightarrow> amount c < 2 ^ 128"

definition coin_zero :: "'c coin" where
  "coin_zero = Coin 0"

lemma amount_coin_zero [simp]: "amount coin_zero = 0"
  by (simp add: coin_zero_def)

lemma coin_eq_zero_iff [simp]: "c = coin_zero \<longleftrightarrow> amount c = 0"
  by (simp add: coin_eq_iff)

definition coin_is_zero :: "'c coin \<Rightarrow> bool" where
  "coin_is_zero c \<longleftrightarrow> amount c = 0"

section \<open>Arithmetic\<close>

definition coin_checked_add :: "'c coin \<Rightarrow> 'c coin \<Rightarrow> 'c coin option" where
  "coin_checked_add a b = map_option Coin (checked_add 128 (amount a) (amount b))"

definition coin_saturating_sub :: "'c coin \<Rightarrow> 'c coin \<Rightarrow> 'c coin" where
  "coin_saturating_sub a b = (if amount a < amount b then Coin 0 else Coin (amount a - amount b))"

definition coin_checked_sub :: "'c coin \<Rightarrow> 'c coin \<Rightarrow> 'c coin option" where
  "coin_checked_sub a b = map_option Coin (checked_sub (amount a) (amount b))"

definition coin_checked_mul :: "'c coin \<Rightarrow> nat \<Rightarrow> 'c coin option" where
  "coin_checked_mul a n = map_option Coin (checked_mul 128 (amount a) n)"

definition coin_checked_div :: "'c coin \<Rightarrow> nat \<Rightarrow> 'c coin option" where
  "coin_checked_div a n = map_option Coin (checked_div (amount a) n)"

text \<open>
  The operators \<open>+\<close>, \<open>-\<close>, \<open>+=\<close>, \<open>-=\<close> abort on overflow: \<open>+\<close> through \<open>expect\<close>, the
  others through the overflow checks of the integer operators.
\<close>

definition coin_add :: "'c coin \<Rightarrow> 'c coin \<Rightarrow> 'c coin option" where
  "coin_add a b = coin_checked_add a b"

definition coin_add_assign :: "'c coin \<Rightarrow> 'c coin \<Rightarrow> 'c coin option" where
  "coin_add_assign a b = map_option Coin (checked_add 128 (amount a) (amount b))"

definition coin_sub_assign :: "'c coin \<Rightarrow> 'c coin \<Rightarrow> 'c coin option" where
  "coin_sub_assign a b = map_option Coin (checked_sub (amount a) (amount b))"

definition coin_sub :: "'c coin \<Rightarrow> 'c coin \<Rightarrow> 'c coin option" where
  "coin_sub a b = coin_sub_assign a b"

fun coin_fold_add :: "'c coin \<Rightarrow> 'c coin list \<Rightarrow> 'c coin option" where
  "coin_fold_add acc [] = Some acc"
| "coin_fold_add acc (c # cs) = do { acc' \<leftarrow> coin_add acc c; coin_fold_add acc' cs }"

text \<open>\<open>Sum\<close> of an iterator of coins.\<close>

definition coin_sum :: "'c coin list \<Rightarrow> 'c coin option" where
  "coin_sum cs = coin_fold_add coin_zero cs"

text \<open>
  Both amounts divided by their greatest common divisor. With two zero amounts the
  divisor is zero and the division aborts.
\<close>

definition into_coprime_with :: "'a coin \<Rightarrow> 'b coin \<Rightarrow> ('a coin \<times> 'b coin) option" where
  "into_coprime_with a b =
     (let g = gcd (amount a) (amount b)
      in do {
        a' \<leftarrow> checked_div (amount a) g;
        b' \<leftarrow> checked_div (amount b) g;
        Some (Coin a', Coin b')
      })"

text \<open>Coins are fractionable by any ratio whose unit fits an \<open>u128\<close>.\<close>

definition coin_safe_mul :: "'c coin \<Rightarrow> ratio \<Rightarrow> 'c coin option" where
  "coin_safe_mul c r = map_option Coin (safe_mul 128 (amount c) r)"

text \<open>\<open>Percent::of\<close> on a coin, and a ratio of two coins as a fraction.\<close>

definition percent_of_coin :: "percent \<Rightarrow> 'c coin \<Rightarrow> 'c coin option" where
  "percent_of_coin p c = coin_safe_mul c (percent_ratio p)"

definition coin_ratio :: "'a coin \<Rightarrow> 'a coin \<Rightarrow> ratio" where
  "coin_ratio n d = mk_ratio (amount n) (amount d)"

lemma coin_ratio_simps [simp]:
  "parts (coin_ratio n d) = amount n" "whole (coin_ratio n d) = amount d"
  by (simp_all add: coin_ratio_def)

section \<open>Facts\<close>

lemma coin_add_Some [simp]:
  "coin_add a b = Some c \<longleftrightarrow>
     c = Coin (amount a + amount b) \<and> amount a + amount b < 2 ^ 128"
  by (auto simp: coin_add_def coin_checked_add_def)

lemma coin_add_fits [no_abort]:
  "amount a + amount b < 2 ^ 128 \<Longrightarrow> coin_add a b = Some (Coin (amount a + amount b))"
  by (simp add: coin_add_def coin_checked_add_def)

lemma coin_add_overflows [no_abort]:
  "2 ^ 128 \<le> amount a + amount b \<Longrightarrow> coin_add a b = None"
  by (simp add: coin_add_def coin_checked_add_def checked_add_def)

lemma coin_checked_add_Some [simp]:
  "coin_checked_add a b = Some c \<longleftrightarrow>
     c = Coin (amount a + amount b) \<and> amount a + amount b < 2 ^ 128"
  by (auto simp: coin_checked_add_def)

lemma coin_add_assign_Some [simp]:
  "coin_add_assign a b = Some c \<longleftrightarrow>
     c = Coin (amount a + amount b) \<and> amount a + amount b < 2 ^ 128"
  by (auto simp: coin_add_assign_def)

lemma coin_sub_assign_Some [simp]:
  "coin_sub_assign a b = Some c \<longleftrightarrow> amount b \<le> amount a \<and> c = Coin (amount a - amount b)"
  by (auto simp: coin_sub_assign_def)

lemma coin_sub_Some [simp]:
  "coin_sub a b = Some c \<longleftrightarrow> amount b \<le> amount a \<and> c = Coin (amount a - amount b)"
  by (simp add: coin_sub_def)

lemma coin_checked_sub_Some [simp]:
  "coin_checked_sub a b = Some c \<longleftrightarrow> amount b \<le> amount a \<and> c = Coin (amount a - amount b)"
  by (auto simp: coin_checked_sub_def)

lemma coin_checked_mul_Some [simp]:
  "coin_checked_mul a n = Some c \<longleftrightarrow> c = Coin (amount a * n) \<and> amount a * n < 2 ^ 128"
  by (auto simp: coin_checked_mul_def)

lemma coin_checked_div_Some [simp]:
  "coin_checked_div a n = Some c \<longleftrightarrow> n \<noteq> 0 \<and> c = Coin (amount a div n)"
  by (auto simp: coin_checked_div_def)

lemma amount_saturating_sub [simp]: "amount (coin_saturating_sub a b) = amount a - amount b"
  by (simp add: coin_saturating_sub_def)

lemma coin_saturating_sub_eq [simp]: "coin_saturating_sub a b = Coin (amount a - amount b)"
  by (simp add: coin_eq_iff)

lemma coin_is_zero_iff [simp]: "coin_is_zero c \<longleftrightarrow> amount c = 0"
  by (simp add: coin_is_zero_def)

lemma coin_fold_add_Some:
  "coin_fold_add acc cs = Some s \<Longrightarrow>
     amount s = amount acc + sum_list (map amount cs) \<and> (coin_ok acc \<longrightarrow> coin_ok s)"
  by (induction cs arbitrary: acc) (fastforce simp: coin_ok_def)+

lemma into_coprime_with_Some:
  assumes "0 < amount a" "0 < amount b"
  shows "into_coprime_with a b =
    Some (Coin (amount a div gcd (amount a) (amount b)),
          Coin (amount b div gcd (amount a) (amount b)))"
  using assms by (simp add: into_coprime_with_def Let_def checked_div_def)

text \<open>What the pair of coprime amounts \<open>(x, y)\<close> of \<open>(a, b)\<close> satisfies.\<close>

lemma coprime_parts:
  fixes a b :: nat
  assumes "0 < a" "0 < b"
  defines "g \<equiv> gcd a b"
  shows "coprime (a div g) (b div g)" "0 < a div g" "0 < b div g" "0 < g"
    "a div g * g = a" "b div g * g = b" "a div g \<le> a" "b div g \<le> b"
proof -
  show g: "0 < g" using assms by (simp add: g_def)
  show "coprime (a div g) (b div g)"
    using assms by (simp add: g_def div_gcd_coprime)
  show a: "a div g * g = a" and b: "b div g * g = b"
    by (simp_all add: g_def)
  show "0 < a div g" "0 < b div g"
    using a b assms(1,2) by (metis mult_zero_left neq0_conv)+
  show "a div g \<le> a" "b div g \<le> b" by (simp_all add: div_le_dividend)
qed

lemma coin_safe_mul_Some_iff:
  "0 < whole r \<Longrightarrow>
   coin_safe_mul c r = Some d \<longleftrightarrow>
     d = Coin (amount c * parts r div whole r) \<and>
     (parts r = whole r \<or> amount c * parts r div whole r < 2 ^ 128)"
  by (auto simp: coin_safe_mul_def safe_mul_Some_iff)

lemma coin_safe_mul_ok: "coin_safe_mul c r = Some d \<Longrightarrow> coin_ok c \<Longrightarrow> coin_ok d"
  by (auto simp: coin_safe_mul_def coin_ok_def dest: safe_mul_fits)

lemma coin_safe_mul_proper [no_abort]:
  "0 < whole r \<Longrightarrow> parts r \<le> whole r \<Longrightarrow> coin_ok c \<Longrightarrow>
   coin_safe_mul c r = Some (Coin (amount c * parts r div whole r))"
  by (simp add: coin_safe_mul_def safe_mul_proper coin_ok_def)

lemma coin_safe_mul_mono:
  "0 < whole r \<Longrightarrow> coin_safe_mul c r = Some d \<Longrightarrow> coin_safe_mul c' r = Some d' \<Longrightarrow>
   c \<le> c' \<Longrightarrow> d \<le> d'"
  by (auto simp: coin_safe_mul_def coin_order dest: safe_mul_mono)

lemma percent_of_coin_Some:
  "percent_of_coin p c = Some d \<longleftrightarrow>
     d = Coin (amount c * units p div 1000) \<and>
     (units p = 1000 \<or> amount c * units p div 1000 < 2 ^ 128)"
  by (simp add: percent_of_coin_def coin_safe_mul_Some_iff)

text \<open>A percent up to a hundred of an amount never aborts.\<close>

lemma percent_of_coin_proper [no_abort]:
  "units p \<le> 1000 \<Longrightarrow> coin_ok c \<Longrightarrow>
   percent_of_coin p c = Some (Coin (amount c * units p div 1000))"
  by (simp add: percent_of_coin_def coin_safe_mul_proper)

lemmas coin_op_defs [op_defs] =
  coin_checked_add_def coin_checked_sub_def coin_checked_mul_def coin_checked_div_def coin_add_def
  coin_add_assign_def coin_sub_def coin_sub_assign_def into_coprime_with_def coin_safe_mul_def
  percent_of_coin_def

end
