(* ===== verification/Durations.thy ===== *)
theory Durations
  imports Coins
begin

text \<open>
  Durations (\<open>finance/src/duration.rs\<close>, \<open>finance/src/fractionable/duration.rs\<close>) and
  periods (\<open>finance/src/period.rs\<close>). Both a duration and a \<open>Timestamp\<close> of CosmWasm are
  64-bit numbers of nanoseconds; adding to and subtracting from a \<open>Timestamp\<close> aborts on
  overflow, as its documentation says.
\<close>

section \<open>Durations and timestamps\<close>

datatype duration = Duration (nanos: nat)

datatype timestamp = Timestamp (at_nanos: nat)

instantiation duration :: linorder
begin

definition less_eq_duration :: "duration \<Rightarrow> duration \<Rightarrow> bool" where
  "less_eq_duration a b \<longleftrightarrow> nanos a \<le> nanos b"

definition less_duration :: "duration \<Rightarrow> duration \<Rightarrow> bool" where
  "less_duration a b \<longleftrightarrow> nanos a < nanos b"

instance
  by standard (auto simp: less_eq_duration_def less_duration_def duration.expand)

end

instantiation timestamp :: linorder
begin

definition less_eq_timestamp :: "timestamp \<Rightarrow> timestamp \<Rightarrow> bool" where
  "less_eq_timestamp a b \<longleftrightarrow> at_nanos a \<le> at_nanos b"

definition less_timestamp :: "timestamp \<Rightarrow> timestamp \<Rightarrow> bool" where
  "less_timestamp a b \<longleftrightarrow> at_nanos a < at_nanos b"

instance
  by standard (auto simp: less_eq_timestamp_def less_timestamp_def timestamp.expand)

end

lemmas time_order =
  less_eq_duration_def less_duration_def less_eq_timestamp_def less_timestamp_def

lemma nanos_min [simp]: "nanos (min a b) = min (nanos a) (nanos b)"
  by (simp add: min_def time_order)

lemma nanos_max [simp]: "nanos (max a b) = max (nanos a) (nanos b)"
  by (simp add: max_def time_order)

lemma at_nanos_min [simp]: "at_nanos (min a b) = min (at_nanos a) (at_nanos b)"
  by (simp add: min_def time_order)

lemma at_nanos_max [simp]: "at_nanos (max a b) = max (at_nanos a) (at_nanos b)"
  by (simp add: max_def time_order)

lemma duration_eq_iff: "a = b \<longleftrightarrow> nanos a = nanos b"
  by (auto intro: duration.expand)

lemma timestamp_eq_iff: "a = b \<longleftrightarrow> at_nanos a = at_nanos b"
  by (auto intro: timestamp.expand)

definition duration_ok :: "duration \<Rightarrow> bool" where
  "duration_ok d \<longleftrightarrow> nanos d < 2 ^ 64"

definition timestamp_ok :: "timestamp \<Rightarrow> bool" where
  "timestamp_ok t \<longleftrightarrow> at_nanos t < 2 ^ 64"

definition units_in_second :: nat where
  "units_in_second = 1000 * 1000 * 1000"

definition seconds_in_minute :: nat where
  "seconds_in_minute = 60"

definition seconds_in_hour :: nat where
  "seconds_in_hour = seconds_in_minute * 60"

definition seconds_in_day :: nat where
  "seconds_in_day = seconds_in_hour * 24"

definition units_in_day :: nat where
  "units_in_day = units_in_second * seconds_in_day"

lemmas time_consts =
  units_in_second_def seconds_in_minute_def seconds_in_hour_def seconds_in_day_def
  units_in_day_def

text \<open>
  Seconds are \<open>u32\<close>, minutes, hours and days \<open>u16\<close>. The products below are computed at
  32 bits (minutes, hours) or 64 bits and cannot overflow there.
\<close>

definition from_nanos :: "nat \<Rightarrow> duration" where
  "from_nanos n = Duration n"

definition from_secs :: "nat \<Rightarrow> duration" where
  "from_secs secs = from_nanos (secs * units_in_second)"

definition from_minutes :: "nat \<Rightarrow> duration" where
  "from_minutes m = from_secs (m * seconds_in_minute)"

definition from_hours :: "nat \<Rightarrow> duration" where
  "from_hours h = from_secs (h * seconds_in_hour)"

definition from_days :: "nat \<Rightarrow> duration" where
  "from_days d = from_nanos (d * units_in_day)"

definition duration_zero :: duration where
  "duration_zero = Duration 0"

definition duration_hour :: duration where
  "duration_hour = from_hours 1"

definition duration_year :: duration where
  "duration_year = from_days 365"

definition duration_max :: duration where
  "duration_max = from_nanos (2 ^ 64 - 1)"

definition timestamp_default :: timestamp where
  "timestamp_default = Timestamp 0"

lemma duration_consts [simp]:
  "nanos duration_zero = 0"
  "nanos duration_hour = 3600000000000"
  "nanos duration_year = 31536000000000000"
  "nanos duration_max = 18446744073709551615"
  "at_nanos timestamp_default = 0"
  by (simp_all add: duration_zero_def duration_hour_def duration_year_def duration_max_def
      timestamp_default_def from_hours_def from_days_def from_secs_def from_nanos_def time_consts)

definition duration_between :: "timestamp \<Rightarrow> timestamp \<Rightarrow> duration option" where
  "duration_between from till = map_option Duration (checked_sub (at_nanos till) (at_nanos from))"

definition micros :: "duration \<Rightarrow> nat" where
  "micros d = nanos d div 1000"

definition millis :: "duration \<Rightarrow> nat" where
  "millis d = micros d div 1000"

definition secs :: "duration \<Rightarrow> nat" where
  "secs d = millis d div 1000"

definition duration_checked_mul :: "duration \<Rightarrow> nat \<Rightarrow> duration option" where
  "duration_checked_mul d n = map_option from_nanos (checked_mul 64 (nanos d) n)"

text \<open>The part of an annual amount that falls to a duration.\<close>

definition annualized_slice_of :: "duration \<Rightarrow> 'c coin \<Rightarrow> 'c coin option" where
  "annualized_slice_of d annual_amount =
     coin_safe_mul annual_amount (mk_ratio (nanos d) (nanos duration_year))"

text \<open>\<open>impl Fractionable<Coin<C>> for Duration\<close>: at 128 bits, narrowed to 64.\<close>

definition duration_safe_mul_coin :: "duration \<Rightarrow> ratio \<Rightarrow> duration option" where
  "duration_safe_mul_coin d r =
     do {
       res \<leftarrow> safe_mul 128 (nanos d) r;
       n \<leftarrow> fits 64 res;
       Some (from_nanos n)
     }"

definition into_slice_per_ratio :: "duration \<Rightarrow> 'c coin \<Rightarrow> 'c coin \<Rightarrow> duration option" where
  "into_slice_per_ratio d amount_part annual_amount =
     duration_safe_mul_coin d (coin_ratio amount_part annual_amount)"

definition timestamp_add :: "timestamp \<Rightarrow> duration \<Rightarrow> timestamp option" where
  "timestamp_add t d = map_option Timestamp (checked_add 64 (at_nanos t) (nanos d))"

definition timestamp_sub :: "timestamp \<Rightarrow> duration \<Rightarrow> timestamp option" where
  "timestamp_sub t d = map_option Timestamp (checked_sub (at_nanos t) (nanos d))"

definition duration_add :: "duration \<Rightarrow> duration \<Rightarrow> duration option" where
  "duration_add a b = map_option Duration (checked_add 64 (nanos a) (nanos b))"

definition duration_sub :: "duration \<Rightarrow> duration \<Rightarrow> duration option" where
  "duration_sub a b = map_option Duration (checked_sub (nanos a) (nanos b))"

lemma from_nanos_nanos [simp]: "nanos (from_nanos n) = n"
  by (simp add: from_nanos_def)

lemma duration_between_Some [simp]:
  "duration_between a b = Some d \<longleftrightarrow>
     at_nanos a \<le> at_nanos b \<and> d = Duration (at_nanos b - at_nanos a)"
  by (auto simp: duration_between_def)

lemma timestamp_add_Some [simp]:
  "timestamp_add t d = Some t' \<longleftrightarrow>
     t' = Timestamp (at_nanos t + nanos d) \<and> at_nanos t + nanos d < 2 ^ 64"
  by (auto simp: timestamp_add_def)

lemma timestamp_sub_Some [simp]:
  "timestamp_sub t d = Some t' \<longleftrightarrow>
     nanos d \<le> at_nanos t \<and> t' = Timestamp (at_nanos t - nanos d)"
  by (auto simp: timestamp_sub_def)

lemma duration_sub_Some [simp]:
  "duration_sub a b = Some d \<longleftrightarrow> nanos b \<le> nanos a \<and> d = Duration (nanos a - nanos b)"
  by (auto simp: duration_sub_def)

lemma duration_add_Some [simp]:
  "duration_add a b = Some d \<longleftrightarrow>
     d = Duration (nanos a + nanos b) \<and> nanos a + nanos b < 2 ^ 64"
  by (auto simp: duration_add_def)

lemma into_slice_per_ratio_proper [no_abort]:
  assumes "0 < amount y" "amount x \<le> amount y" "duration_ok d"
  shows "into_slice_per_ratio d x y = Some (Duration (nanos d * amount x div amount y))"
proof -
  have "nanos d * amount x div amount y \<le> nanos d"
    using assms(2) by (rule mult_div_le_self)
  with assms show ?thesis
    by (auto simp: into_slice_per_ratio_def duration_safe_mul_coin_def safe_mul_Some_iff
        duration_ok_def from_nanos_def)
qed

section \<open>Periods\<close>

record period =
  period_start :: timestamp
  period_length :: duration

definition period_from_length :: "timestamp \<Rightarrow> duration \<Rightarrow> period" where
  "period_from_length from len = \<lparr>period_start = from, period_length = len\<rparr>"

definition period_from_till :: "timestamp \<Rightarrow> timestamp \<Rightarrow> period option" where
  "period_from_till from till =
     do { len \<leftarrow> duration_between from till; Some (period_from_length from len) }"

definition period_till_length :: "timestamp \<Rightarrow> duration \<Rightarrow> period option" where
  "period_till_length till max_length =
     do {
       bound \<leftarrow> timestamp_add timestamp_default max_length;
       from \<leftarrow> (if till < bound then Some timestamp_default else timestamp_sub till max_length);
       period_from_till from till
     }"

definition period_zero_length :: "period \<Rightarrow> bool" where
  "period_zero_length p \<longleftrightarrow> period_length p = duration_zero"

definition period_till :: "period \<Rightarrow> timestamp option" where
  "period_till p = timestamp_add (period_start p) (period_length p)"

definition move_within :: "period \<Rightarrow> timestamp \<Rightarrow> timestamp option" where
  "move_within p t = do { till \<leftarrow> period_till p; ord_clamp t (period_start p) till }"

definition period_intersect :: "period \<Rightarrow> period \<Rightarrow> period option" where
  "period_intersect p q =
     do {
       from \<leftarrow> move_within p (period_start q);
       q_till \<leftarrow> period_till q;
       till \<leftarrow> move_within p q_till;
       period_from_till from till
     }"

definition period_cut :: "period \<Rightarrow> period \<Rightarrow> period option" where
  "period_cut p q =
     do {
       common \<leftarrow> period_intersect p q;
       if period_start p = period_start common
       then do {
         common_till \<leftarrow> period_till common;
         p_till \<leftarrow> period_till p;
         period_from_till common_till p_till
       }
       else period_from_till (period_start p) (period_start common)
     }"

definition period_ok :: "period \<Rightarrow> bool" where
  "period_ok p \<longleftrightarrow> at_nanos (period_start p) + nanos (period_length p) < 2 ^ 64"

lemma period_from_till_Some [simp]:
  "period_from_till a b = Some p \<longleftrightarrow>
     at_nanos a \<le> at_nanos b \<and>
     p = \<lparr>period_start = a, period_length = Duration (at_nanos b - at_nanos a)\<rparr>"
  by (auto simp: period_from_till_def period_from_length_def)

lemma period_till_Some [simp]:
  "period_till p = Some t \<longleftrightarrow>
     period_ok p \<and> t = Timestamp (at_nanos (period_start p) + nanos (period_length p))"
  by (auto simp: period_till_def period_ok_def)

lemma period_till_length_Some:
  assumes "timestamp_ok till" "nanos len \<le> at_nanos till"
  shows "period_till_length till len =
    Some \<lparr>period_start = Timestamp (at_nanos till - nanos len), period_length = len\<rparr>"
  using assms
  by (cases len) (auto simp: period_till_length_def timestamp_ok_def time_order)

lemmas duration_op_defs [op_defs] =
  duration_between_def timestamp_add_def timestamp_sub_def duration_add_def duration_sub_def
  annualized_slice_of_def into_slice_per_ratio_def duration_safe_mul_coin_def from_nanos_def

end
