(* ===== verification/Interest.thy ===== *)
theory Interest
  imports Durations
begin

text \<open>
  Simple interest and its repayment (\<open>finance/src/interest.rs\<close>). The rate is any
  fraction, a percent for a loan and a ratio of coins for the pool; the principal and the
  payment are coins, the period is a duration.
\<close>

definition interest :: "ratio \<Rightarrow> 'c coin \<Rightarrow> duration \<Rightarrow> 'c coin option" where
  "interest rate princ period =
     do {
       interest_per_year \<leftarrow> coin_safe_mul princ rate;
       annualized_slice_of period interest_per_year
     }"

text \<open>How much time a payment covers, and the change.\<close>

definition pay :: "ratio \<Rightarrow> 'c coin \<Rightarrow> 'c coin \<Rightarrow> duration \<Rightarrow> (duration \<times> 'c coin) option" where
  "pay rate princ payment period =
     do {
       interest_due_per_period \<leftarrow> interest rate princ period;
       if interest_due_per_period = coin_zero
       then Some (from_nanos 0, payment)
       else do {
         let repayment = min interest_due_per_period payment;
         period_paid_for \<leftarrow> into_slice_per_ratio period repayment interest_due_per_period;
         change \<leftarrow> coin_sub payment repayment;
         Some (period_paid_for, change)
       }
     }"

definition interest_amount :: "ratio \<Rightarrow> nat \<Rightarrow> nat \<Rightarrow> nat" where
  "interest_amount rate princ period =
     princ * parts rate div whole rate * period div nanos duration_year"

text \<open>
  \<open>interest_amount\<close> is the same computation on plain numbers. \<open>interest\<close> either returns
  it or aborts.
\<close>

lemma interest_Some:
  "0 < whole rate \<Longrightarrow> interest rate c d = Some i \<Longrightarrow>
   i = Coin (interest_amount rate (amount c) (nanos d))"
  by (auto simp: interest_def annualized_slice_of_def coin_safe_mul_Some_iff interest_amount_def)

lemma interest_ok: "interest rate c d = Some i \<Longrightarrow> coin_ok c \<Longrightarrow> coin_ok i"
  by (auto simp: interest_def annualized_slice_of_def dest: coin_safe_mul_ok)

lemma interest_amount_mono_period:
  "t \<le> t' \<Longrightarrow> interest_amount rate c t \<le> interest_amount rate c t'"
  by (simp add: interest_amount_def div_le_mono)

lemma interest_amount_mono_principal:
  "c \<le> c' \<Longrightarrow> interest_amount rate c t \<le> interest_amount rate c' t"
  by (simp add: interest_amount_def div_le_mono)

lemma interest_amount_zero [simp]:
  "interest_amount rate c 0 = 0" "interest_amount rate 0 t = 0"
  by (simp_all add: interest_amount_def)

text \<open>A longer period aborts whenever a shorter one does.\<close>

lemma interest_shorter_defined [no_abort]:
  assumes "0 < whole rate" "coin_ok c" "interest rate c d = Some i" "d' \<le> d"
  shows "\<exists>i'. interest rate c d' = Some i' \<and> i' \<le> i"
proof -
  from assms(3) obtain y where y: "coin_safe_mul c rate = Some y"
    and i: "coin_safe_mul y (mk_ratio (nanos d) (nanos duration_year)) = Some i"
    by (auto simp: interest_def annualized_slice_of_def)
  from y assms(2) have "coin_ok y" by (rule coin_safe_mul_ok)
  have le: "amount y * nanos d' div nanos duration_year \<le> amount y * nanos d div nanos duration_year"
    using assms(4) by (simp add: time_order div_le_mono)
  have "coin_ok i" using i \<open>coin_ok y\<close> by (rule coin_safe_mul_ok)
  moreover have i_eq: "i = Coin (amount y * nanos d div nanos duration_year)"
    using i by (simp add: coin_safe_mul_Some_iff)
  ultimately have "amount y * nanos d' div nanos duration_year < 2 ^ 128"
    using le by (simp add: coin_ok_def)
  with y le i_eq show ?thesis
    by (auto simp: interest_def annualized_slice_of_def coin_safe_mul_Some_iff coin_order)
qed

text \<open>With a rate up to a hundred percent and a period up to a year nothing aborts.\<close>

lemma interest_proper [no_abort]:
  assumes "0 < whole rate" "parts rate \<le> whole rate" "coin_ok c" "d \<le> duration_year"
  shows "interest rate c d = Some (Coin (interest_amount rate (amount c) (nanos d)))"
proof -
  have y: "coin_safe_mul c rate = Some (Coin (amount c * parts rate div whole rate))"
    using assms(1-3) by (rule coin_safe_mul_proper)
  then have "coin_ok (Coin (amount c * parts rate div whole rate) :: 'a coin)"
    using assms(3) by (rule coin_safe_mul_ok)
  with y assms(4) show ?thesis
    by (simp add: interest_def annualized_slice_of_def coin_safe_mul_proper interest_amount_def
        time_order)
qed

section \<open>Repayment of interest\<close>

text \<open>
  The paid part and the change add up to the payment, the paid part is the lesser of the
  interest and the payment, and the time paid for is proportional to it.
\<close>

lemma pay_Some_iff:
  assumes "interest rate c d = Some i" "duration_ok d"
  shows "pay rate c payment d =
    Some (if amount i = 0 then (Duration 0, payment)
          else (Duration (nanos d * min (amount i) (amount payment) div amount i),
                Coin (amount payment - min (amount i) (amount payment))))"
  using assms
  by (auto simp: pay_def Let_def from_nanos_def into_slice_per_ratio_proper)

lemma pay_defined:
  "interest rate c d = Some i \<Longrightarrow> duration_ok d \<Longrightarrow> \<exists>paid_for change. pay rate c payment d = Some (paid_for, change)"
  by (simp add: pay_Some_iff)

lemma pay_change:
  assumes "interest rate c d = Some i" "duration_ok d" "pay rate c payment d = Some (paid_for, change)"
  shows "amount change = amount payment - amount i"
  using assms by (auto simp: pay_Some_iff split: if_splits)

lemma pay_paid_for_le:
  assumes "interest rate c d = Some i" "duration_ok d" "pay rate c payment d = Some (paid_for, change)"
  shows "paid_for \<le> d"
  using assms by (auto simp: pay_Some_iff time_order mult_div_le_self split: if_splits)

lemma paid_time_arith:
  fixes P d Y I r :: nat
  assumes I: "I = P * d div Y" and "0 < I" and "r \<le> I"
  shows "P * (d * r div I) div Y \<le> r"
proof -
  from assms have Y: "0 < Y" by (cases "Y = 0") auto
  let ?f = "d * r div I"
  have "?f * I \<le> d * r" by (rule div_times_less_eq_dividend)
  then have "P * (?f * I) \<le> P * (d * r)" by (rule mult_le_mono2)
  then have 1: "P * ?f * I \<le> P * d * r" by (simp only: mult.assoc)
  have 2: "P * d < (I + 1) * Y"
    using mult_div_bounds(2) [OF Y, of P d] I by simp
  have "P * ?f * I < (r + 1) * Y * I"
  proof (cases "r = 0")
    case True
    then show ?thesis using 1 Y \<open>0 < I\<close> by simp
  next
    case False
    then have "P * d * r < (I + 1) * Y * r" using 2 by simp
    also have "\<dots> = Y * (I * r + r)" by (simp add: algebra_simps)
    also have "\<dots> \<le> Y * (I * r + I)" using \<open>r \<le> I\<close> by simp
    also have "\<dots> = (r + 1) * Y * I" by (simp add: algebra_simps)
    finally show ?thesis by (rule le_less_trans [OF 1])
  qed
  then have "P * ?f < (r + 1) * Y" by (metis mult_less_cancel2)
  then show ?thesis using Y by (simp add: div_less_iff_less_mult flip: less_Suc_eq_le)
qed

text \<open>
  A repayment never covers more time than it pays for: the interest of the period that
  \<open>pay\<close> reports as paid is at most the part of the payment that \<open>pay\<close> has taken, and
  that part together with the change is the payment.
\<close>

theorem pay_never_overpays_time:
  assumes "0 < whole rate" and "coin_ok princ" and "duration_ok period"
    and "interest rate princ period = Some due"
    and "pay rate princ payment period = Some (paid_for, change)"
  shows "\<exists>covered. interest rate princ paid_for = Some covered
           \<and> amount covered + amount change \<le> amount payment
           \<and> amount change = amount payment - amount due
           \<and> paid_for \<le> period
           \<and> (due \<le> payment \<and> 0 < amount due \<longrightarrow> paid_for = period)"
proof -
  note due = interest_Some [OF assms(1,4)]
  have le: "paid_for \<le> period" by (rule pay_paid_for_le [OF assms(4,3,5)])
  from interest_shorter_defined [OF assms(1,2,4) le] obtain covered
    where covered: "interest rate princ paid_for = Some covered" by blast
  then have c_eq: "covered = Coin (interest_amount rate (amount princ) (nanos paid_for))"
    by (rule interest_Some [OF assms(1)])
  have "amount covered \<le> min (amount due) (amount payment)"
  proof (cases "amount due = 0")
    case True
    then have "paid_for = Duration 0" using assms(5) pay_Some_iff [OF assms(4,3), of payment] by simp
    then show ?thesis using c_eq by simp
  next
    case False
    then have "nanos paid_for = nanos period * min (amount due) (amount payment) div amount due"
      using assms(5) pay_Some_iff [OF assms(4,3), of payment] by auto
    with False show ?thesis
      using paid_time_arith [of "amount due" "amount princ * parts rate div whole rate"
          "nanos period" "nanos duration_year" "min (amount due) (amount payment)"] due c_eq
      by (simp add: interest_amount_def)
  qed
  moreover have "amount change = amount payment - amount due"
    by (rule pay_change [OF assms(4,3,5)])
  moreover have "due \<le> payment \<and> 0 < amount due \<longrightarrow> paid_for = period"
    using assms(5) pay_Some_iff [OF assms(4,3), of payment] by (auto simp: coin_order)
  ultimately show ?thesis using covered le by auto
qed

theorem pay_never_overpays_time_witness:
  "\<exists>covered. interest (percent_ratio (Percent 100)) (Coin 5000 :: unit coin) (Duration 4730400000000000) = Some covered
     \<and> amount covered + amount (Coin 0 :: unit coin) \<le> amount (Coin 75 :: unit coin)
     \<and> amount (Coin 0 :: unit coin) = amount (Coin 75 :: unit coin) - amount (Coin 500 :: unit coin)
     \<and> Duration 4730400000000000 \<le> duration_year
     \<and> ((Coin 500 :: unit coin) \<le> Coin 75 \<and> 0 < amount (Coin 500 :: unit coin)
          \<longrightarrow> Duration 4730400000000000 = duration_year)"
proof -
  have i: "interest (percent_ratio (Percent 100)) (Coin 5000 :: unit coin) duration_year = Some (Coin 500)"
    by (simp add: interest_def annualized_slice_of_def coin_safe_mul_Some_iff)
  have ok: "duration_ok duration_year" by (simp add: duration_ok_def)
  have "pay (percent_ratio (Percent 100)) (Coin 5000 :: unit coin) (Coin 75) duration_year
      = Some (Duration 4730400000000000, Coin 0)"
    using pay_Some_iff [OF i ok, of "Coin 75"] by simp
  then show ?thesis
    by (intro pay_never_overpays_time [OF _ _ ok i]) (simp_all add: coin_ok_def)
qed

lemmas interest_op_defs [op_defs] = interest_def pay_def

end
