(* ===== verification/Prices.thy ===== *)
theory Prices
  imports Durations
begin

text \<open>
  Prices (\<open>finance/src/price/mod.rs\<close>, \<open>finance/src/fractionable/price.rs\<close>). A price
  relates an amount of a base currency to an amount of a quote currency, both phantom types
  here as in the code. It stands for the rational \<open>amount_quote / amount\<close> and is kept in
  its lowest terms. Whether the two currencies are one and the same, \<open>currency::equal\<close>, is
  an argument of the checks that ask for it. The intermediate products are 256-bit
  integers and cannot overflow.
\<close>

datatype ordering = Less | Equal | Greater

definition nat_cmp :: "nat \<Rightarrow> nat \<Rightarrow> ordering" where
  "nat_cmp a b = (if a < b then Less else if a = b then Equal else Greater)"

record ('c, 'q) price =
  price_amount :: "'c coin"
  price_amount_quote :: "'q coin"

section \<open>Construction\<close>

definition precondition_check :: "'c coin \<Rightarrow> 'q coin \<Rightarrow> (finance_error, unit) res" where
  "precondition_check am quote =
     and_then (broken_invariant_if (coin_is_zero am) ''The amount should not be zero'') (\<lambda>_.
       broken_invariant_if (coin_is_zero quote) ''The quote amount should not be zero'')"

definition price_invariant_held :: "bool \<Rightarrow> ('c, 'q) price \<Rightarrow> (finance_error, unit) res" where
  "price_invariant_held same_currency p =
     and_then (precondition_check (price_amount p) (price_amount_quote p)) (\<lambda>_.
       broken_invariant_if
         (\<not> (amount (price_amount p) = amount (price_amount_quote p) \<or> \<not> same_currency))
         ''The price should be equal to the identity if the currencies match'')"

definition price_new_inner :: "'c coin \<Rightarrow> 'q coin \<Rightarrow> ('c, 'q) price option" where
  "price_new_inner am quote =
     do {
       (a, q) \<leftarrow> into_coprime_with am quote;
       Some \<lparr>price_amount = a, price_amount_quote = q\<rparr>
     }"

definition price_new :: "'c coin \<Rightarrow> 'q coin \<Rightarrow> ('c, 'q) price option" where
  "price_new am quote = price_new_inner am quote"

definition price_try_new :: "bool \<Rightarrow> 'c coin \<Rightarrow> 'q coin \<Rightarrow> (finance_error, ('c, 'q) price) res" where
  "price_try_new same_currency am quote =
     and_then (precondition_check am quote) (\<lambda>_.
     and_then (or_panic (price_new_inner am quote)) (\<lambda>may_price.
     map_res (\<lambda>_. may_price) (price_invariant_held same_currency may_price)))"

definition total_of_is :: "'c coin \<Rightarrow> 'q coin \<Rightarrow> ('c, 'q) price option" where
  "total_of_is am to = price_new am to"

definition price_identity :: "('c, 'q) price" where
  "price_identity = \<lparr>price_amount = Coin 1, price_amount_quote = Coin 1\<rparr>"

definition price_inv :: "('c, 'q) price \<Rightarrow> ('q, 'c) price" where
  "price_inv p = \<lparr>price_amount = price_amount_quote p, price_amount_quote = price_amount p\<rparr>"

section \<open>Arithmetic\<close>

definition bits_above_max :: "nat \<Rightarrow> nat" where
  "bits_above_max double_amount = bit_length (double_amount div 2 ^ 128)"

definition trim_down :: "nat \<Rightarrow> nat \<Rightarrow> nat option" where
  "trim_down double_amount bits =
     do {
       am \<leftarrow> fits 128 (double_amount div 2 ^ bits);
       if 0 < am then Some am else None
     }"

definition lossy_mul :: "('c, 'q) price \<Rightarrow> ratio \<Rightarrow> ('c, 'q) price option" where
  "lossy_mul p rhs =
     do {
       (amount_normalized, rhs_nominator_normalized) \<leftarrow>
         into_coprime_with (price_amount p) (Coin (parts rhs) :: 'c coin);
       (amount_quote_normalized, rhs_denominator_normalized) \<leftarrow>
         into_coprime_with (price_amount_quote p) (Coin (whole rhs) :: 'q coin);
       let double_amount = amount amount_normalized * amount rhs_denominator_normalized;
       let double_amount_quote = amount amount_quote_normalized * amount rhs_nominator_normalized;
       let extra_bits = max (bits_above_max double_amount) (bits_above_max double_amount_quote);
       a \<leftarrow> trim_down double_amount extra_bits;
       q \<leftarrow> trim_down double_amount_quote extra_bits;
       price_new (Coin a) (Coin q)
     }"

text \<open>The amount of a coin in the quote currency.\<close>

definition total :: "'c coin \<Rightarrow> ('c, 'q) price \<Rightarrow> 'q coin option" where
  "total of_coin p = coin_safe_mul (price_amount_quote p) (coin_ratio of_coin (price_amount p))"

definition price_checked_add :: "('c, 'q) price \<Rightarrow> ('c, 'q) price \<Rightarrow> ('c, 'q) price option option" where
  "price_checked_add p q =
     do {
       (a1, c1) \<leftarrow> into_coprime_with (price_amount p) (price_amount q);
       gcd_coin \<leftarrow> coin_checked_div (price_amount p) (amount a1);
       let may_b_c1 = coin_checked_mul (price_amount_quote p) (amount c1);
       let may_d_a1 = coin_checked_mul (price_amount_quote q) (amount a1);
       let may_amount_quote =
         do { b_c1 \<leftarrow> may_b_c1; d_a1 \<leftarrow> may_d_a1; coin_checked_add b_c1 d_a1 };
       let may_amount =
         do { a1_c1 \<leftarrow> coin_checked_mul a1 (amount c1); coin_checked_mul a1_c1 (amount gcd_coin) };
       (case (may_amount_quote, may_amount) of
          (Some quote, Some am) \<Rightarrow> map_option Some (price_new am quote)
        | _ \<Rightarrow> Some None)
     }"

definition lossy_add_factor :: nat where
  "lossy_add_factor = 1000000000000000000"

definition lossy_add :: "('c, 'q) price \<Rightarrow> ('c, 'q) price \<Rightarrow> ('c, 'q) price option option" where
  "lossy_add p q =
     do {
       let factored_amount = Coin lossy_add_factor;
       t1 \<leftarrow> total factored_amount p;
       t2 \<leftarrow> total factored_amount q;
       (case coin_checked_add t1 t2 of
          Some factored_total \<Rightarrow> map_option Some (total_of_is factored_amount factored_total)
        | None \<Rightarrow> Some None)
     }"

definition price_add :: "('c, 'q) price \<Rightarrow> ('c, 'q) price \<Rightarrow> ('c, 'q) price option" where
  "price_add p q =
     do {
       checked \<leftarrow> price_checked_add p q;
       (case checked of
          Some exact \<Rightarrow> Some exact
        | None \<Rightarrow> do { lossy \<leftarrow> lossy_add p q; lossy })
     }"

definition price_mul :: "('c, 'q) price \<Rightarrow> ('q, 'r) price \<Rightarrow> ('c, 'r) price option" where
  "price_mul p rhs =
     do {
       cross \<leftarrow> price_new (price_amount p) (price_amount_quote rhs);
       lossy_mul cross (coin_ratio (price_amount_quote p) (price_amount rhs))
     }"

text \<open>A percent of a price.\<close>

definition percent_of_price :: "percent \<Rightarrow> ('c, 'q) price \<Rightarrow> ('c, 'q) price option" where
  "percent_of_price pc p = lossy_mul p (percent_ratio pc)"

text \<open>The order on prices, by cross-multiplication.\<close>

definition price_cmp :: "('c, 'q) price \<Rightarrow> ('c, 'q) price \<Rightarrow> ordering" where
  "price_cmp p q =
     nat_cmp (amount (price_amount_quote p) * amount (price_amount q))
             (amount (price_amount p) * amount (price_amount_quote q))"

definition price_lt :: "('c, 'q) price \<Rightarrow> ('c, 'q) price \<Rightarrow> bool" where
  "price_lt p q \<longleftrightarrow> price_cmp p q = Less"

definition price_le :: "('c, 'q) price \<Rightarrow> ('c, 'q) price \<Rightarrow> bool" where
  "price_le p q \<longleftrightarrow> price_cmp p q \<noteq> Greater"

section \<open>Facts\<close>

text \<open>A canonical price: two positive 128-bit amounts in their lowest terms.\<close>

definition price_ok :: "('c, 'q) price \<Rightarrow> bool" where
  "price_ok p \<longleftrightarrow>
     0 < amount (price_amount p) \<and> 0 < amount (price_amount_quote p) \<and>
     coin_ok (price_amount p) \<and> coin_ok (price_amount_quote p) \<and>
     coprime (amount (price_amount p)) (amount (price_amount_quote p))"

text \<open>The rational a price stands for is \<open>q / a\<close>.\<close>

definition price_is :: "('c, 'q) price \<Rightarrow> nat \<Rightarrow> nat \<Rightarrow> bool" where
  "price_is p a q \<longleftrightarrow> amount (price_amount_quote p) * a = amount (price_amount p) * q"

lemma precondition_check_Inr [simp]:
  "precondition_check a q = Inr u \<longleftrightarrow> 0 < amount a \<and> 0 < amount q"
  by (auto simp: precondition_check_def)

lemma cross_multiply: "x * g = a \<Longrightarrow> y * g = q \<Longrightarrow> y * a = x * (q::nat)"
  by auto

lemma price_new_spec [no_abort]:
  assumes "0 < amount a" "0 < amount q" "coin_ok a" "coin_ok q"
  shows "\<exists>p. price_new a q = Some p \<and> price_ok p \<and> price_is p (amount a) (amount q)
           \<and> price_amount p \<le> a \<and> price_amount_quote p \<le> q"
proof -
  let ?g = "gcd (amount a) (amount q)"
  let ?p = "\<lparr>price_amount = Coin (amount a div ?g), price_amount_quote = Coin (amount q div ?g)\<rparr>"
  note parts = coprime_parts [OF assms(1,2)]
  have "price_new a q = Some ?p"
    by (simp add: price_new_def price_new_inner_def into_coprime_with_Some assms)
  moreover have "price_ok ?p"
    using assms(3,4) parts by (simp add: price_ok_def coin_ok_def le_less_trans [OF div_le_dividend])
  moreover have "price_is ?p (amount a) (amount q)"
    using cross_multiply [OF parts(5,6)] by (simp add: price_is_def)
  moreover have "price_amount ?p \<le> a \<and> price_amount_quote ?p \<le> q"
    using parts(7,8) by (simp add: coin_order)
  ultimately show ?thesis by blast
qed

lemma price_new_canonical:
  assumes "price_ok p"
  shows "price_new (price_amount p) (price_amount_quote p) = Some p"
  using assms
  by (cases p) (auto simp: price_new_def price_new_inner_def into_coprime_with_Some price_ok_def coin_eq_iff)

text \<open>Two canonical prices standing for the same rational are equal.\<close>

lemma coprime_fractions_eq:
  fixes a b c d :: nat
  assumes "coprime a b" "coprime c d" "b * c = a * d" "0 < a" "0 < c"
  shows "a = c \<and> b = d"
proof -
  have "a dvd b * c" "c dvd d * a" using assms(3) by (auto simp: mult.commute) (metis dvd_triv_right mult.commute)
  then have "a dvd c" "c dvd a"
    using assms(1,2) by (auto simp: coprime_dvd_mult_right_iff coprime_commute coprime_dvd_mult_left_iff)
  then have "a = c" by (rule dvd_antisym)
  with assms show ?thesis by simp
qed

lemma price_is_unique:
  assumes "price_ok p" "price_ok q" "price_is p (amount (price_amount q)) (amount (price_amount_quote q))"
  shows "p = q"
  using assms coprime_fractions_eq [of "amount (price_amount p)" "amount (price_amount_quote p)"
      "amount (price_amount q)" "amount (price_amount_quote q)"]
  by (cases p, cases q) (auto simp: price_ok_def price_is_def coin_eq_iff)

section \<open>Order\<close>

lemma nat_cmp_simps [simp]:
  "nat_cmp a b = Less \<longleftrightarrow> a < b"
  "nat_cmp a b = Equal \<longleftrightarrow> a = b"
  "nat_cmp a b = Greater \<longleftrightarrow> b < a"
  by (auto simp: nat_cmp_def)

lemma price_cmp_swap: "price_cmp p q = Less \<longleftrightarrow> price_cmp q p = Greater"
  by (simp add: price_cmp_def mult.commute)

lemma price_cmp_Equal_iff:
  assumes "price_ok p" "price_ok q"
  shows "price_cmp p q = Equal \<longleftrightarrow> p = q"
proof
  assume "price_cmp p q = Equal"
  then have "price_is p (amount (price_amount q)) (amount (price_amount_quote q))"
    by (simp add: price_cmp_def price_is_def)
  with assms show "p = q" by (rule price_is_unique)
qed (simp add: price_cmp_def mult.commute)

lemma fraction_le_trans:
  fixes a b c d e f :: nat
  assumes "b * c \<le> a * d" "d * e \<le> c * f" "0 < c"
  shows "b * e \<le> a * f"
proof -
  have "(b * e) * c = (b * c) * e" by simp
  also have "\<dots> \<le> (a * d) * e" using assms(1) by (rule mult_le_mono1)
  also have "\<dots> = a * (d * e)" by simp
  also have "\<dots> \<le> a * (c * f)" using assms(2) by (rule mult_le_mono2)
  also have "\<dots> = (a * f) * c" by simp
  finally show ?thesis using assms(3) by (simp add: mult_le_cancel2)
qed

lemma price_le_iff:
  "price_le p q \<longleftrightarrow>
     amount (price_amount_quote p) * amount (price_amount q)
       \<le> amount (price_amount p) * amount (price_amount_quote q)"
  by (simp add: price_le_def price_cmp_def not_less)

lemma price_lt_iff:
  "price_lt p q \<longleftrightarrow>
     amount (price_amount_quote p) * amount (price_amount q)
       < amount (price_amount p) * amount (price_amount_quote q)"
  by (simp add: price_lt_def price_cmp_def)

lemma price_le_trans:
  assumes "price_ok q" "price_le p q" "price_le q r"
  shows "price_le p r"
  using assms fraction_le_trans by (auto simp: price_le_iff price_ok_def)

text \<open>
  The comparison of canonical prices is a total order, and its equality is the derived
  structural equality.
\<close>

theorem price_cmp_total_order:
  assumes "price_ok p" "price_ok q" "price_ok r"
  shows "(price_cmp p q = Equal \<longleftrightarrow> p = q) \<and> (price_cmp p q = Less \<longleftrightarrow> price_cmp q p = Greater)
    \<and> (price_le p q \<and> price_le q r \<longrightarrow> price_le p r) \<and> (price_le p q \<and> price_le q p \<longrightarrow> p = q)"
proof -
  have "price_le p q \<and> price_le q p \<longrightarrow> price_cmp p q = Equal"
    by (simp add: price_le_iff price_cmp_def mult.commute)
  then show ?thesis
    using price_cmp_swap price_cmp_Equal_iff [OF assms(1,2)] price_le_trans [OF assms(2)] by blast
qed

theorem price_cmp_total_order_witness:
  "let p = \<lparr>price_amount = Coin 10 :: unit coin, price_amount_quote = Coin 3 :: bool coin\<rparr>;
       q = \<lparr>price_amount = Coin 2, price_amount_quote = Coin 1\<rparr>
   in (price_cmp p q = Equal \<longleftrightarrow> p = q) \<and> (price_cmp p q = Less \<longleftrightarrow> price_cmp q p = Greater)
    \<and> (price_le p q \<and> price_le q p \<longrightarrow> price_le p p) \<and> (price_le p q \<and> price_le q p \<longrightarrow> p = q)
    \<and> price_cmp p q = Less"
proof -
  let ?p = "\<lparr>price_amount = Coin 10 :: unit coin, price_amount_quote = Coin 3 :: bool coin\<rparr>"
  let ?q = "\<lparr>price_amount = Coin 2 :: unit coin, price_amount_quote = Coin 1 :: bool coin\<rparr>"
  have "coprime (10::nat) 3" by code_simp
  then have ok: "price_ok ?p" "price_ok ?q" by (simp_all add: price_ok_def coin_ok_def)
  have "price_cmp ?p ?q = Less" by (simp add: price_cmp_def)
  with price_cmp_total_order [OF ok(1) ok(2) ok(1)] show ?thesis by (simp add: Let_def)
qed

section \<open>Totals\<close>

lemma total_Some:
  assumes "price_ok p"
  shows "total c p = Some t \<longleftrightarrow>
    t = Coin (amount c * amount (price_amount_quote p) div amount (price_amount p)) \<and>
    (amount c = amount (price_amount p) \<or>
     amount c * amount (price_amount_quote p) div amount (price_amount p) < 2 ^ 128)"
  using assms by (simp add: total_def price_ok_def coin_safe_mul_Some_iff mult.commute)

lemma total_identity [simp]: "coin_ok c \<Longrightarrow> total c price_identity = Some (Coin (amount c))"
  by (simp add: total_def price_identity_def coin_safe_mul_Some_iff coin_ok_def)

lemma total_mono_coin:
  assumes "price_ok p" "total c p = Some t" "total c' p = Some t'" "c \<le> c'"
  shows "t \<le> t'"
  using assms by (auto simp: total_Some coin_order div_le_mono mult_le_mono1)

lemma div_mono_fraction:
  fixes a b c d x :: nat
  assumes "b * c \<le> a * d" "0 < a" "0 < c"
  shows "x * b div a \<le> x * d div c"
proof -
  have "(x * b div a) * c * a = (x * b div a * a) * c" by simp
  also have "\<dots> \<le> x * b * c" by (intro mult_le_mono1 div_times_less_eq_dividend)
  also have "\<dots> = x * (b * c)" by (simp only: mult.assoc)
  also have "\<dots> \<le> x * (a * d)" using assms(1) by (rule mult_le_mono2)
  also have "\<dots> = x * d * a" by (simp only: mult.assoc mult.commute mult.left_commute)
  finally have "(x * b div a) * c \<le> x * d" using assms(2) by simp
  then show ?thesis using assms(3) by (simp only: less_eq_div_iff_mult_less_eq)
qed

lemma total_mono_price:
  assumes "price_ok p" "price_ok q" "price_le p q" "total c p = Some t" "total c q = Some t'"
  shows "t \<le> t'"
  using assms div_mono_fraction
  by (auto simp: total_Some coin_order price_le_iff price_ok_def)

section \<open>Addition and multiplication\<close>

lemma price_is_scale:
  assumes "0 < u"
  shows "price_is p (a * u) (q * u) \<longleftrightarrow> price_is p a q"
proof -
  have "price_is p (a * u) (q * u) \<longleftrightarrow>
      amount (price_amount_quote p) * a * u = amount (price_amount p) * q * u"
    by (simp add: price_is_def mult.assoc)
  with assms show ?thesis by (simp add: price_is_def)
qed

lemma price_new_lossy:
  assumes "0 < amount a"
  shows "\<exists>p. price_new a q = Some p \<and> price_is p (amount a) (amount q) \<and> 0 < amount (price_amount p)"
proof -
  let ?g = "gcd (amount a) (amount q)"
  have g: "0 < ?g" "amount a div ?g * ?g = amount a" "amount q div ?g * ?g = amount q"
    using assms by simp_all
  then have "0 < amount a div ?g" using assms by (metis mult_zero_left neq0_conv)
  moreover have "price_new a q =
      Some \<lparr>price_amount = Coin (amount a div ?g), price_amount_quote = Coin (amount q div ?g)\<rparr>"
    using assms by (simp add: price_new_def price_new_inner_def into_coprime_with_def Let_def checked_div_def)
  ultimately show ?thesis
    using cross_multiply [OF g(2,3)] by (simp add: price_is_def)
qed

text \<open>The common denominator of two prices and the numerator of their sum over it.\<close>

definition sum_amount :: "('c, 'q) price \<Rightarrow> ('c, 'q) price \<Rightarrow> nat" where
  "sum_amount p q = lcm (amount (price_amount p)) (amount (price_amount q))"

definition sum_quote :: "('c, 'q) price \<Rightarrow> ('c, 'q) price \<Rightarrow> nat" where
  "sum_quote p q =
     (let g = gcd (amount (price_amount p)) (amount (price_amount q))
      in amount (price_amount_quote p) * (amount (price_amount q) div g)
         + amount (price_amount_quote q) * (amount (price_amount p) div g))"

lemma price_checked_add_eq:
  assumes "price_ok p" "price_ok q"
  shows "price_checked_add p q =
    (if sum_amount p q < 2 ^ 128 \<and> sum_quote p q < 2 ^ 128
     then map_option Some (price_new (Coin (sum_amount p q)) (Coin (sum_quote p q)))
     else Some None)"
proof -
  define a c where "a = amount (price_amount p)" and "c = amount (price_amount q)"
  define b d where "b = amount (price_amount_quote p)" and "d = amount (price_amount_quote q)"
  define g where "g = gcd a c"
  have pos: "0 < a" "0 < c" using assms by (simp_all add: price_ok_def a_def c_def)
  note parts = coprime_parts [OF pos, folded g_def]
  have ga: "a div (a div g) = g"
    using parts(2,5) by (metis nonzero_mult_div_cancel_left neq0_conv)
  have lcm: "lcm a c = a div g * (c div g) * g"
  proof -
    have "lcm a c * g = a * c" by (simp add: g_def)
    also have "\<dots> = (a div g * g) * (c div g * g)" using parts(5,6) by simp
    also have "\<dots> = (a div g * (c div g) * g) * g" by (simp only: mult.assoc mult.commute mult.left_commute)
    finally show ?thesis using parts(4) by simp
  qed
  have split: "into_coprime_with (price_amount p) (price_amount q)
      = Some (Coin (a div g), Coin (c div g))"
    using into_coprime_with_Some pos by (auto simp: a_def c_def g_def)
  have div: "coin_checked_div (price_amount p) (a div g) = Some (Coin g)"
    using parts(2) ga by (simp add: a_def)
  have le: "a div g * (c div g) \<le> lcm a c" using parts(4) lcm by simp
  have am: "do { x \<leftarrow> coin_checked_mul (Coin (a div g) :: 'a coin) (c div g); coin_checked_mul x g }
      = map_option Coin (fits 128 (sum_amount p q))"
    using le_less_trans [OF le, of "2 ^ 128"] unfolding lcm
    by (simp add: sum_amount_def lcm coin_checked_mul_def checked_mul_def fits_def
        a_def [symmetric] c_def [symmetric] del: power_numeral)
  have quote: "do { x \<leftarrow> coin_checked_mul (price_amount_quote p) (c div g);
        y \<leftarrow> coin_checked_mul (price_amount_quote q) (a div g); coin_checked_add x y }
      = map_option Coin (fits 128 (sum_quote p q))"
    by (simp add: sum_quote_def coin_checked_mul_def checked_mul_def fits_def coin_checked_add_def
        checked_add_def Let_def a_def [symmetric] b_def [symmetric] c_def [symmetric]
        d_def [symmetric] g_def [symmetric])
  show ?thesis
    by (simp add: price_checked_add_def split div am quote fits_def Let_def)
qed

lemma sum_rational:
  assumes "price_ok p" "price_ok q"
  shows "\<exists>u>0. amount (price_amount p) * amount (price_amount q) = sum_amount p q * u
    \<and> amount (price_amount_quote p) * amount (price_amount q)
      + amount (price_amount_quote q) * amount (price_amount p) = sum_quote p q * u"
    and "0 < sum_amount p q" "0 < sum_quote p q"
proof -
  define a c where "a = amount (price_amount p)" and "c = amount (price_amount q)"
  define b d where "b = amount (price_amount_quote p)" and "d = amount (price_amount_quote q)"
  have pos: "0 < a" "0 < c" "0 < b"
    using assms by (simp_all add: price_ok_def a_def b_def c_def)
  note parts = coprime_parts [OF pos(1,2)]
  have "a * c = lcm a c * gcd a c" by (simp add: mult.commute)
  moreover have "b * c + d * a = (b * (c div gcd a c) + d * (a div gcd a c)) * gcd a c"
    using parts(5,6) by (simp add: distrib_right mult.assoc)
  ultimately show "\<exists>u>0. amount (price_amount p) * amount (price_amount q) = sum_amount p q * u
      \<and> amount (price_amount_quote p) * amount (price_amount q)
        + amount (price_amount_quote q) * amount (price_amount p) = sum_quote p q * u"
    unfolding sum_amount_def sum_quote_def Let_def a_def [symmetric] b_def [symmetric]
      c_def [symmetric] d_def [symmetric]
    using parts(4) by blast
  show "0 < sum_amount p q" using pos by (simp add: sum_amount_def a_def c_def lcm_pos_nat)
  show "0 < sum_quote p q"
    using pos parts(3) by (simp add: sum_quote_def Let_def a_def b_def c_def)
qed

text \<open>The sum at the precision of \<open>lossy_add\<close>.\<close>

definition lossy_sum :: "('c, 'q) price \<Rightarrow> ('c, 'q) price \<Rightarrow> nat" where
  "lossy_sum p q =
     lossy_add_factor * amount (price_amount_quote p) div amount (price_amount p)
     + lossy_add_factor * amount (price_amount_quote q) div amount (price_amount q)"

lemma lossy_add_eq:
  assumes "price_ok p" "price_ok q" "lossy_sum p q < 2 ^ 128"
  shows "lossy_add p q =
     map_option Some (price_new (Coin lossy_add_factor) (Coin (lossy_sum p q)))"
proof -
  have "total (Coin lossy_add_factor) x =
      Some (Coin (lossy_add_factor * amount (price_amount_quote x) div amount (price_amount x)))"
    if "price_ok x" "x = p \<or> x = q" for x
    using that assms(3) by (auto simp: total_Some lossy_sum_def)
  with assms show ?thesis
    by (auto simp: lossy_add_def total_of_is_def lossy_sum_def coin_checked_add_def checked_add_def
        fits_def Let_def)
qed

lemma lossy_sum_below:
  assumes "price_ok p" "price_ok q"
  shows "lossy_sum p q * (amount (price_amount p) * amount (price_amount q))
    \<le> lossy_add_factor * (amount (price_amount_quote p) * amount (price_amount q)
        + amount (price_amount_quote q) * amount (price_amount p))"
proof -
  have "x div a * a * c \<le> x * c" for x a c :: nat
    by (intro mult_le_mono1 div_times_less_eq_dividend)
  from add_mono [OF
      this [of "lossy_add_factor * amount (price_amount_quote p)" "amount (price_amount p)" "amount (price_amount q)"]
      this [of "lossy_add_factor * amount (price_amount_quote q)" "amount (price_amount q)" "amount (price_amount p)"]]
  show ?thesis
    by (simp add: lossy_sum_def distrib_right distrib_left mult.assoc mult.left_commute mult.commute)
qed

text \<open>
  The sum of two canonical prices never panics while the total of \<open>10^18\<close> units fits
  128 bits. It is the exact rational sum, in lowest terms, whenever its numerator and
  denominator over the least common denominator fit; otherwise it is rounded down
  and never exceeds the exact sum.
\<close>

theorem price_add_spec:
  assumes "price_ok p" "price_ok q" "lossy_sum p q < 2 ^ 128"
  shows "\<exists>r. price_add p q = Some r \<and>
    (if sum_amount p q < 2 ^ 128 \<and> sum_quote p q < 2 ^ 128
     then price_ok r \<and>
       price_is r (amount (price_amount p) * amount (price_amount q))
         (amount (price_amount_quote p) * amount (price_amount q)
          + amount (price_amount_quote q) * amount (price_amount p))
     else amount (price_amount_quote r) * (amount (price_amount p) * amount (price_amount q))
       \<le> amount (price_amount r) *
         (amount (price_amount_quote p) * amount (price_amount q)
          + amount (price_amount_quote q) * amount (price_amount p)))"
proof (cases "sum_amount p q < 2 ^ 128 \<and> sum_quote p q < 2 ^ 128")
  case True
  with sum_rational(2,3) [OF assms(1,2)] obtain r :: "('a, 'b) price" where
    r: "price_new (Coin (sum_amount p q)) (Coin (sum_quote p q)) = Some r" "price_ok r"
      "price_is r (sum_amount p q) (sum_quote p q)"
    using price_new_spec [of "Coin (sum_amount p q)" "Coin (sum_quote p q)"] by (auto simp: coin_ok_def)
  with True have "price_add p q = Some r"
    by (simp add: price_add_def price_checked_add_eq [OF assms(1,2)])
  moreover have "price_is r (amount (price_amount p) * amount (price_amount q))
      (amount (price_amount_quote p) * amount (price_amount q)
        + amount (price_amount_quote q) * amount (price_amount p))"
    using sum_rational(1) [OF assms(1,2)] r(3) by (auto simp: price_is_scale)
  ultimately show ?thesis using True r(2) by simp
next
  case False
  then have "price_checked_add p q = Some None"
    by (simp only: price_checked_add_eq [OF assms(1,2)] if_False)
  then have eq: "price_add p q = price_new (Coin lossy_add_factor) (Coin (lossy_sum p q))"
    using lossy_add_eq [OF assms] by (simp add: price_add_def)
  obtain r :: "('a, 'b) price" where r: "price_new (Coin lossy_add_factor) (Coin (lossy_sum p q)) = Some r"
      "price_is r lossy_add_factor (lossy_sum p q)" "0 < amount (price_amount r)"
    using price_new_lossy [of "Coin lossy_add_factor" "Coin (lossy_sum p q)"]
    by (auto simp: lossy_add_factor_def)
  have "amount (price_amount_quote r) * (amount (price_amount p) * amount (price_amount q))
       \<le> amount (price_amount r) *
         (amount (price_amount_quote p) * amount (price_amount q)
          + amount (price_amount_quote q) * amount (price_amount p))"
    using fraction_le_trans [OF _ lossy_sum_below [OF assms(1,2)]] r(2)
    by (simp add: price_is_def lossy_add_factor_def)
  then show ?thesis unfolding if_not_P [OF False] using r(1) eq by auto
qed


theorem price_add_spec_witness:
  "let p = \<lparr>price_amount = Coin 10 :: unit coin, price_amount_quote = Coin 3 :: bool coin\<rparr>;
       q = \<lparr>price_amount = Coin 4, price_amount_quote = Coin 1\<rparr>
   in \<exists>r. price_add p q = Some r \<and> price_ok r \<and> price_is r 40 22"
proof -
  let ?p = "\<lparr>price_amount = Coin 10 :: unit coin, price_amount_quote = Coin 3 :: bool coin\<rparr>"
  let ?q = "\<lparr>price_amount = Coin 4 :: unit coin, price_amount_quote = Coin 1 :: bool coin\<rparr>"
  have "coprime (10::nat) 3" and s: "sum_amount ?p ?q = 20 \<and> sum_quote ?p ?q = 11"
    by code_simp+
  then have ok: "price_ok ?p" "price_ok ?q" by (simp_all add: price_ok_def coin_ok_def)
  have "lossy_sum ?p ?q < 2 ^ 128" by (simp add: lossy_sum_def lossy_add_factor_def)
  from price_add_spec [OF ok this] s show ?thesis by (simp add: Let_def)
qed

text \<open>What the multiplication by a ratio computes, trimming included.\<close>

lemma lossy_mul_eq:
  fixes p :: "('c, 'q) price"
  assumes "price_ok p" "0 < parts r" "0 < whole r"
  shows "\<exists>am quote u. 0 < u
    \<and> am * u = amount (price_amount p) * whole r
    \<and> quote * u = amount (price_amount_quote p) * parts r
    \<and> lossy_mul p r =
        (let bits = max (bits_above_max am) (bits_above_max quote)
         in do { a \<leftarrow> trim_down am bits; q \<leftarrow> trim_down quote bits; price_new (Coin a) (Coin q) })"
proof -
  define a q where "a = amount (price_amount p)" and "q = amount (price_amount_quote p)"
  define ga gq where "ga = gcd a (parts r)" and "gq = gcd q (whole r)"
  have pos: "0 < a" "0 < q" using assms(1) by (simp_all add: price_ok_def a_def q_def)
  note pa = coprime_parts [OF pos(1) assms(2), folded ga_def]
  note pq = coprime_parts [OF pos(2) assms(3), folded gq_def]
  have "a div ga * (whole r div gq) * (ga * gq) = (a div ga * ga) * (whole r div gq * gq)"
    by (simp only: mult.assoc mult.commute mult.left_commute)
  then have am: "a div ga * (whole r div gq) * (ga * gq) = a * whole r"
    using pa(5) pq(6) by simp
  have "q div gq * (parts r div ga) * (ga * gq) = (q div gq * gq) * (parts r div ga * ga)"
    by (simp only: mult.assoc mult.commute mult.left_commute)
  then have quote: "q div gq * (parts r div ga) * (ga * gq) = q * parts r"
    using pa(6) pq(5) by simp
  have "into_coprime_with (price_amount p) (Coin (parts r) :: 'c coin)
      = Some (Coin (a div ga), Coin (parts r div ga))"
    and "into_coprime_with (price_amount_quote p) (Coin (whole r) :: 'q coin)
      = Some (Coin (q div gq), Coin (whole r div gq))"
    using pos assms by (simp_all add: into_coprime_with_Some a_def q_def ga_def gq_def)
  then have "lossy_mul p r =
        (let bits = max (bits_above_max (a div ga * (whole r div gq))) (bits_above_max (q div gq * (parts r div ga)))
         in do { x \<leftarrow> trim_down (a div ga * (whole r div gq)) bits;
                 y \<leftarrow> trim_down (q div gq * (parts r div ga)) bits; price_new (Coin x) (Coin y) })"
    by (simp add: lossy_mul_def Let_def)
  with am quote pa(4) pq(4) show ?thesis
    unfolding a_def [symmetric] q_def [symmetric] by (metis mult_pos_pos)
qed

lemma bits_above_max_fits [simp]: "n < 2 ^ 128 \<Longrightarrow> bits_above_max n = 0"
  by (simp add: bits_above_max_def)

lemma le_of_mult_eq: "0 < u \<Longrightarrow> x * u = y \<Longrightarrow> x \<le> (y::nat)"
  by (cases u) auto

lemma lossy_mul_exact:
  fixes p :: "('c, 'q) price"
  assumes "price_ok p" "0 < parts r" "0 < whole r"
    "amount (price_amount p) * whole r < 2 ^ 128" "amount (price_amount_quote p) * parts r < 2 ^ 128"
  shows "\<exists>m. lossy_mul p r = Some m \<and> price_ok m
    \<and> price_is m (amount (price_amount p) * whole r) (amount (price_amount_quote p) * parts r)"
proof -
  from lossy_mul_eq [OF assms(1-3)] obtain am quote u where u: "0 < u"
    and am: "am * u = amount (price_amount p) * whole r"
    and quote: "quote * u = amount (price_amount_quote p) * parts r"
    and eq: "lossy_mul p r =
        (let bits = max (bits_above_max am) (bits_above_max quote)
         in do { a \<leftarrow> trim_down am bits; q \<leftarrow> trim_down quote bits; price_new (Coin a) (Coin q) })"
    by blast
  have fits: "am < 2 ^ 128" "quote < 2 ^ 128"
    using le_less_trans [OF le_of_mult_eq [OF u am] assms(4)]
      le_less_trans [OF le_of_mult_eq [OF u quote] assms(5)] by auto
  have "0 < am * u" "0 < quote * u"
    unfolding am quote using assms(1-3) by (simp_all add: price_ok_def)
  then have pos: "0 < am" "0 < quote" by simp_all
  have "lossy_mul p r = price_new (Coin am) (Coin quote)"
    using fits pos by (simp add: eq trim_down_def fits_def)
  with price_new_spec [of "Coin am" "Coin quote"] fits pos show ?thesis
    by (auto simp: coin_ok_def price_is_scale [OF u, of _ am quote, unfolded am quote])
qed

text \<open>
  The product of two prices is exact, in lowest terms, whenever the two cross products of
  their amounts fit 128 bits: the price of A in C is the price of A in B times that of B in C.
\<close>

theorem price_mul_exact:
  fixes p :: "('a, 'b) price" and q :: "('b, 'c) price"
  assumes "price_ok p" "price_ok q"
    "amount (price_amount p) * amount (price_amount q) < 2 ^ 128"
    "amount (price_amount_quote p) * amount (price_amount_quote q) < 2 ^ 128"
  shows "\<exists>r. price_mul p q = Some r \<and> price_ok r \<and>
    price_is r (amount (price_amount p) * amount (price_amount q))
      (amount (price_amount_quote p) * amount (price_amount_quote q))"
proof -
  define a b c d where "a = amount (price_amount p)" and "b = amount (price_amount_quote p)"
    and "c = amount (price_amount q)" and "d = amount (price_amount_quote q)"
  note defs = a_def [symmetric] b_def [symmetric] c_def [symmetric] d_def [symmetric]
  have pos: "0 < a" "0 < b" "0 < c" "0 < d"
    using assms(1,2) by (simp_all add: price_ok_def defs)
  obtain x :: "('a, 'c) price" where x: "price_new (price_amount p) (price_amount_quote q) = Some x"
    "price_ok x" "price_is x a d" "amount (price_amount x) \<le> a" "amount (price_amount_quote x) \<le> d"
    using price_new_spec [of "price_amount p" "price_amount_quote q"] assms(1,2) pos
    by (auto simp: price_ok_def coin_order defs)
  have "amount (price_amount x) * c < 2 ^ 128" "amount (price_amount_quote x) * b < 2 ^ 128"
    using le_less_trans [OF mult_le_mono1 [OF x(4), of c]] le_less_trans [OF mult_le_mono1 [OF x(5), of b]]
      assms(3,4) by (simp_all add: defs mult.commute)
  with lossy_mul_exact [OF x(2), of "coin_ratio (price_amount_quote p) (price_amount q)"] pos
  obtain m where m: "lossy_mul x (coin_ratio (price_amount_quote p) (price_amount q)) = Some m"
    "price_ok m" "price_is m (amount (price_amount x) * c) (amount (price_amount_quote x) * b)"
    by (auto simp: defs)
  have "amount (price_amount_quote m) * (a * c) = amount (price_amount m) * (b * d)"
  proof -
    let ?M = "amount (price_amount m)" and ?N = "amount (price_amount_quote m)"
    let ?X = "amount (price_amount x)" and ?Y = "amount (price_amount_quote x)"
    have "?N * (?X * c) = ?M * (?Y * b)" "?Y * a = ?X * d"
      using m(3) x(3) by (simp_all add: price_is_def)
    then have "?N * (a * c) * ?X = ?M * (b * d) * ?X"
      by (metis (no_types) mult.assoc mult.commute)
    with x(2) show ?thesis by (simp add: price_ok_def)
  qed
  with x(1) m show ?thesis
    by (auto simp: price_mul_def price_is_def defs)
qed

theorem price_mul_exact_witness:
  "\<exists>r. price_mul \<lparr>price_amount = Coin 10 :: unit coin, price_amount_quote = Coin 3 :: bool coin\<rparr>
      \<lparr>price_amount = Coin 9, price_amount_quote = Coin 5 :: nat coin\<rparr> = Some r
    \<and> price_ok r \<and> price_is r 90 15"
proof -
  have "coprime (10::nat) 3" "coprime (9::nat) 5" by code_simp+
  then show ?thesis
    using price_mul_exact [of "\<lparr>price_amount = Coin 10 :: unit coin, price_amount_quote = Coin 3 :: bool coin\<rparr>"
        "\<lparr>price_amount = Coin 9, price_amount_quote = Coin 5 :: nat coin\<rparr>"]
    by (simp add: price_ok_def coin_ok_def)
qed


lemma precondition_check_held [simp]:
  "0 < amount a \<Longrightarrow> 0 < amount q \<Longrightarrow> precondition_check a q = Inr ()"
  by simp

lemma price_inv_simps [simp]:
  "price_amount (price_inv p) = price_amount_quote p"
  "price_amount_quote (price_inv p) = price_amount p"
  by (simp_all add: price_inv_def)

section \<open>There and back\<close>

lemma price_inv_ok [simp]: "price_ok (price_inv p) \<longleftrightarrow> price_ok p"
  by (auto simp: price_ok_def price_inv_def coprime_commute)

lemma price_inv_inv [simp]: "price_inv (price_inv p) = p"
  by (simp add: price_inv_def)

text \<open>
  C37. Changing an amount at a price truncates towards zero by less than one unit, and
  changing it back at the inverse price never yields more than the initial amount. It yields
  it all when nothing has been truncated.
\<close>

theorem total_round_trip:
  fixes p :: "('c, 'q) price"
  assumes "price_ok p" "total c p = Some t" "total t (price_inv p) = Some back"
  shows "amount t * amount (price_amount p) \<le> amount c * amount (price_amount_quote p)
    \<and> amount c * amount (price_amount_quote p) < (amount t + 1) * amount (price_amount p)
    \<and> back \<le> c
    \<and> (amount (price_amount p) dvd amount c * amount (price_amount_quote p) \<longrightarrow> back = c)"
proof -
  define a q where "a = amount (price_amount p)" and "q = amount (price_amount_quote p)"
  have pos: "0 < a" "0 < q" using assms(1) by (simp_all add: a_def q_def price_ok_def)
  have t: "amount t = amount c * q div a" and ret: "amount back = amount t * a div q"
    using assms by (auto simp: total_Some a_def q_def)
  have le: "amount t * a \<le> amount c * q" and lt: "amount c * q < (amount t + 1) * a"
    using mult_div_bounds [OF pos(1), of "amount c" q] by (simp_all add: t)
  have "amount back \<le> amount c"
    using div_le_mono [OF le, of q] pos by (simp add: ret)
  moreover have "back = c" if "a dvd amount c * q"
  proof -
    from that have "amount t * a = amount c * q" by (simp add: t)
    then show ?thesis using pos by (simp add: ret coin_eq_iff)
  qed
  ultimately show ?thesis using le lt by (simp add: coin_order a_def q_def)
qed

theorem total_round_trip_witness:
  "let p = \<lparr>price_amount = Coin 10 :: unit coin, price_amount_quote = Coin 3 :: bool coin\<rparr>
   in total (Coin 25) p = Some (Coin 7) \<and> total (Coin 7) (price_inv p) = Some (Coin 23)
     \<and> (Coin 23 :: unit coin) \<le> Coin 25"
proof -
  let ?p = "\<lparr>price_amount = Coin 10 :: unit coin, price_amount_quote = Coin 3 :: bool coin\<rparr>"
  have "coprime (10::nat) 3" by code_simp
  then have ok: "price_ok ?p" by (simp add: price_ok_def coin_ok_def)
  then have ok': "price_ok (price_inv ?p)" by simp
  have t: "total (Coin 25) ?p = Some (Coin 7)" using total_Some [OF ok] by simp
  have b: "total (Coin 7) (price_inv ?p) = Some (Coin 23)"
    using total_Some [OF ok'] by (simp add: price_inv_def)
  from total_round_trip [OF ok t b] t b show ?thesis by (simp add: Let_def)
qed

text \<open>
  Constructing a price from untrusted amounts succeeds exactly for two positive amounts,
  equal ones when the currencies match; the price is then canonical and stands for
  the ratio of the amounts.
\<close>

theorem price_try_new_iff:
  assumes "coin_ok a" "coin_ok q"
  shows "(case price_try_new same a q of
            Inr p \<Rightarrow> 0 < amount a \<and> 0 < amount q \<and> (same \<longrightarrow> amount a = amount q)
              \<and> price_ok p \<and> price_is p (amount a) (amount q)
          | Inl Panic \<Rightarrow> False
          | Inl (Fail e) \<Rightarrow> amount a = 0 \<or> amount q = 0 \<or> (same \<and> amount a \<noteq> amount q))"
proof (cases "amount a = 0 \<or> amount q = 0")
  case True
  then show ?thesis
    by (auto simp: price_try_new_def precondition_check_def broken_invariant_if_def)
next
  case False
  then obtain p where p: "price_new a q = Some p" "price_ok p" "price_is p (amount a) (amount q)"
    using price_new_spec [of a q] assms by auto
  have "amount (price_amount p) = amount (price_amount_quote p) \<longleftrightarrow> amount a = amount q"
    using p(2,3) False by (auto simp: price_ok_def price_is_def)
  moreover have "0 < amount (price_amount p)" "0 < amount (price_amount_quote p)"
    using p(2) by (simp_all add: price_ok_def)
  ultimately show ?thesis
    using p False
    by (simp add: price_try_new_def price_new_def price_invariant_held_def broken_invariant_if_def)
qed

theorem price_try_new_iff_witness:
  "\<exists>p. price_try_new False (Coin 30 :: unit coin) (Coin 12 :: bool coin) = Inr p
     \<and> price_ok p \<and> price_is p 30 12"
proof -
  have "price_try_new False (Coin 30 :: unit coin) (Coin 12 :: bool coin)
      = Inr \<lparr>price_amount = Coin 5, price_amount_quote = Coin 2\<rparr>"
    by code_simp
  with price_try_new_iff [of "Coin 30 :: unit coin" "Coin 12 :: bool coin" False] show ?thesis
    by (simp add: coin_ok_def)
qed

lemmas price_op_defs [op_defs] =
  price_new_def price_new_inner_def total_of_is_def price_identity_def price_inv_def total_def

end
