(* ===== verification/Ranges.thy ===== *)
theory Ranges
  imports Prelude
begin

text \<open>
  Right-open intervals (\<open>finance/src/range.rs\<close>). The marker type \<open>Ascending\<close> or
  \<open>Descending\<close> is phantom, so one record serves both; the functions of the descending
  interval say so in their name. Absence of \<open>range_start\<close> leaves the interval unbound.
\<close>

record 'a open_range =
  range_start :: "'a option"
  range_end :: 'a

definition new_ascending :: "'a option \<Rightarrow> 'a \<Rightarrow> 'a open_range" where
  "new_ascending start excl = \<lparr>range_start = start, range_end = excl\<rparr>"

definition new_descending :: "'a option \<Rightarrow> 'a \<Rightarrow> 'a open_range" where
  "new_descending start excl = \<lparr>range_start = start, range_end = excl\<rparr>"

definition up_to :: "'a \<Rightarrow> 'a open_range" where
  "up_to excl = new_ascending None excl"

definition down_from :: "'a \<Rightarrow> 'a open_range" where
  "down_from excl = new_descending None excl"

definition range_contains :: "'a::linorder open_range \<Rightarrow> 'a \<Rightarrow> bool" where
  "range_contains r t \<longleftrightarrow>
     (case range_start r of None \<Rightarrow> True | Some start \<Rightarrow> start \<le> t) \<and> t < range_end r"

definition range_invert :: "('a \<Rightarrow> 'b option) \<Rightarrow> 'a open_range \<Rightarrow> 'b open_range option" where
  "range_invert map_fn r =
     (case range_start r of
        None \<Rightarrow> do { excl \<leftarrow> map_fn (range_end r); Some (new_descending None excl) }
      | Some s \<Rightarrow> do {
          start \<leftarrow> map_fn s;
          excl \<leftarrow> map_fn (range_end r);
          Some (new_descending (Some start) excl)
        })"

definition unwrap_or :: "'a option \<Rightarrow> 'a \<Rightarrow> 'a" where
  "unwrap_or m d = (case m of None \<Rightarrow> d | Some x \<Rightarrow> x)"

definition cut_to :: "'a::linorder open_range \<Rightarrow> 'a \<Rightarrow> 'a open_range option" where
  "cut_to r to =
     do {
       start \<leftarrow> ord_clamp to (min (unwrap_or (range_start r) to) (range_end r)) (range_end r);
       Some (new_ascending (Some start) (range_end r))
     }"

definition cut_from :: "'a::linorder open_range \<Rightarrow> 'a \<Rightarrow> 'a open_range option" where
  "cut_from r from =
     do {
       excl \<leftarrow> ord_clamp from (min (unwrap_or (range_start r) from) (range_end r)) (range_end r);
       Some (new_ascending (range_start r) excl)
     }"

definition ascending_invariant :: "'a::linorder open_range \<Rightarrow> bool" where
  "ascending_invariant r \<longleftrightarrow>
     (case range_start r of None \<Rightarrow> True | Some start \<Rightarrow> start \<le> range_end r)"

definition descending_invariant :: "'a::linorder open_range \<Rightarrow> bool" where
  "descending_invariant r \<longleftrightarrow>
     (case range_start r of None \<Rightarrow> True | Some start \<Rightarrow> range_end r \<le> start)"

lemma range_simps [simp]:
  "range_start (new_ascending s e) = s" "range_end (new_ascending s e) = e"
  "range_start (new_descending s e) = s" "range_end (new_descending s e) = e"
  "range_start (up_to e) = None" "range_end (up_to e) = e"
  by (simp_all add: new_ascending_def new_descending_def up_to_def)

lemma unwrap_or_simps [simp]: "unwrap_or None d = d" "unwrap_or (Some x) d = x"
  by (simp_all add: unwrap_or_def)

lemma up_to_contains [simp]: "range_contains (up_to e) t \<longleftrightarrow> t < e"
  by (simp add: range_contains_def)

lemma up_to_invariant [simp]: "ascending_invariant (up_to e)"
  by (simp add: ascending_invariant_def)

lemma cut_to_up_to [simp]: "cut_to (up_to e) s = Some (new_ascending (Some (min s e)) e)"
  by (auto simp: cut_to_def ord_clamp_def min_def max_def)

lemma cut_to_eq:
  "cut_to r to = Some (new_ascending
     (Some (max (min (unwrap_or (range_start r) to) (range_end r)) (min to (range_end r)))) (range_end r))"
  by (simp add: cut_to_def ord_clamp_def)

lemma cut_from_eq:
  "cut_from r from = Some (new_ascending (range_start r)
     (max (min (unwrap_or (range_start r) from) (range_end r)) (min from (range_end r))))"
  by (simp add: cut_from_def ord_clamp_def)

lemma cut_to_start:
  assumes "cut_to r to = Some r'"
  shows "range_end r' = range_end r \<and> (\<exists>s. range_start r' = Some s \<and> (to \<le> s \<or> s = range_end r') \<and> s \<le> range_end r')"
  using assms by (cases "to \<le> range_end r") (auto simp: cut_to_eq)

lemma cut_from_end:
  assumes "cut_from r from = Some r'" "ascending_invariant r"
  shows "range_start r' = range_start r \<and> range_end r' \<le> range_end r
    \<and> (range_end r' \<le> from \<or> range_start r' = Some (range_end r'))"
proof (cases "range_start r")
  case None
  with assms show ?thesis by (auto simp: cut_from_eq)
next
  case (Some s)
  with assms(2) have le: "s \<le> range_end r" by (simp add: ascending_invariant_def)
  with assms(1) Some have r': "r' = new_ascending (Some s) (max s (min from (range_end r)))"
    by (simp add: cut_from_eq min_absorb1)
  show ?thesis
  proof (cases "from \<le> s")
    case True
    with le have "max s (min from (range_end r)) = s" by (simp add: max_absorb1 min.coboundedI1)
    with r' Some le show ?thesis by simp
  next
    case False
    with le have "max s (min from (range_end r)) = min from (range_end r)" by (simp add: max_absorb2)
    with r' Some show ?thesis by simp
  qed
qed

text \<open>
  Cutting never aborts, keeps the interval ascending, and removes exactly the values on the
  other side of the cut.
\<close>

lemma cut_to_spec:
  assumes "ascending_invariant r"
  shows "\<exists>r'. cut_to r to = Some r' \<and> ascending_invariant r' \<and> range_end r' = range_end r
           \<and> (\<forall>t. range_contains r' t \<longleftrightarrow> range_contains r t \<and> to \<le> t)"
  using assms
  by (cases "range_start r")
    (auto simp: cut_to_def ord_clamp_def ascending_invariant_def range_contains_def
      min_def max_def)

lemma cut_from_spec:
  assumes "ascending_invariant r"
  shows "\<exists>r'. cut_from r from = Some r' \<and> ascending_invariant r' \<and> range_start r' = range_start r
           \<and> (\<forall>t. range_contains r' t \<longleftrightarrow> range_contains r t \<and> t < from)"
  using assms
  by (cases "range_start r")
    (auto simp: cut_from_def ord_clamp_def ascending_invariant_def range_contains_def
      min_def max_def)

end
