(* ===== verification/Liabilities.thy ===== *)
theory Liabilities
  imports Durations Ranges
begin

text \<open>
  The liability limits of a lease (\<open>finance/src/liability/mod.rs\<close>, \<open>zone.rs\<close>,
  \<open>level.rs\<close>, \<open>unchecked.rs\<close>): the loan-to-value zones, the amount one may borrow
  against a downpayment, and the amount to liquidate when the debt crosses the maximum.
\<close>

section \<open>Levels and zones\<close>

datatype level = First percent | Second percent | Third percent | Max percent

definition level_ltv :: "level \<Rightarrow> percent" where
  "level_ltv l = (case l of First ltv \<Rightarrow> ltv | Second ltv \<Rightarrow> ltv | Third ltv \<Rightarrow> ltv | Max ltv \<Rightarrow> ltv)"

definition level_ordinal :: "level \<Rightarrow> nat" where
  "level_ordinal l = (case l of First _ \<Rightarrow> 1 | Second _ \<Rightarrow> 2 | Third _ \<Rightarrow> 3 | Max _ \<Rightarrow> 4)"

record zone =
  zone_low :: "level option"
  zone_high :: level

definition zone_no_warnings :: "percent \<Rightarrow> zone" where
  "zone_no_warnings high = \<lparr>zone_low = None, zone_high = First high\<rparr>"

definition zone_first :: "percent \<Rightarrow> percent \<Rightarrow> zone" where
  "zone_first low high = \<lparr>zone_low = Some (First low), zone_high = Second high\<rparr>"

definition zone_second :: "percent \<Rightarrow> percent \<Rightarrow> zone" where
  "zone_second low high = \<lparr>zone_low = Some (Second low), zone_high = Third high\<rparr>"

definition zone_third :: "percent \<Rightarrow> percent \<Rightarrow> zone" where
  "zone_third low high = \<lparr>zone_low = Some (Third low), zone_high = Max high\<rparr>"

definition zone_range :: "zone \<Rightarrow> percent open_range option" where
  "zone_range z =
     (let range_to = up_to (level_ltv (zone_high z))
      in case zone_low z of None \<Rightarrow> Some range_to | Some low \<Rightarrow> cut_to range_to (level_ltv low))"

lemma level_ltv_simps [simp]:
  "level_ltv (First p) = p" "level_ltv (Second p) = p" "level_ltv (Third p) = p" "level_ltv (Max p) = p"
  by (simp_all add: level_ltv_def)

lemma zone_simps [simp]:
  "zone_low (zone_no_warnings u) = None" "zone_high (zone_no_warnings u) = First u"
  "zone_low (zone_first l h) = Some (First l)" "zone_high (zone_first l h) = Second h"
  "zone_low (zone_second l h) = Some (Second l)" "zone_high (zone_second l h) = Third h"
  "zone_low (zone_third l h) = Some (Third l)" "zone_high (zone_third l h) = Max h"
  by (simp_all add: zone_no_warnings_def zone_first_def zone_second_def zone_third_def)

section \<open>Liability\<close>

record liability =
  initial :: percent
  healthy :: percent
  first_liq_warn :: percent
  second_liq_warn :: percent
  third_liq_warn :: percent
  max_ltv :: percent
  recalc_time :: duration

definition max_top_bound :: percent where
  "max_top_bound = percent_hundred"

definition min_step_ltv :: percent where
  "min_step_ltv = from_permille 1"

definition liability_check :: "bool \<Rightarrow> string \<Rightarrow> (finance_error, unit) res" where
  "liability_check held msg = broken_invariant_if (\<not> held) msg"

definition liability_invariant_held :: "liability \<Rightarrow> (finance_error, unit) res" where
  "liability_invariant_held l =
     and_then (liability_check (percent_zero < initial l) ''Initial % should not be zero'') (\<lambda>_.
     and_then (liability_check (initial l \<le> healthy l) ''Initial % should be <= healthy %'') (\<lambda>_.
     and_then (liability_check (healthy l < first_liq_warn l)
       ''Healthy % should be < first liquidation %'') (\<lambda>_.
     and_then (liability_check (first_liq_warn l < second_liq_warn l)
       ''First liquidation % should be < second liquidation %'') (\<lambda>_.
     and_then (liability_check (second_liq_warn l < third_liq_warn l)
       ''Second liquidation % should be < third liquidation %'') (\<lambda>_.
     and_then (liability_check (third_liq_warn l < max_ltv l)
       ''Third liquidation % should be < max %'') (\<lambda>_.
     and_then (liability_check (max_ltv l \<le> max_top_bound) ''Max % should be <= 100%'') (\<lambda>_.
     liability_check (duration_hour \<le> recalc_time l)
       ''Recalculation cadence should be >= 1h'')))))))"

text \<open>The conversion from an unchecked message, the only way to obtain a liability in production.\<close>

definition liability_try_from :: "liability \<Rightarrow> (finance_error, liability) res" where
  "liability_try_from dto = map_res (\<lambda>_. dto) (liability_invariant_held dto)"

definition cap_to_zone :: "liability \<Rightarrow> percent \<Rightarrow> percent option" where
  "cap_to_zone l ltv = do { top \<leftarrow> percent_sub (max_ltv l) min_step_ltv; Some (min ltv top) }"

definition zone_of :: "liability \<Rightarrow> percent \<Rightarrow> zone" where
  "zone_of l ltv =
     (if ltv < first_liq_warn l then zone_no_warnings (first_liq_warn l)
      else if ltv < second_liq_warn l then zone_first (first_liq_warn l) (second_liq_warn l)
      else if ltv < third_liq_warn l then zone_second (second_liq_warn l) (third_liq_warn l)
      else zone_third (third_liq_warn l) (max_ltv l))"

definition init_borrow_amount :: "liability \<Rightarrow> 'c coin \<Rightarrow> percent option \<Rightarrow> 'c coin option" where
  "init_borrow_amount l downpayment may_max_ltd =
     do {
       rest \<leftarrow> percent_sub percent_hundred (initial l);
       default_borrow \<leftarrow> coin_safe_mul downpayment (mk_ratio (units (initial l)) (units rest));
       (case may_max_ltd of
          Some max_ltd \<Rightarrow> do {
            requested_borrow \<leftarrow> percent_of_coin max_ltd downpayment;
            Some (min requested_borrow default_borrow)
          }
        | None \<Rightarrow> Some default_borrow)
     }"

definition amount_to_liquidate :: "liability \<Rightarrow> 'c coin \<Rightarrow> 'c coin \<Rightarrow> 'c coin option" where
  "amount_to_liquidate l lease_amount total_due =
     do {
       max_due \<leftarrow> percent_of_coin (max_ltv l) lease_amount;
       if total_due < max_due then Some coin_zero
       else if lease_amount \<le> total_due then Some lease_amount
       else do {
         rest \<leftarrow> percent_sub percent_hundred (healthy l);
         let multiplier = mk_ratio (units percent_hundred) (units rest);
         healthy_due \<leftarrow> percent_of_coin (healthy l) lease_amount;
         extra_liability_lpn \<leftarrow> coin_sub total_due (min total_due healthy_due);
         coin_safe_mul extra_liability_lpn multiplier
       }
     }"

section \<open>Facts\<close>

definition liability_ok :: "liability \<Rightarrow> bool" where
  "liability_ok l \<longleftrightarrow> liability_invariant_held l = Inr ()"

lemma liability_ok_iff:
  "liability_ok l \<longleftrightarrow>
     0 < units (initial l) \<and> initial l \<le> healthy l \<and> healthy l < first_liq_warn l \<and>
     first_liq_warn l < second_liq_warn l \<and> second_liq_warn l < third_liq_warn l \<and>
     third_liq_warn l < max_ltv l \<and> units (max_ltv l) \<le> 1000 \<and> duration_hour \<le> recalc_time l"
  by (simp add: liability_ok_def liability_invariant_held_def liability_check_def max_top_bound_def
      percent_order)

lemma liability_bounds:
  assumes "liability_ok l"
  shows "0 < units (healthy l)" "units (healthy l) < units (max_ltv l)" "units (max_ltv l) \<le> 1000"
    "units (initial l) \<le> units (healthy l)"
  using assms by (auto simp: liability_ok_iff percent_order)

lemma cap_to_zone_below_max:
  "liability_ok l \<Longrightarrow> \<exists>ltv'. cap_to_zone l ltv = Some ltv' \<and> ltv' < max_ltv l \<and> ltv' \<le> ltv"
  by (auto simp: cap_to_zone_def min_step_ltv_def liability_ok_iff percent_order percent_sub_def
      min_def)

lemma zone_of_bounds:
  assumes "liability_ok l"
  shows "\<exists>r. zone_range (zone_of l v) = Some r \<and> ascending_invariant r \<and> range_end r \<le> max_ltv l"
  using assms
  by (auto simp: zone_of_def zone_range_def Let_def liability_ok_iff ascending_invariant_def)

text \<open>
  Any loan-to-value below the maximum belongs to the zone \<open>zone_of\<close> selects: the zone
  has a range, the range is ascending and contains the value, its upper end never crosses
  the maximum, and capping a value to a zone makes it eligible.
\<close>

theorem zone_of_contains:
  assumes "liability_ok l" "ltv < max_ltv l"
  shows "\<exists>r. zone_range (zone_of l ltv) = Some r \<and> ascending_invariant r
    \<and> range_contains r ltv \<and> range_end r \<le> max_ltv l
    \<and> range_end r = level_ltv (zone_high (zone_of l ltv))
    \<and> range_start r = map_option level_ltv (zone_low (zone_of l ltv))"
  using assms
  by (auto simp: zone_of_def zone_range_def Let_def liability_ok_iff
      ascending_invariant_def range_contains_def min_def)

theorem zone_of_contains_witness:
  "let l = \<lparr>initial = Percent 600, healthy = Percent 650, first_liq_warn = Percent 700,
      second_liq_warn = Percent 750, third_liq_warn = Percent 780, max_ltv = Percent 800,
      recalc_time = duration_hour\<rparr>
   in \<exists>r. zone_range (zone_of l (Percent 760)) = Some r \<and> range_contains r (Percent 760)
     \<and> range_start r = Some (Percent 750) \<and> range_end r = Percent 780"
proof -
  let ?l = "\<lparr>initial = Percent 600, healthy = Percent 650, first_liq_warn = Percent 700,
      second_liq_warn = Percent 750, third_liq_warn = Percent 780, max_ltv = Percent 800,
      recalc_time = duration_hour\<rparr>"
  have "liability_ok ?l" by (simp add: liability_ok_iff percent_order)
  from zone_of_contains [OF this, of "Percent 760"] show ?thesis
    by (auto simp: zone_of_def percent_order)
qed

section \<open>Borrowing\<close>

lemma init_borrow_bound:
  assumes "liability_ok l" "init_borrow_amount l downpayment may_max_ltd = Some borrow"
  shows "1000 * amount borrow \<le> units (initial l) * (amount borrow + amount downpayment)
    \<and> (\<forall>max_ltd. may_max_ltd = Some max_ltd \<longrightarrow>
         1000 * amount borrow \<le> units max_ltd * amount downpayment)"
proof -
  define i d b where "i = units (initial l)" and "d = amount downpayment" and "b = amount borrow"
  have i: "0 < i" "i < 1000"
    using assms(1) liability_bounds [OF assms(1)] by (auto simp: i_def liability_ok_iff)
  have "b \<le> d * i div (1000 - i)"
    using assms(2) i
    by (auto simp: init_borrow_amount_def percent_sub_Some coin_safe_mul_Some_iff percent_of_coin_Some
        i_def b_def d_def split: option.splits)
  then have "b * (1000 - i) \<le> d * i"
    using mult_div_bounds(1) [of "1000 - i" d i] i by (meson le_trans mult_le_mono1 zero_less_diff)
  then have le: "1000 * b \<le> i * (b + d)"
    using i by (simp add: algebra_simps diff_mult_distrib2)
  have "1000 * b \<le> units m * d" if "may_max_ltd = Some m" for m
  proof -
    have "b \<le> d * units m div 1000"
      using assms(2) that by (auto simp: init_borrow_amount_def percent_of_coin_Some b_def d_def)
    then show ?thesis using mult_div_bounds(1) [of 1000 d "units m"] by (simp add: mult.commute)
  qed
  with le show ?thesis by (simp add: i_def b_def d_def)
qed

lemma amount_to_liquidate_below:
  assumes "liability_ok l" "coin_ok lease_amount"
    and "1000 * amount due \<le> units (initial l) * amount lease_amount" "0 < amount lease_amount"
    and "1000 \<le> amount lease_amount * (units (max_ltv l) - units (initial l))"
  shows "amount_to_liquidate l lease_amount due = Some coin_zero"
proof -
  let ?a = "amount lease_amount" and ?i = "units (initial l)" and ?m = "units (max_ltv l)"
  note b = liability_bounds [OF assms(1)]
  have "percent_of_coin (max_ltv l) lease_amount = Some (Coin (?a * ?m div 1000))"
    using b assms(2) by (simp add: percent_of_coin_proper)
  moreover have "amount due < ?a * ?m div 1000"
  proof -
    have "?a * ?m = ?a * ?i + ?a * (?m - ?i)" using b by (simp flip: distrib_left)
    then have "1000 * (amount due + 1) \<le> ?a * ?m" using assms(3,5) by (simp add: mult.commute)
    then have "amount due + 1 \<le> ?a * ?m div 1000" by (simp add: less_eq_div_iff_mult_less_eq mult.commute)
    then show ?thesis by simp
  qed
  ultimately show ?thesis by (simp add: amount_to_liquidate_def coin_order)
qed

text \<open>
  The amount one may borrow keeps the loan within the initial percent of the total,
  that is borrow / (borrow + downpayment) <= initial, and within the requested
  loan-to-downpayment when there is one.
\<close>

theorem init_borrow_within_initial:
  assumes "liability_ok l" "init_borrow_amount l downpayment may_max_ltd = Some borrow"
  shows "1000 * amount borrow \<le> units (initial l) * (amount borrow + amount downpayment)
    \<and> (\<forall>max_ltd. may_max_ltd = Some max_ltd \<longrightarrow>
         1000 * amount borrow \<le> units max_ltd * amount downpayment)"
  using init_borrow_bound [OF assms] .

theorem init_borrow_within_initial_witness:
  "let l = \<lparr>initial = Percent 650, healthy = Percent 700, first_liq_warn = Percent 730,
      second_liq_warn = Percent 750, third_liq_warn = Percent 780, max_ltv = Percent 800,
      recalc_time = duration_hour\<rparr>
   in init_borrow_amount l (Coin 1000 :: unit coin) (Some (Percent 1200)) = Some (Coin 1200)
     \<and> init_borrow_amount l (Coin 1000 :: unit coin) None = Some (Coin 1857)
     \<and> 1000 * (1857::nat) \<le> 650 * (1857 + 1000)"
proof -
  let ?l = "\<lparr>initial = Percent 650, healthy = Percent 700, first_liq_warn = Percent 730,
      second_liq_warn = Percent 750, third_liq_warn = Percent 780, max_ltv = Percent 800,
      recalc_time = duration_hour\<rparr>"
  have ok: "liability_ok ?l" by (simp add: liability_ok_iff percent_order)
  have "init_borrow_amount ?l (Coin 1000 :: unit coin) (Some (Percent 1200)) = Some (Coin 1200)"
    and b: "init_borrow_amount ?l (Coin 1000 :: unit coin) None = Some (Coin 1857)"
    by (simp_all add: init_borrow_amount_def percent_sub_Some coin_safe_mul_Some_iff
        percent_of_coin_Some min_def coin_order)
  with init_borrow_within_initial [OF ok b] show ?thesis by (simp add: Let_def)
qed


section \<open>Liquidation\<close>

text \<open>
  The liquidation of a debt \<open>due\<close> below the lease amount, with the healthy permilles
  \<open>h\<close>: it brings the debt to the healthy percent of what is left, within the truncation.
\<close>

lemma liquidation_arith:
  fixes due lease h :: nat
  assumes h: "0 < h" "h < 1000" and lt: "due < lease"
  defines "liq \<equiv> (due - lease * h div 1000) * 1000 div (1000 - h)"
  assumes le: "lease * h div 1000 \<le> due"
  shows "liq \<le> due"
    and "1000 * (due - liq) < h * (lease - liq) + (1000 - h)"
    and "h * (lease - liq) < 1000 * (due - liq) + 1000"
proof -
  let ?e = "due - lease * h div 1000"
  have q: "lease * h div 1000 * 1000 \<le> lease * h" "lease * h < lease * h div 1000 * 1000 + 1000"
    using mult_div_bounds [of 1000 lease h] by simp_all
  have l: "liq * (1000 - h) \<le> ?e * 1000" "?e * 1000 < liq * (1000 - h) + (1000 - h)"
    using mult_div_bounds [of "1000 - h" ?e 1000] h
    unfolding liq_def by (simp_all only: zero_less_diff add_mult_distrib mult_1)
  have e: "?e * 1000 + lease * h div 1000 * 1000 = due * 1000"
    using le by (simp flip: distrib_right)
  have split: "due * 1000 = due * (1000 - h) + due * h"
    using h by (simp flip: distrib_left)
  have "due * h + h \<le> lease * h" using lt by (metis Suc_leI mult_Suc mult_le_mono1 add.commute)
  then have "liq * (1000 - h) < due * (1000 - h) + (1000 - h)"
    using l(1) e q(2) split h by linarith
  then have "liq * (1000 - h) < (due + 1) * (1000 - h)" by (simp add: distrib_right)
  then show le_due: "liq \<le> due" using h by (simp only: mult_less_cancel2) simp
  have s1: "1000 * (due - liq) = due * 1000 - liq * 1000" by (simp add: diff_mult_distrib2 mult.commute)
  have s2: "h * (lease - liq) = lease * h - liq * h" by (simp add: diff_mult_distrib2 mult.commute)
  have s3: "liq * 1000 = liq * (1000 - h) + liq * h"
    using h by (simp flip: distrib_left)
  have b: "liq * 1000 \<le> due * 1000" "liq * h \<le> lease * h" using le_due lt by simp_all
  show "1000 * (due - liq) < h * (lease - liq) + (1000 - h)"
    using s1 s2 s3 b l q e by linarith
  show "h * (lease - liq) < 1000 * (due - liq) + 1000"
    using s1 s2 s3 b l q e h by linarith
qed

text \<open>
  C35. The amount to liquidate is always computed. It is zero while the debt is below the
  maximum percent of the lease amount, the whole lease when the debt has reached it, and
  otherwise never more than the debt and such that what is left of the debt is the healthy
  percent of what is left of the lease, up to less than one unit of rounding either way.
\<close>

theorem amount_to_liquidate_restores_healthy:
  assumes "liability_ok l" "coin_ok lease_amount"
  shows "\<exists>liq. amount_to_liquidate l lease_amount total_due = Some liq \<and>
    (if amount total_due < amount lease_amount * units (max_ltv l) div 1000 then amount liq = 0
     else if amount lease_amount \<le> amount total_due then liq = lease_amount
     else liq \<le> total_due \<and>
       1000 * (amount total_due - amount liq)
         < units (healthy l) * (amount lease_amount - amount liq) + (1000 - units (healthy l)) \<and>
       units (healthy l) * (amount lease_amount - amount liq)
         < 1000 * (amount total_due - amount liq) + 1000)"
proof -
  note b = liability_bounds [OF assms(1)]
  let ?h = "units (healthy l)"
  let ?max = "amount lease_amount * units (max_ltv l) div 1000"
  have h: "?h < 1000" using b by simp
  have max_due: "percent_of_coin (max_ltv l) lease_amount = Some (Coin ?max)"
    and healthy_due: "percent_of_coin (healthy l) lease_amount = Some (Coin (amount lease_amount * ?h div 1000))"
    using b assms(2) by (simp_all add: percent_of_coin_proper)
  consider (below) "amount total_due < ?max" | (over) "?max \<le> amount total_due" "amount lease_amount \<le> amount total_due"
    | (partial) "?max \<le> amount total_due" "amount total_due < amount lease_amount" by linarith
  then show ?thesis
  proof cases
    case below
    then show ?thesis by (simp add: amount_to_liquidate_def max_due coin_order)
  next
    case over
    then show ?thesis by (simp add: amount_to_liquidate_def max_due coin_order)
  next
    case partial
    let ?liq = "(amount total_due - amount lease_amount * ?h div 1000) * 1000 div (1000 - ?h)"
    have "amount lease_amount * ?h div 1000 \<le> ?max"
      using b by (intro div_le_mono mult_le_mono2) simp
    with partial have le: "amount lease_amount * ?h div 1000 \<le> amount total_due" by simp
    note arith = liquidation_arith [OF b(1) h partial(2) le]
    have "?liq < 2 ^ 128"
      using arith(1) partial(2) assms(2) by (simp add: coin_ok_def)
    then have "amount_to_liquidate l lease_amount total_due = Some (Coin ?liq)"
      using partial h le
      by (simp add: amount_to_liquidate_def max_due healthy_due coin_order percent_sub_def
          coin_safe_mul_Some_iff Let_def)
    then show ?thesis using arith partial by (simp add: coin_order)
  qed
qed

theorem amount_to_liquidate_restores_healthy_witness:
  "let l = \<lparr>initial = Percent 600, healthy = Percent 650, first_liq_warn = Percent 700,
      second_liq_warn = Percent 750, third_liq_warn = Percent 780, max_ltv = Percent 800,
      recalc_time = duration_hour\<rparr>
   in \<exists>liq. amount_to_liquidate l (Coin 1000 :: unit coin) (Coin 820) = Some liq
     \<and> 1000 * (820 - amount liq) < 650 * (1000 - amount liq) + 350
     \<and> 650 * (1000 - amount liq) < 1000 * (820 - amount liq) + 1000"
proof -
  let ?l = "\<lparr>initial = Percent 600, healthy = Percent 650, first_liq_warn = Percent 700,
      second_liq_warn = Percent 750, third_liq_warn = Percent 780, max_ltv = Percent 800,
      recalc_time = duration_hour\<rparr>"
  have "liability_ok ?l" by (simp add: liability_ok_iff percent_order)
  from amount_to_liquidate_restores_healthy [OF this, of "Coin 1000 :: unit coin" "Coin 820"]
  show ?thesis by (auto simp: coin_ok_def)
qed

end
