(* ===== verification/Fund.thy ===== *)
theory Fund
  imports Prelude
begin

text \<open>
  The abstract specification of a pool of lenders: an amount of assets divided into shares.
  Shares are minted and burnt at the price of the moment, rounded in favour of the fund;
  in between the assets may only grow. What the lenders rely on is proved here once: the
  price of a share never goes down and never gets below one.
\<close>

record fund =
  assets :: nat
  shares :: nat

text \<open>Each step first lets the assets grow to \<open>v\<close>, by interest, donations or repayments.\<close>

inductive fund_step :: "fund \<Rightarrow> fund \<Rightarrow> bool" where
  grow: "assets f \<le> v \<Longrightarrow> fund_step f (f\<lparr>assets := v\<rparr>)"
| mint: "assets f \<le> v \<Longrightarrow> minted = (if shares f = 0 then deposited else deposited * shares f div v) \<Longrightarrow>
    fund_step f \<lparr>assets = v + deposited, shares = shares f + minted\<rparr>"
| burn: "assets f \<le> v \<Longrightarrow> burnt \<le> shares f \<Longrightarrow> 0 < shares f \<Longrightarrow> v - burnt * v div shares f \<le> v' \<Longrightarrow>
    fund_step f \<lparr>assets = v', shares = shares f - burnt\<rparr>"

definition fund_solvent :: "fund \<Rightarrow> bool" where
  "fund_solvent f \<longleftrightarrow> shares f \<le> assets f"

text \<open>The price of a share, \<open>assets / shares\<close>, is at most that of \<open>f'\<close>; no shares, no price.\<close>

definition price_not_above :: "fund \<Rightarrow> fund \<Rightarrow> bool" where
  "price_not_above f f' \<longleftrightarrow>
     0 < shares f \<and> 0 < shares f' \<longrightarrow> assets f * shares f' \<le> assets f' * shares f"

lemma minted_price:
  fixes v a s :: nat
  shows "v * (a * s div v) \<le> a * s"
  by (metis div_times_less_eq_dividend mult.commute)

lemma minted_le:
  fixes v a s :: nat
  assumes "s \<le> v"
  shows "a * s div v \<le> a"
  using assms by (rule mult_div_le_self)

lemma burnt_value:
  fixes v b s :: nat
  assumes "b \<le> s" "0 < s"
  shows "v * (s - b) \<le> (v - b * v div s) * s"
proof -
  have "b * v div s * s \<le> b * v" by (rule div_times_less_eq_dividend)
  then have "v * s - b * v \<le> v * s - b * v div s * s" by (rule diff_le_mono2)
  then show ?thesis by (simp add: diff_mult_distrib diff_mult_distrib2 mult.commute)
qed

lemma fund_step_price:
  assumes "fund_step f f'" "fund_solvent f"
  shows "price_not_above f f'"
  using assms(1)
proof cases
  case (grow v)
  then show ?thesis by (simp add: price_not_above_def)
next
  case (mint v minted deposited)
  have "assets f * (shares f + minted) \<le> (v + deposited) * shares f" if "0 < shares f"
  proof -
    have "assets f * (shares f + minted) \<le> v * (shares f + minted)"
      using mint(2) by simp
    also have "\<dots> = v * shares f + v * (deposited * shares f div v)"
      using mint(3) that by (simp add: distrib_left)
    also have "\<dots> \<le> v * shares f + deposited * shares f"
      by (simp only: minted_price add_le_mono le_refl)
    finally show ?thesis by (simp add: distrib_right)
  qed
  then show ?thesis using mint(1) by (simp add: price_not_above_def)
next
  case (burn v burnt v')
  have "assets f * (shares f - burnt) \<le> v * (shares f - burnt)" using burn(2) by simp
  also have "\<dots> \<le> (v - burnt * v div shares f) * shares f" using burn(3,4) by (rule burnt_value)
  also have "\<dots> \<le> v' * shares f" using burn(5) by simp
  finally show ?thesis using burn(1) by (simp add: price_not_above_def)
qed

lemma fund_step_solvent:
  assumes "fund_step f f'" "fund_solvent f"
  shows "fund_solvent f'"
  using assms(1)
proof cases
  case (grow v)
  with assms(2) show ?thesis by (simp add: fund_solvent_def)
next
  case (mint v minted deposited)
  then have "minted \<le> deposited"
    using assms(2) by (auto simp: fund_solvent_def intro: minted_le)
  with mint assms(2) show ?thesis by (simp add: fund_solvent_def)
next
  case (burn v burnt v')
  have "(shares f - burnt) * shares f \<le> v * (shares f - burnt)"
    using burn(2) assms(2) by (simp add: fund_solvent_def mult.commute)
  also have "\<dots> \<le> (v - burnt * v div shares f) * shares f" using burn(3,4) by (rule burnt_value)
  also have "\<dots> \<le> v' * shares f" using burn(5) by simp
  finally have "shares f - burnt \<le> v'" using burn(4) by simp
  with burn(1) show ?thesis by (simp add: fund_solvent_def)
qed

end
