(* ===== verification/Platform.thy ===== *)
theory Platform
  imports Coins
begin

text \<open>
  What the contracts use of the platform: coins on the wire and the funds of a message
  (\<open>platform/src/bank.rs\<close>, \<open>platform/src/coin_legacy.rs\<close>), outgoing bank transfers, the
  check of a contract's code (\<open>platform/src/contract.rs\<close>), access control
  (\<open>access-control/src/lib.rs\<close>), and the storage maps of \<open>cw_storage_plus\<close>, which are
  given by the laws of the locale \<open>storage_map\<close>. A currency is named on the wire by its
  bank symbol, an argument of the functions that need it.
\<close>

type_synonym addr = string

record cw_coin =
  denom :: string
  cw_amount :: nat

datatype platform_error =
    NoFunds string
  | UnexpectedFunds string
  | UnexpectedCode nat addr
  | PlatformCurrency string
  | CosmWasmQueryContractInfo
  | CosmWasmQueryBalance
  | CosmWasmQueryAllBalances
  | PlatformDeserialization
  | InvalidICAHostAccount
  | ProtobufDecode
  | ProtobufInvalidType string string

datatype access_error = Unauthorized | AccessStd

section \<open>Funds\<close>

definition from_cosmwasm :: "string \<Rightarrow> cw_coin \<Rightarrow> (platform_error, 'c coin) res" where
  "from_cosmwasm symbol c =
     (if denom c = symbol then Inr (Coin (cw_amount c)) else Inl (Fail (PlatformCurrency (denom c))))"

definition received_one_impl :: "cw_coin list \<Rightarrow> platform_error \<Rightarrow> platform_error \<Rightarrow> (platform_error, cw_coin) res" where
  "received_one_impl cw_coins no_funds_err unexp_funds_err =
     (case cw_coins of
        [] \<Rightarrow> Inl (Fail no_funds_err)
      | [first] \<Rightarrow> Inr first
      | _ \<Rightarrow> Inl (Fail unexp_funds_err))"

definition received_one :: "string \<Rightarrow> cw_coin list \<Rightarrow> (platform_error, 'c coin) res" where
  "received_one symbol cw_coins =
     and_then (received_one_impl cw_coins (NoFunds symbol) (UnexpectedFunds symbol))
       (from_cosmwasm symbol)"

lemma cw_coin_eq_iff: "c = \<lparr>denom = s, cw_amount = n\<rparr> \<longleftrightarrow> denom c = s \<and> cw_amount c = n"
  by (cases c) auto

lemma received_one_Inr:
  "received_one symbol cs = Inr c \<longleftrightarrow> cs = [\<lparr>denom = symbol, cw_amount = amount c\<rparr>]"
  unfolding received_one_def received_one_impl_def from_cosmwasm_def
  by (cases cs rule: list.exhaust; cases "tl cs"; cases c) (auto simp: cw_coin_eq_iff)

section \<open>Outgoing messages\<close>

text \<open>The messages a contract schedules, in order, without a reply expected.\<close>

datatype cosmos_msg = BankSend addr "cw_coin list"

definition to_cosmwasm :: "string \<Rightarrow> 'c coin \<Rightarrow> cw_coin" where
  "to_cosmwasm symbol c = \<lparr>denom = symbol, cw_amount = amount c\<rparr>"

definition bank_send :: "string \<Rightarrow> 'c coin \<Rightarrow> addr \<Rightarrow> cosmos_msg list \<Rightarrow> cosmos_msg list" where
  "bank_send symbol c to batch = batch @ [BankSend to [to_cosmwasm symbol c]]"

text \<open>The total of a denomination that a batch moves from the account \<open>self\<close> elsewhere.\<close>

definition coins_of :: "string \<Rightarrow> cw_coin list \<Rightarrow> nat" where
  "coins_of symbol cs = sum_list (map cw_amount (filter (\<lambda>c. denom c = symbol) cs))"

definition msg_outflow :: "addr \<Rightarrow> string \<Rightarrow> cosmos_msg \<Rightarrow> nat" where
  "msg_outflow self symbol m = (case m of BankSend to cs \<Rightarrow> if to = self then 0 else coins_of symbol cs)"

definition outflow :: "addr \<Rightarrow> string \<Rightarrow> cosmos_msg list \<Rightarrow> nat" where
  "outflow self symbol ms = sum_list (map (msg_outflow self symbol) ms)"

lemma coins_of_simps [simp]:
  "coins_of s [] = 0"
  "coins_of s (c # cs) = (if denom c = s then cw_amount c else 0) + coins_of s cs"
  by (simp_all add: coins_of_def)

lemma outflow_Nil [simp]: "outflow self s [] = 0"
  by (simp add: outflow_def)

lemma outflow_bank_send [simp]:
  "outflow self s (bank_send s' c to ms) =
     outflow self s ms + (if to \<noteq> self \<and> s' = s then amount c else 0)"
  by (simp add: outflow_def bank_send_def msg_outflow_def to_cosmwasm_def)

section \<open>Contracts and access\<close>

text \<open>\<open>code_id_of\<close> is the chain's answer to a contract info query.\<close>

definition validate_code_id :: "(addr \<Rightarrow> nat option) \<Rightarrow> addr \<Rightarrow> nat \<Rightarrow> (platform_error, unit) res" where
  "validate_code_id code_id_of contract_address expected_code =
     and_then (ok_or CosmWasmQueryContractInfo (code_id_of contract_address)) (\<lambda>code_id.
       if code_id = expected_code then Inr ()
       else Inl (Fail (UnexpectedCode expected_code contract_address)))"

definition validate_addr :: "(addr \<Rightarrow> nat option) \<Rightarrow> addr \<Rightarrow> (platform_error, unit) res" where
  "validate_addr code_id_of contract_address =
     map_res (\<lambda>_. ()) (ok_or CosmWasmQueryContractInfo (code_id_of contract_address))"

definition access_check :: "addr \<Rightarrow> addr \<Rightarrow> (access_error, unit) res" where
  "access_check permitted_to accessed_by =
     (if permitted_to = accessed_by then Inr () else Inl (Fail Unauthorized))"

definition single_user_check :: "addr option \<Rightarrow> addr \<Rightarrow> (access_error, unit) res" where
  "single_user_check stored user =
     and_then (ok_or AccessStd stored) (\<lambda>granted_to. access_check granted_to user)"

lemma validate_code_id_Inr [simp]:
  "validate_code_id code_id_of a code = Inr u \<longleftrightarrow> code_id_of a = Some code"
  by (auto simp: validate_code_id_def split: if_splits)

lemma single_user_check_Inr [simp]: "single_user_check st user = Inr u \<longleftrightarrow> st = Some user"
  by (auto simp: single_user_check_def access_check_def split: if_splits)

section \<open>Storage maps\<close>

text \<open>
  The laws of \<open>cw_storage_plus::Map\<close> the contracts rely on. \<open>may_load\<close> reads a state,
  \<open>save\<close> and \<open>remove\<close> return the new one.
\<close>

definition value_at :: "('v \<Rightarrow> nat) \<Rightarrow> 'v option \<Rightarrow> nat" where
  "value_at f m = (case m of None \<Rightarrow> 0 | Some v \<Rightarrow> f v)"

definition ledger_total :: "('v \<Rightarrow> nat) \<Rightarrow> (addr \<Rightarrow> 'v option) \<Rightarrow> nat" where
  "ledger_total f m = (\<Sum>k \<in> dom m. value_at f (m k))"

lemma value_at_simps [simp]: "value_at f None = 0" "value_at f (Some v) = f v"
  by (simp_all add: value_at_def)

lemma ledger_total_empty [simp]: "ledger_total f Map.empty = 0"
  by (simp add: ledger_total_def)

lemma ledger_total_update:
  assumes "finite (dom m)"
  shows "ledger_total f (m(k := v)) + value_at f (m k) = ledger_total f m + value_at f v"
proof -
  have fin: "finite (dom m - {k})" using assms by simp
  have split: "ledger_total f m' = value_at f (m' k) + (\<Sum>i \<in> dom m' - {k}. value_at f (m' i))"
    if "finite (dom m')" for m' :: "addr \<Rightarrow> 'a option"
    using that by (cases "k \<in> dom m'") (auto simp: ledger_total_def sum.remove domIff)
  have "dom (m(k := v)) - {k} = dom m - {k}" by (auto split: if_splits)
  moreover have "finite (dom (m(k := v)))" using assms by simp
  ultimately have "ledger_total f (m(k := v)) = value_at f v + (\<Sum>i \<in> dom m - {k}. value_at f (m i))"
    using split [of "m(k := v)"] by simp
  then show ?thesis using split [OF assms] by simp
qed

locale storage_map =
  fixes may_load :: "'s \<Rightarrow> addr \<Rightarrow> 'v option"
    and save :: "'s \<Rightarrow> addr \<Rightarrow> 'v \<Rightarrow> 's"
    and remove :: "'s \<Rightarrow> addr \<Rightarrow> 's"
  assumes load_save: "may_load (save s k v) k' = (if k' = k then Some v else may_load s k')"
    and load_remove: "may_load (remove s k) k' = (if k' = k then None else may_load s k')"
begin

lemma load_save_same [simp]: "may_load (save s k v) k = Some v"
  by (simp add: load_save)

lemma load_remove_same [simp]: "may_load (remove s k) k = None"
  by (simp add: load_remove)

lemma load_save_eq: "may_load (save s k v) = (may_load s)(k := Some v)"
  by (auto simp: load_save)

lemma load_remove_eq: "may_load (remove s k) = (may_load s)(k := None)"
  by (auto simp: load_remove)

lemma finite_save: "finite (dom (may_load s)) \<Longrightarrow> finite (dom (may_load (save s k v)))"
  by (simp add: load_save_eq)

lemma finite_remove: "finite (dom (may_load s)) \<Longrightarrow> finite (dom (may_load (remove s k)))"
  by (simp add: load_remove_eq)

lemma total_save:
  assumes "finite (dom (may_load s))"
  shows "ledger_total f (may_load (save s k v)) + value_at f (may_load s k)
    = ledger_total f (may_load s) + f v"
  using ledger_total_update [OF assms, of f k "Some v"] by (simp add: load_save_eq)

lemma total_remove:
  assumes "finite (dom (may_load s))"
  shows "ledger_total f (may_load (remove s k)) + value_at f (may_load s k)
    = ledger_total f (may_load s)"
  using ledger_total_update [OF assms, of f k None] by (simp add: load_remove_eq)

end

lemma ledger_total_ge:
  "finite (dom m) \<Longrightarrow> m k = Some v \<Longrightarrow> f v \<le> ledger_total f m"
  unfolding ledger_total_def
  by (metis domI value_at_simps(2) member_le_sum zero_le)

lemmas platform_op_defs [op_defs] =
  received_one_def received_one_impl_def from_cosmwasm_def validate_code_id_def single_user_check_def
  access_check_def

end
