(* ===== verification/Lpp_Loan.thy ===== *)
theory Lpp_Loan
  imports Platform Interest
begin

text \<open>
  The loans of the liquidity pool (\<open>lpp/src/loan.rs\<close>), the repository that stores them
  (\<open>lpp/src/loans.rs\<close>), and the errors of the contract (\<open>lpp/src/contract/error.rs\<close>,
  without the texts the wrapped errors carry).
\<close>

datatype lpp_error =
    LppStd
  | ConvertToBinary
  | LppCurrency
  | InvalidOracleBaseCurrency
  | ConvertFromQuote
  | LppFinance finance_error
  | LppPlatform platform_error
  | UpdateSoftware
  | LppUnauthorized access_error
  | UnknownCurrency
  | NoLiquidity
  | NoLoan
  | LoanExists
  | NoDeposit
  | ZeroLoanAmount
  | ZeroDepositFunds
  | ZeroWithdrawFunds
  | NoRewards
  | ZeroRewardsFunds
  | ZeroBalanceRewards
  | FundsLen
  | InsufficientBalance
  | UtilizationBelowMinimalRates
  | LppOverflow string
  | NoResponseStubError

section \<open>A loan\<close>

record 'l loan =
  principal_due :: "'l coin"
  annual_interest_rate :: percent
  interest_paid :: timestamp

record 'l repay_shares =
  shares_interest :: "'l coin"
  shares_principal :: "'l coin"
  shares_excess :: "'l coin"

definition due_period :: "'l loan \<Rightarrow> timestamp \<Rightarrow> duration option" where
  "due_period ln by = duration_between (interest_paid ln) (max by (interest_paid ln))"

definition interest_due :: "'l loan \<Rightarrow> timestamp \<Rightarrow> 'l coin option" where
  "interest_due ln by =
     do {
       period \<leftarrow> due_period ln by;
       interest (percent_ratio (annual_interest_rate ln)) (principal_due ln) period
     }"

definition loan_repay :: "'l loan \<Rightarrow> timestamp \<Rightarrow> 'l coin \<Rightarrow> ('l loan \<times> 'l repay_shares) option" where
  "loan_repay ln by repayment =
     do {
       period \<leftarrow> due_period ln by;
       (paid_for, interest_change) \<leftarrow>
         pay (percent_ratio (annual_interest_rate ln)) (principal_due ln) repayment period;
       interest_share \<leftarrow> coin_sub repayment interest_change;
       let principal_paid = min interest_change (principal_due ln);
       excess \<leftarrow> coin_sub interest_change principal_paid;
       new_principal \<leftarrow> coin_sub_assign (principal_due ln) principal_paid;
       new_paid \<leftarrow> timestamp_add (interest_paid ln) paid_for;
       Some (ln\<lparr>principal_due := new_principal, interest_paid := new_paid\<rparr>,
             \<lparr>shares_interest = interest_share, shares_principal = principal_paid,
              shares_excess = excess\<rparr>)
     }"

section \<open>The repository\<close>

type_synonym 'l loans = "addr \<Rightarrow> 'l loan option"

definition loans_may_load :: "'l loans \<Rightarrow> addr \<Rightarrow> 'l loan option" where
  "loans_may_load m a = m a"

definition loans_save :: "'l loans \<Rightarrow> addr \<Rightarrow> 'l loan \<Rightarrow> 'l loans" where
  "loans_save m a ln = m(a \<mapsto> ln)"

definition loans_remove :: "'l loans \<Rightarrow> addr \<Rightarrow> 'l loans" where
  "loans_remove m a = m(a := None)"

interpretation loans: storage_map loans_may_load loans_save loans_remove
  by unfold_locales (auto simp: loans_may_load_def loans_save_def loans_remove_def)

definition repo_open :: "'l loans \<Rightarrow> addr \<Rightarrow> 'l loan \<Rightarrow> (lpp_error, 'l loans) res" where
  "repo_open m a ln =
     (if loans_may_load m a \<noteq> None then Inl (Fail LoanExists) else Inr (loans_save m a ln))"

definition repo_load :: "'l loans \<Rightarrow> addr \<Rightarrow> (lpp_error, 'l loan) res" where
  "repo_load m a = ok_or LppStd (loans_may_load m a)"

definition repo_save :: "'l loans \<Rightarrow> addr \<Rightarrow> 'l loan \<Rightarrow> (lpp_error, 'l loans) res" where
  "repo_save m a ln =
     (if coin_is_zero (principal_due ln) then Inr (loans_remove m a)
      else map_res
        (\<lambda>loaded_loan. loans_save m a
          (loaded_loan\<lparr>principal_due := principal_due ln, interest_paid := interest_paid ln\<rparr>))
        (ok_or NoLoan (loans_may_load m a)))"

definition repo_query :: "'l loans \<Rightarrow> addr \<Rightarrow> 'l loan option" where
  "repo_query m a = loans_may_load m a"

section \<open>Facts\<close>

definition loan_ok :: "'l loan \<Rightarrow> bool" where
  "loan_ok ln \<longleftrightarrow> coin_ok (principal_due ln) \<and> timestamp_ok (interest_paid ln)"

lemma due_period_Some [simp]:
  "due_period ln by = Some (Duration (at_nanos by - at_nanos (interest_paid ln)))"
  by (auto simp: due_period_def time_order max_def)

lemma interest_due_Some:
  "interest_due ln by = Some i \<longleftrightarrow>
     interest (percent_ratio (annual_interest_rate ln)) (principal_due ln)
       (Duration (at_nanos by - at_nanos (interest_paid ln))) = Some i"
  by (simp add: interest_due_def)

text \<open>The shares of a repayment, the new principal and the time up to which interest is paid.\<close>

lemma loan_repay_Some_iff:
  fixes payment :: "'l coin"
  assumes "interest_due ln by = Some due" "timestamp_ok by" "loan_ok ln"
  defines "i \<equiv> min (amount due) (amount payment)"
  defines "pr \<equiv> min (amount payment - amount due) (amount (principal_due ln))"
  shows "loan_repay ln by payment = Some (ln', shares) \<longleftrightarrow>
    ln' = ln\<lparr>principal_due := Coin (amount (principal_due ln) - pr),
      interest_paid := Timestamp (at_nanos (interest_paid ln)
        + (at_nanos by - at_nanos (interest_paid ln)) * i div amount due)\<rparr>
    \<and> shares = \<lparr>shares_interest = Coin i, shares_principal = Coin pr,
        shares_excess = Coin (amount payment - amount due - pr)\<rparr>"
proof -
  let ?d = "Duration (at_nanos by - at_nanos (interest_paid ln))"
  have int: "interest (percent_ratio (annual_interest_rate ln)) (principal_due ln) ?d = Some due"
    using assms(1) by (simp add: interest_due_Some)
  have ok: "duration_ok ?d" using assms(2) by (simp add: timestamp_ok_def duration_ok_def)
  obtain paid_for change where
    p: "pay (percent_ratio (annual_interest_rate ln)) (principal_due ln) payment ?d = Some (paid_for, change)"
    using pay_defined [OF int ok] by blast
  have change: "change = Coin (amount payment - amount due)"
    using pay_change [OF int ok p] by (cases change) simp
  have paid: "paid_for = Duration (nanos ?d * i div amount due)"
    using p pay_Some_iff [OF int ok, of payment] by (auto simp: i_def split: if_splits)
  have "nanos paid_for \<le> at_nanos by - at_nanos (interest_paid ln)"
    using pay_paid_for_le [OF int ok p] by (simp add: time_order)
  then have fits: "at_nanos (interest_paid ln) + nanos paid_for < 2 ^ 64"
    using assms(2,3) by (auto simp: timestamp_ok_def loan_ok_def)
  have "amount payment - (amount payment - amount due) = i" by (auto simp: i_def)
  then have "loan_repay ln by payment = Some
     (ln\<lparr>principal_due := Coin (amount (principal_due ln) - pr),
         interest_paid := Timestamp (at_nanos (interest_paid ln) + nanos paid_for)\<rparr>,
      \<lparr>shares_interest = Coin i, shares_principal = Coin pr,
        shares_excess = Coin (amount payment - amount due - pr)\<rparr>)"
    using p change fits
    by (simp add: loan_repay_def Let_def pr_def coin_sub_def coin_sub_assign_def checked_sub_def
        timestamp_add_def checked_add_def fits_def min_def coin_order)
  then show ?thesis using paid by auto
qed

text \<open>The interest that remains for the time not paid for covers what has not been paid.\<close>

lemma remaining_interest_arith:
  fixes P d Y I r :: nat
  assumes I: "I = P * d div Y" and "0 < I" "r \<le> I" "0 < Y"
  shows "I - r \<le> P * (d - d * r div I) div Y"
proof -
  have "d * r div I * I \<le> d * r" by (rule div_times_less_eq_dividend)
  then have "d * (I - r) \<le> (d - d * r div I) * I"
    by (simp only: diff_mult_distrib diff_mult_distrib2 diff_le_mono2)
  then have "P * (d * (I - r)) \<le> P * ((d - d * r div I) * I)" by (rule mult_le_mono2)
  moreover have "I * Y * (I - r) \<le> P * d * (I - r)"
    using mult_div_bounds(1) [OF assms(4), of P d] I by (intro mult_le_mono1) simp
  ultimately have "I * Y * (I - r) \<le> P * ((d - d * r div I) * I)"
    by (simp only: mult.assoc)
  then have "(I - r) * Y * I \<le> P * (d - d * r div I) * I"
    by (simp only: mult.assoc mult.left_commute mult.commute)
  with assms(2) have "(I - r) * Y \<le> P * (d - d * r div I)"
    by (simp only: mult_le_cancel2)
  with assms(4) show ?thesis by (simp only: less_eq_div_iff_mult_less_eq)
qed

text \<open>
  A repayment of a loan of the pool splits the payment, without a loss, first into the
  interest due, then into principal, and the rest is excess. The principal goes down by
  its share, the time up to which interest is paid moves forward but never past the
  current time, and reaches it when all the interest is paid. Paying a part of the
  interest does not lower the borrower's obligation: what remains due at the same
  moment is at least the interest not paid.
\<close>

theorem loan_repay_shares:
  assumes "interest_due ln by = Some due" "timestamp_ok by" "loan_ok ln"
  shows "\<exists>ln' shares. loan_repay ln by payment = Some (ln', shares)
    \<and> amount (shares_interest shares) + amount (shares_principal shares)
        + amount (shares_excess shares) = amount payment
    \<and> shares_interest shares = min due payment
    \<and> amount (principal_due ln') + amount (shares_principal shares) = amount (principal_due ln)
    \<and> (0 < amount (shares_excess shares) \<longrightarrow> amount (principal_due ln') = 0)
    \<and> annual_interest_rate ln' = annual_interest_rate ln
    \<and> interest_paid ln \<le> interest_paid ln' \<and> interest_paid ln' \<le> max by (interest_paid ln)
    \<and> (0 < amount due \<and> due \<le> payment \<longrightarrow> interest_paid ln' = max by (interest_paid ln))
    \<and> (amount (shares_principal shares) = 0 \<longrightarrow>
        (\<exists>due'. interest_due ln' by = Some due'
          \<and> amount due \<le> amount (shares_interest shares) + amount due'))"
proof -
  define i where "i = min (amount due) (amount payment)"
  define pr where "pr = min (amount payment - amount due) (amount (principal_due ln))"
  define d where "d = at_nanos by - at_nanos (interest_paid ln)"
  let ?f = "d * i div amount due"
  let ?ln = "ln\<lparr>principal_due := Coin (amount (principal_due ln) - pr),
      interest_paid := Timestamp (at_nanos (interest_paid ln) + ?f)\<rparr>"
  let ?shares = "\<lparr>shares_interest = Coin i, shares_principal = Coin pr,
        shares_excess = Coin (amount payment - amount due - pr)\<rparr>"
  have eq: "loan_repay ln by payment = Some (?ln, ?shares)"
    using loan_repay_Some_iff [OF assms] by (simp add: i_def pr_def d_def)
  have f: "?f \<le> d" by (cases "amount due = 0") (simp_all add: i_def mult_div_le_self)
  have full: "?f = d" if "0 < amount due" "due \<le> payment"
    using that by (simp add: i_def coin_order)
  have "\<exists>due'. interest_due ?ln by = Some due' \<and> amount due \<le> i + amount due'" if "pr = 0"
  proof -
    let ?rate = "percent_ratio (annual_interest_rate ln)"
    have int: "interest ?rate (principal_due ln) (Duration d) = Some due"
      using assms(1) by (simp add: interest_due_Some d_def)
    then have due: "amount due = interest_amount ?rate (amount (principal_due ln)) d"
      using interest_Some [OF _ int] by simp
    have "coin_ok (principal_due ln)" using assms(3) by (simp add: loan_ok_def)
    from interest_shorter_defined [OF _ this int, of "Duration (d - ?f)"] obtain due'
      where due': "interest ?rate (principal_due ln) (Duration (d - ?f)) = Some due'"
      by (auto simp: time_order)
    have "amount due' = interest_amount ?rate (amount (principal_due ln)) (d - ?f)"
      using interest_Some [OF _ due'] by simp
    moreover have "amount due - i \<le>
        amount (principal_due ln) * parts ?rate div whole ?rate * (d - ?f) div nanos duration_year"
      if "0 < amount due"
      by (rule remaining_interest_arith) (use due that in \<open>simp_all add: interest_amount_def i_def\<close>)
    ultimately have "amount due - i \<le> amount due'"
      by (cases "amount due = 0") (simp_all add: interest_amount_def)
    moreover have "interest_due ?ln by = Some due'"
      using due' that by (simp add: interest_due_Some d_def)
    ultimately show ?thesis by (auto simp: i_def)
  qed
  then show ?thesis
  proof (intro exI [of _ ?ln] exI [of _ ?shares] conjI)
    show "loan_repay ln by payment = Some (?ln, ?shares)" by (rule eq)
  qed (use f full in \<open>auto simp: i_def pr_def d_def time_order coin_order timestamp_eq_iff coin_eq_iff max_def\<close>)
qed

theorem loan_repay_shares_witness:
  "let ln = \<lparr>principal_due = Coin 5000 :: unit coin, annual_interest_rate = Percent 100,
        interest_paid = Timestamp 0\<rparr>;
       by = Timestamp 31536000000000000
   in interest_due ln by = Some (Coin 500)
     \<and> (\<exists>ln' shares. loan_repay ln by (Coin 75) = Some (ln', shares)
          \<and> shares_interest shares = Coin 75 \<and> interest_paid ln' \<le> by)"
proof -
  let ?ln = "\<lparr>principal_due = Coin 5000 :: unit coin, annual_interest_rate = Percent 100,
        interest_paid = Timestamp 0\<rparr>"
  let ?by = "Timestamp 31536000000000000"
  have due: "interest_due ?ln ?by = Some (Coin 500)"
    by (simp add: interest_due_Some interest_def annualized_slice_of_def coin_safe_mul_Some_iff)
  have "timestamp_ok ?by" "loan_ok ?ln"
    by (simp_all add: timestamp_ok_def loan_ok_def coin_ok_def)
  from loan_repay_shares [OF due this, of "Coin 75"] due show ?thesis
    by (auto simp: Let_def min_def max_def coin_order time_order)
qed

text \<open>Effects of the repository operations on the loans and their total principal.\<close>

definition loans_principal :: "'l loans \<Rightarrow> nat" where
  "loans_principal m = ledger_total (\<lambda>ln. amount (principal_due ln)) (loans_may_load m)"

lemma loans_may_load_simp [simp]: "loans_may_load m = m"
  by (simp add: fun_eq_iff loans_may_load_def)

lemma repo_open_Inr:
  "repo_open m a ln = Inr m' \<longleftrightarrow> m a = None \<and> m' = m(a \<mapsto> ln)"
  by (auto simp: repo_open_def loans_save_def)

lemma repo_open_principal:
  assumes "repo_open m a ln = Inr m'" "finite (dom m)"
  shows "loans_principal m' = loans_principal m + amount (principal_due ln)" "finite (dom m')"
  using assms loans.total_save [of m "\<lambda>ln. amount (principal_due ln)" a ln]
  by (auto simp: repo_open_def loans_principal_def loans_save_def split: if_splits)

text \<open>Saving a loan that is there keeps its interest rate and removes it when it is repaid.\<close>

lemma repo_save_Inr:
  assumes "m a = Some old"
  shows "repo_save m a ln = Inr m' \<longleftrightarrow>
    m' = m(a := if amount (principal_due ln) = 0 then None
      else Some (old\<lparr>principal_due := principal_due ln, interest_paid := interest_paid ln\<rparr>))"
  using assms by (auto simp: repo_save_def loans_remove_def loans_save_def)

lemma repo_save_principal:
  assumes "m a = Some old" "repo_save m a ln = Inr m'" "finite (dom m)"
  shows "loans_principal m' + amount (principal_due old) = loans_principal m + amount (principal_due ln)"
    and "finite (dom m')"
proof -
  show "finite (dom m')"
    using assms by (simp add: repo_save_Inr)
  show "loans_principal m' + amount (principal_due old) = loans_principal m + amount (principal_due ln)"
  proof (cases "amount (principal_due ln) = 0")
    case True
    then show ?thesis
      using assms loans.total_remove [of m "\<lambda>ln. amount (principal_due ln)" a]
      by (simp add: repo_save_def loans_principal_def)
  next
    case False
    then show ?thesis
      using assms loans.total_save [of m "\<lambda>ln. amount (principal_due ln)" a
          "old\<lparr>principal_due := principal_due ln, interest_paid := interest_paid ln\<rparr>"]
      by (auto simp: repo_save_def loans_principal_def)
  qed
qed

text \<open>What the pool needs to know of a repayment.\<close>

lemma loan_repay_effect:
  assumes "loan_repay ln by payment = Some (ln', shares)" "timestamp_ok by" "loan_ok ln"
    "interest_paid ln \<le> by"
  shows "amount (shares_interest shares) + amount (shares_principal shares)
      + amount (shares_excess shares) = amount payment"
    and "amount (principal_due ln') + amount (shares_principal shares) = amount (principal_due ln)"
    and "interest_paid ln' \<le> by" "annual_interest_rate ln' = annual_interest_rate ln"
proof -
  from assms(1) obtain due where due: "interest_due ln by = Some due"
    by (auto simp: loan_repay_def pay_def interest_due_def)
  let ?d = "at_nanos by - at_nanos (interest_paid ln)"
  have "?d * min (amount due) (amount payment) div amount due \<le> ?d"
    by (cases "amount due = 0") (simp_all add: mult_div_le_self)
  then have "at_nanos (interest_paid ln) + ?d * min (amount due) (amount payment) div amount due \<le> at_nanos by"
    using assms(4) unfolding less_eq_timestamp_def by linarith
  then show "amount (shares_interest shares) + amount (shares_principal shares)
      + amount (shares_excess shares) = amount payment"
    and "amount (principal_due ln') + amount (shares_principal shares) = amount (principal_due ln)"
    and "interest_paid ln' \<le> by" "annual_interest_rate ln' = annual_interest_rate ln"
    using assms(1) unfolding loan_repay_Some_iff [OF due assms(2,3)]
    by (auto simp: time_order)
qed

lemmas loan_op_defs [op_defs] =
  due_period_def interest_due_def loan_repay_def repo_open_def repo_load_def repo_save_def
  loans_save_def loans_remove_def

end
