(* ===== verification/Lpp_Rates.thy ===== *)
theory Lpp_Rates
  imports Lpp_Loan
begin

text \<open>
  The interest rate a new loan gets (\<open>lpp/src/borrow.rs\<close>): a base rate plus an addon
  proportional to the utilization of the pool, capped where the utilization is optimal.
\<close>

record interest_rate =
  base_interest_rate :: percent
  utilization_optimal :: percent
  addon_optimal_interest_rate :: percent

definition rate_validate :: "interest_rate \<Rightarrow> bool" where
  "rate_validate r \<longleftrightarrow>
     base_interest_rate r \<le> percent_hundred \<and>
     percent_zero < utilization_optimal r \<and>
     utilization_optimal r < percent_hundred \<and>
     addon_optimal_interest_rate r \<le> percent_hundred"

definition rate_private_new :: "percent \<Rightarrow> percent \<Rightarrow> percent \<Rightarrow> interest_rate option" where
  "rate_private_new base optimal addon =
     (let r = \<lparr>base_interest_rate = base, utilization_optimal = optimal,
               addon_optimal_interest_rate = addon\<rparr>
      in if rate_validate r then Some r else None)"

text \<open>The conversion from an unchecked message; the error is a text.\<close>

definition rate_try_from :: "interest_rate \<Rightarrow> (string, interest_rate) res" where
  "rate_try_from r =
     ok_or ''Rates should not be greater than a hundred percent!''
       (rate_private_new (base_interest_rate r) (utilization_optimal r) (addon_optimal_interest_rate r))"

definition rate_calculate :: "interest_rate \<Rightarrow> 'l coin \<Rightarrow> 'l coin \<Rightarrow> percent option" where
  "rate_calculate r total_liability bal =
     do {
       rest \<leftarrow> percent_sub percent_hundred (utilization_optimal r);
       utilization_max \<leftarrow> percent_from_ratio (units (utilization_optimal r)) (units rest);
       utilization \<leftarrow>
         (if coin_is_zero bal then Some utilization_max
          else do {
            p \<leftarrow> percent_from_coins (amount total_liability) (amount bal);
            Some (min p utilization_max)
          });
       addon \<leftarrow> percent_safe_mul utilization
         (mk_ratio (units (addon_optimal_interest_rate r)) (units (utilization_optimal r)));
       percent_add (base_interest_rate r) addon
     }"

lemma rate_try_from_Inr: "rate_try_from r = Inr r' \<longleftrightarrow> r' = r \<and> rate_validate r"
  by (cases r) (auto simp: rate_try_from_def rate_private_new_def Let_def)

lemma rate_bounds:
  assumes "rate_validate r"
  shows "0 < units (utilization_optimal r)" "units (utilization_optimal r) < 1000"
    "units (base_interest_rate r) \<le> 1000" "units (addon_optimal_interest_rate r) \<le> 1000"
  using assms by (simp_all add: rate_validate_def percent_order)

text \<open>The utilization, capped at the one where it is optimal.\<close>

definition utilization_cap :: "interest_rate \<Rightarrow> nat" where
  "utilization_cap r = 1000 * units (utilization_optimal r) div (1000 - units (utilization_optimal r))"

definition capped_utilization :: "interest_rate \<Rightarrow> nat \<Rightarrow> nat \<Rightarrow> nat" where
  "capped_utilization r liability bal =
     (if bal = 0 then utilization_cap r else min (1000 * liability div bal) (utilization_cap r))"

definition rate_value :: "interest_rate \<Rightarrow> nat \<Rightarrow> nat" where
  "rate_value r utilization =
     units (base_interest_rate r) +
     utilization * units (addon_optimal_interest_rate r) div units (utilization_optimal r)"

lemma utilization_cap_fits: "rate_validate r \<Longrightarrow> utilization_cap r \<le> 1000000"
  unfolding utilization_cap_def using rate_bounds(2) [of r]
  by (intro order.trans [OF div_le_dividend]) simp

lemma rate_value_mono: "u \<le> u' \<Longrightarrow> rate_value r u \<le> rate_value r u'"
  by (simp add: rate_value_def div_le_mono)

lemma addon_fits:
  assumes "rate_validate r" "u \<le> utilization_cap r"
  shows "u * units (addon_optimal_interest_rate r) div units (utilization_optimal r) \<le> 1000000"
proof -
  let ?o = "units (utilization_optimal r)"
  have "u \<le> 1000 * ?o"
    using assms(2) div_le_dividend order.trans unfolding utilization_cap_def by blast
  then have "u * units (addon_optimal_interest_rate r) \<le> 1000 * ?o * 1000"
    using rate_bounds(4) [OF assms(1)] by (rule mult_le_mono)
  then have "u * units (addon_optimal_interest_rate r) div ?o \<le> 1000 * ?o * 1000 div ?o"
    by (rule div_le_mono)
  also have "\<dots> = 1000000"
    using rate_bounds(1) [OF assms(1)] by simp
  finally show ?thesis .
qed

lemma rate_calculate_eq:
  assumes "rate_validate r"
  shows "rate_calculate r liability bal =
    (if amount bal = 0 \<or> 1000 * amount liability div amount bal < 2 ^ 32
     then Some (Percent (rate_value r (capped_utilization r (amount liability) (amount bal))))
     else None)"
proof -
  note b = rate_bounds [OF assms]
  have cap: "percent_from_ratio (units (utilization_optimal r)) (1000 - units (utilization_optimal r))
      = Some (Percent (utilization_cap r))"
    using utilization_cap_fits [OF assms] b by (simp add: percent_from_ratio_Some utilization_cap_def)
  have rest: "percent_sub percent_hundred (utilization_optimal r)
      = Some (Percent (1000 - units (utilization_optimal r)))"
    using b by (simp add: percent_sub_Some)
  have final: "do {
       addon \<leftarrow> percent_safe_mul (Percent u)
         (mk_ratio (units (addon_optimal_interest_rate r)) (units (utilization_optimal r)));
       percent_add (base_interest_rate r) addon
     } = Some (Percent (rate_value r u))" if "u \<le> utilization_cap r" for u
    using addon_fits [OF assms that] b
    by (simp add: percent_safe_mul_def safe_mul_Some_iff percent_add_Some from_permille_def rate_value_def)
  show ?thesis
  proof (cases "amount bal = 0")
    case True
    then show ?thesis
      using final [of "utilization_cap r"] rest cap
      by (simp add: rate_calculate_def capped_utilization_def)
  next
    case False
    have "min (Percent (1000 * amount liability div amount bal)) (Percent (utilization_cap r))
        = Percent (capped_utilization r (amount liability) (amount bal))"
      using False by (simp add: percent_eq_iff capped_utilization_def)
    moreover have "capped_utilization r (amount liability) (amount bal) \<le> utilization_cap r"
      by (simp add: capped_utilization_def)
    ultimately show ?thesis
      using False final [of "capped_utilization r (amount liability) (amount bal)"] rest cap
        percent_from_coins_Some [of "amount bal" "amount liability"]
        percent_from_coins_None [of "amount bal" "amount liability"]
      by (auto simp: rate_calculate_def)
  qed
qed

text \<open>
  With a valid configuration the borrow rate is at least the base rate and at most the base
  rate plus the addon at the capped utilization, and it does not fall when the liability
  grows or the balance shrinks. The calculation panics exactly when the balance is not zero
  and a thousand liabilities over it exceed 32 bits, although the utilization is about to
  be capped.
\<close>

theorem rate_calculate_spec:
  assumes "rate_validate r"
  shows "(rate_calculate r liability bal = None \<longleftrightarrow>
      amount bal \<noteq> 0 \<and> 2 ^ 32 \<le> 1000 * amount liability div amount bal)
    \<and> (\<forall>p. rate_calculate r liability bal = Some p \<longrightarrow>
        base_interest_rate r \<le> p \<and> units p \<le> rate_value r (utilization_cap r)
        \<and> (\<forall>liability' bal' p'. liability \<le> liability' \<and> bal' \<le> bal
             \<and> rate_calculate r liability' bal' = Some p' \<longrightarrow> p \<le> p'))"
proof -
  have cap: "capped_utilization r l b \<le> utilization_cap r" for l b
    by (simp add: capped_utilization_def)
  have mono: "capped_utilization r l b \<le> capped_utilization r l' b'" if "l \<le> l'" "b' \<le> b" for l l' b b'
  proof (cases "b' = 0")
    case False
    have "1000 * l div b \<le> 1000 * l div b'"
      using that False by (intro div_le_mono2) simp_all
    also have "\<dots> \<le> 1000 * l' div b'"
      using that by (intro div_le_mono) simp
    finally show ?thesis using that False by (simp add: capped_utilization_def)
  qed (use cap in \<open>simp add: capped_utilization_def\<close>)
  let ?u = "capped_utilization r (amount liability) (amount bal)"
  have "units (base_interest_rate r) \<le> rate_value r ?u" by (simp add: rate_value_def)
  moreover have "rate_value r ?u \<le> rate_value r (utilization_cap r)"
    by (rule rate_value_mono [OF cap])
  ultimately show ?thesis
    using rate_value_mono [OF mono]
    unfolding rate_calculate_eq [OF assms] by (auto simp: percent_order coin_order split: if_splits)
qed

theorem rate_calculate_spec_witness:
  "let r = \<lparr>base_interest_rate = Percent 100, utilization_optimal = Percent 700,
         addon_optimal_interest_rate = Percent 20\<rparr>
   in rate_calculate r (Coin 10000000000 :: unit coin) (Coin 1) = None
     \<and> rate_calculate r (Coin 10000000000 :: unit coin) (Coin 0) = Some (Percent 166)
     \<and> rate_calculate r (Coin 1000 :: unit coin) (Coin 1000) = Some (Percent 128)"
proof -
  let ?r = "\<lparr>base_interest_rate = Percent 100, utilization_optimal = Percent 700,
         addon_optimal_interest_rate = Percent 20\<rparr>"
  have ok: "rate_validate ?r" by (simp add: rate_validate_def percent_order)
  from rate_calculate_spec [OF ok, of "Coin 10000000000 :: unit coin" "Coin 1"]
  have "rate_calculate ?r (Coin 10000000000 :: unit coin) (Coin 1) = None" by simp
  then show ?thesis
    by (simp add: rate_calculate_eq [OF ok] rate_value_def capped_utilization_def utilization_cap_def)
qed

lemmas rate_op_defs [op_defs] = rate_calculate_def

end
