(* ===== verification/Lpp_Total.thy ===== *)
theory Lpp_Total
  imports Lpp_Rates
begin

text \<open>
  The running totals of the pool (\<open>lpp/src/state/total.rs\<close>): the principal and the interest
  due of all the loans together, and their average annual interest rate kept as a
  ratio of coins.
\<close>

record 'l pool_total =
  total_principal_due :: "'l coin"
  total_interest_due :: "'l coin"
  total_annual_interest_rate :: ratio
  last_update_time :: timestamp

definition zero_interest_rate :: ratio where
  "zero_interest_rate = mk_ratio 0 1000"

definition total_new :: "'l pool_total" where
  "total_new =
     \<lparr>total_principal_due = coin_zero, total_interest_due = coin_zero,
      total_annual_interest_rate = zero_interest_rate, last_update_time = timestamp_default\<rparr>"

definition total_interest_due_by_now :: "'l pool_total \<Rightarrow> timestamp \<Rightarrow> 'l coin option" where
  "total_interest_due_by_now t ctime =
     do {
       period \<leftarrow> duration_between (last_update_time t) ctime;
       accrued \<leftarrow> interest (total_annual_interest_rate t) (total_principal_due t) period;
       coin_add accrued (total_interest_due t)
     }"

definition total_borrow :: "'l pool_total \<Rightarrow> timestamp \<Rightarrow> 'l coin \<Rightarrow> percent \<Rightarrow> (lpp_error, 'l pool_total) res" where
  "total_borrow t ctime borrowed loan_interest_rate =
     and_then (or_panic (total_interest_due_by_now t ctime)) (\<lambda>interest_by_now.
     and_then (ok_or (LppOverflow ''Total principal due overflow'')
       (coin_checked_add (total_principal_due t) borrowed)) (\<lambda>new_total_principal_due.
     and_then (or_panic (coin_safe_mul (total_principal_due t) (total_annual_interest_rate t)))
       (\<lambda>annual_interest.
     and_then (or_panic (percent_of_coin loan_interest_rate borrowed)) (\<lambda>loan_annual_interest.
     and_then (ok_or (LppOverflow ''Annual interest calculation overflow'')
       (coin_checked_add annual_interest loan_annual_interest)) (\<lambda>new_annual_interest.
     Inr \<lparr>total_principal_due = new_total_principal_due, total_interest_due = interest_by_now,
          total_annual_interest_rate = coin_ratio new_annual_interest new_total_principal_due,
          last_update_time = ctime\<rparr>)))))"

definition total_repay :: "'l pool_total \<Rightarrow> timestamp \<Rightarrow> 'l coin \<Rightarrow> 'l coin \<Rightarrow> percent \<Rightarrow> 'l pool_total option" where
  "total_repay t ctime loan_interest_payment loan_principal_payment loan_interest_rate =
     do {
       interest_by_now \<leftarrow> total_interest_due_by_now t ctime;
       new_total_principal_due \<leftarrow> coin_checked_sub (total_principal_due t) loan_principal_payment;
       new_rate \<leftarrow>
         (if coin_is_zero new_total_principal_due then Some zero_interest_rate
          else do {
            annual_interest \<leftarrow> coin_safe_mul (total_principal_due t) (total_annual_interest_rate t);
            loan_annual_interest \<leftarrow> percent_of_coin loan_interest_rate loan_principal_payment;
            Some (coin_ratio (coin_saturating_sub annual_interest loan_annual_interest)
              new_total_principal_due)
          });
       Some \<lparr>total_principal_due = new_total_principal_due,
             total_interest_due = coin_saturating_sub interest_by_now loan_interest_payment,
             total_annual_interest_rate = new_rate, last_update_time = ctime\<rparr>
     }"

section \<open>Facts\<close>

definition total_ok :: "'l pool_total \<Rightarrow> bool" where
  "total_ok t \<longleftrightarrow>
     coin_ok (total_principal_due t) \<and> coin_ok (total_interest_due t) \<and>
     0 < whole (total_annual_interest_rate t)"

text \<open>What the borrowers owe to the pool, on plain numbers.\<close>

definition accrued :: "'l pool_total \<Rightarrow> timestamp \<Rightarrow> nat" where
  "accrued t now = interest_amount (total_annual_interest_rate t) (amount (total_principal_due t))
     (at_nanos now - at_nanos (last_update_time t))"

definition receivable :: "'l pool_total \<Rightarrow> timestamp \<Rightarrow> nat" where
  "receivable t now =
     amount (total_principal_due t) + amount (total_interest_due t) + accrued t now"

lemma accrued_mono: "now \<le> later \<Longrightarrow> accrued t now \<le> accrued t later"
  by (simp add: accrued_def interest_amount_mono_period time_order)

lemma receivable_mono: "now \<le> later \<Longrightarrow> receivable t now \<le> receivable t later"
  by (simp add: receivable_def accrued_mono)

lemma accrued_at_update [simp]: "last_update_time t = now \<Longrightarrow> accrued t now = 0"
  by (simp add: accrued_def)

lemma total_new_simps [simp]:
  "total_principal_due total_new = coin_zero" "total_interest_due total_new = coin_zero"
  "last_update_time total_new = timestamp_default"
  by (simp_all add: total_new_def)

lemma total_new_ok [simp]: "total_ok total_new"
  by (simp add: total_ok_def total_new_def zero_interest_rate_def coin_ok_def)

lemma total_interest_Some:
  assumes "total_ok t" "total_interest_due_by_now t now = Some i"
  shows "i = Coin (amount (total_interest_due t) + accrued t now)" "coin_ok i"
    "last_update_time t \<le> now"
  using assms interest_Some
  by (auto simp: total_interest_due_by_now_def total_ok_def accrued_def coin_ok_def time_order dest!: interest_Some)

lemma total_borrow_Inr:
  assumes "total_ok t" "total_borrow t now borrowed rate = Inr t'"
  shows "amount (total_principal_due t') = amount (total_principal_due t) + amount borrowed"
    and "amount (total_interest_due t') = amount (total_interest_due t) + accrued t now"
    and "last_update_time t' = now"
    and "0 < amount (total_principal_due t) + amount borrowed \<Longrightarrow> total_ok t'"
    and "last_update_time t \<le> now"
proof -
  from assms(2) obtain i where i: "total_interest_due_by_now t now = Some i"
    by (auto simp: total_borrow_def)
  show "amount (total_principal_due t') = amount (total_principal_due t) + amount borrowed"
    and "amount (total_interest_due t') = amount (total_interest_due t) + accrued t now"
    and "last_update_time t' = now"
    and "0 < amount (total_principal_due t) + amount borrowed \<Longrightarrow> total_ok t'"
    and "last_update_time t \<le> now"
    using assms i total_interest_Some [OF assms(1) i]
    by (auto simp: total_borrow_def total_ok_def coin_ok_def)
qed

lemma total_borrow_receivable:
  assumes "total_ok t" "total_borrow t now borrowed rate = Inr t'"
  shows "receivable t' now = receivable t now + amount borrowed"
  using total_borrow_Inr [OF assms] by (simp add: receivable_def)

lemma total_repay_Some:
  assumes "total_ok t" "total_repay t now i p rate = Some t'"
  shows "amount (total_principal_due t') + amount p = amount (total_principal_due t)"
    and "amount (total_interest_due t') = amount (total_interest_due t) + accrued t now - amount i"
    and "last_update_time t' = now" and "total_ok t'" and "last_update_time t \<le> now"
proof -
  from assms(2) obtain i' where i': "total_interest_due_by_now t now = Some i'"
    by (auto simp: total_repay_def)
  show "amount (total_principal_due t') + amount p = amount (total_principal_due t)"
    and "amount (total_interest_due t') = amount (total_interest_due t) + accrued t now - amount i"
    and "last_update_time t' = now" and "total_ok t'" and "last_update_time t \<le> now"
    using assms i' total_interest_Some [OF assms(1) i']
    by (auto simp: total_repay_def total_ok_def coin_ok_def zero_interest_rate_def split: if_splits)
qed

text \<open>The receivables go down by no more than what has been paid.\<close>

lemma total_repay_receivable:
  assumes "total_ok t" "total_repay t now i p rate = Some t'"
  shows "receivable t now \<le> receivable t' now + amount i + amount p"
  using total_repay_Some [OF assms] by (simp add: receivable_def)

lemmas total_op_defs [op_defs] =
  total_interest_due_by_now_def total_borrow_def total_repay_def zero_interest_rate_def

end
