(* ===== verification/Lpp_Deposit.thy ===== *)
theory Lpp_Deposit
  imports Lpp_Total Prices
begin

text \<open>
  The deposits of the lenders and their rewards (\<open>lpp/src/state/deposit.rs\<close>). A deposit is
  counted in receipts, the nLpn. Rewards are distributed by raising a global amount of Nls per
  receipt; an account remembers the amount at its last change.
\<close>

text \<open>The currencies of the receipts and of the rewards.\<close>

datatype nlpn = NLpn

datatype nls = Nls

record deposit_data =
  deposited_nlpn :: "nlpn coin"
  reward_per_token :: "(nlpn, nls) price option"
  pending_rewards_nls :: "nls coin"

record deposits_globals =
  balance_nlpn :: "nlpn coin"
  global_reward_per_token :: "(nlpn, nls) price option"

definition deposit_data_default :: deposit_data where
  "deposit_data_default =
     \<lparr>deposited_nlpn = coin_zero, reward_per_token = None, pending_rewards_nls = coin_zero\<rparr>"

definition deposits_globals_default :: deposits_globals where
  "deposits_globals_default = \<lparr>balance_nlpn = coin_zero, global_reward_per_token = None\<rparr>"

text \<open>The two storage items of the module.\<close>

record deposits_store =
  deposits_map :: "addr \<Rightarrow> deposit_data option"
  deposits_globals_item :: "deposits_globals option"

definition deposits_may_load :: "deposits_store \<Rightarrow> addr \<Rightarrow> deposit_data option" where
  "deposits_may_load s a = deposits_map s a"

definition deposits_save :: "deposits_store \<Rightarrow> addr \<Rightarrow> deposit_data \<Rightarrow> deposits_store" where
  "deposits_save s a d = s\<lparr>deposits_map := (deposits_map s)(a \<mapsto> d)\<rparr>"

definition deposits_remove :: "deposits_store \<Rightarrow> addr \<Rightarrow> deposits_store" where
  "deposits_remove s a = s\<lparr>deposits_map := (deposits_map s)(a := None)\<rparr>"

interpretation deposits: storage_map deposits_may_load deposits_save deposits_remove
  by unfold_locales (auto simp: deposits_may_load_def deposits_save_def deposits_remove_def)

definition globals_load :: "deposits_store \<Rightarrow> deposits_globals" where
  "globals_load s = (case deposits_globals_item s of None \<Rightarrow> deposits_globals_default | Some g \<Rightarrow> g)"

definition globals_save :: "deposits_store \<Rightarrow> deposits_globals \<Rightarrow> deposits_store" where
  "globals_save s g = s\<lparr>deposits_globals_item := Some g\<rparr>"

section \<open>Operations\<close>

definition load_or_default :: "deposits_store \<Rightarrow> addr \<Rightarrow> deposit_data" where
  "load_or_default s a =
     (case deposits_may_load s a of None \<Rightarrow> deposit_data_default | Some d \<Rightarrow> d)"

definition reward_at :: "nlpn coin \<Rightarrow> (nlpn, nls) price option \<Rightarrow> nls coin option" where
  "reward_at receipts price =
     (case price of None \<Rightarrow> Some coin_zero | Some p \<Rightarrow> total receipts p)"

definition calculate_reward :: "deposit_data \<Rightarrow> deposits_globals \<Rightarrow> nls coin option" where
  "calculate_reward d globals =
     do {
       global_reward \<leftarrow> reward_at (deposited_nlpn d) (global_reward_per_token globals);
       deposit_reward \<leftarrow> reward_at (deposited_nlpn d) (reward_per_token d);
       gross \<leftarrow> coin_add (pending_rewards_nls d) global_reward;
       coin_sub gross deposit_reward
     }"

definition update_rewards :: "deposit_data \<Rightarrow> deposits_globals \<Rightarrow> deposit_data option" where
  "update_rewards d globals =
     do {
       pending \<leftarrow> calculate_reward d globals;
       Some (d\<lparr>pending_rewards_nls := pending, reward_per_token := global_reward_per_token globals\<rparr>)
     }"

definition deposit_op :: "deposits_store \<Rightarrow> addr \<Rightarrow> 'l coin \<Rightarrow> (nlpn, 'l) price
    \<Rightarrow> (lpp_error, deposits_store \<times> nlpn coin) res" where
  "deposit_op s a amount_lpn price =
     (let data = load_or_default s a in
      and_then (fail_if (coin_is_zero amount_lpn) ZeroDepositFunds) (\<lambda>_.
      let globals = globals_load s in
      and_then (or_panic (update_rewards data globals)) (\<lambda>data.
      and_then (or_panic (total amount_lpn (price_inv price))) (\<lambda>deposited.
      and_then (or_panic (coin_add_assign (deposited_nlpn data) deposited)) (\<lambda>new_deposited.
      let s' = deposits_save s a (data\<lparr>deposited_nlpn := new_deposited\<rparr>) in
      and_then (ok_or (LppOverflow ''Balance overflow'')
        (coin_checked_add (balance_nlpn globals) deposited)) (\<lambda>new_balance.
      Inr (globals_save s' (globals\<lparr>balance_nlpn := new_balance\<rparr>), deposited)))))))"

text \<open>The reward is returned when the account is closed.\<close>

definition withdraw_op :: "deposits_store \<Rightarrow> addr \<Rightarrow> deposit_data \<Rightarrow> nlpn coin
    \<Rightarrow> (lpp_error, deposits_store \<times> nls coin option) res" where
  "withdraw_op s a data amount_nlpn =
     and_then (fail_if (deposited_nlpn data < amount_nlpn) InsufficientBalance) (\<lambda>_.
     let globals = globals_load s in
     and_then (or_panic (update_rewards data globals)) (\<lambda>data.
     and_then (or_panic (coin_sub_assign (deposited_nlpn data) amount_nlpn)) (\<lambda>new_deposited.
     and_then (or_panic (coin_sub_assign (balance_nlpn globals) amount_nlpn)) (\<lambda>new_balance.
     let data = data\<lparr>deposited_nlpn := new_deposited\<rparr>;
         (s', maybe_reward) =
           (if coin_is_zero new_deposited
            then (deposits_remove s a, Some (pending_rewards_nls data))
            else (deposits_save s a data, None))
     in Inr (globals_save s' (globals\<lparr>balance_nlpn := new_balance\<rparr>), maybe_reward)))))"

definition distribute_rewards_op :: "deposits_store \<Rightarrow> nls coin \<Rightarrow> (lpp_error, deposits_store) res" where
  "distribute_rewards_op s rewards =
     (let globals = globals_load s in
      and_then (fail_if (coin_is_zero (balance_nlpn globals)) ZeroBalanceRewards) (\<lambda>_.
      and_then (fail_if (coin_is_zero rewards) ZeroRewardsFunds) (\<lambda>_.
      and_then (or_panic (total_of_is (balance_nlpn globals) rewards)) (\<lambda>partial_price.
      and_then (or_panic (case global_reward_per_token globals of
          Some per_token \<Rightarrow> price_add per_token partial_price
        | None \<Rightarrow> Some partial_price)) (\<lambda>new_per_token.
      Inr (globals_save s (globals\<lparr>global_reward_per_token := Some new_per_token\<rparr>)))))))"

definition query_rewards_op :: "deposits_store \<Rightarrow> deposit_data \<Rightarrow> nls coin option" where
  "query_rewards_op s data = calculate_reward data (globals_load s)"

definition claim_rewards_op :: "deposits_store \<Rightarrow> addr \<Rightarrow> deposit_data \<Rightarrow> (deposits_store \<times> nls coin) option" where
  "claim_rewards_op s a data =
     do {
       data' \<leftarrow> update_rewards data (globals_load s);
       Some (deposits_save s a (data'\<lparr>pending_rewards_nls := coin_zero\<rparr>), pending_rewards_nls data')
     }"

definition deposits_balance_nlpn :: "deposits_store \<Rightarrow> nlpn coin" where
  "deposits_balance_nlpn s = balance_nlpn (globals_load s)"

definition query_balance_nlpn :: "deposits_store \<Rightarrow> addr \<Rightarrow> nlpn coin option" where
  "query_balance_nlpn s a = map_option deposited_nlpn (deposits_may_load s a)"

section \<open>Facts\<close>

lemma deposits_store_simps [simp]:
  "deposits_may_load s = deposits_map s"
  "globals_load (globals_save s g) = g"
  "globals_load (deposits_save s a d) = globals_load s"
  "globals_load (deposits_remove s a) = globals_load s"
  "deposits_map (globals_save s g) = deposits_map s"
  "deposits_map (deposits_save s a d) = (deposits_map s)(a \<mapsto> d)"
  "deposits_map (deposits_remove s a) = (deposits_map s)(a := None)"
  by (auto simp: deposits_may_load_def globals_load_def globals_save_def deposits_save_def
      deposits_remove_def)

text \<open>The receipts of all accounts.\<close>

definition receipts_total :: "deposits_store \<Rightarrow> nat" where
  "receipts_total s = ledger_total (\<lambda>d. amount (deposited_nlpn d)) (deposits_may_load s)"

definition deposits_inv :: "deposits_store \<Rightarrow> bool" where
  "deposits_inv s \<longleftrightarrow>
     finite (dom (deposits_map s)) \<and> receipts_total s = amount (deposits_balance_nlpn s)
     \<and> coin_ok (deposits_balance_nlpn s)"

lemma update_rewards_Some:
  "update_rewards d g = Some d' \<longleftrightarrow>
     (\<exists>r. calculate_reward d g = Some r \<and>
       d' = d\<lparr>pending_rewards_nls := r, reward_per_token := global_reward_per_token g\<rparr>)"
  by (auto simp: update_rewards_def)

lemma load_or_default_receipts:
  "amount (deposited_nlpn (load_or_default s a))
     = value_at (\<lambda>d. amount (deposited_nlpn d)) (deposits_map s a)"
  by (simp add: load_or_default_def deposit_data_default_def split: option.splits)

lemma deposit_op_Inr:
  assumes "deposit_op s a amount_lpn price = Inr (s', receipts)"
  shows "total amount_lpn (price_inv price) = Some receipts" "0 < amount amount_lpn"
    and "amount (deposits_balance_nlpn s') = amount (deposits_balance_nlpn s) + amount receipts"
    and "coin_ok (deposits_balance_nlpn s')"
    and "\<exists>d. deposits_map s' = (deposits_map s)(a \<mapsto> d) \<and>
      amount (deposited_nlpn d) = amount (deposited_nlpn (load_or_default s a)) + amount receipts"
  using assms
  by (auto simp: deposit_op_def Let_def update_rewards_Some deposits_balance_nlpn_def coin_ok_def)

lemma deposit_op_inv:
  assumes "deposits_inv s" "deposit_op s a amount_lpn price = Inr (s', receipts)"
  shows "deposits_inv s'"
proof -
  obtain d where d: "deposits_map s' = (deposits_map s)(a \<mapsto> d)"
    "amount (deposited_nlpn d) = amount (deposited_nlpn (load_or_default s a)) + amount receipts"
    using deposit_op_Inr(5) [OF assms(2)] by blast
  have fin: "finite (dom (deposits_may_load s))" using assms(1) by (simp add: deposits_inv_def)
  have "receipts_total s' = receipts_total s + amount receipts"
    using deposits.total_save [OF fin, of "\<lambda>d. amount (deposited_nlpn d)" a d] d load_or_default_receipts [of s a]
    by (simp add: receipts_total_def)
  with assms(1) deposit_op_Inr(3,4) [OF assms(2)] d fin show ?thesis
    by (simp add: deposits_inv_def)
qed

lemma withdraw_op_Inr:
  assumes "withdraw_op s a data n = Inr (s', maybe_reward)"
  shows "amount (deposits_balance_nlpn s') + amount n = amount (deposits_balance_nlpn s)"
    and "amount n \<le> amount (deposited_nlpn data)"
    and "\<exists>d. deposits_map s' = (deposits_map s)(a := if n = deposited_nlpn data then None else Some d)
      \<and> amount (deposited_nlpn d) + amount n = amount (deposited_nlpn data)"
    and "maybe_reward = (if n = deposited_nlpn data then calculate_reward data (globals_load s) else None)"
  using assms
  by (auto simp: withdraw_op_def Let_def update_rewards_Some deposits_balance_nlpn_def coin_order
      coin_eq_iff deposit_data_default_def intro: exI [of _ deposit_data_default] split: if_splits)

lemma withdraw_op_inv:
  assumes "deposits_inv s" "deposits_map s a = Some data" "withdraw_op s a data n = Inr (s', r)"
  shows "deposits_inv s'"
proof -
  obtain d where d: "deposits_map s' = (deposits_map s)(a := if n = deposited_nlpn data then None else Some d)"
    "amount (deposited_nlpn d) + amount n = amount (deposited_nlpn data)"
    using withdraw_op_Inr(3) [OF assms(3)] by blast
  have fin: "finite (dom (deposits_map s))" using assms(1) by (simp add: deposits_inv_def)
  have "receipts_total s' + amount n = receipts_total s"
    using ledger_total_update [OF fin, of "\<lambda>d. amount (deposited_nlpn d)" a
        "if n = deposited_nlpn data then None else Some d"] d assms(2)
    by (auto simp: receipts_total_def split: if_splits)
  with assms(1) withdraw_op_Inr(1) [OF assms(3)] d fin show ?thesis
    by (auto simp: deposits_inv_def coin_ok_def)
qed

lemma distribute_rewards_Inr:
  assumes "distribute_rewards_op s rewards = Inr s'"
  shows "deposits_map s' = deposits_map s" "deposits_balance_nlpn s' = deposits_balance_nlpn s"
    "0 < amount (deposits_balance_nlpn s)" "0 < amount rewards"
  using assms by (auto simp: distribute_rewards_op_def Let_def deposits_balance_nlpn_def)

lemma claim_rewards_Some:
  assumes "claim_rewards_op s a data = Some (s', r)"
  shows "calculate_reward data (globals_load s) = Some r"
    "\<exists>d. deposits_map s' = (deposits_map s)(a \<mapsto> d) \<and> deposited_nlpn d = deposited_nlpn data"
    "deposits_balance_nlpn s' = deposits_balance_nlpn s"
  using assms by (auto simp: claim_rewards_op_def update_rewards_Some deposits_balance_nlpn_def)

lemma receipts_inv_cong:
  assumes "deposits_inv s" "deposits_balance_nlpn s' = deposits_balance_nlpn s"
    "deposits_map s' = (deposits_map s)(a \<mapsto> d)" "deposits_map s a = Some d0"
    "deposited_nlpn d = deposited_nlpn d0"
  shows "deposits_inv s'"
proof -
  have fin: "finite (dom (deposits_map s))" using assms(1) by (simp add: deposits_inv_def)
  have "receipts_total s' = receipts_total s"
    using ledger_total_update [OF fin, of "\<lambda>d. amount (deposited_nlpn d)" a "Some d"] assms(3-5)
    by (simp add: receipts_total_def)
  with assms fin show ?thesis by (simp add: deposits_inv_def)
qed

lemmas deposit_op_defs [op_defs] =
  load_or_default_def deposit_data_default_def deposits_globals_default_def globals_load_def
  globals_save_def deposits_save_def deposits_remove_def reward_at_def calculate_reward_def
  update_rewards_def deposit_op_def withdraw_op_def distribute_rewards_op_def query_rewards_op_def
  claim_rewards_op_def deposits_balance_nlpn_def

end
