(* ===== verification/Lpp_Pool.thy ===== *)
theory Lpp_Pool
  imports Lpp_Deposit
begin

text \<open>
  The configuration of the pool (\<open>lpp/src/state/config.rs\<close>) and the liquidity pool itself
  (\<open>lpp/src/lpp.rs\<close>). \<open>pool_store\<close> is the storage of the contract, one field per item or
  map. What the chain answers to the contract's queries is in the record \<open>chain\<close>.
\<close>

section \<open>Configuration\<close>

record pool_config =
  lease_code :: nat
  borrow_rate :: interest_rate
  min_utilization :: percent

definition initial_derivative_price :: "(nlpn, 'l) price" where
  "initial_derivative_price = price_identity"

definition update_lease_code :: "pool_config \<Rightarrow> nat \<Rightarrow> pool_config" where
  "update_lease_code cfg code = cfg\<lparr>lease_code := code\<rparr>"

definition update_borrow_rate :: "pool_config \<Rightarrow> interest_rate \<Rightarrow> pool_config" where
  "update_borrow_rate cfg rate = cfg\<lparr>borrow_rate := rate\<rparr>"

definition update_min_utilization :: "pool_config \<Rightarrow> percent \<Rightarrow> pool_config" where
  "update_min_utilization cfg p = cfg\<lparr>min_utilization := p\<rparr>"

section \<open>Storage and environment\<close>

record 'l pool_store =
  lease_code_admin :: "addr option"
  config :: pool_config
  pool_totals :: "'l pool_total"
  pool_loans :: "'l loans"
  pool_deposits :: deposits_store

record chain =
  block_time :: timestamp
  self_addr :: addr
  lpn_symbol :: string
  nls_symbol :: string
  code_id_of :: "addr \<Rightarrow> nat option"
  valid_addr :: "addr \<Rightarrow> bool"
  lpn_balance :: nat

record 'l lpp_balances =
  lpp_balance :: "'l coin"
  lpp_principal_due :: "'l coin"
  lpp_interest_due :: "'l coin"

definition balances_into_total :: "'l lpp_balances \<Rightarrow> 'l coin option" where
  "balances_into_total b =
     do { s \<leftarrow> coin_add (lpp_balance b) (lpp_principal_due b); coin_add s (lpp_interest_due b) }"

section \<open>The liquidity pool\<close>

definition uncommited_balance :: "chain \<Rightarrow> 'l coin" where
  "uncommited_balance env = Coin (lpn_balance env)"

definition pool_balance :: "chain \<Rightarrow> 'l coin" where
  "pool_balance env = uncommited_balance env"

definition commited_balance :: "chain \<Rightarrow> 'l coin \<Rightarrow> 'l coin option" where
  "commited_balance env pending_deposit = coin_sub (uncommited_balance env) pending_deposit"

definition total_due :: "'l pool_store \<Rightarrow> timestamp \<Rightarrow> 'l coin option" where
  "total_due p now =
     do {
       int_due \<leftarrow> total_interest_due_by_now (pool_totals p) now;
       coin_add (total_principal_due (pool_totals p)) int_due
     }"

definition total_lpn :: "'l pool_store \<Rightarrow> chain \<Rightarrow> 'l coin \<Rightarrow> 'l coin option" where
  "total_lpn p env pending_deposit =
     do {
       bal \<leftarrow> commited_balance env pending_deposit;
       due \<leftarrow> total_due p (block_time env);
       coin_add bal due
     }"

definition utilization :: "'l coin \<Rightarrow> 'l coin \<Rightarrow> percent option" where
  "utilization bal due =
     (if coin_is_zero bal then Some percent_hundred
      else do { all_lpn \<leftarrow> coin_add due bal; percent_from_coins (amount due) (amount all_lpn) })"

text \<open>The inner option is the code's: no limit on deposits when it is \<open>None\<close>.\<close>

definition deposit_capacity :: "'l pool_store \<Rightarrow> chain \<Rightarrow> 'l coin \<Rightarrow> 'l coin option option" where
  "deposit_capacity p env pending_deposit =
     (let min_util = min_utilization (config p)
      in if percent_is_zero min_util then Some None
         else do {
           due \<leftarrow> total_due p (block_time env);
           bal \<leftarrow> commited_balance env pending_deposit;
           util \<leftarrow> utilization bal due;
           if min_util < util
           then do {
             top \<leftarrow> coin_safe_mul due (mk_ratio (units percent_hundred) (units min_util));
             above_balance \<leftarrow> coin_sub top bal;
             capacity \<leftarrow> coin_sub above_balance due;
             Some (Some capacity)
           }
           else Some (Some coin_zero)
         })"

definition query_lpp_balance :: "'l pool_store \<Rightarrow> chain \<Rightarrow> 'l lpp_balances option" where
  "query_lpp_balance p env =
     do {
       int_due \<leftarrow> total_interest_due_by_now (pool_totals p) (block_time env);
       Some \<lparr>lpp_balance = pool_balance env,
             lpp_principal_due = total_principal_due (pool_totals p),
             lpp_interest_due = int_due\<rparr>
     }"

definition calculate_price :: "'l pool_store \<Rightarrow> chain \<Rightarrow> 'l coin \<Rightarrow> (nlpn, 'l) price option" where
  "calculate_price p env pending_deposit =
     (let receipts = deposits_balance_nlpn (pool_deposits p)
      in if coin_is_zero receipts then Some initial_derivative_price
         else do { all_lpn \<leftarrow> total_lpn p env pending_deposit; total_of_is receipts all_lpn })"

definition validate_lease_addr :: "'l pool_store \<Rightarrow> chain \<Rightarrow> addr \<Rightarrow> (lpp_error, unit) res" where
  "validate_lease_addr p env lease_addr =
     map_err LppPlatform (validate_code_id (code_id_of env) lease_addr (lease_code (config p)))"

definition withdraw_lpn :: "'l pool_store \<Rightarrow> chain \<Rightarrow> nlpn coin \<Rightarrow> (lpp_error, 'l coin) res" where
  "withdraw_lpn p env amount_nlpn =
     and_then (or_panic (calculate_price p env coin_zero)) (\<lambda>price.
     and_then (or_panic (total amount_nlpn price)) (\<lambda>amount_lpn.
       if pool_balance env < amount_lpn then Inl (Fail NoLiquidity) else Inr amount_lpn))"

definition query_quote :: "'l pool_store \<Rightarrow> chain \<Rightarrow> 'l coin \<Rightarrow> percent option option" where
  "query_quote p env quote =
     (let bal = pool_balance env
      in if bal < quote then Some None
         else do {
           total_interest \<leftarrow> total_interest_due_by_now (pool_totals p) (block_time env);
           s \<leftarrow> coin_add (total_principal_due (pool_totals p)) quote;
           liability_past_quote \<leftarrow> coin_add s total_interest;
           balance_past_quote \<leftarrow> coin_sub bal quote;
           rate \<leftarrow> rate_calculate (borrow_rate (config p)) liability_past_quote balance_past_quote;
           Some (Some rate)
         })"

definition lpp_try_open_loan :: "'l pool_store \<Rightarrow> chain \<Rightarrow> addr \<Rightarrow> 'l coin \<Rightarrow> (lpp_error, 'l pool_store \<times> 'l loan) res" where
  "lpp_try_open_loan p env lease_addr loan_amount =
     and_then (fail_if (coin_is_zero loan_amount) ZeroLoanAmount) (\<lambda>_.
     and_then (or_panic (query_quote p env loan_amount)) (\<lambda>quote.
     and_then (ok_or NoLiquidity quote) (\<lambda>rate.
     let ln = \<lparr>principal_due = loan_amount, annual_interest_rate = rate, interest_paid = block_time env\<rparr>
     in and_then (repo_open (pool_loans p) lease_addr ln) (\<lambda>loans'.
        and_then (total_borrow (pool_totals p) (block_time env) loan_amount rate) (\<lambda>totals'.
        Inr (p\<lparr>pool_loans := loans', pool_totals := totals'\<rparr>, ln))))))"

definition lpp_try_repay_loan :: "'l pool_store \<Rightarrow> chain \<Rightarrow> addr \<Rightarrow> 'l coin \<Rightarrow> (lpp_error, 'l pool_store \<times> 'l coin) res" where
  "lpp_try_repay_loan p env lease_addr repay_amount =
     and_then (repo_load (pool_loans p) lease_addr) (\<lambda>ln.
     and_then (or_panic (loan_repay ln (block_time env) repay_amount)) (\<lambda>(ln', payment).
     and_then (repo_save (pool_loans p) lease_addr ln') (\<lambda>loans'.
     and_then (or_panic (total_repay (pool_totals p) (block_time env)
       (shares_interest payment) (shares_principal payment) (annual_interest_rate ln))) (\<lambda>totals'.
     Inr (p\<lparr>pool_loans := loans', pool_totals := totals'\<rparr>, shares_excess payment)))))"

lemmas pool_op_defs [op_defs] =
  initial_derivative_price_def update_lease_code_def update_borrow_rate_def update_min_utilization_def
  uncommited_balance_def pool_balance_def commited_balance_def total_due_def total_lpn_def utilization_def
  deposit_capacity_def query_lpp_balance_def calculate_price_def validate_lease_addr_def
  withdraw_lpn_def query_quote_def lpp_try_open_loan_def lpp_try_repay_loan_def

end
