(* ===== verification/Lpp_Contract.thy ===== *)
theory Lpp_Contract
  imports Lpp_Pool
begin

text \<open>
  The entry points of the pool contract (\<open>lpp/src/contract/mod.rs\<close>) and their handlers
  (\<open>lender.rs\<close>, \<open>borrow.rs\<close>, \<open>rewards.rs\<close>, \<open>msg.rs\<close>). A handler gets the storage, what the
  chain answers, the sender and the funds, and returns the new storage, the scheduled
  messages and the response data. Events and the serialization of responses are left out. The
  amount of a loan arrives as a coin of any currency of the group of Lpn-s, named by its
  symbol.
\<close>

datatype execute_msg =
    NewLeaseCode nat
  | OpenLoan cw_coin
  | RepayLoan
  | DepositMsg
  | Burn nat
  | DistributeRewards
  | ClaimRewards "addr option"

datatype sudo_msg = NewBorrowRate interest_rate | MinUtilization percent

record instantiate_msg =
  msg_lease_code_admin :: addr
  msg_lease_code :: nat
  msg_borrow_rate :: interest_rate
  msg_min_utilization :: percent

datatype 'l response = RespNone | RespLoan "'l loan" | RespExcess "'l coin"

type_synonym 'l handled = "'l pool_store \<times> cosmos_msg list \<times> 'l response"

section \<open>Lenders\<close>

definition try_deposit :: "'l pool_store \<Rightarrow> chain \<Rightarrow> addr \<Rightarrow> cw_coin list \<Rightarrow> (lpp_error, 'l handled) res" where
  "try_deposit p env sender funds =
     and_then (map_err LppPlatform (received_one (lpn_symbol env) funds)) (\<lambda>pending_deposit :: 'l coin.
     and_then (or_panic (deposit_capacity p env pending_deposit)) (\<lambda>may_capacity.
     and_then (fail_if (case may_capacity of None \<Rightarrow> False | Some capacity \<Rightarrow> capacity < pending_deposit)
       UtilizationBelowMinimalRates) (\<lambda>_.
     and_then (or_panic (calculate_price p env pending_deposit)) (\<lambda>price.
     and_then (deposit_op (pool_deposits p) sender pending_deposit price) (\<lambda>(deposits', receipts).
     Inr (p\<lparr>pool_deposits := deposits'\<rparr>, [], RespNone))))))"

definition try_withdraw :: "'l pool_store \<Rightarrow> chain \<Rightarrow> addr \<Rightarrow> nat \<Rightarrow> (lpp_error, 'l handled) res" where
  "try_withdraw p env sender burnt =
     and_then (fail_if (burnt = 0) ZeroWithdrawFunds) (\<lambda>_.
     let amount_nlpn = Coin burnt in
     and_then (withdraw_lpn p env amount_nlpn) (\<lambda>payment_lpn.
     and_then (ok_or NoDeposit (deposits_may_load (pool_deposits p) sender)) (\<lambda>data.
     and_then (withdraw_op (pool_deposits p) sender data amount_nlpn) (\<lambda>(deposits', maybe_reward).
     let bank = bank_send (lpn_symbol env) payment_lpn sender [];
         bank = (case maybe_reward of
             Some reward \<Rightarrow> if coin_is_zero reward then bank else bank_send (nls_symbol env) reward sender bank
           | None \<Rightarrow> bank)
     in Inr (p\<lparr>pool_deposits := deposits'\<rparr>, bank, RespNone)))))"

definition query_ntoken_price :: "'l pool_store \<Rightarrow> chain \<Rightarrow> (nlpn, 'l) price option" where
  "query_ntoken_price p env = calculate_price p env coin_zero"

definition query_deposit_capacity :: "'l pool_store \<Rightarrow> chain \<Rightarrow> 'l coin option option" where
  "query_deposit_capacity p env = deposit_capacity p env coin_zero"

definition query_balance :: "'l pool_store \<Rightarrow> addr \<Rightarrow> nat" where
  "query_balance p a =
     (case query_balance_nlpn (pool_deposits p) a of None \<Rightarrow> 0 | Some c \<Rightarrow> amount c)"

section \<open>Borrowers\<close>

definition try_open_loan :: "'l pool_store \<Rightarrow> chain \<Rightarrow> addr \<Rightarrow> 'l coin \<Rightarrow> (lpp_error, 'l handled) res" where
  "try_open_loan p env lease_addr loan_amount =
     and_then (validate_lease_addr p env lease_addr) (\<lambda>_.
     and_then (lpp_try_open_loan p env lease_addr loan_amount) (\<lambda>(p', ln).
     Inr (p', bank_send (lpn_symbol env) loan_amount lease_addr [], RespLoan ln)))"

definition try_repay_loan :: "'l pool_store \<Rightarrow> chain \<Rightarrow> addr \<Rightarrow> cw_coin list \<Rightarrow> (lpp_error, 'l handled) res" where
  "try_repay_loan p env lease_addr funds =
     and_then (map_err LppPlatform (received_one (lpn_symbol env) funds)) (\<lambda>repay_amount.
     and_then (validate_lease_addr p env lease_addr) (\<lambda>_.
     and_then (lpp_try_repay_loan p env lease_addr repay_amount) (\<lambda>(p', excess_received).
     let batch = (if coin_is_zero excess_received then []
                  else bank_send (lpn_symbol env) excess_received lease_addr [])
     in Inr (p', batch, RespExcess excess_received))))"

definition query_loan :: "'l pool_store \<Rightarrow> addr \<Rightarrow> 'l loan option" where
  "query_loan p lease_addr = repo_query (pool_loans p) lease_addr"

section \<open>Rewards\<close>

definition try_distribute_rewards :: "'l pool_store \<Rightarrow> chain \<Rightarrow> cw_coin list \<Rightarrow> (lpp_error, 'l handled) res" where
  "try_distribute_rewards p env funds =
     and_then (map_err LppPlatform (received_one (nls_symbol env) funds)) (\<lambda>rewards.
     and_then (distribute_rewards_op (pool_deposits p) rewards) (\<lambda>deposits'.
     Inr (p\<lparr>pool_deposits := deposits'\<rparr>, [], RespNone)))"

definition try_claim_rewards :: "'l pool_store \<Rightarrow> chain \<Rightarrow> addr \<Rightarrow> addr option \<Rightarrow> (lpp_error, 'l handled) res" where
  "try_claim_rewards p env sender other_recipient =
     and_then (case other_recipient of
         Some r \<Rightarrow> if valid_addr env r then Inr r else Inl (Fail LppStd)
       | None \<Rightarrow> Inr sender) (\<lambda>recipient.
     and_then (ok_or NoDeposit (deposits_may_load (pool_deposits p) sender)) (\<lambda>data.
     and_then (or_panic (claim_rewards_op (pool_deposits p) sender data)) (\<lambda>(deposits', reward).
     and_then (fail_if (coin_is_zero reward) NoRewards) (\<lambda>_.
     Inr (p\<lparr>pool_deposits := deposits'\<rparr>, bank_send (nls_symbol env) reward recipient [], RespNone)))))"

definition query_rewards :: "'l pool_store \<Rightarrow> addr \<Rightarrow> (lpp_error, nls coin) res" where
  "query_rewards p a =
     and_then (ok_or NoDeposit (deposits_may_load (pool_deposits p) a)) (\<lambda>data.
       or_panic (query_rewards_op (pool_deposits p) data))"

section \<open>Entry points\<close>

definition instantiate :: "chain \<Rightarrow> (nat \<Rightarrow> bool) \<Rightarrow> instantiate_msg \<Rightarrow> (lpp_error, 'l pool_store) res" where
  "instantiate env known_code msg =
     and_then (fail_if (\<not> valid_addr env (msg_lease_code_admin msg)) LppStd) (\<lambda>_.
     and_then (fail_if (\<not> known_code (msg_lease_code msg)) (LppPlatform CosmWasmQueryBalance)) (\<lambda>_.
     Inr \<lparr>lease_code_admin = Some (msg_lease_code_admin msg),
          config = \<lparr>lease_code = msg_lease_code msg, borrow_rate = msg_borrow_rate msg,
                    min_utilization = msg_min_utilization msg\<rparr>,
          pool_totals = total_new, pool_loans = Map.empty,
          pool_deposits = \<lparr>deposits_map = Map.empty, deposits_globals_item = None\<rparr>\<rparr>))"

definition execute :: "'l pool_store \<Rightarrow> chain \<Rightarrow> addr \<Rightarrow> cw_coin list \<Rightarrow> execute_msg \<Rightarrow> (lpp_error, 'l handled) res" where
  "execute p env sender funds msg =
     (case msg of
        NewLeaseCode new_lease_code \<Rightarrow>
          and_then (map_err LppUnauthorized (single_user_check (lease_code_admin p) sender)) (\<lambda>_.
          Inr (p\<lparr>config := update_lease_code (config p) new_lease_code\<rparr>, [], RespNone))
      | DistributeRewards \<Rightarrow> try_distribute_rewards p env funds
      | ClaimRewards other_recipient \<Rightarrow> try_claim_rewards p env sender other_recipient
      | OpenLoan dto \<Rightarrow>
          and_then (if denom dto = lpn_symbol env then Inr (Coin (cw_amount dto))
                    else Inl (Fail (LppFinance CurrencyError)))
            (try_open_loan p env sender)
      | RepayLoan \<Rightarrow> try_repay_loan p env sender funds
      | DepositMsg \<Rightarrow> try_deposit p env sender funds
      | Burn burnt \<Rightarrow> try_withdraw p env sender burnt)"

definition sudo :: "'l pool_store \<Rightarrow> sudo_msg \<Rightarrow> 'l pool_store" where
  "sudo p msg =
     (case msg of
        NewBorrowRate rate \<Rightarrow> p\<lparr>config := update_borrow_rate (config p) rate\<rparr>
      | MinUtilization util \<Rightarrow> p\<lparr>config := update_min_utilization (config p) util\<rparr>)"

text \<open>What deserialization lets through in a message.\<close>

definition config_ok :: "interest_rate \<Rightarrow> percent \<Rightarrow> bool" where
  "config_ok rate util \<longleftrightarrow> rate_validate rate \<and> bound_try_from_percent 1000 util = Inr util"

definition sudo_msg_ok :: "sudo_msg \<Rightarrow> bool" where
  "sudo_msg_ok msg =
     (case msg of
        NewBorrowRate rate \<Rightarrow> rate_validate rate
      | MinUtilization util \<Rightarrow> bound_try_from_percent 1000 util = Inr util)"

lemmas contract_op_defs [op_defs] =
  try_deposit_def try_withdraw_def try_open_loan_def try_repay_loan_def try_distribute_rewards_def
  try_claim_rewards_def query_rewards_def execute_def

end
