(* ===== verification/Lpp_Books.thy ===== *)
theory Lpp_Books
  imports Lpp_Contract Fund
begin

text \<open>
  What every operation of the pool contract does to its books: the totals against the loans,
  the receipts against the deposits, and the assets and shares of the abstract fund of
  \<open>Fund\<close> that the pool implements.
\<close>

section \<open>Books\<close>

definition loan_in_books :: "timestamp \<Rightarrow> 'l loan \<Rightarrow> bool" where
  "loan_in_books now ln \<longleftrightarrow>
     0 < amount (principal_due ln) \<and> coin_ok (principal_due ln) \<and> interest_paid ln \<le> now"

definition books :: "'l pool_store \<Rightarrow> timestamp \<Rightarrow> bool" where
  "books p now \<longleftrightarrow>
     total_ok (pool_totals p) \<and> last_update_time (pool_totals p) \<le> now \<and>
     finite (dom (pool_loans p)) \<and>
     loans_principal (pool_loans p) = amount (total_principal_due (pool_totals p)) \<and>
     (\<forall>a ln. pool_loans p a = Some ln \<longrightarrow> loan_in_books now ln) \<and>
     deposits_inv (pool_deposits p) \<and>
     config_ok (borrow_rate (config p)) (min_utilization (config p))"

definition receipts_of :: "'l pool_store \<Rightarrow> nat" where
  "receipts_of p = amount (deposits_balance_nlpn (pool_deposits p))"

definition assets_of :: "'l pool_store \<Rightarrow> nat \<Rightarrow> timestamp \<Rightarrow> nat" where
  "assets_of p held now = held + receivable (pool_totals p) now"

lemma books_later: "books p now \<Longrightarrow> now \<le> later \<Longrightarrow> books p later"
  by (fastforce simp: books_def loan_in_books_def)

lemma assets_of_mono: "now \<le> later \<Longrightarrow> assets_of p held now \<le> assets_of p held later"
  by (simp add: assets_of_def receivable_mono)

section \<open>Prices of receipts\<close>

lemma total_due_amount:
  assumes "total_ok (pool_totals p)" "total_due p now = Some due"
  shows "amount due = receivable (pool_totals p) now"
proof -
  from assms(2) obtain i where i: "total_interest_due_by_now (pool_totals p) now = Some i"
    "due = Coin (amount (total_principal_due (pool_totals p)) + amount i)"
    by (auto simp: total_due_def)
  then show ?thesis using total_interest_Some(1) [OF assms(1) i(1)] by (simp add: receivable_def)
qed

lemma total_lpn_amount:
  assumes "total_ok (pool_totals p)" "total_lpn p env pending = Some t"
  shows "amount t + amount pending = assets_of p (lpn_balance env) (block_time env)" "coin_ok t"
proof -
  from assms(2) obtain due where due: "total_due p (block_time env) = Some due"
    and t: "amount pending \<le> lpn_balance env" "t = Coin (lpn_balance env - amount pending + amount due)"
      "amount t < 2 ^ 128"
    by (auto simp: total_lpn_def commited_balance_def uncommited_balance_def)
  then show "amount t + amount pending = assets_of p (lpn_balance env) (block_time env)" "coin_ok t"
    using total_due_amount [OF assms(1) due] by (simp_all add: assets_of_def coin_ok_def)
qed

lemma div_same_fraction:
  fixes a b c d :: nat
  assumes "b * c = a * d" "0 < a" "0 < c"
  shows "x * b div a = x * d div c"
  using assms div_mono_fraction [of b c a d x] div_mono_fraction [of d a c b x]
  by (simp add: mult.commute)

text \<open>Both directions of exchange at the price of a receipt, with \<open>t\<close> the assets.\<close>

lemma price_of_receipts:
  assumes "calculate_price p env pending = Some price" "total_ok (pool_totals p)"
    "deposits_inv (pool_deposits p)" "0 < receipts_of p"
    "receipts_of p + amount pending \<le> assets_of p (lpn_balance env) (block_time env)"
  defines "t \<equiv> assets_of p (lpn_balance env) (block_time env) - amount pending"
  shows "total n price = Some c \<Longrightarrow> amount c = amount n * t div receipts_of p"
    and "total l (price_inv price) = Some n' \<Longrightarrow> amount n' = amount l * receipts_of p div t"
proof -
  from assms(1,4) obtain lpn where lpn: "total_lpn p env pending = Some lpn"
    and new: "price_new (deposits_balance_nlpn (pool_deposits p)) lpn = Some price"
    by (auto simp: calculate_price_def receipts_of_def total_of_is_def Let_def split: if_splits)
  have t: "amount lpn = t" "coin_ok lpn"
    using total_lpn_amount [OF assms(2) lpn] by (simp_all add: t_def)
  have pos: "0 < t" using assms(4,5) by (simp add: t_def)
  have ok: "coin_ok (deposits_balance_nlpn (pool_deposits p))" using assms(3) by (simp add: deposits_inv_def)
  from price_new_spec [OF _ _ ok t(2)] assms(4) pos t(1) new
  have price: "price_ok price" "price_is price (receipts_of p) t"
    by (auto simp: receipts_of_def)
  then have cross: "amount (price_amount_quote price) * receipts_of p = amount (price_amount price) * t"
    and gt: "0 < amount (price_amount price)" "0 < amount (price_amount_quote price)"
    by (simp_all add: price_is_def price_ok_def)
  show "total n price = Some c \<Longrightarrow> amount c = amount n * t div receipts_of p"
    using div_same_fraction [OF cross gt(1) assms(4)] price(1) by (auto simp: total_Some)
  have ok': "price_ok (price_inv price)" using price(1) by simp
  show "total l (price_inv price) = Some n' \<Longrightarrow> amount n' = amount l * receipts_of p div t"
    using div_same_fraction [OF cross [symmetric] gt(2) pos]
      total_Some [OF ok'] by (auto simp: mult.commute)
qed

lemma price_of_no_receipts:
  assumes "receipts_of p = 0" "calculate_price p env pending = Some price"
  shows "total l (price_inv price) = Some n \<Longrightarrow> amount n = amount l"
  using assms
  by (auto simp: calculate_price_def receipts_of_def initial_derivative_price_def price_identity_def
      total_def coin_safe_mul_Some_iff)

section \<open>Effects of the handlers\<close>

text \<open>
  The contract every handler meets: it keeps the books, and from the lenders' point of view it
  is one step of a fund. The balance already includes the funds of the message.
\<close>

definition is_fund_step :: "'l pool_store \<Rightarrow> chain \<Rightarrow> cw_coin list \<Rightarrow> 'l pool_store \<Rightarrow> cosmos_msg list \<Rightarrow> bool" where
  "is_fund_step p env funds p' msgs \<longleftrightarrow>
     (\<forall>f. fund_solvent f \<and> shares f = receipts_of p \<and>
        assets f + coins_of (lpn_symbol env) funds \<le> assets_of p (lpn_balance env) (block_time env) \<longrightarrow>
        fund_step f
          \<lparr>assets = assets_of p' (lpn_balance env - outflow (self_addr env) (lpn_symbol env) msgs)
             (block_time env),
           shares = receipts_of p'\<rparr>)"

lemma is_fund_step_grow:
  assumes "receipts_of p' = receipts_of p"
    "assets_of p (lpn_balance env) (block_time env) \<le>
       assets_of p' (lpn_balance env - outflow (self_addr env) (lpn_symbol env) msgs) (block_time env)
         + coins_of (lpn_symbol env) funds"
  shows "is_fund_step p env funds p' msgs"
proof -
  have "fund_step f \<lparr>assets = v, shares = receipts_of p'\<rparr>"
    if "shares f = receipts_of p" "assets f \<le> v" for f v
  proof -
    have "f\<lparr>assets := v\<rparr> = \<lparr>assets = v, shares = receipts_of p'\<rparr>"
      using that(1) assms(1) by simp
    with fund_step.grow [OF that(2)] show ?thesis by simp
  qed
  then show ?thesis using assms(2) by (auto simp: is_fund_step_def)
qed

lemma try_deposit_effect:
  assumes "books p (block_time env)" "try_deposit p env sender funds = Inr (p', msgs, resp)"
  shows "books p' (block_time env)" "is_fund_step p env funds p' msgs" "msgs = []"
proof -
  let ?t = "block_time env" and ?B = "lpn_balance env"
  from assms(2) obtain pending :: "'a coin" and price deposits' receipts where
    funds: "funds = [\<lparr>denom = lpn_symbol env, cw_amount = amount pending\<rparr>]"
    and price: "calculate_price p env pending = Some price"
    and op: "deposit_op (pool_deposits p) sender pending price = Inr (deposits', receipts)"
    and p': "p' = p\<lparr>pool_deposits := deposits'\<rparr>" "msgs = []"
    by (auto simp: try_deposit_def received_one_Inr)
  show "msgs = []" by (rule p'(2))
  have inv: "deposits_inv (pool_deposits p)" and ok: "total_ok (pool_totals p)"
    using assms(1) by (simp_all add: books_def)
  show "books p' ?t"
    using assms(1) deposit_op_inv [OF inv op] by (simp add: books_def p')
  note minted = deposit_op_Inr [OF op]
  have totals: "pool_totals p' = pool_totals p" by (simp add: p')
  have shares: "receipts_of p' = receipts_of p + amount receipts"
    using minted(3) by (simp add: receipts_of_def p')
  show "is_fund_step p env funds p' msgs"
    unfolding is_fund_step_def
  proof (intro allI impI, elim conjE)
    fix f
    assume f: "fund_solvent f" "shares f = receipts_of p"
      "assets f + coins_of (lpn_symbol env) funds \<le> assets_of p ?B ?t"
    define v where "v = assets_of p ?B ?t - amount pending"
    have le: "assets f \<le> v" "assets_of p ?B ?t = v + amount pending"
      using f(3) by (simp_all add: v_def funds)
    have "amount receipts = (if shares f = 0 then amount pending else amount pending * shares f div v)"
    proof (cases "shares f = 0")
      case True
      then show ?thesis using price_of_no_receipts [OF _ price minted(1)] f(2) by simp
    next
      case False
      have "receipts_of p + amount pending \<le> assets_of p ?B ?t"
        using f le by (simp add: fund_solvent_def)
      with False show ?thesis
        using price_of_receipts(2) [OF price ok inv _ _ minted(1)] f(2) by (simp add: v_def)
    qed
    from fund_step.mint [OF le(1) this]
    show "fund_step f \<lparr>assets = assets_of p' (?B - outflow (self_addr env) (lpn_symbol env) msgs) ?t,
        shares = receipts_of p'\<rparr>"
      using le f(2) by (simp add: shares totals p'(2) assets_of_def)
  qed
qed

lemma try_withdraw_effect:
  assumes "books p (block_time env)" "try_withdraw p env sender burnt = Inr (p', msgs, resp)"
    "lpn_symbol env \<noteq> nls_symbol env"
  shows "books p' (block_time env)" "is_fund_step p env funds p' msgs"
proof -
  let ?t = "block_time env" and ?B = "lpn_balance env"
  from assms(2) obtain payment :: "'a coin" and price data deposits' reward where
    pos: "0 < burnt" and price: "calculate_price p env (coin_zero :: 'a coin) = Some price"
    and payment: "total (Coin burnt) price = Some payment" "amount payment \<le> ?B"
    and data: "deposits_map (pool_deposits p) sender = Some data"
    and op: "withdraw_op (pool_deposits p) sender data (Coin burnt) = Inr (deposits', reward)"
    and p': "p' = p\<lparr>pool_deposits := deposits'\<rparr>"
    and msgs: "msgs = (case reward of
             Some r \<Rightarrow> if coin_is_zero r then bank_send (lpn_symbol env) payment sender []
               else bank_send (nls_symbol env) r sender (bank_send (lpn_symbol env) payment sender [])
           | None \<Rightarrow> bank_send (lpn_symbol env) payment sender [])"
    by (auto simp: try_withdraw_def withdraw_lpn_def Let_def pool_balance_def uncommited_balance_def
        coin_order not_less split: if_splits)
  have inv: "deposits_inv (pool_deposits p)" and ok: "total_ok (pool_totals p)"
    using assms(1) by (simp_all add: books_def)
  show "books p' ?t"
    using assms(1) withdraw_op_inv [OF inv data op] by (simp add: books_def p')
  note burn = withdraw_op_Inr [OF op]
  have shares: "receipts_of p' = receipts_of p - burnt" "burnt \<le> receipts_of p"
    using burn(1) by (simp_all add: receipts_of_def p')
  have out: "outflow (self_addr env) (lpn_symbol env) msgs \<le> amount payment"
    using assms(3) by (auto simp: msgs split: option.splits)
  show "is_fund_step p env funds p' msgs"
    unfolding is_fund_step_def
  proof (intro allI impI, elim conjE)
    fix f
    assume f: "fund_solvent f" "shares f = receipts_of p"
      "assets f + coins_of (lpn_symbol env) funds \<le> assets_of p ?B ?t"
    have f': "burnt \<le> shares f" "0 < shares f" using shares(2) pos f(2) by simp_all
    have "receipts_of p + amount (coin_zero :: 'a coin) \<le> assets_of p ?B ?t"
      using f by (simp add: fund_solvent_def)
    then have "amount payment = burnt * assets_of p ?B ?t div shares f"
      using price_of_receipts(1) [OF price ok inv _ _ payment(1)] f' f(2) by simp
    then have "assets_of p ?B ?t - burnt * assets_of p ?B ?t div shares f
        \<le> assets_of p' (?B - outflow (self_addr env) (lpn_symbol env) msgs) ?t"
      using out payment(2) by (simp add: assets_of_def p')
    from fund_step.burn [OF _ f' this] f(2,3)
    show "fund_step f \<lparr>assets = assets_of p' (?B - outflow (self_addr env) (lpn_symbol env) msgs) ?t,
        shares = receipts_of p'\<rparr>"
      by (simp add: shares)
  qed
qed

lemma try_open_loan_effect:
  assumes "books p (block_time env)" "try_open_loan p env lease_addr loan_amount = Inr (p', msgs, resp)"
    "outflow (self_addr env) (lpn_symbol env) msgs \<le> lpn_balance env"
  shows "books p' (block_time env)" "is_fund_step p env funds p' msgs"
proof -
  let ?t = "block_time env"
  from assms(2) obtain rate loans' totals' where
    pos: "0 < amount loan_amount"
    and op: "repo_open (pool_loans p) lease_addr
        \<lparr>principal_due = loan_amount, annual_interest_rate = rate, interest_paid = ?t\<rparr> = Inr loans'"
    and borrow: "total_borrow (pool_totals p) ?t loan_amount rate = Inr totals'"
    and p': "p' = p\<lparr>pool_loans := loans', pool_totals := totals'\<rparr>"
    and msgs: "msgs = bank_send (lpn_symbol env) loan_amount lease_addr []"
    by (auto simp: try_open_loan_def lpp_try_open_loan_def Let_def)
  have ok: "total_ok (pool_totals p)" and fin: "finite (dom (pool_loans p))"
    using assms(1) by (simp_all add: books_def)
  note t = total_borrow_Inr [OF ok borrow] and l = repo_open_principal [OF op fin]
  have "total_ok totals'" using t(4) pos by simp
  moreover from this have "coin_ok loan_amount"
    using t(1) by (simp add: total_ok_def coin_ok_def)
  ultimately show "books p' ?t"
    using assms(1) t l pos op by (auto simp: books_def p' repo_open_Inr loan_in_books_def)
  show "is_fund_step p env funds p' msgs"
    using total_borrow_receivable [OF ok borrow] assms(3)
    by (intro is_fund_step_grow) (auto simp: p' receipts_of_def assets_of_def msgs)
qed

lemma try_repay_loan_effect:
  assumes "books p (block_time env)" "try_repay_loan p env lease_addr funds = Inr (p', msgs, resp)"
    "outflow (self_addr env) (lpn_symbol env) msgs \<le> lpn_balance env" "timestamp_ok (block_time env)"
  shows "books p' (block_time env)" "is_fund_step p env funds p' msgs"
proof -
  let ?t = "block_time env"
  from assms(2) obtain payment :: "'a coin" and ln ln' shares loans' totals' where
    funds: "funds = [\<lparr>denom = lpn_symbol env, cw_amount = amount payment\<rparr>]"
    and ln: "pool_loans p lease_addr = Some ln"
    and repay: "loan_repay ln ?t payment = Some (ln', shares)"
    and save: "repo_save (pool_loans p) lease_addr ln' = Inr loans'"
    and tot: "total_repay (pool_totals p) ?t (shares_interest shares) (shares_principal shares)
        (annual_interest_rate ln) = Some totals'"
    and p': "p' = p\<lparr>pool_loans := loans', pool_totals := totals'\<rparr>"
    and msgs: "msgs = (if coin_is_zero (shares_excess shares) then []
        else bank_send (lpn_symbol env) (shares_excess shares) lease_addr [])"
    by (auto simp: try_repay_loan_def lpp_try_repay_loan_def Let_def received_one_Inr repo_load_def
        split: prod.splits)
  have ok: "total_ok (pool_totals p)" and fin: "finite (dom (pool_loans p))"
    and in_books: "loan_in_books ?t ln"
    using assms(1) ln by (auto simp: books_def)
  have "loan_ok ln" "interest_paid ln \<le> ?t"
    using in_books assms(4) by (auto simp: loan_in_books_def loan_ok_def timestamp_ok_def time_order)
  note r = loan_repay_effect [OF repay assms(4) this]
  note t = total_repay_Some [OF ok tot] and l = repo_save_principal [OF ln save fin]
  have loans': "loans' = (pool_loans p)(lease_addr := if amount (principal_due ln') = 0 then None
      else Some (ln\<lparr>principal_due := principal_due ln', interest_paid := interest_paid ln'\<rparr>))"
    using repo_save_Inr [of "pool_loans p" lease_addr ln ln' loans'] ln save by simp
  have "loan_in_books ?t ln0" if "loans' a = Some ln0" for a ln0
  proof (cases "a = lease_addr")
    case True
    have "coin_ok (principal_due ln')"
      using r(2) in_books by (simp add: loan_in_books_def coin_ok_def)
    with True that show ?thesis
      using r(3) by (auto simp: loans' loan_in_books_def split: if_splits)
  next
    case False
    with that assms(1) show ?thesis
      by (auto simp: loans' books_def)
  qed
  then show "books p' ?t"
    using assms(1) t l r(2) by (auto simp: books_def p')
  show "is_fund_step p env funds p' msgs"
    using total_repay_receivable [OF ok tot] assms(3) r(1)
    by (intro is_fund_step_grow) (auto simp: p' receipts_of_def assets_of_def msgs funds)
qed

lemma rewards_effect:
  assumes "books p (block_time env)"
    "p' = p\<lparr>pool_deposits := deposits'\<rparr>" "deposits_inv deposits'"
    "deposits_balance_nlpn deposits' = deposits_balance_nlpn (pool_deposits p)"
    "outflow (self_addr env) (lpn_symbol env) msgs = 0"
  shows "books p' (block_time env)" "is_fund_step p env funds p' msgs"
proof -
  show "books p' (block_time env)" using assms by (simp add: books_def)
  show "is_fund_step p env funds p' msgs"
    using assms by (intro is_fund_step_grow) (simp_all add: receipts_of_def assets_of_def)
qed

lemma try_distribute_rewards_effect:
  assumes "books p (block_time env)" "try_distribute_rewards p env funds = Inr (p', msgs, resp)"
  shows "books p' (block_time env)" "is_fund_step p env funds p' msgs"
proof -
  from assms(2) obtain rewards deposits' where
    op: "distribute_rewards_op (pool_deposits p) rewards = Inr deposits'"
    and p': "p' = p\<lparr>pool_deposits := deposits'\<rparr>" "msgs = []"
    by (auto simp: try_distribute_rewards_def)
  have "deposits_inv deposits'"
    using assms(1) distribute_rewards_Inr(1,2) [OF op]
    by (simp add: books_def deposits_inv_def receipts_total_def)
  moreover have "outflow (self_addr env) (lpn_symbol env) msgs = 0" by (simp add: p'(2))
  ultimately show "books p' (block_time env)" "is_fund_step p env funds p' msgs"
    by (rule rewards_effect [OF assms(1) p'(1) _ distribute_rewards_Inr(2) [OF op]])+
qed

lemma try_claim_rewards_effect:
  assumes "books p (block_time env)" "try_claim_rewards p env sender other = Inr (p', msgs, resp)"
    "lpn_symbol env \<noteq> nls_symbol env"
  shows "books p' (block_time env)" "is_fund_step p env funds p' msgs"
proof -
  from assms(2) obtain recipient data deposits' reward where
    data: "deposits_map (pool_deposits p) sender = Some data"
    and op: "claim_rewards_op (pool_deposits p) sender data = Some (deposits', reward)"
    and p': "p' = p\<lparr>pool_deposits := deposits'\<rparr>" "msgs = bank_send (nls_symbol env) reward recipient []"
    by (auto simp: try_claim_rewards_def)
  have "deposits_inv deposits'"
    using claim_rewards_Some(2,3) [OF op] receipts_inv_cong [OF _ _ _ data] assms(1)
    by (auto simp: books_def)
  moreover have "outflow (self_addr env) (lpn_symbol env) msgs = 0" using assms(3) by (simp add: p'(2))
  ultimately show "books p' (block_time env)" "is_fund_step p env funds p' msgs"
    by (rule rewards_effect [OF assms(1) p'(1) _ claim_rewards_Some(3) [OF op]])+
qed

lemma new_config_effect:
  assumes "books p (block_time env)" "config_ok (borrow_rate cfg) (min_utilization cfg)"
  shows "books (p\<lparr>config := cfg\<rparr>) (block_time env)" "is_fund_step p env funds (p\<lparr>config := cfg\<rparr>) []"
proof -
  show "books (p\<lparr>config := cfg\<rparr>) (block_time env)" using assms by (simp add: books_def)
  show "is_fund_step p env funds (p\<lparr>config := cfg\<rparr>) []"
    by (intro is_fund_step_grow) (simp_all add: receipts_of_def assets_of_def)
qed

text \<open>Whatever the message, a successful execution keeps the books and is a step of the fund.\<close>

lemma execute_effect:
  assumes "books p (block_time env)" "execute p env sender funds msg = Inr (p', msgs, resp)"
    "outflow (self_addr env) (lpn_symbol env) msgs \<le> lpn_balance env" "timestamp_ok (block_time env)"
    "lpn_symbol env \<noteq> nls_symbol env"
  shows "books p' (block_time env)" "is_fund_step p env funds p' msgs"
proof -
  have "books p' (block_time env) \<and> is_fund_step p env funds p' msgs"
  proof (cases msg)
    case (NewLeaseCode code)
    then have "p' = p\<lparr>config := update_lease_code (config p) code\<rparr>" "msgs = []"
      using assms(2) by (auto simp: execute_def)
    then show ?thesis
      using new_config_effect [OF assms(1), of "update_lease_code (config p) code"] assms(1)
      by (simp add: update_lease_code_def books_def)
  next
    case (OpenLoan dto)
    then have "try_open_loan p env sender (Coin (cw_amount dto)) = Inr (p', msgs, resp)"
      using assms(2) by (auto simp: execute_def split: if_splits)
    then show ?thesis using try_open_loan_effect [OF assms(1) _ assms(3)] by blast
  next
    case RepayLoan
    then show ?thesis
      using try_repay_loan_effect [OF assms(1) _ assms(3,4)] assms(2) by (simp add: execute_def)
  next
    case DepositMsg
    then show ?thesis using try_deposit_effect [OF assms(1)] assms(2) by (simp add: execute_def)
  next
    case (Burn burnt)
    then show ?thesis
      using try_withdraw_effect [OF assms(1) _ assms(5)] assms(2) by (simp add: execute_def)
  next
    case DistributeRewards
    then show ?thesis
      using try_distribute_rewards_effect [OF assms(1)] assms(2) by (simp add: execute_def)
  next
    case (ClaimRewards other)
    then show ?thesis
      using try_claim_rewards_effect [OF assms(1) _ assms(5)] assms(2) by (simp add: execute_def)
  qed
  then show "books p' (block_time env)" "is_fund_step p env funds p' msgs" by simp_all
qed

end
