(* ===== verification/Lpp_System.thy ===== *)
theory Lpp_System
  imports Lpp_Books
begin

text \<open>
  The pool contract as a state machine: its storage together with the two bank balances it
  uses and the time of the last block. A step is a message executed successfully, a
  governance message, or a bank transfer to the contract. The currency of the pool and the
  currency of the rewards have different bank symbols. The code ids of other contracts,
  their addresses, the sender and the funds are arbitrary at each step.
\<close>

record 'l world =
  world_store :: "'l pool_store"
  lpn_held :: nat
  nls_held :: nat
  clock :: timestamp

text \<open>
  One transaction: the bank credits the funds, the contract executes, the bank makes the
  transfers the contract has scheduled. A transfer the balance does not cover aborts it.
\<close>

definition deliver :: "chain \<Rightarrow> 'l world \<Rightarrow> addr \<Rightarrow> cw_coin list \<Rightarrow> execute_msg \<Rightarrow> (lpp_error, 'l world) res" where
  "deliver env w sender funds msg =
     (let lpn = lpn_held w + coins_of (lpn_symbol env) funds;
          nls = nls_held w + coins_of (nls_symbol env) funds
      in and_then (execute (world_store w) (env\<lparr>lpn_balance := lpn\<rparr>) sender funds msg) (\<lambda>(p', msgs, resp).
         or_panic (do {
           lpn' \<leftarrow> checked_sub lpn (outflow (self_addr env) (lpn_symbol env) msgs);
           nls' \<leftarrow> checked_sub nls (outflow (self_addr env) (nls_symbol env) msgs);
           Some \<lparr>world_store = p', lpn_held = lpn', nls_held = nls', clock = block_time env\<rparr>
         })))"

inductive pool_step :: "addr \<Rightarrow> string \<Rightarrow> string \<Rightarrow> 'l world \<Rightarrow> 'l world \<Rightarrow> bool"
  for self lpn nls where
  executed: "lpn \<noteq> nls \<Longrightarrow> self_addr env = self \<Longrightarrow> lpn_symbol env = lpn \<Longrightarrow> nls_symbol env = nls \<Longrightarrow>
    clock w \<le> block_time env \<Longrightarrow> timestamp_ok (block_time env) \<Longrightarrow>
    deliver env w sender funds msg = Inr w' \<Longrightarrow> pool_step self lpn nls w w'"
| governed: "clock w \<le> now \<Longrightarrow> timestamp_ok now \<Longrightarrow> sudo_msg_ok msg \<Longrightarrow>
    pool_step self lpn nls w (w\<lparr>world_store := sudo (world_store w) msg, clock := now\<rparr>)"
| received: "clock w \<le> now \<Longrightarrow> timestamp_ok now \<Longrightarrow>
    pool_step self lpn nls w (w\<lparr>lpn_held := lpn_held w + x, nls_held := nls_held w + y, clock := now\<rparr>)"

inductive_cases pool_stepE: "pool_step self lpn nls w w'"

inductive pool_initial :: "'l world \<Rightarrow> bool" where
  instantiated: "instantiate env known_code msg = Inr p \<Longrightarrow>
    config_ok (msg_borrow_rate msg) (msg_min_utilization msg) \<Longrightarrow> timestamp_ok (block_time env) \<Longrightarrow>
    pool_initial \<lparr>world_store = p, lpn_held = x, nls_held = y, clock = block_time env\<rparr>"

section \<open>The invariant and the refinement\<close>

definition fund_of :: "'l world \<Rightarrow> fund" where
  "fund_of w = \<lparr>assets = assets_of (world_store w) (lpn_held w) (clock w), shares = receipts_of (world_store w)\<rparr>"

definition pool_inv :: "'l world \<Rightarrow> bool" where
  "pool_inv w \<longleftrightarrow> books (world_store w) (clock w) \<and> fund_solvent (fund_of w)"

lemma instantiate_books:
  assumes "instantiate env known_code msg = Inr p"
    "config_ok (msg_borrow_rate msg) (msg_min_utilization msg)"
  shows "books p now" "receipts_of p = 0"
proof -
  have p: "p = \<lparr>lease_code_admin = Some (msg_lease_code_admin msg),
          config = \<lparr>lease_code = msg_lease_code msg, borrow_rate = msg_borrow_rate msg,
                    min_utilization = msg_min_utilization msg\<rparr>,
          pool_totals = total_new, pool_loans = Map.empty,
          pool_deposits = \<lparr>deposits_map = Map.empty, deposits_globals_item = None\<rparr>\<rparr>"
    using assms(1) by (auto simp: instantiate_def)
  have zero: "deposits_balance_nlpn \<lparr>deposits_map = Map.empty, deposits_globals_item = None\<rparr> = coin_zero"
    by (simp add: deposits_balance_nlpn_def globals_load_def deposits_globals_default_def)
  show "receipts_of p = 0" using zero by (simp add: p receipts_of_def)
  show "books p now"
    using assms(2) zero
    by (simp add: p books_def deposits_inv_def receipts_total_def loans_principal_def time_order coin_ok_def)
qed

lemma initial_inv: "pool_initial w \<Longrightarrow> pool_inv w"
  by (auto elim!: pool_initial.cases
      simp: pool_inv_def fund_of_def fund_solvent_def instantiate_books)

lemma sudo_effect:
  assumes "books p now" "sudo_msg_ok msg"
  shows "books (sudo p msg) now" "pool_totals (sudo p msg) = pool_totals p"
    "pool_deposits (sudo p msg) = pool_deposits p"
  using assms
  by (auto simp: sudo_def sudo_msg_ok_def books_def config_ok_def update_borrow_rate_def
      update_min_utilization_def split: sudo_msg.splits)

lemma fund_grow:
  assumes "shares f' = shares f" "assets f \<le> assets f'"
  shows "fund_step f f'"
proof -
  have "f' = f\<lparr>assets := assets f'\<rparr>" using assms(1) by simp
  then show ?thesis using fund_step.grow [OF assms(2)] by simp
qed

text \<open>Every step of the pool is a step of the fund.\<close>

lemma pool_step_effect:
  assumes "pool_inv w" "pool_step self lpn nls w w'"
  shows "books (world_store w') (clock w')" "fund_step (fund_of w) (fund_of w')"
proof -
  have books: "books (world_store w) (clock w)" and solvent: "fund_solvent (fund_of w)"
    using assms(1) by (simp_all add: pool_inv_def)
  have "books (world_store w') (clock w') \<and> fund_step (fund_of w) (fund_of w')"
    using assms(2)
  proof cases
    case (executed env sender funds msg)
    let ?env = "env\<lparr>lpn_balance := lpn_held w + coins_of lpn funds\<rparr>"
    from executed(7) obtain p' msgs resp where
      ex: "execute (world_store w) ?env sender funds msg = Inr (p', msgs, resp)"
      and out: "outflow self lpn msgs \<le> lpn_held w + coins_of lpn funds"
      and w': "world_store w' = p'" "clock w' = block_time env"
        "lpn_held w' = lpn_held w + coins_of lpn funds - outflow self lpn msgs"
      by (auto simp: deliver_def Let_def executed(2-4) [symmetric])
    have "books (world_store w) (block_time ?env)"
      using books_later [OF books executed(5)] by simp
    note eff = execute_effect [OF this ex]
    have "assets (fund_of w) + coins_of lpn funds
        \<le> assets_of (world_store w) (lpn_held w + coins_of lpn funds) (block_time env)"
      using receivable_mono [OF executed(5), of "pool_totals (world_store w)"]
      by (simp add: fund_of_def assets_of_def)
    then show ?thesis
      using eff out solvent executed(1-4,6)
      by (auto simp: w' is_fund_step_def fund_of_def)
  next
    case (governed now msg)
    have "books (world_store w) now" using books governed(2) by (rule books_later)
    note eff = sudo_effect [OF this governed(4)]
    then show ?thesis
      using receivable_mono [OF governed(2), of "pool_totals (world_store w)"]
      by (auto simp: governed(1) fund_of_def assets_of_def receipts_of_def intro: fund_grow)
  next
    case (received now x y)
    then show ?thesis
      using receivable_mono [OF received(2), of "pool_totals (world_store w)"] books_later [OF books received(2)]
      by (auto simp: fund_of_def assets_of_def intro: fund_grow)
  qed
  then show "books (world_store w') (clock w')" "fund_step (fund_of w) (fund_of w')" by simp_all
qed

lemma pool_step_inv:
  assumes "pool_inv w" "pool_step self lpn nls w w'"
  shows "pool_inv w'"
  using pool_step_effect [OF assms] fund_step_solvent assms(1) by (auto simp: pool_inv_def)

interpretation pool: invariant_system pool_initial "pool_step self lpn nls" pool_inv for self lpn nls
  by unfold_locales (auto intro: initial_inv pool_step_inv)

text \<open>The steps after which somebody still holds receipts.\<close>

definition held_step :: "addr \<Rightarrow> string \<Rightarrow> string \<Rightarrow> 'l world \<Rightarrow> 'l world \<Rightarrow> bool" where
  "held_step self lpn nls w w' \<longleftrightarrow> pool_step self lpn nls w w' \<and> 0 < receipts_of (world_store w')"

definition pool_assets :: "'l world \<Rightarrow> nat" where
  "pool_assets w = assets_of (world_store w) (lpn_held w) (clock w)"

lemma fund_of_simps [simp]:
  "assets (fund_of w) = pool_assets w" "shares (fund_of w) = receipts_of (world_store w)"
  by (simp_all add: fund_of_def pool_assets_def)

interpretation pool_price: monotone_system
    "\<lambda>w. pool_inv w \<and> 0 < receipts_of (world_store w)" "held_step self lpn nls"
    "\<lambda>w. pool_inv w \<and> 0 < receipts_of (world_store w)" "\<lambda>w w'. price_not_above (fund_of w) (fund_of w')"
  for self lpn nls
proof (unfold_locales, goal_cases)
  case (2 s s')
  then show ?case by (auto simp: held_step_def intro: pool_step_inv)
next
  case (4 s t u)
  then show ?case
    using fraction_le_trans [of "pool_assets s" "receipts_of (world_store t)" "receipts_of (world_store s)"
        "pool_assets t" "receipts_of (world_store u)" "pool_assets u"]
    by (auto simp: price_not_above_def mult.commute)
next
  case (5 s s')
  then have "fund_step (fund_of s) (fund_of s')"
    using pool_step_effect(2) unfolding held_step_def by blast
  moreover have "fund_solvent (fund_of s)" using 5 by (simp add: pool_inv_def)
  ultimately show ?case by (rule fund_step_price)
qed (auto simp: price_not_above_def)

section \<open>What the lenders can rely on\<close>

lemma held_or_empty:
  assumes "(pool_step self lpn nls)\<^sup>*\<^sup>* w w'"
  shows "(held_step self lpn nls)\<^sup>*\<^sup>* w w'
    \<or> (\<exists>v. (pool_step self lpn nls)\<^sup>*\<^sup>* w v \<and> receipts_of (world_store v) = 0 \<and> (pool_step self lpn nls)\<^sup>*\<^sup>* v w')"
  using assms
proof (induction rule: rtranclp_induct)
  case (step w' w'')
  have run: "(pool_step self lpn nls)\<^sup>*\<^sup>* w w''" using step.hyps by (rule rtranclp.rtrancl_into_rtrancl)
  show ?case
  proof (cases "receipts_of (world_store w'') = 0")
    case True
    then show ?thesis using run by blast
  next
    case False
    then have "held_step self lpn nls w' w''" using step.hyps(2) by (simp add: held_step_def)
    then show ?thesis using step.IH step.hyps(2) by (meson rtranclp.rtrancl_into_rtrancl)
  qed
qed simp

text \<open>
  C2. The price of a receipt never goes down while there are receipts. Over any run of the pool contract,
  whatever messages, senders, funds, configuration changes and transfers it consists of, the
  assets of the pool per receipt do not decrease, unless the run passes through a state in
  which all receipts have been burnt; there the price is set anew to one. The assets are
  the bank balance, the principal lent and the interest accrued by the moment.
\<close>

theorem receipt_price_never_decreases:
  assumes "reachable pool_initial (pool_step self lpn nls) w"
    and "0 < receipts_of (world_store w)" and "(pool_step self lpn nls)\<^sup>*\<^sup>* w w'"
  shows "(0 < receipts_of (world_store w')
      \<and> pool_assets w * receipts_of (world_store w') \<le> pool_assets w' * receipts_of (world_store w))
    \<or> (\<exists>v. (pool_step self lpn nls)\<^sup>*\<^sup>* w v \<and> receipts_of (world_store v) = 0
        \<and> (\<forall>env pending. calculate_price (world_store v) env pending = Some initial_derivative_price)
        \<and> (pool_step self lpn nls)\<^sup>*\<^sup>* v w')"
proof (cases "(held_step self lpn nls)\<^sup>*\<^sup>* w w'")
  case True
  have "pool_inv w" using assms(1) by (rule pool.reachable_inv)
  with assms(2) have "price_not_above (fund_of w) (fund_of w')"
    using pool_price.steps_le [OF True] by blast
  moreover have "0 < receipts_of (world_store w')"
    using True assms(2) by (induction rule: rtranclp_induct) (simp_all add: held_step_def)
  ultimately show ?thesis using assms(2) by (simp add: price_not_above_def)
next
  case False
  then obtain v where v: "(pool_step self lpn nls)\<^sup>*\<^sup>* w v" "receipts_of (world_store v) = 0" "(pool_step self lpn nls)\<^sup>*\<^sup>* v w'"
    using held_or_empty [OF assms(3)] by blast
  have "calculate_price (world_store v) env pending = Some initial_derivative_price" for env pending
    using v(2) by (simp add: calculate_price_def receipts_of_def)
  then show ?thesis using v by blast
qed

text \<open>
  C3. The pool contract refines the abstract fund: from any reachable state each step mints,
  burns or leaves the receipts as the fund does, at the price of the moment and rounded in
  favour of those who stay, and never lets the assets fall otherwise.
\<close>

theorem pool_refines_fund:
  assumes "reachable pool_initial (pool_step self lpn nls) w" "pool_step self lpn nls w w'"
  shows "fund_step (fund_of w) (fund_of w')"
  by (rule pool_step_effect(2) [OF pool.reachable_inv [OF assms(1)] assms(2)])

text \<open>
  C1. In every reachable state the books agree: the total principal due is the sum over the
  loans, the receipts issued are the sum over the deposits, a stored loan has principal due,
  and the receipts do not exceed the assets, that is a receipt is worth at least one. The assets are the
  bank balance, the principal lent and the interest accrued by the moment; the rewards of the lenders
  are kept in another currency and are no part of it.
\<close>

theorem pool_books_balance:
  assumes "reachable pool_initial (pool_step self lpn nls) w"
  shows "amount (total_principal_due (pool_totals (world_store w))) = loans_principal (pool_loans (world_store w))
    \<and> receipts_of (world_store w) = receipts_total (pool_deposits (world_store w))
    \<and> (\<forall>a ln. pool_loans (world_store w) a = Some ln \<longrightarrow> 0 < amount (principal_due ln))
    \<and> receipts_of (world_store w) \<le> pool_assets w"
  using pool.reachable_inv [OF assms]
  by (auto simp: pool_inv_def books_def deposits_inv_def receipts_of_def loan_in_books_def
      fund_solvent_def)

end
