(* ===== verification/Lpp_Runs.thy ===== *)
theory Lpp_Runs
  imports Lpp_System
begin

text \<open>A run of the pool contract on concrete messages, and what it shows of the general facts.\<close>

definition run_chain :: "timestamp \<Rightarrow> chain" where
  "run_chain now =
     \<lparr>block_time = now, self_addr = ''pool'', lpn_symbol = ''usdc'', nls_symbol = ''nls'',
      code_id_of = (\<lambda>a. if a = ''lease'' then Some 7 else None), valid_addr = (\<lambda>_. True),
      lpn_balance = 0\<rparr>"

definition run_config :: instantiate_msg where
  "run_config =
     \<lparr>msg_lease_code_admin = ''leaser'', msg_lease_code = 7,
      msg_borrow_rate = \<lparr>base_interest_rate = Percent 100, utilization_optimal = Percent 700,
        addon_optimal_interest_rate = Percent 20\<rparr>,
      msg_min_utilization = Percent 0\<rparr>"

definition usdc :: "nat \<Rightarrow> cw_coin list" where
  "usdc n = [\<lparr>denom = ''usdc'', cw_amount = n\<rparr>]"

definition run_start :: "unit world" where
  "run_start =
     \<lparr>world_store =
        \<lparr>lease_code_admin = Some ''leaser'',
         config = \<lparr>lease_code = 7, borrow_rate = msg_borrow_rate run_config, min_utilization = Percent 0\<rparr>,
         pool_totals = total_new, pool_loans = Map.empty,
         pool_deposits = \<lparr>deposits_map = Map.empty, deposits_globals_item = None\<rparr>\<rparr>,
      lpn_held = 0, nls_held = 0, clock = Timestamp 0\<rparr>"

definition run_deposited :: "unit world" where
  "run_deposited = run_start\<lparr>world_store := (world_store run_start)\<lparr>pool_deposits :=
     \<lparr>deposits_map = [''ann'' \<mapsto> \<lparr>deposited_nlpn = Coin 1000, reward_per_token = None, pending_rewards_nls = Coin 0\<rparr>],
      deposits_globals_item = Some \<lparr>balance_nlpn = Coin 1000, global_reward_per_token = None\<rparr>\<rparr>\<rparr>,
     lpn_held := 1000\<rparr>"

definition run_lent :: "unit world" where
  "run_lent = run_deposited\<lparr>world_store := (world_store run_deposited)\<lparr>
     pool_totals := \<lparr>total_principal_due = Coin 400, total_interest_due = Coin 0,
       total_annual_interest_rate = mk_ratio 47 400, last_update_time = Timestamp 0\<rparr>,
     pool_loans := [''lease'' \<mapsto> \<lparr>principal_due = Coin 400, annual_interest_rate = Percent 119, interest_paid = Timestamp 0\<rparr>]\<rparr>,
     lpn_held := 600\<rparr>"

definition a_year :: timestamp where
  "a_year = Timestamp 31536000000000000"

definition run_joined :: "unit world" where
  "run_joined = run_lent\<lparr>world_store := (world_store run_lent)\<lparr>pool_deposits :=
     \<lparr>deposits_map =
        [''ann'' \<mapsto> \<lparr>deposited_nlpn = Coin 1000, reward_per_token = None, pending_rewards_nls = Coin 0\<rparr>,
         ''bob'' \<mapsto> \<lparr>deposited_nlpn = Coin 477, reward_per_token = None, pending_rewards_nls = Coin 0\<rparr>],
      deposits_globals_item = Some \<lparr>balance_nlpn = Coin 1477, global_reward_per_token = None\<rparr>\<rparr>\<rparr>,
     lpn_held := 1100, clock := a_year\<rparr>"

lemmas run_defs =
  run_joined_def run_chain_def run_config_def usdc_def run_start_def run_deposited_def run_lent_def a_year_def

lemma run_initial: "pool_initial run_start"
proof -
  have "instantiate (run_chain (Timestamp 0)) (\<lambda>_. True) run_config = Inr (world_store run_start)"
    by (simp add: instantiate_def run_defs)
  moreover have "config_ok (msg_borrow_rate run_config) (msg_min_utilization run_config)"
    by (simp add: config_ok_def rate_validate_def percent_order bound_try_from_percent_def run_defs)
  ultimately show ?thesis
    using pool_initial.instantiated [of "run_chain (Timestamp 0)" _ run_config _ 0 0]
    by (simp add: run_start_def run_chain_def timestamp_ok_def)
qed

lemma deliver_deposit:
  "deliver (run_chain (Timestamp 0)) run_start ''ann'' (usdc 1000) DepositMsg = Inr run_deposited"
  by (simp add: deliver_def Let_def op_defs run_defs del: inversion_simps)

lemma deliver_open_loan:
  "deliver (run_chain (Timestamp 0)) run_deposited ''lease'' []
     (OpenLoan \<lparr>denom = ''usdc'', cw_amount = 400\<rparr>) = Inr run_lent"
  by (simp add: deliver_def Let_def op_defs coin_order min_def percent_order total_new_def run_defs del: inversion_simps)

lemma deliver_join:
  "deliver (run_chain a_year) run_lent ''bob'' (usdc 500) DepositMsg = Inr run_joined"
  by (simp add: deliver_def Let_def op_defs gcd_numeral_rec run_defs del: inversion_simps)

lemma run_step:
  assumes "deliver (run_chain now) w sender funds msg = Inr w'" "clock w \<le> now" "timestamp_ok now"
  shows "pool_step ''pool'' ''usdc'' ''nls'' w w'"
  using assms by (intro pool_step.executed [of _ _ "run_chain now"]) (simp_all add: run_chain_def)

lemma run_steps:
  "pool_step ''pool'' ''usdc'' ''nls'' run_start run_deposited"
  "pool_step ''pool'' ''usdc'' ''nls'' run_deposited run_lent"
  "pool_step ''pool'' ''usdc'' ''nls'' run_lent run_joined"
  using run_step [OF deliver_deposit] run_step [OF deliver_open_loan] run_step [OF deliver_join]
  by (simp_all add: run_defs time_order timestamp_ok_def)

lemma run_reachable:
  "reachable pool_initial (pool_step ''pool'' ''usdc'' ''nls'') run_deposited"
  "reachable pool_initial (pool_step ''pool'' ''usdc'' ''nls'') run_lent"
  "reachable pool_initial (pool_step ''pool'' ''usdc'' ''nls'') run_joined"
proof -
  have "reachable pool_initial (pool_step ''pool'' ''usdc'' ''nls'') run_start"
    using run_initial by (rule reachable.initial)
  then show "reachable pool_initial (pool_step ''pool'' ''usdc'' ''nls'') run_deposited"
    "reachable pool_initial (pool_step ''pool'' ''usdc'' ''nls'') run_lent"
    "reachable pool_initial (pool_step ''pool'' ''usdc'' ''nls'') run_joined"
    using run_steps by (blast intro: reachable.next_state)+
qed

lemma run_values:
  "receipts_of (world_store run_deposited) = 1000" "pool_assets run_deposited = 1000"
  "receipts_of (world_store run_joined) = 1477" "pool_assets run_joined = 1547"
  "receipts_of (world_store run_lent) = 1000"
  by (simp_all add: receipts_of_def pool_assets_def assets_of_def receivable_def accrued_def
      interest_amount_def deposits_balance_nlpn_def globals_load_def total_new_def zero_interest_rate_def run_defs)

text \<open>The price of 1000 receipts for 1000 becomes that of 1477 receipts for 1547.\<close>

theorem receipt_price_never_decreases_witness:
  "(pool_assets run_deposited * receipts_of (world_store run_joined)
      \<le> pool_assets run_joined * receipts_of (world_store run_deposited)
    \<or> (\<exists>v. (pool_step ''pool'' ''usdc'' ''nls'')\<^sup>*\<^sup>* run_deposited v \<and> receipts_of (world_store v) = 0
        \<and> (pool_step ''pool'' ''usdc'' ''nls'')\<^sup>*\<^sup>* v run_joined))
   \<and> receipts_of (world_store run_deposited) = 1000 \<and> pool_assets run_deposited = 1000
   \<and> receipts_of (world_store run_joined) = 1477 \<and> pool_assets run_joined = 1547"
proof -
  have "(pool_step ''pool'' ''usdc'' ''nls'')\<^sup>*\<^sup>* run_deposited run_joined"
    using run_steps(2,3) by (meson rtranclp.rtrancl_refl rtranclp.rtrancl_into_rtrancl)
  with receipt_price_never_decreases [OF run_reachable(1)] run_values show ?thesis by auto
qed

theorem pool_refines_fund_witness: "fund_step (fund_of run_lent) (fund_of run_joined)"
  by (rule pool_refines_fund [OF run_reachable(2) run_steps(3)])

theorem pool_books_balance_witness:
  "loans_principal (pool_loans (world_store run_joined)) = 400
   \<and> receipts_total (pool_deposits (world_store run_joined)) = 1477"
  using pool_books_balance [OF run_reachable(3)] run_values(3) by (simp add: run_defs)

end
