(* ===== verification/Lpp_Guarantees.thy ===== *)
theory Lpp_Guarantees
  imports Lpp_Runs
begin

text \<open>
  What single operations of the pool guarantee to lenders and borrowers: the deposit
  limit, the conditions and the rate of a loan, and the payment of rewards.
\<close>

section \<open>Deposits\<close>

lemma deposit_capacity_Some:
  assumes "deposit_capacity p env pending = Some (Some capacity)" "total_due p (block_time env) = Some due"
    "0 < amount capacity"
  shows "units (min_utilization (config p)) * (lpn_balance env - amount pending + amount capacity + amount due)
    \<le> 1000 * amount due"
proof -
  let ?m = "units (min_utilization (config p))"
  from assms have m: "0 < ?m" and top: "lpn_balance env - amount pending + amount capacity + amount due
      \<le> amount due * 1000 div ?m"
    by (auto simp: deposit_capacity_def Let_def commited_balance_def uncommited_balance_def
        coin_safe_mul_Some_iff split: if_splits)
  from top have "?m * (lpn_balance env - amount pending + amount capacity + amount due)
      \<le> ?m * (amount due * 1000 div ?m)"
    by (rule mult_le_mono2)
  also have "\<dots> \<le> 1000 * amount due"
    by (metis div_times_less_eq_dividend mult.commute)
  finally show ?thesis .
qed

text \<open>
  A deposit the contract accepts leaves the pool utilized at no less than the configured
  minimum: the debt of the borrowers is at least that percent of all the assets, the
  deposit included.
\<close>

theorem deposit_keeps_min_utilization:
  assumes "try_deposit p env sender [\<lparr>denom = lpn_symbol env, cw_amount = pending\<rparr>] = Inr (p', msgs, resp)"
    and "0 < units (min_utilization (config p))"
    and "total_due p (block_time env) = Some due"
  shows "units (min_utilization (config p)) * (lpn_balance env + amount due) \<le> 1000 * amount due"
proof -
  from assms(1) obtain may_capacity where
    cap: "deposit_capacity p env (Coin pending) = Some may_capacity"
    "case may_capacity of None \<Rightarrow> True | Some capacity \<Rightarrow> Coin pending \<le> capacity" and
    pos: "0 < pending"
    by (auto simp: try_deposit_def received_one_def received_one_impl_def from_cosmwasm_def deposit_op_def
        Let_def not_less split: option.splits)
  from cap(1) assms(2) obtain capacity where c: "may_capacity = Some capacity"
    and le: "pending \<le> lpn_balance env"
    by (auto simp: deposit_capacity_def Let_def commited_balance_def uncommited_balance_def split: if_splits)
  with cap(2) pos have "pending \<le> amount capacity" "0 < amount capacity" by (simp_all add: coin_order)
  note bound = deposit_capacity_Some [OF cap(1) [unfolded c] assms(3) this(2)]
  have "lpn_balance env + amount due \<le> lpn_balance env - amount (Coin pending :: 'a coin) + amount capacity + amount due"
    using le \<open>pending \<le> amount capacity\<close> by simp
  from order.trans [OF mult_le_mono2 [OF this] bound] show ?thesis .
qed

theorem deposit_keeps_min_utilization_witness:
  "let p = (world_store run_lent)\<lparr>config := (config (world_store run_lent))\<lparr>min_utilization := Percent 100\<rparr>\<rparr>;
       env = (run_chain (Timestamp 0))\<lparr>lpn_balance := 1100\<rparr>
   in (\<exists>p'. try_deposit p env ''bob'' (usdc 500) = Inr (p', [], RespNone))
     \<and> 100 * (1100 + 400) \<le> (1000 * 400 :: nat)"
proof -
  let ?p = "(world_store run_lent)\<lparr>config := (config (world_store run_lent))\<lparr>min_utilization := Percent 100\<rparr>\<rparr>"
  let ?env = "(run_chain (Timestamp 0))\<lparr>lpn_balance := 1100\<rparr>"
  have "\<exists>p'. try_deposit ?p ?env ''bob'' (usdc 500) = Inr (p', [], RespNone)"
    by (simp add: op_defs Let_def gcd_numeral_rec coin_order percent_order run_defs del: inversion_simps)
  then obtain p' where dep: "try_deposit ?p ?env ''bob'' (usdc 500) = Inr (p', [], RespNone)" by blast
  have due: "total_due ?p (block_time ?env) = Some (Coin 400)"
    by (simp add: op_defs run_defs del: inversion_simps)
  have "usdc 500 = [\<lparr>denom = lpn_symbol ?env, cw_amount = 500\<rparr>]" by (simp add: run_defs)
  with dep have "try_deposit ?p ?env ''bob'' [\<lparr>denom = lpn_symbol ?env, cw_amount = 500\<rparr>] = Inr (p', [], RespNone)"
    by simp
  from deposit_keeps_min_utilization [OF this _ due] dep show ?thesis by (auto simp: Let_def)
qed

section \<open>Loans\<close>

text \<open>The interest of a year on all loans, and on one of some amount at some rate.\<close>

definition annual_interest_due :: "'l pool_store \<Rightarrow> nat" where
  "annual_interest_due p = amount (total_principal_due (pool_totals p)) * parts (total_annual_interest_rate (pool_totals p))
     div whole (total_annual_interest_rate (pool_totals p))"

definition loan_interest_a_year :: "'l coin \<Rightarrow> percent \<Rightarrow> nat" where
  "loan_interest_a_year c rate = amount c * units rate div 1000"

lemma total_borrow_cases:
  assumes ok: "total_ok (pool_totals p)" "coin_ok borrowed"
    and i: "total_interest_due_by_now (pool_totals p) now = Some i"
    and sum: "coin_add (total_principal_due (pool_totals p)) borrowed = Some s"
  shows "case total_borrow (pool_totals p) now borrowed rate of
      Inr t \<Rightarrow> annual_interest_due p + loan_interest_a_year borrowed rate < 2 ^ 128
    | Inl (Fail e) \<Rightarrow> e = LppOverflow ''Annual interest calculation overflow''
        \<and> annual_interest_due p < 2 ^ 128 \<and> loan_interest_a_year borrowed rate < 2 ^ 128
        \<and> 2 ^ 128 \<le> annual_interest_due p + loan_interest_a_year borrowed rate
    | Inl Panic \<Rightarrow> 2 ^ 128 \<le> annual_interest_due p \<or> 2 ^ 128 \<le> loan_interest_a_year borrowed rate"
proof -
  let ?T = "pool_totals p"
  have whole: "0 < whole (total_annual_interest_rate ?T)" using ok(1) by (simp add: total_ok_def)
  have if_Some: "m = (if b then Some v else None)" if "\<And>d. m = Some d \<longleftrightarrow> d = v \<and> b"
    for m :: "'a coin option" and v and b :: bool
    using that by (cases m) auto
  have all: "coin_safe_mul (total_principal_due ?T) (total_annual_interest_rate ?T)
      = (if annual_interest_due p < 2 ^ 128 then Some (Coin (annual_interest_due p)) else None)"
    using whole ok(1) by (intro if_Some) (auto simp: coin_safe_mul_Some_iff annual_interest_due_def total_ok_def coin_ok_def)
  have one: "percent_of_coin rate borrowed
      = (if loan_interest_a_year borrowed rate < 2 ^ 128 then Some (Coin (loan_interest_a_year borrowed rate)) else None)"
    using ok(2) by (intro if_Some) (auto simp: percent_of_coin_Some loan_interest_a_year_def coin_ok_def)
  have "coin_checked_add (total_principal_due ?T) borrowed = Some s" using sum by (simp add: coin_add_def)
  then show ?thesis
    by (auto simp: total_borrow_def i all one coin_checked_add_def checked_add_def fits_def split: if_splits)
qed

text \<open>
  C36. Opening a loan, in every case. It fails with the error of the platform on a caller whose code is not that
  of a lease; otherwise on a zero amount; otherwise with no liquidity when the amount exceeds the
  balance. Otherwise it aborts when the quote for the amount does, as the query does then; fails
  on a caller that already has a loan; aborts when the interest of a year on the loans so far, or on the new one, does not fit
  128 bits; and fails with an overflow when only their sum does not. In all other cases
  it succeeds: the loan has the amount asked for, the rate quoted for that amount at that
  moment, interest due from now on, it is the only change to the loans, and the amount is sent
  to the caller.
\<close>

theorem open_loan_at_quoted_rate:
  assumes ok: "total_ok (pool_totals p)" "coin_ok loan_amount"
  shows "case try_open_loan p env lease_addr loan_amount of
      Inr (p', msgs, resp) \<Rightarrow>
        code_id_of env lease_addr = Some (lease_code (config p))
        \<and> 0 < amount loan_amount \<and> amount loan_amount \<le> lpn_balance env
        \<and> query_loan p lease_addr = None
        \<and> (\<exists>rate. query_quote p env loan_amount = Some (Some rate)
            \<and> annual_interest_due p + loan_interest_a_year loan_amount rate < 2 ^ 128
            \<and> resp = RespLoan \<lparr>principal_due = loan_amount, annual_interest_rate = rate, interest_paid = block_time env\<rparr>
            \<and> pool_loans p' = (pool_loans p)(lease_addr \<mapsto>
                \<lparr>principal_due = loan_amount, annual_interest_rate = rate, interest_paid = block_time env\<rparr>))
        \<and> config p' = config p \<and> pool_deposits p' = pool_deposits p
        \<and> msgs = bank_send (lpn_symbol env) loan_amount lease_addr []
    | Inl (Fail e) \<Rightarrow>
        if code_id_of env lease_addr \<noteq> Some (lease_code (config p)) then \<exists>pe. e = LppPlatform pe
        else if amount loan_amount = 0 then e = ZeroLoanAmount
        else if lpn_balance env < amount loan_amount then e = NoLiquidity
        else (\<exists>rate. query_quote p env loan_amount = Some (Some rate)
            \<and> (if query_loan p lease_addr \<noteq> None then e = LoanExists
               else e = LppOverflow ''Annual interest calculation overflow''
                 \<and> annual_interest_due p < 2 ^ 128 \<and> loan_interest_a_year loan_amount rate < 2 ^ 128
                 \<and> 2 ^ 128 \<le> annual_interest_due p + loan_interest_a_year loan_amount rate))
    | Inl Panic \<Rightarrow>
        code_id_of env lease_addr = Some (lease_code (config p))
        \<and> 0 < amount loan_amount \<and> amount loan_amount \<le> lpn_balance env
        \<and> (query_quote p env loan_amount = None
          \<or> query_loan p lease_addr = None \<and> (\<exists>rate. query_quote p env loan_amount = Some (Some rate)
              \<and> (2 ^ 128 \<le> annual_interest_due p \<or> 2 ^ 128 \<le> loan_interest_a_year loan_amount rate)))"
proof (cases "validate_lease_addr p env lease_addr")
  case (Inl f)
  then have "\<exists>pe. f = Fail (LppPlatform pe)"
    by (cases "code_id_of env lease_addr") (auto simp: validate_lease_addr_def validate_code_id_def split: if_splits)
  moreover have "code_id_of env lease_addr \<noteq> Some (lease_code (config p))"
    using Inl by (auto simp: validate_lease_addr_def validate_code_id_def)
  ultimately show ?thesis using Inl by (auto simp: try_open_loan_def)
next
  case (Inr u)
  then have code: "code_id_of env lease_addr = Some (lease_code (config p))"
    by (simp add: validate_lease_addr_def)
  consider (zero) "amount loan_amount = 0" | (none) "0 < amount loan_amount" "query_quote p env loan_amount = Some None"
    | (panic) "0 < amount loan_amount" "query_quote p env loan_amount = None"
    | (rate) rate where "0 < amount loan_amount" "query_quote p env loan_amount = Some (Some rate)"
    by (cases "amount loan_amount = 0"; cases "query_quote p env loan_amount") auto
  then show ?thesis
  proof cases
    case zero
    then show ?thesis using Inr code by (simp add: try_open_loan_def lpp_try_open_loan_def)
  next
    case none
    then have "lpn_balance env < amount loan_amount"
      by (auto simp: query_quote_def Let_def pool_balance_def uncommited_balance_def coin_order split: if_splits)
    with none Inr code show ?thesis by (simp add: try_open_loan_def lpp_try_open_loan_def)
  next
    case panic
    then have "amount loan_amount \<le> lpn_balance env"
      by (auto simp: query_quote_def Let_def pool_balance_def uncommited_balance_def coin_order not_less split: if_splits)
    with panic Inr code show ?thesis by (simp add: try_open_loan_def lpp_try_open_loan_def)
  next
    case (rate r)
    then have le: "amount loan_amount \<le> lpn_balance env"
      and quoted: "\<exists>i s. total_interest_due_by_now (pool_totals p) (block_time env) = Some i
        \<and> coin_add (total_principal_due (pool_totals p)) loan_amount = Some s"
      by (auto simp: query_quote_def Let_def pool_balance_def uncommited_balance_def coin_order not_less split: if_splits)
    show ?thesis
    proof (cases "query_loan p lease_addr")
      case (Some ln)
      then show ?thesis
        using rate Inr le code by (simp add: try_open_loan_def lpp_try_open_loan_def Let_def repo_open_def query_loan_def repo_query_def)
    next
      case None
      have borrow: "try_open_loan p env lease_addr loan_amount
          = and_then (total_borrow (pool_totals p) (block_time env) loan_amount r) (\<lambda>t.
              let ln = \<lparr>principal_due = loan_amount, annual_interest_rate = r, interest_paid = block_time env\<rparr>
              in Inr (p\<lparr>pool_loans := (pool_loans p)(lease_addr \<mapsto> ln), pool_totals := t\<rparr>,
                bank_send (lpn_symbol env) loan_amount lease_addr [], RespLoan ln))"
        using rate Inr None
        by (cases "total_borrow (pool_totals p) (block_time env) loan_amount r")
          (simp_all add: try_open_loan_def lpp_try_open_loan_def Let_def repo_open_def query_loan_def repo_query_def loans_save_def)
      obtain i s where "total_interest_due_by_now (pool_totals p) (block_time env) = Some i"
        "coin_add (total_principal_due (pool_totals p)) loan_amount = Some s"
        using quoted by blast
      from total_borrow_cases [OF ok this, of r] show ?thesis
        unfolding borrow using rate le code None
        by (cases "total_borrow (pool_totals p) (block_time env) loan_amount r") (auto simp: Let_def split: failure.splits)
    qed
  qed
qed

theorem open_loan_at_quoted_rate_witness:
  "\<exists>p' msgs rate. try_open_loan (world_store run_deposited) ((run_chain (Timestamp 0))\<lparr>lpn_balance := 1000\<rparr>) ''lease'' (Coin 400)
      = Inr (p', msgs, RespLoan \<lparr>principal_due = Coin 400, annual_interest_rate = rate, interest_paid = Timestamp 0\<rparr>)
    \<and> query_quote (world_store run_deposited) ((run_chain (Timestamp 0))\<lparr>lpn_balance := 1000\<rparr>) (Coin 400) = Some (Some rate)"
proof -
  let ?p = "world_store run_deposited" and ?env = "(run_chain (Timestamp 0))\<lparr>lpn_balance := 1000\<rparr>"
  have ok: "total_ok (pool_totals ?p)" "coin_ok (Coin 400 :: unit coin)"
    by (simp_all add: run_deposited_def run_start_def coin_ok_def)
  have "\<exists>p' msgs resp. try_open_loan ?p ?env ''lease'' (Coin 400) = Inr (p', msgs, resp)"
    by (simp add: op_defs Let_def coin_order min_def percent_order total_new_def run_defs del: inversion_simps)
  then obtain p' msgs resp where "try_open_loan ?p ?env ''lease'' (Coin 400) = Inr (p', msgs, resp)" by blast
  with open_loan_at_quoted_rate [OF ok, of ?env "''lease''"] show ?thesis by (auto simp: run_chain_def)
qed

section \<open>Rewards\<close>

text \<open>
  Claiming the rewards pays exactly what the query of the rewards reports, after which the query
  reports nothing. The receipts of the account and the other accounts stay as they are.
\<close>

theorem claim_rewards_pays_query:
  assumes "claim_rewards_op s a data = Some (s', reward)"
  shows "query_rewards_op s data = Some reward
    \<and> (\<exists>data'. deposits_map s' a = Some data' \<and> deposited_nlpn data' = deposited_nlpn data
          \<and> pending_rewards_nls data' = coin_zero
          \<and> calculate_reward data' (globals_load s') = Some coin_zero)
    \<and> (\<forall>b. b \<noteq> a \<longrightarrow> deposits_map s' b = deposits_map s b)
    \<and> deposits_balance_nlpn s' = deposits_balance_nlpn s"
proof -
  from assms(1) have r: "calculate_reward data (globals_load s) = Some reward"
    and s': "s' = deposits_save s a (data\<lparr>reward_per_token := global_reward_per_token (globals_load s),
      pending_rewards_nls := coin_zero\<rparr>)"
    by (auto simp: claim_rewards_op_def update_rewards_Some)
  let ?data = "data\<lparr>reward_per_token := global_reward_per_token (globals_load s),
      pending_rewards_nls := coin_zero\<rparr>"
  from r have "calculate_reward ?data (globals_load s) = Some coin_zero"
    by (auto simp: calculate_reward_def coin_zero_def)
  with r show ?thesis by (auto simp: query_rewards_op_def s' deposits_balance_nlpn_def)
qed

theorem claim_rewards_pays_query_witness:
  "let s = \<lparr>deposits_map = [''ann'' \<mapsto> \<lparr>deposited_nlpn = Coin 10, reward_per_token = None, pending_rewards_nls = Coin 4\<rparr>],
        deposits_globals_item = Some \<lparr>balance_nlpn = Coin 10, global_reward_per_token =
          Some \<lparr>price_amount = Coin 2, price_amount_quote = Coin 1\<rparr>\<rparr>\<rparr>;
       data = \<lparr>deposited_nlpn = Coin 10, reward_per_token = None, pending_rewards_nls = Coin 4\<rparr>
   in query_rewards_op s data = Some (Coin 9) \<and> (\<exists>s'. claim_rewards_op s ''ann'' data = Some (s', Coin 9))"
proof -
  let ?s = "\<lparr>deposits_map = [''ann'' \<mapsto> \<lparr>deposited_nlpn = Coin 10, reward_per_token = None, pending_rewards_nls = Coin 4\<rparr>],
        deposits_globals_item = Some \<lparr>balance_nlpn = Coin 10, global_reward_per_token =
          Some \<lparr>price_amount = Coin 2, price_amount_quote = Coin 1\<rparr>\<rparr>\<rparr>"
  let ?data = "\<lparr>deposited_nlpn = Coin 10, reward_per_token = None, pending_rewards_nls = Coin 4\<rparr>"
  have "\<exists>s'. claim_rewards_op ?s ''ann'' ?data = Some (s', Coin 9)"
    by (simp add: op_defs del: inversion_simps)
  with claim_rewards_pays_query [of ?s "''ann''" ?data] show ?thesis by auto
qed

text \<open>A pool with its three lenders, after two distributions of rewards, 1 Nls and then 2 Nls.\<close>

definition rewards_store :: deposits_store where
  "rewards_store = \<lparr>deposits_map = [''ann'' \<mapsto> \<lparr>deposited_nlpn = Coin 2, reward_per_token = None, pending_rewards_nls = Coin 0\<rparr>],
     deposits_globals_item = Some \<lparr>balance_nlpn = Coin 2, global_reward_per_token = None\<rparr>\<rparr>"

definition rewards_run :: "(lpp_error, deposits_store) res" where
  "rewards_run =
     and_then (distribute_rewards_op rewards_store (Coin 1)) (\<lambda>s1.
     and_then (deposit_op s1 ''bob'' (Coin 1 :: unit coin) price_identity) (\<lambda>(s2, _).
     and_then (deposit_op s2 ''cat'' (Coin 1 :: unit coin) price_identity) (\<lambda>(s3, _).
     distribute_rewards_op s3 (Coin 2))))"

text \<open>
  The rewards promised may exceed the rewards distributed: truncating, for each account, its part
  of the rewards per receipt before and after a distribution rounds the difference up. Here
  3 Nls are distributed in all, and the three accounts may claim 2, 1 and 1.
\<close>

theorem rewards_may_exceed_distributed:
  "\<exists>s. rewards_run = Inr s
     \<and> map (\<lambda>a. map_option amount (query_rewards_op s (load_or_default s a))) [''ann'', ''bob'', ''cat'']
         = [Some 2, Some 1, Some 1]
     \<and> sum_list [2, 1, 1] > (1 + 2 :: nat)"
  by (simp add: rewards_run_def rewards_store_def op_defs Let_def gcd_numeral_rec price_add_def
      price_checked_add_def del: inversion_simps)

end
