(* ===== verification/Lease_Loan.thy ===== *)
theory Lease_Loan
  imports Lpp_Loan
begin

text \<open>
  The loan of a lease (\<open>lease/src/loan/mod.rs\<close>, \<open>state.rs\<close>, \<open>repay.rs\<close>): the loan taken from
  the pool, seen through the stub of \<open>lpp/src/stub/loan.rs\<close>, and the margin interest of
  the protocol on top of it. The interest of the last \<open>due_period\<close> is due, older interest is
  overdue and is paid first. The locale \<open>pool_loan\<close> states what the lease relies on in the
  loan of the pool.
\<close>

section \<open>The loan of the pool, as the lease sees it\<close>

record 'l lpp_stub =
  stub_loan :: "'l loan"
  stub_repayment :: "'l coin"

definition stub_new :: "'l loan \<Rightarrow> 'l lpp_stub" where
  "stub_new ln = \<lparr>stub_loan = ln, stub_repayment = coin_zero\<rparr>"

definition stub_principal_due :: "'l lpp_stub \<Rightarrow> 'l coin" where
  "stub_principal_due s = principal_due (stub_loan s)"

definition stub_interest_due :: "'l lpp_stub \<Rightarrow> timestamp \<Rightarrow> 'l coin option" where
  "stub_interest_due s by = interest_due (stub_loan s) by"

definition stub_repay :: "'l lpp_stub \<Rightarrow> timestamp \<Rightarrow> 'l coin \<Rightarrow> ('l lpp_stub \<times> 'l repay_shares) option" where
  "stub_repay s by repayment =
     do {
       repaid \<leftarrow> coin_add_assign (stub_repayment s) repayment;
       (ln, payment_shares) \<leftarrow> loan_repay (stub_loan s) by repayment;
       Some (\<lparr>stub_loan = ln, stub_repayment = repaid\<rparr>, payment_shares)
     }"

definition stub_annual_interest_rate :: "'l lpp_stub \<Rightarrow> percent" where
  "stub_annual_interest_rate s = annual_interest_rate (stub_loan s)"

text \<open>The amount the lease sends to the pool, if any, when it is done with the loan.\<close>

definition stub_into_batch :: "'l lpp_stub \<Rightarrow> 'l coin option" where
  "stub_into_batch s = (if coin_is_zero (stub_repayment s) then None else Some (stub_repayment s))"

text \<open>
  What a lease relies on: interest due at an earlier moment is defined and not greater, and
  a repayment is split into interest, then principal, then excess.
\<close>

locale pool_loan =
  fixes principal :: "'s \<Rightarrow> 'c coin"
    and int_due :: "'s \<Rightarrow> timestamp \<Rightarrow> 'c coin option"
    and repay_op :: "'s \<Rightarrow> timestamp \<Rightarrow> 'c coin \<Rightarrow> ('s \<times> 'c repay_shares) option"
    and ok :: "'s \<Rightarrow> bool"
    and room :: "'s \<Rightarrow> 'c coin \<Rightarrow> bool"
  assumes due_earlier: "ok s \<Longrightarrow> int_due s t = Some d \<Longrightarrow> t' \<le> t \<Longrightarrow> \<exists>d'. int_due s t' = Some d' \<and> d' \<le> d"
    and repay_split: "ok s \<Longrightarrow> timestamp_ok t \<Longrightarrow> int_due s t = Some d \<Longrightarrow> room s x \<Longrightarrow>
      \<exists>s'. repay_op s t x = Some (s',
          \<lparr>shares_interest = Coin (min (amount d) (amount x)),
           shares_principal = Coin (min (amount x - amount d) (amount (principal s))),
           shares_excess = Coin (amount x - amount d - min (amount x - amount d) (amount (principal s)))\<rparr>)
        \<and> amount (principal s') = amount (principal s) - min (amount x - amount d) (amount (principal s))"
begin

text \<open>A repayment made up of interest and principal that are due is taken as it is.\<close>

lemma repay_exact:
  assumes "ok s" "timestamp_ok t" "int_due s t = Some d" "room s (Coin (i + p))"
    "i \<le> amount d" "p \<le> amount (principal s)" "0 < p \<Longrightarrow> i = amount d"
  shows "\<exists>s'. repay_op s t (Coin (i + p)) =
      Some (s', \<lparr>shares_interest = Coin i, shares_principal = Coin p, shares_excess = Coin 0\<rparr>)
    \<and> amount (principal s') = amount (principal s) - p"
  using repay_split [OF assms(1-4)] assms(5-7) by (cases "p = 0") auto

end

definition stub_ok :: "'l lpp_stub \<Rightarrow> bool" where
  "stub_ok s \<longleftrightarrow> loan_ok (stub_loan s)"

definition stub_room :: "'l lpp_stub \<Rightarrow> 'l coin \<Rightarrow> bool" where
  "stub_room s x \<longleftrightarrow> amount (stub_repayment s) + amount x < 2 ^ 128"

lemma interest_due_earlier:
  assumes "loan_ok ln" "interest_due ln t = Some d" "t' \<le> t"
  shows "\<exists>d'. interest_due ln t' = Some d' \<and> d' \<le> d"
proof -
  have "Duration (at_nanos t' - at_nanos (interest_paid ln)) \<le> Duration (at_nanos t - at_nanos (interest_paid ln))"
    using assms(3) by (simp add: time_order)
  then show ?thesis
    using interest_shorter_defined [of "percent_ratio (annual_interest_rate ln)" "principal_due ln"] assms(1,2)
    by (auto simp: interest_due_Some loan_ok_def)
qed

interpretation lpp_stub: pool_loan stub_principal_due stub_interest_due stub_repay stub_ok stub_room
proof (unfold_locales, goal_cases)
  case (1 s t d t')
  then show ?case
    using interest_due_earlier by (auto simp: stub_ok_def stub_interest_due_def)
next
  case (2 s t d x)
  then have "interest_due (stub_loan s) t = Some d" "loan_ok (stub_loan s)"
    by (simp_all add: stub_ok_def stub_interest_due_def)
  note repay = loan_repay_Some_iff [OF this(1) 2(2) this(2), of x]
  show ?case
    using 2(4) repay
    by (auto simp: stub_repay_def stub_room_def stub_principal_due_def)
qed

section \<open>State of the loan\<close>

datatype 'l overdue = StartIn duration | Accrued "'l coin" "'l coin"

record 'l lease_loan =
  lpp_loan :: "'l lpp_stub"
  due_period_length :: duration
  margin_interest :: percent
  margin_paid_by :: timestamp

record 'l loan_state =
  annual_interest :: percent
  annual_interest_margin :: percent
  state_principal_due :: "'l coin"
  due_interest :: "'l coin"
  due_margin_interest :: "'l coin"
  overdue :: "'l overdue"

definition lease_loan_new :: "'l lpp_stub \<Rightarrow> timestamp \<Rightarrow> percent \<Rightarrow> duration \<Rightarrow> 'l lease_loan" where
  "lease_loan_new stub from annual_margin_interest max_due =
     \<lparr>lpp_loan = stub, due_period_length = max_due, margin_interest = annual_margin_interest,
      margin_paid_by = from\<rparr>"

definition overdue_new :: "period \<Rightarrow> duration \<Rightarrow> percent \<Rightarrow> 'l lpp_stub \<Rightarrow> 'l overdue option" where
  "overdue_new due_period_margin max_due margin stub =
     (if period_length due_period_margin < max_due
      then do {
        start_in \<leftarrow> duration_sub max_due (period_length due_period_margin);
        Some (StartIn start_in)
      }
      else do {
        overdue_period \<leftarrow>
          (if period_length due_period_margin = max_due
           then period_till_length (period_start due_period_margin) duration_zero
           else do {
             till \<leftarrow> period_till due_period_margin;
             due_period_max \<leftarrow> period_till_length till max_due;
             period_cut due_period_margin due_period_max
           });
        overdue_margin \<leftarrow>
          interest (percent_ratio margin) (stub_principal_due stub) (period_length overdue_period);
        overdue_till \<leftarrow> period_till overdue_period;
        overdue_int \<leftarrow> stub_interest_due stub overdue_till;
        Some (Accrued overdue_int overdue_margin)
      })"

definition overdue_start_in :: "'l overdue \<Rightarrow> duration" where
  "overdue_start_in o1 = (case o1 of StartIn start_in \<Rightarrow> start_in | Accrued _ _ \<Rightarrow> duration_zero)"

definition overdue_interest :: "'l overdue \<Rightarrow> 'l coin" where
  "overdue_interest o1 = (case o1 of StartIn _ \<Rightarrow> coin_zero | Accrued int_amount _ \<Rightarrow> int_amount)"

definition overdue_margin :: "'l overdue \<Rightarrow> 'l coin" where
  "overdue_margin o1 = (case o1 of StartIn _ \<Rightarrow> coin_zero | Accrued _ margin_amount \<Rightarrow> margin_amount)"

definition loan_state_at :: "'l lease_loan \<Rightarrow> timestamp \<Rightarrow> 'l loan_state option" where
  "loan_state_at l now =
     do {
       due_period_margin \<leftarrow> period_from_till (margin_paid_by l) now;
       od \<leftarrow> overdue_new due_period_margin (due_period_length l) (margin_interest l) (lpp_loan l);
       let princ = stub_principal_due (lpp_loan l);
       margin_by_now \<leftarrow>
         interest (percent_ratio (margin_interest l)) princ (period_length due_period_margin);
       due_margin \<leftarrow> coin_sub margin_by_now (overdue_margin od);
       till \<leftarrow> period_till due_period_margin;
       interest_by_now \<leftarrow> stub_interest_due (lpp_loan l) till;
       due_int \<leftarrow> coin_sub interest_by_now (overdue_interest od);
       Some \<lparr>annual_interest = stub_annual_interest_rate (lpp_loan l),
             annual_interest_margin = margin_interest l, state_principal_due = princ,
             due_interest = due_int, due_margin_interest = due_margin, overdue = od\<rparr>
     }"

section \<open>Repayment\<close>

record 'l receipt =
  overdue_margin_paid :: "'l coin"
  overdue_interest_paid :: "'l coin"
  due_margin_paid :: "'l coin"
  due_interest_paid :: "'l coin"
  principal_paid :: "'l coin"
  change :: "'l coin"
  close :: bool

definition receipt_new :: "'l coin \<Rightarrow> 'l coin \<Rightarrow> 'l coin \<Rightarrow> 'l coin \<Rightarrow> 'l coin \<Rightarrow> 'l coin \<Rightarrow> 'l coin \<Rightarrow> 'l receipt" where
  "receipt_new od_interest od_margin d_interest d_margin princ_due princ_paid chg =
     \<lparr>overdue_margin_paid = od_margin, overdue_interest_paid = od_interest,
      due_margin_paid = d_margin, due_interest_paid = d_interest,
      principal_paid = princ_paid, change = chg, close = (princ_due = princ_paid)\<rparr>"

definition receipt_total :: "'l receipt \<Rightarrow> 'l coin option" where
  "receipt_total r =
     do {
       s1 \<leftarrow> coin_add (overdue_margin_paid r) (overdue_interest_paid r);
       s2 \<leftarrow> coin_add s1 (due_margin_paid r);
       s3 \<leftarrow> coin_add s2 (due_interest_paid r);
       s4 \<leftarrow> coin_add s3 (principal_paid r);
       coin_add s4 (change r)
     }"

text \<open>The sender of the profit collects amounts; zero ones are skipped.\<close>

definition lazy_send :: "'l coin \<Rightarrow> 'l coin list \<Rightarrow> 'l coin list" where
  "lazy_send c amounts = (if \<not> coin_is_zero c then amounts @ [c] else amounts)"

definition repay_margin :: "'l lease_loan \<Rightarrow> 'l coin \<Rightarrow> 'l coin \<Rightarrow> timestamp \<Rightarrow> 'l lease_loan option" where
  "repay_margin l princ_due margin_paid by =
     do {
       period \<leftarrow> duration_between (margin_paid_by l) by;
       (margin_paid_for, _) \<leftarrow> pay (percent_ratio (margin_interest l)) princ_due margin_paid period;
       paid_by \<leftarrow> timestamp_add (margin_paid_by l) margin_paid_for;
       Some (l\<lparr>margin_paid_by := paid_by\<rparr>)
     }"

definition repay_loan :: "'l lease_loan \<Rightarrow> 'l coin \<Rightarrow> 'l coin \<Rightarrow> timestamp \<Rightarrow> 'l lease_loan option" where
  "repay_loan l int_paid princ_paid by =
     do {
       repayment \<leftarrow> coin_add int_paid princ_paid;
       (stub, _) \<leftarrow> stub_repay (lpp_loan l) by repayment;
       Some (l\<lparr>lpp_loan := stub\<rparr>)
     }"

definition lease_loan_repay ::
  "'l lease_loan \<Rightarrow> 'l coin \<Rightarrow> timestamp \<Rightarrow> 'l coin list \<Rightarrow> ('l lease_loan \<times> 'l coin list \<times> 'l receipt) option" where
  "lease_loan_repay l payment by profit =
     do {
       st \<leftarrow> loan_state_at l by;
       let overdue_interest_payment = min (overdue_interest (overdue st)) payment;
       rest1 \<leftarrow> coin_sub payment overdue_interest_payment;
       let overdue_margin_payment = min (overdue_margin (overdue st)) rest1;
       rest2 \<leftarrow> coin_sub rest1 overdue_margin_payment;
       let due_interest_payment = min (due_interest st) rest2;
       rest3 \<leftarrow> coin_sub rest2 due_interest_payment;
       let due_margin_payment = min (due_margin_interest st) rest3;
       interest_paid_total \<leftarrow> coin_add overdue_interest_payment due_interest_payment;
       margin_paid \<leftarrow> coin_add overdue_margin_payment due_margin_payment;
       left1 \<leftarrow> coin_sub payment interest_paid_total;
       left2 \<leftarrow> coin_sub left1 margin_paid;
       let princ_paid = min (state_principal_due st) left2;
       chg \<leftarrow> coin_sub left2 princ_paid;
       l1 \<leftarrow> repay_margin l (state_principal_due st) margin_paid by;
       let profit' = lazy_send margin_paid profit;
       l2 \<leftarrow> repay_loan l1 interest_paid_total princ_paid by;
       Some (l2, profit', receipt_new overdue_interest_payment overdue_margin_payment
         due_interest_payment due_margin_payment (state_principal_due st) princ_paid chg)
     }"

section \<open>What is overdue and what is due\<close>

definition lease_loan_ok :: "'l lease_loan \<Rightarrow> timestamp \<Rightarrow> bool" where
  "lease_loan_ok l now \<longleftrightarrow>
     loan_ok (stub_loan (lpp_loan l)) \<and> timestamp_ok now \<and> margin_paid_by l \<le> now"

text \<open>
  The overdue period: from the time the margin is paid by until \<open>max_due\<close> before the current
  time. Its end is what matters.
\<close>

lemma overdue_period:
  assumes "a \<le> b" "b < 2 ^ 64" "m < b - a"
  shows "do {
      till \<leftarrow> period_till \<lparr>period_start = Timestamp a, period_length = Duration (b - a)\<rparr>;
      due_period_max \<leftarrow> period_till_length till (Duration m);
      period_cut \<lparr>period_start = Timestamp a, period_length = Duration (b - a)\<rparr> due_period_max
    } = Some \<lparr>period_start = Timestamp a, period_length = Duration (b - m - a)\<rparr>"
proof -
  let ?p = "\<lparr>period_start = Timestamp a, period_length = Duration (b - a)\<rparr>"
  let ?q = "\<lparr>period_start = Timestamp (b - m), period_length = Duration m\<rparr>"
  have till: "period_till ?p = Some (Timestamp b)" "period_till ?q = Some (Timestamp b)"
    using assms by (simp_all add: period_ok_def)
  have q: "period_till_length (Timestamp b) (Duration m) = Some ?q"
    using period_till_length_Some [of "Timestamp b" "Duration m"] assms by (simp add: timestamp_ok_def)
  have "move_within ?p (Timestamp (b - m)) = Some (Timestamp (b - m))"
    "move_within ?p (Timestamp b) = Some (Timestamp b)"
    using assms
    by (simp_all add: move_within_def till(1) ord_clamp_def time_order max_def min_def
        del: bind_Some period_till_Some)
  then have "period_intersect ?p ?q = Some ?q"
    using till assms by (simp add: period_intersect_def)
  then have "period_cut ?p ?q = Some \<lparr>period_start = Timestamp a, period_length = Duration (b - m - a)\<rparr>"
    using assms by (auto simp: period_cut_def)
  with till q show ?thesis by simp
qed

text \<open>What is overdue, given that the interest by now does not overflow.\<close>

definition overdue_at :: "'l lease_loan \<Rightarrow> timestamp \<Rightarrow> 'l overdue \<Rightarrow> bool" where
  "overdue_at l now od \<longleftrightarrow>
     (let len = at_nanos now - at_nanos (margin_paid_by l); max_due = nanos (due_period_length l)
      in if len < max_due then od = StartIn (Duration (max_due - len))
         else \<exists>i m. od = Accrued i m
           \<and> stub_interest_due (lpp_loan l) (Timestamp (at_nanos now - max_due)) = Some i
           \<and> interest (percent_ratio (margin_interest l)) (stub_principal_due (lpp_loan l))
               (Duration (len - max_due)) = Some m)"

lemma overdue_new_defined:
  assumes ok: "lease_loan_ok l now"
    and M: "interest (percent_ratio (margin_interest l)) (stub_principal_due (lpp_loan l))
        (Duration (at_nanos now - at_nanos (margin_paid_by l))) = Some M"
    and D: "stub_interest_due (lpp_loan l) now = Some D"
  shows "\<exists>od. overdue_new \<lparr>period_start = margin_paid_by l,
        period_length = Duration (at_nanos now - at_nanos (margin_paid_by l))\<rparr>
        (due_period_length l) (margin_interest l) (lpp_loan l) = Some od
      \<and> overdue_at l now od \<and> overdue_interest od \<le> D \<and> overdue_margin od \<le> M"
proof -
  define a b m where "a = at_nanos (margin_paid_by l)" and "b = at_nanos now"
    and "m = nanos (due_period_length l)"
  have l: "margin_paid_by l = Timestamp a" "now = Timestamp b" "due_period_length l = Duration m"
    by (simp_all add: a_def b_def m_def)
  have ab: "a \<le> b" "b < 2 ^ 64"
    using ok by (simp_all add: lease_loan_ok_def time_order timestamp_ok_def a_def b_def)
  let ?p = "\<lparr>period_start = Timestamp a, period_length = Duration (b - a)\<rparr>"
  show ?thesis
  proof (cases "b - a < m")
    case True
    then show ?thesis
      by (simp add: overdue_new_def overdue_at_def l time_order Let_def duration_sub_def checked_sub_def
          overdue_interest_def overdue_margin_def coin_order)
  next
    case False
    then obtain k where k: "b = a + m + k" by (metis ab(1) le_add_diff_inverse not_less add.assoc)
    have princ: "coin_ok (stub_principal_due (lpp_loan l))"
      using ok by (simp add: lease_loan_ok_def loan_ok_def stub_principal_due_def)
    obtain i where i: "stub_interest_due (lpp_loan l) (Timestamp (a + k)) = Some i" "i \<le> D"
      using lpp_stub.due_earlier [OF _ D, of "Timestamp (a + k)"] ok
      by (auto simp: stub_ok_def lease_loan_ok_def l k time_order)
    have shorter: "Duration k \<le> Duration (at_nanos now - at_nanos (margin_paid_by l))"
      by (simp add: l k time_order)
    obtain mg where mg: "interest (percent_ratio (margin_interest l)) (stub_principal_due (lpp_loan l))
        (Duration k) = Some mg" "mg \<le> M"
      using interest_shorter_defined [OF _ princ M shorter] by auto
    have per: "(if period_length ?p = Duration m then period_till_length (period_start ?p) duration_zero
           else do {
             till \<leftarrow> period_till ?p;
             due_period_max \<leftarrow> period_till_length till (Duration m);
             period_cut ?p due_period_max
           }) = Some \<lparr>period_start = Timestamp a, period_length = Duration k\<rparr>"
    proof (cases "k = 0")
      case True
      then show ?thesis
        using period_till_length_Some [of "Timestamp a" duration_zero] ab
        by (simp add: k timestamp_ok_def duration_zero_def)
    next
      case neq: False
      then show ?thesis using overdue_period [OF ab, of m] by (simp add: k)
    qed
    have "period_till \<lparr>period_start = Timestamp a, period_length = Duration k\<rparr>
        = Some (Timestamp (a + k))"
      using ab by (simp add: period_ok_def k)
    then have "overdue_new ?p (Duration m) (margin_interest l) (lpp_loan l) = Some (Accrued i mg)"
      using i mg False unfolding overdue_new_def per
      by (simp add: time_order del: bind_Some period_till_Some)
    moreover have "overdue_at l now (Accrued i mg)"
      using i mg by (simp add: overdue_at_def l Let_def k)
    ultimately show ?thesis using i mg by (simp add: l overdue_interest_def overdue_margin_def)
  qed
qed

lemma loan_state_defined:
  assumes "lease_loan_ok l now"
    and "interest (percent_ratio (margin_interest l)) (stub_principal_due (lpp_loan l))
        (Duration (at_nanos now - at_nanos (margin_paid_by l))) = Some margin_by_now"
    and "stub_interest_due (lpp_loan l) now = Some interest_by_now"
  shows "\<exists>st. loan_state_at l now = Some st \<and> overdue_at l now (overdue st)
    \<and> amount (overdue_interest (overdue st)) + amount (due_interest st) = amount interest_by_now
    \<and> amount (overdue_margin (overdue st)) + amount (due_margin_interest st) = amount margin_by_now
    \<and> state_principal_due st = stub_principal_due (lpp_loan l)"
proof -
  from overdue_new_defined [OF assms] obtain od where
    od: "overdue_new \<lparr>period_start = margin_paid_by l,
        period_length = Duration (at_nanos now - at_nanos (margin_paid_by l))\<rparr>
        (due_period_length l) (margin_interest l) (lpp_loan l) = Some od" "overdue_at l now od"
    and le: "overdue_interest od \<le> interest_by_now" "overdue_margin od \<le> margin_by_now"
    by blast
  have t: "at_nanos (margin_paid_by l) \<le> at_nanos now" "at_nanos now < 2 ^ 64"
    using assms(1) by (simp_all add: lease_loan_ok_def time_order timestamp_ok_def)
  have "loan_state_at l now = Some
      \<lparr>annual_interest = stub_annual_interest_rate (lpp_loan l),
       annual_interest_margin = margin_interest l,
       state_principal_due = stub_principal_due (lpp_loan l),
       due_interest = Coin (amount interest_by_now - amount (overdue_interest od)),
       due_margin_interest = Coin (amount margin_by_now - amount (overdue_margin od)), overdue = od\<rparr>"
    using od(1) le t assms(2,3)
    by (auto simp: loan_state_at_def Let_def period_ok_def coin_order)
  then show ?thesis using od(2) le by (simp add: coin_order)
qed

text \<open>
  The state of a loan is always computed, without an underflow, as long as the interests by now
  fit 128 bits. The interest due to the pool and the margin due to the protocol are each the
  sum of an overdue part and a part that is due. Nothing is overdue until the due period has
  elapsed since the margin was last paid; from then on the overdue parts are exactly the interests
  up to one due period before now.
\<close>

theorem loan_state_splits_interest:
  assumes "lease_loan_ok l now"
    and "interest (percent_ratio (margin_interest l)) (stub_principal_due (lpp_loan l))
        (Duration (at_nanos now - at_nanos (margin_paid_by l))) = Some margin_by_now"
    and "stub_interest_due (lpp_loan l) now = Some interest_by_now"
  shows "\<exists>st. loan_state_at l now = Some st \<and> overdue_at l now (overdue st)
    \<and> amount (overdue_interest (overdue st)) + amount (due_interest st) = amount interest_by_now
    \<and> amount (overdue_margin (overdue st)) + amount (due_margin_interest st) = amount margin_by_now
    \<and> state_principal_due st = stub_principal_due (lpp_loan l)"
  by (rule loan_state_defined [OF assms])

section \<open>How a payment is spent\<close>

lemma waterfall:
  fixes p oi om di dm :: nat
  assumes "a = min oi p" "b = min om (p - a)" "c = min di (p - a - b)" "d = min dm (p - a - b - c)"
  shows "a + b + c + d \<le> p" "a + c \<le> p" "b + d \<le> p - (a + c)"
    and "0 < b \<Longrightarrow> a = oi" "0 < c \<Longrightarrow> a = oi \<and> b = om" "0 < d \<Longrightarrow> a = oi \<and> b = om \<and> c = di"
    and "a + b + c + d < p \<Longrightarrow> a = oi \<and> b = om \<and> c = di \<and> d = dm"
proof -
  have le: "a \<le> p" "b \<le> p - a" "c \<le> p - a - b" "d \<le> p - a - b - c"
    unfolding assms by (rule min.cobounded2)+
  have pick: "x = min y z \<Longrightarrow> x = y \<or> x = z" for x y z :: nat by (auto simp: min_def)
  note A = pick [OF assms(1)] and B = pick [OF assms(2)] and C = pick [OF assms(3)] and D = pick [OF assms(4)]
  have 1: "a + b \<le> p" using le(1,2) by linarith
  have 2: "a + b + c \<le> p" using le(3) 1 by linarith
  show 3: "a + b + c + d \<le> p" using le(4) 2 by linarith
  show "a + c \<le> p" "b + d \<le> p - (a + c)" using 3 by linarith+
  show b: "0 < b \<Longrightarrow> a = oi" using A le(2) by auto
  have ab: "a = oi \<and> b = om" if "0 < p - a - b" using that A B by auto
  then show "0 < c \<Longrightarrow> a = oi \<and> b = om" using le(3) by simp
  have abc: "a = oi \<and> b = om \<and> c = di" if "0 < p - a - b - c" using that ab C by auto
  then show "0 < d \<Longrightarrow> a = oi \<and> b = om \<and> c = di" using le(4) by simp
  show "a + b + c + d < p \<Longrightarrow> a = oi \<and> b = om \<and> c = di \<and> d = dm"
  proof -
    assume lt: "a + b + c + d < p"
    then have "0 < p - a - b - c" by linarith
    moreover have "d \<noteq> p - a - b - c" using lt by linarith
    ultimately show ?thesis using abc D by blast
  qed
qed

lemma repay_margin_Some:
  assumes "lease_loan_ok l by"
    and "interest (percent_ratio (margin_interest l)) princ
        (Duration (at_nanos by - at_nanos (margin_paid_by l))) = Some M"
  shows "\<exists>paid_by. repay_margin l princ paid by = Some (l\<lparr>margin_paid_by := paid_by\<rparr>)
    \<and> margin_paid_by l \<le> paid_by \<and> paid_by \<le> by"
proof -
  let ?len = "at_nanos by - at_nanos (margin_paid_by l)"
  have t: "at_nanos (margin_paid_by l) \<le> at_nanos by" "at_nanos by < 2 ^ 64"
    using assms(1) by (simp_all add: lease_loan_ok_def time_order timestamp_ok_def)
  have ok: "duration_ok (Duration ?len)" using t by (simp add: duration_ok_def)
  obtain paid_for rest where p: "pay (percent_ratio (margin_interest l)) princ paid (Duration ?len)
      = Some (paid_for, rest)"
    using pay_defined [OF assms(2) ok] by blast
  have "paid_for \<le> Duration ?len" by (rule pay_paid_for_le [OF assms(2) ok p])
  then have le: "at_nanos (margin_paid_by l) + nanos paid_for \<le> at_nanos by"
    using t by (simp add: time_order)
  then have "repay_margin l princ paid by =
      Some (l\<lparr>margin_paid_by := Timestamp (at_nanos (margin_paid_by l) + nanos paid_for)\<rparr>)"
    using p t by (simp add: repay_margin_def)
  with le show ?thesis by (auto simp: time_order)
qed

lemma repay_loan_Some:
  assumes "lease_loan_ok l by" "stub_interest_due (lpp_loan l) by = Some D"
    "stub_room (lpp_loan l) (Coin (i + p))" "i \<le> amount D" "p \<le> amount (stub_principal_due (lpp_loan l))"
    "0 < p \<Longrightarrow> i = amount D"
  shows "\<exists>stub. stub_repay (lpp_loan l) by (Coin (i + p)) =
      Some (stub, \<lparr>shares_interest = Coin i, shares_principal = Coin p, shares_excess = Coin 0\<rparr>)
    \<and> repay_loan l (Coin i) (Coin p) by = Some (l\<lparr>lpp_loan := stub\<rparr>)
    \<and> amount (stub_principal_due stub) + p = amount (stub_principal_due (lpp_loan l))"
proof -
  have "stub_ok (lpp_loan l)" "timestamp_ok by"
    using assms(1) by (simp_all add: lease_loan_ok_def stub_ok_def)
  from lpp_stub.repay_exact [OF this assms(2-6)] obtain stub where
    stub: "stub_repay (lpp_loan l) by (Coin (i + p)) =
      Some (stub, \<lparr>shares_interest = Coin i, shares_principal = Coin p, shares_excess = Coin 0\<rparr>)"
    "amount (stub_principal_due stub) = amount (stub_principal_due (lpp_loan l)) - p"
    by blast
  moreover have "i + p < 2 ^ 128" using assms(3) by (simp add: stub_room_def)
  ultimately show ?thesis using assms(5) by (simp add: repay_loan_def)
qed

text \<open>
  The parts of a payment, one after the other: overdue interest, overdue margin, due interest,
  due margin, principal.
\<close>

definition parts_of_payment :: "'l loan_state \<Rightarrow> nat \<Rightarrow> nat \<Rightarrow> nat \<Rightarrow> nat \<Rightarrow> nat \<Rightarrow> nat \<Rightarrow> bool" where
  "parts_of_payment st p a b c d e \<longleftrightarrow>
     a = min (amount (overdue_interest (overdue st))) p
   \<and> b = min (amount (overdue_margin (overdue st))) (p - a)
   \<and> c = min (amount (due_interest st)) (p - a - b)
   \<and> d = min (amount (due_margin_interest st)) (p - a - b - c)
   \<and> e = min (amount (state_principal_due st)) (p - (a + c) - (b + d))"

lemma parts_of_payment_bounds:
  assumes "parts_of_payment st p a b c d e"
  shows "a \<le> amount (overdue_interest (overdue st))" "b \<le> amount (overdue_margin (overdue st))"
    "c \<le> amount (due_interest st)" "d \<le> amount (due_margin_interest st)"
    "e \<le> amount (state_principal_due st)" "a + b + c + d + e \<le> p"
    "0 < b \<Longrightarrow> a = amount (overdue_interest (overdue st))"
    "0 < c \<Longrightarrow> a = amount (overdue_interest (overdue st)) \<and> b = amount (overdue_margin (overdue st))"
    "0 < d \<Longrightarrow> a = amount (overdue_interest (overdue st)) \<and> b = amount (overdue_margin (overdue st))
       \<and> c = amount (due_interest st)"
    "a + b + c + d < p \<Longrightarrow> a = amount (overdue_interest (overdue st)) \<and> b = amount (overdue_margin (overdue st))
       \<and> c = amount (due_interest st) \<and> d = amount (due_margin_interest st)"
    "a + b + c + d + e < p \<Longrightarrow> e = amount (state_principal_due st)"
proof -
  have defs: "a = min (amount (overdue_interest (overdue st))) p"
    "b = min (amount (overdue_margin (overdue st))) (p - a)" "c = min (amount (due_interest st)) (p - a - b)"
    "d = min (amount (due_margin_interest st)) (p - a - b - c)"
    and e: "e = min (amount (state_principal_due st)) (p - (a + c) - (b + d))"
    using assms unfolding parts_of_payment_def by blast+
  note w = waterfall [OF defs]
  show "a \<le> amount (overdue_interest (overdue st))" by (subst defs(1)) (rule min.cobounded1)
  show "b \<le> amount (overdue_margin (overdue st))" by (subst defs(2)) (rule min.cobounded1)
  show "c \<le> amount (due_interest st)" by (subst defs(3)) (rule min.cobounded1)
  show "d \<le> amount (due_margin_interest st)" by (subst defs(4)) (rule min.cobounded1)
  show "e \<le> amount (state_principal_due st)" by (subst e) (rule min.cobounded1)
  have le: "e \<le> p - (a + c) - (b + d)" by (subst e) (rule min.cobounded2)
  then show "a + b + c + d + e \<le> p" using w(1) by linarith
  show "a + b + c + d + e < p \<Longrightarrow> e = amount (state_principal_due st)"
    using e le by (cases "amount (state_principal_due st) \<le> p - (a + c) - (b + d)") simp_all
  show "0 < b \<Longrightarrow> a = amount (overdue_interest (overdue st))"
    "0 < c \<Longrightarrow> a = amount (overdue_interest (overdue st)) \<and> b = amount (overdue_margin (overdue st))"
    "0 < d \<Longrightarrow> a = amount (overdue_interest (overdue st)) \<and> b = amount (overdue_margin (overdue st))
       \<and> c = amount (due_interest st)"
    "a + b + c + d < p \<Longrightarrow> a = amount (overdue_interest (overdue st)) \<and> b = amount (overdue_margin (overdue st))
       \<and> c = amount (due_interest st) \<and> d = amount (due_margin_interest st)"
    using w(4-7) by blast+
qed

lemma lease_loan_repay_Some:
  assumes ok: "lease_loan_ok l by"
    and M: "interest (percent_ratio (margin_interest l)) (stub_principal_due (lpp_loan l))
        (Duration (at_nanos by - at_nanos (margin_paid_by l))) = Some margin_by_now"
    and D: "stub_interest_due (lpp_loan l) by = Some interest_by_now"
    and room: "amount (stub_repayment (lpp_loan l)) + amount payment < 2 ^ 128"
  shows "\<exists>st stub paid_by a b c d e.
      loan_state_at l by = Some st \<and> parts_of_payment st (amount payment) a b c d e
    \<and> state_principal_due st = stub_principal_due (lpp_loan l)
    \<and> lease_loan_repay l payment by profit =
        Some (l\<lparr>margin_paid_by := paid_by, lpp_loan := stub\<rparr>, lazy_send (Coin (b + d)) profit,
          receipt_new (Coin a) (Coin b) (Coin c) (Coin d) (state_principal_due st) (Coin e)
            (Coin (amount payment - (a + c) - (b + d) - e)))
    \<and> stub_repay (lpp_loan l) by (Coin (a + c + e)) =
        Some (stub, \<lparr>shares_interest = Coin (a + c), shares_principal = Coin e, shares_excess = Coin 0\<rparr>)
    \<and> amount (stub_principal_due stub) + e = amount (stub_principal_due (lpp_loan l))
    \<and> margin_paid_by l \<le> paid_by \<and> paid_by \<le> by"
proof -
  from loan_state_defined [OF ok M D] obtain st where st: "loan_state_at l by = Some st"
    and split: "amount (overdue_interest (overdue st)) + amount (due_interest st) = amount interest_by_now"
      "amount (overdue_margin (overdue st)) + amount (due_margin_interest st) = amount margin_by_now"
    and princ: "state_principal_due st = stub_principal_due (lpp_loan l)"
    by blast
  define p where "p = amount payment"
  define a where "a = min (amount (overdue_interest (overdue st))) p"
  define b where "b = min (amount (overdue_margin (overdue st))) (p - a)"
  define c where "c = min (amount (due_interest st)) (p - a - b)"
  define d where "d = min (amount (due_margin_interest st)) (p - a - b - c)"
  define e where "e = min (amount (state_principal_due st)) (p - (a + c) - (b + d))"
  have parts: "parts_of_payment st p a b c d e"
    unfolding parts_of_payment_def by (intro conjI a_def b_def c_def d_def e_def)
  note w = waterfall [OF a_def b_def c_def d_def]
  have "e \<le> p - (a + c) - (b + d)" unfolding e_def by (rule min.cobounded2)
  note le = parts_of_payment_bounds(1-5) [OF parts] this
  have p: "p < 2 ^ 128" using room by (simp add: p_def)
  have full: "a + c = amount interest_by_now" if "0 < e"
    using w(7) that le(6) split(1) by simp
  obtain paid_by where margin: "repay_margin l (state_principal_due st) (Coin (b + d)) by
      = Some (l\<lparr>margin_paid_by := paid_by\<rparr>)" "margin_paid_by l \<le> paid_by" "paid_by \<le> by"
    using repay_margin_Some [OF ok M] princ by metis
  let ?l1 = "l\<lparr>margin_paid_by := paid_by\<rparr>"
  have ok1: "lease_loan_ok ?l1 by" using ok margin(3) by (simp add: lease_loan_ok_def)
  have room1: "stub_room (lpp_loan ?l1) (Coin (a + c + e))"
    using room w(1) le(6) by (simp add: stub_room_def p_def)
  have D1: "stub_interest_due (lpp_loan ?l1) by = Some interest_by_now" using D by simp
  obtain stub where
    loan: "stub_repay (lpp_loan l) by (Coin (a + c + e)) =
      Some (stub, \<lparr>shares_interest = Coin (a + c), shares_principal = Coin e, shares_excess = Coin 0\<rparr>)"
    "repay_loan ?l1 (Coin (a + c)) (Coin e) by = Some (?l1\<lparr>lpp_loan := stub\<rparr>)"
    "amount (stub_principal_due stub) + e = amount (stub_principal_due (lpp_loan l))"
  proof -
    have "a + c \<le> amount interest_by_now" "e \<le> amount (stub_principal_due (lpp_loan ?l1))"
      using le split princ by simp_all
    from repay_loan_Some [OF ok1 D1 room1 this full] obtain stub where
      "stub_repay (lpp_loan ?l1) by (Coin (a + c + e)) =
        Some (stub, \<lparr>shares_interest = Coin (a + c), shares_principal = Coin e, shares_excess = Coin 0\<rparr>)"
      "repay_loan ?l1 (Coin (a + c)) (Coin e) by = Some (?l1\<lparr>lpp_loan := stub\<rparr>)"
      "amount (stub_principal_due stub) + e = amount (stub_principal_due (lpp_loan ?l1))"
      by blast
    then show thesis by (intro that) simp_all
  qed
  let ?r = "receipt_new (Coin a) (Coin b) (Coin c) (Coin d) (state_principal_due st) (Coin e)
      (Coin (p - (a + c) - (b + d) - e))"
  have mins: "min (overdue_interest (overdue st)) payment = Coin a"
    "min (overdue_margin (overdue st)) (Coin (p - a)) = Coin b"
    "min (due_interest st) (Coin (p - a - b)) = Coin c"
    "min (due_margin_interest st) (Coin (p - a - b - c)) = Coin d"
    "min (state_principal_due st) (Coin (p - (a + c) - (b + d))) = Coin e"
    by (simp_all only: coin_eq_iff amount_min coin.sel p_def [symmetric] a_def [symmetric]
        b_def [symmetric] c_def [symmetric] d_def [symmetric] e_def [symmetric])
  have subs: "coin_sub payment (Coin a) = Some (Coin (p - a))"
    "coin_sub (Coin (p - a)) (Coin b) = Some (Coin (p - a - b))"
    "coin_sub (Coin (p - a - b)) (Coin c) = Some (Coin (p - a - b - c))"
    "coin_add (Coin a) (Coin c) = Some (Coin (a + c))" "coin_add (Coin b) (Coin d) = Some (Coin (b + d))"
    "coin_sub payment (Coin (a + c)) = Some (Coin (p - (a + c)))"
    "coin_sub (Coin (p - (a + c))) (Coin (b + d)) = Some (Coin (p - (a + c) - (b + d)))"
    "coin_sub (Coin (p - (a + c) - (b + d))) (Coin e) = Some (Coin (p - (a + c) - (b + d) - e))"
    using w(1-3) le(6) p by (simp_all add: p_def [symmetric])
  have eq: "lease_loan_repay l payment by profit = Some (?l1\<lparr>lpp_loan := stub\<rparr>, lazy_send (Coin (b + d)) profit, ?r)"
    using margin(1) loan(2) by (simp only: lease_loan_repay_def st Let_def bind.simps mins subs prod.case)
  show ?thesis
    using st parts princ eq loan(1,3) margin(2,3) unfolding p_def
    by (intro exI [of _ st] exI [of _ stub] exI [of _ paid_by] exI [of _ a] exI [of _ b] exI [of _ c]
        exI [of _ d] exI [of _ e]) simp
qed

text \<open>
  C6. A payment on the loan of a lease is spent, without a loss and without a panic, in the order:
  overdue interest, overdue margin, interest due, margin due, principal, and the rest is change. A
  part is paid only if all the parts before it are paid in full, and none is paid beyond what
  is due. The pool receives the interest and the principal and splits them the same way with
  nothing in excess, the profit gets the margins, and the loan is closed exactly when no
  principal is left.
\<close>

theorem lease_loan_repay_waterfall:
  assumes ok: "lease_loan_ok l by"
    and M: "interest (percent_ratio (margin_interest l)) (stub_principal_due (lpp_loan l))
        (Duration (at_nanos by - at_nanos (margin_paid_by l))) = Some margin_by_now"
    and D: "stub_interest_due (lpp_loan l) by = Some interest_by_now"
    and room: "amount (stub_repayment (lpp_loan l)) + amount payment < 2 ^ 128"
  shows "\<exists>st l' profit' r shares.
      loan_state_at l by = Some st \<and> lease_loan_repay l payment by profit = Some (l', profit', r)
    \<and> receipt_total r = Some payment
    \<and> overdue_interest_paid r \<le> overdue_interest (overdue st)
    \<and> overdue_margin_paid r \<le> overdue_margin (overdue st)
    \<and> due_interest_paid r \<le> due_interest st \<and> due_margin_paid r \<le> due_margin_interest st
    \<and> principal_paid r \<le> state_principal_due st
    \<and> (0 < amount (overdue_margin_paid r) \<longrightarrow> overdue_interest_paid r = overdue_interest (overdue st))
    \<and> (0 < amount (due_interest_paid r) \<longrightarrow>
          overdue_interest_paid r = overdue_interest (overdue st) \<and> overdue_margin_paid r = overdue_margin (overdue st))
    \<and> (0 < amount (due_margin_paid r) \<longrightarrow>
          overdue_interest_paid r = overdue_interest (overdue st) \<and> overdue_margin_paid r = overdue_margin (overdue st)
          \<and> due_interest_paid r = due_interest st)
    \<and> (0 < amount (principal_paid r) + amount (change r) \<longrightarrow>
          overdue_interest_paid r = overdue_interest (overdue st) \<and> overdue_margin_paid r = overdue_margin (overdue st)
          \<and> due_interest_paid r = due_interest st \<and> due_margin_paid r = due_margin_interest st)
    \<and> (0 < amount (change r) \<longrightarrow> principal_paid r = state_principal_due st)
    \<and> stub_repay (lpp_loan l) by
        (Coin (amount (overdue_interest_paid r) + amount (due_interest_paid r) + amount (principal_paid r)))
      = Some (lpp_loan l', shares)
    \<and> amount (shares_interest shares) = amount (overdue_interest_paid r) + amount (due_interest_paid r)
    \<and> shares_principal shares = principal_paid r \<and> shares_excess shares = Coin 0
    \<and> profit' = lazy_send (Coin (amount (overdue_margin_paid r) + amount (due_margin_paid r))) profit
    \<and> amount (stub_principal_due (lpp_loan l')) + amount (principal_paid r)
        = amount (stub_principal_due (lpp_loan l))
    \<and> (close r \<longleftrightarrow> amount (stub_principal_due (lpp_loan l')) = 0)
    \<and> margin_paid_by l \<le> margin_paid_by l' \<and> margin_paid_by l' \<le> by"
proof -
  from lease_loan_repay_Some [OF assms, of profit] obtain st stub paid_by a b c d e
    where st: "loan_state_at l by = Some st" "state_principal_due st = stub_principal_due (lpp_loan l)"
      and parts: "parts_of_payment st (amount payment) a b c d e"
      and eq: "lease_loan_repay l payment by profit =
        Some (l\<lparr>margin_paid_by := paid_by, lpp_loan := stub\<rparr>, lazy_send (Coin (b + d)) profit,
          receipt_new (Coin a) (Coin b) (Coin c) (Coin d) (state_principal_due st) (Coin e)
            (Coin (amount payment - (a + c) - (b + d) - e)))"
      and loan: "stub_repay (lpp_loan l) by (Coin (a + c + e)) =
        Some (stub, \<lparr>shares_interest = Coin (a + c), shares_principal = Coin e, shares_excess = Coin 0\<rparr>)"
      and rest: "amount (stub_principal_due stub) + e = amount (stub_principal_due (lpp_loan l))"
        "margin_paid_by l \<le> paid_by" "paid_by \<le> by"
    by blast
  note w = parts_of_payment_bounds [OF parts]
  define ch where "ch = amount payment - (a + c) - (b + d) - e"
  have all: "a + b + c + d + e + ch = amount payment" unfolding ch_def using w(6) by linarith
  let ?r = "receipt_new (Coin a) (Coin b) (Coin c) (Coin d) (state_principal_due st) (Coin e) (Coin ch)"
  have r: "overdue_interest_paid ?r = Coin a" "overdue_margin_paid ?r = Coin b" "due_interest_paid ?r = Coin c"
    "due_margin_paid ?r = Coin d" "principal_paid ?r = Coin e" "change ?r = Coin ch"
    by (simp_all add: receipt_new_def)
  have total: "receipt_total ?r = Some payment"
  proof -
    have "a + b + c + d + e + ch < 2 ^ 128" unfolding all using room by simp
    then have "receipt_total ?r = Some (Coin (b + a + d + c + e + ch))"
      by (simp add: receipt_total_def receipt_new_def)
    moreover have "b + a + d + c + e + ch = amount payment" using all by simp
    ultimately show ?thesis by simp
  qed
  have closes: "close ?r \<longleftrightarrow> amount (stub_principal_due stub) = 0"
    using rest(1) by (auto simp: receipt_new_def st(2) coin_eq_iff)
  have beyond: "0 < e + ch \<Longrightarrow> a + b + c + d < amount payment" "0 < ch \<Longrightarrow> a + b + c + d + e < amount payment"
    using all by linarith+
  note eq' = eq [folded ch_def]
  have bounds: "Coin a \<le> overdue_interest (overdue st)" "Coin b \<le> overdue_margin (overdue st)"
    "Coin c \<le> due_interest st" "Coin d \<le> due_margin_interest st" "Coin e \<le> state_principal_due st"
    using w(1-5) by (simp_all add: coin_order)
  have order: "0 < b \<longrightarrow> Coin a = overdue_interest (overdue st)"
    "0 < c \<longrightarrow> Coin a = overdue_interest (overdue st) \<and> Coin b = overdue_margin (overdue st)"
    "0 < d \<longrightarrow> Coin a = overdue_interest (overdue st) \<and> Coin b = overdue_margin (overdue st) \<and> Coin c = due_interest st"
    "0 < e + ch \<longrightarrow> Coin a = overdue_interest (overdue st) \<and> Coin b = overdue_margin (overdue st)
       \<and> Coin c = due_interest st \<and> Coin d = due_margin_interest st"
    "0 < ch \<longrightarrow> Coin e = state_principal_due st"
    unfolding coin_eq_iff coin.sel
    using w(7-9) w(10) [OF beyond(1)] w(11) [OF beyond(2)] by blast+
  have l2: "lpp_loan (l\<lparr>margin_paid_by := paid_by, lpp_loan := stub\<rparr>) = stub"
    "margin_paid_by (l\<lparr>margin_paid_by := paid_by, lpp_loan := stub\<rparr>) = paid_by" by simp_all
  show ?thesis
    by (intro exI [of _ st] exI [of _ "l\<lparr>margin_paid_by := paid_by, lpp_loan := stub\<rparr>"]
        exI [of _ "lazy_send (Coin (b + d)) profit"] exI [of _ ?r]
        exI [of _ "\<lparr>shares_interest = Coin (a + c), shares_principal = Coin e, shares_excess = Coin 0\<rparr>"] conjI)
      (simp_all only: st(1) eq' total closes r loan rest l2 bounds coin.sel repay_shares.simps,
       (use order in \<open>blast+\<close>)?)
qed

section \<open>A loan a year after its start\<close>

definition sample_loan :: "unit lease_loan" where
  "sample_loan = lease_loan_new
     (stub_new \<lparr>principal_due = Coin 1000, annual_interest_rate = Percent 100, interest_paid = Timestamp 0\<rparr>)
     (Timestamp 0) (Percent 40) (from_days 90)"

definition sample_now :: timestamp where
  "sample_now = Timestamp 31536000000000000"

lemma sample_facts:
  "lease_loan_ok sample_loan sample_now"
  "interest (percent_ratio (margin_interest sample_loan)) (stub_principal_due (lpp_loan sample_loan))
     (Duration (at_nanos sample_now - at_nanos (margin_paid_by sample_loan))) = Some (Coin 40)"
  "stub_interest_due (lpp_loan sample_loan) sample_now = Some (Coin 100)"
  by (simp_all add: sample_loan_def sample_now_def lease_loan_new_def stub_new_def lease_loan_ok_def
      loan_ok_def coin_ok_def timestamp_ok_def time_order stub_principal_due_def stub_interest_due_def
      interest_due_Some interest_def annualized_slice_of_def coin_safe_mul_Some_iff)

theorem loan_state_splits_interest_witness:
  "\<exists>st. loan_state_at sample_loan sample_now = Some st
     \<and> amount (overdue_interest (overdue st)) + amount (due_interest st) = 100
     \<and> amount (overdue_margin (overdue st)) + amount (due_margin_interest st) = 40"
  using loan_state_splits_interest [OF sample_facts] by auto

theorem lease_loan_repay_waterfall_witness:
  "\<exists>l' profit' r. lease_loan_repay sample_loan (Coin 300) sample_now [] = Some (l', profit', r)
     \<and> receipt_total r = Some (Coin 300) \<and> (close r \<longleftrightarrow> amount (stub_principal_due (lpp_loan l')) = 0)"
proof -
  have "amount (stub_repayment (lpp_loan sample_loan)) + amount (Coin 300 :: unit coin) < 2 ^ 128"
    by (simp add: sample_loan_def lease_loan_new_def stub_new_def)
  from lease_loan_repay_waterfall [OF sample_facts this, of "[]"] show ?thesis
    by (elim exE conjE, intro exI conjI) assumption+
qed

end
