(* ===== verification/Close_Policy.thy ===== *)
theory Close_Policy
  imports Liabilities
begin

text \<open>
  The close policy of a position (\<open>lease/src/position/close.rs\<close>, the change command of
  \<open>lease/src/api/position.rs\<close>) and the errors of the position
  (\<open>lease/src/position/error.rs\<close>). A take profit closes the position when the debt falls
  below a share of the asset, a stop loss when the debt reaches a share of the asset.
\<close>

section \<open>Policies and errors\<close>

record policy =
  take_profit :: "percent option"
  stop_loss :: "percent option"

datatype strategy = StopLoss percent | TakeProfit percent

datatype change_cmd = Reset | Set percent

record close_policy_change =
  change_stop_loss :: "change_cmd option"
  change_take_profit :: "change_cmd option"

datatype 'l position_error =
    PositionFinance finance_error
  | InsufficientAssetAmount "'l coin"
  | InsufficientTransactionAmount "'l coin"
  | PositionCloseAmountTooSmall "'l coin"
  | PositionCloseAmountTooBig "'l coin"
  | TriggerClose percent strategy
  | ZeroClosePolicy string
  | LiquidationConflict strategy percent

definition trigger_close :: "percent \<Rightarrow> strategy \<Rightarrow> 'l position_error" where
  "trigger_close lease_ltv s = TriggerClose lease_ltv s"

definition zero_take_profit :: "'l position_error" where
  "zero_take_profit = ZeroClosePolicy ''take profit''"

definition zero_stop_loss :: "'l position_error" where
  "zero_stop_loss = ZeroClosePolicy ''stop loss''"

definition liquidation_conflict :: "percent \<Rightarrow> strategy \<Rightarrow> 'l position_error" where
  "liquidation_conflict liquidation_ltv s = LiquidationConflict s liquidation_ltv"

section \<open>Operations\<close>

definition cmd_into :: "change_cmd \<Rightarrow> percent option" where
  "cmd_into cmd = (case cmd of Reset \<Rightarrow> None | Set new_value \<Rightarrow> Some new_value)"

definition invariant_check :: "policy \<Rightarrow> ('l position_error, policy) res" where
  "invariant_check p =
     and_then
       (case take_profit p of
          Some tp \<Rightarrow> if tp = percent_zero then Inl (Fail zero_take_profit) else Inr p
        | None \<Rightarrow> Inr p)
       (\<lambda>this.
         (case stop_loss this of
            Some sl \<Rightarrow> if sl = percent_zero then Inl (Fail zero_stop_loss) else Inr this
          | None \<Rightarrow> Inr this))"

definition change_policy :: "policy \<Rightarrow> close_policy_change \<Rightarrow> ('l position_error, policy) res" where
  "change_policy p cmd =
     invariant_check
       \<lparr>take_profit = (case change_take_profit cmd of None \<Rightarrow> take_profit p | Some c \<Rightarrow> cmd_into c),
        stop_loss = (case change_stop_loss cmd of None \<Rightarrow> stop_loss p | Some c \<Rightarrow> cmd_into c)\<rparr>"

definition liquidation_check :: "policy \<Rightarrow> percent \<Rightarrow> ('l position_error, policy) res" where
  "liquidation_check p top_bound =
     and_then
       (case take_profit p of
          Some tp \<Rightarrow>
            if top_bound \<le> tp then Inl (Fail (liquidation_conflict top_bound (TakeProfit tp))) else Inr p
        | None \<Rightarrow> Inr p)
       (\<lambda>this.
         (case stop_loss this of
            Some sl \<Rightarrow>
              if top_bound \<le> sl then Inl (Fail (liquidation_conflict top_bound (StopLoss sl))) else Inr this
          | None \<Rightarrow> Inr this))"

definition no_close :: "policy \<Rightarrow> percent open_range \<Rightarrow> percent open_range option" where
  "no_close p during =
     do {
       tp_cut \<leftarrow> (case take_profit p of None \<Rightarrow> Some during | Some tp \<Rightarrow> cut_to during tp);
       (case stop_loss p of None \<Rightarrow> Some tp_cut | Some sl \<Rightarrow> cut_from tp_cut sl)
     }"

definition may_stop_loss :: "policy \<Rightarrow> 'a coin \<Rightarrow> 'a coin \<Rightarrow> strategy option option" where
  "may_stop_loss p lease_asset total_due =
     (case stop_loss p of
        None \<Rightarrow> Some None
      | Some sl \<Rightarrow> do {
          bound \<leftarrow> percent_of_coin sl lease_asset;
          Some (if bound \<le> total_due then Some (StopLoss sl) else None)
        })"

definition may_take_profit :: "policy \<Rightarrow> 'a coin \<Rightarrow> 'a coin \<Rightarrow> strategy option option" where
  "may_take_profit p lease_asset total_due =
     (case take_profit p of
        None \<Rightarrow> Some None
      | Some tp \<Rightarrow> do {
          bound \<leftarrow> percent_of_coin tp lease_asset;
          Some (if total_due < bound then Some (TakeProfit tp) else None)
        })"

definition may_trigger :: "policy \<Rightarrow> 'a coin \<Rightarrow> 'a coin \<Rightarrow> strategy option option" where
  "may_trigger p lease_asset total_due =
     do {
       sl \<leftarrow> may_stop_loss p lease_asset total_due;
       (case sl of Some s \<Rightarrow> Some (Some s) | None \<Rightarrow> may_take_profit p lease_asset total_due)
     }"

section \<open>Facts\<close>

text \<open>What the two checks establish: no zero limits, and all limits below a bound.\<close>

definition policy_nonzero :: "policy \<Rightarrow> bool" where
  "policy_nonzero p \<longleftrightarrow> take_profit p \<noteq> Some percent_zero \<and> stop_loss p \<noteq> Some percent_zero"

definition policy_below :: "percent \<Rightarrow> policy \<Rightarrow> bool" where
  "policy_below bound p \<longleftrightarrow>
     (\<forall>tp. take_profit p = Some tp \<longrightarrow> tp < bound) \<and> (\<forall>sl. stop_loss p = Some sl \<longrightarrow> sl < bound)"

lemma policy_below_trans: "policy_below b p \<Longrightarrow> b \<le> c \<Longrightarrow> policy_below c p"
  by (force simp: policy_below_def)

lemma invariant_check_Inr: "invariant_check p = Inr q \<longleftrightarrow> q = p \<and> policy_nonzero p"
  by (cases "take_profit p"; cases "stop_loss p")
    (auto simp: invariant_check_def policy_nonzero_def simp del: and_then_Inr)

lemma liquidation_check_Inr: "liquidation_check p b = Inr q \<longleftrightarrow> q = p \<and> policy_below b p"
  by (cases "take_profit p"; cases "stop_loss p")
    (auto simp: liquidation_check_def policy_below_def not_less simp del: and_then_Inr)

lemma checks_never_panic [simp]:
  "invariant_check p \<noteq> Inl Panic" "liquidation_check p b \<noteq> Inl Panic" "change_policy p cmd \<noteq> Inl Panic"
  by (auto simp: invariant_check_def liquidation_check_def change_policy_def and_then_def
      split: option.splits sum.splits if_splits)

lemma change_policy_Inr:
  "change_policy p cmd = Inr q \<longleftrightarrow>
     q = \<lparr>take_profit = (case change_take_profit cmd of None \<Rightarrow> take_profit p | Some c \<Rightarrow> cmd_into c),
          stop_loss = (case change_stop_loss cmd of None \<Rightarrow> stop_loss p | Some c \<Rightarrow> cmd_into c)\<rparr>
     \<and> policy_nonzero q"
  by (auto simp: change_policy_def invariant_check_Inr)

text \<open>
  The trigger in integers. The stop loss truncates its share of the asset, so it may close
  one unit of debt early; the take profit may close one unit late.
\<close>

definition hits_stop_loss :: "policy \<Rightarrow> nat \<Rightarrow> nat \<Rightarrow> bool" where
  "hits_stop_loss p asset due \<longleftrightarrow> (\<exists>sl. stop_loss p = Some sl \<and> units sl * asset < 1000 * (due + 1))"

definition hits_take_profit :: "policy \<Rightarrow> nat \<Rightarrow> nat \<Rightarrow> bool" where
  "hits_take_profit p asset due \<longleftrightarrow> (\<exists>tp. take_profit p = Some tp \<and> 1000 * (due + 1) \<le> units tp * asset)"

lemma share_le_iff: "x * u div 1000 \<le> d \<longleftrightarrow> u * x < 1000 * (d + 1)" for x u d :: nat
  by (metis (no_types) Suc_eq_plus1 div_less_iff_less_mult less_Suc_eq_le mult.commute zero_less_numeral)

lemma may_trigger_eq:
  assumes "policy_below percent_hundred p" "coin_ok asset"
  shows "may_trigger p asset due =
    Some (if hits_stop_loss p (amount asset) (amount due) then map_option StopLoss (stop_loss p)
          else if hits_take_profit p (amount asset) (amount due) then map_option TakeProfit (take_profit p)
          else None)"
proof -
  note le = share_le_iff
  have sl: "may_stop_loss p asset due =
      Some (if hits_stop_loss p (amount asset) (amount due) then map_option StopLoss (stop_loss p) else None)"
  proof (cases "stop_loss p")
    case (Some s)
    with assms have "percent_of_coin s asset = Some (Coin (amount asset * units s div 1000))"
      by (intro percent_of_coin_proper) (auto simp: policy_below_def percent_order)
    with Some show ?thesis
      by (simp add: may_stop_loss_def hits_stop_loss_def coin_order le)
  qed (simp add: may_stop_loss_def)
  have tp: "may_take_profit p asset due =
      Some (if hits_take_profit p (amount asset) (amount due) then map_option TakeProfit (take_profit p) else None)"
  proof (cases "take_profit p")
    case (Some s)
    with assms have "percent_of_coin s asset = Some (Coin (amount asset * units s div 1000))"
      by (intro percent_of_coin_proper) (auto simp: policy_below_def percent_order)
    with Some show ?thesis
      using le [of "amount asset" "units s" "amount due"]
      by (simp add: may_take_profit_def hits_take_profit_def coin_order not_less flip: not_le)
  qed (simp add: may_take_profit_def)
  show ?thesis
    using sl tp by (auto simp: may_trigger_def hits_stop_loss_def)
qed

lemma no_close_spec:
  assumes "ascending_invariant r"
  shows "\<exists>r'. no_close p r = Some r' \<and> ascending_invariant r' \<and>
    (\<forall>t. range_contains r' t \<longleftrightarrow> range_contains r t \<and>
       (\<forall>tp. take_profit p = Some tp \<longrightarrow> tp \<le> t) \<and> (\<forall>sl. stop_loss p = Some sl \<longrightarrow> t < sl))"
proof -
  obtain r1 where r1: "(case take_profit p of None \<Rightarrow> Some r | Some tp \<Rightarrow> cut_to r tp) = Some r1"
      "ascending_invariant r1"
      "\<And>t. range_contains r1 t \<longleftrightarrow> range_contains r t \<and> (\<forall>tp. take_profit p = Some tp \<longrightarrow> tp \<le> t)"
    using assms cut_to_spec [OF assms] by (cases "take_profit p") auto
  show ?thesis
  proof (cases "stop_loss p")
    case None
    with r1 show ?thesis by (auto simp: no_close_def)
  next
    case (Some sl)
    obtain r2 where "cut_from r1 sl = Some r2" "ascending_invariant r2"
        "\<And>t. range_contains r2 t \<longleftrightarrow> range_contains r1 t \<and> t < sl"
      using cut_from_spec [OF r1(2), of sl] by auto
    with Some r1 show ?thesis by (auto simp: no_close_def)
  qed
qed

lemma no_close_bounds:
  assumes "ascending_invariant r" "no_close p r = Some r'"
  shows "range_end r' \<le> range_end r"
    and "range_start r' = Some (range_end r') \<or>
      (\<forall>tp. take_profit p = Some tp \<longrightarrow> (\<exists>s. range_start r' = Some s \<and> tp \<le> s)) \<and>
      (\<forall>sl. stop_loss p = Some sl \<longrightarrow> range_end r' \<le> sl)"
proof -
  obtain r1 where r1: "(case take_profit p of None \<Rightarrow> Some r | Some tp \<Rightarrow> cut_to r tp) = Some r1"
    using assms(2) by (auto simp: no_close_def)
  have asc: "ascending_invariant r1" and e1: "range_end r1 = range_end r"
    and s1: "range_start r1 = Some (range_end r1) \<or>
      (\<forall>tp. take_profit p = Some tp \<longrightarrow> (\<exists>s. range_start r1 = Some s \<and> tp \<le> s))"
  proof (atomize (full), cases "take_profit p")
    case None
    with r1 assms(1) show "ascending_invariant r1 \<and> range_end r1 = range_end r \<and>
        (range_start r1 = Some (range_end r1) \<or>
         (\<forall>tp. take_profit p = Some tp \<longrightarrow> (\<exists>s. range_start r1 = Some s \<and> tp \<le> s)))"
      by simp
  next
    case (Some tp)
    with r1 cut_to_start [of r tp r1] show "ascending_invariant r1 \<and> range_end r1 = range_end r \<and>
        (range_start r1 = Some (range_end r1) \<or>
         (\<forall>tp. take_profit p = Some tp \<longrightarrow> (\<exists>s. range_start r1 = Some s \<and> tp \<le> s)))"
      by (auto simp: ascending_invariant_def)
  qed
  have r': "(case stop_loss p of None \<Rightarrow> Some r1 | Some sl \<Rightarrow> cut_from r1 sl) = Some r'"
    using assms(2) r1 by (simp add: no_close_def)
  show "range_end r' \<le> range_end r"
    using r' e1 cut_from_end [OF _ asc] by (cases "stop_loss p") auto
  show "range_start r' = Some (range_end r') \<or>
      (\<forall>tp. take_profit p = Some tp \<longrightarrow> (\<exists>s. range_start r' = Some s \<and> tp \<le> s)) \<and>
      (\<forall>sl. stop_loss p = Some sl \<longrightarrow> range_end r' \<le> sl)"
  proof (cases "stop_loss p")
    case None
    with r' s1 show ?thesis by simp
  next
    case (Some sl)
    with r' have cut: "cut_from r1 sl = Some r'" by simp
    note e = cut_from_end [OF cut asc]
    show ?thesis
    proof (cases "range_start r1 = Some (range_end r1)")
      case True
      with cut have "range_start r' = Some (range_end r')" by (auto simp: cut_from_eq)
      then show ?thesis ..
    next
      case False
      with s1 e Some show ?thesis by auto
    qed
  qed
qed

text \<open>
  When the policy closes the position. The loan-to-value of the position decides, up to
  the truncation of a single unit of debt: at or above the stop loss the position is
  closed for it, a take profit closes it only below its limit, and a position that stays open
  is below the stop loss, and at or above the take profit had it one unit of debt more. With
  both limits hit the stop loss is the strategy.
\<close>

theorem close_triggers_by_ltv:
  assumes "policy_below percent_hundred p" "coin_ok asset" "0 < amount asset"
    and ltv: "percent_from_coins (amount due) (amount asset) = Some ltv"
  shows "\<exists>t. may_trigger p asset due = Some t
    \<and> (\<forall>sl. stop_loss p = Some sl \<and> sl \<le> ltv \<longrightarrow> t = Some (StopLoss sl))
    \<and> (\<forall>sl. t = Some (StopLoss sl) \<longrightarrow>
          stop_loss p = Some sl \<and> units sl * amount asset < 1000 * (amount due + 1))
    \<and> (\<forall>tp. t = Some (TakeProfit tp) \<longrightarrow> take_profit p = Some tp \<and> ltv < tp)
    \<and> (t = None \<longrightarrow> (\<forall>tp. take_profit p = Some tp \<longrightarrow> units tp * amount asset < 1000 * (amount due + 1)))"
proof -
  have l: "units ltv = 1000 * amount due div amount asset"
    using ltv percent_from_coins_Some [OF assms(3)] by simp
  have le: "sl \<le> ltv \<longleftrightarrow> units sl * amount asset \<le> 1000 * amount due" for sl
    using assms(3) by (simp add: percent_order l less_eq_div_iff_mult_less_eq)
  have lt: "ltv < tp \<longleftrightarrow> 1000 * amount due < units tp * amount asset" for tp
    using le [of tp] by (simp add: not_le flip: not_le)
  show ?thesis
    unfolding may_trigger_eq [OF assms(1,2)]
    by (rule exI, intro conjI refl)
      (auto simp: hits_stop_loss_def hits_take_profit_def le lt not_le not_less split: if_splits)
qed

theorem close_triggers_by_ltv_witness:
  "may_trigger \<lparr>take_profit = Some (Percent 400), stop_loss = Some (Percent 700)\<rparr>
     (Coin 1000 :: unit coin) (Coin 750) = Some (Some (StopLoss (Percent 700)))"
  using close_triggers_by_ltv
    [of "\<lparr>take_profit = Some (Percent 400), stop_loss = Some (Percent 700)\<rparr>"
      "Coin 1000 :: unit coin" "Coin 750" "Percent 750"]
  by (simp add: policy_below_def percent_order coin_ok_def percent_from_coins_Some)

text \<open>
  The range of loan-to-value values, within a range of interest, that keep a position
  open: cutting a range by a policy never aborts, and removes exactly the values below the
  take profit and the values at or above the stop loss.
\<close>

theorem no_close_keeps_open:
  assumes "ascending_invariant r"
  shows "\<exists>r'. no_close p r = Some r' \<and> ascending_invariant r' \<and>
    (\<forall>t. range_contains r' t \<longleftrightarrow> range_contains r t \<and>
       (\<forall>tp. take_profit p = Some tp \<longrightarrow> tp \<le> t) \<and> (\<forall>sl. stop_loss p = Some sl \<longrightarrow> t < sl))"
  using no_close_spec [OF assms] .

theorem no_close_keeps_open_witness:
  "no_close \<lparr>take_profit = Some (Percent 400), stop_loss = Some (Percent 700)\<rparr> (up_to (Percent 850))
     = Some (new_ascending (Some (Percent 400)) (Percent 700))
   \<and> range_contains (new_ascending (Some (Percent 400)) (Percent 700)) (Percent 500)"
proof -
  let ?p = "\<lparr>take_profit = Some (Percent 400), stop_loss = Some (Percent 700)\<rparr>"
  have eq: "no_close ?p (up_to (Percent 850)) = Some (new_ascending (Some (Percent 400)) (Percent 700))"
    by code_simp
  show ?thesis
    using no_close_keeps_open [of "up_to (Percent 850)" ?p] eq by (simp add: percent_order)
qed

lemmas policy_op_defs [op_defs] =
  change_policy_def invariant_check_def liquidation_check_def no_close_def cmd_into_def

end
