(* ===== verification/Position.thy ===== *)
theory Position
  imports Close_Policy Prices "HOL-Library.Option_ord"
begin

text \<open>
  The position of a lease (\<open>lease/src/position/mod.rs\<close>, \<open>spec/mod.rs\<close>, \<open>status.rs\<close>,
  \<open>steady.rs\<close>, \<open>interest.rs\<close>): the asset amount and the parameters it was opened with. It
  decides how much may be borrowed, whether a payment or a close amount is acceptable, when
  the policy closes the position, and whether the debt calls for a liquidation, total or
  partial, or the position is steady and for which prices and time.
\<close>

section \<open>The due of a position\<close>

datatype 'l overdue_collection = CollectIn duration | Collectable "'l coin"

definition collection_start_in :: "'l overdue_collection \<Rightarrow> duration" where
  "collection_start_in oc = (case oc of CollectIn collect_in \<Rightarrow> collect_in | Collectable _ \<Rightarrow> duration_zero)"

definition collection_amount :: "'l overdue_collection \<Rightarrow> 'l coin" where
  "collection_amount oc = (case oc of CollectIn _ \<Rightarrow> coin_zero | Collectable c \<Rightarrow> c)"

text \<open>The trait \<open>Due\<close>, as the pair of its functions.\<close>

record 'l due =
  due_total :: "'l coin option"
  due_overdue_collection :: "'l coin \<Rightarrow> 'l overdue_collection option"

section \<open>Status\<close>

datatype cause = CauseOverdue | CauseLiability percent percent

datatype 'a liquidation = Partial "'a coin" cause | Full cause

instantiation cause :: linorder
begin

fun less_eq_cause :: "cause \<Rightarrow> cause \<Rightarrow> bool" where
  "less_eq_cause CauseOverdue _ = True"
| "less_eq_cause (CauseLiability _ _) CauseOverdue = False"
| "less_eq_cause (CauseLiability l h) (CauseLiability l' h') = (l < l' \<or> l = l' \<and> h \<le> h')"

definition less_cause :: "cause \<Rightarrow> cause \<Rightarrow> bool" where
  "less_cause a b \<longleftrightarrow> a \<le> b \<and> \<not> b \<le> a"

instance
proof
  fix x y z :: cause
  show "x < y \<longleftrightarrow> x \<le> y \<and> \<not> y \<le> x" by (rule less_cause_def)
  show "x \<le> x" by (cases x) auto
  show "x \<le> y \<Longrightarrow> y \<le> z \<Longrightarrow> x \<le> z" by (cases x; cases y; cases z) auto
  show "x \<le> y \<Longrightarrow> y \<le> x \<Longrightarrow> x = y" by (cases x; cases y) auto
  show "x \<le> y \<or> y \<le> x" by (cases x; cases y) auto
qed

end

text \<open>The derived order puts any partial liquidation below any full one.\<close>

instantiation liquidation :: (type) linorder
begin

fun less_eq_liquidation :: "'a liquidation \<Rightarrow> 'a liquidation \<Rightarrow> bool" where
  "less_eq_liquidation (Partial a c) (Partial a' c') = (a < a' \<or> a = a' \<and> c \<le> c')"
| "less_eq_liquidation (Partial _ _) (Full _) = True"
| "less_eq_liquidation (Full _) (Partial _ _) = False"
| "less_eq_liquidation (Full c) (Full c') = (c \<le> c')"

definition less_liquidation :: "'a liquidation \<Rightarrow> 'a liquidation \<Rightarrow> bool" where
  "less_liquidation a b \<longleftrightarrow> a \<le> b \<and> \<not> b \<le> a"

instance
proof
  fix x y z :: "'a liquidation"
  show "x < y \<longleftrightarrow> x \<le> y \<and> \<not> y \<le> x" by (rule less_liquidation_def)
  show "x \<le> x" by (cases x) auto
  show "x \<le> y \<Longrightarrow> y \<le> z \<Longrightarrow> x \<le> z" by (cases x; cases y; cases z) auto
  show "x \<le> y \<Longrightarrow> y \<le> x \<Longrightarrow> x = y" by (cases x; cases y) auto
  show "x \<le> y \<or> y \<le> x" by (cases x; cases y) auto
qed

end

text \<open>The position stays as it is for a period and while the price is within a descending range.\<close>

record ('a, 'l) steadiness =
  steady_for :: duration
  steady_within :: "('a, 'l) price open_range"

datatype ('a, 'l) debt = DebtNo | DebtOk zone "('a, 'l) steadiness" | DebtBad "'a liquidation"

section \<open>Specification of a position\<close>

record 'l spec =
  spec_liability :: liability
  spec_close :: policy
  min_asset :: "'l coin"
  min_transaction :: "'l coin"

definition spec_new :: "liability \<Rightarrow> policy \<Rightarrow> 'l coin \<Rightarrow> 'l coin \<Rightarrow> 'l spec" where
  "spec_new l p asset transaction =
     \<lparr>spec_liability = l, spec_close = p, min_asset = asset, min_transaction = transaction\<rparr>"

definition ltv :: "'a coin \<Rightarrow> 'a coin \<Rightarrow> percent option" where
  "ltv due_assets lease_asset = percent_from_coins (amount due_assets) (amount lease_asset)"

definition to_assets :: "'l coin \<Rightarrow> ('a, 'l) price \<Rightarrow> 'a coin option" where
  "to_assets lpn_coin asset_in_lpns = total lpn_coin (price_inv asset_in_lpns)"

definition valid_transaction :: "'l spec \<Rightarrow> 'c coin \<Rightarrow> ('c, 'l) price \<Rightarrow> bool option" where
  "valid_transaction s am currency_in_lpn =
     do { worth \<leftarrow> total am currency_in_lpn; Some (min_transaction s \<le> worth) }"

definition valid_asset :: "'l spec \<Rightarrow> 'c coin \<Rightarrow> ('c, 'l) price \<Rightarrow> bool option" where
  "valid_asset s asset_amount currency_in_lpn =
     do { worth \<leftarrow> total asset_amount currency_in_lpn; Some (min_asset s \<le> worth) }"

definition calc_borrow_amount :: "'l spec \<Rightarrow> 'l coin \<Rightarrow> percent option \<Rightarrow> ('l position_error, 'l coin) res" where
  "calc_borrow_amount s downpayment may_max_ltd =
     and_then (or_panic (valid_transaction s downpayment price_identity)) (\<lambda>valid.
     if \<not> valid then Inl (Fail (InsufficientTransactionAmount (min_transaction s)))
     else
       and_then (or_panic (init_borrow_amount (spec_liability s) downpayment may_max_ltd)) (\<lambda>borrow.
       and_then (or_panic (valid_transaction s borrow price_identity)) (\<lambda>valid_borrow.
       if \<not> valid_borrow then Inl (Fail (InsufficientTransactionAmount (min_transaction s)))
       else
         and_then (or_panic (coin_add downpayment borrow)) (\<lambda>lease_amount.
         and_then (or_panic (valid_asset s lease_amount price_identity)) (\<lambda>valid_lease.
         if \<not> valid_lease then Inl (Fail (InsufficientAssetAmount (min_asset s)))
         else Inr borrow)))))"

definition validate_payment :: "'l spec \<Rightarrow> 'c coin \<Rightarrow> ('c, 'l) price \<Rightarrow> ('l position_error, unit) res" where
  "validate_payment s payment currency_in_lpns =
     and_then (or_panic (valid_transaction s payment currency_in_lpns)) (\<lambda>valid.
       if valid then Inr () else Inl (Fail (InsufficientTransactionAmount (min_transaction s))))"

definition validate_close_amount ::
  "'l spec \<Rightarrow> 'a coin \<Rightarrow> 'a coin \<Rightarrow> ('a, 'l) price \<Rightarrow> ('l position_error, unit) res" where
  "validate_close_amount s asset close_amount asset_in_lpns =
     and_then (or_panic (valid_transaction s close_amount asset_in_lpns)) (\<lambda>valid.
       if valid then
         and_then (or_panic (valid_asset s (coin_saturating_sub asset close_amount) asset_in_lpns)) (\<lambda>valid_rest.
           if valid_rest then Inr () else Inl (Fail (PositionCloseAmountTooBig (min_asset s))))
       else Inl (Fail (PositionCloseAmountTooSmall (min_transaction s))))"

definition may_ask_liquidation ::
  "'l spec \<Rightarrow> 'a coin \<Rightarrow> cause \<Rightarrow> 'a coin \<Rightarrow> ('a, 'l) price \<Rightarrow> 'a liquidation option option" where
  "may_ask_liquidation s asset why liquidated asset_in_lpns =
     (case validate_close_amount s asset liquidated asset_in_lpns of
        Inl (Fail (PositionCloseAmountTooSmall _)) \<Rightarrow> Some None
      | Inl (Fail (PositionCloseAmountTooBig _)) \<Rightarrow> Some (Some (Full why))
      | Inl _ \<Rightarrow> None
      | Inr _ \<Rightarrow> Some (Some (Partial liquidated why)))"

definition may_ask_liquidation_liability ::
  "'l spec \<Rightarrow> 'a coin \<Rightarrow> 'a coin \<Rightarrow> ('a, 'l) price \<Rightarrow> 'a liquidation option option" where
  "may_ask_liquidation_liability s asset due_assets asset_in_lpns =
     do {
       liquidation_amount \<leftarrow> amount_to_liquidate (spec_liability s) asset due_assets;
       may_ask_liquidation s asset
         (CauseLiability (max_ltv (spec_liability s)) (healthy (spec_liability s)))
         liquidation_amount asset_in_lpns
     }"

definition spec_overdue_collection :: "'l spec \<Rightarrow> 'l due \<Rightarrow> 'l overdue_collection option" where
  "spec_overdue_collection s d = due_overdue_collection d (min_transaction s)"

definition overdue_collection_in :: "'l spec \<Rightarrow> 'l due \<Rightarrow> duration option" where
  "overdue_collection_in s d = map_option collection_start_in (spec_overdue_collection s d)"

definition may_ask_liquidation_overdue ::
  "'l spec \<Rightarrow> 'a coin \<Rightarrow> 'l due \<Rightarrow> ('a, 'l) price \<Rightarrow> 'a liquidation option option" where
  "may_ask_liquidation_overdue s asset d asset_in_lpns =
     do {
       oc \<leftarrow> spec_overdue_collection s d;
       to_liquidate \<leftarrow> to_assets (collection_amount oc) asset_in_lpns;
       may_ask_liquidation s asset CauseOverdue to_liquidate asset_in_lpns
     }"

definition no_liquidation ::
  "'l spec \<Rightarrow> 'a coin \<Rightarrow> 'l due \<Rightarrow> percent \<Rightarrow> ('a, 'l) debt option" where
  "no_liquidation s asset d position_ltv_capped =
     do {
       due_lpns \<leftarrow> due_total d;
       if coin_is_zero due_lpns then Some DebtNo
       else do {
         let zn = zone_of (spec_liability s) position_ltv_capped;
         range \<leftarrow> zone_range zn;
         ltv_within \<leftarrow> no_close (spec_close s) range;
         collect_in \<leftarrow> overdue_collection_in s d;
         prices \<leftarrow> range_invert
           (\<lambda>at_ltv. do { share \<leftarrow> percent_of_coin at_ltv asset; total_of_is share due_lpns })
           ltv_within;
         Some (DebtOk zn \<lparr>steady_for = min collect_in (recalc_time (spec_liability s)),
                          steady_within = prices\<rparr>)
       }
     }"

definition spec_debt :: "'l spec \<Rightarrow> 'a coin \<Rightarrow> 'l due \<Rightarrow> ('a, 'l) price \<Rightarrow> ('a, 'l) debt option" where
  "spec_debt s asset d asset_in_lpns =
     do {
       due_lpns \<leftarrow> due_total d;
       due_assets \<leftarrow> to_assets due_lpns asset_in_lpns;
       by_liability \<leftarrow> may_ask_liquidation_liability s asset due_assets asset_in_lpns;
       by_overdue \<leftarrow> may_ask_liquidation_overdue s asset d asset_in_lpns;
       (case max by_liability by_overdue of
          Some liq \<Rightarrow> Some (DebtBad liq)
        | None \<Rightarrow> do {
            position_ltv \<leftarrow> ltv due_assets asset;
            position_ltv_capped \<leftarrow> cap_to_zone (spec_liability s) position_ltv;
            due_assets_capped \<leftarrow>
              (if position_ltv_capped < position_ltv
               then do { bound \<leftarrow> percent_of_coin (max_ltv (spec_liability s)) asset; coin_sub bound (Coin 1) }
               else Some due_assets);
            no_liquidation s asset d position_ltv_capped
          })
     }"

definition spec_check_close :: "'l spec \<Rightarrow> 'a coin \<Rightarrow> 'l due \<Rightarrow> ('a, 'l) price \<Rightarrow> strategy option option" where
  "spec_check_close s asset d asset_in_lpns =
     do {
       due_lpns \<leftarrow> due_total d;
       due_assets \<leftarrow> to_assets due_lpns asset_in_lpns;
       may_trigger (spec_close s) asset due_assets
     }"

definition spec_change_close_policy ::
  "'l spec \<Rightarrow> close_policy_change \<Rightarrow> 'a coin \<Rightarrow> 'l due \<Rightarrow> ('a, 'l) price \<Rightarrow> ('l position_error, 'l spec) res" where
  "spec_change_close_policy s cmd asset d asset_in_lpns =
     and_then (or_panic (due_total d)) (\<lambda>due_lpns.
     and_then (or_panic (to_assets due_lpns asset_in_lpns)) (\<lambda>due_assets.
     and_then (change_policy (spec_close s) cmd) (\<lambda>p1.
     and_then (liquidation_check p1 (max_ltv (spec_liability s))) (\<lambda>p2.
     and_then (or_panic (may_trigger p2 asset due_assets)) (\<lambda>triggered.
     (case triggered of
        None \<Rightarrow> Inr (spec_new (spec_liability s) p2 (min_asset s) (min_transaction s))
      | Some strat \<Rightarrow>
          and_then (or_panic (ltv due_assets asset)) (\<lambda>position_ltv.
            Inl (Fail (trigger_close position_ltv strat)))))))))"

section \<open>Position\<close>

record ('a, 'l) position =
  position_amount :: "'a coin"
  position_spec :: "'l spec"

definition position_new :: "'a coin \<Rightarrow> 'l spec \<Rightarrow> ('a, 'l) position" where
  "position_new am s = \<lparr>position_amount = am, position_spec = s\<rparr>"

definition position_close :: "('a, 'l) position \<Rightarrow> 'a coin \<Rightarrow> ('a, 'l) position option" where
  "position_close p asset =
     do { rest \<leftarrow> coin_sub_assign (position_amount p) asset; Some (p\<lparr>position_amount := rest\<rparr>) }"

definition position_overdue_collection_in :: "('a, 'l) position \<Rightarrow> 'l due \<Rightarrow> duration option" where
  "position_overdue_collection_in p d = overdue_collection_in (position_spec p) d"

definition position_debt :: "('a, 'l) position \<Rightarrow> 'l due \<Rightarrow> ('a, 'l) price \<Rightarrow> ('a, 'l) debt option" where
  "position_debt p d asset_in_lpns = spec_debt (position_spec p) (position_amount p) d asset_in_lpns"

definition position_check_close :: "('a, 'l) position \<Rightarrow> 'l due \<Rightarrow> ('a, 'l) price \<Rightarrow> strategy option option" where
  "position_check_close p d asset_in_lpns =
     spec_check_close (position_spec p) (position_amount p) d asset_in_lpns"

definition position_change_close_policy ::
  "('a, 'l) position \<Rightarrow> close_policy_change \<Rightarrow> 'l due \<Rightarrow> ('a, 'l) price
     \<Rightarrow> ('l position_error, ('a, 'l) position) res" where
  "position_change_close_policy p cmd d asset_in_lpns =
     map_res (\<lambda>s. p\<lparr>position_spec := s\<rparr>)
       (spec_change_close_policy (position_spec p) cmd (position_amount p) d asset_in_lpns)"

definition position_validate_payment ::
  "('a, 'l) position \<Rightarrow> 'c coin \<Rightarrow> ('c, 'l) price \<Rightarrow> ('l position_error, unit) res" where
  "position_validate_payment p payment currency_in_lpns =
     validate_payment (position_spec p) payment currency_in_lpns"

definition position_validate_close_amount ::
  "('a, 'l) position \<Rightarrow> 'a coin \<Rightarrow> ('a, 'l) price \<Rightarrow> ('l position_error, unit) res" where
  "position_validate_close_amount p close_amount asset_in_lpns =
     validate_close_amount (position_spec p) (position_amount p) close_amount asset_in_lpns"

end
