(* ===== verification/Position_Facts.thy ===== *)
theory Position_Facts
  imports Position
begin

text \<open>
  What a position guarantees: the amount it lets borrow, the liquidations it asks for, the
  prices at which nothing has to be done, and the close policies it accepts.
\<close>

section \<open>Borrowing\<close>

text \<open>
  The amount to borrow against a downpayment. It is the borrow amount of the liability
  limits, unless the downpayment, the borrow, or the two together are below the minimums, each
  reported with its own error. It aborts only when these amounts overflow.
\<close>

theorem calc_borrow_amount_spec:
  assumes "coin_ok downpayment"
  shows "(case calc_borrow_amount s downpayment may_ltd of
      Inr borrow \<Rightarrow> init_borrow_amount (spec_liability s) downpayment may_ltd = Some borrow
        \<and> min_transaction s \<le> downpayment \<and> min_transaction s \<le> borrow
        \<and> amount (min_asset s) \<le> amount downpayment + amount borrow
    | Inl Panic \<Rightarrow> min_transaction s \<le> downpayment \<and>
        (case init_borrow_amount (spec_liability s) downpayment may_ltd of
           None \<Rightarrow> True
         | Some borrow \<Rightarrow> 2 ^ 128 \<le> amount downpayment + amount borrow)
    | Inl (Fail e) \<Rightarrow>
        e = InsufficientTransactionAmount (min_transaction s) \<and>
          (downpayment < min_transaction s
           \<or> (\<exists>borrow. init_borrow_amount (spec_liability s) downpayment may_ltd = Some borrow
                \<and> borrow < min_transaction s))
        \<or> e = InsufficientAssetAmount (min_asset s) \<and>
          (\<exists>borrow. init_borrow_amount (spec_liability s) downpayment may_ltd = Some borrow
             \<and> amount downpayment + amount borrow < amount (min_asset s)))"
proof -
  have ok: "coin_ok borrow" if "init_borrow_amount (spec_liability s) downpayment may_ltd = Some borrow" for borrow
    using that assms
    by (auto simp: init_borrow_amount_def min_def dest: coin_safe_mul_ok split: option.splits if_splits)
      (auto simp: percent_of_coin_def dest: coin_safe_mul_ok)
  show ?thesis
  proof (cases "min_transaction s \<le> downpayment")
    case False
    with assms show ?thesis
      by (simp add: calc_borrow_amount_def valid_transaction_def coin_order)
  next
    case enough: True
    show ?thesis
    proof (cases "init_borrow_amount (spec_liability s) downpayment may_ltd")
      case None
      with enough assms show ?thesis
        by (simp add: calc_borrow_amount_def valid_transaction_def coin_order)
    next
      case (Some borrow)
      note okb = ok [OF Some]
      show ?thesis
      proof (cases "amount downpayment + amount borrow < 2 ^ 128")
        case True
        with enough Some okb assms show ?thesis
          by (simp add: calc_borrow_amount_def valid_transaction_def valid_asset_def coin_order coin_ok_def
              not_le coin_add_fits)
      next
        case False
        with enough Some okb assms show ?thesis
          by (simp add: calc_borrow_amount_def valid_transaction_def coin_order not_le not_less
              coin_add_overflows)
      qed
    qed
  qed
qed

theorem calc_borrow_amount_spec_witness:
  "let s = \<lparr>spec_liability = \<lparr>initial = Percent 650, healthy = Percent 700, first_liq_warn = Percent 730,
        second_liq_warn = Percent 750, third_liq_warn = Percent 780, max_ltv = Percent 800,
        recalc_time = duration_hour\<rparr>,
      spec_close = \<lparr>take_profit = None, stop_loss = None\<rparr>, min_asset = Coin 150, min_transaction = Coin 10\<rparr>
   in calc_borrow_amount s (Coin 1000 :: unit coin) None = Inr (Coin 1857) \<and> min_transaction s \<le> Coin 1857"
proof -
  let ?s = "\<lparr>spec_liability = \<lparr>initial = Percent 650, healthy = Percent 700, first_liq_warn = Percent 730,
        second_liq_warn = Percent 750, third_liq_warn = Percent 780, max_ltv = Percent 800,
        recalc_time = duration_hour\<rparr>,
      spec_close = \<lparr>take_profit = None, stop_loss = None\<rparr>, min_asset = Coin 150 :: unit coin,
      min_transaction = Coin 10\<rparr>"
  have "calc_borrow_amount ?s (Coin 1000) None = Inr (Coin 1857)"
    by (simp add: calc_borrow_amount_def valid_transaction_def valid_asset_def init_borrow_amount_def
        op_defs coin_ok_def coin_order del: inversion_simps)
  with calc_borrow_amount_spec [of "Coin 1000" ?s None] show ?thesis
    by (simp add: coin_ok_def)
qed

text \<open>
  A position never opens to be liquidated. Whatever the limits and the downpayment, the
  borrow keeps the loan within the initial percent of the whole asset, and when the asset
  counts at least 250 units, at a price of one the liability asks for no liquidation.
\<close>

theorem opened_position_is_healthy:
  assumes "liability_ok (spec_liability s)" "coin_ok downpayment"
    and "calc_borrow_amount s downpayment may_ltd = Inr borrow"
    and "250 \<le> amount (min_asset s)"
  shows "1000 * amount borrow \<le> units (initial (spec_liability s)) * (amount downpayment + amount borrow)
    \<and> amount_to_liquidate (spec_liability s) (Coin (amount downpayment + amount borrow)) borrow = Some coin_zero"
proof -
  let ?l = "spec_liability s" and ?asset = "Coin (amount downpayment + amount borrow)"
  have b: "init_borrow_amount ?l downpayment may_ltd = Some borrow"
    and fit: "amount downpayment + amount borrow < 2 ^ 128"
    and size: "amount (min_asset s) \<le> amount downpayment + amount borrow"
    using assms(3)
    by (auto simp: calc_borrow_amount_def valid_asset_def total_Some coin_order total_def coin_ok_def
        price_identity_def coin_safe_mul_Some_iff split: if_splits)
  have bound: "1000 * amount borrow \<le> units (initial ?l) * amount ?asset"
    using init_borrow_bound [OF assms(1) b] by (simp add: add.commute)
  have gap: "4 \<le> units (max_ltv ?l) - units (initial ?l)"
    using assms(1) by (auto simp: liability_ok_iff percent_order)
  have "1000 \<le> amount ?asset * (units (max_ltv ?l) - units (initial ?l))"
    using mult_le_mono [of 250 "amount ?asset" 4 "units (max_ltv ?l) - units (initial ?l)"] gap size assms(4)
    by simp
  then have "amount_to_liquidate ?l ?asset borrow = Some coin_zero"
    using bound fit size assms(4)
    by (intro amount_to_liquidate_below [OF assms(1)]) (simp_all add: coin_ok_def, linarith)
  with bound show ?thesis by simp
qed

theorem opened_position_is_healthy_witness:
  "let l = \<lparr>initial = Percent 650, healthy = Percent 700, first_liq_warn = Percent 730,
        second_liq_warn = Percent 750, third_liq_warn = Percent 780, max_ltv = Percent 800,
        recalc_time = duration_hour\<rparr>
   in amount_to_liquidate l (Coin 2857 :: unit coin) (Coin 1857) = Some coin_zero"
proof -
  let ?s = "\<lparr>spec_liability = \<lparr>initial = Percent 650, healthy = Percent 700, first_liq_warn = Percent 730,
        second_liq_warn = Percent 750, third_liq_warn = Percent 780, max_ltv = Percent 800,
        recalc_time = duration_hour\<rparr>,
      spec_close = \<lparr>take_profit = None, stop_loss = None\<rparr>, min_asset = Coin 250 :: unit coin,
      min_transaction = Coin 10\<rparr>"
  have c: "calc_borrow_amount ?s (Coin 1000) None = Inr (Coin 1857)"
    by (simp add: calc_borrow_amount_def valid_transaction_def valid_asset_def init_borrow_amount_def
        op_defs coin_ok_def coin_order del: inversion_simps)
  have ok: "liability_ok (spec_liability ?s)" by (simp add: liability_ok_iff percent_order)
  from opened_position_is_healthy [OF ok _ c] show ?thesis
    by (simp add: coin_ok_def Let_def)
qed

end
