(* ===== verification/Position_Debt.thy ===== *)
theory Position_Debt
  imports Position
begin

text \<open>
  The decision on the debt of a position (\<open>Spec::debt\<close>): which liquidations it asks for, the
  prices at which nothing has to be done, and the close policies it accepts.
\<close>

section \<open>Liquidations\<close>

text \<open>The amount each cause calls to liquidate.\<close>

definition asked_amount :: "'l spec \<Rightarrow> 'a coin \<Rightarrow> 'l due \<Rightarrow> ('a, 'l) price \<Rightarrow> cause \<Rightarrow> 'a coin option" where
  "asked_amount s asset d p why =
     (case why of
        CauseOverdue \<Rightarrow> do { oc \<leftarrow> spec_overdue_collection s d; to_assets (collection_amount oc) p }
      | CauseLiability _ _ \<Rightarrow> do {
          due_lpns \<leftarrow> due_total d;
          due_assets \<leftarrow> to_assets due_lpns p;
          amount_to_liquidate (spec_liability s) asset due_assets
        })"

definition spec_causes :: "'l spec \<Rightarrow> cause list" where
  "spec_causes s =
     [CauseOverdue, CauseLiability (max_ltv (spec_liability s)) (healthy (spec_liability s))]"

text \<open>A liquidation of an amount is worth it, and is total when the rest is too little.\<close>

definition fits_liquidation :: "'l spec \<Rightarrow> 'a coin \<Rightarrow> ('a, 'l) price \<Rightarrow> 'a coin \<Rightarrow> cause \<Rightarrow> 'a liquidation \<Rightarrow> bool" where
  "fits_liquidation s asset p asked why liq \<longleftrightarrow>
     (\<exists>w r. total asked p = Some w \<and> min_transaction s \<le> w
        \<and> total (Coin (amount asset - amount asked)) p = Some r
        \<and> liq = (if min_asset s \<le> r then Partial asked why else Full why))"

lemma may_ask_liquidation_Some:
  "may_ask_liquidation s asset why asked p = Some (Some liq) \<longleftrightarrow> fits_liquidation s asset p asked why liq"
  by (auto simp: may_ask_liquidation_def validate_close_amount_def valid_transaction_def valid_asset_def
      fits_liquidation_def and_then_def or_panic_def
      split: sum.splits failure.splits position_error.splits option.splits if_splits bind_splits)

lemma may_ask_liquidation_None:
  "may_ask_liquidation s asset why asked p = Some None \<longleftrightarrow>
     (\<exists>w. total asked p = Some w \<and> w < min_transaction s)"
  by (auto simp: may_ask_liquidation_def validate_close_amount_def valid_transaction_def valid_asset_def
      and_then_def or_panic_def not_le
      split: sum.splits failure.splits position_error.splits option.splits if_splits bind_splits)

lemma max_option_None: "max a b = None \<longleftrightarrow> a = None \<and> b = (None :: 'x::linorder option)"
  by (cases a; cases b) (auto simp: max_def)

lemma max_option_Some:
  "max a b = Some (m :: 'x::linorder) \<longleftrightarrow>
     (a = Some m \<or> b = Some m) \<and> (\<forall>x. a = Some x \<or> b = Some x \<longrightarrow> x \<le> m)"
  by (cases a; cases b) (auto simp: max_def)

lemma spec_debt_Some:
  assumes "spec_debt s asset d p = Some st"
  obtains l1 o1 asked_l asked_o
  where "asked_amount s asset d p (CauseLiability (max_ltv (spec_liability s)) (healthy (spec_liability s))) = Some asked_l"
    "asked_amount s asset d p CauseOverdue = Some asked_o"
    "may_ask_liquidation s asset (CauseLiability (max_ltv (spec_liability s)) (healthy (spec_liability s))) asked_l p
       = Some l1"
    "may_ask_liquidation s asset CauseOverdue asked_o p = Some o1"
    "case max l1 o1 of Some liq \<Rightarrow> st = DebtBad liq | None \<Rightarrow> \<exists>v. no_liquidation s asset d v = Some st"
proof -
  obtain due_lpns due_assets l1 o1 where d: "due_total d = Some due_lpns" "to_assets due_lpns p = Some due_assets"
      "may_ask_liquidation_liability s asset due_assets p = Some l1"
      "may_ask_liquidation_overdue s asset d p = Some o1"
    using assms unfolding spec_debt_def bind_Some by (elim exE conjE) (rule that)
  then have "case max l1 o1 of Some liq \<Rightarrow> st = DebtBad liq | None \<Rightarrow> \<exists>v. no_liquidation s asset d v = Some st"
    using assms by (auto simp: spec_debt_def split: option.splits)
  with d show thesis
    by (auto simp: may_ask_liquidation_liability_def may_ask_liquidation_overdue_def asked_amount_def
        intro: that)
qed

lemma no_liquidation_not_bad: "no_liquidation s asset d v \<noteq> Some (DebtBad liq)"
  by (auto simp: no_liquidation_def Let_def split: if_splits)

text \<open>
  C5. When a position is liquidated. A liquidation is the greatest of those the two causes,
  the overdue interest and the liability, ask for: the whole position when what would be
  left is worth less than the minimum asset, otherwise a part of it, strictly less than the
  asset. The position is not liquidated only if both causes ask for less than the
  minimum transaction.
\<close>

theorem debt_liquidation_decision:
  assumes "spec_debt s asset d p = Some st" "price_ok p" "0 < amount (min_asset s)"
  shows "(case st of
      DebtBad liq \<Rightarrow>
        (\<exists>why asked. why \<in> set (spec_causes s) \<and> asked_amount s asset d p why = Some asked
           \<and> fits_liquidation s asset p asked why liq)
        \<and> (\<forall>why asked other. why \<in> set (spec_causes s) \<and> asked_amount s asset d p why = Some asked
             \<and> fits_liquidation s asset p asked why other \<longrightarrow> other \<le> liq)
        \<and> (\<forall>part why. liq = Partial part why \<longrightarrow> part < asset)
    | _ \<Rightarrow> \<forall>why \<in> set (spec_causes s). \<exists>asked w. asked_amount s asset d p why = Some asked
             \<and> total asked p = Some w \<and> w < min_transaction s)"
proof -
  let ?lia = "CauseLiability (max_ltv (spec_liability s)) (healthy (spec_liability s))"
  obtain l1 o1 al ao where asked: "asked_amount s asset d p ?lia = Some al"
      "asked_amount s asset d p CauseOverdue = Some ao"
    and may: "may_ask_liquidation s asset ?lia al p = Some l1"
      "may_ask_liquidation s asset CauseOverdue ao p = Some o1"
    and st: "case max l1 o1 of Some liq \<Rightarrow> st = DebtBad liq | None \<Rightarrow> \<exists>v. no_liquidation s asset d v = Some st"
    using spec_debt_Some [OF assms(1)] .
  have part: "part < asset" if "fits_liquidation s asset p part why (Partial part why)" for part why
    using that assms(2,3)
    by (cases "amount asset \<le> amount part")
      (auto simp: fits_liquidation_def total_Some coin_order split: if_splits)
  show ?thesis
  proof (cases "max l1 o1")
    case None
    then obtain v where "no_liquidation s asset d v = Some st" using st by auto
    then have "\<nexists>liq. st = DebtBad liq" using no_liquidation_not_bad by blast
    with None asked may show ?thesis
      by (auto simp: max_option_None may_ask_liquidation_None spec_causes_def split: debt.splits)
  next
    case (Some liq)
    with st have st: "st = DebtBad liq" by simp
    have m: "l1 = Some liq \<or> o1 = Some liq" "\<And>x. l1 = Some x \<or> o1 = Some x \<Longrightarrow> x \<le> liq"
      using Some by (auto simp: max_option_Some)
    have le: "other \<le> liq" if "fits_liquidation s asset p al ?lia other \<or>
        fits_liquidation s asset p ao CauseOverdue other" for other
      using that m(2) may by (metis may_ask_liquidation_Some option.inject)
    have ex: "fits_liquidation s asset p al ?lia liq \<or> fits_liquidation s asset p ao CauseOverdue liq"
      using m(1) may by (metis may_ask_liquidation_Some)
    have "pt < asset" if "liq = Partial pt why" for pt why
      using ex part [of pt why] that by (auto simp: fits_liquidation_def split: if_splits)
    with st ex le asked show ?thesis by (auto simp: spec_causes_def)
  qed
qed

text \<open>A position of 2000 units at a price of one half, used to show how the decision is taken.\<close>

definition sample_spec :: "unit spec" where
  "sample_spec =
     \<lparr>spec_liability = \<lparr>initial = Percent 600, healthy = Percent 650, first_liq_warn = Percent 700,
        second_liq_warn = Percent 750, third_liq_warn = Percent 780, max_ltv = Percent 800,
        recalc_time = duration_hour\<rparr>,
      spec_close = \<lparr>take_profit = Some (Percent 400), stop_loss = Some (Percent 740)\<rparr>,
      min_asset = Coin 150, min_transaction = Coin 10\<rparr>"

definition sample_price :: "(bool, unit) price" where
  "sample_price = \<lparr>price_amount = Coin 2, price_amount_quote = Coin 1\<rparr>"

definition sample_due :: "nat \<Rightarrow> unit due" where
  "sample_due n =
     \<lparr>due_total = Some (Coin n), due_overdue_collection = (\<lambda>_. Some (CollectIn duration_hour))\<rparr>"

lemmas debt_run_defs =
  sample_spec_def sample_price_def sample_due_def spec_debt_def to_assets_def price_inv_def total_def
  may_ask_liquidation_liability_def may_ask_liquidation_overdue_def may_ask_liquidation_def
  validate_close_amount_def valid_transaction_def valid_asset_def spec_overdue_collection_def
  collection_amount_def collection_start_in_def amount_to_liquidate_def no_liquidation_def ltv_def
  zone_of_def zone_range_def cap_to_zone_def min_step_ltv_def overdue_collection_in_def
  no_close_def cut_to_eq cut_from_eq range_invert_def

lemma sample_price_ok: "price_ok sample_price"
  by (simp add: sample_price_def price_ok_def coin_ok_def)

theorem debt_liquidation_decision_witness:
  "spec_debt sample_spec (Coin 2000) (sample_due 850) sample_price
     = Some (DebtBad (Partial (Coin 1142) (CauseLiability (Percent 800) (Percent 650))))
   \<and> (Coin 1142 :: bool coin) < Coin 2000"
proof -
  have run: "spec_debt sample_spec (Coin 2000) (sample_due 850) sample_price
     = Some (DebtBad (Partial (Coin 1142) (CauseLiability (Percent 800) (Percent 650))))"
    by (simp add: debt_run_defs op_defs Let_def coin_order percent_order max_def del: inversion_simps)
  have "0 < amount (min_asset sample_spec)" by (simp add: sample_spec_def)
  from debt_liquidation_decision [OF run sample_price_ok this] run show ?thesis by simp
qed

section \<open>Steadiness\<close>

lemma total_of_is_cross:
  assumes "total_of_is c d = Some P" "0 < amount d"
  shows "\<exists>g>0. amount (price_amount P) * g = amount c \<and> amount (price_amount_quote P) * g = amount d"
proof -
  let ?g = "gcd (amount c) (amount d)"
  have g: "0 < ?g" using assms(2) by simp
  then have "price_amount P = Coin (amount c div ?g)" "price_amount_quote P = Coin (amount d div ?g)"
    using assms(1)
    by (auto simp: total_of_is_def price_new_def price_new_inner_def into_coprime_with_def Let_def)
  with g show ?thesis by (intro exI [of _ ?g]) simp
qed

text \<open>
  The share of the asset that a price range bound stands for, against the debt at another
  price.
\<close>

lemma due_below_share:
  assumes "total_of_is share due = Some P" "0 < amount due" "price_ok q" "price_lt P q"
    "to_assets due q = Some assets"
  shows "assets < share"
proof -
  obtain g where g: "0 < g" "amount (price_amount P) * g = amount share"
      "amount (price_amount_quote P) * g = amount due"
    using total_of_is_cross [OF assms(1,2)] by blast
  have "amount (price_amount_quote P) * amount (price_amount q) * g
      < amount (price_amount P) * amount (price_amount_quote q) * g"
    using assms(4) g(1) by (simp add: price_lt_iff)
  then have "amount due * amount (price_amount q) < amount share * amount (price_amount_quote q)"
    unfolding g(2,3) [symmetric] by (simp add: ac_simps)
  moreover have "amount assets = amount due * amount (price_amount q) div amount (price_amount_quote q)"
    using assms(3,5) by (auto simp: to_assets_def total_Some)
  ultimately show ?thesis
    using assms(3) by (simp add: coin_order price_ok_def div_less_iff_less_mult)
qed

lemma due_from_share:
  assumes "total_of_is share due = Some P" "0 < amount due" "price_ok q" "price_le q P"
    "to_assets due q = Some assets"
  shows "share \<le> assets"
proof -
  obtain g where g: "0 < g" "amount (price_amount P) * g = amount share"
      "amount (price_amount_quote P) * g = amount due"
    using total_of_is_cross [OF assms(1,2)] by blast
  have "amount (price_amount_quote q) * amount (price_amount P) * g
      \<le> amount (price_amount q) * amount (price_amount_quote P) * g"
    using assms(4) by (simp add: price_le_iff)
  then have "amount share * amount (price_amount_quote q) \<le> amount due * amount (price_amount q)"
    unfolding g(2,3) [symmetric] by (simp add: ac_simps)
  moreover have "amount assets = amount due * amount (price_amount q) div amount (price_amount_quote q)"
    using assms(3,5) by (auto simp: to_assets_def total_Some)
  ultimately show ?thesis
    using assms(3) by (simp add: coin_order price_ok_def less_eq_div_iff_mult_less_eq)
qed

lemma debt_ok_from_no_liquidation:
  assumes "spec_debt s asset d p = Some (DebtOk z st)"
  obtains v where "no_liquidation s asset d v = Some (DebtOk z st)"
  using spec_debt_Some [OF assms] by (force split: option.splits)

text \<open>The steady prices of an open position are those of its loan-to-value range.\<close>

lemma no_liquidation_Ok:
  assumes "liability_ok (spec_liability s)" "no_liquidation s asset d v = Some (DebtOk z st)"
    and "due_total d = Some due"
  shows "\<exists>(r' :: percent open_range) share. range_end r' \<le> max_ltv (spec_liability s)
    \<and> (range_start r' = Some (range_end r') \<or>
      (\<forall>tp. take_profit (spec_close s) = Some tp \<longrightarrow> (\<exists>b. range_start r' = Some b \<and> tp \<le> b)) \<and>
      (\<forall>sl. stop_loss (spec_close s) = Some sl \<longrightarrow> range_end r' \<le> sl))
    \<and> percent_of_coin (range_end r') asset = Some share
    \<and> total_of_is share due = Some (range_end (steady_within st))
    \<and> (\<forall>b. range_start r' = Some b \<longrightarrow>
       (\<exists>c start. percent_of_coin b asset = Some c \<and> total_of_is c due = Some start
         \<and> range_start (steady_within st) = Some start))
    \<and> 0 < amount due \<and> steady_for st \<le> recalc_time (spec_liability s)"
proof -
  obtain r where r: "zone_range (zone_of (spec_liability s) v) = Some r" "ascending_invariant r"
      "range_end r \<le> max_ltv (spec_liability s)"
    using zone_of_bounds [OF assms(1)] by blast
  obtain r' prices where r': "no_close (spec_close s) r = Some r'"
      "range_invert (\<lambda>at_ltv. do { share \<leftarrow> percent_of_coin at_ltv asset; total_of_is share due }) r' = Some prices"
      "steady_within st = prices" "0 < amount due" "steady_for st \<le> recalc_time (spec_liability s)"
    using assms(2,3) r(1) by (auto simp: no_liquidation_def Let_def split: if_splits)
  obtain share where share: "percent_of_coin (range_end r') asset = Some share"
      "total_of_is share due = Some (range_end prices)"
    using r'(2) by (auto simp: range_invert_def split: option.splits)
  have start: "\<exists>c start. percent_of_coin b asset = Some c \<and> total_of_is c due = Some start
      \<and> range_start (steady_within st) = Some start" if "range_start r' = Some b" for b
    using r'(2) that unfolding r'(3) by (auto simp: range_invert_def)
  have top: "range_end r' \<le> max_ltv (spec_liability s)"
    using no_close_bounds(1) [OF r(2) r'(1)] r(3) by simp
  have "total_of_is share due = Some (range_end (steady_within st))"
    using share(2) r'(3) by simp
  moreover have "\<forall>b. range_start r' = Some b \<longrightarrow>
       (\<exists>c start. percent_of_coin b asset = Some c \<and> total_of_is c due = Some start
         \<and> range_start (steady_within st) = Some start)"
    using start by blast
  ultimately show ?thesis
    using top no_close_bounds(2) [OF r(2) r'(1)] share(1) r'(4,5)
    by - (intro exI [of _ r'] exI [of _ share] conjI)
qed

lemma percent_of_coin_mono:
  assumes "percent_of_coin a c = Some x" "percent_of_coin b c = Some y" "a \<le> b"
  shows "x \<le> y"
  using assms by (auto simp: percent_of_coin_Some coin_order percent_order div_le_mono)

lemma percent_of_coin_eq_proper:
  "a \<le> b \<Longrightarrow> units b \<le> 1000 \<Longrightarrow> coin_ok c \<Longrightarrow>
    percent_of_coin a c = Some (Coin (amount c * units a div 1000))"
  by (intro percent_of_coin_proper) (simp_all add: percent_order)

text \<open>
  C4. The prices of a steady position need no action. As long as the debt is the same, at any
  price above the lower bound of the range a position is reported steady for, and not above
  its upper bound, the close policy does not trigger and the liability asks for no liquidation.
  This is what entitles the lease to wait for a price alarm at these bounds; the wait is
  never longer than the recalculation time.
\<close>

theorem steady_prices_need_no_action:
  assumes "liability_ok (spec_liability s)" "policy_below (max_ltv (spec_liability s)) (spec_close s)"
    and "coin_ok asset" "spec_debt s asset d p = Some (DebtOk z st)" "due_total d = Some due"
    and "price_ok q" "price_lt (range_end (steady_within st)) q"
    and start: "\<forall>start. range_start (steady_within st) = Some start \<longrightarrow> price_le q start"
    and "to_assets due q = Some assets"
  shows "may_trigger (spec_close s) asset assets = Some None
    \<and> amount_to_liquidate (spec_liability s) asset assets = Some coin_zero
    \<and> steady_for st \<le> recalc_time (spec_liability s)"
proof -
  let ?max = "max_ltv (spec_liability s)"
  obtain v where "no_liquidation s asset d v = Some (DebtOk z st)"
    using debt_ok_from_no_liquidation [OF assms(4)] .
  from no_liquidation_Ok [OF assms(1) this assms(5)] obtain r' :: "percent open_range" and share
    where cut: "range_start r' = Some (range_end r') \<or>
      (\<forall>tp. take_profit (spec_close s) = Some tp \<longrightarrow> (\<exists>b. range_start r' = Some b \<and> tp \<le> b)) \<and>
      (\<forall>sl. stop_loss (spec_close s) = Some sl \<longrightarrow> range_end r' \<le> sl)"
    and low: "\<forall>b. range_start r' = Some b \<longrightarrow>
       (\<exists>c start. percent_of_coin b asset = Some c \<and> total_of_is c due = Some start
         \<and> range_start (steady_within st) = Some start)"
    and r': "range_end r' \<le> ?max" "percent_of_coin (range_end r') asset = Some share"
      "total_of_is share due = Some (range_end (steady_within st))" "0 < amount due"
      "steady_for st \<le> recalc_time (spec_liability s)"
    by (elim exE conjE) (rule that)
  have max: "units ?max \<le> 1000" using liability_bounds(3) [OF assms(1)] .
  have top: "assets < share"
    by (rule due_below_share [OF r'(3,4) assms(6,7,9)])
  have bottom: "c \<le> assets" if "range_start r' = Some b" "percent_of_coin b asset = Some c" for b c
    using low that start due_from_share [OF _ r'(4) assms(6) _ assms(9)] by auto
  have nonempty: "range_start r' \<noteq> Some (range_end r')"
    using bottom [of "range_end r'" share] r'(2) top by auto
  have sl: "\<not> hits_stop_loss (spec_close s) (amount asset) (amount assets)"
  proof
    assume "hits_stop_loss (spec_close s) (amount asset) (amount assets)"
    then obtain sl where sl: "stop_loss (spec_close s) = Some sl" "units sl * amount asset < 1000 * (amount assets + 1)"
      by (auto simp: hits_stop_loss_def)
    with cut nonempty have "range_end r' \<le> sl" by blast
    moreover have "percent_of_coin sl asset = Some (Coin (amount asset * units sl div 1000))"
      using assms(2,3) sl(1) max by (intro percent_of_coin_proper) (auto simp: policy_below_def percent_order)
    ultimately have "share \<le> Coin (amount asset * units sl div 1000)"
      using percent_of_coin_mono r'(2) by blast
    moreover have "amount asset * units sl div 1000 \<le> amount assets"
      using sl(2) by (simp only: share_le_iff)
    ultimately show False using top by (simp add: coin_order)
  qed
  have tp: "\<not> hits_take_profit (spec_close s) (amount asset) (amount assets)"
  proof
    assume "hits_take_profit (spec_close s) (amount asset) (amount assets)"
    then obtain tp where tp: "take_profit (spec_close s) = Some tp"
        "\<not> units tp * amount asset < 1000 * (amount assets + 1)"
      by (auto simp: hits_take_profit_def)
    with cut nonempty obtain b where b: "range_start r' = Some b" "tp \<le> b" by blast
    with low obtain c where c: "percent_of_coin b asset = Some c" by blast
    have "percent_of_coin tp asset = Some (Coin (amount asset * units tp div 1000))"
      using assms(2,3) tp(1) max by (intro percent_of_coin_proper) (auto simp: policy_below_def percent_order)
    with percent_of_coin_mono c b(2) have "Coin (amount asset * units tp div 1000) \<le> c" by blast
    with bottom [OF b(1) c] have "amount asset * units tp div 1000 \<le> amount assets"
      by (simp add: coin_order)
    with tp(2) show False by (simp only: share_le_iff)
  qed
  have below: "policy_below percent_hundred (spec_close s)"
    using assms(2) max policy_below_trans by (simp add: percent_order)
  have "may_trigger (spec_close s) asset assets = Some None"
    using sl tp by (simp add: may_trigger_eq [OF below assms(3)])
  moreover have "amount_to_liquidate (spec_liability s) asset assets = Some coin_zero"
  proof -
    have m: "percent_of_coin ?max asset = Some (Coin (amount asset * units ?max div 1000))"
      using max assms(3) by (rule percent_of_coin_proper)
    with percent_of_coin_mono r'(1,2) have "share \<le> Coin (amount asset * units ?max div 1000)" by blast
    with top m show ?thesis by (simp add: amount_to_liquidate_def coin_order)
  qed
  ultimately show ?thesis using r'(5) by blast
qed

theorem steady_prices_need_no_action_witness:
  "\<exists>z st. spec_debt sample_spec (Coin 2000) (sample_due 600) sample_price = Some (DebtOk z st)
     \<and> may_trigger (spec_close sample_spec) (Coin 2000 :: bool coin) (Coin 1200) = Some None
     \<and> amount_to_liquidate (spec_liability sample_spec) (Coin 2000 :: bool coin) (Coin 1200) = Some coin_zero"
proof -
  let ?st = "\<lparr>steady_for = duration_hour, steady_within =
      new_descending (Some \<lparr>price_amount = Coin 4, price_amount_quote = Coin 3\<rparr>)
        \<lparr>price_amount = Coin 7, price_amount_quote = Coin 3\<rparr>\<rparr> :: (bool, unit) steadiness"
  have run: "spec_debt sample_spec (Coin 2000) (sample_due 600) sample_price
      = Some (DebtOk (zone_no_warnings (Percent 700)) ?st)"
    by (simp add: debt_run_defs op_defs Let_def coin_order percent_order max_def gcd_numeral_rec
        del: inversion_simps)
  have pre: "liability_ok (spec_liability sample_spec)"
      "policy_below (max_ltv (spec_liability sample_spec)) (spec_close sample_spec)"
    by (simp_all add: sample_spec_def liability_ok_iff policy_below_def percent_order)
  have due: "due_total (sample_due 600) = Some (Coin 600)" by (simp add: sample_due_def)
  have assets: "to_assets (Coin 600) sample_price = Some (Coin 1200)"
    by (simp add: to_assets_def sample_price_def price_inv_def op_defs del: inversion_simps)
  from steady_prices_need_no_action [OF pre _ run due sample_price_ok _ _ assets] run
  show ?thesis by (simp add: price_lt_iff price_le_iff coin_ok_def sample_price_def)
qed

section \<open>Changes of the close policy\<close>

text \<open>
  A change of the close policy takes effect only when the new policy is sound: it has
  the commanded limits, none of them zero, all of them below the maximum of the liability, and
  it does not close the position at the current debt and price. Nothing else of the position
  changes. A refusal names the reason.
\<close>

theorem change_close_policy_spec:
  fixes p :: "('a, 'l) price" and s :: "'l spec"
  assumes "liability_ok (spec_liability s)" "coin_ok asset" "0 < amount asset"
    and "due_total d = Some due" "to_assets due p = Some assets" "amount assets \<le> 4000000 * amount asset"
  shows "(case spec_change_close_policy s cmd asset d p of
      Inr s' \<Rightarrow> (\<exists>pol. s' = s\<lparr>spec_close := pol\<rparr> \<and> change_policy (spec_close s) cmd = (Inr pol :: ('l position_error, policy) res)
          \<and> policy_nonzero pol \<and> policy_below (max_ltv (spec_liability s)) pol
          \<and> spec_check_close s' asset d p = Some None)
    | Inl Panic \<Rightarrow> False
    | Inl (Fail e) \<Rightarrow>
        change_policy (spec_close s) cmd = Inl (Fail e)
        \<or> (\<exists>pol. change_policy (spec_close s) cmd = (Inr pol :: ('l position_error, policy) res) \<and>
            (\<not> policy_below (max_ltv (spec_liability s)) pol
               \<and> liquidation_check pol (max_ltv (spec_liability s)) = Inl (Fail e)
             \<or> (\<exists>v strat. may_trigger pol asset assets = Some (Some strat) \<and> ltv assets asset = Some v
                  \<and> e = TriggerClose v strat))))"
proof (cases "change_policy (spec_close s) cmd :: ('l position_error, policy) res")
  case (Inl f)
  moreover have "f \<noteq> Panic" using Inl checks_never_panic(3) by metis
  ultimately show ?thesis
    using assms(4,5) by (cases f) (simp_all add: spec_change_close_policy_def)
next
  case (Inr pol)
  let ?max = "max_ltv (spec_liability s)"
  have nz: "policy_nonzero pol" using Inr unfolding change_policy_Inr by blast
  show ?thesis
  proof (cases "policy_below ?max pol")
    case False
    then obtain f where f: "liquidation_check pol ?max = (Inl f :: ('l position_error, policy) res)"
      by (cases "liquidation_check pol ?max :: ('l position_error, policy) res")
        (auto simp: liquidation_check_Inr)
    moreover have "f \<noteq> Panic" using f checks_never_panic(2) by metis
    ultimately show ?thesis
      using assms(4,5) Inr False by (cases f) (simp_all add: spec_change_close_policy_def)
  next
    case True
    then have check: "liquidation_check pol ?max = (Inr pol :: ('l position_error, policy) res)"
      by (simp add: liquidation_check_Inr)
    have "policy_below percent_hundred pol"
      using policy_below_trans [OF True] liability_bounds(3) [OF assms(1)] by (simp add: percent_order)
    from may_trigger_eq [OF this assms(2)] obtain t where t: "may_trigger pol asset assets = Some t"
      by blast
    have "1000 * amount assets div amount asset \<le> 4000000000"
      using div_le_mono [of "1000 * amount assets" "4000000000 * amount asset" "amount asset"] assms(3,6) by simp
    then obtain v where v: "ltv assets asset = Some v"
      using percent_from_coins_Some [OF assms(3)] by (simp add: ltv_def)
    show ?thesis
      using assms(4,5) Inr nz check True t v
      by (cases t)
        (auto simp: spec_change_close_policy_def spec_check_close_def spec_new_def trigger_close_def)
  qed
qed

theorem change_close_policy_spec_witness:
  "spec_change_close_policy sample_spec
     \<lparr>change_stop_loss = Some (Set (Percent 500)), change_take_profit = Some Reset\<rparr>
     (Coin 2000) (sample_due 600) sample_price
   = Inl (Fail (TriggerClose (Percent 600) (StopLoss (Percent 500))))"
proof -
  let ?cmd = "\<lparr>change_stop_loss = Some (Set (Percent 500)), change_take_profit = Some Reset\<rparr>"
  have run: "spec_change_close_policy sample_spec ?cmd (Coin 2000) (sample_due 600) sample_price
     = Inl (Fail (TriggerClose (Percent 600) (StopLoss (Percent 500))))"
    by (simp add: debt_run_defs op_defs spec_change_close_policy_def may_trigger_def may_stop_loss_def
        Let_def coin_order percent_order percent_zero_def trigger_close_def del: inversion_simps)
  have ok: "liability_ok (spec_liability sample_spec)"
    by (simp add: sample_spec_def liability_ok_iff percent_order)
  have due: "due_total (sample_due 600) = Some (Coin 600)" by (simp add: sample_due_def)
  have assets: "to_assets (Coin 600) sample_price = Some (Coin 1200)"
    by (simp add: to_assets_def sample_price_def price_inv_def op_defs del: inversion_simps)
  from change_close_policy_spec [OF ok _ _ due assets, of "Coin 2000" ?cmd] run
  show ?thesis by simp
qed

end
