(* ===== verification/Lease_Due.thy ===== *)
theory Lease_Due
  imports Position Lease_Loan
begin

text \<open>
  The state of the loan as the due of the position (\<open>lease/src/lease/due.rs\<close>): the total
  due, and when the overdue interest is worth collecting.
\<close>

definition total_due_interest :: "'l loan_state \<Rightarrow> 'l coin option" where
  "total_due_interest st =
     do {
       s1 \<leftarrow> coin_add (due_interest st) (due_margin_interest st);
       s2 \<leftarrow> coin_add s1 (overdue_interest (overdue st));
       coin_add s2 (overdue_margin (overdue st))
     }"

definition state_total_due :: "'l loan_state \<Rightarrow> 'l coin option" where
  "state_total_due st =
     do { int_due \<leftarrow> total_due_interest st; coin_add (state_principal_due st) int_due }"

definition time_to_accrue :: "'l loan_state \<Rightarrow> 'l coin \<Rightarrow> 'l coin \<Rightarrow> duration option" where
  "time_to_accrue st int_due min_amount =
     (if min_amount \<le> int_due then Some duration_zero
      else do {
        overdue_left \<leftarrow> coin_sub min_amount int_due;
        rate \<leftarrow> percent_add (annual_interest st) (annual_interest_margin st);
        interest_a_year \<leftarrow> interest (percent_ratio rate) (state_principal_due st) duration_year;
        if coin_is_zero interest_a_year then Some duration_max
        else into_slice_per_ratio duration_year overdue_left interest_a_year
      })"

definition state_overdue_collection :: "'l loan_state \<Rightarrow> 'l coin \<Rightarrow> 'l overdue_collection option" where
  "state_overdue_collection st min_amount =
     do {
       int_due \<leftarrow> total_due_interest st;
       accrue \<leftarrow> time_to_accrue st int_due min_amount;
       let time_to_collect = max (overdue_start_in (overdue st)) accrue;
       Some (if time_to_collect = duration_zero then Collectable int_due else CollectIn time_to_collect)
     }"

definition state_due :: "'l loan_state \<Rightarrow> 'l due" where
  "state_due st =
     \<lparr>due_total = state_total_due st, due_overdue_collection = state_overdue_collection st\<rparr>"

section \<open>What a position relies on\<close>

text \<open>The contract of the trait \<open>Due\<close>.\<close>

locale position_due =
  fixes dict :: "'s \<Rightarrow> 'l due"
  assumes collectable_within_due: "due_total (dict s) = Some t \<Longrightarrow>
      due_overdue_collection (dict s) m = Some oc \<Longrightarrow> collection_amount oc \<le> t"
    and collect_later: "due_overdue_collection (dict s) m = Some (CollectIn d) \<Longrightarrow> 0 < nanos d"
begin

text \<open>A position without a debt has nothing to collect.\<close>

lemma nothing_to_collect:
  assumes "due_total (dict s) = Some t" "amount t = 0" "due_overdue_collection (dict s) m = Some oc"
  shows "amount (collection_amount oc) = 0"
  using collectable_within_due [OF assms(1,3)] assms(2) by (simp add: coin_order)

lemma start_in_zero_iff:
  assumes "due_overdue_collection (dict s) m = Some oc"
  shows "nanos (collection_start_in oc) = 0 \<longleftrightarrow> (\<exists>c. oc = Collectable c)"
  using assms collect_later by (cases oc) (auto simp: collection_start_in_def)

end

lemma total_due_interest_Some:
  "total_due_interest st = Some t \<Longrightarrow>
     amount t = amount (due_interest st) + amount (due_margin_interest st)
       + amount (overdue_interest (overdue st)) + amount (overdue_margin (overdue st))"
  by (auto simp: total_due_interest_def)

interpretation lease_due: position_due state_due
proof (unfold_locales, goal_cases)
  case (1 s t m oc)
  then show ?case
    by (auto simp: state_due_def state_total_due_def state_overdue_collection_def collection_amount_def
        coin_order Let_def split: overdue_collection.splits if_splits)
next
  case (2 s m d)
  then show ?case
    by (auto simp: state_due_def state_overdue_collection_def Let_def duration_eq_iff split: if_splits)
qed

text \<open>
  The overdue interest is collected exactly when the loan is past its due period and the
  interest accrued has reached the minimum, or would reach it within a nanosecond. It is then
  all the interest of the loan, and never more than the total due. Until then the
  lease waits a non-zero time, at least as long as the overdue period is to start.
\<close>

theorem overdue_collection_spec:
  assumes "state_overdue_collection st min_amount = Some oc" "total_due_interest st = Some int_due"
  shows "(case oc of
      Collectable c \<Rightarrow> c = int_due \<and> nanos (overdue_start_in (overdue st)) = 0
        \<and> (min_amount \<le> int_due \<or> time_to_accrue st int_due min_amount = Some duration_zero)
        \<and> (\<forall>t. state_total_due st = Some t \<longrightarrow> c \<le> t)
    | CollectIn d \<Rightarrow> 0 < nanos d \<and> overdue_start_in (overdue st) \<le> d
        \<and> (nanos (overdue_start_in (overdue st)) = 0 \<longrightarrow> int_due < min_amount))"
proof -
  obtain accrue where accrue: "time_to_accrue st int_due min_amount = Some accrue"
      "oc = (let t = max (overdue_start_in (overdue st)) accrue
             in if t = duration_zero then Collectable int_due else CollectIn t)"
    using assms by (auto simp: state_overdue_collection_def Let_def)
  have zero: "accrue = duration_zero" if "min_amount \<le> int_due"
    using accrue(1) that by (simp add: time_to_accrue_def)
  have le: "int_due \<le> t" if "state_total_due st = Some t" for t
    using that assms(2) by (auto simp: state_total_due_def coin_order)
  show ?thesis
  proof (cases oc)
    case (CollectIn d)
    then have d: "d = max (overdue_start_in (overdue st)) accrue" "d \<noteq> duration_zero"
      using accrue(2) by (auto simp: Let_def split: if_splits)
    have "int_due < min_amount" if "nanos (overdue_start_in (overdue st)) = 0"
      using zero d that by (cases "min_amount \<le> int_due") (auto simp: duration_eq_iff coin_order)
    with d CollectIn show ?thesis by (auto simp: duration_eq_iff time_order)
  next
    case (Collectable c)
    then have "c = int_due" "max (overdue_start_in (overdue st)) accrue = duration_zero"
      using accrue(2) by (auto simp: Let_def split: if_splits)
    then have "c = int_due" "nanos (overdue_start_in (overdue st)) = 0" "accrue = duration_zero"
      by (auto simp: duration_eq_iff)
    with accrue(1) le Collectable show ?thesis by simp
  qed
qed

definition sample_state :: "nat \<Rightarrow> nat \<Rightarrow> unit loan_state" where
  "sample_state princ accrued =
     \<lparr>annual_interest = Percent 70, annual_interest_margin = Percent 30,
      state_principal_due = Coin princ, due_interest = Coin accrued, due_margin_interest = Coin 0,
      overdue = Accrued (Coin accrued) (Coin 0)\<rparr>"

lemmas due_run_defs =
  sample_state_def state_overdue_collection_def total_due_interest_def time_to_accrue_def
  interest_def annualized_slice_of_def into_slice_per_ratio_def duration_safe_mul_coin_def
  overdue_start_in_def overdue_interest_def overdue_margin_def state_total_due_def

theorem overdue_collection_spec_witness:
  "state_overdue_collection (sample_state 1000 10) (Coin 15) = Some (Collectable (Coin 20))
   \<and> nanos (overdue_start_in (overdue (sample_state 1000 10))) = 0"
proof -
  have run: "state_overdue_collection (sample_state 1000 10) (Coin 15) = Some (Collectable (Coin 20))"
    and due: "total_due_interest (sample_state 1000 10) = Some (Coin 20)"
    by (simp_all add: due_run_defs op_defs coin_order Let_def duration_eq_iff del: inversion_simps)
  from overdue_collection_spec [OF run due] run show ?thesis by simp
qed

lemma into_slice_cases:
  assumes "0 < amount y" "duration_ok d"
  shows "into_slice_per_ratio d x y
    = (if nanos d * amount x div amount y < 2 ^ 64 then Some (Duration (nanos d * amount x div amount y)) else None)"
proof (cases "amount x = amount y")
  case True
  then have "into_slice_per_ratio d x y = Some (Duration (nanos d * amount x div amount y))"
    by (intro into_slice_per_ratio_proper) (use assms in simp_all)
  moreover have "nanos d * amount x div amount y < 2 ^ 64" using True assms by (simp add: duration_ok_def)
  ultimately show ?thesis by simp
next
  case False
  then show ?thesis
    using assms(1)
    by (auto simp: into_slice_per_ratio_def duration_safe_mul_coin_def safe_mul_def checked_div_def fits_def from_nanos_def)
qed

text \<open>
  C38. The collection of the overdue interest for any loan, with the wait computed exactly. The wait for the
  missing part of the minimum is the part of a year that the missing part is of the yearly interest of the principal, and it is
  a 64-bit number of nanoseconds: it is computed unless it exceeds that, about 584 years, when the contract
  aborts, which is when the yearly interest is positive but less than about the 584th part of
  what is missing. It is the longest duration only when the yearly interest is zero.
\<close>

theorem overdue_collection_may_abort:
  assumes due: "total_due_interest st = Some int_due"
    and rate: "units (annual_interest st) + units (annual_interest_margin st) \<le> 1000" and ok: "coin_ok (state_principal_due st)"
  shows "let yearly = amount (state_principal_due st) * (units (annual_interest st) + units (annual_interest_margin st)) div 1000;
      wait = nanos duration_year * (amount min_amount - amount int_due) div yearly;
      collect_in = (\<lambda>d. let t = max (overdue_start_in (overdue st)) d
        in Some (if t = duration_zero then Collectable int_due else CollectIn t))
    in state_overdue_collection st min_amount =
      (if min_amount \<le> int_due then collect_in duration_zero
       else if yearly = 0 then collect_in duration_max
       else if wait < 2 ^ 64 then collect_in (Duration wait)
       else None)"
proof -
  let ?rate = "units (annual_interest st) + units (annual_interest_margin st)"
  let ?yearly = "amount (state_principal_due st) * ?rate div 1000"
  have add: "percent_add (annual_interest st) (annual_interest_margin st) = Some (Percent ?rate)"
    using rate by (simp add: percent_add_Some)
  have "interest (percent_ratio (Percent ?rate)) (state_principal_due st) duration_year
      = Some (Coin (interest_amount (percent_ratio (Percent ?rate)) (amount (state_principal_due st)) (nanos duration_year)))"
    by (rule interest_proper) (use rate ok in \<open>simp_all add: percent_ratio_def\<close>)
  then have yearly: "interest (percent_ratio (Percent ?rate)) (state_principal_due st) duration_year = Some (Coin ?yearly)"
    by (simp add: interest_amount_def percent_ratio_def)
  have year: "duration_ok duration_year" by (simp add: duration_ok_def)
  have "time_to_accrue st int_due min_amount =
      (if min_amount \<le> int_due then Some duration_zero
       else if ?yearly = 0 then Some duration_max
       else if nanos duration_year * (amount min_amount - amount int_due) div ?yearly < 2 ^ 64
       then Some (Duration (nanos duration_year * (amount min_amount - amount int_due) div ?yearly)) else None)"
  proof (cases "min_amount \<le> int_due \<or> ?yearly = 0")
    case True
    then show ?thesis by (auto simp: time_to_accrue_def add yearly coin_order coin_sub_def coin_sub_assign_def coin_checked_sub_def checked_sub_def)
  next
    case False
    then have sub: "coin_sub min_amount int_due = Some (Coin (amount min_amount - amount int_due))"
      by (simp add: coin_order coin_sub_def coin_sub_assign_def coin_checked_sub_def checked_sub_def)
    have "0 < amount (Coin ?yearly :: 'a coin)" using False by simp
    from into_slice_cases [OF this year, of "Coin (amount min_amount - amount int_due)"] False show ?thesis
      unfolding time_to_accrue_def add yearly by (simp add: sub yearly del: inversion_simps)
  qed
  then show ?thesis
    by (simp add: state_overdue_collection_def due Let_def)
qed

theorem overdue_collection_may_abort_witness:
  "state_overdue_collection (sample_state 10 0) (Coin 10000) = None
   \<and> state_overdue_collection (sample_state 9 0) (Coin 10000) = Some (CollectIn duration_max)"
proof -
  have due: "total_due_interest (sample_state p 0) = Some (Coin 0)" for p
    by (simp add: due_run_defs op_defs del: inversion_simps)
  have ok: "units (annual_interest (sample_state p 0)) + units (annual_interest_margin (sample_state p 0)) \<le> 1000"
    "coin_ok (state_principal_due (sample_state 10 0))" "coin_ok (state_principal_due (sample_state 9 0))" for p
    by (simp_all add: sample_state_def coin_ok_def)
  from overdue_collection_may_abort [OF due ok(1,2), of "Coin 10000"]
    overdue_collection_may_abort [OF due ok(1,3), of "Coin 10000"] show ?thesis
    by (simp add: due_run_defs op_defs coin_order Let_def duration_eq_iff max_def time_order del: inversion_simps)
qed

end
