(* ===== verification/Lease.thy ===== *)
theory Lease
  imports Lease_Due Platform
begin

text \<open>
  The lease (\<open>lease/src/lease/*.rs\<close>) and the commands of its contract that work on it
  (\<open>lease/src/contract/cmd/*.rs\<close>): repay, close in part or in full, check and change the close
  policy, and close when paid. What the lease sends to other contracts is a list of messages in
  the order they are scheduled.
\<close>

section \<open>Errors and messages\<close>

datatype 'l lease_error =
    LeaseStd
  | LeaseUnauthorized access_error
  | LeaseCurrency
  | LeaseFinance finance_error
  | LeasePlatform platform_error
  | LeaseUpdateSoftware
  | LeaseLpp lpp_error
  | LeaseTimeAlarms
  | LeaseOracle
  | LeaseOracleAlarm
  | LeaseProfit
  | LeaseDex
  | LeaseReserve
  | LeasePosition "'l position_error"
  | NoPaymentError
  | UnsupportedOperation string
  | LeaseBrokenInvariant string
  | InconsistencyNotDetected

datatype ('a, 'l) lease_msg =
    CoverLiquidationLosses "'l coin"
  | RepayLoan "'l coin"
  | SendProfit "'l coin list"
  | SendChange "'l coin list"
  | AddTimeAlarm timestamp
  | AddPriceAlarm "('a, 'l) price" "('a, 'l) price option"
  | SendSurplus "'l coin" addr
  | SendAsset "'a coin" addr

section \<open>Lease\<close>

text \<open>The field \<open>lease_oracle\<close> is what the oracle answers on the price of the asset, if it has one.\<close>

record ('a, 'l) lease =
  lease_addr :: addr
  lease_customer :: addr
  lease_position :: "('a, 'l) position"
  lease_loan_of :: "'l lease_loan"
  lease_oracle :: "('a, 'l) price option"

record ('a, 'l) lease_state =
  ls_amount :: "'a coin"
  ls_interest_rate :: percent
  ls_interest_rate_margin :: percent
  ls_principal_due :: "'l coin"
  ls_overdue_margin :: "'l coin"
  ls_overdue_interest :: "'l coin"
  ls_overdue_collect_in :: duration
  ls_due_margin :: "'l coin"
  ls_due_interest :: "'l coin"
  ls_due_projection :: duration
  ls_close_policy :: policy
  ls_validity :: timestamp

definition lease_state_at :: "('a, 'l) lease \<Rightarrow> timestamp \<Rightarrow> duration \<Rightarrow> ('a, 'l) lease_state option" where
  "lease_state_at l now due_projection =
     do {
       estimate_at \<leftarrow> timestamp_add now due_projection;
       st \<leftarrow> loan_state_at (lease_loan_of l) estimate_at;
       collect_in \<leftarrow> position_overdue_collection_in (lease_position l) (state_due st);
       Some \<lparr>ls_amount = position_amount (lease_position l), ls_interest_rate = annual_interest st,
             ls_interest_rate_margin = annual_interest_margin st,
             ls_principal_due = state_principal_due st,
             ls_overdue_margin = overdue_margin (overdue st),
             ls_overdue_interest = overdue_interest (overdue st),
             ls_overdue_collect_in = collect_in, ls_due_margin = due_margin_interest st,
             ls_due_interest = due_interest st, ls_due_projection = due_projection,
             ls_close_policy = spec_close (position_spec (lease_position l)), ls_validity = now\<rparr>
     }"

definition lease_total_due :: "('a, 'l) lease_state \<Rightarrow> 'l coin option" where
  "lease_total_due s =
     do {
       s1 \<leftarrow> coin_add (ls_principal_due s) (ls_overdue_margin s);
       s2 \<leftarrow> coin_add s1 (ls_overdue_interest s);
       s3 \<leftarrow> coin_add s2 (ls_due_margin s);
       coin_add s3 (ls_due_interest s)
     }"

definition price_of_lease_currency :: "('a, 'l) lease \<Rightarrow> ('l lease_error, ('a, 'l) price) res" where
  "price_of_lease_currency l = ok_or LeaseOracle (lease_oracle l)"

section \<open>Repayment and close\<close>

text \<open>The price of the payment currency is the answer of the oracle on another currency.\<close>

definition lease_validate_repay ::
  "('a, 'l) lease \<Rightarrow> 'c coin \<Rightarrow> ('c, 'l) price option \<Rightarrow> ('l lease_error, unit) res" where
  "lease_validate_repay l payment may_price =
     and_then (ok_or LeaseOracle may_price) (\<lambda>price.
       map_err LeasePosition (position_validate_payment (lease_position l) payment price))"

definition lease_repay ::
  "('a, 'l) lease \<Rightarrow> 'l coin \<Rightarrow> timestamp \<Rightarrow> 'l coin list \<Rightarrow> (('a, 'l) lease \<times> 'l coin list \<times> 'l receipt) option" where
  "lease_repay l payment now profit =
     do {
       (ln, profit', receipt) \<leftarrow> lease_loan_repay (lease_loan_of l) payment now profit;
       Some (l\<lparr>lease_loan_of := ln\<rparr>, profit', receipt)
     }"

definition lease_validate_close :: "('a, 'l) lease \<Rightarrow> 'a coin \<Rightarrow> ('l lease_error, unit) res" where
  "lease_validate_close l close_amount =
     and_then (price_of_lease_currency l) (\<lambda>asset_in_lpns.
       map_err LeasePosition
         (position_validate_close_amount (lease_position l) close_amount asset_in_lpns))"

definition lease_close_partial ::
  "('a, 'l) lease \<Rightarrow> 'a coin \<Rightarrow> 'l coin \<Rightarrow> timestamp \<Rightarrow> 'l coin list
     \<Rightarrow> (('a, 'l) lease \<times> 'l coin list \<times> 'l receipt) option" where
  "lease_close_partial l asset payment now profit =
     do {
       pos \<leftarrow> position_close (lease_position l) asset;
       lease_repay (l\<lparr>lease_position := pos\<rparr>) payment now profit
     }"

definition loan_messages :: "'l lease_loan \<Rightarrow> ('a, 'l) lease_msg list" where
  "loan_messages ln = (case stub_into_batch (lpp_loan ln) of None \<Rightarrow> [] | Some c \<Rightarrow> [RepayLoan c])"

definition sender_messages :: "('l coin list \<Rightarrow> ('a, 'l) lease_msg) \<Rightarrow> 'l coin list \<Rightarrow> ('a, 'l) lease_msg list" where
  "sender_messages msg amounts = (if amounts = [] then [] else [msg amounts])"

definition reserve_messages :: "'l coin option \<Rightarrow> ('a, 'l) lease_msg list" where
  "reserve_messages losses = (case losses of None \<Rightarrow> [] | Some c \<Rightarrow> [CoverLiquidationLosses c])"

definition lease_close_full ::
  "('a, 'l) lease \<Rightarrow> 'l coin \<Rightarrow> timestamp \<Rightarrow> 'l coin list \<Rightarrow> 'l coin option \<Rightarrow> 'l coin list
     \<Rightarrow> ('l receipt \<times> ('a, 'l) lease_msg list) option" where
  "lease_close_full l payment now profit reserve change_recipient =
     do {
       st \<leftarrow> lease_state_at l now duration_zero;
       due_lpns \<leftarrow> lease_total_due st;
       (paid, losses) \<leftarrow>
         (if payment < due_lpns
          then do { shortfall \<leftarrow> coin_sub due_lpns payment; Some (due_lpns, Some shortfall) }
          else Some (payment, reserve));
       (l', profit', receipt) \<leftarrow> lease_repay l paid now profit;
       let change_sender = lazy_send (change receipt) change_recipient;
       Some (receipt,
         reserve_messages losses @ loan_messages (lease_loan_of l')
           @ sender_messages SendProfit profit' @ sender_messages SendChange change_sender)
     }"

text \<open>The close of a paid lease: the surplus in the pool currency and the asset go to the customer.\<close>

definition paid_lease_close :: "addr \<Rightarrow> 'a coin \<Rightarrow> 'l coin \<Rightarrow> ('a, 'l) lease_msg list" where
  "paid_lease_close customer asset surplus =
     (if \<not> coin_is_zero surplus then [SendSurplus surplus customer] else [])
       @ [SendAsset asset customer]"

section \<open>Close policy\<close>

datatype ('a, 'l) close_status =
    StatusPaid
  | StatusNone zone "('a, 'l) steadiness"
  | StatusCloseAsked strategy
  | StatusNeedLiquidation "'a liquidation"

definition status_of_debt :: "('a, 'l) debt \<Rightarrow> ('a, 'l) close_status" where
  "status_of_debt d =
     (case d of
        DebtNo \<Rightarrow> StatusPaid
      | DebtOk zn steadiness \<Rightarrow> StatusNone zn steadiness
      | DebtBad liq \<Rightarrow> StatusNeedLiquidation liq)"

definition check_close_policy :: "('a, 'l) lease \<Rightarrow> timestamp \<Rightarrow> ('l lease_error, ('a, 'l) close_status) res" where
  "check_close_policy l now =
     and_then (or_panic (loan_state_at (lease_loan_of l) now)) (\<lambda>st.
     and_then (price_of_lease_currency l) (\<lambda>asset_in_lpns.
     and_then (or_panic (position_check_close (lease_position l) (state_due st) asset_in_lpns)) (\<lambda>may_close.
     (case may_close of
        Some strat \<Rightarrow> Inr (StatusCloseAsked strat)
      | None \<Rightarrow>
          map_res status_of_debt
            (or_panic (position_debt (lease_position l) (state_due st) asset_in_lpns))))))"

definition lease_change_close_policy ::
  "('a, 'l) lease \<Rightarrow> close_policy_change \<Rightarrow> timestamp \<Rightarrow> ('l lease_error, ('a, 'l) lease) res" where
  "lease_change_close_policy l cmd now =
     and_then (or_panic (loan_state_at (lease_loan_of l) now)) (\<lambda>st.
     and_then (price_of_lease_currency l) (\<lambda>asset_in_lpns.
     map_res (\<lambda>pos. l\<lparr>lease_position := pos\<rparr>)
       (map_err LeasePosition
         (position_change_close_policy (lease_position l) cmd (state_due st) asset_in_lpns))))"

text \<open>Alarms: a time alarm at the end of the steady period, a price alarm at the ends of the range.\<close>

definition try_into_alarms :: "('a, 'l) steadiness \<Rightarrow> timestamp \<Rightarrow> ('a, 'l) lease_msg list option" where
  "try_into_alarms s when =
     do {
       at \<leftarrow> timestamp_add when (steady_for s);
       Some [AddTimeAlarm at, AddPriceAlarm (range_end (steady_within s)) (range_start (steady_within s))]
     }"

datatype ('a, 'l) close_status_dto =
    DtoPaid
  | DtoNone zone "('a, 'l) lease_msg list"
  | DtoNeedLiquidation "'a liquidation"
  | DtoCloseAsked strategy

definition status_try_from_do ::
  "('a, 'l) close_status \<Rightarrow> timestamp \<Rightarrow> ('l lease_error, ('a, 'l) close_status_dto) res" where
  "status_try_from_do status when =
     (case status of
        StatusPaid \<Rightarrow> Inr DtoPaid
      | StatusNone current_liability steadiness \<Rightarrow>
          map_res (DtoNone current_liability) (or_panic (try_into_alarms steadiness when))
      | StatusNeedLiquidation liq \<Rightarrow> Inr (DtoNeedLiquidation liq)
      | StatusCloseAsked strat \<Rightarrow> Inr (DtoCloseAsked strat))"

definition check :: "('a, 'l) lease \<Rightarrow> timestamp \<Rightarrow> ('l lease_error, ('a, 'l) close_status_dto) res" where
  "check l when = and_then (check_close_policy l when) (\<lambda>status. status_try_from_do status when)"

section \<open>Commands\<close>

text \<open>The implementations of the trait \<open>RepayFn\<close>.\<close>

datatype 'a repay_fn = RepayLeaseFn | CloseFn "'a coin"

definition do_repay ::
  "'a repay_fn \<Rightarrow> ('a, 'l) lease \<Rightarrow> 'l coin \<Rightarrow> timestamp \<Rightarrow> 'l coin list
     \<Rightarrow> (('a, 'l) lease \<times> 'l coin list \<times> 'l receipt) option" where
  "do_repay f l am now profit =
     (case f of
        RepayLeaseFn \<Rightarrow> lease_repay l am now profit
      | CloseFn asset \<Rightarrow> lease_close_partial l asset am now profit)"

definition check_close_with_init ::
  "('a, 'l) lease \<Rightarrow> timestamp \<Rightarrow> ('l lease_error, ('a, 'l) lease \<times> ('a, 'l) close_status_dto) res" where
  "check_close_with_init l now =
     and_then (check l now) (\<lambda>status.
     (case status of
        DtoCloseAsked (TakeProfit _) \<Rightarrow>
          and_then (lease_change_close_policy l
            \<lparr>change_stop_loss = None, change_take_profit = Some Reset\<rparr> now) (\<lambda>l'.
          map_res (Pair l') (check l' now))
      | _ \<Rightarrow> Inr (l, status)))"

record ('a, 'l) repay_result =
  result_lease :: "('a, 'l) lease"
  result_receipt :: "'l receipt"
  result_messages :: "('a, 'l) lease_msg list"
  result_status :: "('a, 'l) close_status_dto"

definition repay_exec ::
  "'a repay_fn \<Rightarrow> ('a, 'l) lease \<Rightarrow> 'l coin \<Rightarrow> timestamp \<Rightarrow> ('l lease_error, ('a, 'l) repay_result) res" where
  "repay_exec f l am now =
     and_then (or_panic (do_repay f l am now [])) (\<lambda>(l', profit, receipt).
     map_res (\<lambda>(l'', status).
       \<lparr>result_lease = l'', result_receipt = receipt,
        result_messages = loan_messages (lease_loan_of l'') @ sender_messages SendProfit profit,
        result_status = status\<rparr>)
     (check_close_with_init l' now))"

text \<open>The branches that are \<open>unimplemented!\<close> abort.\<close>

definition change_policy_exec ::
  "close_policy_change \<Rightarrow> ('a, 'l) lease \<Rightarrow> timestamp
     \<Rightarrow> ('l lease_error, ('a, 'l) lease \<times> ('a, 'l) lease_msg list) res" where
  "change_policy_exec cmd l now =
     and_then (lease_change_close_policy l cmd now) (\<lambda>l'.
     and_then (check_close_policy l' now) (\<lambda>status.
     and_then (status_try_from_do status now) (\<lambda>status_dto.
     (case status_dto of
        DtoNone _ alarms \<Rightarrow> Inr (l', loan_messages (lease_loan_of l') @ alarms)
      | _ \<Rightarrow> Inl Panic))))"

definition open_exec ::
  "addr \<Rightarrow> addr \<Rightarrow> ('a, 'l) position \<Rightarrow> 'l lpp_stub \<Rightarrow> ('a, 'l) price option \<Rightarrow> percent \<Rightarrow> duration
     \<Rightarrow> timestamp \<Rightarrow> timestamp \<Rightarrow> ('l lease_error, ('a, 'l) lease \<times> ('a, 'l) close_status_dto) res" where
  "open_exec a customer pos stub price margin max_due start_at now =
     (let l = \<lparr>lease_addr = a, lease_customer = customer, lease_position = pos,
               lease_loan_of = lease_loan_new stub start_at margin max_due, lease_oracle = price\<rparr>
      in map_res (Pair l) (check l now))"

end
