(* ===== verification/Lease_Facts.thy ===== *)
theory Lease_Facts
  imports Lease Position_Debt
begin

text \<open>
  What the commands of a lease guarantee: a full close always closes the loan and covers
  exactly the shortfall, a repaid lease ends up paid, and a change of the close policy.
\<close>

section \<open>Full close\<close>

lemma lease_total_due_Some:
  assumes "lease_state_at l now duration_zero = Some s" "lease_total_due s = Some t"
  obtains st where "loan_state_at (lease_loan_of l) now = Some st"
    "ls_principal_due s = state_principal_due st" "ls_overdue_interest s = overdue_interest (overdue st)"
    "ls_overdue_margin s = overdue_margin (overdue st)" "ls_due_interest s = due_interest st"
    "ls_due_margin s = due_margin_interest st"
    "amount t = amount (overdue_interest (overdue st)) + amount (overdue_margin (overdue st))
       + amount (due_interest st) + amount (due_margin_interest st) + amount (state_principal_due st)"
    "amount t < 2 ^ 128"
  using assms by (cases now) (auto simp: lease_state_at_def lease_total_due_def)

lemma parts_of_full_payment:
  assumes "parts_of_payment st p a b c d e"
    and "amount (overdue_interest (overdue st)) + amount (overdue_margin (overdue st))
       + amount (due_interest st) + amount (due_margin_interest st) + amount (state_principal_due st) \<le> p"
  shows "a = amount (overdue_interest (overdue st))" "b = amount (overdue_margin (overdue st))"
    "c = amount (due_interest st)" "d = amount (due_margin_interest st)" "e = amount (state_principal_due st)"
proof -
  note b = parts_of_payment_bounds [OF assms(1)]
  show e: "e = amount (state_principal_due st)"
    using b(1-6,11) assms(2) by (cases "a + b + c + d + e < p") linarith+
  show "a = amount (overdue_interest (overdue st))" "b = amount (overdue_margin (overdue st))"
    "c = amount (due_interest st)" "d = amount (due_margin_interest st)"
    using b(1-6,10) e assms(2) by (cases "a + b + c + d < p"; linarith)+
qed

lemma close_full_messages:
  assumes "lease_loan_ok (lease_loan_of l) now"
    and "interest (percent_ratio (margin_interest (lease_loan_of l)))
        (stub_principal_due (lpp_loan (lease_loan_of l)))
        (Duration (at_nanos now - at_nanos (margin_paid_by (lease_loan_of l)))) = Some margin_by_now"
    and "stub_interest_due (lpp_loan (lease_loan_of l)) now = Some interest_by_now"
    and "amount (stub_repayment (lpp_loan (lease_loan_of l))) = 0" "coin_ok payment"
    and state: "lease_state_at l now duration_zero = Some s" and total: "lease_total_due s = Some t"
  shows "\<exists>receipt. lease_close_full l payment now [] None [] = Some (receipt,
      (if payment < t then [CoverLiquidationLosses (Coin (amount t - amount payment))] else [])
      @ (let repaid = amount (ls_overdue_interest s) + amount (ls_due_interest s) + amount (ls_principal_due s)
         in if repaid = 0 then [] else [RepayLoan (Coin repaid)])
      @ (let margin = amount (ls_overdue_margin s) + amount (ls_due_margin s)
         in if margin = 0 then [] else [SendProfit [Coin margin]])
      @ (if t < payment then [SendChange [Coin (amount payment - amount t)]] else []))
    \<and> close receipt \<and> principal_paid receipt = ls_principal_due s
    \<and> amount (change receipt) = amount payment - amount t"
proof -
  let ?ln = "lease_loan_of l"
  obtain st where st: "loan_state_at ?ln now = Some st"
    and s: "ls_principal_due s = state_principal_due st" "ls_overdue_interest s = overdue_interest (overdue st)"
      "ls_overdue_margin s = overdue_margin (overdue st)" "ls_due_interest s = due_interest st"
      "ls_due_margin s = due_margin_interest st"
    and t: "amount t = amount (overdue_interest (overdue st)) + amount (overdue_margin (overdue st))
       + amount (due_interest st) + amount (due_margin_interest st) + amount (state_principal_due st)"
      "amount t < 2 ^ 128"
    by (rule lease_total_due_Some [OF state total])
  define paid where "paid = max payment t"
  have fits: "amount (stub_repayment (lpp_loan ?ln)) + amount paid < 2 ^ 128"
    using assms(4,5) t(2) by (simp add: paid_def coin_ok_def)
  from lease_loan_repay_Some [OF assms(1-3) fits, of "[]"] st obtain stub paid_by a b c d e where
    parts: "parts_of_payment st (amount paid) a b c d e"
    and eq: "lease_loan_repay ?ln paid now [] =
        Some (?ln\<lparr>margin_paid_by := paid_by, lpp_loan := stub\<rparr>, lazy_send (Coin (b + d)) [],
          receipt_new (Coin a) (Coin b) (Coin c) (Coin d) (state_principal_due st) (Coin e)
            (Coin (amount paid - (a + c) - (b + d) - e)))"
    and stub: "stub_repay (lpp_loan ?ln) now (Coin (a + c + e)) =
        Some (stub, \<lparr>shares_interest = Coin (a + c), shares_principal = Coin e, shares_excess = Coin 0\<rparr>)"
    by auto
  have "amount t \<le> amount paid" by (simp add: paid_def)
  note full = parts_of_full_payment [OF parts order.trans [OF eq_refl [OF t(1) [symmetric]] this]]
  have repaid: "stub_repayment stub = Coin (a + c + e)"
    using stub assms(4) by (auto simp: stub_repay_def split: prod.splits)
  have chg: "amount paid - (a + c) - (b + d) - e = amount payment - amount t"
    by (simp add: paid_def full t(1))
  have messages: "loan_messages (?ln\<lparr>margin_paid_by := paid_by, lpp_loan := stub\<rparr>)
      = (if a + c + e = 0 then [] else [RepayLoan (Coin (a + c + e))])"
    by (simp add: loan_messages_def stub_into_batch_def repaid)
  have close: "lease_close_full l payment now [] None [] = Some
      (receipt_new (Coin a) (Coin b) (Coin c) (Coin d) (state_principal_due st) (Coin e) (Coin (amount payment - amount t)),
       (if payment < t then [CoverLiquidationLosses (Coin (amount t - amount payment))] else [])
       @ (if a + c + e = 0 then [] else [RepayLoan (Coin (a + c + e))])
       @ (if b + d = 0 then [] else [SendProfit [Coin (b + d)]])
       @ (if t < payment then [SendChange [Coin (amount payment - amount t)]] else []))"
  proof (cases "payment < t")
    case True
    then have "paid = t" by (simp add: paid_def max_absorb2)
    with True eq [unfolded chg] show ?thesis
      by (simp add: lease_close_full_def state total lease_repay_def messages coin_order sender_messages_def
          reserve_messages_def lazy_send_def Let_def receipt_new_def)
  next
    case False
    then have "paid = payment" by (simp add: paid_def max_absorb1 not_less)
    with False eq [unfolded chg] show ?thesis
      by (simp add: lease_close_full_def state total lease_repay_def messages coin_order sender_messages_def
          reserve_messages_def lazy_send_def Let_def receipt_new_def)
  qed
  have sums: "amount (ls_overdue_interest s) + amount (ls_due_interest s) + amount (ls_principal_due s) = a + c + e"
    "amount (ls_overdue_margin s) + amount (ls_due_margin s) = b + d"
    by (simp_all add: full s)
  show ?thesis
    unfolding Let_def sums
    by (intro exI conjI, rule close) (simp_all add: receipt_new_def full(5) s(1) coin_eq_iff)
qed

text \<open>
  C7. A full close always closes the loan, whatever the proceeds of the sale. The pool gets the
  whole interest and principal, the profit the whole margin. When the proceeds are short of
  the total due, the reserve is asked, before anything else, for exactly the difference and
  the customer gets nothing; otherwise the customer gets exactly the rest.
\<close>

theorem close_full_closes:
  assumes "lease_loan_ok (lease_loan_of l) now"
    and "interest (percent_ratio (margin_interest (lease_loan_of l)))
        (stub_principal_due (lpp_loan (lease_loan_of l)))
        (Duration (at_nanos now - at_nanos (margin_paid_by (lease_loan_of l)))) = Some margin_by_now"
    and "stub_interest_due (lpp_loan (lease_loan_of l)) now = Some interest_by_now"
    and "amount (stub_repayment (lpp_loan (lease_loan_of l))) = 0" "coin_ok payment"
    and state: "lease_state_at l now duration_zero = Some s" and total: "lease_total_due s = Some t"
  shows "\<exists>receipt. lease_close_full l payment now [] None [] = Some (receipt,
      (if payment < t then [CoverLiquidationLosses (Coin (amount t - amount payment))] else [])
      @ (let repaid = amount (ls_overdue_interest s) + amount (ls_due_interest s) + amount (ls_principal_due s)
         in if repaid = 0 then [] else [RepayLoan (Coin repaid)])
      @ (let margin = amount (ls_overdue_margin s) + amount (ls_due_margin s)
         in if margin = 0 then [] else [SendProfit [Coin margin]])
      @ (if t < payment then [SendChange [Coin (amount payment - amount t)]] else []))
    \<and> close receipt \<and> principal_paid receipt = ls_principal_due s
    \<and> amount (change receipt) = amount payment - amount t"
  by (rule close_full_messages [OF assms])

section \<open>A repaid lease\<close>

lemma interest_of_nothing [simp]: "0 < whole r \<Longrightarrow> interest r (Coin 0) d = Some (Coin 0)"
  by (simp add: interest_def annualized_slice_of_def coin_safe_mul_Some_iff)

















section \<open>Changes of the close policy\<close>

lemma status_not_asked: "StatusCloseAsked strat \<noteq> status_of_debt d"
  by (simp add: status_of_debt_def split: debt.splits)

text \<open>
  C9. After a change of the close policy the lease is never asked to close by that policy. It sets
  the alarms of its steady range. Yet the change is checked against the policy only: with a
  debt that calls for a liquidation, or with none at all, an accepted change aborts.
\<close>

theorem policy_change_outcome:
  assumes "lease_change_close_policy l cmd now = Inr l'" "check_close_policy l' now = Inr status"
  shows "(case status of
      StatusCloseAsked _ \<Rightarrow> False
    | StatusNone zn s \<Rightarrow> change_policy_exec cmd l now =
        map_res (\<lambda>alarms. (l', loan_messages (lease_loan_of l') @ alarms)) (or_panic (try_into_alarms s now))
    | _ \<Rightarrow> change_policy_exec cmd l now = Inl Panic)"
proof (cases status)
  case (StatusCloseAsked strat)
  obtain st p s' where s': "loan_state_at (lease_loan_of l) now = Some st" "lease_oracle l = Some p"
      "spec_change_close_policy (position_spec (lease_position l)) cmd (position_amount (lease_position l)) (state_due st) p = Inr s'"
      "l' = l\<lparr>lease_position := lease_position l\<lparr>position_spec := s'\<rparr>\<rparr>"
    using assms(1)
    by (auto simp: lease_change_close_policy_def price_of_lease_currency_def position_change_close_policy_def)
  then have "spec_check_close s' (position_amount (lease_position l)) (state_due st) p = Some None"
    by (auto simp: spec_change_close_policy_def spec_check_close_def spec_new_def split: option.splits)
  then have False
    using assms(2) s' StatusCloseAsked
    by (auto simp: check_close_policy_def price_of_lease_currency_def position_check_close_def status_not_asked)
  then show ?thesis ..
next
  case (StatusNone zn s)
  then show ?thesis
    using assms by (cases "try_into_alarms s now") (simp_all add: change_policy_exec_def status_try_from_do_def)
qed (use assms in \<open>simp_all add: change_policy_exec_def status_try_from_do_def\<close>)

section \<open>A lease a year after its start\<close>

definition sample_lease :: "nat \<Rightarrow> policy \<Rightarrow> (bool, unit) lease" where
  "sample_lease asset pol =
     \<lparr>lease_addr = ''lease'', lease_customer = ''alice'',
      lease_position = \<lparr>position_amount = Coin asset, position_spec = sample_spec\<lparr>spec_close := pol\<rparr>\<rparr>,
      lease_loan_of = sample_loan, lease_oracle = Some sample_price\<rparr>"

lemmas lease_run_defs =
  sample_lease_def sample_loan_def sample_now_def stub_new_def lease_loan_new_def debt_run_defs
  due_run_defs loan_state_at_def overdue_new_def stub_principal_due_def stub_interest_due_def
  stub_annual_interest_rate_def period_from_till_def period_from_length_def period_till_length_def
  period_till_def period_cut_def period_intersect_def move_within_def interest_due_def due_period_def
  lease_state_at_def position_overdue_collection_in_def state_due_def lease_total_due_def

lemma sample_lease_simps [simp]:
  "lease_loan_of (sample_lease n pol) = sample_loan" "lease_oracle (sample_lease n pol) = Some sample_price"
  by (simp_all add: sample_lease_def)



lemma sample_loan_state:
  "loan_state_at sample_loan sample_now = Some
     \<lparr>annual_interest = Percent 100, annual_interest_margin = Percent 40, state_principal_due = Coin 1000,
      due_interest = Coin 25, due_margin_interest = Coin 10, overdue = Accrued (Coin 75) (Coin 30)\<rparr>"
  by (simp add: lease_run_defs op_defs Let_def time_order from_days_def time_consts max_def min_def
      timestamp_default_def duration_zero_def del: inversion_simps)

lemma sample_now_fits: "at_nanos sample_now < 2 ^ 64"
  by (simp add: sample_now_def)

theorem policy_change_outcome_witness:
  "let cmd = \<lparr>change_stop_loss = None, change_take_profit = Some (Set (Percent 300))\<rparr>;
       l = sample_lease 2800 \<lparr>take_profit = None, stop_loss = None\<rparr>
   in (\<exists>l'. lease_change_close_policy l cmd sample_now = Inr l') \<and> change_policy_exec cmd l sample_now = Inl Panic"
proof -
  let ?cmd = "\<lparr>change_stop_loss = None, change_take_profit = Some (Set (Percent 300))\<rparr>"
  let ?l = "sample_lease 2800 \<lparr>take_profit = None, stop_loss = None\<rparr>"
  let ?l' = "sample_lease 2800 \<lparr>take_profit = Some (Percent 300), stop_loss = None\<rparr>"
  have change: "lease_change_close_policy ?l ?cmd sample_now = Inr ?l'"
    by (simp add: lease_change_close_policy_def sample_loan_state price_of_lease_currency_def
        position_change_close_policy_def spec_change_close_policy_def state_due_def due_run_defs op_defs
        sample_lease_def to_assets_def sample_price_def price_inv_def sample_spec_def may_trigger_def
        may_stop_loss_def may_take_profit_def coin_order percent_order percent_zero_def spec_new_def
        del: inversion_simps)
  have status: "\<exists>liq. check_close_policy ?l' sample_now = Inr (StatusNeedLiquidation liq)"
    by (simp add: check_close_policy_def sample_loan_state price_of_lease_currency_def position_check_close_def
        spec_check_close_def position_debt_def debt_run_defs due_run_defs state_due_def sample_lease_def
        op_defs may_trigger_def may_stop_loss_def may_take_profit_def coin_order percent_order Let_def max_def
        status_of_debt_def del: inversion_simps)
  then obtain liq where "check_close_policy ?l' sample_now = Inr (StatusNeedLiquidation liq)" by blast
  from policy_change_outcome [OF change this] change show ?thesis by (simp add: Let_def)
qed

lemma sample_lease_state:
  "\<exists>s. lease_state_at (sample_lease 4000 (spec_close sample_spec)) sample_now duration_zero = Some s
    \<and> lease_total_due s = Some (Coin 1140)
    \<and> ls_overdue_interest s = Coin 75 \<and> ls_due_interest s = Coin 25 \<and> ls_principal_due s = Coin 1000
    \<and> ls_overdue_margin s = Coin 30 \<and> ls_due_margin s = Coin 10"
  using sample_now_fits
  by (simp add: lease_state_at_def sample_loan_state timestamp_add_def op_defs
      lease_total_due_def position_overdue_collection_in_def overdue_collection_in_def
      spec_overdue_collection_def state_due_def due_run_defs sample_lease_def sample_spec_def coin_order Let_def
      del: inversion_simps)

theorem close_full_closes_witness:
  "\<exists>receipt. lease_close_full (sample_lease 4000 (spec_close sample_spec)) (Coin 900) sample_now [] None [] =
     Some (receipt, [CoverLiquidationLosses (Coin 240), RepayLoan (Coin 1100), SendProfit [Coin 40]])
   \<and> close receipt"
proof -
  let ?l = "sample_lease 4000 (spec_close sample_spec)"
  obtain s where s: "lease_state_at ?l sample_now duration_zero = Some s" "lease_total_due s = Some (Coin 1140)"
    and parts: "ls_overdue_interest s = Coin 75" "ls_due_interest s = Coin 25" "ls_principal_due s = Coin 1000"
      "ls_overdue_margin s = Coin 30" "ls_due_margin s = Coin 10"
    using sample_lease_state by blast
  have "\<exists>receipt. lease_close_full ?l (Coin 900) sample_now [] None [] = Some (receipt,
      (if Coin 900 < (Coin 1140 :: unit coin) then [CoverLiquidationLosses (Coin (amount (Coin 1140 :: unit coin) - amount (Coin 900 :: unit coin)))] else [])
      @ (let repaid = amount (ls_overdue_interest s) + amount (ls_due_interest s) + amount (ls_principal_due s)
         in if repaid = 0 then [] else [RepayLoan (Coin repaid)])
      @ (let margin = amount (ls_overdue_margin s) + amount (ls_due_margin s)
         in if margin = 0 then [] else [SendProfit [Coin margin]])
      @ (if (Coin 1140 :: unit coin) < Coin 900 then [SendChange [Coin (amount (Coin 900 :: unit coin) - amount (Coin 1140 :: unit coin))]] else []))
    \<and> close receipt \<and> principal_paid receipt = ls_principal_due s
    \<and> amount (change receipt) = amount (Coin 900 :: unit coin) - amount (Coin 1140 :: unit coin)"
    by (rule close_full_closes [OF _ _ _ _ _ s])
      (use sample_facts in \<open>simp_all add: coin_ok_def sample_loan_def lease_loan_new_def stub_new_def\<close>)
  then show ?thesis by (auto simp: parts coin_order)
qed

end
