(* ===== verification/Alarm_Index.thy ===== *)
theory Alarm_Index
  imports Platform "HOL-Library.Char_ord" "HOL-Library.List_Lexorder" "HOL-Library.Product_Lexorder"
begin

text \<open>
  What the time and the price alarms share: the indexed map of \<open>cw_storage_plus\<close> with one
  multi-index, and the queue of alarms in delivery.

  An indexed map keeps a value for each subscriber and lets the values be read in the
  order of the index. Its state is the list of its entries, each an index value with its
  primary key, in the order the index is read; the locale \<open>indexed_map\<close> states the
  behaviour of \<open>IndexedMap\<close> and \<open>MultiIndex\<close> the code relies on. A \<open>Deque\<close> is a list with
  \<open>push_back\<close> and \<open>pop_front\<close>.
\<close>

named_theorems index_simps \<open>reading an indexed map after an update\<close>

section \<open>Indexed maps\<close>

type_synonym 'k index = "('k \<times> addr) list"

text \<open>\<open>cw_storage_plus::Bound\<close>; no bound is \<open>None\<close>.\<close>

datatype 'b bound = Inclusive 'b | Exclusive 'b

fun above_lower :: "'b::linorder bound option \<Rightarrow> 'b \<Rightarrow> bool" where
  "above_lower None e = True"
| "above_lower (Some (Inclusive b)) e = (b \<le> e)"
| "above_lower (Some (Exclusive b)) e = (b < e)"

fun below_upper :: "'b::linorder bound option \<Rightarrow> 'b \<Rightarrow> bool" where
  "below_upper None e = True"
| "below_upper (Some (Inclusive b)) e = (e \<le> b)"
| "below_upper (Some (Exclusive b)) e = (e < b)"

definition index_may_load :: "'k index \<Rightarrow> addr \<Rightarrow> 'k option" where
  "index_may_load m s = map_option fst (find (\<lambda>e. snd e = s) m)"

definition index_remove :: "'k index \<Rightarrow> addr \<Rightarrow> 'k index" where
  "index_remove m s = filter (\<lambda>e. snd e \<noteq> s) m"

definition index_save :: "'k::linorder index \<Rightarrow> addr \<Rightarrow> 'k \<Rightarrow> 'k index" where
  "index_save m s k = insort (k, s) (index_remove m s)"

definition index_range ::
  "'b::linorder bound option \<Rightarrow> 'b bound option \<Rightarrow> 'b list \<Rightarrow> 'b list" where
  "index_range lo hi es = filter (\<lambda>e. above_lower lo e \<and> below_upper hi e) es"

definition index_ok :: "'k::linorder index \<Rightarrow> bool" where
  "index_ok m = (sorted m \<and> distinct (map snd m))"

lemma find_insort: "\<not> P x \<Longrightarrow> find P (insort x xs) = find P xs"
  by (induction xs) auto

lemma find_filter_other: "(\<And>x. P x \<Longrightarrow> Q x) \<Longrightarrow> find P (filter Q xs) = find P xs"
  by (induction xs) auto

lemma find_filter_none: "(\<And>x. P x \<Longrightarrow> \<not> Q x) \<Longrightarrow> find P (filter Q xs) = None"
  by (induction xs) auto

lemma find_insort_new: "find P xs = None \<Longrightarrow> P x \<Longrightarrow> find P (insort x xs) = Some x"
  by (induction xs) (auto split: if_splits)

lemma index_load_remove: "index_may_load (index_remove m s) s' = (if s' = s then None else index_may_load m s')"
  by (auto simp: index_may_load_def index_remove_def find_filter_other find_filter_none)

lemma index_load_save: "index_may_load (index_save m s k) s' = (if s' = s then Some k else index_may_load m s')"
  using find_insort_new [of "\<lambda>e. snd e = s" "index_remove m s" "(k, s)"]
  by (auto simp: index_may_load_def index_save_def index_remove_def find_insort find_filter_other find_filter_none)

lemma index_load_iff:
  assumes "index_ok m"
  shows "index_may_load m s = Some k \<longleftrightarrow> (k, s) \<in> set m"
proof -
  have "distinct (map snd m)" using assms by (simp add: index_ok_def)
  then show ?thesis
    unfolding index_may_load_def by (induction m) (auto simp: image_iff)
qed

lemma index_ok_Nil [simp]: "index_ok []"
  by (simp add: index_ok_def)

lemma index_ok_remove [simp]: "index_ok m \<Longrightarrow> index_ok (index_remove m s)"
  by (simp add: index_ok_def index_remove_def sorted_filter [where f = id, simplified] distinct_map_filter)

lemma index_ok_save [simp]:
  assumes "index_ok m"
  shows "index_ok (index_save m s k)"
proof -
  have "distinct (map snd (index_remove m s))" "sorted (index_remove m s)"
    using index_ok_remove [OF assms, of s] by (auto simp: index_ok_def)
  moreover have "s \<notin> snd ` set (index_remove m s)" by (auto simp: index_remove_def)
  ultimately show ?thesis
    by (auto simp: index_ok_def index_save_def sorted_insort distinct_map distinct_insort set_insort_key inj_on_def
        rev_image_eqI)
qed

text \<open>
  The contract of an indexed map with one multi-index: a storage map whose entries can be
  read in the order of the index value and, for one value, of the primary key.
\<close>

locale indexed_map = storage_map may_load save remove
  for may_load :: "'s \<Rightarrow> addr \<Rightarrow> 'k::linorder option"
    and save :: "'s \<Rightarrow> addr \<Rightarrow> 'k \<Rightarrow> 's"
    and remove :: "'s \<Rightarrow> addr \<Rightarrow> 's" +
  fixes entries :: "'s \<Rightarrow> ('k \<times> addr) list"
    and ok :: "'s \<Rightarrow> bool"
  assumes ok_save: "ok m \<Longrightarrow> ok (save m s k)"
    and ok_remove: "ok m \<Longrightarrow> ok (remove m s)"
    and entries_sorted: "ok m \<Longrightarrow> sorted (entries m)"
    and entries_distinct: "ok m \<Longrightarrow> distinct (map snd (entries m))"
    and entries_load: "ok m \<Longrightarrow> (k, s) \<in> set (entries m) \<longleftrightarrow> may_load m s = Some k"
begin

definition selected :: "('k \<times> addr \<Rightarrow> bool) \<Rightarrow> 's \<Rightarrow> addr list" where
  "selected P m = map snd (filter P (entries m))"

lemma selected_iff: "ok m \<Longrightarrow> s \<in> set (selected P m) \<longleftrightarrow> (\<exists>k. may_load m s = Some k \<and> P (k, s))"
  by (auto simp: selected_def image_iff entries_load [symmetric])

lemma selected_distinct: "ok m \<Longrightarrow> distinct (selected P m)"
  using entries_distinct [of m] by (simp add: selected_def distinct_map_filter)

lemma selected_in_order:
  assumes "ok m" "i < j" "j < length (selected P m)"
    "may_load m (selected P m ! i) = Some k" "may_load m (selected P m ! j) = Some l"
  shows "k \<le> l"
proof -
  let ?es = "filter P (entries m)"
  have len: "j < length ?es" using assms by (simp add: selected_def)
  have "sorted ?es" using entries_sorted [OF assms(1)] by (simp add: sorted_filter [where f = id, simplified])
  then have le: "?es ! i \<le> ?es ! j" using assms(2) len by (simp add: sorted_nth_mono)
  have pair: "?es ! n = (x, selected P m ! n)"
    if "n < length ?es" "may_load m (selected P m ! n) = Some x" for n x
  proof -
    have "?es ! n \<in> set (entries m)" using that(1) nth_mem [of n ?es] by auto
    then have "may_load m (snd (?es ! n)) = Some (fst (?es ! n))"
      using entries_load [OF assms(1)] by (metis prod.collapse)
    then show ?thesis using that by (simp add: selected_def prod_eq_iff)
  qed
  have "(k, selected P m ! i) \<le> (l, selected P m ! j)"
    using le pair [of i k] pair [of j l] len assms by simp
  then show ?thesis by (auto simp: less_eq_prod_def)
qed

end

interpretation index_map: indexed_map index_may_load index_save index_remove "\<lambda>m. m" index_ok
  by unfold_locales
    (auto simp: index_load_save index_load_remove index_load_iff, auto simp: index_ok_def)

lemmas index_update_simps [index_simps] = index_load_save index_load_remove

section \<open>Dispatching\<close>

text \<open>
  \<open>AlarmsDispatcher\<close> of \<open>platform/src/dispatcher.rs\<close>: the message sent to each receiver,
  the sub-messages scheduled, a reply always expected, and the receivers put in the event.
\<close>

record 'm alarms_dispatcher =
  dispatched_message :: 'm
  dispatched_batch :: "(addr \<times> 'm \<times> nat) list"
  dispatched_event :: "addr list"

definition dispatcher_new :: "'m \<Rightarrow> 'm alarms_dispatcher" where
  "dispatcher_new m = \<lparr>dispatched_message = m, dispatched_batch = [], dispatched_event = []\<rparr>"

definition send_to :: "'m alarms_dispatcher \<Rightarrow> addr \<Rightarrow> nat \<Rightarrow> 'm alarms_dispatcher" where
  "send_to d receiver reply_id =
     d\<lparr>dispatched_event := dispatched_event d @ [receiver],
       dispatched_batch := dispatched_batch d @ [(receiver, dispatched_message d, reply_id)]\<rparr>"

definition nb_sent :: "'m alarms_dispatcher \<Rightarrow> nat option" where
  "nb_sent d = fits 32 (length (dispatched_batch d))"

fun try_fold :: "('s \<Rightarrow> 'x \<Rightarrow> ('e, 's) res) \<Rightarrow> 's \<Rightarrow> 'x list \<Rightarrow> ('e, 's) res" where
  "try_fold f s [] = Inr s"
| "try_fold f s (x # xs) = and_then (f s x) (\<lambda>s'. try_fold f s' xs)"

definition dispatcher_of :: "'m \<Rightarrow> addr list \<Rightarrow> nat \<Rightarrow> 'm alarms_dispatcher" where
  "dispatcher_of m as reply_id =
     \<lparr>dispatched_message = m, dispatched_batch = map (\<lambda>a. (a, m, reply_id)) as, dispatched_event = as\<rparr>"

lemma try_fold_map_err: "try_fold (\<lambda>s x. map_err g (f s x)) s xs = map_err g (try_fold f s xs)"
proof (induction xs arbitrary: s)
  case (Cons x xs)
  then show ?case by (cases "f s x"; cases "projl (f s x)") auto
qed simp

lemma try_fold_sending:
  "try_fold (\<lambda>(d, s) a. map_res (\<lambda>s'. (send_to d a reply_id, s')) (f s a)) (d, s) as
    = map_res (\<lambda>s'. (d\<lparr>dispatched_event := dispatched_event d @ as,
        dispatched_batch := dispatched_batch d @ map (\<lambda>a. (a, dispatched_message d, reply_id)) as\<rparr>, s'))
      (try_fold f s as)"
proof (induction as arbitrary: d s)
  case (Cons a as)
  then show ?case by (cases "f s a") (simp_all add: send_to_def)
qed simp

lemma try_fold_dispatching:
  "try_fold (\<lambda>(d, s) a. map_res (\<lambda>s'. (send_to d a reply_id, s')) (f s a)) (dispatcher_new m, s) as
    = map_res (\<lambda>s'. (dispatcher_of m as reply_id, s')) (try_fold f s as)"
  by (simp add: try_fold_sending dispatcher_new_def dispatcher_of_def)

lemma nb_sent_dispatcher_of [simp]: "nb_sent (dispatcher_of m as reply_id) = fits 32 (length as)"
  by (simp add: nb_sent_def dispatcher_of_def)

section \<open>Delivery\<close>

text \<open>The reply to a message sent: \<open>True\<close> for a success.\<close>

definition replied :: "('s \<Rightarrow> ('e, 's) res) \<Rightarrow> ('s \<Rightarrow> ('e, 's) res) \<Rightarrow> 's \<Rightarrow> bool \<Rightarrow> ('e, 's) res" where
  "replied delivered failed s b = (if b then delivered s else failed s)"

text \<open>
  The contract of an alarms store that hands its alarms out for delivery: the subscribers
  waiting and the ones being delivered, in the order they were sent.
\<close>

locale alarm_delivery =
  fixes waiting :: "'s \<Rightarrow> addr set"
    and in_queue :: "'s \<Rightarrow> addr list"
    and good :: "'s \<Rightarrow> bool"
    and out :: "'s \<Rightarrow> addr \<Rightarrow> ('e, 's) res"
    and delivered :: "'s \<Rightarrow> ('e, 's) res"
    and failed :: "'s \<Rightarrow> ('e, 's) res"
  assumes out_spec: "good s \<Longrightarrow> a \<in> waiting s \<Longrightarrow>
      \<exists>s'. out s a = Inr s' \<and> good s' \<and> waiting s' = waiting s - {a} \<and> in_queue s' = in_queue s @ [a]"
    and delivered_spec: "good s \<Longrightarrow> in_queue s = a # q \<Longrightarrow>
      \<exists>s'. delivered s = Inr s' \<and> good s' \<and> waiting s' = waiting s \<and> in_queue s' = q"
    and failed_spec: "good s \<Longrightarrow> in_queue s = a # q \<Longrightarrow>
      \<exists>s'. failed s = Inr s' \<and> good s' \<and> waiting s' = insert a (waiting s) \<and> in_queue s' = q"
begin

lemma send_all:
  assumes "good s" "distinct as" "set as \<subseteq> waiting s"
  shows "\<exists>s'. try_fold out s as = Inr s' \<and> good s' \<and> waiting s' = waiting s - set as
    \<and> in_queue s' = in_queue s @ as"
  using assms
proof (induction as arbitrary: s)
  case (Cons a as)
  then obtain s1 where s1: "out s a = Inr s1" "good s1" "waiting s1 = waiting s - {a}"
    "in_queue s1 = in_queue s @ [a]" using out_spec [of s a] by auto
  have "distinct as" "set as \<subseteq> waiting s1" using Cons.prems s1(3) by auto
  from Cons.IH [OF s1(2) this] obtain s2 where s2: "try_fold out s1 as = Inr s2" "good s2"
    "waiting s2 = waiting s1 - set as" "in_queue s2 = in_queue s1 @ as" by blast
  have "try_fold out s (a # as) = Inr s2" "waiting s2 = waiting s - set (a # as)"
    "in_queue s2 = in_queue s @ a # as"
    using s1 s2 by auto
  with s2(2) show ?case by blast
qed simp

lemma reply_all:
  assumes "good s" "in_queue s = as" "length bs = length as"
  shows "\<exists>s'. try_fold (replied delivered failed) s bs = Inr s' \<and> good s' \<and> in_queue s' = []
    \<and> waiting s' = waiting s \<union> {a. (a, False) \<in> set (zip as bs)}"
  using assms
proof (induction bs arbitrary: s as)
  case (Cons b bs)
  then obtain a as' where as: "as = a # as'" by (cases as) auto
  have "in_queue s = a # as'" using Cons.prems as by simp
  from delivered_spec [OF Cons.prems(1) this] failed_spec [OF Cons.prems(1) this]
  obtain s1 where s1: "replied delivered failed s b = Inr s1" "good s1" "in_queue s1 = as'"
    "waiting s1 = waiting s \<union> (if b then {} else {a})"
    by (cases b) (fastforce simp: replied_def)+
  then obtain s2 where s2: "try_fold (replied delivered failed) s1 bs = Inr s2" "good s2" "in_queue s2 = []"
    "waiting s2 = waiting s1 \<union> {a. (a, False) \<in> set (zip as' bs)}"
    using Cons.IH [OF s1(2,3)] Cons.prems as by auto
  from s1(1) s2(1) have "try_fold (replied delivered failed) s (b # bs) = Inr s2" by simp
  moreover have "waiting s2 = waiting s \<union> {a. (a, False) \<in> set (zip as (b # bs))}"
    using s1(4) s2(4) as by auto
  ultimately show ?case using s2 by blast
qed auto

text \<open>Sending alarms out and getting the replies loses none that was not delivered.\<close>

lemma round_trip:
  assumes "good s" "in_queue s = []" "distinct as" "set as \<subseteq> waiting s" "length bs = length as"
  shows "\<exists>s1 s2. try_fold out s as = Inr s1 \<and> try_fold (replied delivered failed) s1 bs = Inr s2 \<and> good s2
    \<and> in_queue s2 = [] \<and> waiting s2 = waiting s - {a. (a, True) \<in> set (zip as bs)}"
proof -
  obtain s1 where s1: "try_fold out s as = Inr s1" "good s1" "waiting s1 = waiting s - set as" "in_queue s1 = as"
    using send_all [OF assms(1,3,4)] assms(2) by auto
  obtain s2 where s2: "try_fold (replied delivered failed) s1 bs = Inr s2" "good s2" "in_queue s2 = []"
    "waiting s2 = waiting s1 \<union> {a. (a, False) \<in> set (zip as bs)}"
    using reply_all [OF s1(2,4) assms(5)] by auto
  have all: "\<exists>b. (a, b) \<in> set (zip as bs)" if "a \<in> set as" for a
    using that assms(5) by (metis in_set_impl_in_set_zip1)
  have one: "b = b'" if "(a, b) \<in> set (zip as bs)" "(a, b') \<in> set (zip as bs)" for a b b'
    using that assms(3) by (auto simp: in_set_zip nth_eq_iff_index_eq)
  have "waiting s2 = waiting s - {a. (a, True) \<in> set (zip as bs)}"
  proof (intro set_eqI iffI)
    fix a assume "a \<in> waiting s2"
    then show "a \<in> waiting s - {a. (a, True) \<in> set (zip as bs)}"
      using s1(3) s2(4) assms(4) one [of a True False] by (auto dest: set_zip_leftD)
  next
    fix a assume a: "a \<in> waiting s - {a. (a, True) \<in> set (zip as bs)}"
    show "a \<in> waiting s2"
    proof (cases "a \<in> set as")
      case True
      then obtain b where "(a, b) \<in> set (zip as bs)" using all by blast
      with a have "(a, False) \<in> set (zip as bs)" by (cases b) auto
      then show ?thesis using s2(4) by simp
    qed (use a s1(3) s2(4) in auto)
  qed
  with s1 s2 show ?thesis by blast
qed

end

end
