(* ===== verification/Time_Alarms.thy ===== *)
theory Time_Alarms
  imports Alarm_Index Durations
begin

text \<open>
  The time alarms contract: the store of \<open>time-oracle/src/alarms.rs\<close> and the operations of
  \<open>timealarms/src/alarms.rs\<close> and \<open>contract.rs\<close>. A subscriber has at most one alarm, with a
  resolution of a second. Anybody may trigger the dispatch of the alarms due; each is sent
  with a reply, and a failed one is put back. The chain is an argument: the code of a
  contract, if any, and the block time.
\<close>

section \<open>The store\<close>

datatype alarm_error =
    EmptyAlarmsInDeliveryQueue string
  | NonEmptyAlarmsInDeliveryQueue string

record time_alarms =
  time_index :: "nat index"
  in_delivery :: "addr list"

definition as_seconds :: "timestamp \<Rightarrow> nat" where
  "as_seconds t = at_nanos t div units_in_second"

definition time_alarms_new :: time_alarms where
  "time_alarms_new = \<lparr>time_index = [], in_delivery = []\<rparr>"

definition alarms_selection :: "time_alarms \<Rightarrow> timestamp \<Rightarrow> addr list" where
  "alarms_selection s ctime =
     map snd (index_range None (Some (Inclusive (as_seconds ctime, ''''))) (time_index s))"

definition add_internal :: "time_alarms \<Rightarrow> addr \<Rightarrow> nat \<Rightarrow> (alarm_error, time_alarms) res" where
  "add_internal s subscriber t = Inr (s\<lparr>time_index := index_save (time_index s) subscriber t\<rparr>)"

definition alarms_add :: "time_alarms \<Rightarrow> addr \<Rightarrow> timestamp \<Rightarrow> (alarm_error, time_alarms) res" where
  "alarms_add s subscriber t = add_internal s subscriber (as_seconds t)"

definition ensure_no_in_delivery :: "time_alarms \<Rightarrow> (alarm_error, time_alarms) res" where
  "ensure_no_in_delivery s =
     (if in_delivery s = [] then Inr s
      else Inl (Fail (NonEmptyAlarmsInDeliveryQueue ''Assertion requested'')))"

definition out_for_delivery :: "time_alarms \<Rightarrow> addr \<Rightarrow> (alarm_error, time_alarms) res" where
  "out_for_delivery s subscriber =
     Inr (s\<lparr>time_index := index_remove (time_index s) subscriber,
            in_delivery := in_delivery s @ [subscriber]\<rparr>)"

definition last_delivered :: "time_alarms \<Rightarrow> (alarm_error, time_alarms) res" where
  "last_delivered s =
     (case in_delivery s of
        [] \<Rightarrow> Inl (Fail (EmptyAlarmsInDeliveryQueue ''Received success reply status''))
      | _ # rest \<Rightarrow> Inr (s\<lparr>in_delivery := rest\<rparr>))"

text \<open>The alarm goes back a second earlier; the subtraction aborts in the first second of time.\<close>

definition last_failed :: "time_alarms \<Rightarrow> timestamp \<Rightarrow> (alarm_error, time_alarms) res" where
  "last_failed s now =
     (case in_delivery s of
        [] \<Rightarrow> Inl (Fail (EmptyAlarmsInDeliveryQueue ''Received failure reply status''))
      | subscriber # rest \<Rightarrow>
          and_then (or_panic (checked_sub (as_seconds now) 1))
            (add_internal (s\<lparr>in_delivery := rest\<rparr>) subscriber))"

section \<open>The contract\<close>

datatype timealarms_error =
    InvalidAlarm timestamp
  | TimealarmsPlatform platform_error
  | TimealarmsAlarm alarm_error

datatype execute_alarm_msg = TimeAlarm

datatype timealarms_msg = AddAlarm timestamp | DispatchAlarms nat

datatype timealarms_response =
    NoData
  | DispatchAlarmsResponse nat "execute_alarm_msg alarms_dispatcher"

definition timealarms_reply_id :: nat where
  "timealarms_reply_id = 0"

definition try_any_alarm :: "time_alarms \<Rightarrow> timestamp \<Rightarrow> bool" where
  "try_any_alarm s ctime = (alarms_selection s ctime \<noteq> [])"

definition try_add ::
  "time_alarms \<Rightarrow> (addr \<Rightarrow> nat option) \<Rightarrow> timestamp \<Rightarrow> addr \<Rightarrow> timestamp \<Rightarrow> (timealarms_error, time_alarms) res" where
  "try_add s code_id_of block_time subscriber t =
     (if t < block_time then Inl (Fail (InvalidAlarm t))
      else and_then (map_err TimealarmsPlatform (validate_addr code_id_of subscriber)) (\<lambda>_.
        map_err TimealarmsAlarm (alarms_add s subscriber t)))"

definition try_notify ::
  "time_alarms \<Rightarrow> timestamp \<Rightarrow> nat \<Rightarrow>
     (timealarms_error, time_alarms \<times> nat \<times> execute_alarm_msg alarms_dispatcher) res" where
  "try_notify s ctime max_count =
     and_then (map_err TimealarmsAlarm (ensure_no_in_delivery s)) (\<lambda>s.
     and_then
       (try_fold
         (\<lambda>(dispatcher, s) subscriber.
            map_res (\<lambda>s'. (send_to dispatcher subscriber timealarms_reply_id, s'))
              (map_err TimealarmsAlarm (out_for_delivery s subscriber)))
         (dispatcher_new TimeAlarm, s)
         (take max_count (alarms_selection s ctime)))
       (\<lambda>(dispatcher, s'). map_res (\<lambda>n. (s', n, dispatcher)) (or_panic (nb_sent dispatcher))))"

definition timealarms_execute ::
  "(addr \<Rightarrow> nat option) \<Rightarrow> timestamp \<Rightarrow> addr \<Rightarrow> timealarms_msg \<Rightarrow> time_alarms \<Rightarrow>
     (timealarms_error, time_alarms \<times> timealarms_response) res" where
  "timealarms_execute code_id_of block_time sender msg s =
     (case msg of
        AddAlarm t \<Rightarrow> map_res (\<lambda>s'. (s', NoData)) (try_add s code_id_of block_time sender t)
      | DispatchAlarms max_count \<Rightarrow>
          map_res (\<lambda>(s', sent, dispatcher). (s', DispatchAlarmsResponse sent dispatcher))
            (try_notify s block_time max_count))"

definition timealarms_reply :: "timestamp \<Rightarrow> time_alarms \<Rightarrow> bool \<Rightarrow> (timealarms_error, time_alarms) res" where
  "timealarms_reply block_time s success =
     map_err TimealarmsAlarm (if success then last_delivered s else last_failed s block_time)"

section \<open>Selection\<close>

lemmas time_alarm_op_defs [op_defs] =
  as_seconds_def alarms_selection_def add_internal_def alarms_add_def ensure_no_in_delivery_def
  out_for_delivery_def last_delivered_def last_failed_def try_any_alarm_def try_add_def
  validate_addr_def try_notify_def timealarms_execute_def timealarms_reply_def time_alarms_new_def

lemma below_empty_key: "(t, s) \<le> (u, '''') \<longleftrightarrow> t < u \<or> t = (u::nat) \<and> s = ''''"
  by (auto simp: less_eq_prod_def less_prod_def)

definition due :: "time_alarms \<Rightarrow> timestamp \<Rightarrow> addr \<Rightarrow> bool" where
  "due s ctime a = (case index_may_load (time_index s) a of
      None \<Rightarrow> False | Some t \<Rightarrow> t < as_seconds ctime)"

definition alarm_waiting :: "time_alarms \<Rightarrow> addr set" where
  "alarm_waiting s = dom (index_may_load (time_index s))"

definition time_alarms_ok :: "time_alarms \<Rightarrow> bool" where
  "time_alarms_ok s = (index_ok (time_index s) \<and> '''' \<notin> alarm_waiting s \<and> '''' \<notin> set (in_delivery s))"

lemma alarms_selection_selected:
  "alarms_selection s ctime = index_map.selected (\<lambda>e. e \<le> (as_seconds ctime, '''')) (time_index s)"
  by (simp add: alarms_selection_def index_range_def index_map.selected_def)

lemma alarms_selection_iff:
  assumes "time_alarms_ok s"
  shows "a \<in> set (alarms_selection s ctime) \<longleftrightarrow> due s ctime a"
proof (cases "a = ''''")
  case True
  then show ?thesis
    using assms by (auto simp: alarms_selection_selected index_map.selected_iff time_alarms_ok_def due_def
        alarm_waiting_def domIff)
next
  case False
  then show ?thesis
    using assms by (auto simp: alarms_selection_selected index_map.selected_iff time_alarms_ok_def
        below_empty_key due_def split: option.splits)
qed

lemma due_waiting: "due s ctime a \<Longrightarrow> a \<in> alarm_waiting s"
  by (auto simp: due_def alarm_waiting_def split: option.splits)

lemma alarms_selection_distinct: "time_alarms_ok s \<Longrightarrow> distinct (alarms_selection s ctime)"
  by (simp add: alarms_selection_selected index_map.selected_distinct time_alarms_ok_def)

section \<open>Delivery\<close>

lemma time_out_spec:
  assumes "time_alarms_ok s" "a \<in> alarm_waiting s"
  shows "\<exists>s'. out_for_delivery s a = Inr s' \<and> time_alarms_ok s'
    \<and> alarm_waiting s' = alarm_waiting s - {a} \<and> in_delivery s' = in_delivery s @ [a]"
  using assms by (auto simp: out_for_delivery_def time_alarms_ok_def alarm_waiting_def domIff index_simps
      split: if_splits)

lemma time_failed_spec:
  assumes "time_alarms_ok s" "in_delivery s = a # q" "1 \<le> as_seconds now"
  shows "\<exists>s'. last_failed s now = Inr s' \<and> time_alarms_ok s'
    \<and> alarm_waiting s' = insert a (alarm_waiting s) \<and> in_delivery s' = q"
  using assms by (auto simp: last_failed_def add_internal_def time_alarms_ok_def alarm_waiting_def domIff
      index_simps checked_sub_def split: if_splits)

lemma time_delivery:
  assumes "1 \<le> as_seconds now"
  shows "alarm_delivery alarm_waiting in_delivery time_alarms_ok out_for_delivery last_delivered
    (\<lambda>s. last_failed s now)"
proof unfold_locales
  show "\<exists>s'. last_delivered s = Inr s' \<and> time_alarms_ok s' \<and> alarm_waiting s' = alarm_waiting s
      \<and> in_delivery s' = q"
    if "time_alarms_ok s" "in_delivery s = a # q" for s a q
    using that by (auto simp: last_delivered_def time_alarms_ok_def alarm_waiting_def)
qed (use assms time_out_spec time_failed_spec in auto)

lemma try_notify_eq:
  "try_notify s ctime max_count =
     (let sent = take max_count (alarms_selection s ctime) in
      if in_delivery s \<noteq> [] then Inl (Fail (TimealarmsAlarm (NonEmptyAlarmsInDeliveryQueue ''Assertion requested'')))
      else map_err TimealarmsAlarm (and_then (try_fold out_for_delivery s sent) (\<lambda>s'.
        map_res (\<lambda>n. (s', n, dispatcher_of TimeAlarm sent timealarms_reply_id)) (or_panic (fits 32 (length sent))))))"
proof -
  note dispatching = try_fold_dispatching
    [of timealarms_reply_id "\<lambda>s x. map_err TimealarmsAlarm (out_for_delivery s x)" TimeAlarm s
      "take max_count (alarms_selection s ctime)", unfolded try_fold_map_err]
  show ?thesis
    unfolding try_notify_def Let_def ensure_no_in_delivery_def
    by (cases "try_fold out_for_delivery s (take max_count (alarms_selection s ctime))";
        cases "projl (try_fold out_for_delivery s (take max_count (alarms_selection s ctime)))";
        cases "fits 32 (length (take max_count (alarms_selection s ctime)))")
      (simp_all add: dispatching del: fits_Some fits_None length_take)
qed

lemma out_all_eq:
  "try_fold out_for_delivery s as = Inr (s\<lparr>time_index := fold (\<lambda>a m. index_remove m a) as (time_index s),
     in_delivery := in_delivery s @ as\<rparr>)"
  by (induction as arbitrary: s) (simp_all add: out_for_delivery_def)

lemma load_remove_all:
  "index_may_load (fold (\<lambda>a m. index_remove m a) as m) s
    = (if s \<in> set as then None else index_may_load m s)"
  by (induction as arbitrary: m) (auto simp: index_simps)

text \<open>
  A dispatch of time alarms with a limit succeeds exactly when no earlier alarm is still in
  delivery. It sends the alarms due, those of a second before the current one, the earliest first,
  as many as the limit allows, each subscriber once; exactly these leave the store, and they make
  the queue of alarms in delivery.
\<close>

theorem time_dispatch_spec:
  assumes ok: "time_alarms_ok s" and limit: "max_count < 2 ^ 32"
  shows "(case try_notify s ctime max_count of
      Inl e \<Rightarrow> in_delivery s \<noteq> [] \<and> e = Fail (TimealarmsAlarm (NonEmptyAlarmsInDeliveryQueue ''Assertion requested''))
    | Inr (s', n, d) \<Rightarrow>
        in_delivery s = [] \<and> n = min max_count (card {a. due s ctime a})
        \<and> dispatched_batch d = map (\<lambda>a. (a, TimeAlarm, timealarms_reply_id)) (in_delivery s')
        \<and> length (in_delivery s') = n \<and> distinct (in_delivery s')
        \<and> set (in_delivery s') \<subseteq> {a. due s ctime a}
        \<and> (\<forall>a \<in> set (in_delivery s'). \<forall>b. due s ctime b \<longrightarrow> b \<notin> set (in_delivery s') \<longrightarrow>
             the (index_may_load (time_index s) a) \<le> the (index_may_load (time_index s) b))
        \<and> (\<forall>a. index_may_load (time_index s') a =
             (if a \<in> set (in_delivery s') then None else index_may_load (time_index s) a)))"
proof (cases "in_delivery s = []")
  case False
  then show ?thesis by (simp add: try_notify_eq Let_def)
next
  case True
  let ?sel = "alarms_selection s ctime"
  let ?sent = "take max_count ?sel"
  have dist: "distinct ?sel" and sel: "set ?sel = {a. due s ctime a}"
    using ok by (auto simp: alarms_selection_distinct alarms_selection_iff)
  then have card: "card {a. due s ctime a} = length ?sel" by (metis distinct_card)
  have len: "length ?sent < 2 ^ 32" using limit by auto
  have ordered: "the (index_may_load (time_index s) a) \<le> the (index_may_load (time_index s) b)"
    if a: "a \<in> set ?sent" and b: "due s ctime b" "b \<notin> set ?sent" for a b
  proof -
    obtain i where i: "i < length ?sent" "?sent ! i = a" using a by (metis in_set_conv_nth)
    obtain j where j: "j < length ?sel" "?sel ! j = b" using b(1) sel by (metis in_set_conv_nth mem_Collect_eq)
    have "\<not> j < max_count" using b(2) j by (metis in_set_conv_nth length_take min_less_iff_conj nth_take)
    then have "i < j" "?sel ! i = a" using i by auto
    moreover obtain k l where "index_may_load (time_index s) a = Some k" "index_may_load (time_index s) b = Some l"
      using a b(1) sel set_take_subset [of max_count ?sel] by (fastforce simp: due_def split: option.splits)
    ultimately show ?thesis
      using index_map.selected_in_order [of "time_index s" i j "\<lambda>e. e \<le> (as_seconds ctime, '''')" k l] ok j
      by (simp add: time_alarms_ok_def alarms_selection_selected)
  qed
  have "try_notify s ctime max_count = Inr (s\<lparr>time_index := fold (\<lambda>a m. index_remove m a) ?sent (time_index s),
      in_delivery := ?sent\<rparr>, length ?sent, dispatcher_of TimeAlarm ?sent timealarms_reply_id)"
    using True len by (simp add: try_notify_eq Let_def out_all_eq fits_def)
  then show ?thesis
    using True sel dist card ordered set_take_subset [of max_count ?sel]
    by (auto simp: dispatcher_of_def load_remove_all min.commute)
qed

theorem time_dispatch_spec_witness:
  "case try_notify \<lparr>time_index = [(3, ''a''), (3, ''b''), (7, ''c'')], in_delivery = []\<rparr>
     (Timestamp 5000000000) 1 of Inl e \<Rightarrow> False | Inr (s', n, d) \<Rightarrow> n = 1 \<and> in_delivery s' = [''a'']"
proof -
  let ?s = "\<lparr>time_index = [(3, ''a''), (3, ''b''), (7, ''c'')], in_delivery = []\<rparr>"
  have "time_alarms_ok ?s"
    by (simp add: time_alarms_ok_def index_ok_def alarm_waiting_def domIff index_may_load_def)
  from time_dispatch_spec [OF this, of 1 "Timestamp 5000000000"]
  show ?thesis
    by (simp add: try_notify_def ensure_no_in_delivery_def alarms_selection_def as_seconds_def units_in_second_def
        index_range_def dispatcher_new_def send_to_def out_for_delivery_def nb_sent_def fits_def)
qed

lemma timealarms_reply_eq:
  "timealarms_reply now =
     (\<lambda>s b. map_err TimealarmsAlarm (replied last_delivered (\<lambda>s. last_failed s now) s b))"
  by (intro ext) (simp add: timealarms_reply_def replied_def)

lemma failed_alarm_due:
  assumes "try_fold (replied last_delivered (\<lambda>s. last_failed s now)) s bs = Inr s'" "1 \<le> as_seconds now"
    and "due s now a \<or> (a, False) \<in> set (zip (in_delivery s) bs)"
  shows "due s' now a"
  using assms
proof (induction bs arbitrary: s)
  case (Cons b bs)
  then obtain x q where q: "in_delivery s = x # q"
    by (cases "in_delivery s") (auto simp: replied_def last_delivered_def last_failed_def split: if_splits)
  obtain s1 where s1: "replied last_delivered (\<lambda>s. last_failed s now) s b = Inr s1"
    "try_fold (replied last_delivered (\<lambda>s. last_failed s now)) s1 bs = Inr s'"
    using Cons.prems(1) by auto
  have "in_delivery s1 = q" "due s now a \<or> \<not> b \<and> a = x \<Longrightarrow> due s1 now a"
    using s1(1) q Cons.prems(2)
    by (auto simp: replied_def last_delivered_def last_failed_def add_internal_def due_def index_simps
        split: if_splits)
  then show ?case using Cons.IH [OF s1(2)] Cons.prems q by auto
qed simp

text \<open>
  C32. A round of time alarms: after a dispatch and the replies to the messages it sent, in their
  order, no alarm is left in delivery, and exactly the subscribers whose handling succeeded have
  left the store. The alarms that failed are back and due within the same block, so they are not
  lost and can be dispatched again at once.
\<close>

theorem time_alarms_round:
  assumes "time_alarms_ok s" "in_delivery s = []" "1 \<le> as_seconds now" "max_count < 2 ^ 32"
    and "length replies = length (take max_count (alarms_selection s now))"
  shows "\<exists>s1 n d s2. try_notify s now max_count = Inr (s1, n, d)
    \<and> try_fold (timealarms_reply now) s1 replies = Inr s2
    \<and> time_alarms_ok s2 \<and> in_delivery s2 = []
    \<and> alarm_waiting s2 = alarm_waiting s - {a. (a, True) \<in> set (zip (in_delivery s1) replies)}
    \<and> (\<forall>a. (a, False) \<in> set (zip (in_delivery s1) replies) \<longrightarrow> due s2 now a)"
proof -
  let ?sent = "take max_count (alarms_selection s now)"
  have sent: "distinct ?sent" "set ?sent \<subseteq> alarm_waiting s" "length ?sent < 2 ^ 32"
    using assms(1,4) set_take_subset [of max_count "alarms_selection s now"]
    by (auto simp: alarms_selection_distinct alarms_selection_iff due_waiting dest!: subsetD)
  obtain s1 s2 where s1: "try_fold out_for_delivery s ?sent = Inr s1"
    and s2: "try_fold (replied last_delivered (\<lambda>s. last_failed s now)) s1 replies = Inr s2"
      "time_alarms_ok s2" "in_delivery s2 = []"
      "alarm_waiting s2 = alarm_waiting s - {a. (a, True) \<in> set (zip ?sent replies)}"
    using alarm_delivery.round_trip [OF time_delivery [OF assms(3)] assms(1,2) sent(1,2) assms(5)] by blast
  have q: "in_delivery s1 = ?sent" using s1 assms(2) by (auto simp: out_all_eq)
  have "try_notify s now max_count = Inr (s1, length ?sent, dispatcher_of TimeAlarm ?sent timealarms_reply_id)"
    using s1 sent(3) assms(2) by (simp add: try_notify_eq Let_def fits_def del: length_take)
  moreover have "try_fold (timealarms_reply now) s1 replies = Inr s2"
    using s2(1) by (simp add: timealarms_reply_eq try_fold_map_err)
  ultimately show ?thesis using s2 q failed_alarm_due [OF s2(1) assms(3)] by auto
qed

theorem time_alarms_round_witness:
  "\<exists>s1 n d s2. try_notify \<lparr>time_index = [(3, ''a''), (4, ''b'')], in_delivery = []\<rparr> (Timestamp 5000000000) 9
      = Inr (s1, n, d)
    \<and> try_fold (timealarms_reply (Timestamp 5000000000)) s1 [True, False] = Inr s2
    \<and> alarm_waiting s2 = {''b''} \<and> due s2 (Timestamp 5000000000) ''b''"
proof -
  let ?s = "\<lparr>time_index = [(3, ''a''), (4, ''b'')], in_delivery = []\<rparr>"
  let ?now = "Timestamp 5000000000"
  have ok: "time_alarms_ok ?s" and w: "alarm_waiting ?s = {''a'', ''b''}"
    by (auto simp: time_alarms_ok_def index_ok_def alarm_waiting_def domIff index_may_load_def dom_def)
  have sel: "alarms_selection ?s ?now = [''a'', ''b'']" and now: "1 \<le> as_seconds ?now"
    by (simp_all add: alarms_selection_def as_seconds_def units_in_second_def index_range_def)
  obtain s1 n d s2 where r: "try_notify ?s ?now 9 = Inr (s1, n, d)"
      "try_fold (timealarms_reply ?now) s1 [True, False] = Inr s2"
      "alarm_waiting s2 = alarm_waiting ?s - {a. (a, True) \<in> set (zip (in_delivery s1) [True, False])}"
      "\<forall>a. (a, False) \<in> set (zip (in_delivery s1) [True, False]) \<longrightarrow> due s2 ?now a"
    using time_alarms_round [OF ok _ now, of 9 "[True, False]"] sel by auto
  have "in_delivery s1 = [''a'', ''b'']"
    using r(1) sel by (auto simp: try_notify_eq Let_def out_all_eq fits_def)
  with r w show ?thesis by auto
qed

text \<open>
  Adding a time alarm is refused for a time before the block's and for a subscriber that is
  not a contract. Otherwise the subscriber's only alarm becomes the new one, the alarms of the
  others and those in delivery do not change, and the new alarm is not due in the current second.
\<close>

theorem time_alarm_add_spec:
  assumes "time_alarms_ok s" "subscriber \<noteq> ''''"
  shows "(case timealarms_execute code_id_of block_time subscriber (AddAlarm t) s of
      Inl e \<Rightarrow> e = Fail (InvalidAlarm t) \<and> t < block_time
        \<or> e = Fail (TimealarmsPlatform CosmWasmQueryContractInfo) \<and> \<not> t < block_time \<and> code_id_of subscriber = None
    | Inr (s', r) \<Rightarrow> block_time \<le> t \<and> code_id_of subscriber \<noteq> None \<and> r = NoData \<and> time_alarms_ok s'
        \<and> index_may_load (time_index s') = (index_may_load (time_index s))(subscriber \<mapsto> at_nanos t div 10 ^ 9)
        \<and> in_delivery s' = in_delivery s \<and> \<not> due s' block_time subscriber)"
proof (cases "t < block_time \<or> code_id_of subscriber = None")
  case True
  then show ?thesis
    by (auto simp: timealarms_execute_def try_add_def validate_addr_def split: option.splits)
next
  case False
  then obtain code where "code_id_of subscriber = Some code" "\<not> t < block_time" by auto
  moreover from this have "as_seconds block_time \<le> as_seconds t"
    by (simp add: as_seconds_def time_order div_le_mono)
  ultimately show ?thesis
    using assms
    by (auto simp: timealarms_execute_def try_add_def validate_addr_def alarms_add_def add_internal_def
        time_alarms_ok_def alarm_waiting_def domIff index_simps due_def as_seconds_def units_in_second_def)
qed

theorem time_alarm_add_spec_witness:
  "timealarms_execute (\<lambda>_. Some 1) (Timestamp 5) ''a'' (AddAlarm (Timestamp 3000000000)) time_alarms_new
     = Inr (\<lparr>time_index = [(3, ''a'')], in_delivery = []\<rparr>, NoData)
   \<and> timealarms_execute (\<lambda>_. Some 1) (Timestamp 5) ''a'' (AddAlarm (Timestamp 4)) time_alarms_new
     = Inl (Fail (InvalidAlarm (Timestamp 4)))"
proof -
  have ok: "time_alarms_ok time_alarms_new" "''a'' \<noteq> ''''"
    by (simp_all add: time_alarms_ok_def time_alarms_new_def alarm_waiting_def index_may_load_def domIff)
  show ?thesis
    using time_alarm_add_spec [OF ok, where code_id_of = "\<lambda>_. Some 1" and block_time = "Timestamp 5"
        and t = "Timestamp 3000000000"]
    by (simp add: timealarms_execute_def try_add_def validate_addr_def alarms_add_def add_internal_def
        time_alarms_new_def index_save_def index_remove_def as_seconds_def units_in_second_def time_order)
qed

text \<open>The status query answers whether a dispatch would send anything.\<close>

lemma any_alarm_iff_due: "time_alarms_ok s \<Longrightarrow> try_any_alarm s now \<longleftrightarrow> (\<exists>a. due s now a)"
  using alarms_selection_iff [of s _ now]
  unfolding try_any_alarm_def by (metis all_not_in_conv set_empty)

section \<open>Every state of the contract\<close>

inductive timealarms_step :: "time_alarms \<Rightarrow> time_alarms \<Rightarrow> bool" where
  executed: "sender \<noteq> '''' \<Longrightarrow> timealarms_execute code_id_of now sender msg s = Inr (s', r) \<Longrightarrow>
    timealarms_step s s'"
| replied_to: "timealarms_reply now s success = Inr s' \<Longrightarrow> timealarms_step s s'"

lemma out_all_ok: "time_alarms_ok s \<Longrightarrow> try_fold out_for_delivery s as = Inr s' \<Longrightarrow> '''' \<notin> set as \<Longrightarrow> time_alarms_ok s'"
proof (induction as arbitrary: s)
  case (Cons a as)
  have "time_alarms_ok (s\<lparr>time_index := index_remove (time_index s) a, in_delivery := in_delivery s @ [a]\<rparr>)"
    using Cons.prems by (auto simp: time_alarms_ok_def alarm_waiting_def domIff index_simps)
  then show ?case using Cons by (auto simp: out_for_delivery_def)
qed simp

lemma timealarms_step_ok:
  assumes "time_alarms_ok s" "timealarms_step s s'"
  shows "time_alarms_ok s'"
  using assms(2,1)
proof (induction rule: timealarms_step.induct)
  case (executed sender code_id_of now msg s s' r)
  show ?case
  proof (cases msg)
    case (AddAlarm t)
    then show ?thesis
      using executed
      by (auto simp: timealarms_execute_def try_add_def alarms_add_def add_internal_def time_alarms_ok_def
          alarm_waiting_def domIff index_simps split: if_splits)
  next
    case (DispatchAlarms n)
    have "'''' \<notin> set (take n (alarms_selection s now))"
      using executed(3) alarms_selection_iff [OF executed(3), of "''''" now] due_waiting [of s now "''''"]
        set_take_subset [of n "alarms_selection s now"]
      by (auto simp: time_alarms_ok_def)
    then show ?thesis
      using executed DispatchAlarms out_all_ok
      by (auto simp: timealarms_execute_def try_notify_eq Let_def split: if_splits)
  qed
next
  case (replied_to now s success s')
  then show ?case
    by (auto simp: timealarms_reply_def last_delivered_def last_failed_def add_internal_def time_alarms_ok_def
        alarm_waiting_def domIff index_simps split: if_splits list.splits)
qed

end
