(* ===== verification/Base_Prices.thy ===== *)
theory Base_Prices
  imports Prices
begin

text \<open>
  Prices of a currency known at run time only, in terms of a fixed quote currency
  (\<open>finance/src/price/base/mod.rs\<close>, \<open>with_price.rs\<close>, \<open>unchecked.rs\<close>). The currency is named
  by its symbol. The amounts are kept as they were received, not in their lowest terms;
  each use makes a price of them.
\<close>

record 'q base_price =
  bp_currency :: string
  bp_amount :: nat
  bp_quote :: "'q coin"

definition base_from_price :: "string \<Rightarrow> ('c, 'q) price \<Rightarrow> 'q base_price" where
  "base_from_price c p =
     \<lparr>bp_currency = c, bp_amount = amount (price_amount p), bp_quote = price_amount_quote p\<rparr>"

definition base_of_currency :: "'q base_price \<Rightarrow> string \<Rightarrow> (finance_error, unit) res" where
  "base_of_currency b c = (if bp_currency b = c then Inr () else Inl (Fail CurrencyError))"

definition try_as_specific :: "string \<Rightarrow> 'q base_price \<Rightarrow> (finance_error, ('c, 'q) price) res" where
  "try_as_specific c b =
     and_then (base_of_currency b c) (\<lambda>_. or_panic (total_of_is (Coin (bp_amount b)) (bp_quote b)))"

text \<open>\<open>with_price::execute\<close>: run a command on the price and its currency.\<close>

definition with_base_price ::
  "'q base_price \<Rightarrow> (string \<Rightarrow> ('c, 'q) price \<Rightarrow> ('e, 'a) res) \<Rightarrow> ('e, 'a) res" where
  "with_base_price b cmd =
     and_then (or_panic (price_new (Coin (bp_amount b)) (bp_quote b))) (cmd (bp_currency b))"

definition base_invariant_held :: "string \<Rightarrow> 'q base_price \<Rightarrow> (finance_error, unit) res" where
  "base_invariant_held quote_c b =
     and_then (price_try_new (bp_currency b = quote_c) (Coin (bp_amount b) :: unit coin) (bp_quote b))
       (price_invariant_held (bp_currency b = quote_c))"

definition base_new_checked :: "string \<Rightarrow> string \<Rightarrow> nat \<Rightarrow> 'q coin \<Rightarrow> (finance_error, 'q base_price) res" where
  "base_new_checked quote_c c am quote =
     (let b = \<lparr>bp_currency = c, bp_amount = am, bp_quote = quote\<rparr>
      in map_res (\<lambda>_. b) (base_invariant_held quote_c b))"

text \<open>A base price whose amounts make a price, and that price.\<close>

definition base_price_ok :: "'q base_price \<Rightarrow> bool" where
  "base_price_ok b = (0 < bp_amount b \<and> bp_amount b < 2 ^ 128 \<and> 0 < amount (bp_quote b) \<and> coin_ok (bp_quote b))"

lemma price_of_base:
  assumes "base_price_ok b"
  obtains p :: "('c, 'q) price" where
    "price_new (Coin (bp_amount b)) (bp_quote b) = Some p" "price_ok p"
    "price_is p (bp_amount b) (amount (bp_quote b))"
  using price_new_spec [of "Coin (bp_amount b) :: 'c coin" "bp_quote b"] assms
  by (auto simp: base_price_ok_def coin_ok_def)

lemma with_base_price_eq:
  "price_new (Coin (bp_amount b)) (bp_quote b) = Some p \<Longrightarrow> with_base_price b cmd = cmd (bp_currency b) p"
  by (simp add: with_base_price_def)

lemma try_as_specific_Inr:
  "try_as_specific c b = Inr p \<longleftrightarrow> bp_currency b = c \<and> price_new (Coin (bp_amount b)) (bp_quote b) = Some p"
  by (auto simp: try_as_specific_def base_of_currency_def total_of_is_def split: if_splits)

lemma base_price_round_trip:
  fixes p :: "('c, 'q) price"
  assumes "price_ok p"
  shows "try_as_specific c (base_from_price c p) = Inr p" and "base_price_ok (base_from_price c p)"
proof -
  show "base_price_ok (base_from_price c p)"
    using assms by (simp add: base_price_ok_def base_from_price_def price_ok_def coin_ok_def)
  have "price_new (price_amount p) (price_amount_quote p) = Some p"
    using assms by (simp add: price_new_canonical)
  then show "try_as_specific c (base_from_price c p) = Inr p"
    by (simp add: try_as_specific_Inr base_from_price_def coin_eq_iff [symmetric])
qed

lemma price_inv_le: "price_le (price_inv q) (price_inv p) \<longleftrightarrow> price_le p q"
  by (simp add: price_le_iff mult.commute)

lemmas base_price_op_defs [op_defs] =
  base_from_price_def base_of_currency_def try_as_specific_def with_base_price_def
  base_invariant_held_def base_new_checked_def

end
