(* ===== verification/Price_Feed.thy ===== *)
theory Price_Feed
  imports Base_Prices Platform "HOL-Library.AList"
begin

text \<open>
  A price feed of one pair of currencies (\<open>marketprice/src\<close>): the configuration
  (\<open>config.rs\<close>), the registered feeders (\<open>feeders.rs\<close>), the observations and their queue
  (\<open>feed/observation.rs\<close>, \<open>feed/cw/observations.rs\<close>), the samples (\<open>feed/sample.rs\<close>) and the
  price (\<open>feed/mod.rs\<close>). The prices of all feeds share the phantom currencies \<open>unit\<close> here;
  which pair a feed belongs to is the key it is stored by. The prices of a sample are in a hash
  map; the order it is read in is not specified, and is an argument \<open>hash_order\<close> that permutes
  the keys.
\<close>

type_synonym pair_price = "(unit, unit) price"

section \<open>Configuration\<close>

datatype feeds_error =
    NoPrice
  | Configuration string
  | FeedsCurrency
  | FeedsFinance finance_error

record price_config =
  min_feeders_percent :: percent
  sample_period :: duration
  samples_number :: nat
  feed_validity :: duration
  discount_factor :: percent

definition config_error_if :: "bool \<Rightarrow> string \<Rightarrow> (feeds_error, unit) res" where
  "config_error_if check msg = (if check then Inl (Fail (Configuration msg)) else Inr ())"

definition check_invariant :: "price_config \<Rightarrow> (feeds_error, price_config) res" where
  "check_invariant c =
     and_then (config_error_if
       (min_feeders_percent c = percent_zero \<or> percent_hundred < min_feeders_percent c)
       ''The minumum feeders should be greater than 0 and less or equal to 100%'') (\<lambda>_.
     and_then (config_error_if (sample_period c = duration_zero)
       ''The sample period should be longer than zero'') (\<lambda>_.
     and_then (config_error_if (samples_number c = 0)
       ''The price feeds validity should be longer than zero'') (\<lambda>_.
     and_then (config_error_if (discount_factor c = percent_zero \<or> percent_hundred < discount_factor c)
       ''The discounting factor should be greater than 0 and less or equal to 100%'') (\<lambda>_.
     Inr c))))"

definition config_new :: "percent \<Rightarrow> duration \<Rightarrow> nat \<Rightarrow> percent \<Rightarrow> (feeds_error, price_config) res" where
  "config_new min_fd period samples discount =
     (case duration_checked_mul period samples of
        Some validity \<Rightarrow>
          check_invariant \<lparr>min_feeders_percent = min_fd, sample_period = period, samples_number = samples,
            feed_validity = validity, discount_factor = discount\<rparr>
      | None \<Rightarrow> Inl (Fail (Configuration ''Overflow multiplying sample period by samples number'')))"

text \<open>\<open>Percent::of\<close> on an \<open>usize\<close>, 32 bits wide where the contracts run.\<close>

definition percent_of_usize :: "percent \<Rightarrow> nat \<Rightarrow> nat option" where
  "percent_of_usize p n = do { m \<leftarrow> safe_mul 128 n (percent_ratio p); fits 32 m }"

definition min_feeders :: "price_config \<Rightarrow> nat \<Rightarrow> nat option" where
  "min_feeders c total_feeders = percent_of_usize (min_feeders_percent c) total_feeders"

definition feed_valid_since :: "price_config \<Rightarrow> timestamp \<Rightarrow> timestamp option" where
  "feed_valid_since c now =
     do {
       earliest \<leftarrow> timestamp_add timestamp_default (feed_validity c);
       if earliest \<le> now then timestamp_sub now (feed_validity c) else Some timestamp_default
     }"

section \<open>Feeders\<close>

datatype feeders_error = FeederAlreadyRegistered

text \<open>The stored set of feeders, if one has been stored.\<close>

type_synonym feeders = "addr set option"

definition feeders_get :: "feeders \<Rightarrow> addr set" where
  "feeders_get st = (case st of None \<Rightarrow> {} | Some addrs \<Rightarrow> addrs)"

definition is_registered :: "feeders \<Rightarrow> addr \<Rightarrow> bool" where
  "is_registered st a = (case st of None \<Rightarrow> False | Some addrs \<Rightarrow> a \<in> addrs)"

definition feeders_register :: "feeders \<Rightarrow> addr \<Rightarrow> (feeders_error, feeders) res" where
  "feeders_register st feeder =
     (let db = feeders_get st in
      if feeder \<in> db then Inl (Fail FeederAlreadyRegistered) else Inr (Some (insert feeder db)))"

definition feeders_remove :: "feeders \<Rightarrow> addr \<Rightarrow> feeders" where
  "feeders_remove st feeder = map_option (\<lambda>addrs. addrs - {feeder}) st"

section \<open>Observations\<close>

record observation =
  feeder_addr :: addr
  obs_time :: timestamp
  obs_price :: pair_price

definition observation_new :: "addr \<Rightarrow> timestamp \<Rightarrow> pair_price \<Rightarrow> observation" where
  "observation_new feeder t p = \<lparr>feeder_addr = feeder, obs_time = t, obs_price = p\<rparr>"

definition obs_valid_since :: "observation \<Rightarrow> timestamp \<Rightarrow> bool" where
  "obs_valid_since ob since = (since < obs_time ob)"

text \<open>The queue drops expired observations from its front until it meets a valid one.\<close>

fun observations_retain :: "observation list \<Rightarrow> timestamp \<Rightarrow> observation list" where
  "observations_retain [] valid_since = []"
| "observations_retain (item # rest) valid_since =
     (if obs_valid_since item valid_since then item # rest else observations_retain rest valid_since)"

definition observations_register :: "observation list \<Rightarrow> observation \<Rightarrow> observation list" where
  "observations_register obs ob = obs @ [ob]"

definition add_observation ::
  "observation list \<Rightarrow> addr \<Rightarrow> timestamp \<Rightarrow> pair_price \<Rightarrow> timestamp \<Rightarrow> observation list" where
  "add_observation obs from at p valid_since =
     observations_register (observations_retain obs valid_since) (observation_new from at p)"

section \<open>Samples\<close>

type_synonym sample = "pair_price option"

type_synonym sample_prices = "(addr \<times> pair_price) list"

record sample_builder =
  observations :: "observation list"
  sample_start :: timestamp
  sample_span :: duration
  consumed :: "observation option"
  sample_prices_of :: sample_prices
  last_sample :: sample

definition sample_builder_from :: "observation list \<Rightarrow> timestamp \<Rightarrow> duration \<Rightarrow> sample_builder" where
  "sample_builder_from obs start_from span =
     \<lparr>observations = obs, sample_start = start_from, sample_span = span, consumed = None,
      sample_prices_of = [], last_sample = None\<rparr>"

definition sample_end :: "sample_builder \<Rightarrow> timestamp option" where
  "sample_end b = timestamp_add (sample_start b) (sample_span b)"

fun fold_prices :: "pair_price \<Rightarrow> pair_price list \<Rightarrow> pair_price option" where
  "fold_prices acc [] = Some acc"
| "fold_prices acc (p # ps) = do { acc' \<leftarrow> price_add acc p; fold_prices acc' ps }"

definition average :: "pair_price list \<Rightarrow> sample option" where
  "average values =
     (case values of
        [] \<Rightarrow> Some None
      | first # rest \<Rightarrow>
          do {
            sum \<leftarrow> fold_prices first rest;
            avg \<leftarrow> lossy_mul sum (mk_ratio 1 (length values));
            Some (Some avg)
          })"

definition values_in :: "(addr list \<Rightarrow> addr list) \<Rightarrow> sample_prices \<Rightarrow> pair_price list" where
  "values_in hash_order prices = map (\<lambda>a. the (map_of prices a)) (hash_order (map fst prices))"

definition end_of_period :: "(addr list \<Rightarrow> addr list) \<Rightarrow> sample_builder \<Rightarrow> sample_builder option" where
  "end_of_period hash_order b =
     do {
       new_sample \<leftarrow>
         (if 0 < length (sample_prices_of b) then average (values_in hash_order (sample_prices_of b))
          else Some (last_sample b));
       start \<leftarrow> sample_end b;
       Some (b\<lparr>last_sample := new_sample, sample_prices_of := [], sample_start := start\<rparr>)
     }"

text \<open>
  The loop of \<open>next\<close>: prices of the period are put in the map, a later one of a feeder replacing
  the earlier; the first observation after the period is kept for the next one.
\<close>

fun consume_period ::
  "timestamp \<Rightarrow> observation list \<Rightarrow> sample_prices \<Rightarrow> sample_prices \<times> observation option \<times> observation list" where
  "consume_period until [] prices = (prices, None, [])"
| "consume_period until (ob # obs) prices =
     (if obs_valid_since ob until then (prices, Some ob, obs)
      else consume_period until obs (AList.update (feeder_addr ob) (obs_price ob) prices))"

definition sample_next :: "(addr list \<Rightarrow> addr list) \<Rightarrow> sample_builder \<Rightarrow> (sample \<times> sample_builder) option" where
  "sample_next hash_order b =
     do {
       until \<leftarrow> sample_end b;
       let pipeline = (case consumed b of None \<Rightarrow> [] | Some ob \<Rightarrow> [ob]) @ observations b;
       let (prices, kept, rest) = consume_period until pipeline (sample_prices_of b);
       b' \<leftarrow> end_of_period hash_order (b\<lparr>observations := rest, consumed := kept, sample_prices_of := prices\<rparr>);
       Some (last_sample b', b')
     }"

fun take_samples :: "(addr list \<Rightarrow> addr list) \<Rightarrow> nat \<Rightarrow> sample_builder \<Rightarrow> sample list option" where
  "take_samples hash_order 0 b = Some []"
| "take_samples hash_order (Suc n) b =
     do { (s, b') \<leftarrow> sample_next hash_order b; rest \<leftarrow> take_samples hash_order n b'; Some (s # rest) }"

section \<open>The price of a feed\<close>

definition valid_observations :: "observation list \<Rightarrow> timestamp \<Rightarrow> observation list" where
  "valid_observations obs since = filter (\<lambda>item. obs_valid_since item since) obs"

definition count_unique_feeders :: "observation list \<Rightarrow> nat" where
  "count_unique_feeders obs = length (remdups (map feeder_addr obs))"

definition has_enough_feeders :: "observation list \<Rightarrow> price_config \<Rightarrow> nat \<Rightarrow> bool option" where
  "has_enough_feeders obs c total_feeders =
     map_option (\<lambda>required. required \<le> count_unique_feeders obs) (min_feeders c total_feeders)"

definition discounted :: "percent \<Rightarrow> pair_price \<Rightarrow> pair_price \<Rightarrow> pair_price option" where
  "discounted factor acc sample_price =
     do {
       recent \<leftarrow> percent_of_price factor sample_price;
       remaining \<leftarrow> percent_sub percent_hundred factor;
       old \<leftarrow> percent_of_price remaining acc;
       price_add recent old
     }"

text \<open>\<open>map\<close> with \<open>expect\<close> on the samples left, then \<open>reduce\<close>.\<close>

fun reduce_samples :: "percent \<Rightarrow> pair_price \<Rightarrow> sample list \<Rightarrow> pair_price option" where
  "reduce_samples factor acc [] = Some acc"
| "reduce_samples factor acc (None # rest) = None"
| "reduce_samples factor acc (Some p # rest) =
     do { acc' \<leftarrow> discounted factor acc p; reduce_samples factor acc' rest }"

definition calc_price ::
  "(addr list \<Rightarrow> addr list) \<Rightarrow> observation list \<Rightarrow> price_config \<Rightarrow> timestamp \<Rightarrow> nat \<Rightarrow> (feeds_error, pair_price) res" where
  "calc_price hash_order stored c at total_feeders =
     and_then (or_panic (feed_valid_since c at)) (\<lambda>valid_since.
       let obs = valid_observations stored valid_since in
       and_then (or_panic (has_enough_feeders obs c total_feeders)) (\<lambda>enough.
         if \<not> enough then Inl (Fail NoPrice)
         else and_then
           (or_panic (take_samples hash_order (samples_number c)
             (sample_builder_from obs valid_since (sample_period c)))) (\<lambda>samples.
           case dropWhile Option.is_none samples of
             [] \<Rightarrow> Inl (Fail NoPrice)
           | None # _ \<Rightarrow> Inl Panic
           | Some first # rest \<Rightarrow> or_panic (reduce_samples (discount_factor c) first rest))))"

lemmas price_feed_op_defs [op_defs] =
  config_error_if_def check_invariant_def config_new_def percent_of_usize_def min_feeders_def
  feed_valid_since_def feeders_get_def is_registered_def feeders_register_def feeders_remove_def
  observation_new_def obs_valid_since_def observations_register_def add_observation_def
  sample_builder_from_def sample_end_def average_def values_in_def end_of_period_def sample_next_def
  valid_observations_def count_unique_feeders_def has_enough_feeders_def discounted_def calc_price_def

end
