(* ===== verification/Swap_Tree.thy ===== *)
theory Swap_Tree
  imports Prelude
begin

text \<open>
  The tree of \<open>platform/packages/tree\<close>: a vector of nodes, each with the index of its parent,
  the root first. Indices are 16 bits wide. A reference to a node is its index. The walk over
  the parents is a loop of the code and has a result only if it ends; it ends on the trees the
  contracts build, where a parent comes before its children.
\<close>

section \<open>Nodes\<close>

record 'v node =
  parent_index :: nat
  node_value :: 'v

type_synonym 'v tree = "'v node list"

definition root_index :: nat where
  "root_index = 0"

definition root_parent :: nat where
  "root_parent = 0"

definition node_new :: "nat \<Rightarrow> 'v \<Rightarrow> 'v node" where
  "node_new parent v = \<lparr>parent_index = parent, node_value = v\<rparr>"

definition map_node :: "('v \<Rightarrow> 'w) \<Rightarrow> 'v node \<Rightarrow> 'w node" where
  "map_node f n = \<lparr>parent_index = parent_index n, node_value = f (node_value n)\<rparr>"

definition tree_map :: "('v \<Rightarrow> 'w) \<Rightarrow> 'v tree \<Rightarrow> 'w tree" where
  "tree_map f t = map (map_node f) t"

text \<open>Indexing a vector out of its bounds aborts.\<close>

definition tree_node :: "'v tree \<Rightarrow> nat \<Rightarrow> 'v node option" where
  "tree_node t i = (if i < length t then Some (t ! i) else None)"

definition is_root :: "nat \<Rightarrow> bool" where
  "is_root i = (i = root_index)"

definition noderef_value :: "'v tree \<Rightarrow> nat \<Rightarrow> 'v option" where
  "noderef_value t i = map_option node_value (tree_node t i)"

definition noderef_parent :: "'v tree \<Rightarrow> nat \<Rightarrow> nat option option" where
  "noderef_parent t i =
     (if is_root i then Some None else map_option (\<lambda>n. Some (parent_index n)) (tree_node t i))"

text \<open>All items of \<open>parents_iter\<close>, the closest first.\<close>

partial_function (option) parents_iter :: "'v tree \<Rightarrow> nat \<Rightarrow> nat list option" where
  "parents_iter t i =
     do {
       parent \<leftarrow> noderef_parent t i;
       case parent of
         None \<Rightarrow> Some []
       | Some p \<Rightarrow> do { rest \<leftarrow> parents_iter t p; Some (p # rest) }
     }"

definition node_index_len :: "'v tree \<Rightarrow> nat option" where
  "node_index_len t = fits 16 (length t)"

definition tree_iter :: "'v tree \<Rightarrow> nat list option" where
  "tree_iter t = map_option (\<lambda>n. [0..<n]) (node_index_len t)"

text \<open>
  \<open>nodes[range.start..][..range.end]\<close>: a slice whose end is out of bounds aborts. The end of
  the range bounds the part that starts at its start. The closure \<open>f\<close> is pure here.
\<close>

definition vec_tail :: "nat \<Rightarrow> 'a list \<Rightarrow> 'a list option" where
  "vec_tail start xs = (if start \<le> length xs then Some (drop start xs) else None)"

definition vec_head :: "nat \<Rightarrow> 'a list \<Rightarrow> 'a list option" where
  "vec_head n xs = (if n \<le> length xs then Some (take n xs) else None)"

fun find_index_from :: "('v \<Rightarrow> bool) \<Rightarrow> nat \<Rightarrow> 'v node list \<Rightarrow> nat option" where
  "find_index_from f i [] = None"
| "find_index_from f i (n # ns) = (if f (node_value n) then Some i else find_index_from f (i + 1) ns)"

definition find_by_within :: "'v tree \<Rightarrow> nat \<Rightarrow> nat \<Rightarrow> ('v \<Rightarrow> bool) \<Rightarrow> nat option option" where
  "find_by_within t start stop f =
     do {
       from \<leftarrow> vec_tail start t;
       searched \<leftarrow> vec_head stop from;
       Some (find_index_from f start searched)
     }"

definition tree_find_by :: "'v tree \<Rightarrow> ('v \<Rightarrow> bool) \<Rightarrow> nat option option" where
  "tree_find_by t f = do { n \<leftarrow> node_index_len t; find_by_within t 0 n f }"

section \<open>Subtrees\<close>

record subtree =
  subtree_root_index :: nat
  subtree_length :: nat

definition subtree_from_tree :: "'v tree \<Rightarrow> subtree option" where
  "subtree_from_tree t =
     map_option (\<lambda>n. \<lparr>subtree_root_index = root_index, subtree_length = n\<rparr>) (node_index_len t)"

definition subtree_from_node :: "'v tree \<Rightarrow> nat \<Rightarrow> subtree option" where
  "subtree_from_node t i =
     do {
       next_index \<leftarrow> checked_add 16 i 1;
       following \<leftarrow> vec_tail next_index t;
       n \<leftarrow> fits 16 (1 + length (takeWhile (\<lambda>n. i \<le> parent_index n) following));
       Some \<lparr>subtree_root_index = i, subtree_length = n\<rparr>
     }"

definition subtree_range :: "subtree \<Rightarrow> (nat \<times> nat) option" where
  "subtree_range st =
     map_option (\<lambda>stop. (subtree_root_index st, stop))
       (checked_add 16 (subtree_root_index st) (subtree_length st))"

definition subtree_iter :: "subtree \<Rightarrow> nat list option" where
  "subtree_iter st = map_option (\<lambda>(start, stop). [start..<stop]) (subtree_range st)"

definition subtree_find_by :: "'v tree \<Rightarrow> subtree \<Rightarrow> ('v \<Rightarrow> bool) \<Rightarrow> nat option option" where
  "subtree_find_by t st f =
     do { (start, stop) \<leftarrow> subtree_range st; find_by_within t start stop f }"

section \<open>The human readable form\<close>

datatype 'v hrt = Leaf 'v | Branch 'v "'v hrt list"

text \<open>What deserializing makes of a value and its children.\<close>

definition hrt_node :: "'v \<Rightarrow> 'v hrt list \<Rightarrow> 'v hrt" where
  "hrt_node v children = (if children = [] then Leaf v else Branch v children)"

fun flatten :: "'v hrt \<Rightarrow> nat \<Rightarrow> nat \<Rightarrow> 'v tree option"
  and flatten_children :: "'v hrt list \<Rightarrow> nat \<Rightarrow> 'v tree \<Rightarrow> 'v tree option" where
  "flatten (Leaf v) parent this = Some [node_new parent v]"
| "flatten (Branch v children) parent this = flatten_children children this [node_new parent v]"
| "flatten_children [] this nodes = Some nodes"
| "flatten_children (c # cs) this nodes =
     (case c of
        Leaf v \<Rightarrow> flatten_children cs this (nodes @ [node_new this v])
      | Branch _ _ \<Rightarrow>
          do {
            len \<leftarrow> fits 16 (length nodes);
            child_index \<leftarrow> checked_add 16 this len;
            child_nodes \<leftarrow> flatten c this child_index;
            flatten_children cs this (nodes @ child_nodes)
          })"

definition into_tree :: "'v hrt \<Rightarrow> 'v tree option" where
  "into_tree h = flatten h root_parent root_index"

section \<open>Well-formed trees\<close>

definition tree_ok :: "'v tree \<Rightarrow> bool" where
  "tree_ok t \<longleftrightarrow> t \<noteq> [] \<and> parent_index (t ! 0) = 0 \<and> (\<forall>i < length t. 0 < i \<longrightarrow> parent_index (t ! i) < i)"

lemmas tree_op_defs [op_defs] =
  root_index_def root_parent_def node_new_def tree_node_def is_root_def noderef_value_def noderef_parent_def
  node_index_len_def tree_iter_def vec_tail_def vec_head_def find_by_within_def tree_find_by_def
  subtree_from_tree_def subtree_from_node_def subtree_range_def subtree_iter_def subtree_find_by_def
  into_tree_def

text \<open>The parents of a node of a well-formed tree, as a total function.\<close>

fun ancestors :: "'v tree \<Rightarrow> nat \<Rightarrow> nat list" where
  "ancestors t i = (if i = 0 \<or> i \<le> parent_index (t ! i) then []
     else parent_index (t ! i) # ancestors t (parent_index (t ! i)))"

declare ancestors.simps [simp del]

lemma ancestors_0 [simp]: "ancestors t 0 = []"
  by (simp add: ancestors.simps)

lemma ancestors_step:
  "tree_ok t \<Longrightarrow> 0 < i \<Longrightarrow> i < length t \<Longrightarrow>
    ancestors t i = parent_index (t ! i) # ancestors t (parent_index (t ! i))"
  by (subst ancestors.simps) (auto simp: tree_ok_def)

lemma parent_below: "tree_ok t \<Longrightarrow> 0 < i \<Longrightarrow> i < length t \<Longrightarrow> parent_index (t ! i) < i"
  by (simp add: tree_ok_def)

text \<open>The walk over the parents ends, and gives all of them up to the root.\<close>

lemma parents_iter_ends:
  assumes "tree_ok t" "i < length t"
  shows "parents_iter t i = Some (ancestors t i)"
  using assms(2)
proof (induction i rule: less_induct)
  case (less i)
  show ?case
  proof (cases "i = 0")
    case True
    then show ?thesis by (subst parents_iter.simps) (simp add: noderef_parent_def is_root_def root_index_def)
  next
    case False
    then have "parent_index (t ! i) < i" using less.prems assms(1) parent_below by blast
    then have "parents_iter t (parent_index (t ! i)) = Some (ancestors t (parent_index (t ! i)))"
      using less by simp
    then show ?thesis
      using False less.prems ancestors_step [OF assms(1), of i]
      by (subst parents_iter.simps) (simp add: noderef_parent_def is_root_def root_index_def tree_node_def)
  qed
qed

lemma ancestors_less:
  assumes "tree_ok t"
  shows "i < length t \<Longrightarrow> j \<in> set (ancestors t i) \<Longrightarrow> j < i"
proof (induction i rule: less_induct)
  case (less i)
  then have i: "0 < i" by (auto intro: gr0I)
  let ?p = "parent_index (t ! i)"
  have p: "?p < i" using parent_below [OF assms i] less.prems by simp
  then have "j = ?p \<or> j \<in> set (ancestors t ?p)"
    using less.prems ancestors_step [OF assms i] by simp
  then show ?case using less.IH [OF p] p less.prems(1) by fastforce
qed

lemma ancestors_last:
  assumes "tree_ok t" "0 < i" "i < length t"
  shows "ancestors t i \<noteq> [] \<and> last (ancestors t i) = 0"
  using assms(2,3)
proof (induction i rule: less_induct)
  case (less i)
  then show ?case
    using ancestors_step [OF assms(1), of i] parent_below [OF assms(1), of i]
    by (cases "parent_index (t ! i) = 0") auto
qed

fun preorder :: "'v hrt \<Rightarrow> 'v list" where
  "preorder (Leaf v) = [v]"
| "preorder (Branch v children) = v # concat (map preorder children)"

text \<open>A block of nodes laid out from the index \<open>this\<close> on, whose first node hangs on \<open>parent\<close>.\<close>

definition block_ok :: "nat \<Rightarrow> nat \<Rightarrow> 'v tree \<Rightarrow> bool" where
  "block_ok parent this ns \<longleftrightarrow> ns \<noteq> [] \<and> parent_index (ns ! 0) = parent
     \<and> (\<forall>i < length ns. 0 < i \<longrightarrow> this \<le> parent_index (ns ! i) \<and> parent_index (ns ! i) < this + i)"

lemma block_ok_single [simp]: "block_ok parent this [node_new parent v]"
  by (simp add: block_ok_def node_new_def)

lemma block_ok_append:
  assumes "block_ok parent this ns" "block_ok this (this + length ns) ms"
  shows "block_ok parent this (ns @ ms)"
proof -
  have len: "0 < length ns" using assms(1) by (simp add: block_ok_def)
  have "this \<le> parent_index (ms ! (i - length ns)) \<and> parent_index (ms ! (i - length ns)) < this + i"
    if i: "length ns \<le> i" "i < length ns + length ms" for i
  proof (cases "i = length ns")
    case True
    then show ?thesis using assms(2) len by (simp add: block_ok_def)
  next
    case False
    then have "0 < i - length ns" "i - length ns < length ms" using i by auto
    then have "this + length ns \<le> parent_index (ms ! (i - length ns))"
      "parent_index (ms ! (i - length ns)) < this + length ns + (i - length ns)"
      using assms(2) by (auto simp: block_ok_def)
    then show ?thesis using i by linarith
  qed
  then show ?thesis
    using assms(1) len by (auto simp: block_ok_def nth_append)
qed

lemma flatten_block:
  "flatten h parent this = Some ns \<Longrightarrow> block_ok parent this ns \<and> map node_value ns = preorder h"
  "flatten_children cs this nodes = Some ns \<Longrightarrow> block_ok parent this nodes \<Longrightarrow>
    block_ok parent this ns \<and> map node_value ns = map node_value nodes @ concat (map preorder cs)"
proof (induction h parent this and cs this nodes arbitrary: ns and parent ns
    rule: flatten_flatten_children.induct)
  case (1 v parent this)
  then show ?case by auto (simp add: node_new_def)
next
  case (2 v children parent this)
  then show ?case using "2.IH" [OF "2.prems" [unfolded flatten.simps(2)] block_ok_single]
    by (simp add: node_new_def)
next
  case (3 this nodes)
  then show ?case by simp
next
  case (4 c cs this nodes)
  show ?case
  proof (cases c)
    case (Leaf v)
    have "block_ok parent this (nodes @ [node_new this v])"
      using "4.prems"(2) by (rule block_ok_append) simp
    then show ?thesis using "4.IH"(1) [OF Leaf] "4.prems"(1) Leaf by (simp add: node_new_def)
  next
    case (Branch v children)
    then obtain ms where ms: "flatten c this (this + length nodes) = Some ms"
      "flatten_children cs this (nodes @ ms) = Some ns" "length nodes < 2 ^ 16" "this + length nodes < 2 ^ 16"
      using "4.prems"(1) by auto
    have m: "block_ok this (this + length nodes) ms" "map node_value ms = preorder c"
      using "4.IH"(2) [OF Branch _ _ ms(1)] ms(3,4) by auto
    then have "block_ok parent this (nodes @ ms)" using "4.prems"(2) by (intro block_ok_append)
    then show ?thesis using "4.IH"(3) [OF Branch _ _ ms(1) ms(2)] ms(3,4) m(2) by simp
  qed
qed

text \<open>What the contracts make of the tree they are given is well-formed and keeps the order.\<close>

lemma into_tree_ok:
  assumes "into_tree h = Some t"
  shows "tree_ok t" and "map node_value t = preorder h"
  using flatten_block(1) [OF assms [unfolded into_tree_def]]
  by (auto simp: tree_ok_def block_ok_def root_parent_def root_index_def)

end
