(* ===== verification/Supported_Pairs.thy ===== *)
theory Supported_Pairs
  imports Swap_Tree "HOL-Library.Char_ord" "HOL-Library.List_Lexorder"
begin

text \<open>
  The currency pairs the oracle supports (\<open>oracle/src/state/supported_pairs/mod.rs\<close> and
  \<open>oracle/src/api/swap.rs\<close>): a swap tree with the base currency in its root, where a node names
  a currency and the pool to swap it with the currency of its parent. A currency is named by
  its symbol; base and stable currency are arguments. Every node reference the code follows is a
  node on the way to the root, so a path is the list of the values on that way.
\<close>

record swap_target =
  pool_id :: nat
  target :: string

record swap_leg =
  leg_from :: string
  leg_to :: swap_target

datatype pairs_error =
    InvalidBaseCurrency string string
  | StableCurrencyNotInTree
  | DuplicatedNodes
  | UnsupportedCurrency string string

definition check_tree :: "string \<Rightarrow> string \<Rightarrow> swap_target tree \<Rightarrow> (pairs_error, unit) res" where
  "check_tree base_c stable_c t =
     and_then (or_panic (noderef_value t root_index)) (\<lambda>root.
       if target root \<noteq> base_c then Inl (Fail (InvalidBaseCurrency (target root) base_c))
       else and_then (or_panic (tree_iter t)) (\<lambda>indexes.
         let supported_currencies = sort (map (\<lambda>i. target (node_value (t ! i))) indexes) in
         if stable_c \<notin> set supported_currencies then Inl (Fail StableCurrencyNotInTree)
         else if list_ex (\<lambda>(a, b). a = b) (zip supported_currencies (tl supported_currencies))
         then Inl (Fail DuplicatedNodes)
         else Inr ()))"

definition supported_pairs_new ::
  "string \<Rightarrow> string \<Rightarrow> swap_target tree \<Rightarrow> (pairs_error, swap_target tree) res" where
  "supported_pairs_new base_c stable_c t = map_res (\<lambda>_. t) (check_tree base_c stable_c t)"

text \<open>The values from a node up to the root.\<close>

definition path_to_root :: "swap_target tree \<Rightarrow> nat \<Rightarrow> swap_target list option" where
  "path_to_root t i =
     do { parents \<leftarrow> parents_iter t i; those (map (noderef_value t) (i # parents)) }"

definition internal_load_path ::
  "string \<Rightarrow> swap_target tree \<Rightarrow> string \<Rightarrow> (pairs_error, swap_target list) res" where
  "internal_load_path base_c t query =
     and_then (or_panic (tree_find_by t (\<lambda>v. target v = query))) (\<lambda>found.
     and_then (ok_or (UnsupportedCurrency query base_c) found) (\<lambda>i. or_panic (path_to_root t i)))"

definition load_path :: "string \<Rightarrow> swap_target tree \<Rightarrow> string \<Rightarrow> (pairs_error, string list) res" where
  "load_path base_c t currency = map_res (map target) (internal_load_path base_c t currency)"

definition rfind_index :: "('a \<Rightarrow> bool) \<Rightarrow> 'a list \<Rightarrow> nat option" where
  "rfind_index P xs = find (\<lambda>i. P (xs ! i)) (rev [0..<length xs])"

text \<open>
  The walk of \<open>load_swap_path\<close> up from the first currency: at the first node that is on the way
  from the second currency too, that way is cut below the node and the walk stops.
\<close>

fun walk_up :: "swap_target list \<Rightarrow> swap_target list \<Rightarrow> swap_target list \<times> swap_target list" where
  "walk_up [] path_to = ([], path_to)"
| "walk_up (node # rest) path_to =
     (case rfind_index (\<lambda>to_node. node = to_node) path_to of
        Some index \<Rightarrow> ([], take index path_to)
      | None \<Rightarrow>
          let (path, path_to') = walk_up rest path_to
          in ((case rest of [] \<Rightarrow> []
               | parent # _ \<Rightarrow> [\<lparr>pool_id = pool_id node, target = target parent\<rparr>]) @ path, path_to'))"

definition load_swap_path ::
  "string \<Rightarrow> swap_target tree \<Rightarrow> string \<Rightarrow> string \<Rightarrow> (pairs_error, swap_target list) res" where
  "load_swap_path base_c t from to =
     and_then (internal_load_path base_c t from) (\<lambda>path_from.
     and_then (internal_load_path base_c t to) (\<lambda>path_to.
       let (path, path_to') = walk_up path_from path_to in Inr (path @ rev path_to')))"

definition leg_of :: "swap_target tree \<Rightarrow> nat \<Rightarrow> swap_leg list option" where
  "leg_of t i =
     do {
       parent \<leftarrow> noderef_parent t i;
       case parent of
         None \<Rightarrow> Some []
       | Some p \<Rightarrow>
           do {
             child \<leftarrow> noderef_value t i;
             parent_value \<leftarrow> noderef_value t p;
             Some [\<lparr>leg_from = target child,
                    leg_to = \<lparr>pool_id = pool_id child, target = target parent_value\<rparr>\<rparr>]
           }
     }"

definition swap_pairs_df :: "swap_target tree \<Rightarrow> swap_leg list option" where
  "swap_pairs_df t =
     do { indexes \<leftarrow> tree_iter t; legs \<leftarrow> those (map (leg_of t) indexes); Some (concat legs) }"

lemmas pairs_op_defs [op_defs] =
  check_tree_def supported_pairs_new_def path_to_root_def internal_load_path_def load_path_def
  rfind_index_def load_swap_path_def leg_of_def swap_pairs_df_def

section \<open>Validity\<close>

lemma adjacent_equal_sorted:
  fixes xs :: "'a::linorder list"
  assumes "sorted xs"
  shows "list_ex (\<lambda>(a, b). a = b) (zip xs (tl xs)) \<longleftrightarrow> \<not> distinct xs"
  using assms
proof (induction xs)
  case (Cons x xs)
  note IH = Cons
  show ?case
  proof (cases xs)
    case (Cons y ys)
    have le: "x \<le> y" "\<And>z. z \<in> set ys \<Longrightarrow> y \<le> z" using IH(2) Cons by simp_all
    have "x = y" if "x \<in> set ys" using le(1) le(2) [OF that] by (rule order.antisym)
    then have "x \<in> set xs \<longleftrightarrow> x = y"
      unfolding Cons by (metis list.set_intros(1) set_ConsD)
    moreover have "list_ex (\<lambda>(a, b). a = b) (zip xs (tl xs)) \<longleftrightarrow> \<not> distinct xs" using IH by simp
    ultimately show ?thesis unfolding Cons by simp
  qed simp
qed simp

lemma map_nth_upt: "map (\<lambda>i. f (xs ! i)) [0..<length xs] = map f xs"
  by (rule nth_equalityI) simp_all

lemma image_nth_upt: "(\<lambda>i. f (xs ! i)) ` {0..<length xs} = f ` set xs"
  using arg_cong [OF map_nth_upt [of f xs], of set] by simp

definition pairs_ok :: "string \<Rightarrow> string \<Rightarrow> swap_target tree \<Rightarrow> bool" where
  "pairs_ok base_c stable_c t \<longleftrightarrow> tree_ok t \<and> length t < 2 ^ 16
     \<and> target (node_value (t ! 0)) = base_c
     \<and> stable_c \<in> (\<lambda>n. target (node_value n)) ` set t
     \<and> distinct (map (\<lambda>n. target (node_value n)) t)"

lemma supported_pairs_new_Inr:
  "supported_pairs_new base_c stable_c t = Inr t' \<longleftrightarrow> t' = t \<and> t \<noteq> [] \<and> length t < 2 ^ 16
     \<and> target (node_value (t ! 0)) = base_c
     \<and> stable_c \<in> (\<lambda>n. target (node_value n)) ` set t
     \<and> distinct (map (\<lambda>n. target (node_value n)) t)"
proof (cases "t \<noteq> [] \<and> length t < 2 ^ 16")
  case False
  then show ?thesis
    by (auto simp: supported_pairs_new_def check_tree_def noderef_value_def tree_node_def root_index_def
        tree_iter_def node_index_len_def split: if_splits)
next
  case True
  note targets = map_nth_upt [of "\<lambda>n. target (node_value n)" t]
    image_nth_upt [of "\<lambda>n. target (node_value n)" t]
  then show ?thesis
    using True adjacent_equal_sorted [of "sort (map (\<lambda>n. target (node_value n)) t)"]
    by (auto simp: Let_def targets supported_pairs_new_def check_tree_def noderef_value_def tree_node_def root_index_def
        tree_iter_def node_index_len_def fits_def split: if_splits)
qed

end
