(* ===== verification/Price_Alarms.thy ===== *)
theory Price_Alarms
  imports Alarm_Index Base_Prices
begin

text \<open>
  The price alarms of the oracle: the store of \<open>marketprice/src/alarms/mod.rs\<close>, the alarm a
  subscriber asks for (\<open>oracle/src/api/alarms\<close>), and the dispatch over the current prices
  (\<open>oracle/src/contract/alarms\<close> and \<open>try_notify_alarms\<close> of \<open>contract/oracle/mod.rs\<close>).

  An alarm has a price below which it fires and, if asked for, one at or above which it
  fires. A price is kept normalized, as how much of the currency a fixed amount of the base
  currency buys, so a higher price has a lower normalized value. The index is read within
  the prefix of one currency.
\<close>

section \<open>The store\<close>

datatype price_alarm_error =
    InDeliveryLoadBelow
  | NonEmptyPriceAlarmsQueue string
  | EmptyPriceAlarmsQueue string

type_synonym norm_price = "string \<times> nat"

record alarm_with_subscriber =
  aws_subscriber :: addr
  aws_below :: norm_price
  aws_above :: "norm_price option"

record price_alarms =
  alarms_below :: "norm_price index"
  alarms_above_or_equal :: "norm_price index"
  alarms_in_delivery :: "alarm_with_subscriber list"

definition norm_scale :: nat where
  "norm_scale = 10 ^ 18"

definition normalized_new :: "string \<Rightarrow> ('c, 'q) price \<Rightarrow> norm_price option" where
  "normalized_new c p = map_option (\<lambda>t. (c, amount t)) (total (Coin norm_scale) (price_inv p))"

definition sub_prefix :: "norm_price index \<Rightarrow> string \<Rightarrow> (nat \<times> addr) list" where
  "sub_prefix m c = map (\<lambda>e. (snd (fst e), snd e)) (filter (\<lambda>e. fst (fst e) = c) m)"

definition iter_below :: "price_alarms \<Rightarrow> norm_price \<Rightarrow> addr list" where
  "iter_below s p =
     map snd (index_range None (Some (Exclusive (snd p, ''''))) (sub_prefix (alarms_below s) (fst p)))"

definition iter_above_or_equal :: "price_alarms \<Rightarrow> norm_price \<Rightarrow> addr list" where
  "iter_above_or_equal s p =
     map snd (index_range (Some (Exclusive (snd p, ''''))) None (sub_prefix (alarms_above_or_equal s) (fst p)))"

definition price_alarms_of :: "price_alarms \<Rightarrow> string \<Rightarrow> ('c, 'q) price \<Rightarrow> addr list option" where
  "price_alarms_of s c p =
     map_option (\<lambda>norm. iter_below s norm @ iter_above_or_equal s norm) (normalized_new c p)"

definition ensure_none_in_delivery :: "price_alarms \<Rightarrow> (price_alarm_error, unit) res" where
  "ensure_none_in_delivery s =
     (if alarms_in_delivery s = [] then Inr ()
      else Inl (Fail (NonEmptyPriceAlarmsQueue ''Assertion requested'')))"

definition add_alarm_below_internal :: "price_alarms \<Rightarrow> addr \<Rightarrow> norm_price \<Rightarrow> price_alarms" where
  "add_alarm_below_internal s subscriber p =
     s\<lparr>alarms_below := index_save (alarms_below s) subscriber p\<rparr>"

definition add_alarm_above_or_equal_internal :: "price_alarms \<Rightarrow> addr \<Rightarrow> norm_price \<Rightarrow> price_alarms" where
  "add_alarm_above_or_equal_internal s subscriber p =
     s\<lparr>alarms_above_or_equal := index_save (alarms_above_or_equal s) subscriber p\<rparr>"

definition remove_above_or_equal :: "price_alarms \<Rightarrow> addr \<Rightarrow> price_alarms" where
  "remove_above_or_equal s subscriber =
     s\<lparr>alarms_above_or_equal := index_remove (alarms_above_or_equal s) subscriber\<rparr>"

definition add_alarm ::
  "price_alarms \<Rightarrow> addr \<Rightarrow> string \<Rightarrow> ('c, 'q) price \<Rightarrow> ('c, 'q) price option \<Rightarrow> price_alarms option" where
  "add_alarm s subscriber c below above_or_equal =
     do {
       norm_below \<leftarrow> normalized_new c below;
       let s = add_alarm_below_internal s subscriber norm_below;
       case above_or_equal of
         None \<Rightarrow> Some (remove_above_or_equal s subscriber)
       | Some above_price \<Rightarrow>
           do {
             norm_above \<leftarrow> normalized_new c above_price;
             Some (add_alarm_above_or_equal_internal s subscriber norm_above)
           }
     }"

definition remove_all :: "price_alarms \<Rightarrow> addr \<Rightarrow> price_alarms" where
  "remove_all s subscriber =
     remove_above_or_equal (s\<lparr>alarms_below := index_remove (alarms_below s) subscriber\<rparr>) subscriber"

definition price_out_for_delivery :: "price_alarms \<Rightarrow> addr \<Rightarrow> (price_alarm_error, price_alarms) res" where
  "price_out_for_delivery s subscriber =
     and_then (ok_or InDeliveryLoadBelow (index_may_load (alarms_below s) subscriber)) (\<lambda>below.
       let s1 = s\<lparr>alarms_below := index_remove (alarms_below s) subscriber\<rparr>;
           above_price = index_may_load (alarms_above_or_equal s1) subscriber;
           s2 = (case above_price of
                   None \<Rightarrow> s1
                 | Some _ \<Rightarrow> s1\<lparr>alarms_above_or_equal := index_remove (alarms_above_or_equal s1) subscriber\<rparr>)
       in Inr (s2\<lparr>alarms_in_delivery := alarms_in_delivery s2 @
            [\<lparr>aws_subscriber = subscriber, aws_below = below, aws_above = above_price\<rparr>]\<rparr>))"

definition pop_front_in_delivery ::
  "price_alarms \<Rightarrow> string \<Rightarrow> (price_alarm_error, alarm_with_subscriber \<times> price_alarms) res" where
  "pop_front_in_delivery s error_on_empty =
     (case alarms_in_delivery s of
        [] \<Rightarrow> Inl (Fail (EmptyPriceAlarmsQueue error_on_empty))
      | alarm # rest \<Rightarrow> Inr (alarm, s\<lparr>alarms_in_delivery := rest\<rparr>))"

definition price_last_delivered :: "price_alarms \<Rightarrow> (price_alarm_error, price_alarms) res" where
  "price_last_delivered s = map_res snd (pop_front_in_delivery s ''Received success reply status'')"

definition price_last_failed :: "price_alarms \<Rightarrow> (price_alarm_error, price_alarms) res" where
  "price_last_failed s =
     map_res (\<lambda>(alarm, s).
         let s1 = add_alarm_below_internal s (aws_subscriber alarm) (aws_below alarm)
         in case aws_above alarm of
              Some above_price \<Rightarrow> add_alarm_above_or_equal_internal s1 (aws_subscriber alarm) above_price
            | None \<Rightarrow> s1)
       (pop_front_in_delivery s ''Received failure reply status'')"

section \<open>Asking for an alarm\<close>

datatype api_alarm_error = AlarmFinance finance_error | AlarmInvariantBroken string

record 'q alarm =
  alarm_below :: "'q base_price"
  alarm_above :: "'q base_price option"

definition alarm_invariant_held :: "'q alarm \<Rightarrow> (api_alarm_error, unit) res" where
  "alarm_invariant_held a =
     (case alarm_above a of
        None \<Rightarrow> Inr ()
      | Some above_or_equal \<Rightarrow>
          with_base_price above_or_equal (\<lambda>c (above_or_equal :: (unit, 'q) price).
            and_then (map_err AlarmFinance (try_as_specific c (alarm_below a))) (\<lambda>below_price.
              if price_lt above_or_equal below_price
              then Inl (Fail (AlarmInvariantBroken ''The below alarm price should be less than or equal to the above_or_equal alarm price''))
              else Inr ())))"

definition alarm_try_from :: "'q alarm \<Rightarrow> (api_alarm_error, 'q alarm) res" where
  "alarm_try_from unchecked = map_res (\<lambda>_. unchecked) (alarm_invariant_held unchecked)"

datatype oracle_alarm_error =
    OraclePrice finance_error
  | OracleAlarm price_alarm_error
  | OraclePlatform platform_error

definition try_add_price_alarm ::
  "price_alarms \<Rightarrow> addr \<Rightarrow> 'q alarm \<Rightarrow> (oracle_alarm_error, price_alarms) res" where
  "try_add_price_alarm s receiver a =
     with_base_price (alarm_below a) (\<lambda>c (below_price :: (unit, 'q) price).
       and_then
         (case alarm_above a of
            None \<Rightarrow> Inr None
          | Some base_price \<Rightarrow> map_err OraclePrice (map_res Some (try_as_specific c base_price)))
         (\<lambda>above_or_equal. or_panic (add_alarm s receiver c below_price above_or_equal)))"

definition add_price_alarm ::
  "(addr \<Rightarrow> nat option) \<Rightarrow> price_alarms \<Rightarrow> addr \<Rightarrow> 'q alarm \<Rightarrow> (oracle_alarm_error, price_alarms) res" where
  "add_price_alarm code_id_of s sender a =
     and_then (map_err OraclePlatform (validate_addr code_id_of sender)) (\<lambda>_.
       try_add_price_alarm s sender a)"

section \<open>Iterating over the alarms of all prices\<close>

text \<open>
  \<open>Iter\<close> of \<open>alarms/iter.rs\<close>: the prices still to look at and the alarms left for the last
  price. A price may be an error; reading it moves the price iterator on and keeps the
  alarms, which are exhausted then.
\<close>

definition next_alarms ::
  "price_alarms \<Rightarrow> ('e, 'q base_price) res \<Rightarrow> ('e, addr list) res" where
  "next_alarms s price_result =
     and_then price_result (\<lambda>price.
       with_base_price price (\<lambda>c (p :: (unit, 'q) price). or_panic (price_alarms_of s c p)))"

fun alarms_iter_next ::
  "price_alarms \<Rightarrow> ('e, 'q base_price) res list \<Rightarrow> addr list option \<Rightarrow>
     ('e, addr) res option \<times> ('e, 'q base_price) res list \<times> addr list option" where
  "alarms_iter_next s ps None = (None, ps, None)"
| "alarms_iter_next s ps (Some (a # rest)) = (Some (Inr a), ps, Some rest)"
| "alarms_iter_next s [] (Some []) = (None, [], None)"
| "alarms_iter_next s (p # ps) (Some []) =
     (case next_alarms s p of
        Inl e \<Rightarrow> (Some (Inl e), ps, Some [])
      | Inr alarms \<Rightarrow> alarms_iter_next s ps (Some alarms))"

fun take_alarms ::
  "price_alarms \<Rightarrow> nat \<Rightarrow> ('e, 'q base_price) res list \<Rightarrow> addr list option \<Rightarrow> ('e, addr list) res" where
  "take_alarms s 0 ps alarms = Inr []"
| "take_alarms s (Suc n) ps alarms =
     (case alarms_iter_next s ps alarms of
        (None, _, _) \<Rightarrow> Inr []
      | (Some (Inl e), _, _) \<Rightarrow> Inl e
      | (Some (Inr a), ps', alarms') \<Rightarrow> map_res ((#) a) (take_alarms s n ps' alarms'))"

text \<open>\<open>Iter::new\<close> reads the alarms of the first price, then up to \<open>max_count\<close> are collected.\<close>

definition notify_alarms ::
  "price_alarms \<Rightarrow> nat \<Rightarrow> ('e, 'q base_price) res list \<Rightarrow> ('e, addr list) res" where
  "notify_alarms s max_count prices =
     (case prices of
        [] \<Rightarrow> take_alarms s max_count prices None
      | p # ps \<Rightarrow> and_then (next_alarms s p) (\<lambda>alarms. take_alarms s max_count ps (Some alarms)))"

definition try_query_alarms :: "price_alarms \<Rightarrow> ('e, 'q base_price) res list \<Rightarrow> ('e, bool) res" where
  "try_query_alarms s prices = map_res (\<lambda>as. as \<noteq> []) (notify_alarms s 1 prices)"

datatype price_alarm_msg = PriceAlarm

definition oracle_reply_id :: nat where
  "oracle_reply_id = 0"

definition try_notify_alarms ::
  "(price_alarm_error \<Rightarrow> 'e) \<Rightarrow> price_alarms \<Rightarrow> ('e, 'q base_price) res list \<Rightarrow> nat \<Rightarrow>
     ('e, price_alarms \<times> nat \<times> price_alarm_msg alarms_dispatcher) res" where
  "try_notify_alarms alarm_err s prices max_count =
     and_then (map_err alarm_err (ensure_none_in_delivery s)) (\<lambda>_.
     and_then (notify_alarms s max_count prices) (\<lambda>subscribers.
     and_then
       (try_fold
         (\<lambda>(dispatcher, s) subscriber.
            map_res (\<lambda>s'. (send_to dispatcher subscriber oracle_reply_id, s'))
              (map_err alarm_err (price_out_for_delivery s subscriber)))
         (dispatcher_new PriceAlarm, s) subscribers)
       (\<lambda>(dispatcher, s'). map_res (\<lambda>n. (s', n, dispatcher)) (or_panic (nb_sent dispatcher)))))"

definition price_alarms_reply :: "price_alarms \<Rightarrow> bool \<Rightarrow> (price_alarm_error, price_alarms) res" where
  "price_alarms_reply s success = (if success then price_last_delivered s else price_last_failed s)"

lemmas price_alarm_op_defs [op_defs] =
  normalized_new_def sub_prefix_def iter_below_def iter_above_or_equal_def price_alarms_of_def
  ensure_none_in_delivery_def add_alarm_below_internal_def add_alarm_above_or_equal_internal_def
  remove_above_or_equal_def add_alarm_def remove_all_def price_out_for_delivery_def
  pop_front_in_delivery_def price_last_delivered_def price_last_failed_def alarm_invariant_held_def
  alarm_try_from_def try_add_price_alarm_def add_price_alarm_def next_alarms_def notify_alarms_def
  try_query_alarms_def try_notify_alarms_def price_alarms_reply_def validate_addr_def

end
