(* ===== verification/Oracle_Prices.thy ===== *)
theory Oracle_Prices
  imports Price_Feed Supported_Pairs Price_Alarms
begin

text \<open>
  Prices over several feeds (\<open>marketprice/src/market_price.rs\<close>), the prices of all supported
  currencies (\<open>oracle/src/contract/oracle/feed\<close>) and their feeding. A feed is stored by the
  namespace made of its two currencies. The groups of currencies are generated from the topology
  of the network: \<open>in_pool c q\<close> tells whether a pool of the two is known at build time.
\<close>

datatype oracle_error =
    OracleFeeders feeders_error
  | OracleFeeds feeds_error
  | OraclePairs pairs_error
  | OracleAlarms oracle_alarm_error
  | OracleDelivery price_alarm_error
  | OracleCurrency
  | OracleFinance finance_error
  | UnsupportedDenomPairs
  | UnknownFeeder
  | BrokenSwapTree oracle_error
  | RegisterFeederAddressValidation
  | UnregisterFeederAddressValidation

section \<open>Price DTO\<close>

text \<open>A price of two currencies known at run time only (\<open>finance/src/price/dto\<close>).\<close>

record price_dto =
  dto_base :: string
  dto_amount :: nat
  dto_quote :: string
  dto_amount_quote :: nat

definition visit_any_on_currencies ::
  "(string \<Rightarrow> string \<Rightarrow> bool) \<Rightarrow> string \<Rightarrow> string \<Rightarrow> 'e \<Rightarrow> ('e, 'a) res \<Rightarrow> ('e, 'a) res" where
  "visit_any_on_currencies in_pool c1 c2 not_in_pool visited =
     (if in_pool c1 c2 then visited else Inl (Fail not_in_pool))"

definition price_dto_held :: "(string \<Rightarrow> string \<Rightarrow> bool) \<Rightarrow> price_dto \<Rightarrow> (finance_error, price_dto) res" where
  "price_dto_held in_pool d =
     map_res (\<lambda>_. d)
       (visit_any_on_currencies in_pool (dto_base d) (dto_quote d) CurrencyError
         (let same = (dto_base d = dto_quote d)
          in and_then (price_try_new same (Coin (dto_amount d) :: unit coin) (Coin (dto_amount_quote d) :: unit coin))
               (price_invariant_held same)))"

definition with_price_dto ::
  "(string \<Rightarrow> string \<Rightarrow> bool) \<Rightarrow> price_dto \<Rightarrow> 'e \<Rightarrow> (pair_price \<Rightarrow> ('e, 'a) res) \<Rightarrow> ('e, 'a) res" where
  "with_price_dto in_pool d not_in_pool cmd =
     visit_any_on_currencies in_pool (dto_base d) (dto_quote d) not_in_pool
       (and_then (or_panic (price_new (Coin (dto_amount d)) (Coin (dto_amount_quote d)))) cmd)"

section \<open>Feeds\<close>

type_synonym feed_store = "string \<Rightarrow> observation list"

definition storage_ns :: "string \<Rightarrow> string \<Rightarrow> string" where
  "storage_ns c quote_c = ''o11s_'' @ c @ ''_'' @ quote_c"

definition feeds_add_observation ::
  "(string \<Rightarrow> string \<Rightarrow> bool) \<Rightarrow> feed_store \<Rightarrow> addr \<Rightarrow> timestamp \<Rightarrow> price_dto \<Rightarrow> timestamp \<Rightarrow>
     (feeds_error, feed_store) res" where
  "feeds_add_observation in_pool store from at d valid_since =
     (let ns = storage_ns (dto_base d) (dto_quote d) in
      with_price_dto in_pool d FeedsCurrency
        (\<lambda>p. Inr (store(ns := add_observation (store ns) from at p valid_since))))"

definition feeds_feed ::
  "(string \<Rightarrow> string \<Rightarrow> bool) \<Rightarrow> price_config \<Rightarrow> feed_store \<Rightarrow> timestamp \<Rightarrow> addr \<Rightarrow> price_dto list \<Rightarrow>
     (feeds_error, feed_store) res" where
  "feeds_feed in_pool c store at sender prices =
     try_fold
       (\<lambda>store price.
          and_then (or_panic (feed_valid_since c at)) (feeds_add_observation in_pool store sender at price))
       store prices"

definition price_of_feed ::
  "(addr list \<Rightarrow> addr list) \<Rightarrow> price_config \<Rightarrow> feed_store \<Rightarrow> timestamp \<Rightarrow> nat \<Rightarrow> string \<Rightarrow> string \<Rightarrow>
     (feeds_error, pair_price) res" where
  "price_of_feed hash_order c store at total_feeders amount_c quote_c =
     calc_price hash_order (store (storage_ns amount_c quote_c)) c at total_feeders"

text \<open>
  The price along a way to the base currency: \<open>PriceCollect\<close> multiplies the prices of the feeds
  it meets, and aborts on a currency that is in no pool with the one before.
\<close>

type_synonym feed_price = "string \<Rightarrow> string \<Rightarrow> (feeds_error, pair_price) res"

fun do_collect ::
  "(string \<Rightarrow> string \<Rightarrow> bool) \<Rightarrow> feed_price \<Rightarrow> string \<Rightarrow> pair_price \<Rightarrow> string list \<Rightarrow> (feeds_error, pair_price) res" where
  "do_collect in_pool price_of current price [] = or_panic (price_mul price price_identity)"
| "do_collect in_pool price_of current price (next_c # leaf_to_base) =
     (if \<not> in_pool current next_c then Inl Panic
      else and_then (price_of current next_c) (\<lambda>next_price.
           and_then (or_panic (price_mul price next_price)) (\<lambda>total_price.
             do_collect in_pool price_of next_c total_price leaf_to_base)))"

definition feeds_price ::
  "(string \<Rightarrow> string \<Rightarrow> bool) \<Rightarrow> feed_price \<Rightarrow> string list \<Rightarrow> (feeds_error, unit base_price) res" where
  "feeds_price in_pool price_of leaf_to_base =
     (case leaf_to_base of
        [] \<Rightarrow> Inl Panic
      | c # rest \<Rightarrow> map_res (base_from_price c) (do_collect in_pool price_of c price_identity rest))"

section \<open>All prices\<close>

text \<open>\<open>FedPrices::price\<close>: a missing price is not an error.\<close>

definition maybe_price :: "(feeds_error, pair_price) res \<Rightarrow> (oracle_error, pair_price option) res" where
  "maybe_price r =
     (case r of
        Inr p \<Rightarrow> Inr (Some p)
      | Inl Panic \<Rightarrow> Inl Panic
      | Inl (Fail e) \<Rightarrow> (if e = NoPrice then Inr None else Inl (Fail (OracleFeeds e))))"

text \<open>\<open>find_map\<close> over the stack from its top: the first price of the currency with its place.\<close>

fun find_parent :: "string \<Rightarrow> (nat \<times> unit base_price) list \<Rightarrow> ('e, (nat \<times> pair_price) option) res" where
  "find_parent quote_c [] = Inr None"
| "find_parent quote_c ((i, parent_bprice) # rest) =
     (case (try_as_specific quote_c parent_bprice :: (finance_error, pair_price) res) of
        Inr parent_price \<Rightarrow> Inr (Some (i, parent_price))
      | Inl (Fail _) \<Rightarrow> find_parent quote_c rest
      | Inl Panic \<Rightarrow> Inl Panic)"

definition leg_cmd_on ::
  "feed_price \<Rightarrow> unit base_price list \<Rightarrow> string \<Rightarrow> string \<Rightarrow>
     (oracle_error, unit base_price option \<times> unit base_price list) res" where
  "leg_cmd_on price_of stack b q =
     and_then (find_parent q (rev (enumerate 0 stack))) (\<lambda>found.
       case found of
         None \<Rightarrow> Inr (None, stack)
       | Some (i, parent_price) \<Rightarrow>
           and_then (maybe_price (price_of b q)) (\<lambda>res_price.
             case res_price of
               None \<Rightarrow> Inr (None, stack)
             | Some p \<Rightarrow>
                 and_then (or_panic (price_mul p parent_price)) (\<lambda>total_price.
                   let price = base_from_price b total_price
                   in Inr (Some price, take (i + 1) stack @ [price]))))"

fun scan_legs ::
  "(string \<Rightarrow> string \<Rightarrow> bool) \<Rightarrow> feed_price \<Rightarrow> unit base_price list \<Rightarrow> swap_leg list \<Rightarrow>
     (oracle_error, unit base_price) res list" where
  "scan_legs in_pool price_of stack [] = []"
| "scan_legs in_pool price_of stack (leg # legs) =
     (case visit_any_on_currencies in_pool (leg_from leg) (target (leg_to leg)) OracleCurrency
             (leg_cmd_on price_of stack (leg_from leg) (target (leg_to leg))) of
        Inl e \<Rightarrow> Inl e # scan_legs in_pool price_of stack legs
      | Inr (None, stack') \<Rightarrow> scan_legs in_pool price_of stack' legs
      | Inr (Some price, stack') \<Rightarrow> Inr price # scan_legs in_pool price_of stack' legs)"

definition leg_cmd_new :: "string \<Rightarrow> unit base_price list" where
  "leg_cmd_new base_c = [base_from_price base_c (price_identity :: pair_price)]"

definition all_prices_iter ::
  "(string \<Rightarrow> string \<Rightarrow> bool) \<Rightarrow> feed_price \<Rightarrow> string \<Rightarrow> swap_leg list \<Rightarrow> (oracle_error, unit base_price) res list" where
  "all_prices_iter in_pool price_of base_c legs = scan_legs in_pool price_of (leg_cmd_new base_c) legs"

text \<open>\<open>collect\<close>: the first error, or all prices.\<close>

fun collect_prices :: "('e, 'a) res list \<Rightarrow> ('e, 'a list) res" where
  "collect_prices [] = Inr []"
| "collect_prices (Inl e # rest) = Inl e"
| "collect_prices (Inr p # rest) = map_res ((#) p) (collect_prices rest)"

definition calc_base_price ::
  "(string \<Rightarrow> string \<Rightarrow> bool) \<Rightarrow> feed_price \<Rightarrow> string \<Rightarrow> swap_target tree \<Rightarrow> string \<Rightarrow> (oracle_error, unit base_price) res" where
  "calc_base_price in_pool price_of base_c t currency =
     and_then (map_err OraclePairs (load_path base_c t currency)) (\<lambda>leaf_to_base.
       map_err OracleFeeds (feeds_price in_pool price_of leaf_to_base))"

definition supports_price :: "swap_leg list \<Rightarrow> price_dto \<Rightarrow> bool" where
  "supports_price legs price =
     list_ex (\<lambda>leg. leg_from leg = dto_base price \<and> target (leg_to leg) = dto_quote price) legs"

definition oracle_feed_prices ::
  "(string \<Rightarrow> string \<Rightarrow> bool) \<Rightarrow> price_config \<Rightarrow> swap_target tree \<Rightarrow> feed_store \<Rightarrow> timestamp \<Rightarrow> addr \<Rightarrow> price_dto list \<Rightarrow>
     (oracle_error, feed_store) res" where
  "oracle_feed_prices in_pool c t store block_time sender prices =
     and_then (or_panic (if prices = [] then Some [] else swap_pairs_df t)) (\<lambda>legs.
       if list_ex (\<lambda>price. \<not> supports_price legs price) prices
       then Inl (Fail UnsupportedDenomPairs)
       else map_err OracleFeeds (feeds_feed in_pool c store block_time sender prices))"

lemmas oracle_price_op_defs [op_defs] =
  visit_any_on_currencies_def price_dto_held_def with_price_dto_def storage_ns_def feeds_add_observation_def
  feeds_feed_def price_of_feed_def feeds_price_def maybe_price_def leg_cmd_on_def leg_cmd_new_def
  all_prices_iter_def calc_base_price_def supports_price_def oracle_feed_prices_def

end
