(* ===== verification/Swap_Paths.thy ===== *)
theory Swap_Paths
  imports Supported_Pairs
begin

text \<open>
  The swap paths of the oracle. On a tree that passed the checks, the path between any two of
  its currencies exists, each of its swaps is along a supported pair in the pool of that pair,
  and it visits no currency twice.
\<close>

section \<open>Searching\<close>

lemma rfind_index_None: "rfind_index P xs = None \<longleftrightarrow> (\<forall>x \<in> set xs. \<not> P x)"
  by (auto simp: rfind_index_def find_None_iff all_set_conv_all_nth)

lemma rfind_index_Some:
  assumes "rfind_index P xs = Some i"
  shows "i < length xs \<and> P (xs ! i)"
  using assms by (auto simp: rfind_index_def find_Some_iff rev_nth)

lemma split_at:
  assumes "i < length xs" "xs ! i = v"
  shows "xs = take i xs @ v # drop (Suc i) xs"
  using assms id_take_nth_drop by blast

lemma find_index_from_Some:
  "find_index_from f k ns = Some i \<Longrightarrow> k \<le> i \<and> i < k + length ns \<and> f (node_value (ns ! (i - k)))"
  by (induction f k ns rule: find_index_from.induct) (auto split: if_splits simp: nth_Cons')

lemma find_index_from_None: "find_index_from f k ns = None \<longleftrightarrow> (\<forall>n \<in> set ns. \<not> f (node_value n))"
  by (induction f k ns rule: find_index_from.induct) auto

lemma tree_find_by_eq: "length t < 2 ^ 16 \<Longrightarrow> tree_find_by t f = Some (find_index_from f 0 t)"
  by (simp add: tree_find_by_def node_index_len_def fits_def find_by_within_def vec_tail_def vec_head_def)

section \<open>Ways to the root\<close>

text \<open>One step up: a node that is not the root, and the pair it stands for.\<close>

definition up_leg :: "swap_target tree \<Rightarrow> swap_target \<Rightarrow> swap_target \<Rightarrow> bool" where
  "up_leg t v u \<longleftrightarrow>
     (\<exists>i. 0 < i \<and> i < length t \<and> node_value (t ! i) = v \<and> node_value (t ! parent_index (t ! i)) = u)"

fun up_chain :: "swap_target tree \<Rightarrow> swap_target list \<Rightarrow> bool" where
  "up_chain t (v # u # vs) = (up_leg t v u \<and> up_chain t (u # vs))"
| "up_chain t vs = True"

definition way_up :: "swap_target tree \<Rightarrow> nat \<Rightarrow> swap_target list" where
  "way_up t i = map (\<lambda>j. node_value (t ! j)) (i # ancestors t i)"

lemma those_Some: "those (map Some xs) = Some xs"
  by (induction xs) auto

lemma path_to_root_eq:
  assumes "tree_ok t" "i < length t"
  shows "path_to_root t i = Some (way_up t i)"
proof -
  have "map (noderef_value t) (i # ancestors t i) = map Some (way_up t i)"
    using assms ancestors_less [OF assms]
    by (auto simp: way_up_def noderef_value_def tree_node_def dest!: less_trans [OF _ assms(2)])
  then show ?thesis
    using parents_iter_ends [OF assms] by (simp add: path_to_root_def those_Some del: list.map)
qed

lemma way_up_step:
  assumes "tree_ok t" "0 < i" "i < length t"
  shows "way_up t i = node_value (t ! i) # way_up t (parent_index (t ! i))"
  using ancestors_step [OF assms] by (simp add: way_up_def)

lemma way_up_root: "way_up t 0 = [node_value (t ! 0)]"
  by (simp add: way_up_def)

lemma way_up_facts:
  assumes "tree_ok t" "i < length t"
  shows "up_chain t (way_up t i)" and "last (way_up t i) = node_value (t ! 0)"
    and "set (way_up t i) \<subseteq> node_value ` set t" and "hd (way_up t i) = node_value (t ! i)"
proof -
  have "up_chain t (way_up t i) \<and> last (way_up t i) = node_value (t ! 0) \<and> set (way_up t i) \<subseteq> node_value ` set t"
    using assms(2)
  proof (induction i rule: less_induct)
    case (less i)
    show ?case
    proof (cases "i = 0")
      case True
      then show ?thesis using less.prems by (simp add: way_up_root)
    next
      case False
      let ?p = "parent_index (t ! i)"
      have p: "?p < i" "?p < length t" using False less.prems parent_below [OF assms(1), of i] by auto
      have "way_up t ?p = node_value (t ! ?p) # tl (way_up t ?p)" by (simp add: way_up_def)
      moreover have "up_leg t (node_value (t ! i)) (node_value (t ! ?p))"
        using False less.prems by (auto simp: up_leg_def)
      ultimately show ?thesis
        using less.IH [OF p(1,2)] False less.prems way_up_step [OF assms(1) _ less.prems]
        by (metis up_chain.simps(1) last_ConsR list.distinct(1) list.set(2) image_eqI insert_subset neq0_conv nth_mem)
    qed
  qed
  then show "up_chain t (way_up t i)" "last (way_up t i) = node_value (t ! 0)"
    "set (way_up t i) \<subseteq> node_value ` set t" by auto
  show "hd (way_up t i) = node_value (t ! i)" by (simp add: way_up_def)
qed

lemma ancestors_distinct:
  assumes "tree_ok t"
  shows "i < length t \<Longrightarrow> distinct (i # ancestors t i)"
proof (induction i rule: less_induct)
  case (less i)
  show ?case
  proof (cases "i = 0")
    case False
    have "parent_index (t ! i) < i" "parent_index (t ! i) < length t"
      using False less.prems parent_below [OF assms, of i] by auto
    then show ?thesis
      using less.IH [of "parent_index (t ! i)"] less.prems False ancestors_step [OF assms, of i]
        ancestors_less [OF assms less.prems] by auto
  qed simp
qed

lemma way_up_distinct:
  assumes "tree_ok t" "i < length t" "distinct (map (\<lambda>n. target (node_value n)) t)"
  shows "distinct (map target (way_up t i))"
proof -
  have "inj_on (\<lambda>j. target (node_value (t ! j))) {..<length t}"
    using assms(3) by (auto simp: inj_on_def distinct_conv_nth)
  moreover have "set (i # ancestors t i) \<subseteq> {..<length t}"
    using assms(2) ancestors_less [OF assms(1,2)] by (auto dest: less_trans)
  ultimately have "inj_on (\<lambda>j. target (node_value (t ! j))) (set (i # ancestors t i))"
    by (rule inj_on_subset)
  then have "distinct (map (\<lambda>j. target (node_value (t ! j))) (i # ancestors t i))"
    using ancestors_distinct [OF assms(1,2)] by (simp only: distinct_map)
  then show ?thesis by (simp add: way_up_def comp_def)
qed

section \<open>Swapping along a path\<close>

text \<open>
  A swap takes an amount of the currency \<open>a\<close> to the target in the pool of the target: it is
  supported if the pair of the two is, in that pool, in either direction.
\<close>

definition swap_supported :: "swap_leg list \<Rightarrow> string \<Rightarrow> swap_target \<Rightarrow> bool" where
  "swap_supported legs a s \<longleftrightarrow> \<lparr>leg_from = a, leg_to = s\<rparr> \<in> set legs
     \<or> \<lparr>leg_from = target s, leg_to = \<lparr>pool_id = pool_id s, target = a\<rparr>\<rparr> \<in> set legs"

fun swaps_supported :: "swap_leg list \<Rightarrow> string \<Rightarrow> swap_target list \<Rightarrow> bool" where
  "swaps_supported legs a [] = True"
| "swaps_supported legs a (s # ss) = (swap_supported legs a s \<and> swaps_supported legs (target s) ss)"

lemma swaps_supported_append:
  "swaps_supported legs a (xs @ ys) \<longleftrightarrow>
     swaps_supported legs a xs \<and> swaps_supported legs (last (a # map target xs)) ys"
  by (induction xs arbitrary: a) auto

definition legs_up :: "swap_target tree \<Rightarrow> swap_leg list" where
  "legs_up t = concat (map (\<lambda>i. if i = 0 then [] else
     [\<lparr>leg_from = target (node_value (t ! i)),
       leg_to = \<lparr>pool_id = pool_id (node_value (t ! i)),
         target = target (node_value (t ! parent_index (t ! i)))\<rparr>\<rparr>]) [0..<length t])"

lemma swap_pairs_eq:
  assumes "tree_ok t" "length t < 2 ^ 16"
  shows "swap_pairs_df t = Some (legs_up t)"
proof -
  let ?leg = "\<lambda>i. if i = 0 then [] else
     [\<lparr>leg_from = target (node_value (t ! i)),
       leg_to = \<lparr>pool_id = pool_id (node_value (t ! i)),
         target = target (node_value (t ! parent_index (t ! i)))\<rparr>\<rparr>]"
  have "leg_of t i = Some (?leg i)" if "i < length t" for i
    using that less_trans [OF parent_below [OF assms(1) _ that] that]
    by (auto simp: leg_of_def noderef_parent_def is_root_def root_index_def noderef_value_def tree_node_def)
  then have "map (leg_of t) [0..<length t] = map Some (map ?leg [0..<length t])" by simp
  then have "those (map (leg_of t) [0..<length t]) = Some (map ?leg [0..<length t])" by (simp only: those_Some)
  then show ?thesis
    using assms(2) by (simp add: swap_pairs_df_def tree_iter_def node_index_len_def fits_def legs_up_def)
qed

lemma up_leg_in_legs:
  "up_leg t v u \<Longrightarrow> \<lparr>leg_from = target v, leg_to = \<lparr>pool_id = pool_id v, target = target u\<rparr>\<rparr> \<in> set (legs_up t)"
  by (fastforce simp: up_leg_def legs_up_def)

lemma up_chain_append: "up_chain t (xs @ ys) \<Longrightarrow> up_chain t xs \<and> up_chain t ys"
proof (induction xs)
  case (Cons x xs)
  then show ?case by (cases xs; cases ys) auto
qed simp

lemma up_chain_down:
  assumes "up_chain t (xs @ [c])"
  shows "swaps_supported (legs_up t) (target c) (rev xs)"
  using assms
proof (induction xs arbitrary: c rule: rev_induct)
  case (snoc x xs)
  have chain: "up_chain t (xs @ [x])" "up_leg t x c"
    using snoc.prems up_chain_append [of t "xs @ [x]" "[c]"] up_chain_append [of t xs "[x, c]"] by auto
  have "swap_supported (legs_up t) (target c) x"
    using up_leg_in_legs [OF chain(2)] by (cases x) (auto simp: swap_supported_def)
  then show ?case using snoc.IH [OF chain(1)] by simp
qed simp

text \<open>
  The walk up stops at a node \<open>c\<close> of both ways, reached over the nodes \<open>as\<close> that are not on the
  other way, and cuts the other way below it.
\<close>

definition walk_meets ::
  "swap_target tree \<Rightarrow> swap_target list \<Rightarrow> swap_target list \<Rightarrow> swap_target list \<Rightarrow> swap_target list
    \<Rightarrow> swap_target list \<Rightarrow> swap_target \<Rightarrow> swap_target list \<Rightarrow> bool" where
  "walk_meets t ps qs path qs' as c rest \<longleftrightarrow>
     qs = qs' @ c # rest \<and> set as \<inter> set qs = {}
   \<and> (\<exists>ps'. ps = as @ c # ps')
   \<and> swaps_supported (legs_up t) (target (hd ps)) path
   \<and> target (hd ps) # map target path = map target (as @ [c])"

lemma walk_up_spec:
  assumes "ps \<noteq> []" "up_chain t ps" "last ps \<in> set qs" "walk_up ps qs = (path, qs')"
  shows "\<exists>as c rest. walk_meets t ps qs path qs' as c rest"
  using assms
proof (induction ps arbitrary: path)
  case (Cons v vs)
  show ?case
  proof (cases "rfind_index (\<lambda>w. v = w) qs")
    case (Some i)
    then have "qs = qs' @ v # drop (Suc i) qs" "path = []"
      using Cons.prems(4) rfind_index_Some [OF Some] split_at [of i qs v] by auto
    then have "walk_meets t (v # vs) qs path qs' [] v (drop (Suc i) qs)"
      by (auto simp: walk_meets_def)
    then show ?thesis by blast
  next
    case None
    then have notin: "v \<notin> set qs" by (auto simp: rfind_index_None)
    then obtain u us where vs: "vs = u # us" using Cons.prems(3) by (cases vs) auto
    obtain path1 where p: "walk_up vs qs = (path1, qs')"
      "path = \<lparr>pool_id = pool_id v, target = target u\<rparr> # path1"
      using Cons.prems(4) None unfolding vs walk_up.simps(2) [of v] by (auto split: prod.splits)
    have "vs \<noteq> []" "up_chain t vs" "last vs \<in> set qs" "up_leg t v u"
      using Cons.prems(2,3) vs by auto
    then obtain as c rest where "walk_meets t vs qs path1 qs' as c rest"
      using Cons.IH [OF _ _ _ p(1)] by blast
    then have m: "qs = qs' @ c # rest" "set as \<inter> set qs = {}" "\<exists>ps'. vs = as @ c # ps'"
      "swaps_supported (legs_up t) (target u) path1" "target u # map target path1 = map target (as @ [c])"
      by (auto simp: walk_meets_def vs)
    have "swap_supported (legs_up t) (target v) \<lparr>pool_id = pool_id v, target = target u\<rparr>"
      using up_leg_in_legs [OF \<open>up_leg t v u\<close>] by (simp add: swap_supported_def)
    then have "walk_meets t (v # vs) qs path qs' (v # as) c rest"
      unfolding walk_meets_def using m notin p(2) by simp
    then show ?thesis by blast
  qed
qed simp

section \<open>Swap paths\<close>

definition tree_currencies :: "swap_target tree \<Rightarrow> string set" where
  "tree_currencies t = (\<lambda>n. target (node_value n)) ` set t"

lemma internal_load_path_eq:
  assumes "pairs_ok base_c stable_c t"
  shows "c \<notin> tree_currencies t \<Longrightarrow> internal_load_path base_c t c = Inl (Fail (UnsupportedCurrency c base_c))"
    and "c \<in> tree_currencies t \<Longrightarrow>
      \<exists>i < length t. internal_load_path base_c t c = Inr (way_up t i) \<and> target (node_value (t ! i)) = c"
proof -
  have t: "tree_ok t" "length t < 2 ^ 16" using assms by (auto simp: pairs_ok_def)
  let ?find = "find_index_from (\<lambda>v. target v = c) 0 t"
  have load: "internal_load_path base_c t c
      = and_then (ok_or (UnsupportedCurrency c base_c) ?find) (\<lambda>i. or_panic (path_to_root t i))"
    by (simp add: internal_load_path_def tree_find_by_eq [OF t(2)])
  show "internal_load_path base_c t c = Inl (Fail (UnsupportedCurrency c base_c))" if "c \<notin> tree_currencies t"
    using that find_index_from_None [of "\<lambda>v. target v = c" 0 t] by (auto simp: load tree_currencies_def)
  show "\<exists>i < length t. internal_load_path base_c t c = Inr (way_up t i) \<and> target (node_value (t ! i)) = c"
    if "c \<in> tree_currencies t"
  proof -
    from that obtain i where i: "?find = Some i"
      using find_index_from_None [of "\<lambda>v. target v = c" 0 t] by (cases ?find) (auto simp: tree_currencies_def)
    then have "i < length t" "target (node_value (t ! i)) = c" using find_index_from_Some [OF i] by auto
    then show ?thesis using i load path_to_root_eq [OF t(1)] by auto
  qed
qed

lemma node_of_target:
  assumes "pairs_ok base_c stable_c t" "v \<in> node_value ` set t" "u \<in> node_value ` set t" "target v = target u"
  shows "v = u"
proof -
  have "inj_on (\<lambda>n. target (node_value n)) (set t)" using assms(1) by (simp add: pairs_ok_def distinct_map)
  then show ?thesis using assms(2-4) by (auto dest: inj_onD)
qed

text \<open>
  C33. On a supported swap tree, the swap path between two currencies is refused only if one of
  them is not in the tree. Otherwise it leads from the first currency to the second, each of its
  swaps is a supported pair of the tree, in either direction and in the pool of that pair, and no
  currency is visited twice.
\<close>

theorem swap_path_spec:
  assumes ok: "pairs_ok base_c stable_c t"
  shows "(case load_swap_path base_c t from to of
      Inl e \<Rightarrow> \<exists>c \<in> {from, to}. c \<notin> tree_currencies t \<and> e = Fail (UnsupportedCurrency c base_c)
    | Inr path \<Rightarrow> from \<in> tree_currencies t \<and> to \<in> tree_currencies t
        \<and> (\<exists>legs. swap_pairs_df t = Some legs \<and> swaps_supported legs from path)
        \<and> last (from # map target path) = to
        \<and> distinct (from # map target path))"
proof (cases "from \<in> tree_currencies t \<and> to \<in> tree_currencies t")
  case False
  then show ?thesis
  proof (cases "from \<in> tree_currencies t")
    case True
    then obtain i where "internal_load_path base_c t from = Inr (way_up t i)"
      using internal_load_path_eq(2) [OF ok] by blast
    then show ?thesis
      using False True internal_load_path_eq(1) [OF ok, of to] by (simp add: load_swap_path_def)
  qed (simp add: load_swap_path_def internal_load_path_eq(1) [OF ok])
next
  case True
  have t: "tree_ok t" "length t < 2 ^ 16" and dist: "distinct (map (\<lambda>n. target (node_value n)) t)"
    using ok by (auto simp: pairs_ok_def)
  obtain i where i: "i < length t" "internal_load_path base_c t from = Inr (way_up t i)" "target (node_value (t ! i)) = from"
    using internal_load_path_eq(2) [OF ok] True by blast
  obtain j where j: "j < length t" "internal_load_path base_c t to = Inr (way_up t j)" "target (node_value (t ! j)) = to"
    using internal_load_path_eq(2) [OF ok] True by blast
  let ?ps = "way_up t i" and ?qs = "way_up t j"
  note ps = way_up_facts [OF t(1) i(1)] and qs = way_up_facts [OF t(1) j(1)]
  have ne: "?ps \<noteq> []" "?qs \<noteq> []" by (simp_all add: way_up_def)
  obtain path qs' where w: "walk_up ?ps ?qs = (path, qs')" by (cases "walk_up ?ps ?qs")
  then have load: "load_swap_path base_c t from to = Inr (path @ rev qs')"
    using i(2) j(2) by (simp add: load_swap_path_def)
  have "last ?ps \<in> set ?qs" using ps(2) qs(2) ne last_in_set by metis
  then obtain as c rest where m: "walk_meets t ?ps ?qs path qs' as c rest"
    using walk_up_spec [OF ne(1) ps(1) _ w] by blast
  have first: "target (hd ?ps) = from" and final: "target (hd ?qs) = to" using ps(4) qs(4) i(3) j(3) by auto
  have split: "?qs = qs' @ c # rest" "set as \<inter> set ?qs = {}" "\<exists>ps'. ?ps = as @ c # ps'"
    and up: "swaps_supported (legs_up t) from path" "from # map target path = map target (as @ [c])"
    using m first by (auto simp: walk_meets_def)
  have "up_chain t (qs' @ [c])"
    using qs(1) split(1) up_chain_append [of t "qs' @ [c]" rest] by simp
  then have down: "swaps_supported (legs_up t) (target c) (rev qs')" by (rule up_chain_down)
  have "last (from # map target path) = target c" unfolding up(2) by simp
  then have "swaps_supported (legs_up t) from (path @ rev qs')"
    using up(1) down by (simp add: swaps_supported_append)
  moreover have hops: "from # map target (path @ rev qs') = map target (as @ [c]) @ map target (rev qs')"
    using up(2) by simp
  moreover have "last (map target (as @ [c]) @ map target (rev qs')) = to"
    using final split(1) by (cases qs') auto
  moreover have "distinct (map target (as @ [c]) @ map target (rev qs'))"
  proof -
    have "distinct (map target ?ps)" "distinct (map target ?qs)"
      using way_up_distinct [OF t(1) _ dist] i(1) j(1) by auto
    then have d: "distinct (map target (as @ [c]))" "distinct (map target (qs' @ [c]))"
      using split by auto
    have "target v \<noteq> target u" if "v \<in> set as" "u \<in> set qs'" for v u
    proof
      assume "target v = target u"
      moreover have "v \<in> node_value ` set t" "u \<in> node_value ` set t"
        using that ps(3) qs(3) split by auto
      ultimately have "v = u" using node_of_target [OF ok] by blast
      then show False using that split by auto
    qed
    then show ?thesis using d by (auto simp: distinct_map)
  qed
  ultimately have "swaps_supported (legs_up t) from (path @ rev qs')"
    "last (from # map target (path @ rev qs')) = to" "distinct (from # map target (path @ rev qs'))"
    by (simp_all only: hops)
  then show ?thesis
    using True load swap_pairs_eq [OF t] by (simp only: sum.case) blast
qed

definition example_tree :: "swap_target tree" where
  "example_tree =
     [\<lparr>parent_index = 0, node_value = \<lparr>pool_id = 0, target = ''USDC''\<rparr>\<rparr>,
      \<lparr>parent_index = 0, node_value = \<lparr>pool_id = 5, target = ''OSMO''\<rparr>\<rparr>,
      \<lparr>parent_index = 1, node_value = \<lparr>pool_id = 12, target = ''ATOM''\<rparr>\<rparr>,
      \<lparr>parent_index = 1, node_value = \<lparr>pool_id = 3, target = ''BTC''\<rparr>\<rparr>]"

lemma example_tree_ok: "pairs_ok ''USDC'' ''USDC'' example_tree"
  by (auto simp: pairs_ok_def tree_ok_def example_tree_def nth_Cons')

theorem swap_path_spec_witness:
  "case load_swap_path ''USDC'' example_tree ''ATOM'' ''BTC'' of Inl e \<Rightarrow> False
   | Inr path \<Rightarrow> last (''ATOM'' # map target path) = ''BTC'' \<and> distinct (''ATOM'' # map target path)"
  using swap_path_spec [OF example_tree_ok, of "''ATOM''" "''BTC''"]
  by (auto simp: tree_currencies_def example_tree_def split: sum.splits)

text \<open>
  C34. A swap tree given in its human readable form is well-formed, a parent before its children, so
  every way to the root ends. It is accepted exactly when it has at most 65535 nodes, its root is
  the base currency, the stable currency is in the tree and no currency is there twice.
\<close>

theorem supported_pairs_spec:
  assumes "into_tree h = Some t"
  shows "tree_ok t \<and> map node_value t = preorder h
    \<and> (\<forall>i < length t. \<exists>parents. parents_iter t i = Some parents)
    \<and> (supported_pairs_new base_c stable_c t = Inr t' \<longleftrightarrow> t' = t \<and> length t < 2 ^ 16
        \<and> target (node_value (t ! 0)) = base_c \<and> stable_c \<in> tree_currencies t
        \<and> distinct (map (\<lambda>n. target (node_value n)) t))"
  using supported_pairs_new_Inr [of base_c stable_c t t'] into_tree_ok [OF assms] parents_iter_ends [of t]
  by (auto simp: tree_currencies_def tree_ok_def)

theorem supported_pairs_spec_witness:
  "\<exists>t. into_tree (Branch \<lparr>pool_id = 0, target = ''USDC''\<rparr> [Branch \<lparr>pool_id = 5, target = ''OSMO''\<rparr>
      [Leaf \<lparr>pool_id = 12, target = ''ATOM''\<rparr>], Leaf \<lparr>pool_id = 3, target = ''NLS''\<rparr>]) = Some t
    \<and> supported_pairs_new ''USDC'' ''USDC'' t = Inr t"
proof -
  let ?h = "Branch \<lparr>pool_id = 0, target = ''USDC''\<rparr> [Branch \<lparr>pool_id = 5, target = ''OSMO''\<rparr>
      [Leaf \<lparr>pool_id = 12, target = ''ATOM''\<rparr>], Leaf \<lparr>pool_id = 3, target = ''NLS''\<rparr>]"
  have "\<exists>t. into_tree ?h = Some t" by (simp add: into_tree_def root_index_def)
  then obtain t where t: "into_tree ?h = Some t" by blast
  have "t = [\<lparr>parent_index = 0, node_value = \<lparr>pool_id = 0, target = ''USDC''\<rparr>\<rparr>,
      \<lparr>parent_index = 0, node_value = \<lparr>pool_id = 5, target = ''OSMO''\<rparr>\<rparr>,
      \<lparr>parent_index = 1, node_value = \<lparr>pool_id = 12, target = ''ATOM''\<rparr>\<rparr>,
      \<lparr>parent_index = 0, node_value = \<lparr>pool_id = 3, target = ''NLS''\<rparr>\<rparr>]"
    using t by (auto simp: into_tree_def node_new_def root_index_def root_parent_def)
  then show ?thesis
    using t supported_pairs_spec [OF t, of "''USDC''" "''USDC''" t] by (auto simp: tree_currencies_def)
qed

end
