(* ===== verification/Tree_Order.thy ===== *)
theory Tree_Order
  imports Swap_Paths
begin

text \<open>
  The order of the nodes of a swap tree made of its human readable form: depth first, the
  parent of a node is the node before it or one of the ancestors of that. So a node whose index
  lies between a node and a descendant of it is a descendant too.
\<close>

section \<open>Ancestors\<close>

definition anc_self :: "'v tree \<Rightarrow> nat \<Rightarrow> nat \<Rightarrow> bool" where
  "anc_self t a i \<longleftrightarrow> a = i \<or> a \<in> set (ancestors t i)"

lemma anc_self_refl [simp]: "anc_self t i i"
  by (simp add: anc_self_def)

lemma anc_self_root [simp]: "anc_self t a 0 \<longleftrightarrow> a = 0"
  by (simp add: anc_self_def)

lemma anc_self_step:
  "tree_ok t \<Longrightarrow> 0 < i \<Longrightarrow> i < length t \<Longrightarrow> anc_self t a i \<longleftrightarrow> a = i \<or> anc_self t a (parent_index (t ! i))"
  by (auto simp: anc_self_def ancestors_step)

lemma anc_self_le: "tree_ok t \<Longrightarrow> i < length t \<Longrightarrow> anc_self t a i \<Longrightarrow> a \<le> i"
  using ancestors_less [of t i a] by (auto simp: anc_self_def)

lemma anc_self_trans:
  assumes "tree_ok t" "i < length t" "anc_self t b i" "anc_self t a b"
  shows "anc_self t a i"
  using assms(2,3)
proof (induction i rule: less_induct)
  case (less i)
  show ?case
  proof (cases "b = i")
    case True
    then show ?thesis using assms(4) by simp
  next
    case False
    then have i: "0 < i" using less.prems by (auto intro: gr0I)
    have p: "parent_index (t ! i) < i" by (rule parent_below [OF assms(1) i less.prems(1)])
    have "anc_self t b (parent_index (t ! i))"
      using less.prems False anc_self_step [OF assms(1) i] by simp
    then have "anc_self t a (parent_index (t ! i))" using less.IH [OF p] p less.prems(1) by simp
    then show ?thesis using anc_self_step [OF assms(1) i less.prems(1)] by simp
  qed
qed

lemma ancestors_append:
  assumes "tree_ok t"
  shows "i < length t \<Longrightarrow> ancestors (t @ u) i = ancestors t i"
proof (induction i rule: less_induct)
  case (less i)
  show ?case
  proof (cases "i = 0")
    case False
    then have "parent_index (t ! i) < i" using parent_below [OF assms] less.prems by blast
    then show ?thesis
      using less False by (simp add: ancestors.simps [of _ i] nth_append)
  qed simp
qed

lemma anc_self_append: "tree_ok t \<Longrightarrow> i < length t \<Longrightarrow> anc_self (t @ u) a i = anc_self t a i"
  by (simp add: anc_self_def ancestors_append)

section \<open>Depth first order\<close>

definition tree_df :: "'v tree \<Rightarrow> bool" where
  "tree_df t \<longleftrightarrow> tree_ok t \<and> (\<forall>i < length t. 0 < i \<longrightarrow> anc_self t (parent_index (t ! i)) (i - 1))"

lemma tree_df_between:
  assumes df: "tree_df t" and a: "anc_self t a i" "i < length t" and j: "a \<le> j" "j \<le> i"
  shows "anc_self t a j"
  using a j(2)
proof (induction i)
  case (Suc i)
  have ok: "tree_ok t" using df by (simp add: tree_df_def)
  show ?case
  proof (cases "a = Suc i \<or> j = Suc i")
    case True
    then show ?thesis using Suc.prems j by auto
  next
    case False
    then have "anc_self t a (parent_index (t ! Suc i))"
      using anc_self_step [OF ok, of "Suc i"] Suc.prems by simp
    moreover have "anc_self t (parent_index (t ! Suc i)) i"
      using df Suc.prems(2) by (force simp: tree_df_def)
    ultimately have "anc_self t a i" using anc_self_trans [OF ok] Suc.prems(2) by auto
    then show ?thesis using Suc False by simp
  qed
qed simp

lemma tree_df_snoc:
  assumes "tree_df t" "anc_self t p (length t - 1)"
  shows "tree_df (t @ [node_new p v])" and "anc_self (t @ [node_new p v]) p (length t)"
proof -
  have ok: "tree_ok t" and t: "t \<noteq> []" using assms(1) by (auto simp: tree_df_def tree_ok_def)
  let ?t = "t @ [node_new p v]"
  have "p \<le> length t - 1" using anc_self_le [OF ok _ assms(2)] t by simp
  then have p: "p < length t" using t by (cases t) auto
  have ok': "tree_ok ?t"
    using ok p t by (auto simp: tree_ok_def nth_append node_new_def less_Suc_eq)
  have "anc_self ?t (parent_index (?t ! i)) (i - 1)" if i: "i < length ?t" "0 < i" for i
  proof (cases "i < length t")
    case True
    then show ?thesis
      using assms(1) i by (simp add: tree_df_def nth_append anc_self_append [OF ok])
  next
    case False
    then show ?thesis
      using i assms(2) t by (simp add: nth_append node_new_def anc_self_append [OF ok] less_Suc_eq)
  qed
  then show df: "tree_df ?t" using ok' by (simp add: tree_df_def)
  show "anc_self ?t p (length t)"
    using anc_self_step [OF ok', of "length t"] t by (simp add: nth_append node_new_def)
qed

text \<open>A block of nodes to lay out after the nodes \<open>pre\<close>, under the node \<open>parent\<close>.\<close>

definition hangs :: "'v tree \<Rightarrow> nat \<Rightarrow> bool" where
  "hangs pre parent \<longleftrightarrow> (if pre = [] then parent = 0 else tree_df pre \<and> anc_self pre parent (length pre - 1))"

lemma hangs_node:
  assumes "hangs pre parent"
  shows "tree_df (pre @ [node_new parent v])"
proof (cases "pre = []")
  case True
  then show ?thesis using assms by (simp add: hangs_def tree_df_def tree_ok_def node_new_def)
next
  case False
  then show ?thesis using assms tree_df_snoc(1) by (auto simp: hangs_def)
qed

lemma hangs_self: "tree_df (pre @ [node_new parent v]) \<Longrightarrow> hangs (pre @ [node_new parent v]) (length pre)"
  by (simp add: hangs_def)

lemma hangs_snoc:
  assumes "hangs t p" "t \<noteq> []"
  shows "hangs (t @ [node_new p v]) p"
  using assms tree_df_snoc [of t p] by (auto simp: hangs_def)

lemma hangs_up:
  assumes "hangs t p" "t \<noteq> []" "anc_self t q p" shows "hangs t q"
proof -
  have ok: "tree_ok t" using assms by (simp add: hangs_def tree_df_def)
  have "anc_self t q (length t - 1)"
    by (rule anc_self_trans [OF ok, of _ p]) (use assms in \<open>auto simp: hangs_def\<close>)
  then show ?thesis using assms by (simp add: hangs_def)
qed

lemma flatten_df:
  "flatten h parent this = Some ns \<Longrightarrow> hangs pre parent \<Longrightarrow> this = length pre \<Longrightarrow>
    hangs (pre @ ns) this \<and> ns \<noteq> [] \<and> (pre \<noteq> [] \<longrightarrow> hangs (pre @ ns) parent)"
  "flatten_children cs this nodes = Some ns \<Longrightarrow> hangs (pre @ nodes) this \<Longrightarrow> this = length pre \<Longrightarrow> nodes \<noteq> [] \<Longrightarrow>
    hangs (pre @ ns) this \<and> ns \<noteq> []"
proof (induction h parent this and cs this nodes arbitrary: ns pre and ns pre
    rule: flatten_flatten_children.induct)
  case (1 v parent this)
  then show ?case using hangs_self [OF hangs_node] hangs_snoc by auto
next
  case (2 v children parent this)
  have pre: "hangs (pre @ [node_new parent v]) (length pre)"
    by (rule hangs_self [OF hangs_node [OF "2.prems"(2)]])
  have self: "hangs (pre @ ns) this \<and> ns \<noteq> []"
    using "2.IH" [of ns pre] "2.prems" pre by simp
  have top: "parent_index (ns ! 0) = parent"
    using flatten_block(1) [OF "2.prems"(1)] by (simp add: block_ok_def)
  have "hangs (pre @ ns) parent" if "pre \<noteq> []"
  proof (rule hangs_up [OF conjunct1 [OF self]])
    have ok: "tree_ok (pre @ ns)" using self by (auto simp: hangs_def tree_df_def)
    show "pre @ ns \<noteq> []" using that by simp
    show "anc_self (pre @ ns) parent this"
      using anc_self_step [OF ok, of this parent] self that top "2.prems"(3) by (simp add: nth_append)
  qed
  then show ?case using self by simp
next
  case (3 this nodes)
  then show ?case by simp
next
  case (4 c cs this nodes)
  show ?case
  proof (cases c)
    case (Leaf v)
    have "hangs (pre @ nodes @ [node_new this v]) this"
      using hangs_snoc [OF "4.prems"(2)] "4.prems"(4) by simp
    then show ?thesis using "4.IH"(1) [OF Leaf, where ns = ns and pre = pre] "4.prems" Leaf by simp
  next
    case (Branch v children)
    then obtain ms where ms: "flatten c this (this + length nodes) = Some ms"
      "flatten_children cs this (nodes @ ms) = Some ns" "length nodes < 2 ^ 16" "this + length nodes < 2 ^ 16"
      using "4.prems"(1) by auto
    have "hangs (pre @ nodes @ ms) this"
      using "4.IH"(2) [OF Branch _ _ ms(1), where pre = "pre @ nodes"] ms(3,4) "4.prems"(2-4) by simp
    then show ?thesis
      using "4.IH"(3) [OF Branch _ _ ms(1) ms(2), where pre = pre] ms(3,4) "4.prems"(3,4) by simp
  qed
qed

lemma into_tree_df: "into_tree h = Some t \<Longrightarrow> tree_df t"
  using flatten_df(1) [of h root_parent root_index t "[]"]
  by (auto simp: into_tree_def hangs_def root_parent_def root_index_def)

end
