(* ===== verification/Feed_Samples.thy ===== *)
theory Feed_Samples
  imports Price_Feed
begin

text \<open>
  The samples of a price feed against their description: the time since the start of the
  validity is cut in periods, the sample of a period is the average of the last prices of its
  feeders, and a period with no observation repeats the sample of the one before. Observations
  are kept in the order of their times.
\<close>

section \<open>Observations in order\<close>

definition in_order :: "observation list \<Rightarrow> bool" where
  "in_order obs \<longleftrightarrow> sorted (map obs_time obs)"

lemma in_order_simps [simp]:
  "in_order []"
  "in_order (ob # obs) \<longleftrightarrow> (\<forall>x \<in> set obs. obs_time ob \<le> obs_time x) \<and> in_order obs"
  by (auto simp: in_order_def)

lemma in_order_filter: "in_order obs \<Longrightarrow> in_order (filter P obs)"
  by (induction obs) auto

lemma retain_in_order:
  "in_order obs \<Longrightarrow> observations_retain obs since = filter (\<lambda>ob. obs_valid_since ob since) obs"
proof (induction obs)
  case (Cons ob obs)
  have "obs_valid_since x since" if "obs_valid_since ob since" "x \<in> set obs" for x
    using that Cons.prems less_le_trans [of since "obs_time ob" "obs_time x"] by (simp add: obs_valid_since_def)
  then show ?case using Cons by (auto intro: filter_True [symmetric])
qed simp

text \<open>A feed whose block times never go back stays in order, and drops exactly what has expired.\<close>

lemma add_observation_in_order:
  assumes "in_order obs" "\<And>ob. ob \<in> set obs \<Longrightarrow> obs_time ob \<le> at"
  shows "in_order (add_observation obs f at p since)"
    and "add_observation obs f at p since
      = filter (\<lambda>ob. obs_valid_since ob since) obs @ [\<lparr>feeder_addr = f, obs_time = at, obs_price = p\<rparr>]"
  using assms retain_in_order [OF assms(1), of since] in_order_filter [OF assms(1)]
  by (auto simp: add_observation_def observations_register_def observation_new_def in_order_def sorted_append)

section \<open>Periods\<close>

definition in_period :: "timestamp \<Rightarrow> timestamp \<Rightarrow> observation \<Rightarrow> bool" where
  "in_period start until ob \<longleftrightarrow> obs_valid_since ob start \<and> \<not> obs_valid_since ob until"

text \<open>The feeders of a period in the order they first appear, and the last price of each.\<close>

definition feeders_of :: "observation list \<Rightarrow> addr list" where
  "feeders_of obs = rev (remdups (rev (map feeder_addr obs)))"

definition last_price_of :: "observation list \<Rightarrow> addr \<Rightarrow> pair_price" where
  "last_price_of obs f = obs_price (last (filter (\<lambda>ob. feeder_addr ob = f) obs))"

definition period_sample :: "(addr list \<Rightarrow> addr list) \<Rightarrow> observation list \<Rightarrow> sample \<Rightarrow> sample option" where
  "period_sample hash_order obs previous =
     (if obs = [] then Some previous else average (map (last_price_of obs) (hash_order (feeders_of obs))))"

fun samples_of ::
  "(addr list \<Rightarrow> addr list) \<Rightarrow> observation list \<Rightarrow> timestamp \<Rightarrow> duration \<Rightarrow> sample \<Rightarrow> nat \<Rightarrow> sample list option" where
  "samples_of hash_order obs start span previous 0 = Some []"
| "samples_of hash_order obs start span previous (Suc n) =
     do {
       until \<leftarrow> timestamp_add start span;
       s \<leftarrow> period_sample hash_order (filter (in_period start until) obs) previous;
       rest \<leftarrow> samples_of hash_order obs until span s n;
       Some (s # rest)
     }"

section \<open>The builder goes through the periods\<close>

definition prices_of :: "observation list \<Rightarrow> sample_prices" where
  "prices_of obs = fold (\<lambda>ob. AList.update (feeder_addr ob) (obs_price ob)) obs []"

lemma prices_of_snoc: "prices_of (obs @ [ob]) = AList.update (feeder_addr ob) (obs_price ob) (prices_of obs)"
  by (simp add: prices_of_def)

lemma keys_prices_of: "map fst (prices_of obs) = feeders_of obs"
proof (induction obs rule: rev_induct)
  case (snoc ob obs)
  have "set (map fst (prices_of obs)) = feeder_addr ` set obs" using snoc by (simp add: feeders_of_def)
  then show ?case
    using snoc by (auto simp: prices_of_snoc update_keys feeders_of_def image_iff)
qed (simp add: prices_of_def feeders_of_def)

lemma lookup_prices_of: "f \<in> feeder_addr ` set obs \<Longrightarrow> map_of (prices_of obs) f = Some (last_price_of obs f)"
proof (induction obs rule: rev_induct)
  case (snoc ob obs)
  have "filter (\<lambda>x. feeder_addr x = f) obs \<noteq> []" if "f \<noteq> feeder_addr ob"
    using that snoc.prems by (auto simp: filter_empty_conv)
  then show ?case using snoc by (auto simp: prices_of_snoc update_conv' last_price_of_def)
qed simp

lemma values_in_prices_of:
  assumes "\<And>xs. set (hash_order xs) = set xs"
  shows "values_in hash_order (prices_of obs) = map (last_price_of obs) (hash_order (feeders_of obs))"
proof -
  have "map_of (prices_of obs) f = Some (last_price_of obs f)" if "f \<in> set (hash_order (feeders_of obs))" for f
    using that lookup_prices_of assms by (simp add: feeders_of_def)
  then show ?thesis by (simp add: values_in_def keys_prices_of)
qed

lemma prices_of_Nil_iff [simp]: "prices_of obs = [] \<longleftrightarrow> obs = []"
proof -
  have "prices_of obs = [] \<longleftrightarrow> map fst (prices_of obs) = []" by simp
  then show ?thesis by (simp add: keys_prices_of feeders_of_def)
qed

lemma consume_period_eq:
  assumes "in_order obs"
  shows "consume_period until obs prices =
    (fold (\<lambda>ob. AList.update (feeder_addr ob) (obs_price ob)) (filter (\<lambda>ob. \<not> obs_valid_since ob until) obs) prices,
     (case filter (\<lambda>ob. obs_valid_since ob until) obs of [] \<Rightarrow> None | ob # _ \<Rightarrow> Some ob),
     tl (filter (\<lambda>ob. obs_valid_since ob until) obs))"
  using assms
proof (induction obs arbitrary: prices)
  case (Cons ob obs)
  have "obs_valid_since x until" if "obs_valid_since ob until" "x \<in> set obs" for x
    using that Cons.prems less_le_trans [of until "obs_time ob" "obs_time x"] by (simp add: obs_valid_since_def)
  then have "filter (\<lambda>x. obs_valid_since x until) obs = obs \<and> filter (\<lambda>x. \<not> obs_valid_since x until) obs = []"
    if "obs_valid_since ob until"
    using that by (auto simp: filter_id_conv filter_empty_conv)
  then show ?case using Cons by auto
qed simp

definition pipeline :: "sample_builder \<Rightarrow> observation list" where
  "pipeline b = (case consumed b of None \<Rightarrow> [] | Some ob \<Rightarrow> [ob]) @ observations b"

lemma pipeline_after:
  "pipeline (b\<lparr>observations := tl xs, consumed := (case xs of [] \<Rightarrow> None | ob # _ \<Rightarrow> Some ob),
     sample_prices_of := p\<rparr>) = xs"
  by (cases xs) (simp_all add: pipeline_def)

lemma valid_later:
  "at_nanos start \<le> at_nanos until \<Longrightarrow> obs_valid_since ob until \<Longrightarrow> obs_valid_since ob start"
  by (simp add: obs_valid_since_def time_order)

text \<open>
  The samples the builder yields are the ones of the description.
\<close>

lemma take_samples_eq:
  assumes order: "\<And>xs. set (hash_order xs) = set xs" and obs: "in_order obs"
    and b: "pipeline b = filter (\<lambda>ob. obs_valid_since ob (sample_start b)) obs" "sample_prices_of b = []"
  shows "take_samples hash_order n b
    = samples_of hash_order obs (sample_start b) (sample_span b) (last_sample b) n"
  using b
proof (induction n arbitrary: b)
  case (Suc n)
  show ?case
  proof (cases "timestamp_add (sample_start b) (sample_span b)")
    case None
    then show ?thesis by (simp add: sample_next_def sample_end_def)
  next
    case (Some until)
    let ?start = "sample_start b"
    have le: "at_nanos ?start \<le> at_nanos until" using Some by auto
    let ?later = "filter (\<lambda>ob. obs_valid_since ob until) obs"
    let ?now = "filter (in_period ?start until) obs"
    have "filter (\<lambda>ob. obs_valid_since ob until) (pipeline b) = ?later"
      "filter (\<lambda>ob. \<not> obs_valid_since ob until) (pipeline b) = ?now"
      using valid_later [OF le] Suc.prems(1) by (auto simp: in_period_def intro!: filter_cong)
    moreover have "in_order (pipeline b)" using obs Suc.prems(1) by (simp add: in_order_filter)
    ultimately have consume: "consume_period until (pipeline b) [] = (prices_of ?now,
        (case ?later of [] \<Rightarrow> None | ob # _ \<Rightarrow> Some ob), tl ?later)"
      using consume_period_eq [of "pipeline b" until "[]"] by (simp add: prices_of_def)
    define b1 where "b1 = b\<lparr>observations := tl ?later,
      consumed := (case ?later of [] \<Rightarrow> None | ob # _ \<Rightarrow> Some ob), sample_prices_of := prices_of ?now\<rparr>"
    have b1: "sample_next hash_order b = do { b' \<leftarrow> end_of_period hash_order b1; Some (last_sample b', b') }"
      using Some consume Suc.prems(2) by (simp add: sample_next_def sample_end_def pipeline_def [symmetric] b1_def Let_def
          del: timestamp_add_Some)
    have avg: "(if 0 < length (sample_prices_of b1) then average (values_in hash_order (sample_prices_of b1))
        else Some (last_sample b1)) = period_sample hash_order ?now (last_sample b)"
      by (simp add: b1_def period_sample_def values_in_prices_of [OF order])
    then have e: "end_of_period hash_order b1 = do { s \<leftarrow> period_sample hash_order ?now (last_sample b);
        Some (b1\<lparr>last_sample := s, sample_prices_of := [], sample_start := until\<rparr>) }"
      using Some unfolding end_of_period_def avg by (simp add: sample_end_def b1_def del: timestamp_add_Some)
    show ?thesis
    proof (cases "period_sample hash_order ?now (last_sample b)")
      case None
      then show ?thesis using Some b1 e by (simp del: timestamp_add_Some)
    next
      case (Some s)
      let ?b2 = "b1\<lparr>last_sample := s, sample_prices_of := [], sample_start := until\<rparr>"
      have "pipeline ?b2 = ?later" by (cases ?later) (simp_all add: pipeline_def b1_def)
      then have "take_samples hash_order n ?b2
          = samples_of hash_order obs until (sample_span b) s n"
        using Suc.IH [of ?b2] by (simp add: b1_def)
      then show ?thesis
        using Some b1 e \<open>timestamp_add (sample_start b) (sample_span b) = Some until\<close>
        by (simp del: timestamp_add_Some)
    qed
  qed
qed simp

end
