(* ===== verification/Feed_Guarantees.thy ===== *)
theory Feed_Guarantees
  imports Feed_Samples "HOL-Library.Multiset"
begin

text \<open>
  What a price feed guarantees: its price is the one of the description by periods, a steady
  feed gives the price its feeders report, and a finding: the discount factor of 100 percent
  the configuration allows makes the price abort.
\<close>

section \<open>Exact sums\<close>

lemma price_is_bounds:
  assumes "price_ok m" "price_is m x y" "0 < x" "0 < y"
  shows "amount (price_amount m) \<le> x" "amount (price_amount_quote m) \<le> y"
proof -
  let ?A = "amount (price_amount m)" and ?Q = "amount (price_amount_quote m)"
  have e: "?Q * x = ?A * y" and co: "coprime ?A ?Q"
    using assms(1,2) by (auto simp: price_is_def price_ok_def)
  have "?A dvd ?Q * x" "?Q dvd ?A * y" using e by (metis dvd_triv_left)+
  then have "?A dvd x" "?Q dvd y"
    using co by (auto simp: coprime_dvd_mult_right_iff coprime_commute)
  then show "?A \<le> x" "?Q \<le> y" using assms(3,4) by (auto intro: dvd_imp_le)
qed

lemma price_add_exact:
  fixes p q :: "('c, 'q) price"
  assumes "price_ok p" "price_ok q"
    "amount (price_amount p) * amount (price_amount q) < 2 ^ 128"
    "amount (price_amount_quote p) * amount (price_amount q)
      + amount (price_amount_quote q) * amount (price_amount p) < 2 ^ 128"
  shows "\<exists>r. price_add p q = Some r \<and> price_ok r \<and>
    price_is r (amount (price_amount p) * amount (price_amount q))
      (amount (price_amount_quote p) * amount (price_amount q)
       + amount (price_amount_quote q) * amount (price_amount p))"
proof -
  obtain u where u: "0 < u" "amount (price_amount p) * amount (price_amount q) = sum_amount p q * u"
    "amount (price_amount_quote p) * amount (price_amount q)
      + amount (price_amount_quote q) * amount (price_amount p) = sum_quote p q * u"
    using sum_rational(1) [OF assms(1,2)] by blast
  have "sum_amount p q \<le> sum_amount p q * u" "sum_quote p q \<le> sum_quote p q * u" using u(1) by simp_all
  then have fits: "sum_amount p q < 2 ^ 128" "sum_quote p q < 2 ^ 128"
    using assms(3,4) unfolding u(2,3) by (meson le_less_trans)+
  obtain r :: "('c, 'q) price" where
    r: "price_new (Coin (sum_amount p q)) (Coin (sum_quote p q)) = Some r" "price_ok r"
      "price_is r (sum_amount p q) (sum_quote p q)"
    using price_new_spec [of "Coin (sum_amount p q)" "Coin (sum_quote p q)"] fits
      sum_rational(2,3) [OF assms(1,2)] by (auto simp: coin_ok_def)
  have "price_add p q = Some r"
    using fits r(1) by (simp add: price_add_def price_checked_add_eq [OF assms(1,2)])
  then show ?thesis using r(2,3) u by (auto simp: price_is_scale)
qed

definition small_price :: "pair_price \<Rightarrow> bool" where
  "small_price p \<longleftrightarrow> price_ok p \<and> amount (price_amount p) < 2 ^ 50 \<and> amount (price_amount_quote p) < 2 ^ 50"

lemma fold_prices_steady:
  fixes p s :: pair_price
  assumes "small_price p" "price_ok s" "0 < j"
    "price_is s (amount (price_amount p)) (j * amount (price_amount_quote p))" "j + n \<le> 2 ^ 16"
  shows "\<exists>r. fold_prices s (replicate n p) = Some r \<and> price_ok r
    \<and> price_is r (amount (price_amount p)) ((j + n) * amount (price_amount_quote p))"
  using assms(2-5)
proof (induction n arbitrary: s j)
  case (Suc n)
  let ?a = "amount (price_amount p)" and ?q = "amount (price_amount_quote p)"
  let ?A = "amount (price_amount s)" and ?Q = "amount (price_amount_quote s)"
  have p: "price_ok p" "0 < ?a" "0 < ?q" "?a < 2 ^ 50" "?q < 2 ^ 50"
    using assms(1) by (auto simp: small_price_def price_ok_def)
  have b: "?A \<le> ?a" "?Q \<le> j * ?q" using price_is_bounds [OF Suc.prems(1,3)] p Suc.prems(2) by auto
  have j: "j \<le> 2 ^ 16" using Suc.prems(4) by simp
  have "?A * ?a \<le> 2 ^ 50 * 2 ^ 50" using b(1) p(4) by (intro mult_mono) auto
  moreover have "j * ?q \<le> 2 ^ 16 * 2 ^ 50" using j p(5) by (intro mult_mono) auto
  then have "?Q * ?a \<le> 2 ^ 16 * 2 ^ 50 * 2 ^ 50" using b(2) p(4) by (intro mult_mono) auto
  moreover have "?q * ?A \<le> 2 ^ 50 * 2 ^ 50" using b(1) p(4,5) by (intro mult_mono) auto
  ultimately obtain r where r: "price_add s p = Some r" "price_ok r" "price_is r (?A * ?a) (?Q * ?a + ?q * ?A)"
    using price_add_exact [OF Suc.prems(1) p(1)] by fastforce
  have e: "?Q * ?a = ?A * (j * ?q)" using Suc.prems(3) by (simp add: price_is_def)
  have "amount (price_amount_quote r) * (?A * ?a) = amount (price_amount r) * (?A * (j * ?q) + ?q * ?A)"
    using r(3) unfolding price_is_def e by simp
  then have "?A * (amount (price_amount_quote r) * ?a) = ?A * (amount (price_amount r) * (Suc j * ?q))"
    by (simp add: algebra_simps)
  then have "price_is r ?a (Suc j * ?q)"
    using Suc.prems(1) by (simp add: price_is_def price_ok_def)
  from Suc.IH [OF r(2) _ this] Suc.prems(4) r(1) show ?case by simp
qed simp

lemma price_is_self: "price_is p (amount (price_amount p)) (amount (price_amount_quote p))"
  by (simp add: price_is_def mult.commute)

lemma average_steady:
  assumes "small_price p" "0 < k" "k \<le> 2 ^ 16"
  shows "average (replicate k p) = Some (Some p)"
proof -
  let ?a = "amount (price_amount p)" and ?q = "amount (price_amount_quote p)"
  have p: "price_ok p" "0 < ?a" "0 < ?q" "?a < 2 ^ 50" "?q < 2 ^ 50"
    using assms(1) by (auto simp: small_price_def price_ok_def)
  obtain n where k: "k = Suc n" using assms(2) by (cases k) auto
  obtain s where s: "fold_prices p (replicate n p) = Some s" "price_ok s" "price_is s ?a (k * ?q)"
    using fold_prices_steady [OF assms(1) p(1), of 1 n] assms(3) k by (auto simp: price_is_self)
  have b: "amount (price_amount s) \<le> ?a" "amount (price_amount_quote s) \<le> k * ?q"
    using price_is_bounds [OF s(2,3)] p assms(2) by auto
  have "amount (price_amount s) * k \<le> 2 ^ 50 * 2 ^ 16" using b(1) p(4) assms(3) by (intro mult_mono) auto
  moreover have "k * ?q \<le> 2 ^ 16 * 2 ^ 50" using p(5) assms(3) by (intro mult_mono) auto
  ultimately obtain m where m: "lossy_mul s (mk_ratio 1 k) = Some m" "price_ok m"
    "price_is m (amount (price_amount s) * k) (amount (price_amount_quote s))"
    using lossy_mul_exact [OF s(2), of "mk_ratio 1 k"] b(2) assms(2) by fastforce
  let ?M = "amount (price_amount m)" and ?N = "amount (price_amount_quote m)"
  let ?A = "amount (price_amount s)" and ?Q = "amount (price_amount_quote s)"
  have e: "?Q * ?a = ?A * (k * ?q)" "?N * (?A * k) = ?M * ?Q" using s(3) m(3) by (auto simp: price_is_def)
  have "(?A * k) * (?N * ?a) = (?N * (?A * k)) * ?a" by simp
  also have "\<dots> = ?M * (?Q * ?a)" using e(2) by simp
  also have "\<dots> = (?A * k) * (?M * ?q)" unfolding e(1) by simp
  finally have "price_is m ?a ?q" using s(2) assms(2) by (simp add: price_is_def price_ok_def)
  then have "m = p" using price_is_unique [OF m(2) p(1)] by simp
  then show ?thesis using s(1) m(1) k by (simp add: average_def)
qed

lemma discounted_steady:
  assumes "small_price p" "0 < units factor" "units factor < 1000"
  shows "discounted factor p p = Some p"
proof -
  let ?a = "amount (price_amount p)" and ?q = "amount (price_amount_quote p)"
  let ?f = "units factor" and ?g = "1000 - units factor"
  have p: "price_ok p" "0 < ?a" "0 < ?q" "?a < 2 ^ 50" "?q < 2 ^ 50"
    using assms(1) by (auto simp: small_price_def price_ok_def)
  have part: "\<exists>m. lossy_mul p (mk_ratio x 1000) = Some m \<and> price_ok m \<and> price_is m (?a * 1000) (?q * x)
      \<and> amount (price_amount m) \<le> 2 ^ 60 \<and> amount (price_amount_quote m) \<le> 2 ^ 60"
    if x: "0 < x" "x < 1000" for x
  proof -
    have le: "?a * 1000 \<le> 2 ^ 60" using p(4) by simp
    have "?q * x \<le> 2 ^ 50 * 2 ^ 10" using p(5) x by (intro mult_mono) auto
    then have le': "?q * x \<le> 2 ^ 60" by simp
    obtain m where m: "lossy_mul p (mk_ratio x 1000) = Some m" "price_ok m" "price_is m (?a * 1000) (?q * x)"
      using lossy_mul_exact [OF p(1), of "mk_ratio x 1000"] le le' x by fastforce
    with price_is_bounds [OF m(2,3)] p x le le' show ?thesis by fastforce
  qed
  obtain m1 where m1: "lossy_mul p (mk_ratio ?f 1000) = Some m1" "price_ok m1" "price_is m1 (?a * 1000) (?q * ?f)"
    "amount (price_amount m1) \<le> 2 ^ 60" "amount (price_amount_quote m1) \<le> 2 ^ 60"
    using part [of ?f] assms by auto
  obtain m2 where m2: "lossy_mul p (mk_ratio ?g 1000) = Some m2" "price_ok m2" "price_is m2 (?a * 1000) (?q * ?g)"
    "amount (price_amount m2) \<le> 2 ^ 60" "amount (price_amount_quote m2) \<le> 2 ^ 60"
    using part [of ?g] assms by auto
  let ?A = "amount (price_amount m1)" and ?B = "amount (price_amount m2)"
  let ?Q = "amount (price_amount_quote m1)" and ?R = "amount (price_amount_quote m2)"
  have "?A * ?B \<le> 2 ^ 60 * 2 ^ 60" "?Q * ?B \<le> 2 ^ 60 * 2 ^ 60" "?R * ?A \<le> 2 ^ 60 * 2 ^ 60"
    using m1(4,5) m2(4,5) by (intro mult_mono; simp)+
  then obtain r where r: "price_add m1 m2 = Some r" "price_ok r" "price_is r (?A * ?B) (?Q * ?B + ?R * ?A)"
    using price_add_exact [OF m1(2) m2(2)] by fastforce
  let ?M = "amount (price_amount r)" and ?N = "amount (price_amount_quote r)"
  have e: "?Q * (?a * 1000) = ?A * (?q * ?f)" "?R * (?a * 1000) = ?B * (?q * ?g)"
    using m1(3) m2(3) by (auto simp: price_is_def)
  have "(?A * ?B * 1000) * (?N * ?a) = (?N * (?A * ?B)) * (?a * 1000)" by simp
  also have "\<dots> = ?M * ((?Q * (?a * 1000)) * ?B + (?R * (?a * 1000)) * ?A)"
    using r(3) unfolding price_is_def by (simp add: algebra_simps)
  also have "\<dots> = ?M * (?A * ?B * ?q * (?f + ?g))" unfolding e by (simp add: algebra_simps)
  also have "\<dots> = (?A * ?B * 1000) * (?M * ?q)" using assms(3) by simp
  finally have "price_is r ?a ?q" using m1(2) m2(2) by (simp add: price_is_def price_ok_def)
  then have "r = p" using price_is_unique [OF r(2) p(1)] by simp
  then show ?thesis
    using m1(1) m2(1) r(1) assms(3)
    by (simp add: discounted_def percent_of_price_def percent_ratio_def percent_sub_Some)
qed

section \<open>The price by the periods\<close>

definition permuted :: "(addr list \<Rightarrow> addr list) \<Rightarrow> bool" where
  "permuted hash_order \<longleftrightarrow> (\<forall>xs. mset (hash_order xs) = mset xs)"

lemma permuted_facts:
  assumes "permuted hash_order"
  shows "set (hash_order xs) = set xs" "length (hash_order xs) = length xs" "hash_order xs = [] \<longleftrightarrow> xs = []"
  using assms mset_eq_setD mset_eq_length by (metis permuted_def mset_zero_iff)+

lemma feeders_of_Nil_iff [simp]: "feeders_of obs = [] \<longleftrightarrow> obs = []"
  by (simp add: feeders_of_def)

lemma samples_stay_present:
  assumes order: "permuted hash_order"
  shows "samples_of hash_order obs start span previous n = Some ss \<Longrightarrow> previous \<noteq> None \<Longrightarrow> None \<notin> set ss"
proof (induction n arbitrary: start previous ss)
  case (Suc n)
  then obtain until s rest where *: "timestamp_add start span = Some until"
    "period_sample hash_order (filter (in_period start until) obs) previous = Some s"
    "samples_of hash_order obs until span s n = Some rest" "ss = s # rest"
    by auto
  have "s \<noteq> None"
    using *(2) Suc.prems(2) permuted_facts(3) [OF order]
    by (auto simp: period_sample_def average_def split: if_splits list.splits)
  then show ?case using Suc.IH [OF *(3)] *(4) by (cases s) auto
qed auto

lemma samples_present_after:
  assumes order: "permuted hash_order"
  shows "samples_of hash_order obs start span previous n = Some ss \<Longrightarrow>
    None \<notin> set (dropWhile Option.is_none ss)"
proof (induction n arbitrary: start previous ss)
  case (Suc n)
  then obtain until s rest where *: "timestamp_add start span = Some until"
    "samples_of hash_order obs until span s n = Some rest" "ss = s # rest"
    by auto
  show ?case
  proof (cases s)
    case None
    then show ?thesis using Suc.IH [OF *(2)] *(3) by simp
  next
    case (Some p)
    then show ?thesis using samples_stay_present [OF order *(2)] *(3) by simp
  qed
qed simp

text \<open>The price of the description: the discounted average of the prices of the samples.\<close>

fun discounted_fold :: "percent \<Rightarrow> pair_price \<Rightarrow> pair_price list \<Rightarrow> pair_price option" where
  "discounted_fold factor acc [] = Some acc"
| "discounted_fold factor acc (p # ps) = do { acc' \<leftarrow> discounted factor acc p; discounted_fold factor acc' ps }"

lemma reduce_present: "reduce_samples factor acc (map Some ps) = discounted_fold factor acc ps"
  by (induction ps arbitrary: acc) auto

definition price_by_periods ::
  "(addr list \<Rightarrow> addr list) \<Rightarrow> observation list \<Rightarrow> price_config \<Rightarrow> timestamp \<Rightarrow> (feeds_error, pair_price) res" where
  "price_by_periods hash_order obs c since =
     (case samples_of hash_order obs since (sample_period c) None (samples_number c) of
        None \<Rightarrow> Inl Panic
      | Some ss \<Rightarrow> (case List.map_filter id ss of
            [] \<Rightarrow> Inl (Fail NoPrice)
          | p # ps \<Rightarrow> or_panic (discounted_fold (discount_factor c) p ps)))"

lemma map_filter_dropWhile:
  "None \<notin> set (dropWhile Option.is_none ss) \<Longrightarrow> dropWhile Option.is_none ss = map Some (List.map_filter id ss)"
proof (induction ss)
  case (Cons s ss)
  have present: "map Some (List.map_filter id xs) = xs" if "None \<notin> set xs" for xs :: "'a option list"
    using that
  proof (induction xs)
    case (Cons x xs)
    then show ?case by (cases x) (auto simp: map_filter_simps)
  qed (simp add: map_filter_simps)
  show ?case
  proof (cases s)
    case None
    then show ?thesis using Cons by (simp add: map_filter_simps)
  next
    case (Some x)
    then show ?thesis using Cons.prems present [of ss] by (simp add: map_filter_simps id_def)
  qed
qed (simp add: map_filter_simps)

text \<open>
  C24. The price of a feed whose observations are in the order of their times. It is refused when
  the feeders with a valid observation are fewer than the required part of the registered ones, or
  when no period has a sample. Otherwise it is the discounted average over the periods since the
  start of the validity, where the sample of a period is the average of the last prices of its
  feeders, or the previous sample if there is none; only an arithmetic overflow aborts it.
\<close>

theorem calc_price_spec:
  assumes order: "permuted hash_order" and "in_order stored"
    and since: "feed_valid_since c at = Some since" "min_feeders c total_feeders = Some required"
  shows "calc_price hash_order stored c at total_feeders =
    (let obs = filter (\<lambda>ob. since < obs_time ob) stored in
     if card (feeder_addr ` set obs) < required then Inl (Fail NoPrice)
     else price_by_periods hash_order obs c since)"
proof -
  let ?obs = "filter (\<lambda>ob. obs_valid_since ob since) stored"
  have obs: "in_order ?obs" "valid_observations stored since = ?obs" "filter (\<lambda>ob. since < obs_time ob) stored = ?obs"
    using assms(2) by (auto simp: in_order_filter valid_observations_def obs_valid_since_def)
  have count: "count_unique_feeders ?obs = card (feeder_addr ` set ?obs)"
    by (simp add: count_unique_feeders_def length_remdups_card_conv)
  have take: "take_samples hash_order n (sample_builder_from ?obs since (sample_period c))
      = samples_of hash_order ?obs since (sample_period c) None n" for n
    using take_samples_eq [OF permuted_facts(1) [OF order] obs(1), of "sample_builder_from ?obs since (sample_period c)"]
    by (simp add: sample_builder_from_def pipeline_def)
  show ?thesis
  proof (cases "samples_of hash_order ?obs since (sample_period c) None (samples_number c)")
    case None
    then show ?thesis
      using since by (auto simp: calc_price_def obs(2,3) has_enough_feeders_def count take price_by_periods_def Let_def)
  next
    case (Some ss)
    have drop: "dropWhile Option.is_none ss = map Some (List.map_filter id ss)"
      by (rule map_filter_dropWhile [OF samples_present_after [OF order Some]])
    show ?thesis
      using since Some
      by (cases "List.map_filter id ss")
        (auto simp: calc_price_def obs(2,3) has_enough_feeders_def count take price_by_periods_def Let_def drop
          reduce_present)
  qed
qed

text \<open>
  C40. The configuration accepts a discount factor of 100 percent, but with it the price of a feed
  aborts as soon as two periods have a sample: the remaining 0 percent of the price so far is no
  price.
\<close>

theorem full_discount_aborts:
  assumes "config_new min_fd period samples percent_hundred = Inr c"
    and "feed_valid_since c at = Some since"
    and "has_enough_feeders (valid_observations stored since) c total_feeders = Some True"
    and "take_samples hash_order (samples_number c)
      (sample_builder_from (valid_observations stored since) since (sample_period c)) = Some ss"
    and "2 \<le> length (dropWhile Option.is_none ss)"
  shows "calc_price hash_order stored c at total_feeders = Inl Panic"
proof -
  have factor: "discount_factor c = percent_hundred"
    using assms(1) by (auto simp: config_new_def check_invariant_def config_error_if_def split: option.splits if_splits)
  have zero: "lossy_mul p (mk_ratio 0 w) = None" for p :: pair_price and w
  proof (cases "into_coprime_with (price_amount p) (Coin 0 :: unit coin)")
    case (Some x)
    obtain a b where ab: "x = (a, b)" by (cases x)
    have "amount b = 0" using Some ab by (auto simp: into_coprime_with_def checked_div_def Let_def split: if_splits)
    moreover have "trim_down 0 bits = None" for bits by (simp add: trim_down_def fits_def)
    ultimately show ?thesis
      using Some ab by (cases "into_coprime_with (price_amount_quote p) (Coin w :: unit coin)")
        (auto simp: lossy_mul_def Let_def)
  qed (simp add: lossy_mul_def)
  have "discounted percent_hundred acc p = None" for acc p
    by (cases "percent_of_price percent_hundred p")
      (auto simp: discounted_def percent_sub_def percent_of_price_def percent_ratio_def checked_sub_def zero)
  moreover obtain s t rest where "dropWhile Option.is_none ss = s # t # rest"
    using assms(5) by (metis Suc_le_length_iff numeral_2_eq_2)
  ultimately show ?thesis
    using assms(2-4) factor by (cases s; cases t) (simp_all add: calc_price_def)
qed

section \<open>Steady feeds\<close>

definition steady :: "pair_price \<Rightarrow> observation list \<Rightarrow> bool" where
  "steady p obs \<longleftrightarrow> (\<forall>ob \<in> set obs. obs_price ob = p)"

lemma steady_period:
  assumes order: "permuted hash_order" and p: "small_price p"
    and "steady p obs" "length obs \<le> 2 ^ 16" "previous \<in> {None, Some p}"
  shows "period_sample hash_order obs previous = Some (if obs = [] then previous else Some p)"
proof (cases "obs = []")
  case False
  let ?fs = "hash_order (feeders_of obs)"
  have last: "last_price_of obs f = p" if f: "f \<in> set ?fs" for f
  proof -
    have "f \<in> feeder_addr ` set obs" using f permuted_facts(1) [OF order] by (simp add: feeders_of_def)
    then have "filter (\<lambda>ob. feeder_addr ob = f) obs \<noteq> []" by (auto simp: filter_empty_conv)
    then have "last (filter (\<lambda>ob. feeder_addr ob = f) obs) \<in> set obs"
      using last_in_set by fastforce
    then show ?thesis using assms(3) by (simp add: last_price_of_def steady_def)
  qed
  have "length ?fs \<le> length obs"
    using length_remdups_leq [of "rev (map feeder_addr obs)"] permuted_facts(2) [OF order]
    by (simp add: feeders_of_def)
  moreover have "?fs \<noteq> []" using False permuted_facts(3) [OF order] by simp
  moreover have "map (last_price_of obs) ?fs = replicate (length ?fs) p"
    using last by (simp add: map_eq_conv [where g = "\<lambda>_. p", THEN iffD2] map_replicate_const)
  ultimately show ?thesis
    using False average_steady [OF p, of "length ?fs"] assms(4) by (simp add: period_sample_def)
qed (simp add: period_sample_def)

lemma steady_samples:
  assumes order: "permuted hash_order" and p: "small_price p"
    and obs: "steady p obs" "length obs \<le> 2 ^ 16"
    and "at_nanos start + n * nanos span < 2 ^ 64" "previous \<in> {None, Some p}"
  shows "\<exists>ss. samples_of hash_order obs start span previous n = Some ss \<and> set ss \<subseteq> {None, Some p}
    \<and> (\<forall>ob \<in> set obs. at_nanos start < at_nanos (obs_time ob) \<longrightarrow>
        at_nanos (obs_time ob) \<le> at_nanos start + n * nanos span \<longrightarrow> Some p \<in> set ss)"
  using assms(5,6)
proof (induction n arbitrary: start previous)
  case (Suc n)
  let ?until = "Timestamp (at_nanos start + nanos span)"
  let ?now = "filter (in_period start ?until) obs"
  let ?s = "if ?now = [] then previous else Some p"
  have now: "steady p ?now" "length ?now \<le> 2 ^ 16"
    using obs le_trans [OF length_filter_le obs(2)] by (auto simp: steady_def)
  have s: "period_sample hash_order ?now previous = Some ?s"
    by (rule steady_period [OF order p now Suc.prems(2)])
  have "at_nanos ?until + n * nanos span < 2 ^ 64" "?s \<in> {None, Some p}"
    using Suc.prems by (auto simp: algebra_simps)
  from Suc.IH [OF this] obtain ss where ss: "samples_of hash_order obs ?until span ?s n = Some ss"
    "set ss \<subseteq> {None, Some p}"
    "\<forall>ob \<in> set obs. at_nanos ?until < at_nanos (obs_time ob) \<longrightarrow>
        at_nanos (obs_time ob) \<le> at_nanos ?until + n * nanos span \<longrightarrow> Some p \<in> set ss"
    by blast
  have "Some p \<in> set (?s # ss)" if ob: "ob \<in> set obs" "at_nanos start < at_nanos (obs_time ob)"
    "at_nanos (obs_time ob) \<le> at_nanos start + Suc n * nanos span" for ob
  proof (cases "at_nanos (obs_time ob) \<le> at_nanos ?until")
    case True
    then have "ob \<in> set ?now"
      using ob by (auto simp: in_period_def obs_valid_since_def less_timestamp_def not_less)
    then show ?thesis by (cases ?now) auto
  next
    case False
    then show ?thesis using ss(3) ob by (simp add: algebra_simps)
  qed
  moreover have "timestamp_add start span = Some ?until" using Suc.prems(1) by simp
  ultimately show ?case using s ss(1,2) Suc.prems(2) by auto
qed auto

lemma discounted_fold_steady:
  assumes "small_price p" "0 < units factor" "units factor < 1000" "set ps \<subseteq> {p}"
  shows "discounted_fold factor p ps = Some p"
  using assms(4) by (induction ps) (auto simp: discounted_steady [OF assms(1-3)])

lemma map_filter_steady: "set ss \<subseteq> {None, Some p} \<Longrightarrow> set (List.map_filter id ss) \<subseteq> {p}"
  by (auto simp: map_filter_def)

lemma config_new_facts:
  assumes "config_new min_fd period samples discount = Inr c"
  shows "nanos (feed_validity c) = nanos (sample_period c) * samples_number c"
    "nanos (feed_validity c) < 2 ^ 64" "0 < units (discount_factor c)" "discount_factor c = discount"
proof -
  have "0 < units d" if "d \<noteq> percent_zero" for d using that by (cases d) (simp add: percent_zero_def)
  then show "nanos (feed_validity c) = nanos (sample_period c) * samples_number c"
    "nanos (feed_validity c) < 2 ^ 64" "0 < units (discount_factor c)" "discount_factor c = discount"
    using assms
    by (auto simp: config_new_def check_invariant_def config_error_if_def duration_checked_mul_def checked_mul_def
        fits_def from_nanos_def split: option.splits if_splits)
qed

text \<open>
  A steady feed is worth its price: when all valid observations of a feed, made before the
  moment of the query, report the same price, there is at least one, and their feeders are enough,
  the sampling, averaging and discounting give exactly that price. It holds for amounts below
  \<open>2 ^ 50\<close>, up to \<open>2 ^ 16\<close> observations, and a discount factor below 100 percent.
\<close>

theorem steady_feed_price:
  assumes order: "permuted hash_order" and "in_order stored"
    and c: "config_new min_fd period samples discount = Inr c" "units discount < 1000"
    and since: "feed_valid_since c at = Some since" "min_feeders c total_feeders = Some required"
    and valid: "valid_observations stored since \<noteq> []" "length stored \<le> 2 ^ 16"
      "\<forall>ob \<in> set (valid_observations stored since). obs_time ob \<le> at \<and> obs_price ob = p"
      "required \<le> count_unique_feeders (valid_observations stored since)"
    and p: "small_price p" and at: "at_nanos at < 2 ^ 64"
  shows "calc_price hash_order stored c at total_feeders = Inr p"
proof -
  let ?obs = "valid_observations stored since"
  note conf = config_new_facts [OF c(1)]
  have obs: "in_order ?obs" "steady p ?obs" "length ?obs \<le> 2 ^ 16"
    using assms(2) valid(3) le_trans [OF length_filter_le valid(2)]
    by (auto simp: in_order_filter valid_observations_def steady_def)
  have fits: "at_nanos since + samples_number c * nanos (sample_period c) < 2 ^ 64"
      and covers: "at_nanos at \<le> at_nanos since + samples_number c * nanos (sample_period c)"
    using since(1) conf(1,2) at
    by (auto simp: feed_valid_since_def less_eq_timestamp_def algebra_simps not_le split: if_splits)
  have take: "take_samples hash_order (samples_number c) (sample_builder_from ?obs since (sample_period c))
      = samples_of hash_order ?obs since (sample_period c) None (samples_number c)"
    using take_samples_eq [OF permuted_facts(1) [OF order] obs(1), of "sample_builder_from ?obs since (sample_period c)"]
    by (simp add: sample_builder_from_def pipeline_def valid_observations_def)
  obtain ss where ss: "samples_of hash_order ?obs since (sample_period c) None (samples_number c) = Some ss"
      "set ss \<subseteq> {None, Some p}"
      "\<forall>ob \<in> set ?obs. at_nanos since < at_nanos (obs_time ob) \<longrightarrow>
        at_nanos (obs_time ob) \<le> at_nanos since + samples_number c * nanos (sample_period c) \<longrightarrow> Some p \<in> set ss"
    using steady_samples [OF order p obs(2,3) fits, of None] by blast
  obtain ob where ob: "ob \<in> set ?obs" using valid(1) by (meson last_in_set)
  then have "Some p \<in> set ss"
    using ss(3) valid(3) covers by (fastforce simp: valid_observations_def obs_valid_since_def less_timestamp_def
        less_eq_timestamp_def)
  then have some: "List.map_filter id ss \<noteq> []" by (auto simp: map_filter_def filter_empty_conv)
  have drop: "dropWhile Option.is_none ss = map Some (List.map_filter id ss)"
    by (rule map_filter_dropWhile [OF samples_present_after [OF order ss(1)]])
  obtain ps where ps: "List.map_filter id ss = p # ps" "set ps \<subseteq> {p}"
    using some map_filter_steady [OF ss(2)] by (cases "List.map_filter id ss") auto
  show ?thesis
    using since take ss(1) drop ps valid(4) discounted_fold_steady [OF p _ _ ps(2)] conf(3,4) c(2)
    by (simp add: calc_price_def has_enough_feeders_def reduce_present)
qed

section \<open>Samples of the guarantees\<close>

definition sample_price :: pair_price where
  "sample_price = \<lparr>price_amount = Coin 2, price_amount_quote = Coin 3\<rparr>"

lemma sample_price_small: "small_price sample_price"
proof -
  have "coprime (2::nat) 3" by code_simp
  then show ?thesis by (simp add: small_price_def sample_price_def price_ok_def coin_ok_def)
qed

definition sample_config :: "nat \<Rightarrow> price_config" where
  "sample_config discount = \<lparr>min_feeders_percent = Percent 500, sample_period = Duration 5, samples_number = 2,
     feed_validity = Duration 10, discount_factor = Percent discount\<rparr>"

definition sample_stored :: "observation list" where
  "sample_stored =
     [\<lparr>feeder_addr = ''ann'', obs_time = Timestamp 92, obs_price = sample_price\<rparr>,
      \<lparr>feeder_addr = ''bob'', obs_time = Timestamp 97, obs_price = sample_price\<rparr>]"

lemma sample_config_new:
  "0 < d \<Longrightarrow> d \<le> 1000 \<Longrightarrow>
    config_new (Percent 500) (Duration 5) 2 (Percent d) = Inr (sample_config d)"
  by (simp add: config_new_def check_invariant_def config_error_if_def duration_checked_mul_def from_nanos_def
      percent_zero_def percent_hundred_def duration_zero_def less_percent_def sample_config_def checked_mul_def
      fits_def)

lemma sample_since: "feed_valid_since (sample_config d) (Timestamp 100) = Some (Timestamp 90)"
  by (simp add: feed_valid_since_def sample_config_def less_eq_timestamp_def)

lemma sample_required: "min_feeders (sample_config d) 2 = Some 1"
  by (simp add: min_feeders_def percent_of_usize_def sample_config_def percent_ratio_def safe_mul_def mk_ratio_def
      checked_div_def fits_def)

lemma sample_valid: "valid_observations sample_stored (Timestamp 90) = sample_stored"
  by (simp add: valid_observations_def sample_stored_def obs_valid_since_def less_timestamp_def)

lemma sample_in_order: "in_order sample_stored"
  by (simp add: sample_stored_def less_eq_timestamp_def)

lemma permuted_self: "permuted (\<lambda>xs. xs)"
  by (simp add: permuted_def)

theorem calc_price_spec_witness:
  "calc_price (\<lambda>xs. xs) sample_stored (sample_config 750) (Timestamp 100) 2 =
    (let obs = filter (\<lambda>ob. Timestamp 90 < obs_time ob) sample_stored in
     if card (feeder_addr ` set obs) < 1 then Inl (Fail NoPrice)
     else price_by_periods (\<lambda>xs. xs) obs (sample_config 750) (Timestamp 90))"
  by (rule calc_price_spec [OF permuted_self sample_in_order sample_since sample_required])

theorem steady_feed_price_witness:
  "calc_price (\<lambda>xs. xs) sample_stored (sample_config 750) (Timestamp 100) 2 = Inr sample_price"
  by (rule steady_feed_price [OF permuted_self sample_in_order sample_config_new _ sample_since sample_required])
    (simp_all add: sample_valid sample_price_small,
      simp_all add: sample_stored_def less_eq_timestamp_def count_unique_feeders_def)

lemma average_sample: "average [sample_price] = Some (Some sample_price)"
  using average_steady [OF sample_price_small, of 1] by simp

lemma sample_samples:
  "take_samples (\<lambda>xs. xs) (samples_number (sample_config d))
      (sample_builder_from sample_stored (Timestamp 90) (sample_period (sample_config d)))
    = Some [Some sample_price, Some sample_price]"
proof -
  let ?b = "sample_builder_from sample_stored (Timestamp 90) (Duration 5)"
  have "take_samples (\<lambda>xs. xs) 2 ?b = samples_of (\<lambda>xs. xs) sample_stored (Timestamp 90) (Duration 5) None 2"
    using take_samples_eq [OF _ sample_in_order, of "\<lambda>xs. xs" ?b 2]
    by (simp add: sample_valid [unfolded valid_observations_def] sample_builder_from_def pipeline_def)
  also have "\<dots> = samples_of (\<lambda>xs. xs) sample_stored (Timestamp 90) (Duration 5) None (Suc (Suc 0))"
    by (simp only: numeral_2_eq_2)
  also have "\<dots> = Some [Some sample_price, Some sample_price]"
    by (simp add: sample_stored_def in_period_def obs_valid_since_def less_timestamp_def
        period_sample_def feeders_of_def last_price_of_def average_sample)
  finally show ?thesis by (simp add: sample_config_def)
qed

lemma sample_calc_price: "calc_price (\<lambda>xs. xs) sample_stored (sample_config 750) (Timestamp 100) 2 = Inr sample_price"
  using discounted_steady [OF sample_price_small, of "Percent 750"]
  by (simp add: calc_price_def sample_since sample_valid has_enough_feeders_def sample_required sample_samples
      count_unique_feeders_def, simp add: sample_stored_def sample_config_def)

theorem full_discount_aborts_witness:
  "calc_price (\<lambda>xs. xs) sample_stored (sample_config 1000) (Timestamp 100) 2 = Inl Panic"
proof -
  have config: "config_new (Percent 500) (Duration 5) 2 percent_hundred = Inr (sample_config 1000)"
    using sample_config_new [of 1000] by (simp add: percent_hundred_def)
  have samples: "take_samples (\<lambda>xs. xs) (samples_number (sample_config 1000))
      (sample_builder_from (valid_observations sample_stored (Timestamp 90)) (Timestamp 90)
        (sample_period (sample_config 1000))) = Some [Some sample_price, Some sample_price]"
    by (simp only: sample_valid sample_samples)
  show ?thesis
    by (rule full_discount_aborts [OF config sample_since _ samples])
      (simp_all add: sample_valid has_enough_feeders_def sample_required count_unique_feeders_def, simp add: sample_stored_def)
qed

end
