(* ===== verification/Oracle_Tree.thy ===== *)
theory Oracle_Tree
  imports Oracle_Prices Tree_Order Feed_Guarantees
begin

text \<open>
  The prices of all supported currencies against their description over the swap tree: the price
  of a currency is the price of its feed times the price of its parent currency, and a currency
  with no such price is left out, with all those below it. The code keeps the priced nodes on the
  way to the last priced one on a stack, which is enough since the legs come depth first.
\<close>

section \<open>Products of prices\<close>

lemma trim_down_Some: "trim_down n bits = Some a \<Longrightarrow> 0 < a \<and> a < 2 ^ 128"
  by (auto simp: trim_down_def fits_def split: if_splits)

lemma lossy_mul_ok:
  fixes m :: "('a, 'b) price"
  shows "lossy_mul p r = Some m \<Longrightarrow> price_ok m"
proof -
  assume "lossy_mul p r = Some m"
  then obtain x y bits a q where aq: "trim_down x bits = Some a" "trim_down y bits = Some q"
    "price_new (Coin a) (Coin q) = Some m"
    by (auto simp: lossy_mul_def Let_def)
  then show ?thesis
    using trim_down_Some [OF aq(1)] trim_down_Some [OF aq(2)] price_new_spec [of "Coin a :: 'a coin" "Coin q :: 'b coin"]
    by (auto simp: coin_ok_def)
qed

lemma price_mul_ok: "price_mul p q = Some r \<Longrightarrow> price_ok r"
  by (auto simp: price_mul_def dest: lossy_mul_ok)

lemma price_identity_ok [simp]: "price_ok price_identity"
  by (simp add: price_ok_def price_identity_def coin_ok_def)

lemma price_mul_identity:
  fixes p :: pair_price
  assumes "price_ok p"
  shows "price_mul p (price_identity :: pair_price) = Some p"
    and "price_mul (price_identity :: pair_price) p = Some p"
proof -
  have fits: "amount (price_amount p) < 2 ^ 128" "amount (price_amount_quote p) < 2 ^ 128"
    using assms by (simp_all add: price_ok_def coin_ok_def)
  obtain r :: pair_price where r: "price_mul p (price_identity :: pair_price) = Some r" "price_ok r"
    "price_is r (amount (price_amount p)) (amount (price_amount_quote p))"
    using price_mul_exact [OF assms price_identity_ok] fits by (auto simp: price_identity_def)
  then show "price_mul p (price_identity :: pair_price) = Some p" using price_is_unique [OF r(2) assms] by simp
  obtain r' :: pair_price where r': "price_mul (price_identity :: pair_price) p = Some r'" "price_ok r'"
    "price_is r' (amount (price_amount p)) (amount (price_amount_quote p))"
    using price_mul_exact [OF price_identity_ok assms] fits by (auto simp: price_identity_def)
  then show "price_mul (price_identity :: pair_price) p = Some p" using price_is_unique [OF r'(2) assms] by simp
qed

section \<open>The price of a node\<close>

definition cur :: "swap_target tree \<Rightarrow> nat \<Rightarrow> string" where
  "cur t i = target (node_value (t ! i))"

function tree_price ::
  "(string \<Rightarrow> string \<Rightarrow> bool) \<Rightarrow> feed_price \<Rightarrow> swap_target tree \<Rightarrow> nat \<Rightarrow> (oracle_error, pair_price option) res" where
  "tree_price in_pool price_of t i =
     (if i = 0 \<or> i \<le> parent_index (t ! i) then Inr (Some price_identity)
      else visit_any_on_currencies in_pool (cur t i) (cur t (parent_index (t ! i))) OracleCurrency
        (and_then (tree_price in_pool price_of t (parent_index (t ! i))) (\<lambda>parent_price.
           case parent_price of
             None \<Rightarrow> Inr None
           | Some pp \<Rightarrow>
               and_then (maybe_price (price_of (cur t i) (cur t (parent_index (t ! i))))) (\<lambda>feed.
                 case feed of
                   None \<Rightarrow> Inr None
                 | Some p \<Rightarrow> map_res Some (or_panic (price_mul p pp))))))"
  by pat_completeness auto
termination by (relation "measure (\<lambda>(_, _, _, i). i)") auto

declare tree_price.simps [simp del]

lemma tree_price_root [simp]: "tree_price in_pool price_of t 0 = Inr (Some price_identity)"
  by (simp add: tree_price.simps)

fun gather_prices ::
  "(nat \<Rightarrow> (oracle_error, pair_price option) res) \<Rightarrow> swap_target tree \<Rightarrow> nat list \<Rightarrow>
     (oracle_error, unit base_price list) res" where
  "gather_prices price_at t [] = Inr []"
| "gather_prices price_at t (i # is) =
     and_then (price_at i) (\<lambda>p.
       map_res (\<lambda>rest. case p of None \<Rightarrow> rest | Some p \<Rightarrow> base_from_price (cur t i) p # rest)
         (gather_prices price_at t is))"

section \<open>The stack of a walk\<close>

definition leg_at :: "swap_target tree \<Rightarrow> nat \<Rightarrow> swap_leg" where
  "leg_at t i = \<lparr>leg_from = cur t i, leg_to = \<lparr>pool_id = pool_id (node_value (t ! i)),
     target = cur t (parent_index (t ! i))\<rparr>\<rparr>"

lemma legs_up_at:
  assumes "t \<noteq> []" shows "legs_up t = map (leg_at t) [1..<length t]"
proof -
  have zero: "[0..<length t] = 0 # [1..<length t]" using assms by (simp add: upt_conv_Cons)
  have "concat (map (\<lambda>i. if i = 0 then [] else [leg_at t i]) is) = map (leg_at t) is" if "0 \<notin> set is" for "is"
    using that by (induction "is") auto
  from this [of "[1..<length t]"] show ?thesis
    unfolding legs_up_def zero leg_at_def cur_def by simp
qed

definition way_down :: "'v tree \<Rightarrow> nat \<Rightarrow> nat list" where
  "way_down t i = rev (ancestors t i) @ [i]"

lemma set_way_down: "a \<in> set (way_down t i) \<longleftrightarrow> anc_self t a i"
  by (auto simp: way_down_def anc_self_def)

lemma way_down_step:
  "tree_ok t \<Longrightarrow> 0 < i \<Longrightarrow> i < length t \<Longrightarrow> way_down t i = way_down t (parent_index (t ! i)) @ [i]"
  by (simp add: way_down_def ancestors_step)

lemma way_down_through:
  assumes "tree_ok t" "j < length t" "anc_self t p j"
  shows "\<exists>us. way_down t j = way_down t p @ us \<and> (\<forall>u \<in> set us. p < u)"
  using assms(2,3)
proof (induction j rule: less_induct)
  case (less j)
  show ?case
  proof (cases "p = j")
    case False
    then have j: "0 < j" using less.prems by (auto intro: gr0I)
    have q: "parent_index (t ! j) < j" by (rule parent_below [OF assms(1) j less.prems(1)])
    have "anc_self t p (parent_index (t ! j))" using less.prems False anc_self_step [OF assms(1) j] by simp
    then obtain us where us: "way_down t (parent_index (t ! j)) = way_down t p @ us" "\<forall>u \<in> set us. p < u"
      using less.IH [OF q] q less.prems(1) by auto
    have "p < j" using anc_self_le [OF assms(1) less.prems] False by simp
    then show ?thesis using us way_down_step [OF assms(1) j less.prems(1)] by (intro exI [of _ "us @ [j]"]) simp
  qed auto
qed

text \<open>The lookup in a stack.\<close>

lemma find_parent_none:
  "(\<forall>b \<in> set stack. bp_currency b \<noteq> q) \<Longrightarrow> find_parent q (rev (enumerate n stack)) = Inr None"
  by (induction stack rule: rev_induct)
    (auto simp: enumerate_append_eq try_as_specific_def base_of_currency_def)

lemma find_parent_some:
  assumes "\<forall>b \<in> set us. bp_currency b \<noteq> q" "price_ok p"
  shows "find_parent q (rev (enumerate 0 (xs @ base_from_price q p # us))) = Inr (Some (length xs, p))"
  using assms(1)
proof (induction us rule: rev_induct)
  case Nil
  show ?case using base_price_round_trip(1) [OF assms(2), of q] by (simp add: enumerate_append_eq)
next
  case (snoc u us)
  have "rev (enumerate 0 (xs @ base_from_price q p # us @ [u]))
      = (length xs + Suc (length us), u) # rev (enumerate 0 (xs @ base_from_price q p # us))"
    using enumerate_append_eq [of 0 "xs @ base_from_price q p # us" "[u]"] by simp
  then show ?case using snoc by (simp add: try_as_specific_def base_of_currency_def)
qed

section \<open>All prices are the prices of the tree\<close>

definition stack_at :: "(nat \<Rightarrow> pair_price) \<Rightarrow> swap_target tree \<Rightarrow> nat \<Rightarrow> unit base_price list" where
  "stack_at pr t j = map (\<lambda>k. base_from_price (cur t k) (pr k)) (way_down t j)"

lemma bp_currency_base [simp]: "bp_currency (base_from_price c p) = c"
  by (simp add: base_from_price_def)

lemma cur_eq_iff:
  "distinct (map (\<lambda>n. target (node_value n)) t) \<Longrightarrow> i < length t \<Longrightarrow> j < length t \<Longrightarrow> cur t i = cur t j \<longleftrightarrow> i = j"
  using nth_eq_iff_index_eq [of "map (\<lambda>n. target (node_value n)) t" i j] by (simp add: cur_def)

lemma maybe_price_Some: "maybe_price r = Inr (Some p) \<longleftrightarrow> r = Inr p"
  by (auto simp: maybe_price_def split: sum.splits failure.splits if_splits)

lemma tree_price_step:
  assumes "tree_ok t" "0 < i" "i < length t"
  shows "tree_price in_pool price_of t i =
    visit_any_on_currencies in_pool (cur t i) (cur t (parent_index (t ! i))) OracleCurrency
        (and_then (tree_price in_pool price_of t (parent_index (t ! i))) (\<lambda>parent_price.
           case parent_price of
             None \<Rightarrow> Inr None
           | Some pp \<Rightarrow>
               and_then (maybe_price (price_of (cur t i) (cur t (parent_index (t ! i))))) (\<lambda>feed.
                 case feed of
                   None \<Rightarrow> Inr None
                 | Some p \<Rightarrow> map_res Some (or_panic (price_mul p pp)))))"
  using parent_below [OF assms] assms(2) by (subst tree_price.simps) simp

lemma tree_price_Some:
  assumes "tree_ok t" "0 < i" "i < length t"
  shows "tree_price in_pool price_of t i = Inr (Some p) \<longleftrightarrow>
    in_pool (cur t i) (cur t (parent_index (t ! i))) \<and>
    (\<exists>pp x. tree_price in_pool price_of t (parent_index (t ! i)) = Inr (Some pp)
      \<and> price_of (cur t i) (cur t (parent_index (t ! i))) = Inr x \<and> price_mul x pp = Some p)"
  by (auto simp: tree_price_step [OF assms] visit_any_on_currencies_def maybe_price_Some split: option.splits)

lemma tree_price_ok:
  assumes "tree_ok t" "i < length t" "tree_price in_pool price_of t i = Inr (Some p)"
  shows "price_ok p"
proof (cases "i = 0")
  case False
  then show ?thesis using assms tree_price_Some [OF assms(1), of i in_pool price_of p] by (auto dest: price_mul_ok)
qed (use assms in auto)

lemma priced_up:
  assumes "tree_ok t"
  shows "i < length t \<Longrightarrow> tree_price in_pool price_of t i = Inr (Some p) \<Longrightarrow> anc_self t a i \<Longrightarrow>
    \<exists>q. tree_price in_pool price_of t a = Inr (Some q)"
proof (induction i arbitrary: p rule: less_induct)
  case (less i)
  show ?case
  proof (cases "a = i")
    case False
    then have i: "0 < i" using less.prems by (auto intro: gr0I)
    have q: "parent_index (t ! i) < i" by (rule parent_below [OF assms i less.prems(1)])
    then show ?thesis
      using less.IH [OF q] less.prems False i anc_self_step [OF assms i] tree_price_Some [OF assms i]
      by auto
  qed (use less.prems in auto)
qed

definition found_price ::
  "(string \<Rightarrow> string \<Rightarrow> bool) \<Rightarrow> feed_price \<Rightarrow> swap_target tree \<Rightarrow> nat \<Rightarrow> pair_price" where
  "found_price in_pool price_of t i =
     (case tree_price in_pool price_of t i of Inr (Some p) \<Rightarrow> p | _ \<Rightarrow> price_identity)"

text \<open>
  A walk that has looked at the nodes before \<open>i\<close>, with no error, and whose last priced
  node is \<open>j\<close>.
\<close>

definition walk_at :: "(string \<Rightarrow> string \<Rightarrow> bool) \<Rightarrow> feed_price \<Rightarrow> swap_target tree \<Rightarrow> nat \<Rightarrow> nat \<Rightarrow> bool" where
  "walk_at in_pool price_of t j i \<longleftrightarrow> j < i \<and> (\<exists>p. tree_price in_pool price_of t j = Inr (Some p))
     \<and> (\<forall>k < i. \<exists>x. tree_price in_pool price_of t k = Inr x \<and> (j < k \<longrightarrow> x = None))"

lemma scan_leg:
  assumes df: "tree_df t" and names: "distinct (map (\<lambda>n. target (node_value n)) t)"
    and walk: "walk_at in_pool price_of t j i" and i: "i < length t"
  shows "visit_any_on_currencies in_pool (cur t i) (cur t (parent_index (t ! i))) OracleCurrency
      (leg_cmd_on price_of (stack_at (found_price in_pool price_of t) t j) (cur t i) (cur t (parent_index (t ! i))))
    = map_res (\<lambda>p. case p of
          None \<Rightarrow> (None, stack_at (found_price in_pool price_of t) t j)
        | Some p \<Rightarrow> (Some (base_from_price (cur t i) p), stack_at (found_price in_pool price_of t) t i))
      (tree_price in_pool price_of t i)"
proof -
  let ?pr = "found_price in_pool price_of t" and ?p = "parent_index (t ! i)"
  let ?q = "cur t ?p" and ?stack = "stack_at (found_price in_pool price_of t) t j"
  have ok: "tree_ok t" using df by (simp add: tree_df_def)
  have j: "j < i" "j < length t" and i0: "0 < i" using walk i by (auto simp: walk_at_def)
  obtain pj where pj: "tree_price in_pool price_of t j = Inr (Some pj)" using walk by (auto simp: walk_at_def)
  have p: "?p < i" "?p < length t" using parent_below [OF ok i0 i] i by simp_all
  note step = tree_price_step [OF ok i0 i, of in_pool price_of]
  obtain pp where pp: "tree_price in_pool price_of t ?p = Inr pp" "j < ?p \<longrightarrow> pp = None"
    using walk p(1) by (auto simp: walk_at_def)
  show ?thesis
  proof (cases pp)
    case None
    have "cur t a \<noteq> ?q" if a: "anc_self t a j" for a
    proof -
      have "a < length t" using anc_self_le [OF ok j(2) a] j(2) by simp
      moreover have "a \<noteq> ?p" using priced_up [OF ok j(2) pj a] pp(1) None by auto
      ultimately show ?thesis using cur_eq_iff [OF names _ p(2)] by simp
    qed
    then have "find_parent ?q (rev (enumerate 0 ?stack)) = (Inr None :: (oracle_error, (nat \<times> pair_price) option) res)"
      by (intro find_parent_none) (auto simp: stack_at_def set_way_down)
    then show ?thesis using None pp(1) by (simp add: step visit_any_on_currencies_def leg_cmd_on_def)
  next
    case (Some pq)
    then have le: "?p \<le> j" using pp(2) by auto
    have "anc_self t ?p (i - 1)" using df i i0 by (simp add: tree_df_def)
    then have up: "anc_self t ?p j" using tree_df_between [OF df _ _ le] j(1) i by simp
    obtain us where us: "way_down t j = way_down t ?p @ us" "\<forall>u \<in> set us. ?p < u"
      using way_down_through [OF ok j(2) up] by blast
    let ?xs = "map (\<lambda>k. base_from_price (cur t k) (?pr k)) (rev (ancestors t ?p))"
    have pq: "?pr ?p = pq" using pp(1) Some by (simp add: found_price_def)
    have stack: "?stack = ?xs @ base_from_price ?q pq # map (\<lambda>k. base_from_price (cur t k) (?pr k)) us"
      using us(1) pq by (simp add: stack_at_def way_down_def)
    have "cur t u \<noteq> ?q" if "u \<in> set us" for u
    proof -
      have "u < length t" using that us(1) anc_self_le [OF ok j(2), of u] j(2) set_way_down [of u t j] by auto
      then show ?thesis using that us(2) cur_eq_iff [OF names _ p(2)] by auto
    qed
    then have find: "find_parent ?q (rev (enumerate 0 ?stack))
        = (Inr (Some (length ?xs, pq)) :: (oracle_error, (nat \<times> pair_price) option) res)"
      unfolding stack using tree_price_ok [OF ok p(2), of in_pool price_of pq] pp(1) Some
      by (intro find_parent_some) auto
    have take: "take (Suc (length ?xs)) ?stack @ [base_from_price (cur t i) z] = stack_at ?pr t i"
      if z: "tree_price in_pool price_of t i = Inr (Some z)" for z
    proof -
      have "?pr i = z" using z by (simp add: found_price_def)
      then show ?thesis
        unfolding stack using pq by (simp add: stack_at_def way_down_def ancestors_step [OF ok i0 i])
    qed
    show ?thesis
    proof (cases "in_pool (cur t i) ?q")
      case True
      note visited = True
      show ?thesis
      proof (cases "maybe_price (price_of (cur t i) ?q)")
        case (Inr feed)
        show ?thesis
        proof (cases feed)
          case (Some x)
          show ?thesis
          proof (cases "price_mul x pq")
            case (Some z)
            then have "tree_price in_pool price_of t i = Inr (Some z)"
              using visited Inr \<open>feed = Some x\<close> pp(1) \<open>pp = Some pq\<close> by (simp add: step visit_any_on_currencies_def)
            then show ?thesis
              using visited Inr \<open>feed = Some x\<close> Some find take
              by (simp add: visit_any_on_currencies_def leg_cmd_on_def)
          qed (use visited Inr Some find pp(1) \<open>pp = Some pq\<close> in
              \<open>simp add: step visit_any_on_currencies_def leg_cmd_on_def\<close>)
        qed (use visited Inr find pp(1) \<open>pp = Some pq\<close> in
            \<open>simp add: step visit_any_on_currencies_def leg_cmd_on_def\<close>)
      qed (use visited find pp(1) \<open>pp = Some pq\<close> in
          \<open>simp add: step visit_any_on_currencies_def leg_cmd_on_def\<close>)
    qed (simp add: step visit_any_on_currencies_def)
  qed
qed

lemma scan_legs_tree:
  assumes df: "tree_df t" and names: "distinct (map (\<lambda>n. target (node_value n)) t)"
  shows "walk_at in_pool price_of t j i \<Longrightarrow> i + n = length t \<Longrightarrow>
    collect_prices (scan_legs in_pool price_of (stack_at (found_price in_pool price_of t) t j) (map (leg_at t) [i..<length t]))
    = gather_prices (tree_price in_pool price_of t) t [i..<length t]"
proof (induction n arbitrary: i j)
  case (Suc n)
  have i: "i < length t" using Suc.prems(2) by simp
  have split: "[i..<length t] = i # [Suc i..<length t]" using i by (simp add: upt_conv_Cons)
  have same: "map_res (\<lambda>x. x) m = m" for m :: "(oracle_error, unit base_price list) res" by (cases m) simp_all
  note leg = scan_leg [OF df names Suc.prems(1) i]
  have legs: "leg_from (leg_at t i) = cur t i" "target (leg_to (leg_at t i)) = cur t (parent_index (t ! i))"
    by (simp_all add: leg_at_def)
  show ?case
  proof (cases "tree_price in_pool price_of t i")
    case (Inl e)
    then show ?thesis unfolding split by (simp add: legs leg)
  next
    case (Inr p)
    have walk: "walk_at in_pool price_of t (if p = None then j else i) (Suc i)"
      using Suc.prems(1) Inr by (auto simp: walk_at_def less_Suc_eq)
    show ?thesis
      using Suc.IH [OF walk] Suc.prems(2) Inr unfolding split
      by (cases p) (simp_all add: legs leg same)
  qed
qed simp

lemma all_prices_by_tree:
  assumes ok: "pairs_ok base_c stable_c t" and df: "tree_df t"
  shows "collect_prices (all_prices_iter in_pool price_of base_c (legs_up t))
    = gather_prices (tree_price in_pool price_of t) t [1..<length t]"
proof -
  have t: "t \<noteq> []" "cur t 0 = base_c" "distinct (map (\<lambda>n. target (node_value n)) t)"
    using ok by (auto simp: pairs_ok_def tree_ok_def cur_def)
  have "leg_cmd_new base_c = stack_at (found_price in_pool price_of t) t 0"
    using t(2) by (simp add: leg_cmd_new_def stack_at_def way_down_def found_price_def)
  moreover have "walk_at in_pool price_of t 0 1" by (simp add: walk_at_def)
  ultimately show ?thesis
    using scan_legs_tree [OF df t(3), of in_pool price_of 0 1 "length t - 1"] t(1)
    by (cases t) (simp_all add: all_prices_iter_def legs_up_at)
qed

section \<open>The price of one currency\<close>

text \<open>The prices of the feeds on a way, if there are all.\<close>

fun way_prices :: "feed_price \<Rightarrow> string list \<Rightarrow> pair_price list option" where
  "way_prices price_of (c # q # rest) =
     (case price_of c q of
        Inr x \<Rightarrow> map_option ((#) x) (way_prices price_of (q # rest))
      | Inl _ \<Rightarrow> None)"
| "way_prices price_of cs = Some []"

definition amounts :: "pair_price list \<Rightarrow> nat" where
  "amounts xs = prod_list (map (\<lambda>x. amount (price_amount x)) xs)"

definition quotes :: "pair_price list \<Rightarrow> nat" where
  "quotes xs = prod_list (map (\<lambda>x. amount (price_amount_quote x)) xs)"

lemma products_simps [simp]:
  "amounts [] = 1" "amounts (x # xs) = amount (price_amount x) * amounts xs"
  "quotes [] = 1" "quotes (x # xs) = amount (price_amount_quote x) * quotes xs"
  by (simp_all add: amounts_def quotes_def)

lemma products_pos: "list_all price_ok xs \<Longrightarrow> 0 < amounts xs \<and> 0 < quotes xs"
  by (induction xs) (auto simp: price_ok_def)

lemma price_is_mul:
  assumes "price_is m a q" "price_is r (amount (price_amount m) * x) (amount (price_amount_quote m) * y)" "price_ok m"
  shows "price_is r (a * x) (q * y)"
proof -
  let ?M = "amount (price_amount m)" and ?N = "amount (price_amount_quote m)"
  let ?R = "amount (price_amount r)" and ?S = "amount (price_amount_quote r)"
  have "?N * a = ?M * q" "?S * (?M * x) = ?R * (?N * y)" using assms(1,2) by (auto simp: price_is_def)
  then have "?M * (?S * (a * x)) = ?M * (?R * (q * y))"
    by (metis (no_types, lifting) mult.assoc mult.left_commute)
  then show ?thesis using assms(3) by (simp add: price_is_def price_ok_def)
qed

lemma fits_tail: "a \<le> b \<Longrightarrow> b * (x::nat) < n \<Longrightarrow> a * x < n"
  using mult_le_mono1 le_less_trans by blast

lemma fits_head: "a * b < (n::nat) \<Longrightarrow> 0 < b \<Longrightarrow> a < n"
  by (cases b) auto

lemma price_is_same:
  assumes "price_ok r" "price_ok p" "price_is r a q" "price_is p a q" "0 < a"
  shows "r = p"
proof (rule price_is_unique [OF assms(1,2)])
  let ?P = "amount (price_amount p)" and ?S = "amount (price_amount_quote p)"
  let ?R = "amount (price_amount r)" and ?T = "amount (price_amount_quote r)"
  have "?T * a = ?R * q" "?S * a = ?P * q" using assms(3,4) by (auto simp: price_is_def)
  then have "(?T * ?P) * a = (?R * ?S) * a" by (metis (no_types, lifting) mult.assoc mult.left_commute mult.commute)
  then show "price_is r ?P ?S" using assms(5) by (simp add: price_is_def)
qed

lemma do_collect_exact:
  assumes "way_prices price_of (c # path) = Some xs" "list_all price_ok xs" "price_ok acc"
    "successively in_pool (c # path)"
    "amount (price_amount acc) * amounts xs < 2 ^ 128" "amount (price_amount_quote acc) * quotes xs < 2 ^ 128"
  shows "\<exists>r. do_collect in_pool price_of c acc path = Inr r \<and> price_ok r
    \<and> price_is r (amount (price_amount acc) * amounts xs) (amount (price_amount_quote acc) * quotes xs)"
  using assms
proof (induction path arbitrary: c acc xs)
  case Nil
  then show ?case using price_mul_identity(1) [OF Nil.prems(3)] by (auto simp: price_is_self)
next
  case (Cons q path)
  obtain x ys where x: "price_of c q = Inr x" "way_prices price_of (q # path) = Some ys" "xs = x # ys"
    using Cons.prems(1) by (auto split: sum.splits)
  have ok: "price_ok x" "list_all price_ok ys" using Cons.prems(2) x(3) by simp_all
  let ?a = "amount (price_amount acc) * amount (price_amount x)"
  let ?q = "amount (price_amount_quote acc) * amount (price_amount_quote x)"
  have fits: "?a * amounts ys < 2 ^ 128" "?q * quotes ys < 2 ^ 128"
    using Cons.prems(5,6) x(3) by (simp_all add: mult.assoc)
  have pos: "0 < amounts ys" "0 < quotes ys" using products_pos [OF ok(2)] by simp_all
  obtain m :: pair_price where m: "price_mul acc x = Some m" "price_ok m" "price_is m ?a ?q"
    using price_mul_exact [OF Cons.prems(3) ok(1)] fits_head [OF fits(1) pos(1)] fits_head [OF fits(2) pos(2)] by auto
  have "amount (price_amount m) \<le> ?a" "amount (price_amount_quote m) \<le> ?q"
    using price_is_bounds [OF m(2,3)] Cons.prems(3) ok(1) by (auto simp: price_ok_def)
  then have fits': "amount (price_amount m) * amounts ys < 2 ^ 128" "amount (price_amount_quote m) * quotes ys < 2 ^ 128"
    using fits_tail [OF _ fits(1)] fits_tail [OF _ fits(2)] by blast+
  have pools: "in_pool c q" "successively in_pool (q # path)" using Cons.prems(4) by auto
  obtain r where r: "do_collect in_pool price_of q m path = Inr r" "price_ok r"
    "price_is r (amount (price_amount m) * amounts ys) (amount (price_amount_quote m) * quotes ys)"
    using Cons.IH [OF x(2) ok(2) m(2) pools(2) fits'] by blast
  have "price_is r (?a * amounts ys) (?q * quotes ys)" by (rule price_is_mul [OF m(3) r(3) m(2)])
  then show ?case using pools(1) x m(1) r(1,2) by (simp add: mult.assoc)
qed

lemma tree_price_exact:
  assumes ok: "tree_ok t" and pools: "\<And>k. 0 < k \<Longrightarrow> k < length t \<Longrightarrow> in_pool (cur t k) (cur t (parent_index (t ! k)))"
  shows "i < length t \<Longrightarrow> way_prices price_of (map (cur t) (i # ancestors t i)) = Some xs \<Longrightarrow> list_all price_ok xs \<Longrightarrow>
    amounts xs < 2 ^ 128 \<Longrightarrow> quotes xs < 2 ^ 128 \<Longrightarrow>
    \<exists>r. tree_price in_pool price_of t i = Inr (Some r) \<and> price_ok r \<and> price_is r (amounts xs) (quotes xs)"
proof (induction i arbitrary: xs rule: less_induct)
  case (less i)
  show ?case
  proof (cases "i = 0")
    case True
    have "price_is (price_identity :: pair_price) 1 1" by (simp add: price_is_def price_identity_def)
    then show ?thesis using True less.prems(2) by auto
  next
    case False
    then have i: "0 < i" by simp
    let ?p = "parent_index (t ! i)"
    have p: "?p < i" by (rule parent_below [OF ok i less.prems(1)])
    obtain x ys where x: "price_of (cur t i) (cur t ?p) = Inr x"
        "way_prices price_of (map (cur t) (?p # ancestors t ?p)) = Some ys" "xs = x # ys"
      using less.prems(2) ancestors_step [OF ok i less.prems(1)] by (auto split: sum.splits)
    have oks: "price_ok x" "list_all price_ok ys" using less.prems(3) x(3) by simp_all
    have xpos: "0 < amount (price_amount x)" "0 < amount (price_amount_quote x)" using oks(1) by (simp_all add: price_ok_def)
    have fits: "amounts ys * amount (price_amount x) < 2 ^ 128" "quotes ys * amount (price_amount_quote x) < 2 ^ 128"
      using less.prems(4,5) x(3) by (simp_all add: mult.commute)
    obtain m where m: "tree_price in_pool price_of t ?p = Inr (Some m)" "price_ok m" "price_is m (amounts ys) (quotes ys)"
      using less.IH [OF p _ x(2) oks(2)] p less.prems(1) fits_head [OF fits(1) xpos(1)] fits_head [OF fits(2) xpos(2)]
      by auto
    have le: "amount (price_amount m) \<le> amounts ys" "amount (price_amount_quote m) \<le> quotes ys"
      using price_is_bounds [OF m(2,3)] products_pos [OF oks(2)] by auto
    have prod: "amount (price_amount x) * amount (price_amount m) < 2 ^ 128"
      "amount (price_amount_quote x) * amount (price_amount_quote m) < 2 ^ 128"
      using fits_tail [OF le(1) fits(1)] fits_tail [OF le(2) fits(2)] by (simp_all only: mult.commute)
    obtain r :: pair_price where r: "price_mul x m = Some r" "price_ok r"
      "price_is r (amount (price_amount x) * amount (price_amount m)) (amount (price_amount_quote x) * amount (price_amount_quote m))"
      using price_mul_exact [OF oks(1) m(2) prod] by blast
    have "price_is r (amounts ys * amount (price_amount x)) (quotes ys * amount (price_amount_quote x))"
      using r(3) by (intro price_is_mul [OF m(3) _ m(2)]) (simp add: mult.commute)
    then show ?thesis
      using tree_price_Some [OF ok i less.prems(1), of in_pool price_of r] pools [OF i less.prems(1)] m(1) x(1,3) r(1,2)
      by (auto simp: mult.commute)
  qed
qed

definition legs_in_pools :: "(string \<Rightarrow> string \<Rightarrow> bool) \<Rightarrow> swap_target tree \<Rightarrow> bool" where
  "legs_in_pools in_pool t \<longleftrightarrow> (\<forall>k. 0 < k \<longrightarrow> k < length t \<longrightarrow> in_pool (cur t k) (cur t (parent_index (t ! k))))"

lemma way_in_pools:
  assumes "tree_ok t" "legs_in_pools in_pool t"
  shows "i < length t \<Longrightarrow> successively in_pool (map (cur t) (i # ancestors t i))"
proof (induction i rule: less_induct)
  case (less i)
  show ?case
  proof (cases "i = 0")
    case False
    then have i: "0 < i" by simp
    have p: "parent_index (t ! i) < i" by (rule parent_below [OF assms(1) i less.prems])
    then show ?thesis
      using less.IH [OF p] less.prems i assms(2) ancestors_step [OF assms(1) i less.prems]
      by (simp add: legs_in_pools_def)
  qed simp
qed

lemma load_path_way:
  assumes "pairs_ok base_c stable_c t" "i < length t"
  shows "load_path base_c t (cur t i) = Inr (map (cur t) (i # ancestors t i))"
proof -
  have "cur t i \<in> tree_currencies t" using assms(2) by (auto simp: tree_currencies_def cur_def)
  then obtain k where k: "k < length t" "internal_load_path base_c t (cur t i) = Inr (way_up t k)"
      "target (node_value (t ! k)) = cur t i"
    using internal_load_path_eq(2) [OF assms(1)] by blast
  have "k = i"
    using k(1,3) assms cur_eq_iff [of t k i] by (simp add: pairs_ok_def cur_def)
  then show ?thesis using k(2) by (simp add: load_path_def way_up_def cur_def o_def)
qed

lemma gather_member:
  "gather_prices price_at t is = Inr bs \<Longrightarrow> b \<in> set bs \<longleftrightarrow>
    (\<exists>k \<in> set is. \<exists>r. price_at k = Inr (Some r) \<and> b = base_from_price (cur t k) r)"
proof (induction "is" arbitrary: bs)
  case (Cons i "is")
  then obtain p rest where p: "price_at i = Inr p" "gather_prices price_at t is = Inr rest"
    "bs = (case p of None \<Rightarrow> rest | Some p \<Rightarrow> base_from_price (cur t i) p # rest)"
    by auto
  show ?case using Cons.IH [OF p(2)] p(1,3) by (cases p) auto
qed simp

text \<open>
  C18. The price of one currency and its price among all prices agree. The query of one price
  multiplies the prices of the feeds from the currency up to the base; the iterator of all prices
  walks the legs of the tree and multiplies down from the base. When all feeds on the way have a
  price and the two products of the amounts on the way fit 128 bits, the query of the one price
  succeeds with the exact product in its lowest terms; and if the iterator of all prices
  yields no error, the same price is among those it yields, and no other for this currency.
\<close>

theorem base_price_agrees:
  assumes pairs: "pairs_ok base_c stable_c t" "tree_df t" "legs_in_pools in_pool t" and i: "0 < i" "i < length t"
    and way: "way_prices price_of (map (cur t) (i # ancestors t i)) = Some xs" "list_all price_ok xs"
    and fits: "amounts xs < 2 ^ 128" "quotes xs < 2 ^ 128"
  shows "\<exists>p :: pair_price. calc_base_price in_pool price_of base_c t (cur t i) = Inr (base_from_price (cur t i) p)
    \<and> price_ok p \<and> price_is p (amounts xs) (quotes xs)
    \<and> (\<forall>bs. collect_prices (all_prices_iter in_pool price_of base_c (legs_up t)) = Inr bs \<longrightarrow>
          {b \<in> set bs. bp_currency b = cur t i} = {base_from_price (cur t i) p})"
proof -
  have ok: "tree_ok t" using pairs(1) by (simp add: pairs_ok_def)
  have id: "amount (price_amount price_identity) = 1" "amount (price_amount_quote price_identity) = 1"
    by (simp_all add: price_identity_def)
  obtain p where p: "do_collect in_pool price_of (cur t i) price_identity (map (cur t) (ancestors t i)) = Inr p"
    "price_ok p" "price_is p (amounts xs) (quotes xs)"
    using do_collect_exact [OF way(1) [unfolded list.map] way(2) price_identity_ok
        way_in_pools [OF ok pairs(3) i(2), unfolded list.map]] fits by (auto simp: id)
  obtain r where r: "tree_price in_pool price_of t i = Inr (Some r)" "price_ok r" "price_is r (amounts xs) (quotes xs)"
    using tree_price_exact [OF ok _ i(2) way fits] pairs(3) by (auto simp: legs_in_pools_def)
  have "0 < amounts xs" "0 < quotes xs" using products_pos [OF way(2)] by simp_all
  then have rp: "r = p" using price_is_same [OF r(2) p(2) r(3) p(3)] by simp
  have "{b \<in> set bs. bp_currency b = cur t i} = {base_from_price (cur t i) p}"
    if all: "collect_prices (all_prices_iter in_pool price_of base_c (legs_up t)) = Inr bs" for bs
  proof -
    note member = gather_member [OF all [unfolded all_prices_by_tree [OF pairs(1,2)]]]
    have "k = i" if "k < length t" "bp_currency (base_from_price (cur t k) q) = cur t i" for k and q :: pair_price
      using that i(2) pairs(1) cur_eq_iff [of t k i] by (simp add: pairs_ok_def base_from_price_def)
    then show ?thesis
      using member i r(1) rp by (fastforce simp: base_from_price_def)
  qed
  moreover have "calc_base_price in_pool price_of base_c t (cur t i) = Inr (base_from_price (cur t i) p)"
    using p(1) load_path_way [OF pairs(1) i(2)] by (simp add: calc_base_price_def feeds_price_def)
  ultimately show ?thesis using p(2,3) by blast
qed

end
