(* ===== verification/Price_Delivery.thy ===== *)
theory Price_Delivery
  imports Price_Alarms
begin

text \<open>
  What the price alarms guarantee. The invariant of the store: the indexes are sorted with one
  entry for a subscriber; who has an alarm at or above a price has one below a price too, of
  the same currency and not greater. So at one price at most one of the two fires, and over
  prices of distinct currencies no subscriber is selected twice.
\<close>

section \<open>The invariant of the store\<close>

definition alarm_pair_ok :: "norm_price \<Rightarrow> norm_price option \<Rightarrow> bool" where
  "alarm_pair_ok b above_price = (case above_price of
     None \<Rightarrow> True | Some n \<Rightarrow> fst n = fst b \<and> snd n \<le> snd b)"

definition in_queue_subscribers :: "price_alarms \<Rightarrow> addr list" where
  "in_queue_subscribers s = map aws_subscriber (alarms_in_delivery s)"

definition price_waiting :: "price_alarms \<Rightarrow> addr set" where
  "price_waiting s = dom (index_may_load (alarms_below s))"

definition entry_ok :: "addr \<Rightarrow> norm_price option \<Rightarrow> norm_price option \<Rightarrow> bool" where
  "entry_ok a b n = (case b of None \<Rightarrow> n = None | Some b \<Rightarrow> a \<noteq> '''' \<and> alarm_pair_ok b n)"

lemma entry_ok_simps [simp]:
  "entry_ok a None n \<longleftrightarrow> n = None"
  "entry_ok a (Some b) n \<longleftrightarrow> a \<noteq> '''' \<and> alarm_pair_ok b n"
  by (simp_all add: entry_ok_def)

definition store_pairs_ok :: "price_alarms \<Rightarrow> bool" where
  "store_pairs_ok s \<longleftrightarrow>
     (\<forall>a. entry_ok a (index_may_load (alarms_below s) a) (index_may_load (alarms_above_or_equal s) a))"

definition queue_ok :: "price_alarms \<Rightarrow> bool" where
  "queue_ok s = (distinct (in_queue_subscribers s)
     \<and> (\<forall>x \<in> set (alarms_in_delivery s). aws_subscriber x \<notin> price_waiting s \<and> aws_subscriber x \<noteq> ''''
          \<and> alarm_pair_ok (aws_below x) (aws_above x)))"

definition price_alarms_ok :: "price_alarms \<Rightarrow> bool" where
  "price_alarms_ok s = (index_ok (alarms_below s) \<and> index_ok (alarms_above_or_equal s)
     \<and> store_pairs_ok s \<and> queue_ok s)"

lemma store_pairsD:
  assumes "store_pairs_ok s"
  shows "index_may_load (alarms_above_or_equal s) a = Some n \<Longrightarrow>
      \<exists>b. index_may_load (alarms_below s) a = Some b \<and> fst n = fst b \<and> snd n \<le> snd b"
    and "index_may_load (alarms_below s) a = Some b \<Longrightarrow> a \<noteq> ''''"
  using assms [unfolded store_pairs_ok_def, rule_format, of a]
  by (auto simp: entry_ok_def alarm_pair_ok_def split: option.splits)

lemma store_pairs_none:
  "store_pairs_ok s \<Longrightarrow> a \<notin> price_waiting s \<Longrightarrow> index_may_load (alarms_above_or_equal s) a = None"
  unfolding store_pairs_ok_def price_waiting_def by (metis domIff entry_ok_simps(1))

lemma queue_update_simps [simp]:
  "store_pairs_ok (s\<lparr>alarms_in_delivery := q\<rparr>) = store_pairs_ok s"
  "price_waiting (s\<lparr>alarms_in_delivery := q\<rparr>) = price_waiting s"
  by (simp_all add: store_pairs_ok_def price_waiting_def)

definition fires :: "price_alarms \<Rightarrow> norm_price \<Rightarrow> addr \<Rightarrow> bool" where
  "fires s p a \<longleftrightarrow>
     (\<exists>n. index_may_load (alarms_below s) a = Some n \<and> fst n = fst p \<and> snd n < snd p)
   \<or> (\<exists>n. index_may_load (alarms_above_or_equal s) a = Some n \<and> fst n = fst p \<and> snd p \<le> snd n)"

lemma in_sub_prefix: "(n, a) \<in> set (sub_prefix m c) \<longleftrightarrow> ((c, n), a) \<in> set m"
  by (force simp: sub_prefix_def)

lemma sub_prefix_distinct: "index_ok m \<Longrightarrow> distinct (map snd (sub_prefix m c))"
  by (simp add: sub_prefix_def index_ok_def comp_def distinct_map_filter)

lemma iter_below_iff:
  assumes "price_alarms_ok s"
  shows "a \<in> set (iter_below s p) \<longleftrightarrow>
    (\<exists>n. index_may_load (alarms_below s) a = Some n \<and> fst n = fst p \<and> snd n < snd p)"
proof -
  have "a \<in> set (iter_below s p) \<longleftrightarrow> (\<exists>n. ((fst p, n), a) \<in> set (alarms_below s) \<and> n < snd p)"
    by (auto simp: iter_below_def index_range_def in_sub_prefix image_iff)
  then show ?thesis
    using assms by (auto simp: price_alarms_ok_def index_load_iff)
qed

lemma iter_above_iff:
  assumes "price_alarms_ok s"
  shows "a \<in> set (iter_above_or_equal s p) \<longleftrightarrow>
    (\<exists>n. index_may_load (alarms_above_or_equal s) a = Some n \<and> fst n = fst p \<and> snd p \<le> snd n)"
proof -
  have none: "((c, n), '''') \<notin> set (alarms_above_or_equal s)" for c n
    using assms store_pairsD [of s "''''"] by (fastforce simp: price_alarms_ok_def index_load_iff [symmetric])
  have "'''' < a \<longleftrightarrow> a \<noteq> ''''" by (cases a) auto
  then have "a \<in> set (iter_above_or_equal s p)
      \<longleftrightarrow> (\<exists>n. ((fst p, n), a) \<in> set (alarms_above_or_equal s) \<and> snd p \<le> n)"
    using none by (auto simp: iter_above_or_equal_def index_range_def in_sub_prefix image_iff le_less)
  then show ?thesis
    using assms by (auto simp: price_alarms_ok_def index_load_iff)
qed

lemma iters_distinct:
  assumes "price_alarms_ok s"
  shows "distinct (iter_below s p @ iter_above_or_equal s p)"
proof -
  have "distinct (iter_below s p)" "distinct (iter_above_or_equal s p)"
    using assms sub_prefix_distinct
    by (auto simp: price_alarms_ok_def iter_below_def iter_above_or_equal_def index_range_def distinct_map_filter)
  moreover have "a \<notin> set (iter_above_or_equal s p)" if "a \<in> set (iter_below s p)" for a
    using that assms store_pairsD(1) [of s a]
    by (fastforce simp: iter_below_iff iter_above_iff price_alarms_ok_def)
  ultimately show ?thesis by auto
qed

lemma iters_fire: "price_alarms_ok s \<Longrightarrow> set (iter_below s p @ iter_above_or_equal s p) = {a. fires s p a}"
  by (auto simp: iter_below_iff iter_above_iff fires_def)

lemma fires_waiting: "price_alarms_ok s \<Longrightarrow> fires s p a \<Longrightarrow> a \<in> price_waiting s"
  using store_pairsD(1) [of s a] by (fastforce simp: fires_def price_waiting_def price_alarms_ok_def)

lemma fires_currency:
  assumes "price_alarms_ok s" "fires s p a" "fires s q a"
  shows "fst p = fst q"
  using assms store_pairsD(1) [of s a] by (fastforce simp: fires_def price_alarms_ok_def)

section \<open>Delivery\<close>

lemma price_out_spec:
  assumes "price_alarms_ok s" "a \<in> price_waiting s"
  shows "\<exists>s'. price_out_for_delivery s a = Inr s' \<and> price_alarms_ok s'
    \<and> price_waiting s' = price_waiting s - {a} \<and> in_queue_subscribers s' = in_queue_subscribers s @ [a]"
proof -
  obtain b where b: "index_may_load (alarms_below s) a = Some b" using assms(2) by (auto simp: price_waiting_def)
  let ?above = "index_may_load (alarms_above_or_equal s) a"
  let ?s = "s\<lparr>alarms_below := index_remove (alarms_below s) a,
    alarms_above_or_equal := (case ?above of None \<Rightarrow> alarms_above_or_equal s
      | Some _ \<Rightarrow> index_remove (alarms_above_or_equal s) a),
    alarms_in_delivery := alarms_in_delivery s @ [\<lparr>aws_subscriber = a, aws_below = b, aws_above = ?above\<rparr>]\<rparr>"
  have out: "price_out_for_delivery s a = Inr ?s"
    using b by (simp add: price_out_for_delivery_def Let_def split: option.split)
  have load: "index_may_load (alarms_above_or_equal ?s) x
      = (if x = a then None else index_may_load (alarms_above_or_equal s) x)" for x
    by (cases ?above) (auto simp: index_simps)
  have waiting: "price_waiting ?s = price_waiting s - {a}"
    by (auto simp: price_waiting_def index_simps split: if_splits)
  have pair: "a \<noteq> ''''" "alarm_pair_ok b ?above"
    using assms(1) b entry_ok_simps(2) [of a b] unfolding price_alarms_ok_def store_pairs_ok_def by metis+
  have "store_pairs_ok ?s"
    unfolding store_pairs_ok_def load
    using assms(1) by (auto simp: price_alarms_ok_def store_pairs_ok_def index_simps)
  moreover have "queue_ok ?s"
    using assms pair unfolding queue_ok_def waiting
    by (auto simp: price_alarms_ok_def queue_ok_def in_queue_subscribers_def)
  moreover have "index_ok (alarms_below ?s)" "index_ok (alarms_above_or_equal ?s)"
    using assms(1) by (auto simp: price_alarms_ok_def split: option.split)
  ultimately show ?thesis
    using out waiting by (auto simp: price_alarms_ok_def in_queue_subscribers_def)
qed

lemma price_delivered_spec:
  assumes "price_alarms_ok s" "in_queue_subscribers s = a # q"
  shows "\<exists>s'. price_last_delivered s = Inr s' \<and> price_alarms_ok s'
    \<and> price_waiting s' = price_waiting s \<and> in_queue_subscribers s' = q"
proof -
  obtain x xs where q: "alarms_in_delivery s = x # xs" "aws_subscriber x = a" "map aws_subscriber xs = q"
    using assms(2) by (auto simp: in_queue_subscribers_def)
  then show ?thesis
    using assms(1)
    by (auto simp: price_last_delivered_def pop_front_in_delivery_def price_alarms_ok_def queue_ok_def
        in_queue_subscribers_def)
qed

lemma price_failed_spec:
  assumes "price_alarms_ok s" "in_queue_subscribers s = a # q"
  shows "\<exists>s'. price_last_failed s = Inr s' \<and> price_alarms_ok s'
    \<and> price_waiting s' = insert a (price_waiting s) \<and> in_queue_subscribers s' = q"
proof -
  obtain x xs where q: "alarms_in_delivery s = x # xs" "aws_subscriber x = a" "map aws_subscriber xs = q"
    using assms(2) by (auto simp: in_queue_subscribers_def)
  let ?s = "s\<lparr>alarms_in_delivery := xs, alarms_below := index_save (alarms_below s) a (aws_below x),
    alarms_above_or_equal := (case aws_above x of None \<Rightarrow> alarms_above_or_equal s
      | Some n \<Rightarrow> index_save (alarms_above_or_equal s) a n)\<rparr>"
  have failed: "price_last_failed s = Inr ?s"
    using q by (simp add: price_last_failed_def pop_front_in_delivery_def add_alarm_below_internal_def
        add_alarm_above_or_equal_internal_def Let_def split: option.split)
  have x: "a \<notin> price_waiting s" "a \<noteq> ''''" "alarm_pair_ok (aws_below x) (aws_above x)" "a \<notin> set q"
    using assms(1) q by (auto simp: price_alarms_ok_def queue_ok_def in_queue_subscribers_def)
  then have "index_may_load (alarms_above_or_equal s) a = None"
    using assms(1) by (simp add: price_alarms_ok_def store_pairs_none)
  then have load: "index_may_load (alarms_above_or_equal ?s) y
      = (if y = a then aws_above x else index_may_load (alarms_above_or_equal s) y)" for y
    by (cases "aws_above x") (auto simp: index_simps)
  have waiting: "price_waiting ?s = insert a (price_waiting s)"
    by (auto simp: price_waiting_def index_simps split: if_splits)
  have "store_pairs_ok ?s"
    unfolding store_pairs_ok_def load
    using assms(1) x by (auto simp: price_alarms_ok_def store_pairs_ok_def index_simps)
  moreover have "aws_subscriber y \<noteq> a" if "y \<in> set xs" for y
    using x(4) q(3) that by auto
  then have "queue_ok ?s"
    using assms(1) q x unfolding queue_ok_def waiting
    by (auto simp: price_alarms_ok_def queue_ok_def in_queue_subscribers_def)
  moreover have "index_ok (alarms_below ?s)" "index_ok (alarms_above_or_equal ?s)"
    using assms(1) by (auto simp: price_alarms_ok_def split: option.split)
  ultimately show ?thesis
    using failed waiting q by (auto simp: price_alarms_ok_def in_queue_subscribers_def)
qed

interpretation price_delivery: alarm_delivery price_waiting in_queue_subscribers price_alarms_ok
    price_out_for_delivery price_last_delivered price_last_failed
  by unfold_locales (simp_all add: price_out_spec price_delivered_spec price_failed_spec)

section \<open>Dispatch over the current prices\<close>

lemma take_alarms_eq:
  fixes bs :: "'q base_price list"
  assumes "\<And>b. b \<in> set bs \<Longrightarrow> next_alarms s (Inr b :: ('e, 'q base_price) res) = Inr (alarms_at b)"
  shows "take_alarms s n (map Inr bs :: ('e, 'q base_price) res list) (Some as) = Inr (take n (as @ concat (map alarms_at bs)))"
  using assms
proof (induction n arbitrary: bs as)
  case (Suc n)
  note IH = Suc.IH
  show ?case using Suc.prems
  proof (induction bs arbitrary: as)
    case Nil
    then show ?case using IH [of "[]" "tl as"] by (cases as) auto
  next
    case (Cons b bs)
    note here = Cons
    show ?case
    proof (cases as)
      case Nil
      have "take_alarms s (Suc n) (map Inr (b # bs) :: ('e, 'q base_price) res list) (Some [])
          = take_alarms s (Suc n) (map Inr bs) (Some (alarms_at b))"
        using here(2) [of b] by simp
      then show ?thesis using Nil here by simp
    next
      case (Cons a rest)
      then show ?thesis using IH [of "b # bs" rest] here(2) by simp
    qed
  qed
qed simp

lemma notify_alarms_eq:
  fixes bs :: "'q base_price list"
  assumes "\<And>b. b \<in> set bs \<Longrightarrow> next_alarms s (Inr b :: ('e, 'q base_price) res) = Inr (alarms_at b)"
  shows "notify_alarms s n (map Inr bs :: ('e, 'q base_price) res list) = Inr (take n (concat (map alarms_at bs)))"
proof (cases bs)
  case Nil
  then show ?thesis by (cases n) (simp_all add: notify_alarms_def)
next
  case (Cons b bs')
  then show ?thesis using assms by (simp add: notify_alarms_def take_alarms_eq)
qed

text \<open>The normalized value of a base price, by its raw amounts.\<close>

definition norm_of :: "'q base_price \<Rightarrow> norm_price" where
  "norm_of b = (bp_currency b, norm_scale * bp_amount b div amount (bp_quote b))"

definition norm_fits :: "'q base_price \<Rightarrow> bool" where
  "norm_fits b \<longleftrightarrow> base_price_ok b \<and> snd (norm_of b) < 2 ^ 128"

lemma normalized_new_eq:
  assumes "price_ok p" "price_is p a q" "0 < q" "norm_scale * a div q < 2 ^ 128"
  shows "normalized_new c p = Some (c, norm_scale * a div q)"
proof -
  let ?a = "amount (price_amount p)" and ?q = "amount (price_amount_quote p)"
  have pos: "0 < ?q" using assms(1) by (simp add: price_ok_def)
  have "?q * a = ?a * q" using assms(2) by (simp add: price_is_def)
  then have "norm_scale * a * ?q = norm_scale * ?a * q" by (metis mult.assoc mult.commute)
  then have eq: "norm_scale * ?a div ?q = norm_scale * a div q"
    by (metis assms(3) div_mult_mult2 less_not_refl mult.commute pos)
  then have "total (Coin norm_scale) (price_inv p) = Some (Coin (norm_scale * a div q))"
    using assms(1,4) total_Some [of "price_inv p"] by simp
  then show ?thesis by (simp add: normalized_new_def)
qed

lemma next_alarms_eq:
  assumes "norm_fits b"
  shows "next_alarms s (Inr b) = Inr (iter_below s (norm_of b) @ iter_above_or_equal s (norm_of b))"
proof -
  obtain p :: "(unit, 'a) price" where p: "price_new (Coin (bp_amount b)) (bp_quote b) = Some p" "price_ok p"
    "price_is p (bp_amount b) (amount (bp_quote b))"
    using assms price_of_base [of b] by (auto simp: norm_fits_def)
  then have "normalized_new (bp_currency b) p = Some (norm_of b)"
    using assms normalized_new_eq [OF p(2,3)] by (simp add: norm_fits_def norm_of_def base_price_ok_def)
  then show ?thesis
    using p(1) by (simp add: next_alarms_def with_base_price_eq price_alarms_of_def)
qed

definition selected_by :: "price_alarms \<Rightarrow> 'q base_price list \<Rightarrow> addr list" where
  "selected_by s bs = concat (map (\<lambda>b. iter_below s (norm_of b) @ iter_above_or_equal s (norm_of b)) bs)"

lemma notify_selected:
  fixes bs :: "'q base_price list"
  assumes "list_all norm_fits bs"
  shows "notify_alarms s n (map Inr bs :: ('e, 'q base_price) res list) = Inr (take n (selected_by s bs))"
  using assms by (auto simp: selected_by_def list_all_iff next_alarms_eq intro!: notify_alarms_eq)

lemma selected_by_iff:
  "price_alarms_ok s \<Longrightarrow> a \<in> set (selected_by s bs) \<longleftrightarrow> (\<exists>b \<in> set bs. fires s (norm_of b) a)"
  using iters_fire [of s] by (auto simp: selected_by_def)

lemma selected_waiting:
  assumes "price_alarms_ok s"
  shows "set (take n (selected_by s bs)) \<subseteq> price_waiting s"
proof -
  have "set (selected_by s bs) \<subseteq> price_waiting s"
    using selected_by_iff [OF assms] fires_waiting [OF assms] by (meson subsetI)
  then show ?thesis using set_take_subset by (rule order_trans [rotated])
qed

lemma selected_by_distinct:
  assumes "price_alarms_ok s" "distinct (map bp_currency bs)"
  shows "distinct (selected_by s bs)"
  using assms(2)
proof (induction bs)
  case (Cons b bs)
  have "a \<notin> set (selected_by s bs)" if "fires s (norm_of b) a" for a
  proof
    assume "a \<in> set (selected_by s bs)"
    then obtain b' where "b' \<in> set bs" "fires s (norm_of b') a"
      using selected_by_iff [OF assms(1)] by blast
    with that have "bp_currency b = bp_currency b'" "b' \<in> set bs"
      using fires_currency [OF assms(1)] by (fastforce simp: norm_of_def)+
    with Cons.prems show False by auto
  qed
  then have "set (iter_below s (norm_of b) @ iter_above_or_equal s (norm_of b)) \<inter> set (selected_by s bs) = {}"
    unfolding iters_fire [OF assms(1)] by blast
  moreover have "selected_by s (b # bs)
      = (iter_below s (norm_of b) @ iter_above_or_equal s (norm_of b)) @ selected_by s bs"
    by (simp add: selected_by_def)
  ultimately show ?case
    using Cons iters_distinct [OF assms(1), of "norm_of b"]
    by (simp only: distinct_append list.simps distinct.simps)
qed (simp add: selected_by_def)

lemma try_notify_alarms_eq:
  assumes "notify_alarms s n prices = Inr subscribers"
  shows "try_notify_alarms E s prices n =
     (if alarms_in_delivery s \<noteq> [] then Inl (Fail (E (NonEmptyPriceAlarmsQueue ''Assertion requested'')))
      else map_err E (and_then (try_fold price_out_for_delivery s subscribers) (\<lambda>s'.
        map_res (\<lambda>n. (s', n, dispatcher_of PriceAlarm subscribers oracle_reply_id))
          (or_panic (fits 32 (length subscribers))))))"
proof -
  note dispatching = try_fold_dispatching
    [of oracle_reply_id "\<lambda>s x. map_err E (price_out_for_delivery s x)" PriceAlarm s subscribers,
      unfolded try_fold_map_err]
  show ?thesis
    unfolding try_notify_alarms_def Let_def ensure_none_in_delivery_def
    by (cases "try_fold price_out_for_delivery s subscribers";
        cases "projl (try_fold price_out_for_delivery s subscribers)"; cases "fits 32 (length subscribers)")
      (simp_all add: assms dispatching del: fits_Some fits_None)
qed

text \<open>
  A dispatch of price alarms over correct prices of distinct currencies succeeds exactly when
  no earlier alarm is still in delivery. It sends, up to the limit, alarms that fire at one of
  the prices, each subscriber once, and all of them if the limit allows; exactly these leave the
  store, and they make the queue. In particular no subscriber is missing an alarm to deliver.
\<close>

theorem price_dispatch_spec:
  assumes ok: "price_alarms_ok s" and prices: "list_all norm_fits bs" "distinct (map bp_currency bs)"
    and limit: "n < 2 ^ 32"
  shows "(case try_notify_alarms E s (map Inr bs) n of
      Inl e \<Rightarrow> alarms_in_delivery s \<noteq> [] \<and> e = Fail (E (NonEmptyPriceAlarmsQueue ''Assertion requested''))
    | Inr (s', sent, d) \<Rightarrow>
        alarms_in_delivery s = [] \<and> price_alarms_ok s'
        \<and> sent = min n (card {a. \<exists>b \<in> set bs. fires s (norm_of b) a})
        \<and> length (in_queue_subscribers s') = sent \<and> distinct (in_queue_subscribers s')
        \<and> set (in_queue_subscribers s') \<subseteq> {a. \<exists>b \<in> set bs. fires s (norm_of b) a}
        \<and> dispatched_batch d = map (\<lambda>a. (a, PriceAlarm, oracle_reply_id)) (in_queue_subscribers s')
        \<and> price_waiting s' = price_waiting s - set (in_queue_subscribers s'))"
proof (cases "alarms_in_delivery s = []")
  case False
  then show ?thesis by (simp add: try_notify_alarms_eq [OF notify_selected [OF prices(1)]])
next
  case True
  let ?sel = "selected_by s bs" and ?fire = "{a. \<exists>b \<in> set bs. fires s (norm_of b) a}"
  let ?sent = "take n ?sel"
  have dist: "distinct ?sel" and set: "set ?sel = ?fire"
    using selected_by_distinct [OF ok prices(2)] selected_by_iff [OF ok] by auto
  have sent: "distinct ?sent" "set ?sent \<subseteq> price_waiting s" "set ?sent \<subseteq> ?fire" "length ?sent < 2 ^ 32"
    using dist set set_take_subset [of n ?sel] limit by (auto intro: selected_waiting [OF ok, THEN subsetD])
  obtain s' where s': "try_fold price_out_for_delivery s ?sent = Inr s'" "price_alarms_ok s'"
    "price_waiting s' = price_waiting s - set ?sent" "in_queue_subscribers s' = ?sent"
    using price_delivery.send_all [OF ok sent(1,2)] True by (auto simp: in_queue_subscribers_def)
  have "try_notify_alarms E s (map Inr bs) n
      = Inr (s', length ?sent, dispatcher_of PriceAlarm ?sent oracle_reply_id)"
    using True s'(1) sent(4) by (simp add: try_notify_alarms_eq [OF notify_selected [OF prices(1)]] fits_def
        del: length_take)
  moreover have "length ?sent = min n (card ?fire)"
    using dist set by (metis distinct_card length_take min.commute)
  ultimately show ?thesis
    using True s' sent by (simp add: dispatcher_of_def del: length_take)
qed

text \<open>
  A round of price alarms: after a dispatch over correct prices and the replies to the messages
  it sent, in their order, no alarm is left in delivery and exactly the subscribers whose handling
  succeeded have left the store; the alarms that failed are back in it, and the store is sound.
\<close>

theorem price_alarms_round:
  assumes "price_alarms_ok s" "list_all norm_fits bs" "distinct (map bp_currency bs)"
    and "alarms_in_delivery s = []" "n < 2 ^ 32" "length replies = length (take n (selected_by s bs))"
  shows "\<exists>s1 sent d s2. try_notify_alarms E s (map Inr bs) n = Inr (s1, sent, d)
    \<and> try_fold price_alarms_reply s1 replies = Inr s2
    \<and> price_alarms_ok s2 \<and> alarms_in_delivery s2 = []
    \<and> price_waiting s2 = price_waiting s - {a. (a, True) \<in> set (zip (in_queue_subscribers s1) replies)}"
proof -
  let ?sent = "take n (selected_by s bs)"
  have sent: "distinct ?sent" "set ?sent \<subseteq> price_waiting s" "length ?sent < 2 ^ 32"
    using selected_by_distinct [OF assms(1,3)] assms(5) by (auto intro: selected_waiting [OF assms(1), THEN subsetD])
  have q: "in_queue_subscribers s = []" using assms(4) by (simp add: in_queue_subscribers_def)
  have reply: "price_alarms_reply = replied price_last_delivered price_last_failed"
    by (intro ext) (simp add: price_alarms_reply_def replied_def)
  obtain s1 s2 where s1: "try_fold price_out_for_delivery s ?sent = Inr s1"
    and s2: "try_fold price_alarms_reply s1 replies = Inr s2" "price_alarms_ok s2"
      "in_queue_subscribers s2 = []" "price_waiting s2 = price_waiting s - {a. (a, True) \<in> set (zip ?sent replies)}"
    using price_delivery.round_trip [OF assms(1) q sent(1,2) assms(6)] unfolding reply by blast
  have "in_queue_subscribers s1 = ?sent"
    using price_delivery.send_all [OF assms(1) sent(1,2)] s1 q by auto
  moreover have "try_notify_alarms E s (map Inr bs) n
      = Inr (s1, length ?sent, dispatcher_of PriceAlarm ?sent oracle_reply_id)"
    using assms(4) s1 sent(3) by (simp add: try_notify_alarms_eq [OF notify_selected [OF assms(2)]] fits_def
        del: length_take)
  ultimately show ?thesis using s2 by (simp add: in_queue_subscribers_def)
qed

section \<open>Adding an alarm\<close>

lemma normalized_base:
  fixes b :: "'q base_price" and p :: "('c, 'q) price"
  assumes "base_price_ok b" "price_new (Coin (bp_amount b)) (bp_quote b) = Some p"
  shows "normalized_new c p = (if snd (norm_of b) < 2 ^ 128 \<or> normalized_new c p \<noteq> None
    then Some (c, snd (norm_of b)) else None)"
proof -
  obtain p' :: "('c, 'q) price" where "price_new (Coin (bp_amount b)) (bp_quote b) = Some p'" "price_ok p'"
    "price_is p' (bp_amount b) (amount (bp_quote b))"
    using price_of_base [OF assms(1), where ?'c = 'c] by blast
  with assms(2) have p: "price_ok p" "price_is p (bp_amount b) (amount (bp_quote b))" by auto
  let ?a = "amount (price_amount p)" and ?q = "amount (price_amount_quote p)"
  have pos: "0 < ?q" "0 < amount (bp_quote b)" using p(1) assms(1) by (auto simp: price_ok_def base_price_ok_def)
  have "norm_scale * bp_amount b * ?q = norm_scale * ?a * amount (bp_quote b)"
    using p(2) by (metis mult.assoc mult.commute price_is_def)
  then have "norm_scale * ?a div ?q = snd (norm_of b)"
    by (metis norm_of_def snd_conv div_mult_mult2 less_not_refl mult.commute pos)
  then have "\<exists>m. \<forall>t. total (Coin norm_scale) (price_inv p) = Some t \<longleftrightarrow>
      t = Coin (snd (norm_of b)) \<and> (m \<or> snd (norm_of b) < 2 ^ 128)"
    using p(1) total_Some [of "price_inv p" "Coin norm_scale"] by auto
  then show ?thesis
    by (cases "total (Coin norm_scale) (price_inv p)") (auto simp: normalized_new_def)
qed

lemma normalized_is_norm:
  "base_price_ok b \<Longrightarrow> price_new (Coin (bp_amount b)) (bp_quote b) = Some p
    \<Longrightarrow> normalized_new (bp_currency b) p = Some n \<Longrightarrow> n = norm_of b"
  using normalized_base [of b p "bp_currency b"] by (simp add: norm_of_def split: if_splits)

definition alarm_prices_ok :: "'q alarm \<Rightarrow> bool" where
  "alarm_prices_ok al \<longleftrightarrow> base_price_ok (alarm_below al) \<and> pred_option base_price_ok (alarm_above al)"

lemma alarm_prices_okD:
  "alarm_prices_ok al \<Longrightarrow> base_price_ok (alarm_below al)"
  "alarm_prices_ok al \<Longrightarrow> alarm_above al = Some ab \<Longrightarrow> base_price_ok ab"
  by (simp_all add: alarm_prices_ok_def)

lemma add_price_alarm_shape:
  assumes ok: "alarm_prices_ok al"
    and add: "add_price_alarm code_id_of s sub al = Inr s'"
  shows "s' = s\<lparr>alarms_below := index_save (alarms_below s) sub (norm_of (alarm_below al)),
      alarms_above_or_equal := (case alarm_above al of
        None \<Rightarrow> index_remove (alarms_above_or_equal s) sub
      | Some ab \<Rightarrow> index_save (alarms_above_or_equal s) sub (norm_of ab))\<rparr>"
    and "alarm_above al = Some ab \<Longrightarrow> bp_currency ab = bp_currency (alarm_below al)"
    and "code_id_of sub \<noteq> None"
proof -
  obtain p :: "(unit, 'a) price" where p: "price_new (Coin (bp_amount (alarm_below al))) (bp_quote (alarm_below al)) = Some p"
    using price_of_base [OF alarm_prices_okD(1) [OF ok], where ?'c = unit] by blast
  note add = add [unfolded add_price_alarm_def try_add_price_alarm_def with_base_price_eq [OF p]]
  show "code_id_of sub \<noteq> None" using add by (auto simp: validate_addr_def)
  have "s' = s\<lparr>alarms_below := index_save (alarms_below s) sub (norm_of (alarm_below al)),
      alarms_above_or_equal := (case alarm_above al of
        None \<Rightarrow> index_remove (alarms_above_or_equal s) sub
      | Some ab \<Rightarrow> index_save (alarms_above_or_equal s) sub (norm_of ab))\<rparr>
    \<and> (\<forall>ab. alarm_above al = Some ab \<longrightarrow> bp_currency ab = bp_currency (alarm_below al))"
  proof (cases "alarm_above al")
    case None
    then show ?thesis
      using add normalized_is_norm [OF alarm_prices_okD(1) [OF ok] p]
      by (auto simp: add_alarm_def Let_def add_alarm_below_internal_def remove_above_or_equal_def)
  next
    case (Some ab)
    then obtain p' :: "(unit, 'a) price" where p': "bp_currency ab = bp_currency (alarm_below al)"
      "price_new (Coin (bp_amount ab)) (bp_quote ab) = Some p'"
      "add_alarm s sub (bp_currency (alarm_below al)) p (Some p') = Some s'"
      using add by (auto simp: try_as_specific_Inr)
    then show ?thesis
      using Some normalized_is_norm [OF alarm_prices_okD(1) [OF ok] p] normalized_is_norm [OF alarm_prices_okD(2) [OF ok Some] p'(2)]
      by (auto simp: add_alarm_def Let_def add_alarm_below_internal_def add_alarm_above_or_equal_internal_def)
  qed
  then show "s' = s\<lparr>alarms_below := index_save (alarms_below s) sub (norm_of (alarm_below al)),
      alarms_above_or_equal := (case alarm_above al of
        None \<Rightarrow> index_remove (alarms_above_or_equal s) sub
      | Some ab \<Rightarrow> index_save (alarms_above_or_equal s) sub (norm_of ab))\<rparr>"
    and "alarm_above al = Some ab \<Longrightarrow> bp_currency ab = bp_currency (alarm_below al)" by auto
qed

lemma add_price_alarm_loads:
  assumes "alarm_prices_ok al" and "add_price_alarm code_id_of s sub al = Inr s'"
  shows "index_may_load (alarms_below s') a
      = (if a = sub then Some (norm_of (alarm_below al)) else index_may_load (alarms_below s) a)"
    and "index_may_load (alarms_above_or_equal s') a
      = (if a = sub then map_option norm_of (alarm_above al) else index_may_load (alarms_above_or_equal s) a)"
    and "index_ok (alarms_below s) \<Longrightarrow> index_ok (alarms_below s')"
    and "index_ok (alarms_above_or_equal s) \<Longrightarrow> index_ok (alarms_above_or_equal s')"
    and "alarms_in_delivery s' = alarms_in_delivery s"
  unfolding add_price_alarm_shape(1) [OF assms]
  by (cases "alarm_above al", simp_all add: index_simps)+

text \<open>Base prices compared by their raw amounts.\<close>

definition lower_price :: "'q base_price \<Rightarrow> 'q base_price \<Rightarrow> bool" where
  "lower_price b b' \<longleftrightarrow> amount (bp_quote b) * bp_amount b' < amount (bp_quote b') * bp_amount b"

lemma price_lt_raw:
  assumes "price_ok p" "price_ok p'" "price_is p a q" "price_is p' a' q'" "0 < a" "0 < a'"
  shows "price_lt p p' \<longleftrightarrow> q * a' < q' * a"
proof -
  let ?A = "amount (price_amount p)" and ?Q = "amount (price_amount_quote p)"
  let ?A' = "amount (price_amount p')" and ?Q' = "amount (price_amount_quote p')"
  have e: "?Q * a = ?A * q" "?Q' * a' = ?A' * q'" and pos: "0 < ?A" "0 < ?A'"
    using assms by (auto simp: price_is_def price_ok_def)
  have "price_lt p p' \<longleftrightarrow> ?Q * ?A' * (a * a') < ?A * ?Q' * (a * a')"
    using assms(5,6) by (simp add: price_lt_iff)
  also have "?Q * ?A' * (a * a') = (?Q * a) * (?A' * a')" by (simp add: ac_simps)
  also have "\<dots> = (?A * ?A') * (q * a')" unfolding e by (simp add: ac_simps)
  also have "?A * ?Q' * (a * a') = (?A * a) * (?Q' * a')" by (simp add: ac_simps)
  also have "\<dots> = (?A * ?A') * (q' * a)" unfolding e by (simp add: ac_simps)
  finally show ?thesis using pos by simp
qed

lemma valid_alarm_order:
  assumes "alarm_try_from al = Inr al'" "alarm_above al = Some ab"
    and ok: "alarm_prices_ok al"
  shows "bp_currency ab = bp_currency (alarm_below al)" and "\<not> lower_price ab (alarm_below al)"
proof -
  obtain p :: "(unit, 'a) price" where p: "price_new (Coin (bp_amount ab)) (bp_quote ab) = Some p" "price_ok p"
    "price_is p (bp_amount ab) (amount (bp_quote ab))"
    using price_of_base [OF alarm_prices_okD(2) [OF ok assms(2)], where ?'c = unit] by blast
  obtain p' :: "(unit, 'a) price" where p': "price_new (Coin (bp_amount (alarm_below al))) (bp_quote (alarm_below al)) = Some p'"
    "price_ok p'" "price_is p' (bp_amount (alarm_below al)) (amount (bp_quote (alarm_below al)))"
    using price_of_base [OF alarm_prices_okD(1) [OF ok], where ?'c = unit] by blast
  have "bp_currency (alarm_below al) = bp_currency ab \<and> \<not> price_lt p p'"
    using assms(1,2) p(1) p'(1)
    by (auto simp: alarm_try_from_def alarm_invariant_held_def with_base_price_eq try_as_specific_Inr split: if_splits)
  then show "bp_currency ab = bp_currency (alarm_below al)" "\<not> lower_price ab (alarm_below al)"
    using price_lt_raw [OF p(2) p'(2) p(3) p'(3)] alarm_prices_okD [OF ok] assms(2) by (auto simp: lower_price_def base_price_ok_def)
qed

lemma norm_antimono:
  assumes "base_price_ok b" "base_price_ok b'" "\<not> lower_price b b'"
  shows "snd (norm_of b) \<le> snd (norm_of b')"
  using assms div_mono_fraction [of "bp_amount b" "amount (bp_quote b')" "amount (bp_quote b)" "bp_amount b'" norm_scale]
  by (simp add: norm_of_def lower_price_def base_price_ok_def mult.commute)

lemma add_price_alarm_ok:
  assumes "price_alarms_ok s" "sub \<noteq> ''''" "sub \<notin> set (in_queue_subscribers s)"
    and "alarm_prices_ok al" "alarm_try_from al = Inr al'" "add_price_alarm code_id_of s sub al = Inr s'"
  shows "price_alarms_ok s'"
proof -
  note loads = add_price_alarm_loads [OF assms(4,6)]
  have "alarm_pair_ok (norm_of (alarm_below al)) (map_option norm_of (alarm_above al))"
  proof (cases "alarm_above al")
    case (Some ab)
    note valid = valid_alarm_order [OF assms(5) Some assms(4)]
    show ?thesis
      using norm_antimono [OF alarm_prices_okD(2) [OF assms(4) Some] alarm_prices_okD(1) [OF assms(4)] valid(2)]
        valid(1) Some
      by (simp add: alarm_pair_ok_def) (simp add: norm_of_def)
  qed (simp add: alarm_pair_ok_def)
  then have "store_pairs_ok s'"
    using assms(1,2) by (auto simp: store_pairs_ok_def loads price_alarms_ok_def)
  moreover have "price_waiting s' = insert sub (price_waiting s)"
    by (auto simp: price_waiting_def loads split: if_splits)
  then have "queue_ok s'"
    using assms(1,3) loads(5) by (auto simp: price_alarms_ok_def queue_ok_def in_queue_subscribers_def)
  moreover have "index_ok (alarms_below s')" "index_ok (alarms_above_or_equal s')"
    using assms(1) loads(3,4) by (auto simp: price_alarms_ok_def)
  ultimately show ?thesis by (simp add: price_alarms_ok_def)
qed

text \<open>
  When an added price alarm fires. At a price of its currency, an alarm with a price at or
  above which to fire is found whenever the current price is at or above that price; an alarm is
  found whenever the normalized value of the current price exceeds the one of the price below
  which it has to fire. It is found for no other currency, and otherwise only if the current price
  is really below, or the current price reaches the normalized value of the one at or above.
\<close>

theorem price_alarm_fires:
  fixes al :: "'q alarm" and b :: "'q base_price"
  assumes store: "price_alarms_ok s" "sub \<noteq> ''''" "sub \<notin> set (in_queue_subscribers s)"
    and al: "alarm_prices_ok al" "alarm_try_from al = Inr al'" "add_price_alarm code_id_of s sub al = Inr s'"
    and b: "norm_fits b" "next_alarms s' (Inr b :: ('e, 'q base_price) res) = Inr as"
  shows "price_alarms_ok s'
    \<and> (bp_currency b = bp_currency (alarm_below al) \<longrightarrow>
        (\<exists>ab. alarm_above al = Some ab \<and> \<not> lower_price b ab)
          \<or> snd (norm_of (alarm_below al)) < snd (norm_of b) \<longrightarrow> sub \<in> set as)
    \<and> (sub \<in> set as \<longrightarrow> bp_currency b = bp_currency (alarm_below al)
        \<and> (lower_price b (alarm_below al)
          \<or> (\<exists>ab. alarm_above al = Some ab \<and> snd (norm_of b) \<le> snd (norm_of ab))))"
proof -
  have ok: "price_alarms_ok s'" using add_price_alarm_ok [OF store al] .
  note loads = add_price_alarm_loads [OF al(1,3)]
  have "as = iter_below s' (norm_of b) @ iter_above_or_equal s' (norm_of b)"
    using next_alarms_eq [OF b(1), where s = s' and ?'b = 'e] b(2) by simp
  then have "sub \<in> set as \<longleftrightarrow> fires s' (norm_of b) sub"
    using iters_fire [OF ok, of "norm_of b"] by simp
  also have "\<dots> \<longleftrightarrow> bp_currency b = bp_currency (alarm_below al)
      \<and> (snd (norm_of (alarm_below al)) < snd (norm_of b)
        \<or> (\<exists>ab. alarm_above al = Some ab \<and> snd (norm_of b) \<le> snd (norm_of ab)))"
    using valid_alarm_order(1) [OF al(2) _ al(1)] unfolding fires_def loads
    by (cases "alarm_above al") (auto simp: norm_of_def)
  finally have iff: "sub \<in> set as \<longleftrightarrow> bp_currency b = bp_currency (alarm_below al)
      \<and> (snd (norm_of (alarm_below al)) < snd (norm_of b)
        \<or> (\<exists>ab. alarm_above al = Some ab \<and> snd (norm_of b) \<le> snd (norm_of ab)))" .
  have ok_b: "base_price_ok b" using b(1) by (simp add: norm_fits_def)
  have above_found: "snd (norm_of b) \<le> snd (norm_of ab)"
    if "alarm_above al = Some ab" "\<not> lower_price b ab" for ab
    using norm_antimono [OF ok_b alarm_prices_okD(2) [OF al(1) that(1)] that(2)] .
  have below_found: "lower_price b (alarm_below al)" if "snd (norm_of (alarm_below al)) < snd (norm_of b)"
    using norm_antimono [OF ok_b alarm_prices_okD(1) [OF al(1)]] that by fastforce
  show ?thesis unfolding iff using ok above_found below_found by blast
qed

text \<open>A store with one alarm of the subscriber \<open>lease\<close>: below 2 or at or above 3.\<close>

definition example_alarm :: "unit alarm" where
  "example_alarm = \<lparr>alarm_below = \<lparr>bp_currency = ''ATOM'', bp_amount = 1, bp_quote = Coin 2\<rparr>,
     alarm_above = Some \<lparr>bp_currency = ''ATOM'', bp_amount = 1, bp_quote = Coin 3\<rparr>\<rparr>"

definition example_store :: price_alarms where
  "example_store = \<lparr>alarms_below = [((''ATOM'', 500000000000000000), ''lease'')],
     alarms_above_or_equal = [((''ATOM'', 333333333333333333), ''lease'')], alarms_in_delivery = []\<rparr>"

definition example_price :: "unit base_price" where
  "example_price = \<lparr>bp_currency = ''ATOM'', bp_amount = 2, bp_quote = Coin 3\<rparr>"

lemmas example_defs = example_alarm_def example_store_def example_price_def

lemma example_store_ok: "price_alarms_ok example_store"
  by (auto simp: price_alarms_ok_def example_store_def index_ok_def store_pairs_ok_def queue_ok_def
      in_queue_subscribers_def index_may_load_def alarm_pair_ok_def)

lemma example_price_fits: "norm_fits example_price" "norm_of example_price = (''ATOM'', 666666666666666666)"
  by (simp_all add: norm_fits_def norm_of_def base_price_ok_def example_price_def norm_scale_def coin_ok_def)

lemma example_added:
  "add_price_alarm (\<lambda>_. Some 1) \<lparr>alarms_below = [], alarms_above_or_equal = [], alarms_in_delivery = []\<rparr>
     ''lease'' example_alarm = Inr example_store"
  "alarm_try_from example_alarm = Inr example_alarm" "alarm_prices_ok example_alarm"
proof -
  show "alarm_try_from example_alarm = Inr example_alarm" "alarm_prices_ok example_alarm"
    by (simp_all add: example_defs alarm_try_from_def alarm_invariant_held_def with_base_price_def
        price_new_def price_new_inner_def into_coprime_with_def try_as_specific_def base_of_currency_def
        total_of_is_def price_lt_def price_cmp_def nat_cmp_def checked_div_def
        alarm_prices_ok_def base_price_ok_def coin_ok_def del: inversion_simps)
  show "add_price_alarm (\<lambda>_. Some 1) \<lparr>alarms_below = [], alarms_above_or_equal = [], alarms_in_delivery = []\<rparr>
     ''lease'' example_alarm = Inr example_store"
    by (simp add: example_defs add_price_alarm_def try_add_price_alarm_def with_base_price_def validate_addr_def
        price_new_def price_new_inner_def into_coprime_with_def try_as_specific_def base_of_currency_def
        total_of_is_def add_alarm_def normalized_new_def total_def coin_safe_mul_def safe_mul_def fits_def
        coin_ratio_def norm_scale_def Let_def add_alarm_below_internal_def add_alarm_above_or_equal_internal_def
        index_save_def index_remove_def checked_div_def price_inv_def del: inversion_simps)
qed

theorem price_alarm_fires_witness:
  "\<exists>s'. add_price_alarm (\<lambda>_. Some 1)
      \<lparr>alarms_below = [], alarms_above_or_equal = [], alarms_in_delivery = []\<rparr> ''lease'' example_alarm = Inr s'
    \<and> price_alarms_ok s' \<and> next_alarms s' (Inr example_price :: (unit, unit base_price) res) = Inr [''lease'']"
proof -
  have empty: "price_alarms_ok \<lparr>alarms_below = [], alarms_above_or_equal = [], alarms_in_delivery = []\<rparr>"
    by (simp add: price_alarms_ok_def store_pairs_ok_def queue_ok_def in_queue_subscribers_def index_may_load_def)
  have found: "next_alarms example_store (Inr example_price :: (unit, unit base_price) res) = Inr [''lease'']"
    by (simp add: next_alarms_eq example_price_fits iter_below_def iter_above_or_equal_def sub_prefix_def
        index_range_def example_store_def)
  show ?thesis
    using price_alarm_fires [OF empty _ _ example_added(3,2,1) example_price_fits(1) found]
      example_added(1) found by (simp add: in_queue_subscribers_def)
qed

lemma example_idle [simp]: "alarms_in_delivery example_store = []"
  by (simp add: example_store_def)

lemma example_selected: "selected_by example_store [example_price] = [''lease'']"
  by (simp add: selected_by_def example_price_fits iter_below_def iter_above_or_equal_def sub_prefix_def
      index_range_def example_store_def)

lemma example_fires: "fires example_store (norm_of example_price) a \<longleftrightarrow> a = ''lease''"
  using selected_by_iff [OF example_store_ok, of a "[example_price]"] by (simp add: example_selected)

theorem price_dispatch_spec_witness:
  "case try_notify_alarms id example_store (map Inr [example_price]) 5 of
     Inl e \<Rightarrow> False | Inr (s', sent, d) \<Rightarrow> sent = 1 \<and> set (in_queue_subscribers s') \<subseteq> {''lease''}"
proof -
  have all: "{a. \<exists>b \<in> set [example_price]. fires example_store (norm_of b) a} = {''lease''}"
    by (simp add: example_fires)
  show ?thesis
    using price_dispatch_spec [OF example_store_ok, of "[example_price]" 5 id, unfolded all] example_price_fits(1)
    by (auto split: sum.splits)
qed

theorem price_alarms_round_witness:
  "\<exists>s1 sent d s2. try_notify_alarms id example_store (map Inr [example_price]) 5 = Inr (s1, sent, d)
    \<and> try_fold price_alarms_reply s1 [False] = Inr s2 \<and> price_waiting s2 = {''lease''}"
proof -
  have wait: "price_waiting example_store = {''lease''}"
    by (auto simp: price_waiting_def example_store_def index_may_load_def dom_def)
  obtain s1 sent d s2 where r: "try_notify_alarms id example_store (map Inr [example_price]) 5 = Inr (s1, sent, d)"
    "try_fold price_alarms_reply s1 [False] = Inr s2"
    "price_waiting s2 = price_waiting example_store - {a. (a, True) \<in> set (zip (in_queue_subscribers s1) [False])}"
    using price_alarms_round [OF example_store_ok, of "[example_price]" 5 "[False]" id] example_price_fits
    by (auto simp: example_selected)
  have "(a, True) \<notin> set (zip (in_queue_subscribers s1) [False])" for a
    by (auto dest: set_zip_rightD)
  with r wait show ?thesis by auto
qed

end
