(* ===== verification/Price_Dispatch.thy ===== *)
theory Price_Dispatch
  imports Price_Delivery
begin

text \<open>
  A dispatch of the price alarms over any prices, errors included, and what the store of the
  alarms keeps whoever asks for an alarm and whenever: with an alarm of a subscriber added while
  another one of its own is in delivery, a failure of that delivery mixes the two.
\<close>

section \<open>The alarms of all prices\<close>

lemma map_res_prepend:
  "map_res ((@) []) m = m" "map_res ((#) a) (map_res ((@) as) m) = map_res ((@) (a # as)) m"
  by (cases m; simp)+

lemma take_alarms_step:
  "take_alarms s n ps (Some as) =
     (if n \<le> length as then Inr (take n as)
      else case ps of
        [] \<Rightarrow> Inr as
      | p # ps' \<Rightarrow>
          and_then (next_alarms s p) (\<lambda>as'. map_res ((@) as) (take_alarms s (n - length as) ps' (Some as'))))"
proof (induction "as" arbitrary: n)
  case Nil
  show ?case by (cases n; cases ps) (simp_all add: map_res_prepend split: sum.split)
next
  case (Cons a "as")
  show ?case
    using Cons [of "n - 1"]
    by (cases n; cases ps) (auto simp: and_then_def map_res_prepend split: sum.split)
qed

lemma selected_by_simps [simp]:
  "selected_by s [] = []"
  "selected_by s (b # bs) = iter_below s (norm_of b) @ iter_above_or_equal s (norm_of b) @ selected_by s bs"
  by (simp_all add: selected_by_def)

lemma next_alarms_Panic: "next_alarms s (Inr b) = Inl e \<Longrightarrow> e = Panic"
  by (auto simp: next_alarms_def with_base_price_def and_then_def or_panic_def split: option.splits sum.splits)

lemma next_alarms_Inr:
  fixes b :: "'q base_price"
  assumes "base_price_ok b" "next_alarms s (Inr b :: ('e, 'q base_price) res) = Inr as"
  shows "norm_fits b" and "as = iter_below s (norm_of b) @ iter_above_or_equal s (norm_of b)"
proof -
  obtain p :: "(unit, 'q) price" where p: "price_new (Coin (bp_amount b)) (bp_quote b) = Some p" "price_ok p"
    "price_is p (bp_amount b) (amount (bp_quote b))"
    using price_of_base [OF assms(1)] by blast
  let ?A = "amount (price_amount p)" and ?Q = "amount (price_amount_quote p)"
  have "normalized_new (bp_currency b) p \<noteq> None"
    using assms(2) p(1) by (auto simp: next_alarms_def with_base_price_eq price_alarms_of_def)
  then obtain t where "total (Coin norm_scale) (price_inv p) = Some t"
    by (auto simp: normalized_new_def)
  then have "norm_scale * ?A div ?Q < 2 ^ 128"
    using total_Some [of "price_inv p" "Coin norm_scale" t] p(2)
    by (auto simp: price_inv_def price_ok_def coin_ok_def coprime_commute)
  moreover have "norm_scale * ?A div ?Q = snd (norm_of b)"
  proof -
    have pos: "0 < ?Q" "0 < amount (bp_quote b)" using p(2) assms(1) by (auto simp: price_ok_def base_price_ok_def)
    have "?Q * bp_amount b = ?A * amount (bp_quote b)" using p(3) by (simp add: price_is_def)
    then have "norm_scale * bp_amount b * ?Q = norm_scale * ?A * amount (bp_quote b)"
      by (metis mult.assoc mult.commute)
    then show ?thesis
      unfolding norm_of_def snd_conv using pos by (metis div_mult_mult2 less_not_refl mult.commute)
  qed
  ultimately show fits: "norm_fits b" using assms(1) by (simp add: norm_fits_def)
  show "as = iter_below s (norm_of b) @ iter_above_or_equal s (norm_of b)"
    using next_alarms_eq [OF fits, where s = s and ?'b = 'e] assms(2) by simp
qed

lemma take_alarms_cases:
  fixes ps :: "('e, 'q base_price) res list"
  assumes "\<And>b. Inr b \<in> set ps \<Longrightarrow> base_price_ok b"
  shows "case take_alarms s n ps (Some as) of
      Inl e \<Rightarrow> \<exists>bs p rest. ps = map Inr bs @ p # rest \<and> list_all norm_fits bs
        \<and> length as + length (selected_by s bs) < n \<and> next_alarms s p = Inl e
    | Inr xs \<Rightarrow> \<exists>bs rest. ps = map Inr bs @ rest \<and> list_all norm_fits bs
        \<and> xs = take n (as @ selected_by s bs) \<and> (rest = [] \<or> n \<le> length as + length (selected_by s bs))"
  using assms
proof (induction ps arbitrary: n "as")
  case Nil
  then show ?case by (auto simp: take_alarms_step [of s n "[]"])
next
  case (Cons p ps)
  show ?case
  proof (cases "n \<le> length as")
    case True
    then show ?thesis
      by (simp add: take_alarms_step [of s n "p # ps"])
        (rule exI [of _ "[]"], simp)
  next
    case False
    show ?thesis
    proof (cases "next_alarms s p")
      case (Inl e)
      then show ?thesis
        using False by (simp add: take_alarms_step [of s n "p # ps"])
          (rule exI [of _ "[]"], simp)
    next
      case (Inr as')
      obtain b where b: "p = Inr b" using Inr by (cases p) (auto simp: next_alarms_def)
      have "base_price_ok b" using Cons.prems b by simp
      note fits = next_alarms_Inr [OF this Inr [unfolded b]]
      let ?m = "n - length as"
      have step: "take_alarms s n (p # ps) (Some as) = map_res ((@) as) (take_alarms s ?m ps (Some as'))"
        using False Inr by (simp add: take_alarms_step [of s n "p # ps"])
      have IH: "case take_alarms s ?m ps (Some as') of
          Inl e \<Rightarrow> \<exists>bs p rest. ps = map Inr bs @ p # rest \<and> list_all norm_fits bs
            \<and> length as' + length (selected_by s bs) < ?m \<and> next_alarms s p = Inl e
        | Inr xs \<Rightarrow> \<exists>bs rest. ps = map Inr bs @ rest \<and> list_all norm_fits bs
            \<and> xs = take ?m (as' @ selected_by s bs) \<and> (rest = [] \<or> ?m \<le> length as' + length (selected_by s bs))"
        using Cons.IH Cons.prems by simp
      show ?thesis
      proof (cases "take_alarms s ?m ps (Some as')")
        case (Inl e)
        obtain bs p' rest where "ps = map Inr bs @ p' # rest" "list_all norm_fits bs"
          "length as' + length (selected_by s bs) < ?m" "next_alarms s p' = Inl e"
          using IH Inl by auto
        then show ?thesis
          unfolding step Inl using fits b
          by (simp, intro exI [of _ "b # bs"] exI [of _ p'] exI [of _ rest]) auto
      next
        case xs: (Inr xs)
        obtain bs rest where r: "ps = map Inr bs @ rest" "list_all norm_fits bs"
          "xs = take ?m (as' @ selected_by s bs)" "rest = [] \<or> ?m \<le> length as' + length (selected_by s bs)"
          using IH xs by auto
        have "as @ xs = take n (as @ selected_by s (b # bs))"
          using False r(3) fits(2) by simp
        then show ?thesis
          unfolding step xs using r fits b
          by (simp, intro exI [of _ "b # bs"] exI [of _ rest]) auto
      qed
    qed
  qed
qed

lemma notify_alarms_cases:
  fixes ps :: "('e, 'q base_price) res list"
  assumes "\<And>b. Inr b \<in> set ps \<Longrightarrow> base_price_ok b"
  shows "case notify_alarms s n ps of
      Inl e \<Rightarrow> \<exists>bs p rest. ps = map Inr bs @ p # rest \<and> list_all norm_fits bs
        \<and> (bs = [] \<or> length (selected_by s bs) < n) \<and> next_alarms s p = Inl e
    | Inr xs \<Rightarrow> \<exists>bs rest. ps = map Inr bs @ rest \<and> list_all norm_fits bs
        \<and> xs = take n (selected_by s bs) \<and> (rest = [] \<or> n \<le> length (selected_by s bs))"
proof (cases ps)
  case Nil
  then show ?thesis by (cases n) (simp_all add: notify_alarms_def)
next
  case (Cons p ps')
  show ?thesis
  proof (cases "next_alarms s p")
    case (Inl e)
    then show ?thesis using Cons by (simp add: notify_alarms_def) (rule exI [of _ "[]"], simp)
  next
    case (Inr as)
    obtain b where b: "p = Inr b" using Inr by (cases p) (auto simp: next_alarms_def)
    have "base_price_ok b" using assms Cons b by simp
    note fits = next_alarms_Inr [OF this Inr [unfolded b]]
    have rest: "\<And>b. Inr b \<in> set ps' \<Longrightarrow> base_price_ok b" using assms Cons by simp
    note cases' = take_alarms_cases [where ps = ps' and s = s and n = n and ?as = "as", OF rest]
    have step: "notify_alarms s n ps = take_alarms s n ps' (Some as)"
      using Cons Inr by (simp add: notify_alarms_def)
    show ?thesis
    proof (cases "take_alarms s n ps' (Some as)")
      case (Inl e)
      obtain bs p' rest where "ps' = map Inr bs @ p' # rest" "list_all norm_fits bs"
        "length as + length (selected_by s bs) < n" "next_alarms s p' = Inl e"
        using cases' Inl by auto
      then show ?thesis
        unfolding step Inl using fits b Cons
        by (simp, intro exI [of _ "b # bs"] exI [of _ p'] exI [of _ rest]) auto
    next
      case xs: (Inr xs)
      obtain bs rest where "ps' = map Inr bs @ rest" "list_all norm_fits bs"
        "xs = take n (as @ selected_by s bs)" "rest = [] \<or> n \<le> length as + length (selected_by s bs)"
        using cases' xs by auto
      then show ?thesis
        unfolding step xs using fits b Cons
        by (simp, intro exI [of _ "b # bs"] exI [of _ rest]) auto
    qed
  qed
qed

section \<open>Dispatch over any prices\<close>

text \<open>
  A dispatch over prices, each an error or a price of a currency of its own. It fails when an
  earlier alarm is still in delivery, or when it meets an error, or a price too small to be normalized,
  before it has found as many alarms as it may send.
\<close>

lemma price_dispatch_cases:
  fixes ps :: "('e, 'q base_price) res list"
  assumes ok: "price_alarms_ok s" and limit: "n < 2 ^ 32"
    and prices: "\<And>b. Inr b \<in> set ps \<Longrightarrow> base_price_ok b"
      "\<And>bs rest. ps = map Inr bs @ rest \<Longrightarrow> distinct (map bp_currency bs)"
  shows "(case try_notify_alarms E s ps n of
      Inl e \<Rightarrow> (alarms_in_delivery s \<noteq> [] \<and> e = Fail (E (NonEmptyPriceAlarmsQueue ''Assertion requested'')))
        \<or> (alarms_in_delivery s = [] \<and> (\<exists>bs p rest. ps = map Inr bs @ p # rest \<and> list_all norm_fits bs
            \<and> (bs = [] \<or> card {a. \<exists>b \<in> set bs. fires s (norm_of b) a} < n)
            \<and> (p = Inl e \<or> e = Panic \<and> (\<exists>b. p = Inr b \<and> \<not> norm_fits b))))
    | Inr (s', sent, d) \<Rightarrow> \<exists>bs rest. ps = map Inr bs @ rest \<and> list_all norm_fits bs
        \<and> (rest = [] \<or> n \<le> card {a. \<exists>b \<in> set bs. fires s (norm_of b) a})
        \<and> alarms_in_delivery s = [] \<and> price_alarms_ok s'
        \<and> sent = min n (card {a. \<exists>b \<in> set bs. fires s (norm_of b) a})
        \<and> length (in_queue_subscribers s') = sent \<and> distinct (in_queue_subscribers s')
        \<and> set (in_queue_subscribers s') \<subseteq> {a. \<exists>b \<in> set bs. fires s (norm_of b) a}
        \<and> dispatched_batch d = map (\<lambda>a. (a, PriceAlarm, oracle_reply_id)) (in_queue_subscribers s')
        \<and> price_waiting s' = price_waiting s - set (in_queue_subscribers s'))"
proof (cases "alarms_in_delivery s = []")
  case False
  then show ?thesis by (simp add: try_notify_alarms_def ensure_none_in_delivery_def)
next
  case True
  have count: "length (selected_by s bs) = card {a. \<exists>b \<in> set bs. fires s (norm_of b) a}"
    if "ps = map Inr bs @ rest" for bs rest
  proof -
    have "set (selected_by s bs) = {a. \<exists>b \<in> set bs. fires s (norm_of b) a}"
      using selected_by_iff [OF ok] by blast
    then show ?thesis
      using distinct_card [OF selected_by_distinct [OF ok prices(2) [OF that]]] by simp
  qed
  note all = notify_alarms_cases [where ps = ps and s = s and n = n, OF prices(1)]
  show ?thesis
  proof (cases "notify_alarms s n ps")
    case (Inl e)
    have run: "try_notify_alarms E s ps n = Inl e"
      using True Inl by (simp add: try_notify_alarms_def ensure_none_in_delivery_def)
    obtain bs p rest where r: "ps = map Inr bs @ p # rest" "list_all norm_fits bs"
      "bs = [] \<or> length (selected_by s bs) < n" "next_alarms s p = Inl e"
      using all Inl by auto
    have "p = Inl e \<or> e = Panic \<and> (\<exists>b. p = Inr b \<and> \<not> norm_fits b)"
    proof (cases p)
      case (Inr b)
      then show ?thesis
        using r(4) next_alarms_Panic [of s b e] next_alarms_eq [of b, where s = s and ?'b = 'e] by (cases "norm_fits b") auto
    qed (use r(4) in \<open>simp add: next_alarms_def\<close>)
    then show ?thesis
      unfolding run using True r(1-3) count [of bs "p # rest"] by (simp, blast)
  next
    case (Inr xs)
    obtain bs rest where r: "ps = map Inr bs @ rest" "list_all norm_fits bs" "xs = take n (selected_by s bs)"
      "rest = [] \<or> n \<le> length (selected_by s bs)"
      using all Inr by auto
    have "notify_alarms s n (map Inr bs :: ('e, 'q base_price) res list) = Inr xs"
      using notify_selected [OF r(2)] r(3) by simp
    then have run: "try_notify_alarms E s ps n = try_notify_alarms E s (map Inr bs) n"
      using Inr by (simp add: try_notify_alarms_def)
    note spec = price_dispatch_spec [OF ok r(2) prices(2) [OF r(1)] limit, of E]
    obtain s' sent d where "try_notify_alarms E s (map Inr bs) n = Inr (s', sent, d)"
      using spec True by (auto split: sum.splits)
    then show ?thesis
      using spec r(1,2,4) count [OF r(1)] unfolding run by (simp, intro exI [of _ bs] exI [of _ rest]) simp
  qed
qed

section \<open>What the store keeps whatever is asked\<close>

definition alarms_kept :: "price_alarms \<Rightarrow> bool" where
  "alarms_kept s \<longleftrightarrow> index_ok (alarms_below s) \<and> index_ok (alarms_above_or_equal s)
     \<and> dom (index_may_load (alarms_above_or_equal s)) \<subseteq> price_waiting s \<and> distinct (in_queue_subscribers s)"

lemma dom_index [index_simps]:
  "dom (index_may_load (index_save m a k)) = insert a (dom (index_may_load m))"
  "dom (index_may_load (index_remove m a)) = dom (index_may_load m) - {a}"
  by (auto simp: index_load_save index_load_remove split: if_splits)

lemma alarms_ok_kept: "price_alarms_ok s \<Longrightarrow> alarms_kept s"
  using store_pairsD(1) [of s]
  by (auto simp: price_alarms_ok_def alarms_kept_def queue_ok_def price_waiting_def) blast

lemma kept_add:
  assumes "alarms_kept s" "alarm_prices_ok al" "add_price_alarm code_id_of s sub al = Inr s'"
  shows "alarms_kept s'" "in_queue_subscribers s' = in_queue_subscribers s"
proof -
  note loads = add_price_alarm_loads [OF assms(2,3)]
  show queue: "in_queue_subscribers s' = in_queue_subscribers s"
    using loads(5) by (simp add: in_queue_subscribers_def)
  have "dom (index_may_load (alarms_above_or_equal s')) \<subseteq> insert sub (dom (index_may_load (alarms_above_or_equal s)))"
    "price_waiting s' = insert sub (price_waiting s)"
    by (auto simp: loads(1,2) price_waiting_def split: if_splits)
  then show "alarms_kept s'"
    using assms(1) loads(3,4) queue by (auto simp: alarms_kept_def)
qed

lemma kept_delivered:
  assumes "alarms_kept s" "in_queue_subscribers s = a # q"
  shows "\<exists>s'. price_last_delivered s = Inr s' \<and> alarms_kept s' \<and> in_queue_subscribers s' = q"
proof -
  obtain x xs where "alarms_in_delivery s = x # xs" "aws_subscriber x = a" "map aws_subscriber xs = q"
    using assms(2) by (auto simp: in_queue_subscribers_def)
  then show ?thesis
    using assms by (auto simp: price_last_delivered_def pop_front_in_delivery_def alarms_kept_def in_queue_subscribers_def)
qed

lemma kept_failed:
  assumes "alarms_kept s" "in_queue_subscribers s = a # q"
  shows "\<exists>s'. price_last_failed s = Inr s' \<and> alarms_kept s' \<and> in_queue_subscribers s' = q"
proof -
  obtain x xs where x: "alarms_in_delivery s = x # xs" "aws_subscriber x = a" "map aws_subscriber xs = q"
    using assms(2) by (auto simp: in_queue_subscribers_def)
  then show ?thesis
    using assms
    by (cases "aws_above x")
      (auto simp: price_last_failed_def pop_front_in_delivery_def alarms_kept_def in_queue_subscribers_def Let_def
        add_alarm_below_internal_def add_alarm_above_or_equal_internal_def price_waiting_def dom_index
        simp del: domIff)
qed

lemma kept_outs:
  "try_fold price_out_for_delivery s as = Inr s' \<Longrightarrow> alarms_kept s
     \<Longrightarrow> set (in_queue_subscribers s) \<inter> price_waiting s = {} \<Longrightarrow> alarms_kept s'"
proof (induction "as" arbitrary: s)
  case (Cons a "as")
  then obtain s1 where s1: "price_out_for_delivery s a = Inr s1" "try_fold price_out_for_delivery s1 as = Inr s'"
    by auto
  have "alarms_kept s1 \<and> set (in_queue_subscribers s1) \<inter> price_waiting s1 = {}"
  proof -
    obtain b where b: "index_may_load (alarms_below s) a = Some b"
      using s1(1) by (auto simp: price_out_for_delivery_def)
    then have a: "a \<in> price_waiting s" "a \<notin> set (in_queue_subscribers s)"
      using Cons.prems(3) by (auto simp: price_waiting_def)
    let ?above = "index_may_load (alarms_above_or_equal s) a"
    have s1_eq: "s1 = s\<lparr>alarms_below := index_remove (alarms_below s) a,
        alarms_above_or_equal := (case ?above of None \<Rightarrow> alarms_above_or_equal s
          | Some _ \<Rightarrow> index_remove (alarms_above_or_equal s) a),
        alarms_in_delivery := alarms_in_delivery s @ [\<lparr>aws_subscriber = a, aws_below = b, aws_above = ?above\<rparr>]\<rparr>"
      using s1(1) b by (cases ?above) (auto simp: price_out_for_delivery_def Let_def)
    have waiting: "price_waiting s1 = price_waiting s - {a}"
      by (simp add: s1_eq price_waiting_def dom_index)
    have queue: "in_queue_subscribers s1 = in_queue_subscribers s @ [a]"
      by (simp add: s1_eq in_queue_subscribers_def)
    have above: "dom (index_may_load (alarms_above_or_equal s1)) \<subseteq> dom (index_may_load (alarms_above_or_equal s)) - {a}"
      by (cases ?above) (auto simp: s1_eq index_simps)
    have "index_ok (alarms_below s1)" "index_ok (alarms_above_or_equal s1)"
      using Cons.prems(2) by (simp_all add: s1_eq alarms_kept_def split: option.split)
    moreover have "dom (index_may_load (alarms_above_or_equal s)) \<subseteq> price_waiting s" "distinct (in_queue_subscribers s)"
      using Cons.prems(2) by (simp_all add: alarms_kept_def)
    ultimately show ?thesis
      unfolding alarms_kept_def queue waiting using a above Cons.prems(3) by (intro conjI) (simp_all, blast+)
  qed
  then show ?case using Cons.IH [OF s1(2)] by blast
qed simp

lemma try_notify_outs:
  assumes "try_notify_alarms E s prices n = Inr (s', sent, d)"
  shows "alarms_in_delivery s = []" "\<exists>as. try_fold price_out_for_delivery s as = Inr s'"
proof -
  show "alarms_in_delivery s = []"
    using assms by (auto simp: try_notify_alarms_def ensure_none_in_delivery_def split: if_splits)
  obtain as where "try_fold (\<lambda>(dispatcher, s) subscriber.
      map_res (\<lambda>s'. (send_to dispatcher subscriber oracle_reply_id, s'))
        (map_err E (price_out_for_delivery s subscriber))) (dispatcher_new PriceAlarm, s) as = Inr (d, s')"
    using assms by (auto simp: try_notify_alarms_def)
  then show "\<exists>as. try_fold price_out_for_delivery s as = Inr s'"
    by (auto simp: try_fold_dispatching try_fold_map_err)
qed

lemma kept_notify:
  assumes "try_notify_alarms E s prices n = Inr (s', sent, d)" "alarms_kept s"
  shows "alarms_kept s'"
  using try_notify_outs [OF assms(1)] kept_outs [OF _ assms(2)] by (auto simp: in_queue_subscribers_def)

section \<open>A pair of two alarms\<close>

lemma outs_once:
  "try_fold price_out_for_delivery s as = Inr s' \<Longrightarrow> distinct as \<and> set as \<subseteq> price_waiting s"
proof (induction "as" arbitrary: s)
  case (Cons a "as")
  then obtain s1 where s1: "price_out_for_delivery s a = Inr s1" "try_fold price_out_for_delivery s1 as = Inr s'"
    by auto
  have "a \<in> price_waiting s" "alarms_below s1 = index_remove (alarms_below s) a"
    using s1(1) by (auto simp: price_out_for_delivery_def Let_def price_waiting_def split: option.splits)
  moreover from this(2) have "price_waiting s1 = price_waiting s - {a}" by (simp add: price_waiting_def dom_index)
  ultimately have "a \<in> price_waiting s" "price_waiting s1 = price_waiting s - {a}" by blast+
  then show ?case using Cons.IH [OF s1(2)] by auto
qed simp

lemma outs_error: "try_fold price_out_for_delivery s as = Inl e \<Longrightarrow> e = Fail InDeliveryLoadBelow"
proof (induction "as" arbitrary: s)
  case (Cons a "as")
  show ?case
  proof (cases "price_out_for_delivery s a")
    case (Inl e')
    then show ?thesis
      using Cons.prems by (cases "index_may_load (alarms_below s) a") (auto simp: price_out_for_delivery_def Let_def)
  qed (use Cons in auto)
qed simp

lemma selected_twice:
  assumes "a \<noteq> ''''" "b \<in> set bs"
    and below: "index_may_load (alarms_below s) a = Some (bp_currency b, m)" "m < snd (norm_of b)" "index_ok (alarms_below s)"
    and above: "index_may_load (alarms_above_or_equal s) a = Some (bp_currency b, k)" "snd (norm_of b) \<le> k"
      "index_ok (alarms_above_or_equal s)"
  shows "\<not> distinct (selected_by s bs)"
proof
  have pos: "'''' < a" using assms(1) by (cases a) auto
  have "((bp_currency b, m), a) \<in> set (alarms_below s)" "((bp_currency b, k), a) \<in> set (alarms_above_or_equal s)"
    using below(1,3) above(1,3) by (simp_all add: index_load_iff)
  then have "a \<in> set (iter_below s (norm_of b))" "a \<in> set (iter_above_or_equal s (norm_of b))"
    using below(2) above(2) pos
    by (auto simp: iter_below_def iter_above_or_equal_def index_range_def in_sub_prefix image_iff norm_of_def le_less)
  moreover assume "distinct (selected_by s bs)"
  then have "set (iter_below s (norm_of b)) \<inter> set (iter_above_or_equal s (norm_of b)) = {}"
    using assms(2) by (auto simp: selected_by_def dest!: split_list)
  ultimately show False by blast
qed

text \<open>
  An alarm with a lower price only waits in delivery for the one before it, its subscriber asks then for an
  alarm with an upper price, and its own delivery fails: the store has the lower price of the one and the
  upper price of the other.
\<close>

lemma mixed_pair:
  assumes kept: "alarms_kept s" and x: "alarms_in_delivery s = [y, x]" "aws_above x = None"
    and al: "alarm_prices_ok al" "alarm_above al = Some ab"
    and add: "add_price_alarm code_id_of s (aws_subscriber x) al = Inr s1"
    and handled: "price_last_delivered s1 = Inr s2"
    and failed: "price_last_failed s2 = Inr s3"
  shows "index_may_load (alarms_below s3) (aws_subscriber x) = Some (aws_below x)"
    and "index_may_load (alarms_above_or_equal s3) (aws_subscriber x) = Some (norm_of ab)"
    and "alarms_in_delivery s3 = []" and "alarms_kept s3"
proof -
  note loads = add_price_alarm_loads [OF al(1) add]
  have s2: "s2 = s1\<lparr>alarms_in_delivery := [x]\<rparr>"
    using handled loads(5) x by (auto simp: price_last_delivered_def pop_front_in_delivery_def)
  have s3: "s3 = s1\<lparr>alarms_in_delivery := [], alarms_below := index_save (alarms_below s1) (aws_subscriber x) (aws_below x)\<rparr>"
    using failed x s2
    by (simp add: price_last_failed_def pop_front_in_delivery_def add_alarm_below_internal_def Let_def)
  then show "index_may_load (alarms_below s3) (aws_subscriber x) = Some (aws_below x)"
    "index_may_load (alarms_above_or_equal s3) (aws_subscriber x) = Some (norm_of ab)" "alarms_in_delivery s3 = []"
    using al(2) loads(2) kept loads(3) by (simp_all add: index_load_save alarms_kept_def)
  have "in_queue_subscribers s1 = [aws_subscriber y, aws_subscriber x]"
    using kept_add(2) [OF kept al(1) add] x(1) by (simp add: in_queue_subscribers_def)
  from kept_delivered [OF kept_add(1) [OF kept al(1) add] this] handled
  have "alarms_kept s2" "in_queue_subscribers s2 = [aws_subscriber x]" by auto
  from kept_failed [OF this] failed show "alarms_kept s3" by auto
qed

lemma mixed_blocks:
  assumes "alarms_in_delivery s = []" "list_all norm_fits bs" "\<not> distinct (selected_by s bs)"
    "length (selected_by s bs) \<le> n"
  shows "try_notify_alarms E s (map Inr bs :: ('e, 'q base_price) res list) n = Inl (Fail (E InDeliveryLoadBelow))"
proof -
  have "notify_alarms s n (map Inr bs :: ('e, 'q base_price) res list) = Inr (selected_by s bs)"
    by (rule trans [OF notify_selected [OF assms(2)]]) (use assms(4) in simp)
  moreover obtain e where "try_fold price_out_for_delivery s (selected_by s bs) = Inl e"
    using outs_once assms(3) by (cases "try_fold price_out_for_delivery s (selected_by s bs)") blast+
  moreover from this have "e = Fail InDeliveryLoadBelow" by (rule outs_error)
  ultimately show ?thesis using assms(1) by (simp add: try_notify_alarms_eq)
qed

end
