(* ===== verification/Oracle.thy ===== *)
theory Oracle
  imports Oracle_Tree Price_Dispatch
begin

text \<open>
  The oracle contract (\<open>oracle/src/contract\<close>): its state, its \<open>instantiate\<close>, \<open>execute\<close>,
  \<open>sudo\<close> and \<open>reply\<close> entry points and its queries. What the contract takes from its
  environment is a record of arguments: the pools and the base and stable currencies fixed at
  build time, the order of a hash map, the chain's answer on a contract and the validation of an address.
  The messages are as deserialized, with their invariants checked.
\<close>

record oracle_env =
  env_in_pool :: "string \<Rightarrow> string \<Rightarrow> bool"
  env_hash_order :: "addr list \<Rightarrow> addr list"
  env_base :: string
  env_stable :: string
  env_code_id :: "addr \<Rightarrow> nat option"
  env_addr_validate :: "string \<Rightarrow> addr option"

record price_oracle =
  oracle_feeders :: feeders
  oracle_config :: price_config
  oracle_tree :: "swap_target tree"
  oracle_feeds :: feed_store
  oracle_alarms :: price_alarms

datatype oracle_msg =
    FeedPrices "price_dto list"
  | AddPriceAlarm "unit alarm"
  | DispatchPriceAlarms nat

datatype oracle_response =
    NoPriceData
  | DispatchPriceAlarmsResponse nat "price_alarm_msg alarms_dispatcher"

datatype oracle_sudo_msg =
    RegisterFeeder string
  | RemoveFeeder string
  | UpdateConfig price_config
  | SwapTree "swap_target hrt"

section \<open>Feeders\<close>

definition feeders_try_register ::
  "oracle_env \<Rightarrow> feeders \<Rightarrow> string \<Rightarrow> (oracle_error, feeders) res" where
  "feeders_try_register env fs feeder_txt =
     and_then (ok_or RegisterFeederAddressValidation (env_addr_validate env feeder_txt)) (\<lambda>feeder.
       map_err OracleFeeders (feeders_register fs feeder))"

definition feeders_try_remove ::
  "oracle_env \<Rightarrow> feeders \<Rightarrow> string \<Rightarrow> (oracle_error, feeders) res" where
  "feeders_try_remove env fs address =
     and_then (ok_or UnregisterFeederAddressValidation (env_addr_validate env address)) (\<lambda>f_address.
       if is_registered fs f_address then Inr (feeders_remove fs f_address) else Inl (Fail UnknownFeeder))"

definition total_registered :: "feeders \<Rightarrow> nat" where
  "total_registered fs = card (feeders_get fs)"

section \<open>Prices\<close>

definition fed_price :: "oracle_env \<Rightarrow> price_oracle \<Rightarrow> timestamp \<Rightarrow> feed_price" where
  "fed_price env s at =
     price_of_feed (env_hash_order env) (oracle_config s) (oracle_feeds s) at (total_registered (oracle_feeders s))"

definition calc_all_prices :: "oracle_env \<Rightarrow> price_oracle \<Rightarrow> timestamp \<Rightarrow> (oracle_error, unit base_price) res list" where
  "calc_all_prices env s at =
     (case swap_pairs_df (oracle_tree s) of
        None \<Rightarrow> [Inl Panic]
      | Some legs \<Rightarrow> all_prices_iter (env_in_pool env) (fed_price env s at) (env_base env) legs)"

definition try_query_prices :: "oracle_env \<Rightarrow> price_oracle \<Rightarrow> timestamp \<Rightarrow> (oracle_error, unit base_price list) res" where
  "try_query_prices env s block_time = collect_prices (calc_all_prices env s block_time)"

definition try_query_base_price ::
  "oracle_env \<Rightarrow> price_oracle \<Rightarrow> timestamp \<Rightarrow> string \<Rightarrow> (oracle_error, unit base_price) res" where
  "try_query_base_price env s at currency =
     calc_base_price (env_in_pool env) (fed_price env s at) (env_base env) (oracle_tree s) currency"

definition try_query_stable_price ::
  "oracle_env \<Rightarrow> price_oracle \<Rightarrow> timestamp \<Rightarrow> string \<Rightarrow> (oracle_error, unit base_price) res" where
  "try_query_stable_price env s at currency =
     and_then (try_query_base_price env s at (env_stable env)) (\<lambda>stable_price.
     and_then (map_err OracleFinance (try_as_specific (env_stable env) stable_price)) (\<lambda>(stable_to_base :: pair_price).
     and_then (try_query_base_price env s at currency) (\<lambda>base_price.
       with_base_price base_price (\<lambda>c (p :: pair_price).
         map_res (base_from_price c) (or_panic (price_mul p (price_inv stable_to_base)))))))"

definition oracle_query_alarms :: "oracle_env \<Rightarrow> price_oracle \<Rightarrow> timestamp \<Rightarrow> (oracle_error, bool) res" where
  "oracle_query_alarms env s block_time = try_query_alarms (oracle_alarms s) (calc_all_prices env s block_time)"

section \<open>Entry points\<close>

definition validate_swap_tree :: "oracle_env \<Rightarrow> price_oracle \<Rightarrow> timestamp \<Rightarrow> (oracle_error, unit) res" where
  "validate_swap_tree env s now = map_res (\<lambda>_. ()) (map_err BrokenSwapTree (try_query_prices env s now))"

definition new_pairs :: "oracle_env \<Rightarrow> swap_target hrt \<Rightarrow> (oracle_error, swap_target tree) res" where
  "new_pairs env h =
     and_then (or_panic (into_tree h)) (\<lambda>t.
       map_err OraclePairs (supported_pairs_new (env_base env) (env_stable env) t))"

definition oracle_instantiate ::
  "oracle_env \<Rightarrow> timestamp \<Rightarrow> price_config \<Rightarrow> swap_target hrt \<Rightarrow> (oracle_error, price_oracle) res" where
  "oracle_instantiate env block_time c h =
     and_then (new_pairs env h) (\<lambda>t.
       let s = \<lparr>oracle_feeders = None, oracle_config = c, oracle_tree = t, oracle_feeds = (\<lambda>_. []),
                oracle_alarms = \<lparr>alarms_below = [], alarms_above_or_equal = [], alarms_in_delivery = []\<rparr>\<rparr>
       in map_res (\<lambda>_. s) (validate_swap_tree env s block_time))"

definition oracle_execute ::
  "oracle_env \<Rightarrow> timestamp \<Rightarrow> addr \<Rightarrow> oracle_msg \<Rightarrow> price_oracle \<Rightarrow> (oracle_error, price_oracle \<times> oracle_response) res" where
  "oracle_execute env block_time sender msg s =
     (case msg of
        FeedPrices prices \<Rightarrow>
          if \<not> is_registered (oracle_feeders s) sender then Inl (Fail UnknownFeeder)
          else map_res (\<lambda>feeds. (s\<lparr>oracle_feeds := feeds\<rparr>, NoPriceData))
            (oracle_feed_prices (env_in_pool env) (oracle_config s) (oracle_tree s) (oracle_feeds s) block_time sender prices)
      | DispatchPriceAlarms max_count \<Rightarrow>
          map_res (\<lambda>(alarms, n, dispatcher). (s\<lparr>oracle_alarms := alarms\<rparr>, DispatchPriceAlarmsResponse n dispatcher))
            (try_notify_alarms OracleDelivery (oracle_alarms s) (calc_all_prices env s block_time) max_count)
      | AddPriceAlarm a \<Rightarrow>
          map_res (\<lambda>alarms. (s\<lparr>oracle_alarms := alarms\<rparr>, NoPriceData))
            (map_err OracleAlarms (add_price_alarm (env_code_id env) (oracle_alarms s) sender a)))"

definition oracle_sudo ::
  "oracle_env \<Rightarrow> timestamp \<Rightarrow> oracle_sudo_msg \<Rightarrow> price_oracle \<Rightarrow> (oracle_error, price_oracle) res" where
  "oracle_sudo env block_time msg s =
     (case msg of
        UpdateConfig c \<Rightarrow> Inr (s\<lparr>oracle_config := c\<rparr>)
      | RegisterFeeder feeder_address \<Rightarrow>
          map_res (\<lambda>fs. s\<lparr>oracle_feeders := fs\<rparr>) (feeders_try_register env (oracle_feeders s) feeder_address)
      | RemoveFeeder feeder_address \<Rightarrow>
          map_res (\<lambda>fs. s\<lparr>oracle_feeders := fs\<rparr>) (feeders_try_remove env (oracle_feeders s) feeder_address)
      | SwapTree h \<Rightarrow>
          and_then (new_pairs env h) (\<lambda>t.
            let s' = s\<lparr>oracle_tree := t\<rparr> in map_res (\<lambda>_. s') (validate_swap_tree env s' block_time)))"

definition oracle_reply :: "bool \<Rightarrow> price_oracle \<Rightarrow> (oracle_error, price_oracle) res" where
  "oracle_reply success s =
     map_res (\<lambda>alarms. s\<lparr>oracle_alarms := alarms\<rparr>) (map_err OracleDelivery (price_alarms_reply (oracle_alarms s) success))"

lemmas oracle_op_defs [op_defs] =
  feeders_try_register_def feeders_try_remove_def total_registered_def fed_price_def calc_all_prices_def
  try_query_prices_def try_query_base_price_def try_query_stable_price_def oracle_query_alarms_def
  validate_swap_tree_def new_pairs_def oracle_instantiate_def oracle_execute_def oracle_sudo_def oracle_reply_def

end
