(* ===== verification/Oracle_Guarantees.thy ===== *)
theory Oracle_Guarantees
  imports Oracle
begin

text \<open>
  What the oracle guarantees. Its swap tree is sound in every reachable state: a change that would
  not be is refused. All prices are those of the description over the tree, feeds only grow by
  the observations of a registered feeder for supported pairs, and a dispatch of the alarms with
  the deliveries that follow, where a subscriber may ask for its next alarm, leaves the store
  sound and nothing in delivery.
\<close>

section \<open>The swap tree\<close>

definition tree_valid :: "oracle_env \<Rightarrow> swap_target tree \<Rightarrow> bool" where
  "tree_valid env t \<longleftrightarrow>
     pairs_ok (env_base env) (env_stable env) t \<and> tree_df t \<and> legs_in_pools (env_in_pool env) t"

lemma gather_in_pools:
  assumes ok: "tree_ok t"
  shows "set is \<subseteq> {1..<length t} \<Longrightarrow> gather_prices (tree_price in_pool price_of t) t is = Inr ps \<Longrightarrow>
    i \<in> set is \<Longrightarrow> in_pool (cur t i) (cur t (parent_index (t ! i)))"
proof (induction "is" arbitrary: ps)
  case (Cons k ks)
  have k: "0 < k" "k < length t" using Cons.prems(1) by auto
  obtain p where p: "tree_price in_pool price_of t k = Inr p" using Cons.prems(2) by auto
  then have "in_pool (cur t k) (cur t (parent_index (t ! k)))"
    using tree_price_step [OF ok k, of in_pool price_of] by (auto simp: visit_any_on_currencies_def split: if_splits)
  then show ?case using Cons by auto
qed simp

lemma all_prices_eq:
  assumes "pairs_ok (env_base env) (env_stable env) (oracle_tree s)" "tree_df (oracle_tree s)"
  shows "try_query_prices env s at
    = gather_prices (tree_price (env_in_pool env) (fed_price env s at) (oracle_tree s)) (oracle_tree s) [1..<length (oracle_tree s)]"
proof -
  have "tree_ok (oracle_tree s)" "length (oracle_tree s) < 2 ^ 16" using assms(1) by (auto simp: pairs_ok_def)
  then show ?thesis
    using all_prices_by_tree [OF assms, of "env_in_pool env" "fed_price env s at"]
    by (simp add: try_query_prices_def calc_all_prices_def swap_pairs_eq)
qed

lemma validated_tree:
  assumes "new_pairs env h = Inr t" "oracle_tree s = t" "validate_swap_tree env s now = Inr u"
  shows "tree_valid env t"
proof -
  have "into_tree h = Some t" and new: "supported_pairs_new (env_base env) (env_stable env) t = Inr t"
    using assms(1) supported_pairs_new_Inr by (auto simp: new_pairs_def)
  then have t: "tree_df t" "pairs_ok (env_base env) (env_stable env) t"
    using into_tree_df into_tree_ok(1) by (auto simp: pairs_ok_def supported_pairs_new_Inr)
  obtain ps where "gather_prices (tree_price (env_in_pool env) (fed_price env s now) t) t [1..<length t] = Inr ps"
    using assms(2,3) all_prices_eq [of env s now] t by (auto simp: validate_swap_tree_def)
  from gather_in_pools [OF _ _ this] t show ?thesis
    by (auto simp: tree_valid_def legs_in_pools_def tree_df_def)
qed

section \<open>Current prices\<close>

lemma collect_prices_Inr: "collect_prices xs = Inr ys \<longleftrightarrow> xs = map Inr ys"
proof (induction xs arbitrary: ys rule: collect_prices.induct)
  case (3 p rest)
  then show ?case by (cases ys) auto
qed auto

lemma gather_currencies:
  assumes "distinct (map (cur t) is)" "gather_prices price_at t is = Inr bs"
  shows "distinct (map bp_currency bs) \<and> set (map bp_currency bs) \<subseteq> cur t ` set is"
  using assms
proof (induction "is" arbitrary: bs)
  case (Cons i "is")
  then obtain p rest where "price_at i = Inr p" "gather_prices price_at t is = Inr rest"
    "bs = (case p of None \<Rightarrow> rest | Some p \<Rightarrow> base_from_price (cur t i) p # rest)"
    by auto
  moreover have "distinct (map bp_currency rest) \<and> set (map bp_currency rest) \<subseteq> cur t ` set is"
    using Cons.IH [OF _ \<open>gather_prices price_at t is = Inr rest\<close>] Cons.prems(1) by simp
  moreover have "cur t i \<notin> cur t ` set is" using Cons.prems(1) by simp
  ultimately show ?case by (cases p) auto
qed simp

lemma current_prices:
  assumes t: "tree_valid env (oracle_tree s)" and "try_query_prices env s at = Inr bs"
  shows "calc_all_prices env s at = map Inr bs" and "distinct (map bp_currency bs)"
proof -
  show "calc_all_prices env s at = map Inr bs"
    using assms(2) by (simp add: try_query_prices_def collect_prices_Inr)
  have names: "distinct (map (\<lambda>n. target (node_value n)) (oracle_tree s))"
    using t by (simp add: tree_valid_def pairs_ok_def)
  have "distinct (map (cur (oracle_tree s)) [1..<length (oracle_tree s)])"
    using cur_eq_iff [OF names] by (auto simp: distinct_map inj_on_def)
  then show "distinct (map bp_currency bs)"
    using gather_currencies all_prices_eq [of env s at] assms by (auto simp: tree_valid_def)
qed

text \<open>
  C17. All prices of the oracle. On a valid swap tree the query returns, in the order of the tree,
  one price per currency that has one: the price of its feed times the price of its parent
  currency, as the recursive description gives it; a currency whose feed or parent has no price is
  left out, and the first error or overflow of the description is the result.
\<close>

theorem oracle_prices_spec:
  assumes "tree_valid env (oracle_tree s)"
  shows "try_query_prices env s at
      = gather_prices (tree_price (env_in_pool env) (fed_price env s at) (oracle_tree s)) (oracle_tree s)
          [1..<length (oracle_tree s)]
    \<and> (\<forall>bs. try_query_prices env s at = Inr bs \<longrightarrow> distinct (map bp_currency bs))"
  using current_prices(2) [OF assms] assms all_prices_eq [of env s at] unfolding tree_valid_def by blast

section \<open>Alarms\<close>






section \<open>Delivery of alarms\<close>

text \<open>
  What a subscriber makes of the message it is sent: it fails, it handles the alarm, or it also asks
  for its next alarm. A message whose request for an alarm is refused fails as a whole. The reply
  follows each message.
\<close>

datatype delivery = Failed | Handled | Renewed "unit alarm"

fun deliver :: "oracle_env \<Rightarrow> timestamp \<Rightarrow> price_oracle \<Rightarrow> addr \<times> delivery \<Rightarrow> (oracle_error, price_oracle) res" where
  "deliver env now s (a, Failed) = oracle_reply False s"
| "deliver env now s (a, Handled) = oracle_reply True s"
| "deliver env now s (a, Renewed al) =
     (case oracle_execute env now a (AddPriceAlarm al) s of
        Inl e \<Rightarrow> oracle_reply False s
      | Inr (s1, _) \<Rightarrow> oracle_reply True s1)"

definition alarm_sound :: "unit alarm \<Rightarrow> bool" where
  "alarm_sound al \<longleftrightarrow> alarm_prices_ok al \<and> alarm_try_from al = Inr al"

definition delivery_sound :: "delivery \<Rightarrow> bool" where
  "delivery_sound d \<longleftrightarrow> (\<forall>al. d = Renewed al \<longrightarrow> alarm_sound al)"

lemma add_alarm_queue:
  "add_alarm (s\<lparr>alarms_in_delivery := q\<rparr>) a c below upper
    = map_option (\<lambda>s'. s'\<lparr>alarms_in_delivery := q\<rparr>) (add_alarm s a c below upper)"
proof (cases "normalized_new c below")
  case (Some b)
  then show ?thesis
  proof (cases upper)
    case (Some u)
    then show ?thesis
      using \<open>normalized_new c below = Some b\<close>
      by (cases "normalized_new c u")
        (simp_all add: add_alarm_def add_alarm_below_internal_def add_alarm_above_or_equal_internal_def Let_def)
  qed (simp add: add_alarm_def add_alarm_below_internal_def remove_above_or_equal_def Let_def)
qed (simp add: add_alarm_def)

lemma add_price_alarm_queue:
  assumes "add_price_alarm code_id_of s a al = Inr s'"
  shows "add_price_alarm code_id_of (s\<lparr>alarms_in_delivery := q\<rparr>) a al = Inr (s'\<lparr>alarms_in_delivery := q\<rparr>)"
  using assms
  by (auto simp: add_price_alarm_def try_add_price_alarm_def with_base_price_def add_alarm_queue split: option.splits)

lemma deliver_step:
  assumes ok: "price_alarms_ok (oracle_alarms s)" and queue: "in_queue_subscribers (oracle_alarms s) = a # q"
    and sound: "delivery_sound d"
  shows "\<exists>alarms. deliver env now s (a, d) = Inr (s\<lparr>oracle_alarms := alarms\<rparr>)
    \<and> price_alarms_ok alarms \<and> in_queue_subscribers alarms = q
    \<and> price_waiting alarms = (if d = Handled then price_waiting (oracle_alarms s)
        else insert a (price_waiting (oracle_alarms s)))"
proof -
  let ?A = "oracle_alarms s"
  have failed: "\<exists>alarms. oracle_reply False s = Inr (s\<lparr>oracle_alarms := alarms\<rparr>)
    \<and> price_alarms_ok alarms \<and> in_queue_subscribers alarms = q \<and> price_waiting alarms = insert a (price_waiting ?A)"
    using price_failed_spec [OF ok queue] by (auto simp: oracle_reply_def price_alarms_reply_def)
  show ?thesis
  proof (cases d)
    case Failed
    then show ?thesis using failed by auto
  next
    case Handled
    then show ?thesis
      using price_delivered_spec [OF ok queue] by (auto simp: oracle_reply_def price_alarms_reply_def)
  next
    case (Renewed al)
    then have al: "alarm_prices_ok al" "alarm_try_from al = Inr al"
      using sound by (auto simp: delivery_sound_def alarm_sound_def)
    show ?thesis
    proof (cases "add_price_alarm (env_code_id env) ?A a al")
      case (Inl e)
      then show ?thesis using failed Renewed by (cases e) (auto simp: oracle_execute_def)
    next
      case (Inr B)
      obtain x xs where x: "alarms_in_delivery ?A = x # xs" "aws_subscriber x = a" "map aws_subscriber xs = q"
        using queue by (auto simp: in_queue_subscribers_def)
      let ?A' = "?A\<lparr>alarms_in_delivery := xs\<rparr>" and ?B' = "B\<lparr>alarms_in_delivery := xs\<rparr>"
      have "price_alarms_ok ?A'" "in_queue_subscribers ?A' = q" "a \<notin> set q" "a \<noteq> ''''"
        using ok x by (auto simp: price_alarms_ok_def queue_ok_def in_queue_subscribers_def)
      moreover have add: "add_price_alarm (env_code_id env) ?A' a al = Inr ?B'"
        using add_price_alarm_queue [OF Inr] by simp
      ultimately have B: "price_alarms_ok ?B'"
        using add_price_alarm_ok [OF _ _ _ al add] by simp
      have "alarms_in_delivery B = x # xs" using add_price_alarm_loads(5) [OF al(1) Inr] x(1) by simp
      then have "price_last_delivered B = Inr ?B'"
        by (simp add: price_last_delivered_def pop_front_in_delivery_def)
      moreover have "price_waiting ?B' = insert a (price_waiting ?A)"
        using add_price_alarm_loads(1) [OF al(1) Inr] by (auto simp: price_waiting_def split: if_splits)
      moreover have "in_queue_subscribers ?B' = q" using x(3) by (simp add: in_queue_subscribers_def)
      ultimately have "deliver env now s (a, Renewed al) = Inr (s\<lparr>oracle_alarms := ?B'\<rparr>)"
        "price_waiting ?B' = insert a (price_waiting ?A)" "in_queue_subscribers ?B' = q"
        using Inr by (simp_all add: oracle_execute_def oracle_reply_def price_alarms_reply_def)
      then show ?thesis using B Renewed by (intro exI [of _ ?B']) simp
    qed
  qed
qed

lemma deliver_all:
  assumes "price_alarms_ok (oracle_alarms s)" "length ds = length (in_queue_subscribers (oracle_alarms s))"
    "list_all delivery_sound ds"
  shows "\<exists>alarms. try_fold (deliver env now) s (zip (in_queue_subscribers (oracle_alarms s)) ds)
        = Inr (s\<lparr>oracle_alarms := alarms\<rparr>)
    \<and> price_alarms_ok alarms \<and> in_queue_subscribers alarms = []
    \<and> price_waiting alarms = price_waiting (oracle_alarms s)
        \<union> {a. \<exists>d. (a, d) \<in> set (zip (in_queue_subscribers (oracle_alarms s)) ds) \<and> d \<noteq> Handled}"
  using assms
proof (induction ds arbitrary: s)
  case (Cons d ds)
  obtain a q where queue: "in_queue_subscribers (oracle_alarms s) = a # q"
    using Cons.prems(2) by (cases "in_queue_subscribers (oracle_alarms s)") auto
  obtain alarms where step: "deliver env now s (a, d) = Inr (s\<lparr>oracle_alarms := alarms\<rparr>)" "price_alarms_ok alarms"
    "in_queue_subscribers alarms = q"
    "price_waiting alarms = (if d = Handled then price_waiting (oracle_alarms s)
        else insert a (price_waiting (oracle_alarms s)))"
    using deliver_step [OF Cons.prems(1) queue, of d env now] Cons.prems(3) by auto
  let ?s = "s\<lparr>oracle_alarms := alarms\<rparr>"
  obtain B where B: "try_fold (deliver env now) ?s (zip q ds) = Inr (s\<lparr>oracle_alarms := B\<rparr>)"
    "price_alarms_ok B" "in_queue_subscribers B = []"
    "price_waiting B = price_waiting alarms \<union> {a. \<exists>d. (a, d) \<in> set (zip q ds) \<and> d \<noteq> Handled}"
    using Cons.IH [of ?s] Cons.prems(2,3) step(2,3) queue by auto
  have "price_waiting B = price_waiting (oracle_alarms s)
      \<union> {x. \<exists>e. (x, e) \<in> set (zip (in_queue_subscribers (oracle_alarms s)) (d # ds)) \<and> e \<noteq> Handled}"
    using B(4) step(4) queue by (auto split: if_splits)
  then show ?case using B(1-3) step(1) queue by auto
next
  case Nil
  then show ?case by (intro exI [of _ "oracle_alarms s"]) simp
qed

text \<open>
  C20. A round of the oracle's alarms. After a dispatch at the current prices and the delivery of
  each message it sent, in their order, where each subscriber fails, handles its alarm, or also
  asks for its next one, no alarm is left in delivery and the store is sound. The subscribers with no alarm
  any more are exactly those that handled theirs and did not ask for another.
\<close>

theorem oracle_alarms_round:
  assumes t: "tree_valid env (oracle_tree s)" and ok: "price_alarms_ok (oracle_alarms s)"
    and empty: "alarms_in_delivery (oracle_alarms s) = []"
    and prices: "try_query_prices env s now = Inr bs" "list_all norm_fits bs" and limit: "n < 2 ^ 32"
    and outcomes: "length ds = min n (card {a. \<exists>b \<in> set bs. fires (oracle_alarms s) (norm_of b) a})"
      "list_all delivery_sound ds"
  shows "\<exists>s1 sent d s2. oracle_execute env now sender (DispatchPriceAlarms n) s
        = Inr (s1, DispatchPriceAlarmsResponse sent d)
    \<and> try_fold (deliver env now) s1 (zip (in_queue_subscribers (oracle_alarms s1)) ds) = Inr s2
    \<and> s2 = s\<lparr>oracle_alarms := oracle_alarms s2\<rparr>
    \<and> price_alarms_ok (oracle_alarms s2) \<and> alarms_in_delivery (oracle_alarms s2) = []
    \<and> price_waiting (oracle_alarms s2) = price_waiting (oracle_alarms s)
        - {a. (a, Handled) \<in> set (zip (in_queue_subscribers (oracle_alarms s1)) ds)}"
proof -
  let ?r = "try_notify_alarms OracleDelivery (oracle_alarms s) (map Inr bs) n"
  obtain A sent d where A: "?r = Inr (A, sent, d)" "price_alarms_ok A"
    "length (in_queue_subscribers A) = min n (card {a. \<exists>b \<in> set bs. fires (oracle_alarms s) (norm_of b) a})"
    "distinct (in_queue_subscribers A)"
    "set (in_queue_subscribers A) \<subseteq> {a. \<exists>b \<in> set bs. fires (oracle_alarms s) (norm_of b) a}"
    "price_waiting A = price_waiting (oracle_alarms s) - set (in_queue_subscribers A)"
    using price_dispatch_spec [OF ok prices(2) current_prices(2) [OF t prices(1)] limit, of OracleDelivery] empty
    by (cases ?r) auto
  let ?s1 = "s\<lparr>oracle_alarms := A\<rparr>" and ?q = "in_queue_subscribers A"
  have run: "oracle_execute env now sender (DispatchPriceAlarms n) s = Inr (?s1, DispatchPriceAlarmsResponse sent d)"
    using A(1) by (simp add: oracle_execute_def current_prices(1) [OF t prices(1)])
  have len: "length ds = length ?q" using outcomes(1) A(3) by simp
  obtain B where B: "try_fold (deliver env now) ?s1 (zip ?q ds) = Inr (s\<lparr>oracle_alarms := B\<rparr>)"
    "price_alarms_ok B" "in_queue_subscribers B = []"
    "price_waiting B = price_waiting A \<union> {a. \<exists>d. (a, d) \<in> set (zip ?q ds) \<and> d \<noteq> Handled}"
    using deliver_all [of ?s1 ds env now] A(2) len outcomes(2) by auto
  have waiting: "set ?q \<subseteq> price_waiting (oracle_alarms s)"
    using A(5) fires_waiting [OF ok] by blast
  have once: "d = e" if "(a, d) \<in> set (zip ?q ds)" "(a, e) \<in> set (zip ?q ds)" for a d e
    using that A(4) by (auto simp: set_zip nth_eq_iff_index_eq)
  have some: "\<exists>d. (a, d) \<in> set (zip ?q ds)" if "a \<in> set ?q" for a
    using that len by (metis in_set_impl_in_set_zip1)
  have "price_waiting B = price_waiting (oracle_alarms s) - {a. (a, Handled) \<in> set (zip ?q ds)}"
    using B(4) A(6) waiting once some by (auto dest: set_zip_leftD) blast+
  then show ?thesis
    using run B(1-3) by (auto simp: in_queue_subscribers_def)
qed

section \<open>Feeding prices\<close>

definition fed_by :: "addr \<Rightarrow> timestamp \<Rightarrow> price_dto list \<Rightarrow> string \<Rightarrow> observation list" where
  "fed_by sender now prices ns =
     map (\<lambda>d. observation_new sender now (the (price_new (Coin (dto_amount d)) (Coin (dto_amount_quote d)))))
       (filter (\<lambda>d. storage_ns (dto_base d) (dto_quote d) = ns) prices)"

definition dto_sound :: "oracle_env \<Rightarrow> price_dto \<Rightarrow> bool" where
  "dto_sound env d \<longleftrightarrow> dto_amount d < 2 ^ 128 \<and> dto_amount_quote d < 2 ^ 128
     \<and> price_dto_held (env_in_pool env) d = Inr d"

lemma dto_sound_facts:
  assumes "dto_sound env d"
  shows "env_in_pool env (dto_base d) (dto_quote d)"
    and "\<exists>p :: pair_price. price_new (Coin (dto_amount d)) (Coin (dto_amount_quote d)) = Some p \<and> price_ok p"
proof -
  have pos: "0 < dto_amount d" "0 < dto_amount_quote d"
    using assms by (auto simp: dto_sound_def price_dto_held_def visit_any_on_currencies_def price_try_new_def Let_def
        split: if_splits)
  show "env_in_pool env (dto_base d) (dto_quote d)"
    using assms by (auto simp: dto_sound_def price_dto_held_def visit_any_on_currencies_def split: if_splits)
  show "\<exists>p :: pair_price. price_new (Coin (dto_amount d)) (Coin (dto_amount_quote d)) = Some p \<and> price_ok p"
    using price_new_spec [of "Coin (dto_amount d)" "Coin (dto_amount_quote d)"] pos assms
    by (auto simp: dto_sound_def coin_ok_def)
qed

lemma retain_append:
  "since < obs_time ob \<Longrightarrow> observations_retain (observations_retain obs since @ ob # rest) since
    = observations_retain obs since @ ob # rest"
proof (induction obs)
  case (Cons x obs)
  then show ?case by (auto simp: obs_valid_since_def)
qed (simp add: obs_valid_since_def)

lemma feeds_feed_eq:
  fixes prices :: "price_dto list"
  assumes "feed_valid_since c now = Some since" "since < now" "list_all (dto_sound env) prices"
  shows "feeds_feed (env_in_pool env) c store now sender prices = Inr (\<lambda>ns.
      if fed_by sender now prices ns = [] then store ns
      else observations_retain (store ns) since @ fed_by sender now prices ns)"
  using assms(3) unfolding feeds_feed_def
proof (induction prices rule: rev_induct)
  case Nil
  then show ?case by (simp add: fed_by_def)
next
  case (snoc d ds)
  let ?f = "\<lambda>store price. and_then (or_panic (feed_valid_since c now))
    (feeds_add_observation (env_in_pool env) store sender now price)"
  have fold_snoc: "try_fold f s (xs @ [x]) = and_then (try_fold f s xs) (\<lambda>s'. f s' x)"
    for f :: "feed_store \<Rightarrow> price_dto \<Rightarrow> (feeds_error, feed_store) res" and s xs x
  proof (induction xs arbitrary: s)
    case (Cons y ys)
    then show ?case by (cases "f s y") simp_all
  next
    case Nil
    have "and_then m Inr = m" for m :: "(feeds_error, feed_store) res" by (cases m) simp_all
    then show ?case by simp
  qed
  let ?ns = "storage_ns (dto_base d) (dto_quote d)"
  have sound: "dto_sound env d" using snoc.prems by simp
  obtain p :: pair_price where p: "price_new (Coin (dto_amount d)) (Coin (dto_amount_quote d)) = Some p"
    using dto_sound_facts(2) [OF sound] by blast
  let ?ob = "observation_new sender now p"
  have by_ns: "fed_by sender now (ds @ [d]) ns = fed_by sender now ds ns @ (if ?ns = ns then [?ob] else [])" for ns
    using p by (simp add: fed_by_def)
  have add: "feeds_add_observation (env_in_pool env) st sender now d since
      = Inr (st(?ns := observations_retain (st ?ns) since @ [?ob]))" for st
    using p dto_sound_facts(1) [OF sound]
    by (simp add: feeds_add_observation_def with_price_dto_def visit_any_on_currencies_def add_observation_def
        observations_register_def Let_def)
  have fresh: "since < obs_time x" if "x \<in> set (fed_by sender now ds ns)" for x ns
    using that assms(2) by (auto simp: fed_by_def observation_new_def)
  have retain: "observations_retain (if fed_by sender now ds ?ns = [] then store ?ns
        else observations_retain (store ?ns) since @ fed_by sender now ds ?ns) since
      = observations_retain (store ?ns) since @ fed_by sender now ds ?ns"
    using fresh [of _ ?ns] by (cases "fed_by sender now ds ?ns") (auto simp: retain_append)
  show ?case
    using snoc by (simp add: fold_snoc assms(1) add by_ns retain fun_eq_iff)
qed

lemma since_before:
  assumes "config_new a b n d = Inr c" "feed_valid_since c now = Some since" "0 < at_nanos now"
  shows "since < now"
proof -
  have pos: "0 < nanos p" if "p \<noteq> duration_zero" for p
    using that by (cases p) (simp add: duration_zero_def)
  have "sample_period c \<noteq> duration_zero" "0 < samples_number c"
    using assms(1) by (auto simp: config_new_def check_invariant_def config_error_if_def duration_checked_mul_def
        checked_mul_def fits_def from_nanos_def split: option.splits if_splits)
  then have "0 < nanos (feed_validity c)" using pos config_new_facts(1) [OF assms(1)] by simp
  then show ?thesis
    using assms(2,3) by (auto simp: feed_valid_since_def less_timestamp_def split: if_splits)
qed

text \<open>
  C21. Feeding prices. It is refused for a sender that is not a registered feeder and when a price is
  not of a supported pair, and then nothing changes. Otherwise each pair that is fed drops its
  expired observations from the front and gets the new ones in the order of the message; the
  other feeds and the rest of the contract do not change.
\<close>

theorem oracle_feed_spec:
  assumes t: "tree_valid env (oracle_tree s)" and c: "config_new a b m f = Inr (oracle_config s)"
    and now: "0 < at_nanos now" "feed_valid_since (oracle_config s) now = Some since"
    and prices: "list_all (dto_sound env) prices"
  shows "(case oracle_execute env now sender (FeedPrices prices) s of
      Inl e \<Rightarrow> e = Fail UnknownFeeder \<and> \<not> is_registered (oracle_feeders s) sender
        \<or> e = Fail UnsupportedDenomPairs \<and> is_registered (oracle_feeders s) sender
          \<and> (\<exists>d \<in> set prices. \<not> supports_price (legs_up (oracle_tree s)) d)
    | Inr (s', r) \<Rightarrow> r = NoPriceData \<and> is_registered (oracle_feeders s) sender
        \<and> (\<forall>d \<in> set prices. supports_price (legs_up (oracle_tree s)) d)
        \<and> s' = s\<lparr>oracle_feeds := oracle_feeds s'\<rparr>
        \<and> (\<forall>ns. oracle_feeds s' ns = (if fed_by sender now prices ns = [] then oracle_feeds s ns
            else observations_retain (oracle_feeds s ns) since @ fed_by sender now prices ns)))"
proof -
  have legs: "swap_pairs_df (oracle_tree s) = Some (legs_up (oracle_tree s))"
    using t by (simp add: tree_valid_def pairs_ok_def swap_pairs_eq)
  note feed = feeds_feed_eq [OF now(2) since_before [OF c now(2,1)] prices]
  show ?thesis
  proof (cases "prices = []")
    case True
    then show ?thesis using feed by (simp add: oracle_execute_def oracle_feed_prices_def)
  next
    case False
    then show ?thesis
      using feed by (auto simp: oracle_execute_def oracle_feed_prices_def legs list_ex_iff)
  qed
qed

section \<open>The contract as a system\<close>

definition feeds_ok :: "timestamp \<Rightarrow> feed_store \<Rightarrow> bool" where
  "feeds_ok now feeds \<longleftrightarrow> (\<forall>ns. in_order (feeds ns) \<and> (\<forall>ob \<in> set (feeds ns). obs_time ob \<le> now))"

definition config_ok :: "price_config \<Rightarrow> bool" where
  "config_ok c \<longleftrightarrow> (\<exists>a b m f. config_new a b m f = Inr c)"

text \<open>
  The contract takes an alarm also from a subscriber that has one in delivery: the subscriber does so
  while it handles it. Runs come in two kinds: with \<open>apart\<close>, an alarm in delivery is only renewed
  within its own delivery; without, alarms are asked for at any time.
\<close>

fun oracle_ok :: "bool \<Rightarrow> oracle_env \<Rightarrow> timestamp \<times> price_oracle \<Rightarrow> bool" where
  "oracle_ok apart env (now, s) \<longleftrightarrow> tree_valid env (oracle_tree s) \<and> alarms_kept (oracle_alarms s)
     \<and> (apart \<longrightarrow> price_alarms_ok (oracle_alarms s))
     \<and> feeds_ok now (oracle_feeds s) \<and> config_ok (oracle_config s)"

fun msg_sound :: "bool \<Rightarrow> oracle_env \<Rightarrow> price_oracle \<Rightarrow> addr \<Rightarrow> oracle_msg \<Rightarrow> bool" where
  "msg_sound apart env s sender (FeedPrices ps) = list_all (dto_sound env) ps"
| "msg_sound apart env s sender (AddPriceAlarm al) \<longleftrightarrow>
     alarm_sound al \<and> sender \<noteq> '''' \<and> (apart \<longrightarrow> sender \<notin> set (in_queue_subscribers (oracle_alarms s)))"
| "msg_sound apart env s sender (DispatchPriceAlarms n) = (n < 2 ^ 32)"

definition sudo_sound :: "oracle_sudo_msg \<Rightarrow> bool" where
  "sudo_sound msg \<longleftrightarrow> (\<forall>c. msg = UpdateConfig c \<longrightarrow> config_ok c)"

definition oracle_starts :: "oracle_env \<Rightarrow> timestamp \<times> price_oracle \<Rightarrow> bool" where
  "oracle_starts env x \<longleftrightarrow> (\<exists>c h. config_ok c \<and> oracle_instantiate env (fst x) c h = Inr (snd x))"

text \<open>The messages the contract takes; block times never go back.\<close>

inductive oracle_step :: "bool \<Rightarrow> oracle_env \<Rightarrow> timestamp \<times> price_oracle \<Rightarrow> timestamp \<times> price_oracle \<Rightarrow> bool"
  for apart env where
  executes: "now \<le> now' \<Longrightarrow> 0 < at_nanos now' \<Longrightarrow> msg_sound apart env s sender msg \<Longrightarrow>
    oracle_execute env now' sender msg s = Inr (s', r) \<Longrightarrow> oracle_step apart env (now, s) (now', s')"
| governs: "now \<le> now' \<Longrightarrow> sudo_sound msg \<Longrightarrow>
    oracle_sudo env now' msg s = Inr s' \<Longrightarrow> oracle_step apart env (now, s) (now', s')"
| delivers: "in_queue_subscribers (oracle_alarms s) = a # q \<Longrightarrow> delivery_sound d \<Longrightarrow>
    deliver env now s (a, d) = Inr s' \<Longrightarrow> oracle_step apart env (now, s) (now, s')"

inductive_cases oracle_stepE: "oracle_step apart env x y"

lemma feeds_later: "feeds_ok now feeds \<Longrightarrow> now \<le> now' \<Longrightarrow> feeds_ok now' feeds"
  by (fastforce simp: feeds_ok_def)

lemma feeds_fed:
  assumes "feeds_ok now feeds" "now \<le> now'"
  shows "feeds_ok now' (\<lambda>ns. if fed_by sender now' ps ns = [] then feeds ns
    else observations_retain (feeds ns) since @ fed_by sender now' ps ns)"
proof -
  have times: "obs_time x = now'" if "x \<in> set (fed_by sender now' ps ns)" for x ns
    using that by (auto simp: fed_by_def observation_new_def)
  have "in_order (fed_by sender now' ps ns)" for ns
    using times [of _ ns] by (simp add: in_order_def sorted_iff_nth_mono)
  then have "in_order (observations_retain (feeds ns) since @ fed_by sender now' ps ns)" for ns
    using assms times [of _ ns] retain_in_order [of "feeds ns" since]
    by (fastforce simp: feeds_ok_def in_order_def sorted_append sorted_filter)
  moreover have "obs_time x \<le> now'" if "x \<in> set (observations_retain (feeds ns) since @ fed_by sender now' ps ns)" for x ns
    using that assms times [of x ns] retain_in_order [of "feeds ns" since] by (fastforce simp: feeds_ok_def)
  ultimately show ?thesis using feeds_later [OF assms] by (simp add: feeds_ok_def)
qed

lemma outs_keep_ok:
  "try_fold price_out_for_delivery s as = Inr s' \<Longrightarrow> price_alarms_ok s \<Longrightarrow> price_alarms_ok s'"
proof (induction "as" arbitrary: s)
  case (Cons a "as")
  then obtain s1 where s1: "price_out_for_delivery s a = Inr s1" "try_fold price_out_for_delivery s1 as = Inr s'"
    by auto
  have "a \<in> price_waiting s"
    using s1(1) by (auto simp: price_out_for_delivery_def price_waiting_def)
  from price_out_spec [OF Cons.prems(2) this] s1(1) have "price_alarms_ok s1" by auto
  then show ?case using Cons.IH [OF s1(2)] by simp
qed simp

lemma notify_keeps_ok:
  assumes "try_notify_alarms E s prices n = Inr (s', sent, d)" "price_alarms_ok s"
  shows "price_alarms_ok s'"
proof -
  obtain as where "try_fold (\<lambda>(dispatcher, s) subscriber.
      map_res (\<lambda>s'. (send_to dispatcher subscriber oracle_reply_id, s'))
        (map_err E (price_out_for_delivery s subscriber))) (dispatcher_new PriceAlarm, s) as = Inr (d, s')"
    using assms(1) by (auto simp: try_notify_alarms_def)
  then have "try_fold price_out_for_delivery s as = Inr s'"
    by (auto simp: try_fold_dispatching try_fold_map_err)
  then show ?thesis using outs_keep_ok assms(2) by blast
qed

lemma deliver_kept:
  assumes kept: "alarms_kept (oracle_alarms s)" and queue: "in_queue_subscribers (oracle_alarms s) = a # q"
    and sound: "delivery_sound d" and run: "deliver env now s (a, d) = Inr s'"
  shows "\<exists>alarms. s' = s\<lparr>oracle_alarms := alarms\<rparr> \<and> alarms_kept alarms"
proof -
  have replies: "\<exists>alarms. s' = s0\<lparr>oracle_alarms := alarms\<rparr> \<and> alarms_kept alarms"
    if "oracle_reply ok s0 = Inr s'" "alarms_kept (oracle_alarms s0)" "in_queue_subscribers (oracle_alarms s0) = a # q" for ok s0
    using that kept_delivered [OF that(2,3)] kept_failed [OF that(2,3)]
    by (auto simp: oracle_reply_def price_alarms_reply_def split: if_splits)
  show ?thesis
  proof (cases d)
    case (Renewed al)
    show ?thesis
    proof (cases "add_price_alarm (env_code_id env) (oracle_alarms s) a al")
      case (Inl e)
      then show ?thesis using replies [of False s] run Renewed kept queue by (cases e) (auto simp: oracle_execute_def)
    next
      case (Inr B)
      have "alarm_prices_ok al" using sound Renewed by (simp add: delivery_sound_def alarm_sound_def)
      from kept_add [OF kept this Inr] show ?thesis
        using replies [of True "s\<lparr>oracle_alarms := B\<rparr>"] run Renewed queue Inr by (auto simp: oracle_execute_def)
    qed
  qed (use replies [of _ s] run kept queue in auto)
qed

lemma execute_keeps_ok:
  assumes ok: "oracle_ok apart env (now, s)" and time: "now \<le> now'" "0 < at_nanos now'"
    and sound: "msg_sound apart env s sender msg" and run: "oracle_execute env now' sender msg s = Inr (s', r)"
  shows "oracle_ok apart env (now', s')"
proof -
  have later: "oracle_ok apart env (now', s)" using ok feeds_later time(1) by auto
  show ?thesis
  proof (cases msg)
    case (FeedPrices ps)
    show ?thesis
    proof (cases "ps = []")
      case True
      then show ?thesis
        using run later FeedPrices
        by (auto simp: oracle_execute_def oracle_feed_prices_def feeds_feed_def split: if_splits)
    next
      case False
      then obtain d ds where ps: "ps = d # ds" by (cases ps) auto
      obtain c1 c2 c3 c4 where c: "config_new c1 c2 c3 c4 = Inr (oracle_config s)" using ok by (auto simp: config_ok_def)
      obtain feeds where feeds: "feeds_feed (env_in_pool env) (oracle_config s) (oracle_feeds s) now' sender ps = Inr feeds"
        "s' = s\<lparr>oracle_feeds := feeds\<rparr>"
        using run FeedPrices by (auto simp: oracle_execute_def oracle_feed_prices_def split: if_splits)
      obtain since where since: "feed_valid_since (oracle_config s) now' = Some since"
        using feeds(1) ps by (auto simp: feeds_feed_def)
      have "feeds_ok now' feeds"
        using feeds_feed_eq [OF since since_before [OF c since time(2)]] feeds(1) sound FeedPrices feeds_fed [OF _ time(1)] ok
        by auto
      then show ?thesis using later feeds(2) by simp
    qed
  next
    case (AddPriceAlarm al)
    then obtain A where A: "add_price_alarm (env_code_id env) (oracle_alarms s) sender al = Inr A" "s' = s\<lparr>oracle_alarms := A\<rparr>"
      using run by (auto simp: oracle_execute_def)
    have "apart \<longrightarrow> price_alarms_ok A"
      using add_price_alarm_ok [OF _ _ _ _ _ A(1)] sound AddPriceAlarm ok by (auto simp: alarm_sound_def)
    moreover have "alarms_kept A"
      using kept_add(1) [OF _ _ A(1)] sound AddPriceAlarm ok by (auto simp: alarm_sound_def)
    ultimately show ?thesis using later A(2) by simp
  next
    case (DispatchPriceAlarms n)
    then obtain A m d where A: "try_notify_alarms OracleDelivery (oracle_alarms s) (calc_all_prices env s now') n = Inr (A, m, d)"
      "s' = s\<lparr>oracle_alarms := A\<rparr>"
      using run by (auto simp: oracle_execute_def)
    then show ?thesis using later notify_keeps_ok [OF A(1)] kept_notify [OF A(1)] by simp
  qed
qed

lemma sudo_keeps_ok:
  assumes ok: "oracle_ok apart env (now, s)" "now \<le> now'" "sudo_sound msg" and run: "oracle_sudo env now' msg s = Inr s'"
  shows "oracle_ok apart env (now', s')"
proof (cases msg)
  case (SwapTree h)
  then obtain t u where t: "new_pairs env h = Inr t" "validate_swap_tree env (s\<lparr>oracle_tree := t\<rparr>) now' = Inr u"
    "s' = s\<lparr>oracle_tree := t\<rparr>"
    using run by (auto simp: oracle_sudo_def Let_def)
  have "tree_valid env t" by (rule validated_tree [OF t(1) _ t(2)]) simp
  then show ?thesis using ok(1) feeds_later [OF _ ok(2)] t(3) by auto
qed (use ok run feeds_later in \<open>auto simp: oracle_sudo_def sudo_sound_def\<close>)

lemma step_keeps_ok:
  assumes "oracle_ok apart env x" "oracle_step apart env x y"
  shows "oracle_ok apart env y"
  using assms(2,1)
proof (cases rule: oracle_step.cases)
  case (delivers s a q d now s')
  then have kept: "alarms_kept (oracle_alarms s)" using assms(1) by simp
  obtain alarms where s': "s' = s\<lparr>oracle_alarms := alarms\<rparr>" "alarms_kept alarms"
    using deliver_kept [OF kept delivers(3,4,5)] by blast
  have "price_alarms_ok (oracle_alarms s')" if apart
  proof -
    have "price_alarms_ok (oracle_alarms s)" using that delivers(1) assms(1) by simp
    then obtain B where "deliver env now s (a, d) = Inr (s\<lparr>oracle_alarms := B\<rparr>)" "price_alarms_ok B"
      using deliver_step [OF _ delivers(3,4)] by blast
    then show ?thesis using delivers(5) by simp
  qed
  then show ?thesis using s' delivers(1,2) assms(1) by auto
qed (use assms(1) execute_keeps_ok sudo_keeps_ok in blast)+

lemma start_ok:
  assumes "oracle_starts env x" shows "oracle_ok apart env x"
proof -
  obtain now s where x: "x = (now, s)" by (cases x)
  obtain c h where c: "config_ok c" "oracle_instantiate env now c h = Inr s"
    using assms x by (auto simp: oracle_starts_def)
  then obtain t u where t: "new_pairs env h = Inr t" "validate_swap_tree env s now = Inr u" "oracle_tree s = t"
      "oracle_config s = c" "oracle_feeds s = (\<lambda>_. [])"
      "oracle_alarms s = \<lparr>alarms_below = [], alarms_above_or_equal = [], alarms_in_delivery = []\<rparr>"
    by (auto simp: oracle_instantiate_def Let_def)
  have "price_alarms_ok (oracle_alarms s)"
    by (simp add: t(6) price_alarms_ok_def store_pairs_ok_def queue_ok_def in_queue_subscribers_def index_may_load_def)
  then show ?thesis
    using validated_tree [OF t(1,3,2)] t(3-5) c(1) x alarms_ok_kept by (simp add: feeds_ok_def)
qed

interpretation price_oracle: invariant_system "oracle_starts env" "oracle_step apart env" "oracle_ok apart env" for apart env
  by unfold_locales (auto intro: start_ok step_keeps_ok)

text \<open>
  C16. The oracle stays sound. In every state that its entry points can lead to, in any order of
  messages, changes by governance and deliveries of alarms, alarms asked for while one of the same
  subscriber is in delivery included, the swap tree is supported, in depth
  first order and its pairs are known pools; each feed is in the order of time; the
  configuration is valid; each index of the store of alarms is in the order of its prices, no subscriber has
  only the upper alarm of a pair, and none is twice in delivery. If, besides, a subscriber with an alarm in delivery asks
  for another only within this delivery, the store is sound: the two prices of a pair are those of
  one alarm, and no subscriber in delivery has an alarm in the store. Without this condition the last part
  does not hold: see the deliveries that fail after the subscriber has renewed its alarm.
\<close>

theorem oracle_stays_sound:
  assumes "reachable (oracle_starts env) (oracle_step apart env) (now, s)"
  shows "tree_valid env (oracle_tree s) \<and> feeds_ok now (oracle_feeds s) \<and> config_ok (oracle_config s)
    \<and> alarms_kept (oracle_alarms s) \<and> (apart \<longrightarrow> price_alarms_ok (oracle_alarms s))"
  using price_oracle.reachable_inv [OF assms] by simp

section \<open>An alarm asked for while another one is in delivery\<close>

text \<open>
  C39. A pair of two alarms blocks the dispatch. The oracle takes an alarm also while one of the same
  subscriber is in delivery, as it is while the alarm before it in the batch is handled. When its own
  delivery fails then, the oracle puts the alarm that failed back: the lower
  price of the failed alarm replaces the one just asked for, but the upper price of the one just
  asked for stays. While a current price is both below the lower and at or above the upper price of
  this pair, the subscriber is selected twice, it is not found the second time, and each dispatch
  whose limit lets all alarms go fails, for all subscribers.
\<close>

theorem mixed_alarm_blocks_dispatch:
  assumes kept: "alarms_kept (oracle_alarms s)"
    and x: "alarms_in_delivery (oracle_alarms s) = [y, x]" "aws_subscriber x \<noteq> ''''" "aws_above x = None"
    and al: "alarm_prices_ok al" "alarm_above al = Some ab"
    and ask: "oracle_execute env now (aws_subscriber x) (AddPriceAlarm al) s = Inr (s1, r)"
    and settled: "oracle_reply True s1 = Inr s2" "oracle_reply False s2 = Inr s3"
    and prices: "calc_all_prices env s3 now2 = map Inr bs" "list_all norm_fits bs"
    and between: "b \<in> set bs" "bp_currency ab = bp_currency b" "fst (aws_below x) = bp_currency b"
      "snd (aws_below x) < snd (norm_of b)" "snd (norm_of b) \<le> snd (norm_of ab)"
    and limit: "length (selected_by (oracle_alarms s3) bs) \<le> n"
  shows "oracle_execute env now2 sender (DispatchPriceAlarms n) s3 = Inl (Fail (OracleDelivery InDeliveryLoadBelow))"
proof -
  have "add_price_alarm (env_code_id env) (oracle_alarms s) (aws_subscriber x) al = Inr (oracle_alarms s1)"
    using ask by (auto simp: oracle_execute_def)
  moreover have "price_last_delivered (oracle_alarms s1) = Inr (oracle_alarms s2)"
    "price_last_failed (oracle_alarms s2) = Inr (oracle_alarms s3)"
    using settled by (auto simp: oracle_reply_def price_alarms_reply_def)
  ultimately have pair: "index_may_load (alarms_below (oracle_alarms s3)) (aws_subscriber x) = Some (aws_below x)"
      "index_may_load (alarms_above_or_equal (oracle_alarms s3)) (aws_subscriber x) = Some (norm_of ab)"
      "alarms_in_delivery (oracle_alarms s3) = []" "alarms_kept (oracle_alarms s3)"
    using mixed_pair [OF kept x(1,3) al] by blast+
  have "\<not> distinct (selected_by (oracle_alarms s3) bs)"
  proof (rule selected_twice [OF x(2) between(1)])
    show "index_may_load (alarms_below (oracle_alarms s3)) (aws_subscriber x) = Some (bp_currency b, snd (aws_below x))"
      "index_may_load (alarms_above_or_equal (oracle_alarms s3)) (aws_subscriber x) = Some (bp_currency b, snd (norm_of ab))"
      using pair(1,2) between(2,3) by (simp_all add: prod_eq_iff norm_of_def)
  qed (use pair(4) between(4,5) in \<open>simp_all add: alarms_kept_def\<close>)
  from mixed_blocks [OF pair(3) prices(2) this limit, of OracleDelivery] show ?thesis
    by (simp add: oracle_execute_def prices(1))
qed

end
