(* ===== verification/Oracle_Runs.thy ===== *)
theory Oracle_Runs
  imports Oracle_Guarantees
begin

text \<open>
  A concrete oracle with two feeders, one feed and one alarm, to which the properties apply, and a run
  from the instantiation over feeds, alarms and their dispatch to a state where no dispatch succeeds.
\<close>

definition run_env :: oracle_env where
  "run_env = \<lparr>env_in_pool = (\<lambda>_ _. True), env_hash_order = (\<lambda>xs. xs), env_base = ''USDC'', env_stable = ''USDC'',
     env_code_id = (\<lambda>_. Some 1), env_addr_validate = Some\<rparr>"

lemma run_env_simps [simp]:
  "env_in_pool run_env c q" "env_hash_order run_env = (\<lambda>xs. xs)" "env_base run_env = ''USDC''" "env_stable run_env = ''USDC''"
  by (simp_all add: run_env_def)

definition run_hrt :: "swap_target hrt" where
  "run_hrt = Branch \<lparr>pool_id = 0, target = ''USDC''\<rparr> [Leaf \<lparr>pool_id = 7, target = ''ATOM''\<rparr>]"

definition run_tree :: "swap_target tree" where
  "run_tree = [\<lparr>parent_index = 0, node_value = \<lparr>pool_id = 0, target = ''USDC''\<rparr>\<rparr>,
     \<lparr>parent_index = 0, node_value = \<lparr>pool_id = 7, target = ''ATOM''\<rparr>\<rparr>]"

definition run_oracle :: price_oracle where
  "run_oracle = \<lparr>oracle_feeders = Some {''ann'', ''bob''}, oracle_config = sample_config 750, oracle_tree = run_tree,
     oracle_feeds = (\<lambda>_. [])(storage_ns ''ATOM'' ''USDC'' := sample_stored), oracle_alarms = example_store\<rparr>"

lemma run_into_tree: "into_tree run_hrt = Some run_tree"
  by (simp add: run_hrt_def run_tree_def into_tree_def node_new_def root_index_def root_parent_def)

lemma run_tree_len: "length run_tree = 2"
  by (simp add: run_tree_def)

lemma run_tree_valid: "tree_valid run_env run_tree"
proof -
  have "tree_ok run_tree" using into_tree_ok(1) [OF run_into_tree] .
  then have "pairs_ok ''USDC'' ''USDC'' run_tree"
    by (simp add: pairs_ok_def run_tree_def)
  then show ?thesis
    using into_tree_df [OF run_into_tree] by (simp add: tree_valid_def run_env_def legs_in_pools_def)
qed

lemma run_fields [simp]:
  "oracle_tree run_oracle = run_tree" "oracle_config run_oracle = sample_config 750"
  "oracle_alarms run_oracle = example_store" "oracle_feeders run_oracle = Some {''ann'', ''bob''}"
  by (simp_all add: run_oracle_def)

lemma run_curs: "cur run_tree 0 = ''USDC''" "cur run_tree (Suc 0) = ''ATOM''" "parent_index (run_tree ! Suc 0) = 0"
  by (simp_all add: cur_def run_tree_def)

lemma run_fed: "fed_price run_env run_oracle (Timestamp 100) ''ATOM'' ''USDC'' = Inr sample_price"
  using sample_calc_price [unfolded numeral_2_eq_2]
  by (simp add: fed_price_def price_of_feed_def run_oracle_def total_registered_def feeders_get_def)

definition run_price :: "unit base_price" where
  "run_price = \<lparr>bp_currency = ''ATOM'', bp_amount = 2, bp_quote = Coin 3\<rparr>"

lemma run_price_example: "run_price = example_price"
  by (simp add: run_price_def example_price_def)

lemma run_tree_price:
  "tree_price (env_in_pool run_env) (fed_price run_env run_oracle (Timestamp 100)) run_tree (Suc 0) = Inr (Some sample_price)"
proof -
  have "tree_ok run_tree" using run_tree_valid by (simp add: tree_valid_def tree_df_def)
  moreover have "price_ok sample_price" using sample_price_small by (simp add: small_price_def)
  ultimately show ?thesis
    using tree_price_Some [of run_tree "Suc 0" "env_in_pool run_env" "fed_price run_env run_oracle (Timestamp 100)" sample_price]
    by (auto simp: run_tree_len run_curs run_fed price_mul_identity)
qed

lemma run_prices: "try_query_prices run_env run_oracle (Timestamp 100) = Inr [example_price]"
proof -
  have "[1..<length run_tree] = [Suc 0]" by (simp add: run_tree_len numeral_2_eq_2)
  then show ?thesis
    using all_prices_eq [of run_env run_oracle "Timestamp 100"] run_tree_valid
    by (simp add: tree_valid_def run_tree_price run_curs base_from_price_def sample_price_def example_price_def)
qed

theorem oracle_prices_spec_witness:
  "try_query_prices run_env run_oracle (Timestamp 100)
    = gather_prices (tree_price (env_in_pool run_env) (fed_price run_env run_oracle (Timestamp 100)) run_tree) run_tree
        [1..<length run_tree]
    \<and> try_query_prices run_env run_oracle (Timestamp 100) = Inr [example_price]"
  using oracle_prices_spec [of run_env run_oracle "Timestamp 100"] run_tree_valid run_prices by simp

theorem base_price_agrees_witness:
  "\<exists>p :: pair_price. calc_base_price (env_in_pool run_env) (fed_price run_env run_oracle (Timestamp 100)) ''USDC'' run_tree ''ATOM''
        = Inr (base_from_price ''ATOM'' p) \<and> price_is p 2 3
    \<and> base_from_price ''ATOM'' p \<in> set [example_price]"
proof -
  let ?fed = "fed_price run_env run_oracle (Timestamp 100)"
  have t: "pairs_ok ''USDC'' ''USDC'' run_tree" "tree_df run_tree" "legs_in_pools (env_in_pool run_env) run_tree" "tree_ok run_tree"
    using run_tree_valid by (auto simp: tree_valid_def tree_df_def run_env_def)
  have anc: "ancestors run_tree (Suc 0) = [0]"
    using ancestors_step [OF t(4), of "Suc 0"] by (simp add: run_tree_len run_curs)
  have way: "way_prices ?fed (map (cur run_tree) (Suc 0 # ancestors run_tree (Suc 0))) = Some [sample_price]"
    by (simp add: anc run_curs run_fed)
  have all: "collect_prices (all_prices_iter (env_in_pool run_env) ?fed ''USDC'' (legs_up run_tree)) = Inr [example_price]"
    using run_prices t(1) by (simp add: try_query_prices_def calc_all_prices_def pairs_ok_def swap_pairs_eq)
  have "\<exists>p :: pair_price. calc_base_price (env_in_pool run_env) ?fed ''USDC'' run_tree (cur run_tree (Suc 0))
        = Inr (base_from_price (cur run_tree (Suc 0)) p) \<and> price_ok p \<and> price_is p (amounts [sample_price]) (quotes [sample_price])
    \<and> (\<forall>bs. collect_prices (all_prices_iter (env_in_pool run_env) ?fed ''USDC'' (legs_up run_tree)) = Inr bs \<longrightarrow>
          {b \<in> set bs. bp_currency b = cur run_tree (Suc 0)} = {base_from_price (cur run_tree (Suc 0)) p})"
    by (rule base_price_agrees [OF t(1-3) _ _ way])
      (use sample_price_small in \<open>simp_all add: run_tree_len small_price_def sample_price_def\<close>)
  then show ?thesis using all by (simp add: run_curs sample_price_def) blast
qed

lemma run_fires: "{a. \<exists>b \<in> set [example_price]. fires example_store (norm_of b) a} = {''lease''}"
  by (simp add: example_fires)

lemma run_all_prices: "calc_all_prices run_env run_oracle (Timestamp 100) = map Inr [example_price]"
  using run_prices unfolding try_query_prices_def collect_prices_Inr .


theorem oracle_alarms_round_witness:
  "\<exists>s1 sent d s2. oracle_execute run_env (Timestamp 100) ''any'' (DispatchPriceAlarms 5) run_oracle
        = Inr (s1, DispatchPriceAlarmsResponse sent d)
    \<and> try_fold (deliver run_env (Timestamp 100)) s1
        (zip (in_queue_subscribers (oracle_alarms s1)) [Renewed example_alarm]) = Inr s2
    \<and> price_alarms_ok (oracle_alarms s2) \<and> alarms_in_delivery (oracle_alarms s2) = []"
proof -
  have "delivery_sound (Renewed example_alarm)"
    using example_added(2,3) by (simp add: delivery_sound_def alarm_sound_def)
  then show ?thesis
    using oracle_alarms_round [of run_env run_oracle "Timestamp 100" "[example_price]" 5 "[Renewed example_alarm]" "''any''",
        unfolded run_fields run_fires] run_tree_valid example_store_ok run_prices example_price_fits(1)
    by auto
qed

definition run_fed_price :: price_dto where
  "run_fed_price = \<lparr>dto_base = ''ATOM'', dto_amount = 4, dto_quote = ''USDC'', dto_amount_quote = 7\<rparr>"

lemma run_fed_price_sound: "dto_sound run_env run_fed_price"
proof -
  obtain p :: pair_price where p: "price_new (Coin 4) (Coin 7) = Some p" "price_ok p"
    using price_new_spec [of "Coin 4" "Coin 7"] by (auto simp: coin_ok_def)
  then show ?thesis
    by (auto simp: dto_sound_def run_fed_price_def price_dto_held_def visit_any_on_currencies_def run_env_def
        price_try_new_def price_new_def [symmetric] price_ok_def price_invariant_held_def)
qed

theorem oracle_feed_spec_witness:
  "\<exists>s'. oracle_execute run_env (Timestamp 100) ''ann'' (FeedPrices [run_fed_price]) run_oracle = Inr (s', NoPriceData)
    \<and> oracle_feeds s' ''o11s_ATOM_USDC'' = sample_stored @ fed_by ''ann'' (Timestamp 100) [run_fed_price] ''o11s_ATOM_USDC''"
proof -
  have config: "config_new (Percent 500) (Duration 5) 2 (Percent 750) = Inr (oracle_config run_oracle)"
    using sample_config_new [of 750] by simp
  have fed: "fed_by ''ann'' (Timestamp 100) [run_fed_price] ''o11s_ATOM_USDC'' \<noteq> []"
    by (simp add: fed_by_def run_fed_price_def storage_ns_def)
  have leg: "supports_price (legs_up run_tree) run_fed_price"
    by (simp add: supports_price_def run_fed_price_def legs_up_def run_tree_def)
  have store: "oracle_feeds run_oracle ''o11s_ATOM_USDC'' = sample_stored"
    "observations_retain sample_stored (Timestamp 90) = sample_stored"
    by (simp_all add: run_oracle_def storage_ns_def sample_stored_def obs_valid_since_def less_timestamp_def)
  show ?thesis
    using oracle_feed_spec [of run_env run_oracle, OF _ config _ _, of "Timestamp 100" "Timestamp 90" "[run_fed_price]" "''ann''"]
      run_tree_valid sample_since run_fed_price_sound fed leg store
    by (auto simp: is_registered_def split: sum.splits)
qed

definition run_start :: price_oracle where
  "run_start = \<lparr>oracle_feeders = None, oracle_config = sample_config 750, oracle_tree = run_tree, oracle_feeds = (\<lambda>_. []),
     oracle_alarms = \<lparr>alarms_below = [], alarms_above_or_equal = [], alarms_in_delivery = []\<rparr>\<rparr>"

lemma sample_config_fields:
  "min_feeders_percent (sample_config d) = Percent 500" "sample_period (sample_config d) = Duration 5"
  "samples_number (sample_config d) = 2"
  by (simp_all add: sample_config_def)

lemma run_instantiates: "oracle_instantiate run_env (Timestamp 3) (sample_config 750) run_hrt = Inr run_start"
proof -
  let ?c = "sample_config 750"
  have pairs: "new_pairs run_env run_hrt = Inr run_tree"
    using run_into_tree run_tree_valid
    by (auto simp: new_pairs_def supported_pairs_new_Inr tree_valid_def pairs_ok_def tree_ok_def)
  have since: "feed_valid_since ?c (Timestamp 3) = Some (Timestamp 0)"
    by (simp add: feed_valid_since_def sample_config_def less_eq_timestamp_def timestamp_default_def)
  have "take_samples (\<lambda>xs. xs) 2 (sample_builder_from [] (Timestamp 0) (Duration 5))
      = samples_of (\<lambda>xs. xs) [] (Timestamp 0) (Duration 5) None 2"
    using take_samples_eq [of "\<lambda>xs. xs" "[]" "sample_builder_from [] (Timestamp 0) (Duration 5)" 2]
    by (simp add: sample_builder_from_def pipeline_def)
  also have "\<dots> = samples_of (\<lambda>xs. xs) [] (Timestamp 0) (Duration 5) None (Suc (Suc 0))"
    by (simp only: numeral_2_eq_2)
  also have "\<dots> = Some [None, None]" by (simp add: period_sample_def)
  finally have "calc_price (\<lambda>xs. xs) [] ?c (Timestamp 3) 0 = Inl (Fail NoPrice)"
    by (simp add: calc_price_def since valid_observations_def has_enough_feeders_def min_feeders_def percent_of_usize_def
        safe_mul_def fits_def checked_div_def percent_ratio_def count_unique_feeders_def sample_config_fields)
  then have fed: "fed_price run_env run_start (Timestamp 3) ''ATOM'' ''USDC'' = Inl (Fail NoPrice)"
    by (simp add: fed_price_def price_of_feed_def run_start_def total_registered_def feeders_get_def)
  have t: "tree_ok run_tree" "pairs_ok ''USDC'' ''USDC'' run_tree" "tree_df run_tree"
    using run_tree_valid by (auto simp: tree_valid_def tree_df_def)
  have "[1..<length run_tree] = [Suc 0]" by (simp add: run_tree_len numeral_2_eq_2)
  then have "try_query_prices run_env run_start (Timestamp 3) = Inr []"
    using all_prices_eq [of run_env run_start "Timestamp 3"] t fed
      tree_price_step [OF t(1), of "Suc 0" "env_in_pool run_env" "fed_price run_env run_start (Timestamp 3)"]
    by (simp add: run_start_def [THEN arg_cong, of oracle_tree] run_tree_len run_curs visit_any_on_currencies_def maybe_price_def)
  then show ?thesis
    using pairs by (simp add: oracle_instantiate_def validate_swap_tree_def run_start_def)
qed

text \<open>
  A run: two feeders are registered and report a price of 3/2, two subscribers ask for an alarm below 2,
  and the alarms are dispatched.
\<close>

definition run_reported :: price_dto where
  "run_reported = \<lparr>dto_base = ''ATOM'', dto_amount = 2, dto_quote = ''USDC'', dto_amount_quote = 3\<rparr>"

definition run_low_alarm :: "unit alarm" where
  "run_low_alarm = \<lparr>alarm_below = \<lparr>bp_currency = ''ATOM'', bp_amount = 1, bp_quote = Coin 2\<rparr>, alarm_above = None\<rparr>"

definition run_lower :: norm_price where
  "run_lower = (''ATOM'', 500000000000000000)"

definition run_quiet :: price_oracle where
  "run_quiet = run_oracle\<lparr>oracle_alarms := \<lparr>alarms_below = [], alarms_above_or_equal = [], alarms_in_delivery = []\<rparr>\<rparr>"

definition run_asked :: price_oracle where
  "run_asked = run_oracle\<lparr>oracle_alarms := \<lparr>alarms_below = [(run_lower, ''lease''), (run_lower, ''zoe'')],
     alarms_above_or_equal = [], alarms_in_delivery = []\<rparr>\<rparr>"

definition run_mixing :: price_oracle where
  "run_mixing = run_oracle\<lparr>oracle_alarms := \<lparr>alarms_below = [], alarms_above_or_equal = [],
     alarms_in_delivery = [\<lparr>aws_subscriber = ''lease'', aws_below = run_lower, aws_above = None\<rparr>,
       \<lparr>aws_subscriber = ''zoe'', aws_below = run_lower, aws_above = None\<rparr>]\<rparr>\<rparr>"

lemma run_reported_sound: "dto_sound run_env run_reported"
proof -
  obtain p :: pair_price where p: "price_new (Coin 2) (Coin 3) = Some p" "price_ok p"
    using price_new_spec [of "Coin 2" "Coin 3"] by (auto simp: coin_ok_def)
  then show ?thesis
    by (auto simp: dto_sound_def run_reported_def price_dto_held_def visit_any_on_currencies_def
        price_try_new_def price_new_def [symmetric] price_ok_def price_invariant_held_def)
qed

lemma run_low_alarm_sound: "alarm_sound run_low_alarm"
  by (simp add: alarm_sound_def run_low_alarm_def alarm_prices_ok_def base_price_ok_def coin_ok_def
      alarm_try_from_def alarm_invariant_held_def with_base_price_def price_new_def price_new_inner_def
      into_coprime_with_def checked_div_def del: inversion_simps)

lemma run_feeds:
  assumes "is_registered (oracle_feeders s) sender" "oracle_tree s = run_tree" "oracle_config s = sample_config 750"
    and "feed_valid_since (sample_config 750) at = Some since"
  shows "oracle_execute run_env at sender (FeedPrices [run_reported]) s = Inr
    (s\<lparr>oracle_feeds := (oracle_feeds s)(''o11s_ATOM_USDC'' :=
        observations_retain (oracle_feeds s ''o11s_ATOM_USDC'') since
          @ [\<lparr>feeder_addr = sender, obs_time = at, obs_price = sample_price\<rparr>])\<rparr>, NoPriceData)"
proof -
  have "tree_ok run_tree" using run_tree_valid by (simp add: tree_valid_def tree_df_def)
  then have "swap_pairs_df run_tree = Some (legs_up run_tree)" by (rule swap_pairs_eq) (simp add: run_tree_len)
  moreover have "supports_price (legs_up run_tree) run_reported"
    by (simp add: supports_price_def run_reported_def legs_up_def run_tree_def)
  ultimately show ?thesis
    using assms
    by (simp add: oracle_execute_def oracle_feed_prices_def feeds_feed_def feeds_add_observation_def with_price_dto_def
        run_reported_def storage_ns_def visit_any_on_currencies_def add_observation_def observation_new_def
        observations_register_def price_new_def price_new_inner_def into_coprime_with_def checked_div_def sample_price_def
        Let_def del: inversion_simps)
qed

lemma run_adds:
  "add_price_alarm (env_code_id run_env) \<lparr>alarms_below = [], alarms_above_or_equal = [], alarms_in_delivery = []\<rparr>
     ''lease'' run_low_alarm
   = Inr \<lparr>alarms_below = [(run_lower, ''lease'')], alarms_above_or_equal = [], alarms_in_delivery = []\<rparr>"
  "add_price_alarm (env_code_id run_env)
     \<lparr>alarms_below = [(run_lower, ''lease'')], alarms_above_or_equal = [], alarms_in_delivery = []\<rparr> ''zoe'' run_low_alarm
   = Inr (oracle_alarms run_asked)"
  by (simp_all add: run_low_alarm_def run_asked_def run_lower_def run_env_def add_price_alarm_def try_add_price_alarm_def
      with_base_price_def validate_addr_def price_new_def price_new_inner_def into_coprime_with_def add_alarm_def
      normalized_new_def total_def coin_safe_mul_def safe_mul_def fits_def coin_ratio_def norm_scale_def Let_def
      add_alarm_below_internal_def remove_above_or_equal_def index_save_def index_remove_def checked_div_def
      price_inv_def del: inversion_simps)

lemma run_asked_prices: "calc_all_prices run_env run_asked (Timestamp 100) = map Inr [example_price]"
  using run_all_prices by (simp add: calc_all_prices_def fed_price_def run_asked_def cong: option.case_cong)

lemma run_outs: "try_fold price_out_for_delivery (oracle_alarms run_asked) [''lease'', ''zoe''] = Inr (oracle_alarms run_mixing)"
  by (simp add: price_out_for_delivery_def run_asked_def run_mixing_def index_may_load_def index_remove_def Let_def
      del: inversion_simps)

lemma run_dispatch:
  "oracle_execute run_env (Timestamp 100) ''any'' (DispatchPriceAlarms 2) run_asked
     = Inr (run_mixing, DispatchPriceAlarmsResponse 2 (dispatcher_of PriceAlarm [''lease'', ''zoe''] oracle_reply_id))"
proof -
  let ?A = "oracle_alarms run_asked"
  have "selected_by ?A [example_price] = [''lease'', ''zoe'']"
    by (simp add: selected_by_def example_price_fits iter_below_def iter_above_or_equal_def sub_prefix_def
        index_range_def run_asked_def run_lower_def)
  then have "notify_alarms ?A 2 (map Inr [example_price] :: (oracle_error, unit base_price) res list)
      = Inr [''lease'', ''zoe'']"
    using notify_selected [of "[example_price]" ?A 2] by (simp add: example_price_fits)
  moreover have "alarms_in_delivery ?A = []" "run_mixing = run_asked\<lparr>oracle_alarms := oracle_alarms run_mixing\<rparr>"
    by (simp_all add: run_asked_def run_mixing_def)
  ultimately show ?thesis
    unfolding oracle_execute_def run_asked_prices
    by (simp add: try_notify_alarms_eq run_outs fits_def del: inversion_simps try_fold.simps list.map)
qed

lemma run_since:
  "feed_valid_since (sample_config 750) (Timestamp 92) = Some (Timestamp 82)"
  "feed_valid_since (sample_config 750) (Timestamp 97) = Some (Timestamp 87)"
  by (simp_all add: feed_valid_since_def sample_config_def less_eq_timestamp_def)

lemma run_starts: "oracle_starts run_env (Timestamp 3, run_start)"
proof -
  have "config_ok (sample_config 750)" using sample_config_new [of 750] by (auto simp: config_ok_def)
  then show ?thesis using run_instantiates by (auto simp: oracle_starts_def)
qed

lemma run_reported_reachable: "reachable (oracle_starts run_env) (oracle_step apart run_env) (Timestamp 97, run_quiet)"
proof -
  let ?by = "\<lambda>fs. run_start\<lparr>oracle_feeders := Some fs\<rparr>"
  let ?ob = "\<lambda>sender at. \<lparr>feeder_addr = sender, obs_time = Timestamp at, obs_price = sample_price\<rparr>"
  let ?s = "\<lambda>obs. (?by {''bob'', ''ann''})\<lparr>oracle_feeds := (\<lambda>_. [])(''o11s_ATOM_USDC'' := obs)\<rparr>"
  have registers: "oracle_step apart run_env (Timestamp 3, run_start) (Timestamp 3, ?by {''ann''})"
    "oracle_step apart run_env (Timestamp 3, ?by {''ann''}) (Timestamp 3, ?by {''bob'', ''ann''})"
    by (rule oracle_step.governs [where msg = "RegisterFeeder ''ann''"];
        simp add: sudo_sound_def oracle_sudo_def feeders_try_register_def feeders_register_def feeders_get_def run_env_def run_start_def)
      (rule oracle_step.governs [where msg = "RegisterFeeder ''bob''"];
        simp add: sudo_sound_def oracle_sudo_def feeders_try_register_def feeders_register_def feeders_get_def run_env_def run_start_def)
  have feeds: "oracle_step apart run_env (Timestamp 3, ?by {''bob'', ''ann''}) (Timestamp 92, ?s [?ob ''ann'' 92])"
    "oracle_step apart run_env (Timestamp 92, ?s [?ob ''ann'' 92]) (Timestamp 97, ?s [?ob ''ann'' 92, ?ob ''bob'' 97])"
    using run_feeds [OF _ _ _ run_since(1), of "?by {''bob'', ''ann''}" "''ann''"]
      run_feeds [OF _ _ _ run_since(2), of "?s [?ob ''ann'' 92]" "''bob''"]
    by (auto intro!: oracle_step.executes [where msg = "FeedPrices [run_reported]"]
        simp: is_registered_def run_start_def run_reported_sound less_eq_timestamp_def obs_valid_since_def less_timestamp_def)
  have "?s [?ob ''ann'' 92, ?ob ''bob'' 97] = run_quiet"
    by (simp add: run_quiet_def run_oracle_def run_start_def sample_stored_def storage_ns_def insert_commute)
  with registers feeds run_starts show ?thesis
    by (metis (no_types, lifting) reachable.intros)
qed

lemma run_mixing_reachable: "reachable (oracle_starts run_env) (oracle_step apart run_env) (Timestamp 100, run_mixing)"
proof -
  let ?one = "run_oracle\<lparr>oracle_alarms :=
    \<lparr>alarms_below = [(run_lower, ''lease'')], alarms_above_or_equal = [], alarms_in_delivery = []\<rparr>\<rparr>"
  have "oracle_step apart run_env (Timestamp 97, run_quiet) (Timestamp 97, ?one)"
    using run_adds(1) run_low_alarm_sound
    by (auto intro!: oracle_step.executes [where msg = "AddPriceAlarm run_low_alarm" and sender = "''lease''"]
        simp: oracle_execute_def run_quiet_def in_queue_subscribers_def)
  moreover have "oracle_step apart run_env (Timestamp 97, ?one) (Timestamp 97, run_asked)"
    using run_adds(2) run_low_alarm_sound
    by (auto intro!: oracle_step.executes [where msg = "AddPriceAlarm run_low_alarm" and sender = "''zoe''"]
        simp: oracle_execute_def run_asked_def in_queue_subscribers_def)
  moreover have "oracle_step apart run_env (Timestamp 97, run_asked) (Timestamp 100, run_mixing)"
    by (rule oracle_step.executes [OF _ _ _ run_dispatch]) (simp_all add: less_eq_timestamp_def)
  ultimately show ?thesis
    by (metis (no_types, lifting) run_reported_reachable reachable.next_state)
qed

text \<open>
  While the alarm of \<open>lease\<close> is handled, \<open>zoe\<close> asks for an alarm below 1/2 or at or above 1, and then
  the delivery to it fails.
\<close>

definition run_wide_alarm :: "unit alarm" where
  "run_wide_alarm = \<lparr>alarm_below = \<lparr>bp_currency = ''ATOM'', bp_amount = 2, bp_quote = Coin 1\<rparr>,
     alarm_above = Some \<lparr>bp_currency = ''ATOM'', bp_amount = 1, bp_quote = Coin 1\<rparr>\<rparr>"

definition run_renewed :: price_oracle where
  "run_renewed = run_mixing\<lparr>oracle_alarms := (oracle_alarms run_mixing)\<lparr>
     alarms_below := [((''ATOM'', 2000000000000000000), ''zoe'')],
     alarms_above_or_equal := [((''ATOM'', 1000000000000000000), ''zoe'')]\<rparr>\<rparr>"

definition run_mixed :: price_oracle where
  "run_mixed = run_oracle\<lparr>oracle_alarms := \<lparr>alarms_below = [(run_lower, ''zoe'')],
     alarms_above_or_equal = [((''ATOM'', 1000000000000000000), ''zoe'')], alarms_in_delivery = []\<rparr>\<rparr>"

lemma run_wide_alarm_sound: "alarm_sound run_wide_alarm"
  by (simp add: alarm_sound_def run_wide_alarm_def alarm_prices_ok_def base_price_ok_def coin_ok_def
      alarm_try_from_def alarm_invariant_held_def with_base_price_def price_new_def price_new_inner_def
      into_coprime_with_def checked_div_def try_as_specific_def base_of_currency_def total_of_is_def price_lt_def price_cmp_def
      nat_cmp_def del: inversion_simps)

lemma run_renews:
  "oracle_execute run_env (Timestamp 100) ''zoe'' (AddPriceAlarm run_wide_alarm) run_mixing = Inr (run_renewed, NoPriceData)"
proof -
  have "add_price_alarm (env_code_id run_env) (oracle_alarms run_mixing) ''zoe'' run_wide_alarm = Inr (oracle_alarms run_renewed)"
    by (simp add: run_wide_alarm_def run_mixing_def run_renewed_def run_env_def add_price_alarm_def try_add_price_alarm_def
        with_base_price_def validate_addr_def price_new_def price_new_inner_def into_coprime_with_def try_as_specific_def
        base_of_currency_def total_of_is_def add_alarm_def normalized_new_def total_def coin_safe_mul_def safe_mul_def fits_def
        coin_ratio_def norm_scale_def Let_def add_alarm_below_internal_def add_alarm_above_or_equal_internal_def
        index_save_def index_remove_def checked_div_def price_inv_def del: inversion_simps)
  then show ?thesis by (simp add: oracle_execute_def run_renewed_def)
qed

lemma run_settles:
  "oracle_reply True run_renewed = Inr (run_renewed\<lparr>oracle_alarms := (oracle_alarms run_renewed)\<lparr>alarms_in_delivery :=
     [\<lparr>aws_subscriber = ''zoe'', aws_below = run_lower, aws_above = None\<rparr>]\<rparr>\<rparr>)"
  "oracle_reply False (run_renewed\<lparr>oracle_alarms := (oracle_alarms run_renewed)\<lparr>alarms_in_delivery :=
     [\<lparr>aws_subscriber = ''zoe'', aws_below = run_lower, aws_above = None\<rparr>]\<rparr>\<rparr>) = Inr run_mixed"
  by (simp_all add: oracle_reply_def price_alarms_reply_def price_last_delivered_def price_last_failed_def
      pop_front_in_delivery_def add_alarm_below_internal_def index_save_def index_remove_def run_renewed_def run_mixing_def
      run_mixed_def)

lemma run_mixed_reachable: "reachable (oracle_starts run_env) (oracle_step False run_env) (Timestamp 100, run_mixed)"
proof -
  have "oracle_step False run_env (Timestamp 100, run_mixing) (Timestamp 100, run_renewed)"
    by (rule oracle_step.executes [OF _ _ _ run_renews]) (simp_all add: run_wide_alarm_sound)
  moreover have "oracle_step False run_env (Timestamp 100, run_renewed)
      (Timestamp 100, run_renewed\<lparr>oracle_alarms := (oracle_alarms run_renewed)\<lparr>alarms_in_delivery :=
         [\<lparr>aws_subscriber = ''zoe'', aws_below = run_lower, aws_above = None\<rparr>]\<rparr>\<rparr>)" (is "oracle_step _ _ _ (_, ?s)")
    by (rule oracle_step.delivers [where d = Handled])
      (simp_all add: run_settles in_queue_subscribers_def run_renewed_def [THEN arg_cong, of oracle_alarms] run_mixing_def
        delivery_sound_def)
  moreover have "oracle_step False run_env (Timestamp 100, ?s) (Timestamp 100, run_mixed)"
    by (rule oracle_step.delivers [where d = Failed]) (simp_all add: run_settles in_queue_subscribers_def delivery_sound_def)
  ultimately show ?thesis
    by (metis (no_types, lifting) run_mixing_reachable reachable.next_state)
qed

theorem mixed_alarm_blocks_dispatch_witness:
  "reachable (oracle_starts run_env) (oracle_step False run_env) (Timestamp 100, run_mixed)
    \<and> oracle_execute run_env (Timestamp 100) ''any'' (DispatchPriceAlarms 2) run_mixed
        = Inl (Fail (OracleDelivery InDeliveryLoadBelow))"
proof -
  have kept: "alarms_kept (oracle_alarms run_mixing)"
    using price_oracle.reachable_inv [OF run_mixing_reachable] by simp
  have queue: "alarms_in_delivery (oracle_alarms run_mixing) =
      [\<lparr>aws_subscriber = ''lease'', aws_below = run_lower, aws_above = None\<rparr>,
       \<lparr>aws_subscriber = ''zoe'', aws_below = run_lower, aws_above = None\<rparr>]" (is "_ = [?y, ?x]")
    by (simp add: run_mixing_def)
  have ask: "oracle_execute run_env (Timestamp 100) (aws_subscriber ?x) (AddPriceAlarm run_wide_alarm) run_mixing
      = Inr (run_renewed, NoPriceData)"
    using run_renews by simp
  have all: "calc_all_prices run_env run_mixed (Timestamp 100) = map Inr [example_price]"
    using run_all_prices by (simp add: calc_all_prices_def fed_price_def run_mixed_def cong: option.case_cong)
  have alarm: "alarm_prices_ok run_wide_alarm"
      "alarm_above run_wide_alarm = Some \<lparr>bp_currency = ''ATOM'', bp_amount = 1, bp_quote = Coin 1\<rparr>"
    using run_wide_alarm_sound by (simp_all add: alarm_sound_def run_wide_alarm_def)
  have two: "length (selected_by (oracle_alarms run_mixed) [example_price]) \<le> 2"
    by (simp add: selected_by_def example_price_fits iter_below_def iter_above_or_equal_def sub_prefix_def index_range_def
        run_mixed_def run_lower_def)
  have "oracle_execute run_env (Timestamp 100) ''any'' (DispatchPriceAlarms 2) run_mixed
      = Inl (Fail (OracleDelivery InDeliveryLoadBelow))"
    by (rule mixed_alarm_blocks_dispatch [OF kept queue _ _ alarm ask run_settles all _ _ _ _ _ _ two, of example_price])
      (simp_all add: example_price_fits run_lower_def, simp_all add: example_price_def norm_of_def norm_scale_def)
  with run_mixed_reachable show ?thesis by blast
qed

text \<open>
  A state with two alarms in delivery, and one reached with an alarm asked for while another is in
  delivery, where the two prices of a pair are of two alarms.
\<close>

theorem oracle_stays_sound_witness:
  "price_alarms_ok (oracle_alarms run_mixing) \<and> length (alarms_in_delivery (oracle_alarms run_mixing)) = 2
    \<and> feeds_ok (Timestamp 100) (oracle_feeds run_mixing) \<and> oracle_feeds run_mixing ''o11s_ATOM_USDC'' = sample_stored
    \<and> alarms_kept (oracle_alarms run_mixed) \<and> \<not> price_alarms_ok (oracle_alarms run_mixed)"
proof -
  have "length (alarms_in_delivery (oracle_alarms run_mixing)) = 2" "oracle_feeds run_mixing ''o11s_ATOM_USDC'' = sample_stored"
    by (simp_all add: run_mixing_def run_oracle_def storage_ns_def)
  moreover have "\<not> price_alarms_ok (oracle_alarms run_mixed)"
    by (simp add: price_alarms_ok_def store_pairs_ok_def alarm_pair_ok_def run_mixed_def run_lower_def index_may_load_def)
  ultimately show ?thesis
    using oracle_stays_sound [OF run_mixing_reachable [of True]] oracle_stays_sound [OF run_mixed_reachable] by blast
qed

end
