(* ===== verification/Leases.thy ===== *)
theory Leases
  imports Alarm_Index
begin

text \<open>
  The leases of the customers (\<open>leaser/src/state/leases.rs\<close>) and their migration in batches
  (\<open>leaser/src/migrate.rs\<close>). A storage map is read in the ascending order of its keys: it is the
  list of its entries in that order. A \<open>HashSet\<close> of leases is a list without repetitions; the
  order a set is iterated in is an argument, \<open>hash_order\<close>, that permutes it.
\<close>

section \<open>Ordered storage maps\<close>

fun map_put :: "('k::linorder \<times> 'v) list \<Rightarrow> 'k \<Rightarrow> 'v \<Rightarrow> ('k \<times> 'v) list" where
  "map_put [] k v = [(k, v)]"
| "map_put ((k', v') # m) k v =
     (if k < k' then (k, v) # (k', v') # m
      else if k = k' then (k, v) # m
      else (k', v') # map_put m k v)"

definition map_range :: "('k::linorder \<times> 'v) list \<Rightarrow> 'k bound option \<Rightarrow> ('k \<times> 'v) list" where
  "map_range m start = filter (\<lambda>e. above_lower start (fst e)) m"

definition map_ok :: "('k::linorder \<times> 'v) list \<Rightarrow> bool" where
  "map_ok m = sorted_wrt (<) (map fst m)"

lemma map_put_set: "fst ` set (map_put m k v) = insert k (fst ` set m)"
  by (induction m k v rule: map_put.induct) auto

lemma map_put_ok [simp]: "map_ok m \<Longrightarrow> map_ok (map_put m k v)"
proof (induction m k v rule: map_put.induct)
  case (2 k' v' m k v)
  then have "\<forall>x \<in> fst ` set (map_put m k v). k' < x" if "k' < k"
    using that unfolding map_put_set by (auto simp: map_ok_def)
  with 2 show ?case by (auto simp: map_ok_def)
qed (simp add: map_ok_def)

lemma map_ok_distinct: "map_ok m \<Longrightarrow> distinct (map fst m)"
  by (simp add: map_ok_def strict_sorted_iff)

lemma map_of_put: "map_ok m \<Longrightarrow> map_of (map_put m k v) = (map_of m)(k \<mapsto> v)"
proof (induction m k v rule: map_put.induct)
  case (2 k' v' m k v)
  then show ?case by (auto simp: map_ok_def fun_eq_iff)
qed simp

section \<open>Leases\<close>

record leases =
  pending_customer :: "addr option"
  customer_leases :: "(addr \<times> addr list) list"

definition cache_open_req :: "leases \<Rightarrow> addr \<Rightarrow> leases" where
  "cache_open_req s customer = s\<lparr>pending_customer := Some customer\<rparr>"

definition hash_insert :: "'a \<Rightarrow> 'a list \<Rightarrow> 'a list \<times> bool" where
  "hash_insert x xs = (if x \<in> set xs then (xs, False) else (xs @ [x], True))"

definition hash_remove :: "'a \<Rightarrow> 'a list \<Rightarrow> 'a list \<times> bool" where
  "hash_remove x xs = (filter (\<lambda>y. y \<noteq> x) xs, x \<in> set xs)"

definition load_by_customer :: "leases \<Rightarrow> addr \<Rightarrow> addr list" where
  "load_by_customer s customer =
     (case map_of (customer_leases s) customer of None \<Rightarrow> [] | Some ls \<Rightarrow> ls)"

text \<open>\<open>Map::update\<close> with a function on the leases of a customer, none by default.\<close>

definition update_leases :: "leases \<Rightarrow> addr \<Rightarrow> (addr list \<Rightarrow> addr list \<times> bool) \<Rightarrow> leases \<times> bool" where
  "update_leases s customer f =
     (case f (load_by_customer s customer) of
        (ls, b) \<Rightarrow> (s\<lparr>customer_leases := map_put (customer_leases s) customer ls\<rparr>, b))"

text \<open>Without a pending customer the load of the item fails, which is \<open>None\<close>.\<close>

definition leases_save :: "leases \<Rightarrow> addr \<Rightarrow> (leases \<times> bool) option" where
  "leases_save s new_lease =
     (case pending_customer s of
        None \<Rightarrow> None
      | Some customer \<Rightarrow> Some (update_leases (s\<lparr>pending_customer := None\<rparr>) customer (hash_insert new_lease)))"

definition leases_remove :: "leases \<Rightarrow> addr \<Rightarrow> addr \<Rightarrow> leases \<times> bool" where
  "leases_remove s customer old_lease = update_leases s customer (hash_remove old_lease)"

record customer_of_leases =
  customer_addr :: addr
  customer_lease_iter :: "addr list"

definition leases_iter :: "(addr list \<Rightarrow> addr list) \<Rightarrow> leases \<Rightarrow> addr option \<Rightarrow> customer_of_leases list" where
  "leases_iter hash_order s next_customer =
     map (\<lambda>(customer, ls). \<lparr>customer_addr = customer, customer_lease_iter = hash_order ls\<rparr>)
       (map_range (customer_leases s) (map_option Inclusive next_customer))"

section \<open>Migration\<close>

text \<open>
  A message to migrate a lease to a code, the release, of the software and of the protocol, being
  the same for a batch.
\<close>

type_synonym release_id = "string \<times> string"

record migrate_lease =
  migrate_addr :: addr
  migrate_release :: release_id
  migrate_code :: nat

record migrate_batch =
  new_code :: nat
  leases_left :: nat
  batch_msgs :: "migrate_lease list"

record migration_result =
  migration_msgs :: "migrate_lease list"
  next_customer :: "addr option"

definition migrate_batch_new :: "nat \<Rightarrow> nat \<Rightarrow> migrate_batch" where
  "migrate_batch_new code max_leases = \<lparr>new_code = code, leases_left = max_leases, batch_msgs = []\<rparr>"

text \<open>
  The leases of a customer, all or none. The result is \<open>None\<close> when they are taken and
  \<open>Some (Inr ())\<close> when they do not fit; a number of leases beyond 32 bits is an error.
\<close>

definition batch_migrate_leases ::
  "'e \<Rightarrow> release_id \<Rightarrow> migrate_batch \<Rightarrow> addr list \<Rightarrow> migrate_batch \<times> ('e, unit) res option" where
  "batch_migrate_leases conversion release b ls =
     (if 2 ^ 32 \<le> length ls then (b, Some (Inl (Fail conversion)))
      else case checked_sub (leases_left b) (length ls) of
        Some left \<Rightarrow>
          (b\<lparr>leases_left := left,
             batch_msgs := batch_msgs b
               @ map (\<lambda>l. \<lparr>migrate_addr = l, migrate_release = release, migrate_code = new_code b\<rparr>) ls\<rparr>,
           None)
      | None \<Rightarrow> (b, Some (Inr ())))"

definition migrate_or_be_next ::
  "'e \<Rightarrow> release_id \<Rightarrow> migrate_batch \<Rightarrow> customer_of_leases \<Rightarrow> migrate_batch \<times> ('e, addr) res option" where
  "migrate_or_be_next conversion release b c =
     (case batch_migrate_leases conversion release b (customer_lease_iter c) of
        (b', completed) \<Rightarrow> (b', map_option (map_res (\<lambda>_. customer_addr c)) completed))"

text \<open>\<open>find_map\<close> over the customers, with the batch as the state of the closure.\<close>

fun find_next ::
  "'e \<Rightarrow> release_id \<Rightarrow> migrate_batch \<Rightarrow> customer_of_leases list \<Rightarrow> migrate_batch \<times> ('e, addr) res option" where
  "find_next conversion release b [] = (b, None)"
| "find_next conversion release b (c # cs) =
     (case migrate_or_be_next conversion release b c of
        (b', None) \<Rightarrow> find_next conversion release b' cs
      | (b', Some r) \<Rightarrow> (b', Some r))"

definition migrate_leases ::
  "'e \<Rightarrow> release_id \<Rightarrow> customer_of_leases list \<Rightarrow> nat \<Rightarrow> nat \<Rightarrow> ('e, migration_result) res" where
  "migrate_leases conversion release customers code max_leases =
     (case find_next conversion release (migrate_batch_new code max_leases) customers of
        (b, None) \<Rightarrow> Inr \<lparr>migration_msgs = batch_msgs b, next_customer = None\<rparr>
      | (b, Some r) \<Rightarrow> map_res (\<lambda>c. \<lparr>migration_msgs = batch_msgs b, next_customer = Some c\<rparr>) r)"


text \<open>The batch takes the longest run of customers, from the first on, whose leases fit.\<close>

definition lease_count :: "customer_of_leases list \<Rightarrow> nat" where
  "lease_count cs = sum_list (map (\<lambda>c. length (customer_lease_iter c)) cs)"

definition migration_of :: "release_id \<Rightarrow> nat \<Rightarrow> customer_of_leases list \<Rightarrow> migrate_lease list" where
  "migration_of release code cs =
     map (\<lambda>l. \<lparr>migrate_addr = l, migrate_release = release, migrate_code = code\<rparr>)
       (concat (map customer_lease_iter cs))"

fun fitting :: "nat \<Rightarrow> customer_of_leases list \<Rightarrow> customer_of_leases list" where
  "fitting left [] = []"
| "fitting left (c # cs) =
     (let n = length (customer_lease_iter c) in if n \<le> left then c # fitting (left - n) cs else [])"

lemma find_next_fitting:
  assumes "\<forall>c \<in> set cs. length (customer_lease_iter c) < 2 ^ 32"
  shows "find_next conversion release b cs =
    (b\<lparr>leases_left := leases_left b - lease_count (fitting (leases_left b) cs),
       batch_msgs := batch_msgs b @ migration_of release (new_code b) (fitting (leases_left b) cs)\<rparr>,
     case drop (length (fitting (leases_left b) cs)) cs of [] \<Rightarrow> None | c # _ \<Rightarrow> Some (Inr (customer_addr c)))"
  using assms
proof (induction cs arbitrary: b)
  case (Cons c cs)
  show ?case
  proof (cases "length (customer_lease_iter c) \<le> leases_left b")
    case True
    with Cons show ?thesis
      by (simp add: migrate_or_be_next_def batch_migrate_leases_def checked_sub_def Let_def lease_count_def migration_of_def)
  next
    case False
    with Cons.prems show ?thesis
      by (simp add: migrate_or_be_next_def batch_migrate_leases_def checked_sub_def Let_def lease_count_def migration_of_def)
  qed
qed (simp add: lease_count_def migration_of_def)

lemma migrate_leases_fitting:
  assumes "\<forall>c \<in> set cs. length (customer_lease_iter c) < 2 ^ 32"
  shows "migrate_leases conversion release cs code max_leases = Inr
    \<lparr>migration_msgs = migration_of release code (fitting max_leases cs),
     next_customer = (case drop (length (fitting max_leases cs)) cs of [] \<Rightarrow> None | c # _ \<Rightarrow> Some (customer_addr c))\<rparr>"
  by (simp add: migrate_leases_def find_next_fitting [OF assms] migrate_batch_new_def split: list.split)

lemma fitting_prefix: "cs = fitting left cs @ drop (length (fitting left cs)) cs"
  by (induction left cs rule: fitting.induct) (simp_all add: Let_def)

lemma fitting_bound: "lease_count (fitting left cs) \<le> left"
  by (induction left cs rule: fitting.induct) (auto simp: Let_def lease_count_def)

lemma fitting_maximal:
  "drop (length (fitting left cs)) cs = c # rest \<Longrightarrow> left < lease_count (fitting left cs @ [c])"
  by (induction left cs rule: fitting.induct) (auto simp: Let_def lease_count_def split: if_splits)

lemma migration_of_append [simp]: "migration_of r code (xs @ ys) = migration_of r code xs @ migration_of r code ys"
  by (simp add: migration_of_def)

text \<open>Whatever the sizes, a message of a batch is for the code of the batch.\<close>

lemma find_next_code:
  "find_next conversion release b cs = (b', r) \<Longrightarrow> \<forall>m \<in> set (batch_msgs b). migrate_code m = new_code b
    \<Longrightarrow> \<forall>m \<in> set (batch_msgs b'). migrate_code m = new_code b"
proof (induction cs arbitrary: b)
  case (Cons c cs)
  obtain b1 r1 where step: "migrate_or_be_next conversion release b c = (b1, r1)" by fastforce
  then have "new_code b1 = new_code b" "\<forall>m \<in> set (batch_msgs b1). migrate_code m = new_code b"
    using Cons.prems(2)
    by (auto simp: migrate_or_be_next_def batch_migrate_leases_def split: if_splits option.splits)
  then show ?case
    using Cons step by (cases r1) auto
qed simp

lemma migrate_leases_code:
  assumes "migrate_leases conversion release cs code max_leases = Inr res"
  shows "\<forall>m \<in> set (migration_msgs res). migrate_code m = code"
proof -
  obtain b r where b: "find_next conversion release (migrate_batch_new code max_leases) cs = (b, r)" by fastforce
  with assms have "migration_msgs res = batch_msgs b"
    by (auto simp: migrate_leases_def split: option.splits)
  then show ?thesis
    using find_next_code [OF b] by (simp add: migrate_batch_new_def)
qed

end
