(* ===== verification/Dex_Account.thy ===== *)
theory Dex_Account
  imports Platform Durations
begin

text \<open>
  The account of a contract on the remote exchange (\<open>dex/src/connection.rs\<close>,
  \<open>dex/src/impl_/account.rs\<close>) and the messages that go over the inter-chain connection
  (\<open>platform/src/ica.rs\<close>, \<open>platform/src/bank_ibc\<close>). A coin whose currency is known at
  run time only carries the ticker of its currency; the symbols of a currency in the local
  bank and on the exchange are the two functions of \<open>network_symbols\<close>.
\<close>

section \<open>Coins and messages\<close>

record coin_dto =
  coin_ticker :: string
  coin_units :: nat

record network_symbols =
  bank_symbol :: "string \<Rightarrow> string"
  dex_symbol :: "string \<Rightarrow> string"

definition to_cosmwasm_on_network :: "(string \<Rightarrow> string) \<Rightarrow> coin_dto \<Rightarrow> cw_coin" where
  "to_cosmwasm_on_network symbol c = \<lparr>denom = symbol (coin_ticker c), cw_amount = coin_units c\<rparr>"

record ibc_fee =
  ack_fee :: nat
  timeout_fee :: nat

text \<open>The messages of a transaction on the exchange. A swap is a request to one of its routers.\<close>

datatype swap_operation = AstroSwap string string

datatype trx_msg =
    RouterSwap string string "swap_operation list" "nat option" nat "cw_coin list"
  | PoolSwap string "(nat \<times> string) list" cw_coin nat
  | MsgTransfer string string addr cw_coin timestamp

datatype callback = DexCallback | DexCallbackContinue

datatype dex_msg =
    RegisterAccount string string
  | IbcTransfer string addr string cw_coin timestamp ibc_fee string
  | SubmitTx string string "trx_msg list" string duration ibc_fee
  | CallSelfReplyOnError addr callback nat
  | SetupTimeAlarm addr timestamp

section \<open>Accounts\<close>

record connection_params =
  connection_id :: string
  local_endpoint :: string
  remote_endpoint :: string

record account =
  account_owner :: addr
  account_host :: string
  account_dex :: connection_params

definition ICA_ACCOUNT_ID :: string where
  "ICA_ACCOUNT_ID = ''0''"

definition host_account_try_from :: "string \<Rightarrow> (platform_error, string) res" where
  "host_account_try_from a = (if a = '''' then Inl (Fail InvalidICAHostAccount) else Inr a)"

definition register_account :: "string \<Rightarrow> dex_msg list" where
  "register_account connection = [RegisterAccount connection ICA_ACCOUNT_ID]"

text \<open>\<open>open_ack\<close> decodes the acknowledgement into the address of the account on the host.\<close>

definition parse_register_response ::
  "(string \<Rightarrow> string option) \<Rightarrow> string \<Rightarrow> (platform_error, string) res" where
  "parse_register_response open_ack response =
     and_then (ok_or PlatformDeserialization (open_ack response)) host_account_try_from"

definition from_register_response ::
  "(string \<Rightarrow> string option) \<Rightarrow> string \<Rightarrow> addr \<Rightarrow> connection_params \<Rightarrow> (platform_error, account) res" where
  "from_register_response open_ack response own dex =
     map_res (\<lambda>host. \<lparr>account_owner = own, account_host = host, account_dex = dex\<rparr>)
       (parse_register_response open_ack response)"

section \<open>Transactions\<close>

definition IBC_TIMEOUT :: duration where
  "IBC_TIMEOUT = from_days 100"

definition ICA_TRANSFER_TIPS :: ibc_fee where
  "ICA_TRANSFER_TIPS = \<lparr>ack_fee = 1, timeout_fee = 1\<rparr>"

definition ICA_SWAP_TIPS :: ibc_fee where
  "ICA_SWAP_TIPS = \<lparr>ack_fee = 1, timeout_fee = 1\<rparr>"

definition submit_transaction ::
  "string \<Rightarrow> trx_msg list \<Rightarrow> string \<Rightarrow> duration \<Rightarrow> ibc_fee \<Rightarrow> dex_msg list" where
  "submit_transaction connection trx memo expires fee =
     [SubmitTx connection ICA_ACCOUNT_ID trx memo expires fee]"

text \<open>The sender from the local chain: a transfer message per amount.\<close>

record local_sender =
  lo_channel :: string
  lo_sender :: addr
  lo_receiver :: string
  lo_timeout :: timestamp
  lo_fee :: ibc_fee
  lo_amounts :: "cw_coin list"
  lo_memo :: string

definition transfer_out_trx :: "string \<Rightarrow> addr \<Rightarrow> string \<Rightarrow> timestamp \<Rightarrow> string \<Rightarrow> local_sender option" where
  "transfer_out_trx channel from to now memo =
     map_option (\<lambda>expires.
       \<lparr>lo_channel = channel, lo_sender = from, lo_receiver = to, lo_timeout = expires,
        lo_fee = ICA_TRANSFER_TIPS, lo_amounts = [], lo_memo = memo\<rparr>)
     (timestamp_add now IBC_TIMEOUT)"

definition transfer_to :: "account \<Rightarrow> timestamp \<Rightarrow> local_sender option" where
  "transfer_to acc now =
     transfer_out_trx (local_endpoint (account_dex acc)) (account_owner acc) (account_host acc) now
       (''Transfer out: '' @ account_owner acc @ '' -> '' @ account_host acc)"

definition local_send :: "network_symbols \<Rightarrow> coin_dto \<Rightarrow> local_sender \<Rightarrow> local_sender" where
  "local_send net c s = s\<lparr>lo_amounts := lo_amounts s @ [to_cosmwasm_on_network (bank_symbol net) c]\<rparr>"

definition local_batch :: "local_sender \<Rightarrow> dex_msg list" where
  "local_batch s =
     map (\<lambda>c. IbcTransfer (lo_channel s) (lo_sender s) (lo_receiver s) c (lo_timeout s) (lo_fee s) (lo_memo s))
       (lo_amounts s)"

text \<open>The sender from the exchange: a transaction with a transfer message per amount.\<close>

record remote_sender =
  re_connection :: string
  re_channel :: string
  re_sender :: string
  re_receiver :: addr
  re_timeout :: timestamp
  re_amounts :: "cw_coin list"

definition transfer_from :: "account \<Rightarrow> timestamp \<Rightarrow> remote_sender option" where
  "transfer_from acc now =
     map_option (\<lambda>expires.
       \<lparr>re_connection = connection_id (account_dex acc), re_channel = remote_endpoint (account_dex acc),
        re_sender = account_host acc, re_receiver = account_owner acc, re_timeout = expires,
        re_amounts = []\<rparr>)
     (timestamp_add now IBC_TIMEOUT)"

definition remote_send :: "network_symbols \<Rightarrow> coin_dto \<Rightarrow> remote_sender \<Rightarrow> remote_sender" where
  "remote_send net c s = s\<lparr>re_amounts := re_amounts s @ [to_cosmwasm_on_network (dex_symbol net) c]\<rparr>"

definition remote_batch :: "remote_sender \<Rightarrow> dex_msg list" where
  "remote_batch s =
     submit_transaction (re_connection s)
       (map (\<lambda>c. MsgTransfer (re_channel s) (re_sender s) (re_receiver s) c (re_timeout s)) (re_amounts s))
       ''memo'' IBC_TIMEOUT ICA_SWAP_TIPS"

text \<open>A swap of several coins is one transaction, with a message per coin.\<close>

definition swap_batch :: "account \<Rightarrow> trx_msg list \<Rightarrow> dex_msg list" where
  "swap_batch acc trx =
     submit_transaction (connection_id (account_dex acc)) trx ''memo'' IBC_TIMEOUT ICA_SWAP_TIPS"

lemmas dex_trx_defs =
  transfer_to_def transfer_out_trx_def local_send_def local_batch_def transfer_from_def remote_send_def
  remote_batch_def swap_batch_def submit_transaction_def

end
