(* ===== verification/Leaser.thy ===== *)
theory Leaser
  imports Leases Lpp_Pool Position Dex_Account
begin

text \<open>
  The leaser contract (\<open>protocol/contracts/leaser/src\<close>): it opens the leases of the customers,
  keeps track of them, migrates them in batches, and quotes the terms of a lease. The messages
  it sends to other contracts are the values of \<open>leaser_out\<close>. What comes from the chain, the
  code of a contract, the known codes, the valid addresses and the order of a hash set, is in
  the record \<open>leaser_env\<close>.
\<close>

section \<open>State and messages\<close>

record 'l position_spec_dto =
  dto_liability :: liability
  dto_min_asset :: "'l coin"
  dto_min_transaction :: "'l coin"

record 'l leaser_init =
  init_code :: nat
  init_lpp :: addr
  init_profit :: addr
  init_reserve :: addr
  init_time_alarms :: addr
  init_market_price_oracle :: addr
  init_protocols_registry :: addr
  init_position_spec :: "'l position_spec_dto"
  init_interest_rate_margin :: percent
  init_due_period :: duration
  init_dex :: connection_params

record 'l leaser_config =
  cfg_lease_code :: nat
  cfg_lpp :: addr
  cfg_profit :: addr
  cfg_reserve :: addr
  cfg_time_alarms :: addr
  cfg_market_price_oracle :: addr
  cfg_protocols_registry :: addr
  cfg_position_spec :: "'l position_spec_dto"
  cfg_interest_rate_margin :: percent
  cfg_due_period :: duration
  cfg_dex :: connection_params

record 'l leaser =
  leaser_owner :: "addr option"
  leaser_config :: "'l leaser_config"
  leaser_leases :: leases

record leaser_env =
  env_contract :: addr
  env_code_of :: "addr \<Rightarrow> nat option"
  env_known_code :: "nat \<Rightarrow> bool"
  env_valid :: "addr \<Rightarrow> bool"
  env_hash :: "addr list \<Rightarrow> addr list"

record loan_form =
  form_lpp :: addr
  form_profit :: addr
  form_margin_interest :: percent
  form_due_period :: duration

record 'l new_lease_form =
  form_customer :: addr
  form_currency :: string
  form_max_ltd :: "percent option"
  form_position_spec :: "'l position_spec_dto"
  form_loan :: loan_form
  form_reserve :: addr
  form_time_alarms :: addr
  form_market_price_oracle :: addr

record 'l new_lease_contract =
  lease_form :: "'l new_lease_form"
  lease_dex :: connection_params
  lease_finalizer :: addr

record migration_spec =
  spec_code_id :: nat
  spec_migrate_message :: string
  spec_post_migrate_execute :: "string option"

record protocol_contracts =
  spec_leaser :: migration_spec
  spec_lpp :: migration_spec
  spec_oracle :: migration_spec
  spec_profit :: migration_spec
  spec_reserve :: migration_spec

text \<open>The messages sent: opening a lease, with its funds and admin, is with a reply on success.\<close>

datatype 'l leaser_out =
    InstantiateLease nat "'l new_lease_contract" "cw_coin list" addr
  | MigrateLease migrate_lease
  | LppNewLeaseCode addr nat
  | ReserveNewLeaseCodeAt addr nat
  | DeregisterProtocol addr protocol_contracts

datatype migrate_status = ContinuationKey addr | StatusDone

datatype leaser_msg =
    OpenLease string "percent option"
  | FinalizeLease addr
  | MigrateLeases nat release_id nat
  | MigrateLeasesCont addr release_id nat

datatype force_close = ForceNo | KillProtocol

datatype 'l leaser_sudo_msg =
    LeaserConfig percent "'l position_spec_dto" duration
  | CloseProtocol nat protocol_contracts force_close

datatype leaser_error =
    LeaserStd
  | LeaserConversion
  | LeaserLpp
  | LeaserPriceOracle
  | LeaserPlatform platform_error
  | LeaserUnauthorized access_error
  | LeaserParseError
  | ZeroDownpayment
  | LeaserNoLiquidity
  | InvalidContinuationKey string
  | ProtocolStillInUse

section \<open>Configuration\<close>

definition leaser_config_new :: "nat \<Rightarrow> 'l leaser_init \<Rightarrow> 'l leaser_config" where
  "leaser_config_new code msg =
     \<lparr>cfg_lease_code = code, cfg_lpp = init_lpp msg, cfg_profit = init_profit msg, cfg_reserve = init_reserve msg,
      cfg_time_alarms = init_time_alarms msg, cfg_market_price_oracle = init_market_price_oracle msg,
      cfg_protocols_registry = init_protocols_registry msg, cfg_position_spec = init_position_spec msg,
      cfg_interest_rate_margin = init_interest_rate_margin msg, cfg_due_period = init_due_period msg,
      cfg_dex = init_dex msg\<rparr>"

definition leaser_config_change ::
  "'l leaser_config \<Rightarrow> percent \<Rightarrow> 'l position_spec_dto \<Rightarrow> duration \<Rightarrow> 'l leaser_config" where
  "leaser_config_change c margin s due_in =
     c\<lparr>cfg_interest_rate_margin := margin, cfg_position_spec := s, cfg_due_period := due_in\<rparr>"

definition leaser_update_lease_code :: "'l leaser_config \<Rightarrow> nat \<Rightarrow> 'l leaser_config" where
  "leaser_update_lease_code c code = c\<lparr>cfg_lease_code := code\<rparr>"

section \<open>Opening and finalizing a lease\<close>

definition open_lease_msg ::
  "addr \<Rightarrow> 'l leaser_config \<Rightarrow> string \<Rightarrow> percent option \<Rightarrow> addr \<Rightarrow> 'l new_lease_contract" where
  "open_lease_msg customer c currency max_ltd finalizer =
     \<lparr>lease_form =
        \<lparr>form_customer = customer, form_currency = currency, form_max_ltd = max_ltd,
         form_position_spec = cfg_position_spec c,
         form_loan = \<lparr>form_lpp = cfg_lpp c, form_profit = cfg_profit c,
                      form_margin_interest = cfg_interest_rate_margin c, form_due_period = cfg_due_period c\<rparr>,
         form_reserve = cfg_reserve c, form_time_alarms = cfg_time_alarms c,
         form_market_price_oracle = cfg_market_price_oracle c\<rparr>,
      lease_dex = cfg_dex c, lease_finalizer = finalizer\<rparr>"

definition borrow_with ::
  "'l leaser \<Rightarrow> cw_coin list \<Rightarrow> addr \<Rightarrow> addr \<Rightarrow> addr \<Rightarrow> string \<Rightarrow> percent option \<Rightarrow> 'l leaser \<times> 'l leaser_out list" where
  "borrow_with s funds customer admin finalizer currency max_ltd =
     (s\<lparr>leaser_leases := cache_open_req (leaser_leases s) customer\<rparr>,
      [InstantiateLease (cfg_lease_code (leaser_config s))
         (open_lease_msg customer (leaser_config s) currency max_ltd finalizer) funds admin])"

definition validate_customer :: "leaser_env \<Rightarrow> addr \<Rightarrow> (leaser_error, addr) res" where
  "validate_customer env customer =
     (if \<not> env_valid env customer then Inl (Fail (InvalidContinuationKey ''invalid address''))
      else case validate_addr (env_code_of env) customer of
        Inl (Fail _) \<Rightarrow> Inr customer
      | _ \<Rightarrow> Inl (Fail (InvalidContinuationKey ''smart contract key'')))"

definition validate_lease :: "leaser_env \<Rightarrow> 'l leaser \<Rightarrow> addr \<Rightarrow> (leaser_error, addr) res" where
  "validate_lease env s sender =
     map_res (\<lambda>_. sender)
       (map_err LeaserPlatform (validate_code_id (env_code_of env) sender (cfg_lease_code (leaser_config s))))"

definition new_code_of :: "leaser_env \<Rightarrow> nat \<Rightarrow> (leaser_error, nat) res" where
  "new_code_of env code = (if env_known_code env code then Inr code else Inl (Fail (LeaserPlatform CosmWasmQueryBalance)))"

section \<open>Migration\<close>

definition emit_status :: "addr option \<Rightarrow> migrate_status" where
  "emit_status may_next = (case may_next of Some key \<Rightarrow> ContinuationKey key | None \<Rightarrow> StatusDone)"

definition update_remote_refs :: "'l leaser \<Rightarrow> nat \<Rightarrow> 'l leaser_out list \<Rightarrow> 'l leaser_out list" where
  "update_remote_refs s code batch =
     batch @ [LppNewLeaseCode (cfg_lpp (leaser_config s)) code]
       @ [ReserveNewLeaseCodeAt (cfg_reserve (leaser_config s)) code]"

definition try_migrate_leases ::
  "leaser_env \<Rightarrow> 'l leaser \<Rightarrow> nat \<Rightarrow> nat \<Rightarrow> release_id
     \<Rightarrow> (leaser_error, 'l leaser \<times> 'l leaser_out list \<times> migrate_status option) res" where
  "try_migrate_leases env s code max_leases release =
     (let s' = s\<lparr>leaser_config := leaser_update_lease_code (leaser_config s) code\<rparr>
      in map_res (\<lambda>r. (s', update_remote_refs s' code (map MigrateLease (migration_msgs r)),
                       Some (emit_status (next_customer r))))
        (migrate_leases LeaserConversion release (leases_iter (env_hash env) (leaser_leases s') None) code max_leases))"

definition try_migrate_leases_cont ::
  "leaser_env \<Rightarrow> 'l leaser \<Rightarrow> addr \<Rightarrow> nat \<Rightarrow> release_id
     \<Rightarrow> (leaser_error, 'l leaser \<times> 'l leaser_out list \<times> migrate_status option) res" where
  "try_migrate_leases_cont env s key max_leases release =
     map_res (\<lambda>r. (s, map MigrateLease (migration_msgs r), Some (emit_status (next_customer r))))
       (migrate_leases LeaserConversion release (leases_iter (env_hash env) (leaser_leases s) (Some key))
         (cfg_lease_code (leaser_config s)) max_leases)"

definition has_lease :: "leaser_env \<Rightarrow> 'l leaser \<Rightarrow> bool" where
  "has_lease env s = (leases_iter (env_hash env) (leaser_leases s) None \<noteq> [])"

definition max_leases_bound :: nat where
  "max_leases_bound = 2 ^ 32 - 1"

definition void_release :: release_id where
  "void_release = (''void-release'', ''void-release'')"

definition try_close_protocol ::
  "leaser_env \<Rightarrow> 'l leaser \<Rightarrow> nat \<Rightarrow> protocol_contracts \<Rightarrow> force_close
     \<Rightarrow> (leaser_error, 'l leaser \<times> 'l leaser_out list \<times> migrate_status option) res" where
  "try_close_protocol env s code spec force =
     and_then
       (case force of
          KillProtocol \<Rightarrow> try_migrate_leases env s code max_leases_bound void_release
        | ForceNo \<Rightarrow>
            if has_lease env s then Inl (Fail ProtocolStillInUse) else Inr (s, [], None))
       (\<lambda>(s', msgs, status).
         Inr (s', msgs @ [DeregisterProtocol (cfg_protocols_registry (leaser_config s')) spec], status))"

section \<open>Quote\<close>

record ('a, 'l) quote_response =
  quote_total :: "'a coin"
  quote_borrow :: "'l coin"
  quote_interest_rate :: percent
  quote_interest_rate_margin :: percent

text \<open>\<open>lpp_quote\<close> is the answer of the pool; a query that aborts there is an error here.\<close>

definition lpp_quote_with ::
  "('l coin \<Rightarrow> percent option option) \<Rightarrow> 'l coin \<Rightarrow> (leaser_error, percent) res" where
  "lpp_quote_with lpp_quote borrow =
     (if coin_is_zero borrow then Inl (Fail ZeroDownpayment)
      else and_then (ok_or LeaserLpp (lpp_quote borrow)) (\<lambda>quote_resp.
        case quote_resp of Some rate \<Rightarrow> Inr rate | None \<Rightarrow> Inl (Fail LeaserNoLiquidity)))"

text \<open>The two prices are the answers of the oracle on the downpayment and on the asset, if any.\<close>

definition leaser_quote ::
  "'l leaser \<Rightarrow> ('l coin \<Rightarrow> percent option option) \<Rightarrow> 'd coin \<Rightarrow> ('d, 'l) price option \<Rightarrow> ('a, 'l) price option
     \<Rightarrow> percent option \<Rightarrow> (leaser_error, ('a, 'l) quote_response) res" where
  "leaser_quote s lpp_quote downpayment dp_price lease_asset_price max_ltd =
     and_then (ok_or LeaserPriceOracle dp_price) (\<lambda>dp_price.
     and_then (or_panic (total downpayment dp_price)) (\<lambda>downpayment_lpn.
     if coin_is_zero downpayment_lpn then Inl (Fail ZeroDownpayment)
     else
       and_then (or_panic (init_borrow_amount (dto_liability (cfg_position_spec (leaser_config s))) downpayment_lpn max_ltd))
         (\<lambda>borrow.
       and_then (ok_or LeaserPriceOracle lease_asset_price) (\<lambda>asset_in_lpn.
       and_then (or_panic (coin_add downpayment_lpn borrow)) (\<lambda>worth.
       and_then (or_panic (total worth (price_inv asset_in_lpn))) (\<lambda>total_asset.
       map_res (\<lambda>rate.
           \<lparr>quote_total = total_asset, quote_borrow = borrow, quote_interest_rate = rate,
            quote_interest_rate_margin = cfg_interest_rate_margin (leaser_config s)\<rparr>)
         (lpp_quote_with lpp_quote borrow)))))))"

section \<open>Entry points\<close>

definition leaser_instantiate :: "leaser_env \<Rightarrow> addr \<Rightarrow> 'l leaser_init \<Rightarrow> (leaser_error, 'l leaser) res" where
  "leaser_instantiate env sender msg =
     and_then (map_err LeaserPlatform (validate_addr (env_code_of env) (init_lpp msg))) (\<lambda>_.
     and_then (map_err LeaserPlatform (validate_addr (env_code_of env) (init_time_alarms msg))) (\<lambda>_.
     and_then (map_err LeaserPlatform (validate_addr (env_code_of env) (init_market_price_oracle msg))) (\<lambda>_.
     and_then (map_err LeaserPlatform (validate_addr (env_code_of env) (init_profit msg))) (\<lambda>_.
     and_then (fail_if (\<not> env_valid env (init_protocols_registry msg)) LeaserStd) (\<lambda>_.
     map_res (\<lambda>code.
         \<lparr>leaser_owner = Some sender, leaser_config = leaser_config_new code msg,
          leaser_leases = \<lparr>pending_customer = None, customer_leases = []\<rparr>\<rparr>)
       (new_code_of env (init_code msg)))))))"

definition leaser_execute ::
  "leaser_env \<Rightarrow> 'l leaser \<Rightarrow> addr \<Rightarrow> cw_coin list \<Rightarrow> leaser_msg
     \<Rightarrow> (leaser_error, 'l leaser \<times> 'l leaser_out list \<times> migrate_status option) res" where
  "leaser_execute env s sender funds msg =
     (case msg of
        OpenLease currency max_ltd \<Rightarrow>
          (case borrow_with s funds sender (env_contract env) (env_contract env) currency max_ltd of
             (s', msgs) \<Rightarrow> Inr (s', msgs, None))
      | FinalizeLease customer \<Rightarrow>
          and_then (validate_customer env customer) (\<lambda>customer.
          and_then (validate_lease env s sender) (\<lambda>the_lease.
            Inr (s\<lparr>leaser_leases := fst (leases_remove (leaser_leases s) customer the_lease)\<rparr>, [], None)))
      | MigrateLeases new_code_id release max_leases \<Rightarrow>
          and_then (map_err LeaserUnauthorized (single_user_check (leaser_owner s) sender)) (\<lambda>_.
          and_then (new_code_of env new_code_id) (\<lambda>code.
            try_migrate_leases env s code max_leases release))
      | MigrateLeasesCont key release max_leases \<Rightarrow>
          and_then (map_err LeaserUnauthorized (single_user_check (leaser_owner s) sender)) (\<lambda>_.
          and_then (validate_customer env key) (\<lambda>key.
            try_migrate_leases_cont env s key max_leases release)))"

definition leaser_sudo ::
  "leaser_env \<Rightarrow> 'l leaser \<Rightarrow> 'l leaser_sudo_msg
     \<Rightarrow> (leaser_error, 'l leaser \<times> 'l leaser_out list \<times> migrate_status option) res" where
  "leaser_sudo env s msg =
     (case msg of
        LeaserConfig margin spec_dto due_in \<Rightarrow>
          Inr (s\<lparr>leaser_config := leaser_config_change (leaser_config s) margin spec_dto due_in\<rparr>, [], None)
      | CloseProtocol new_code_id spec force \<Rightarrow>
          and_then (new_code_of env new_code_id) (\<lambda>code. try_close_protocol env s code spec force))"

text \<open>The reply to the instantiation of a lease carries its address, when it can be parsed.\<close>

definition leaser_reply :: "'l leaser \<Rightarrow> addr option \<Rightarrow> (leaser_error, 'l leaser) res" where
  "leaser_reply s reply_addr =
     and_then (ok_or LeaserParseError reply_addr) (\<lambda>new_lease.
       map_res (\<lambda>(ls, _). s\<lparr>leaser_leases := ls\<rparr>) (ok_or LeaserStd (leases_save (leaser_leases s) new_lease)))"

definition leaser_query_leases :: "'l leaser \<Rightarrow> addr \<Rightarrow> addr list" where
  "leaser_query_leases s owner = load_by_customer (leaser_leases s) owner"

end
