(* ===== verification/Reserve.thy ===== *)
theory Reserve
  imports Lpp_Pool Lease_Facts
begin

text \<open>
  The reserve (\<open>protocol/contracts/reserve/src\<close>): it keeps the code of the leases of the protocol
  and covers the losses of the liquidations. The account of the reserve in the pool currency is
  that of the environment. The last section composes the reserve with the full close of a lease.
\<close>

record reserve_store =
  reserve_lease_code_admin :: "addr option"
  reserve_lease_code :: nat

record reserve_init =
  init_lease_code_admin :: addr
  init_lease_code :: nat

datatype reserve_msg =
    ReserveNewLeaseCode nat
  | ReserveCoverLosses cw_coin

datatype reserve_error =
    ReserveStd
  | ReserveFinance finance_error
  | ReservePlatform platform_error
  | ReserveUnauthorized access_error
  | InsufficientBalance

definition reserve_instantiate ::
  "chain \<Rightarrow> (nat \<Rightarrow> bool) \<Rightarrow> reserve_init \<Rightarrow> (reserve_error, reserve_store) res" where
  "reserve_instantiate env known_code msg =
     and_then (fail_if (\<not> valid_addr env (init_lease_code_admin msg)) ReserveStd) (\<lambda>_.
     and_then (fail_if (\<not> known_code (init_lease_code msg)) (ReservePlatform CosmWasmQueryBalance)) (\<lambda>_.
     Inr \<lparr>reserve_lease_code_admin = Some (init_lease_code_admin msg),
          reserve_lease_code = init_lease_code msg\<rparr>))"

definition reserve_update_lease_code :: "reserve_store \<Rightarrow> nat \<Rightarrow> reserve_store" where
  "reserve_update_lease_code r code = r\<lparr>reserve_lease_code := code\<rparr>"

definition do_cover_losses ::
  "addr \<Rightarrow> 'l coin \<Rightarrow> chain \<Rightarrow> (reserve_error, cosmos_msg list) res" where
  "do_cover_losses to_lease losses env =
     (let balance = Coin (lpn_balance env)
      in if balance < losses then Inl (Fail InsufficientBalance)
         else Inr (bank_send (lpn_symbol env) losses to_lease []))"

definition reserve_execute ::
  "reserve_store \<Rightarrow> chain \<Rightarrow> addr \<Rightarrow> reserve_msg \<Rightarrow> (reserve_error, reserve_store \<times> cosmos_msg list) res" where
  "reserve_execute r env sender msg =
     (case msg of
        ReserveNewLeaseCode code \<Rightarrow>
          and_then (map_err ReserveUnauthorized (single_user_check (reserve_lease_code_admin r) sender)) (\<lambda>_.
          Inr (reserve_update_lease_code r code, []))
      | ReserveCoverLosses dto \<Rightarrow>
          and_then (map_err ReservePlatform (validate_code_id (code_id_of env) sender (reserve_lease_code r))) (\<lambda>_.
          and_then (if denom dto = lpn_symbol env then Inr (Coin (cw_amount dto) :: unit coin)
                    else Inl (Fail (ReserveFinance CurrencyError))) (\<lambda>losses.
          map_res (Pair r) (do_cover_losses sender losses env))))"

section \<open>The entry points\<close>

lemma do_cover_losses_iff:
  "do_cover_losses to_lease (losses :: 'l coin) env = Inr ms \<longleftrightarrow>
     amount losses \<le> lpn_balance env \<and> ms = [BankSend to_lease [to_cosmwasm (lpn_symbol env) losses]]"
  by (auto simp: do_cover_losses_def bank_send_def coin_order Let_def)

text \<open>
  The reserve pays exactly the losses asked for, to the one who asks, and only to a contract
  that runs the lease code, in the pool currency, and within its balance; every refusal has its
  own error, and covering never changes the state of the reserve.
\<close>

theorem reserve_cover_spec:
  "reserve_execute r env sender (ReserveCoverLosses dto) =
     (case code_id_of env sender of
        None \<Rightarrow> Inl (Fail (ReservePlatform CosmWasmQueryContractInfo))
      | Some code \<Rightarrow>
          if code \<noteq> reserve_lease_code r
          then Inl (Fail (ReservePlatform (UnexpectedCode (reserve_lease_code r) sender)))
          else if denom dto \<noteq> lpn_symbol env then Inl (Fail (ReserveFinance CurrencyError))
          else if lpn_balance env < cw_amount dto then Inl (Fail InsufficientBalance)
          else Inr (r, [BankSend sender [dto]]))"
  by (auto simp: reserve_execute_def do_cover_losses_def validate_code_id_def bank_send_def to_cosmwasm_def
      coin_order Let_def split: option.split)

section \<open>Covering the losses of a full close\<close>

text \<open>What the messages of a lease move out of its account in the pool currency.\<close>

fun lease_outflow :: "('a, 'l) lease_msg list \<Rightarrow> nat" where
  "lease_outflow [] = 0"
| "lease_outflow (m # ms) =
     (case m of
        RepayLoan c \<Rightarrow> amount c
      | SendProfit cs \<Rightarrow> sum_list (map amount cs)
      | SendChange cs \<Rightarrow> sum_list (map amount cs)
      | SendSurplus c _ \<Rightarrow> amount c
      | _ \<Rightarrow> 0) + lease_outflow ms"

lemma lease_outflow_append [simp]: "lease_outflow (xs @ ys) = lease_outflow xs + lease_outflow ys"
  by (induction xs) auto

text \<open>
  C26. A full close that falls short of the total due asks the reserve for the shortfall, the
  reserve, holding as much, pays it to the lease, and what the lease then sends out, to the pool
  and to the profit, is exactly the payment and the cover: the loan is closed in full and the
  account of the lease is neither overdrawn nor left with a rest.
\<close>

theorem close_losses_covered:
  assumes "lease_loan_ok (lease_loan_of l) now"
    and "interest (percent_ratio (margin_interest (lease_loan_of l)))
        (stub_principal_due (lpp_loan (lease_loan_of l)))
        (Duration (at_nanos now - at_nanos (margin_paid_by (lease_loan_of l)))) = Some margin_by_now"
    and "stub_interest_due (lpp_loan (lease_loan_of l)) now = Some interest_by_now"
    and "amount (stub_repayment (lpp_loan (lease_loan_of l))) = 0" "coin_ok payment"
    and "lease_state_at l now duration_zero = Some s" "lease_total_due s = Some t"
    and short: "payment < t" "amount t - amount payment \<le> lpn_balance env"
    and code: "code_id_of env (lease_addr l) = Some (reserve_lease_code r)"
  shows "\<exists>receipt msgs. let losses = Coin (amount t - amount payment) in
    lease_close_full l payment now [] None [] = Some (receipt, CoverLiquidationLosses losses # msgs)
    \<and> close receipt
    \<and> reserve_execute r env (lease_addr l) (ReserveCoverLosses (to_cosmwasm (lpn_symbol env) losses))
        = Inr (r, [BankSend (lease_addr l) [to_cosmwasm (lpn_symbol env) losses]])
    \<and> lease_outflow msgs = amount payment + amount losses"
proof -
  let ?losses = "Coin (amount t - amount payment)"
  obtain receipt msgs where eq: "lease_close_full l payment now [] None []
      = Some (receipt, CoverLiquidationLosses ?losses # msgs)" "close receipt"
    and msgs: "msgs = (let repaid = amount (ls_overdue_interest s) + amount (ls_due_interest s) + amount (ls_principal_due s)
         in if repaid = 0 then [] else [RepayLoan (Coin repaid)])
      @ (let margin = amount (ls_overdue_margin s) + amount (ls_due_margin s)
         in if margin = 0 then [] else [SendProfit [Coin margin]])"
    using close_full_messages [OF assms(1-7)] short(1) by (auto simp: coin_order)
  have "amount t = amount (ls_overdue_interest s) + amount (ls_overdue_margin s)
      + amount (ls_due_interest s) + amount (ls_due_margin s) + amount (ls_principal_due s)"
    using assms(7) by (auto simp: lease_total_due_def op_defs split: if_splits)
  then have "lease_outflow msgs = amount payment + amount ?losses"
    using short(1) by (simp add: msgs Let_def coin_order)
  then show ?thesis
    using eq short(2) code
    by (intro exI [of _ receipt] exI [of _ msgs])
      (simp add: Let_def reserve_execute_def do_cover_losses_iff to_cosmwasm_def)
qed

theorem close_losses_covered_witness:
  "\<exists>receipt msgs. lease_close_full (sample_lease 4000 (spec_close sample_spec)) (Coin 900) sample_now [] None []
      = Some (receipt, CoverLiquidationLosses (Coin 240) # msgs)
    \<and> reserve_execute \<lparr>reserve_lease_code_admin = None, reserve_lease_code = 7\<rparr>
        \<lparr>block_time = sample_now, self_addr = ''reserve'', lpn_symbol = ''lpn'', nls_symbol = ''nls'',
         code_id_of = (\<lambda>_. Some 7), valid_addr = (\<lambda>_. True), lpn_balance = 500\<rparr>
        (lease_addr (sample_lease 4000 (spec_close sample_spec))) (ReserveCoverLosses \<lparr>denom = ''lpn'', cw_amount = 240\<rparr>)
      = Inr (\<lparr>reserve_lease_code_admin = None, reserve_lease_code = 7\<rparr>,
          [BankSend (lease_addr (sample_lease 4000 (spec_close sample_spec))) [\<lparr>denom = ''lpn'', cw_amount = 240\<rparr>]])
    \<and> lease_outflow msgs = 1140"
  (is "\<exists>receipt msgs. lease_close_full ?l _ _ _ _ _ = _ \<and> reserve_execute ?r ?env _ _ = _ \<and> _")
proof -
  obtain s where s: "lease_state_at ?l sample_now duration_zero = Some s" "lease_total_due s = Some (Coin 1140)"
    using sample_lease_state by blast
  have "\<exists>receipt msgs. let losses = Coin (amount (Coin 1140 :: unit coin) - amount (Coin 900 :: unit coin)) in
    lease_close_full ?l (Coin 900) sample_now [] None [] = Some (receipt, CoverLiquidationLosses losses # msgs)
    \<and> close receipt
    \<and> reserve_execute ?r ?env (lease_addr ?l) (ReserveCoverLosses (to_cosmwasm (lpn_symbol ?env) losses))
        = Inr (?r, [BankSend (lease_addr ?l) [to_cosmwasm (lpn_symbol ?env) losses]])
    \<and> lease_outflow msgs = amount (Coin 900 :: unit coin) + amount losses"
    by (rule close_losses_covered [OF _ _ _ _ _ s])
      (use sample_facts in \<open>simp_all add: coin_ok_def sample_loan_def lease_loan_new_def stub_new_def coin_order\<close>)
  then show ?thesis
    by (simp add: to_cosmwasm_def Let_def) blast
qed

end
