(* ===== verification/Leaser_Guarantees.thy ===== *)
theory Leaser_Guarantees
  imports Leaser Reserve Lpp_Guarantees "HOL-Library.Multiset"
begin

text \<open>
  What the leaser guarantees: a migration in batches reaches every lease once, the pool and the
  reserve follow the code of the leases, a quote is what an opening gets, and when a protocol
  can be closed.
\<close>

section \<open>The registry of the leases\<close>

definition leaser_ok :: "'l leaser \<Rightarrow> bool" where
  "leaser_ok s =
     (map_ok (customer_leases (leaser_leases s)) \<and> (\<forall>(c, ls) \<in> set (customer_leases (leaser_leases s)). distinct ls))"

lemma set_map_put: "set (map_put m k v) \<subseteq> insert (k, v) (set m)"
  by (induction m k v rule: map_put.induct) auto

lemma load_by_customer_distinct: "leaser_ok s \<Longrightarrow> distinct (load_by_customer (leaser_leases s) c)"
  by (auto simp: leaser_ok_def load_by_customer_def dest!: map_of_SomeD split: option.split)

lemma update_leases_simps [simp]:
  "pending_customer (fst (update_leases s c f)) = pending_customer s"
  "customer_leases (fst (update_leases s c f)) = map_put (customer_leases s) c (fst (f (load_by_customer s c)))"
  by (simp_all add: update_leases_def split: prod.split)

lemma load_update_leases:
  "map_ok (customer_leases s) \<Longrightarrow>
     load_by_customer (fst (update_leases s c f)) c' =
       (if c' = c then fst (f (load_by_customer s c)) else load_by_customer s c')"
  by (simp add: load_by_customer_def [of "fst (update_leases s c f)"] map_of_put) (simp add: load_by_customer_def)

lemma leaser_ok_put:
  assumes "leaser_ok s" "distinct ls"
    "customer_leases (leaser_leases s') = map_put (customer_leases (leaser_leases s)) c ls"
  shows "leaser_ok s'"
  using assms set_map_put [of "customer_leases (leaser_leases s)" c ls] by (auto simp: leaser_ok_def)

section \<open>Migration\<close>

definition all_customers :: "leaser_env \<Rightarrow> 'l leaser \<Rightarrow> customer_of_leases list" where
  "all_customers env s = leases_iter (env_hash env) (leaser_leases s) None"

text \<open>The customers from a key on are those of the rest of the iteration.\<close>

lemma map_range_from:
  assumes "map_ok (xs @ (k, v) # ys)"
  shows "map_range (xs @ (k, v) # ys) (Some (Inclusive k)) = (k, v) # ys"
proof -
  have "filter (\<lambda>e. k \<le> fst e) xs = []" "filter (\<lambda>e. k \<le> fst e) ys = ys"
    using assms by (auto simp: map_ok_def sorted_wrt_append filter_empty_conv filter_id_conv not_le)
  then show ?thesis by (simp add: map_range_def)
qed

lemma leases_iter_from:
  assumes "leaser_ok s" "all_customers env s = pre @ c # rest"
  shows "leases_iter (env_hash env) (leaser_leases s) (Some (customer_addr c)) = c # rest"
proof -
  let ?f = "\<lambda>(customer, ls). \<lparr>customer_addr = customer, customer_lease_iter = env_hash env ls\<rparr>"
  have all: "map ?f (customer_leases (leaser_leases s)) = pre @ c # rest"
    using assms(2) by (simp add: all_customers_def leases_iter_def map_range_def)
  then obtain xs e ys where m: "customer_leases (leaser_leases s) = xs @ e # ys"
      "map ?f xs = pre" "?f e = c" "map ?f ys = rest"
    by (auto simp: map_eq_append_conv map_eq_Cons_conv)
  obtain k v where e: "e = (k, v)" by (cases e)
  have "map_ok (xs @ (k, v) # ys)"
    using assms(1) m(1) e by (simp add: leaser_ok_def)
  from map_range_from [OF this] show ?thesis
    using m e by (auto simp: leases_iter_def)
qed

text \<open>
  The migration as the owner runs it: the start, and then a continuation from each key until
  there is none. The fuel bounds the number of continuations; the result has one batch for each.
\<close>

fun migration_rounds ::
  "nat \<Rightarrow> leaser_env \<Rightarrow> 'l leaser \<Rightarrow> addr \<Rightarrow> nat \<Rightarrow> release_id \<Rightarrow> migrate_status \<Rightarrow> 'l leaser_out list list option" where
  "migration_rounds fuel env s sender max_leases release StatusDone = Some []"
| "migration_rounds 0 env s sender max_leases release (ContinuationKey key) = None"
| "migration_rounds (Suc fuel) env s sender max_leases release (ContinuationKey key) =
     (case leaser_execute env s sender [] (MigrateLeasesCont key release max_leases) of
        Inr (s', msgs, Some status) \<Rightarrow>
          map_option (Cons msgs) (migration_rounds fuel env s' sender max_leases release status)
      | _ \<Rightarrow> None)"

definition status_of_rest :: "customer_of_leases list \<Rightarrow> migrate_status" where
  "status_of_rest rest = (case rest of [] \<Rightarrow> StatusDone | c # _ \<Rightarrow> ContinuationKey (customer_addr c))"

definition plain_customers :: "leaser_env \<Rightarrow> 'l leaser \<Rightarrow> bool" where
  "plain_customers env s =
     (\<forall>c \<in> fst ` set (customer_leases (leaser_leases s)). env_valid env c \<and> env_code_of env c = None)"

lemma validate_customer_plain:
  "env_valid env c \<Longrightarrow> env_code_of env c = None \<Longrightarrow> validate_customer env c = Inr c"
  by (simp add: validate_customer_def validate_addr_def)

lemma continue_migration:
  assumes "leaser_ok s" "leaser_owner s = Some sender" "plain_customers env s"
    and "all_customers env s = pre @ c # rest"
    and small: "\<forall>c \<in> set (c # rest). length (customer_lease_iter c) < 2 ^ 32"
  shows "leaser_execute env s sender [] (MigrateLeasesCont (customer_addr c) release max_leases) =
    Inr (s, map MigrateLease (migration_of release (cfg_lease_code (leaser_config s)) (fitting max_leases (c # rest))),
      Some (status_of_rest (drop (length (fitting max_leases (c # rest))) (c # rest))))"
proof -
  have "customer_addr c \<in> fst ` set (customer_leases (leaser_leases s))"
  proof -
    have "c \<in> set (all_customers env s)" using assms(4) by simp
    then show ?thesis by (force simp: all_customers_def leases_iter_def map_range_def)
  qed
  then have "validate_customer env (customer_addr c) = Inr (customer_addr c)"
    using assms(3) by (auto simp: plain_customers_def intro!: validate_customer_plain)
  moreover have "single_user_check (leaser_owner s) sender = Inr ()" using assms(2) by simp
  ultimately show ?thesis
    by (simp add: leaser_execute_def try_migrate_leases_cont_def leases_iter_from [OF assms(1,4)]
        migrate_leases_fitting [OF small] status_of_rest_def emit_status_def del: fitting.simps split: list.split)
qed

lemma fitting_progress:
  "length (customer_lease_iter c) \<le> max_leases \<Longrightarrow>
     length (drop (length (fitting max_leases (c # rest))) (c # rest)) \<le> length rest"
  by (simp add: Let_def)

lemma rounds_complete:
  assumes "leaser_ok s" "leaser_owner s = Some sender" "plain_customers env s"
    and "all_customers env s = pre @ rest" "length rest \<le> fuel"
    and small: "\<forall>c \<in> set rest. length (customer_lease_iter c) < 2 ^ 32"
    and fit: "\<forall>c \<in> set rest. length (customer_lease_iter c) \<le> max_leases"
  shows "\<exists>batches. migration_rounds fuel env s sender max_leases release (status_of_rest rest) = Some batches
    \<and> concat batches = map MigrateLease (migration_of release (cfg_lease_code (leaser_config s)) rest)
    \<and> (\<forall>b \<in> set batches. length b \<le> max_leases)"
  using assms(4-)
proof (induction fuel arbitrary: pre rest)
  case 0
  then show ?case by (simp add: status_of_rest_def migration_of_def)
next
  case (Suc fuel)
  show ?case
  proof (cases rest)
    case Nil
    then show ?thesis by (simp add: status_of_rest_def migration_of_def)
  next
    case (Cons c cs)
    let ?taken = "fitting max_leases rest"
    let ?left = "drop (length ?taken) rest"
    have split: "rest = ?taken @ ?left" by (rule fitting_prefix)
    have "length ?left \<le> fuel"
      using fitting_progress [of c max_leases cs] Suc.prems Cons by simp
    moreover have "all_customers env s = (pre @ ?taken) @ ?left" using Suc.prems(1) split by simp
    moreover have "set ?left \<subseteq> set rest" by (rule set_drop_subset)
    ultimately obtain batches where batches:
      "migration_rounds fuel env s sender max_leases release (status_of_rest ?left) = Some batches"
      "concat batches = map MigrateLease (migration_of release (cfg_lease_code (leaser_config s)) ?left)"
      "\<forall>b \<in> set batches. length b \<le> max_leases"
      using Suc.IH [of "pre @ ?taken" ?left] Suc.prems(3,4) by blast
    let ?msgs = "map MigrateLease (migration_of release (cfg_lease_code (leaser_config s)) ?taken) :: 'a leaser_out list"
    have step: "leaser_execute env s sender [] (MigrateLeasesCont (customer_addr c) release max_leases)
        = Inr (s, ?msgs, Some (status_of_rest ?left))"
      using continue_migration [OF assms(1-3), of pre c cs release max_leases] Suc.prems Cons by simp
    have bound: "length ?msgs \<le> max_leases"
      using fitting_bound [of max_leases rest] by (simp add: migration_of_def lease_count_def length_concat comp_def)
    have all: "concat (?msgs # batches) = map MigrateLease (migration_of release (cfg_lease_code (leaser_config s)) rest)"
      using batches(2) by (subst (2) split) simp
    have run: "migration_rounds (Suc fuel) env s sender max_leases release (status_of_rest rest) = Some (?msgs # batches)"
      using step batches(1) by (simp add: status_of_rest_def Cons)
    show ?thesis
      using run all bound batches(3) by auto
  qed
qed


fun migrated :: "'l leaser_out list \<Rightarrow> migrate_lease list" where
  "migrated [] = []"
| "migrated (MigrateLease m # ms) = m # migrated ms"
| "migrated (_ # ms) = migrated ms"

lemma migrated_append [simp]: "migrated (xs @ ys) = migrated xs @ migrated ys"
  by (induction xs rule: migrated.induct) auto

lemma migrated_migrations [simp]: "migrated (map MigrateLease ms) = ms"
  by (induction ms) auto

lemma all_customers_leases:
  "map customer_lease_iter (all_customers env s) = map (\<lambda>e. env_hash env (snd e)) (customer_leases (leaser_leases s))"
  by (auto simp: all_customers_def leases_iter_def map_range_def)

lemma migration_of_all:
  assumes "\<And>xs. mset (env_hash env xs) = mset xs"
  shows "mset (map migrate_addr (migration_of release code (all_customers env s)))
    = mset (concat (map snd (customer_leases (leaser_leases s))))"
proof -
  have "mset (concat (map (\<lambda>e. env_hash env (snd e)) m)) = mset (concat (map snd m))" for m :: "(addr \<times> addr list) list"
    by (induction m) (simp_all add: assms)
  then show ?thesis by (simp add: migration_of_def all_customers_leases comp_def)
qed

text \<open>
  C25. A migration of the leases, started and then continued from each emitted key. When no customer is
  a contract, each has a valid address and none has more leases than the limit, it ends, has told
  every registered lease exactly once to migrate to the new code, and never more than the
  limit in a transaction. Otherwise it may not pass a customer: from one with more leases than the limit, the
  continuation migrates nothing and emits the same key again; and from one that is a contract, which the opening of
  a lease accepts, the continuation is refused, whatever the limit.
\<close>

theorem migration_reaches_all:
  assumes ok: "leaser_ok s" "leaser_owner s = Some sender" "env_known_code env code"
    and hash: "\<And>xs. mset (env_hash env xs) = mset xs"
    and limit: "max_leases < 2 ^ 32"
  shows "(plain_customers env s
      \<and> (\<forall>(c, ls) \<in> set (customer_leases (leaser_leases s)). length ls \<le> max_leases) \<longrightarrow>
      (\<exists>s' msgs status batches.
        leaser_execute env s sender funds (MigrateLeases code release max_leases) = Inr (s', msgs, Some status)
        \<and> migration_rounds (length (customer_leases (leaser_leases s))) env s' sender max_leases release status = Some batches
        \<and> mset (map migrate_addr (migrated (concat (msgs # batches))))
            = mset (concat (map snd (customer_leases (leaser_leases s))))
        \<and> (\<forall>m \<in> set (migrated (concat (msgs # batches))). migrate_code m = code \<and> migrate_release m = release)
        \<and> (\<forall>b \<in> set (msgs # batches). length (migrated b) \<le> max_leases)))
    \<and> (\<forall>(c, ls) \<in> set (customer_leases (leaser_leases s)).
        env_valid env c \<and> env_code_of env c = None \<and> max_leases < length ls \<and> length ls < 2 ^ 32 \<longrightarrow>
        leaser_execute env s sender funds (MigrateLeasesCont c release max_leases)
          = Inr (s, [], Some (ContinuationKey c)))
    \<and> (\<forall>c. env_valid env c \<and> env_code_of env c \<noteq> None \<longrightarrow>
        leaser_execute env s sender funds (MigrateLeasesCont c release max_leases)
          = Inl (Fail (InvalidContinuationKey ''smart contract key'')))"
proof (intro conjI impI ballI allI)
  assume plain: "plain_customers env s \<and> (\<forall>(c, ls) \<in> set (customer_leases (leaser_leases s)). length ls \<le> max_leases)"
  then have all_fit: "\<forall>c \<in> set (all_customers env s). length (customer_lease_iter c) \<le> max_leases"
    using hash [THEN mset_eq_length, THEN eq_refl] hash [THEN mset_eq_length] by (auto simp: all_customers_def leases_iter_def map_range_def)
  then have small: "\<forall>c \<in> set (all_customers env s). length (customer_lease_iter c) < 2 ^ 32"
    using limit by fastforce
  define s' where "s' = s\<lparr>leaser_config := leaser_update_lease_code (leaser_config s) code\<rparr>"
  have same: "leaser_leases s' = leaser_leases s" "leaser_owner s' = leaser_owner s"
      "cfg_lease_code (leaser_config s') = code"
    by (simp_all add: s'_def leaser_update_lease_code_def)
  have s'_all: "all_customers env s' = all_customers env s" by (simp add: all_customers_def same)
  let ?taken = "fitting max_leases (all_customers env s)"
  let ?left = "drop (length ?taken) (all_customers env s)"
  have start: "leaser_execute env s sender funds (MigrateLeases code release max_leases) =
      Inr (s', update_remote_refs s' code (map MigrateLease (migration_of release code ?taken)), Some (status_of_rest ?left))"
    using ok(2,3)
    by (simp add: migrate_leases_fitting [OF small] leaser_execute_def new_code_of_def try_migrate_leases_def s'_def [symmetric] Let_def same
        all_customers_def [symmetric] s'_all status_of_rest_def emit_status_def split: list.split)
  have split: "all_customers env s = ?taken @ ?left" by (rule fitting_prefix)
  have "length ?left \<le> length (customer_leases (leaser_leases s))"
    by (simp add: all_customers_def leases_iter_def map_range_def)
  moreover have "leaser_ok s'" "leaser_owner s' = Some sender" "plain_customers env s'"
    using ok plain by (simp_all add: leaser_ok_def plain_customers_def same)
  moreover have "all_customers env s' = ?taken @ ?left" using s'_all split by simp
  moreover have "set ?left \<subseteq> set (all_customers env s)" by (rule set_drop_subset)
  ultimately obtain batches where batches:
    "migration_rounds (length (customer_leases (leaser_leases s))) env s' sender max_leases release (status_of_rest ?left) = Some batches"
    "concat batches = map MigrateLease (migration_of release code ?left)"
    "\<forall>b \<in> set batches. length b \<le> max_leases"
    using rounds_complete [of s' sender env ?taken ?left] small all_fit same(3) by blast
  let ?msgs = "update_remote_refs s' code (map MigrateLease (migration_of release code ?taken))"
  have migrated: "migrated (concat (?msgs # batches)) = migration_of release code (all_customers env s)"
    by (subst split) (simp add: batches(2) update_remote_refs_def)
  have bound: "length (migrated b) \<le> length b" for b :: "'a leaser_out list"
    by (induction b rule: migrated.induct) auto
  have "migrated ?msgs = migration_of release code ?taken" by (simp add: update_remote_refs_def)
  then have first: "length (migrated ?msgs) \<le> max_leases"
    using fitting_bound [of max_leases "all_customers env s"]
    by (simp add: migration_of_def lease_count_def length_concat comp_def)
  have reach: "mset (map migrate_addr (migrated (concat (?msgs # batches)))) = mset (concat (map snd (customer_leases (leaser_leases s))))"
      "\<forall>m \<in> set (migrated (concat (?msgs # batches))). migrate_code m = code \<and> migrate_release m = release"
    unfolding migrated by (rule migration_of_all [OF hash]) (auto simp: migration_of_def)
  have bounds: "\<forall>b \<in> set (?msgs # batches). length (migrated b) \<le> max_leases"
    using first batches(3) order.trans [OF bound] by auto
  show "\<exists>s' msgs status batches.
        leaser_execute env s sender funds (MigrateLeases code release max_leases) = Inr (s', msgs, Some status)
        \<and> migration_rounds (length (customer_leases (leaser_leases s))) env s' sender max_leases release status = Some batches
        \<and> mset (map migrate_addr (migrated (concat (msgs # batches))))
            = mset (concat (map snd (customer_leases (leaser_leases s))))
        \<and> (\<forall>m \<in> set (migrated (concat (msgs # batches))). migrate_code m = code \<and> migrate_release m = release)
        \<and> (\<forall>b \<in> set (msgs # batches). length (migrated b) \<le> max_leases)"
    using start batches(1) reach bounds by blast
next
  fix e assume e: "e \<in> set (customer_leases (leaser_leases s))"
  obtain c ls where cls: "e = (c, ls)" by (cases e)
  let ?c = "\<lparr>customer_addr = c, customer_lease_iter = env_hash env ls\<rparr>"
  have "?c \<in> set (all_customers env s)"
    using e cls by (auto simp: all_customers_def leases_iter_def map_range_def)
  then obtain pre rest where split: "all_customers env s = pre @ ?c # rest" by (meson split_list)
  show "case e of (c, ls) \<Rightarrow>
      env_valid env c \<and> env_code_of env c = None \<and> max_leases < length ls \<and> length ls < 2 ^ 32 \<longrightarrow>
      leaser_execute env s sender funds (MigrateLeasesCont c release max_leases) = Inr (s, [], Some (ContinuationKey c))"
  proof (clarsimp simp: cls)
    assume plain: "env_valid env c" "env_code_of env c = None" and big: "max_leases < length ls" "length ls < 4294967296"
    then have "\<not> length (env_hash env ls) \<le> max_leases" "length (env_hash env ls) < 2 ^ 32"
      using mset_eq_length [OF hash, of ls] by auto
    then have "migrate_leases LeaserConversion release (?c # rest) (cfg_lease_code (leaser_config s)) max_leases
        = Inr \<lparr>migration_msgs = [], next_customer = Some c\<rparr>"
      by (simp add: migrate_leases_def migrate_batch_new_def migrate_or_be_next_def batch_migrate_leases_def
          checked_sub_def)
    moreover have "validate_customer env c = Inr c"
      using plain by (rule validate_customer_plain)
    ultimately show "leaser_execute env s sender funds (MigrateLeasesCont c release max_leases)
        = Inr (s, [], Some (ContinuationKey c))"
      using ok(2) leases_iter_from [OF ok(1) split]
      by (simp add: leaser_execute_def try_migrate_leases_cont_def emit_status_def)
  qed
next
  fix c assume "env_valid env c \<and> env_code_of env c \<noteq> None"
  then show "leaser_execute env s sender funds (MigrateLeasesCont c release max_leases)
      = Inl (Fail (InvalidContinuationKey ''smart contract key''))"
    using ok(2) by (auto simp: leaser_execute_def validate_customer_def validate_addr_def single_user_check_def access_check_def
        fail_if_def)
qed

section \<open>The registry over the messages\<close>

lemma leaser_config_keeps [simp]:
  "leaser_leases (s\<lparr>leaser_config := c\<rparr>) = leaser_leases s" "leaser_owner (s\<lparr>leaser_config := c\<rparr>) = leaser_owner s"
  by simp_all

inductive leaser_starts :: "'l leaser \<Rightarrow> bool" where
  "leaser_instantiate env sender msg = Inr s \<Longrightarrow> leaser_starts s"

inductive leaser_step :: "'l leaser \<Rightarrow> 'l leaser \<Rightarrow> bool" where
  exec: "leaser_execute env s sender funds msg = Inr (s', msgs, status) \<Longrightarrow> leaser_step s s'"
| sudo: "leaser_sudo env s smsg = Inr (s', msgs, status) \<Longrightarrow> leaser_step s s'"
| reply: "leaser_reply s reply_addr = Inr s' \<Longrightarrow> leaser_step s s'"

text \<open>What a message does to the map of the leases: nothing, or an update for one customer.\<close>

lemma leaser_execute_registry:
  assumes "leaser_execute env s sender funds msg = Inr (s', msgs, status)"
  shows "customer_leases (leaser_leases s') = customer_leases (leaser_leases s)
    \<or> (\<exists>c x. customer_leases (leaser_leases s') =
        map_put (customer_leases (leaser_leases s)) c (fst (hash_remove x (load_by_customer (leaser_leases s) c))))"
proof (cases msg)
  case (FinalizeLease customer)
  with assms show ?thesis by (auto simp: leaser_execute_def leases_remove_def) blast
qed (use assms in \<open>auto simp: leaser_execute_def borrow_with_def cache_open_req_def try_migrate_leases_def
      try_migrate_leases_cont_def Let_def\<close>)

lemma leaser_sudo_registry:
  assumes "leaser_sudo env s smsg = Inr (s', msgs, status)"
  shows "customer_leases (leaser_leases s') = customer_leases (leaser_leases s)"
proof (cases smsg)
  case (CloseProtocol code spec force)
  with assms show ?thesis
    by (cases force) (auto simp: leaser_sudo_def try_close_protocol_def try_migrate_leases_def Let_def split: if_splits)
qed (use assms in \<open>auto simp: leaser_sudo_def\<close>)

lemma leaser_reply_registry:
  assumes "leaser_reply s reply_addr = Inr s'"
  shows "\<exists>c x. pending_customer (leaser_leases s) = Some c \<and> reply_addr = Some x
    \<and> pending_customer (leaser_leases s') = None
    \<and> customer_leases (leaser_leases s') =
        map_put (customer_leases (leaser_leases s)) c (fst (hash_insert x (load_by_customer (leaser_leases s) c)))"
proof -
  obtain x c where x: "reply_addr = Some x" and c: "pending_customer (leaser_leases s) = Some c"
    and s': "s' = s\<lparr>leaser_leases := fst (update_leases ((leaser_leases s)\<lparr>pending_customer := None\<rparr>) c (hash_insert x))\<rparr>"
    using assms by (auto simp: leaser_reply_def leases_save_def split: option.splits)
  show ?thesis
    by (intro exI [of _ c] exI [of _ x]) (simp add: x c s' load_by_customer_def)
qed

lemma leaser_step_registry:
  assumes "leaser_step s s'" "leaser_ok s"
  shows "leaser_ok s'" "customer_leases (leaser_leases s) \<noteq> [] \<Longrightarrow> customer_leases (leaser_leases s') \<noteq> []"
proof -
  have distinct: "distinct (fst (hash_remove x (load_by_customer (leaser_leases s) c)))"
    "distinct (fst (hash_insert x (load_by_customer (leaser_leases s) c)))" for c x
    using load_by_customer_distinct [OF assms(2)] by (simp_all add: hash_remove_def hash_insert_def)
  have keep: "leaser_ok s'" if "customer_leases (leaser_leases s') = customer_leases (leaser_leases s)"
    using assms(2) that by (simp add: leaser_ok_def)
  have nonempty: "map_put m c ls \<noteq> []" for m :: "(addr \<times> addr list) list" and c ls
    by (cases "(m, c, ls)" rule: map_put.cases) auto
  show "leaser_ok s'"
    using assms(1)
  proof cases
    case (exec env sender funds msg msgs status)
    then show ?thesis using leaser_execute_registry [OF exec] keep leaser_ok_put [OF assms(2) distinct(1)] by blast
  next
    case (sudo env smsg msgs status)
    then show ?thesis using leaser_sudo_registry [OF sudo] keep by blast
  next
    case (reply reply_addr)
    then show ?thesis using leaser_reply_registry [OF reply] leaser_ok_put [OF assms(2) distinct(2)] by blast
  qed
  show "customer_leases (leaser_leases s') \<noteq> []" if "customer_leases (leaser_leases s) \<noteq> []"
    using assms(1)
  proof cases
    case (exec env sender funds msg msgs status)
    then show ?thesis using leaser_execute_registry [OF exec] that nonempty by metis
  next
    case (sudo env smsg msgs status)
    then show ?thesis using leaser_sudo_registry [OF sudo] that by simp
  next
    case (reply reply_addr)
    then show ?thesis using leaser_reply_registry [OF reply] nonempty by metis
  qed
qed

lemma leaser_starts_ok: "leaser_starts s \<Longrightarrow> leaser_ok s"
  by (auto simp: leaser_starts.simps leaser_instantiate_def leaser_ok_def map_ok_def)

interpretation leaser_registry: invariant_system leaser_starts leaser_step leaser_ok
  by unfold_locales (auto intro: leaser_starts_ok leaser_step_registry(1))

lemma leaser_steps_keep_customers:
  assumes "leaser_step\<^sup>*\<^sup>* s s'" "leaser_ok s" "customer_leases (leaser_leases s) \<noteq> []"
  shows "customer_leases (leaser_leases s') \<noteq> []"
  using assms
proof (induction rule: rtranclp_induct)
  case (step t u)
  then show ?case
    using leaser_step_registry(2) leaser_registry.steps_inv by metis
qed simp

text \<open>
  The registry of the leases: a customer who opens a lease, with the code, the parameters and
  the dex of the configuration, has the new contract added to the leases of his own once it
  replies, and nobody else's leases change; a reply that was not awaited is refused.
\<close>

theorem opened_lease_is_registered:
  assumes "reachable leaser_starts leaser_step s"
    and "leaser_execute env s customer funds (OpenLease currency max_ltd) = Inr (s', msgs, status)"
  shows "msgs = [InstantiateLease (cfg_lease_code (leaser_config s))
        (open_lease_msg customer (leaser_config s) currency max_ltd (env_contract env)) funds (env_contract env)]
    \<and> (\<exists>s''. leaser_reply s' (Some new_lease) = Inr s''
        \<and> set (load_by_customer (leaser_leases s'') customer)
            = insert new_lease (set (load_by_customer (leaser_leases s) customer))
        \<and> distinct (load_by_customer (leaser_leases s'') customer)
        \<and> (\<forall>c. c \<noteq> customer \<longrightarrow>
            load_by_customer (leaser_leases s'') c = load_by_customer (leaser_leases s) c)
        \<and> leaser_config s'' = leaser_config s
        \<and> leaser_reply s'' reply_addr \<in> {Inl (Fail LeaserParseError), Inl (Fail LeaserStd)})"
proof -
  have ok: "leaser_ok s" by (rule leaser_registry.reachable_inv [OF assms(1)])
  have s': "s' = s\<lparr>leaser_leases := cache_open_req (leaser_leases s) customer\<rparr>"
    and msgs: "msgs = [InstantiateLease (cfg_lease_code (leaser_config s))
        (open_lease_msg customer (leaser_config s) currency max_ltd (env_contract env)) funds (env_contract env)]"
    using assms(2) by (auto simp: leaser_execute_def borrow_with_def)
  define ls where "ls = (leaser_leases s)\<lparr>pending_customer := None\<rparr>"
  define s'' where "s'' = s\<lparr>leaser_leases := fst (update_leases ls customer (hash_insert new_lease))\<rparr>"
  have reply: "leaser_reply s' (Some new_lease) = Inr s''"
    by (simp add: leaser_reply_def s' leases_save_def cache_open_req_def s''_def ls_def split: prod.split)
  have "map_ok (customer_leases ls)" using ok by (simp add: ls_def leaser_ok_def)
  note load = load_update_leases [OF this]
  have same: "load_by_customer ls c = load_by_customer (leaser_leases s) c" for c
    by (simp add: ls_def load_by_customer_def)
  have "distinct (fst (hash_insert new_lease (load_by_customer (leaser_leases s) customer)))"
    using load_by_customer_distinct [OF ok] by (simp add: hash_insert_def)
  moreover have "set (fst (hash_insert new_lease xs)) = insert new_lease (set xs)" for xs
    by (auto simp: hash_insert_def)
  moreover have "leaser_reply s'' reply_addr \<in> {Inl (Fail LeaserParseError), Inl (Fail LeaserStd)}"
    by (cases reply_addr) (simp_all add: leaser_reply_def s''_def leases_save_def ls_def)
  ultimately show ?thesis
    using reply by (intro conjI msgs exI [of _ s'']) (simp_all add: s''_def load same)
qed

text \<open>
  C29. The end of a lease: the callback is accepted from a contract of the lease code for a plain
  customer, takes exactly that lease off the customer's, and is refused for a customer that is
  a contract, although a contract may open a lease.
\<close>

theorem finalize_lease_spec:
  assumes "leaser_ok s"
  shows "case leaser_execute env s sender funds (FinalizeLease customer) of
      Inr (s', msgs, status) \<Rightarrow>
        env_valid env customer \<and> env_code_of env customer = None
        \<and> env_code_of env sender = Some (cfg_lease_code (leaser_config s))
        \<and> load_by_customer (leaser_leases s') = (load_by_customer (leaser_leases s))
            (customer := filter (\<lambda>l. l \<noteq> sender) (load_by_customer (leaser_leases s) customer))
        \<and> msgs = [] \<and> status = None \<and> leaser_config s' = leaser_config s
    | Inl (Fail e) \<Rightarrow>
        (e = InvalidContinuationKey ''invalid address'' \<and> \<not> env_valid env customer)
        \<or> (e = InvalidContinuationKey ''smart contract key'' \<and> env_code_of env customer \<noteq> None
            \<and> (\<exists>s' msgs. leaser_execute env s customer funds (OpenLease currency max_ltd) = Inr (s', msgs, None)))
        \<or> (\<exists>pe. e = LeaserPlatform pe \<and> env_code_of env sender \<noteq> Some (cfg_lease_code (leaser_config s)))
    | Inl Panic \<Rightarrow> False"
proof -
  have "map_ok (customer_leases (leaser_leases s))" using assms by (simp add: leaser_ok_def)
  note load = load_update_leases [OF this]
  show ?thesis
    by (auto simp: leaser_execute_def validate_customer_def validate_addr_def validate_lease_def validate_code_id_def
        ok_or_def leases_remove_def fun_eq_iff load hash_remove_def borrow_with_def split: option.split)
qed

text \<open>
  C30. A protocol that has ever had a lease is closed by force only: in any later state, even with
  all the leases finalized, a close without force is refused, as the entry of a customer stays.
\<close>

theorem leased_protocol_is_not_closed:
  assumes "reachable leaser_starts leaser_step s" "load_by_customer (leaser_leases s) customer \<noteq> []"
    and "leaser_step\<^sup>*\<^sup>* s s'" "env_known_code env code"
  shows "leaser_sudo env s' (CloseProtocol code spec ForceNo) = Inl (Fail ProtocolStillInUse)"
proof -
  have "customer_leases (leaser_leases s) \<noteq> []"
    using assms(2) by (auto simp: load_by_customer_def)
  then have "customer_leases (leaser_leases s') \<noteq> []"
    by (rule leaser_steps_keep_customers [OF assms(3) leaser_registry.reachable_inv [OF assms(1)]])
  then show ?thesis
    using assms(4)
    by (simp add: leaser_sudo_def new_code_of_def try_close_protocol_def has_lease_def leases_iter_def map_range_def)
qed

section \<open>Quotes\<close>

lemma safe_mul_of_nothing: "coin_safe_mul (Coin 0) r = Some d \<Longrightarrow> d = Coin 0"
  by (auto simp: coin_safe_mul_def safe_mul_def split: if_splits)

lemma init_borrow_of_nothing:
  "init_borrow_amount l (Coin 0) may_max_ltd = Some borrow \<Longrightarrow> amount borrow = 0"
  by (auto simp: init_borrow_amount_def percent_of_coin_Some min_def dest!: safe_mul_of_nothing split: option.splits if_splits)

lemma calc_borrow_amount_InrD:
  assumes "calc_borrow_amount sp downpayment may_max_ltd = Inr borrow"
  shows "init_borrow_amount (spec_liability sp) downpayment may_max_ltd = Some borrow
    \<and> (\<exists>worth. coin_add downpayment borrow = Some worth)"
  using assms by (auto simp: calc_borrow_amount_def split: if_splits)

text \<open>
  C28. A quote is what an opening gets: whenever the lease computes the amount to borrow with the
  terms of the configuration, and the pool lends it, the quote on the same prices and the
  same pool gives that amount, the rate of the loan, and the asset the two amounts buy.
\<close>

theorem quote_matches_opening:
  fixes lpp_p :: "'l pool_store" and s :: "'l leaser"
  defines "dto \<equiv> cfg_position_spec (leaser_config s)"
  assumes "total downpayment dp_price = Some downpayment_lpn"
    and "calc_borrow_amount (spec_new (dto_liability dto) close_policy (dto_min_asset dto) (dto_min_transaction dto))
        downpayment_lpn max_ltd = Inr borrow"
    and "try_open_loan lpp_p env lease borrow = Inr (p', msgs, RespLoan ln)"
    and "coin_add downpayment_lpn borrow = Some worth" "total worth (price_inv asset_price) = Some asset"
  shows "leaser_quote s (query_quote lpp_p env) downpayment (Some dp_price) (Some asset_price) max_ltd =
    Inr \<lparr>quote_total = asset, quote_borrow = principal_due ln, quote_interest_rate = annual_interest_rate ln,
         quote_interest_rate_margin = cfg_interest_rate_margin (leaser_config s)\<rparr>
    \<and> principal_due ln = borrow"
proof -
  have borrow: "init_borrow_amount (dto_liability dto) downpayment_lpn max_ltd = Some borrow"
    using calc_borrow_amount_InrD [OF assms(3)] by (simp add: spec_new_def)
  have ln: "amount borrow \<noteq> 0" "principal_due ln = borrow"
      "query_quote lpp_p env borrow = Some (Some (annual_interest_rate ln))"
    using assms(4) by (auto simp: try_open_loan_def lpp_try_open_loan_def Let_def coin_is_zero_def)
  have "amount downpayment_lpn \<noteq> 0"
  proof
    assume "amount downpayment_lpn = 0"
    then have "downpayment_lpn = Coin 0" by (simp add: coin_eq_iff)
    with borrow ln(1) init_borrow_of_nothing [of "dto_liability dto" max_ltd borrow] show False by simp
  qed
  with ln borrow assms(2,5,6) show ?thesis
    by (simp add: leaser_quote_def lpp_quote_with_def coin_is_zero_def dto_def)
qed

section \<open>The code of the leases\<close>

text \<open>
  C27. Only the owner starts a migration, to a known code, and it takes the pool and the reserve
  along: executed there on behalf of the leaser, which administers the code at both, the two
  messages leave the three contracts with the same code, so that the leases of the new code,
  and no others, may borrow and have their losses covered.
\<close>

theorem migration_keeps_codes_together:
  assumes "leaser_execute env s sender funds (MigrateLeases code release max_leases) = Inr (s', msgs, status)"
    and "lease_code_admin p = Some (env_contract env)" "reserve_lease_code_admin r = Some (env_contract env)"
  shows "leaser_owner s = Some sender \<and> env_known_code env code
    \<and> cfg_lease_code (leaser_config s') = code \<and> leaser_leases s' = leaser_leases s
    \<and> (\<exists>batch. msgs = map MigrateLease batch
          @ [LppNewLeaseCode (cfg_lpp (leaser_config s)) code, ReserveNewLeaseCodeAt (cfg_reserve (leaser_config s)) code]
        \<and> (\<forall>m \<in> set batch. migrate_code m = code))
    \<and> (\<exists>p' r'. execute p lpp_env (env_contract env) [] (NewLeaseCode code) = Inr (p', [], RespNone)
        \<and> reserve_execute r reserve_env (env_contract env) (ReserveNewLeaseCode code) = Inr (r', [])
        \<and> (\<forall>lease. validate_lease_addr p' lpp_env lease = Inr () \<longleftrightarrow> code_id_of lpp_env lease = Some code)
        \<and> (\<forall>losses lease ms. reserve_execute r' reserve_env lease (ReserveCoverLosses losses) = Inr (r', ms)
              \<longrightarrow> code_id_of reserve_env lease = Some code)
        \<and> pool_loans p' = pool_loans p \<and> pool_totals p' = pool_totals p \<and> pool_deposits p' = pool_deposits p)"
proof -
  obtain res where owner: "leaser_owner s = Some sender" "env_known_code env code"
    and s': "s' = s\<lparr>leaser_config := leaser_update_lease_code (leaser_config s) code\<rparr>"
    and res: "migrate_leases LeaserConversion release (leases_iter (env_hash env) (leaser_leases s) None) code max_leases = Inr res"
    and msgs: "msgs = update_remote_refs s' code (map MigrateLease (migration_msgs res))"
    using assms(1) by (auto simp: leaser_execute_def new_code_of_def try_migrate_leases_def Let_def split: if_splits)
  have codes: "\<forall>m \<in> set (migration_msgs res). migrate_code m = code"
    by (rule migrate_leases_code [OF res])
  have remote: "msgs = map MigrateLease (migration_msgs res)
      @ [LppNewLeaseCode (cfg_lpp (leaser_config s)) code, ReserveNewLeaseCodeAt (cfg_reserve (leaser_config s)) code]"
    by (simp add: msgs update_remote_refs_def s' leaser_update_lease_code_def)
  let ?p' = "p\<lparr>config := update_lease_code (config p) code\<rparr>" and ?r' = "reserve_update_lease_code r code"
  have "execute p lpp_env (env_contract env) [] (NewLeaseCode code) = Inr (?p', [], RespNone)"
    "reserve_execute r reserve_env (env_contract env) (ReserveNewLeaseCode code) = Inr (?r', [])"
    using assms(2,3) by (simp_all add: execute_def reserve_execute_def)
  moreover have "validate_lease_addr ?p' lpp_env lease = Inr () \<longleftrightarrow> code_id_of lpp_env lease = Some code" for lease
    by (simp add: validate_lease_addr_def update_lease_code_def)
  moreover have "code_id_of reserve_env lease = Some code"
    if "reserve_execute ?r' reserve_env lease (ReserveCoverLosses losses) = Inr (?r', ms)" for losses lease ms
    using that by (auto simp: reserve_execute_def reserve_update_lease_code_def)
  ultimately show ?thesis
    using owner remote codes
    by (intro conjI exI [of _ "migration_msgs res"] exI [of _ ?p'] exI [of _ ?r'])
      (simp_all add: s' leaser_update_lease_code_def)
qed

end
