(* ===== verification/Leaser_Runs.thy ===== *)
theory Leaser_Runs
  imports Leaser_Guarantees Lpp_Runs
begin

text \<open>Concrete runs of the leaser on which its guarantees apply.\<close>

definition run_leaser_init :: "unit leaser_init" where
  "run_leaser_init =
     \<lparr>init_code = 7, init_lpp = ''lpp'', init_profit = ''profit'', init_reserve = ''reserve'',
      init_time_alarms = ''alarms'', init_market_price_oracle = ''oracle'', init_protocols_registry = ''admin'',
      init_position_spec =
        \<lparr>dto_liability = \<lparr>initial = Percent 650, healthy = Percent 700, first_liq_warn = Percent 730,
           second_liq_warn = Percent 750, third_liq_warn = Percent 780, max_ltv = Percent 800,
           recalc_time = duration_hour\<rparr>,
         dto_min_asset = Coin 150, dto_min_transaction = Coin 10\<rparr>,
      init_interest_rate_margin = Percent 30, init_due_period = Duration 100,
      init_dex = \<lparr>connection_id = ''c'', local_endpoint = ''l'', remote_endpoint = ''r''\<rparr>\<rparr>"

text \<open>The leases run the codes 7 and 9; the other contracts run the code 1.\<close>

definition run_leaser_env :: leaser_env where
  "run_leaser_env =
     \<lparr>env_contract = ''leaser'',
      env_code_of = (\<lambda>a. if a \<in> {''lpp'', ''profit'', ''alarms'', ''oracle''} then Some 1
                         else if a = ''lease1'' then Some 7 else None),
      env_known_code = (\<lambda>code. code \<in> {7, 9}), env_valid = (\<lambda>_. True), env_hash = (\<lambda>xs. xs)\<rparr>"

definition run_leaser :: "leases \<Rightarrow> unit leaser" where
  "run_leaser ls = \<lparr>leaser_owner = Some ''owner'', leaser_config = leaser_config_new 7 run_leaser_init, leaser_leases = ls\<rparr>"

definition no_leases :: leases where
  "no_leases = \<lparr>pending_customer = None, customer_leases = []\<rparr>"

definition run_spec :: protocol_contracts where
  "run_spec = (let m = \<lparr>spec_code_id = 3, spec_migrate_message = ''{}'', spec_post_migrate_execute = None\<rparr>
     in \<lparr>spec_leaser = m, spec_lpp = m, spec_oracle = m, spec_profit = m, spec_reserve = m\<rparr>)"

lemmas leaser_run_defs = run_leaser_def run_leaser_env_def no_leases_def

lemma run_leaser_starts: "leaser_starts (run_leaser no_leases)"
proof (rule leaser_starts.intros)
  show "leaser_instantiate run_leaser_env ''owner'' run_leaser_init = Inr (run_leaser no_leases)"
    by (simp add: leaser_instantiate_def new_code_of_def validate_addr_def leaser_run_defs run_leaser_init_def
        del: inversion_simps)
qed

lemma run_leaser_opens:
  "leaser_execute run_leaser_env (run_leaser no_leases) ''cam'' funds (OpenLease ''atom'' None) =
     Inr (run_leaser \<lparr>pending_customer = Some ''cam'', customer_leases = []\<rparr>,
       [InstantiateLease 7 (open_lease_msg ''cam'' (leaser_config_new 7 run_leaser_init) ''atom'' None ''leaser'') funds ''leaser''],
       None)"
  by (simp add: leaser_execute_def borrow_with_def cache_open_req_def leaser_config_new_def leaser_run_defs)

lemma run_leaser_registers:
  "leaser_reply (run_leaser \<lparr>pending_customer = Some ''cam'', customer_leases = []\<rparr>) (Some ''lease1'')
     = Inr (run_leaser \<lparr>pending_customer = None, customer_leases = [(''cam'', [''lease1''])]\<rparr>)"
  by (simp add: leaser_reply_def leases_save_def update_leases_def load_by_customer_def hash_insert_def leaser_run_defs)

lemma run_leaser_finalizes:
  "leaser_execute run_leaser_env (run_leaser \<lparr>pending_customer = None, customer_leases = [(''cam'', [''lease1''])]\<rparr>)
     ''lease1'' [] (FinalizeLease ''cam'') =
   Inr (run_leaser \<lparr>pending_customer = None, customer_leases = [(''cam'', [])]\<rparr>, [], None)"
  by (simp add: leaser_execute_def validate_customer_def validate_addr_def validate_lease_def validate_code_id_def
      leases_remove_def update_leases_def load_by_customer_def hash_remove_def leaser_config_new_def run_leaser_init_def
      leaser_run_defs del: inversion_simps)

lemma run_leaser_reachable:
  "reachable leaser_starts leaser_step (run_leaser \<lparr>pending_customer = None, customer_leases = [(''cam'', [''lease1''])]\<rparr>)"
  by (intro reachable.next_state [OF reachable.next_state [OF reachable.initial]])
    (rule run_leaser_starts leaser_step.exec [OF run_leaser_opens [of "[]"]] leaser_step.reply [OF run_leaser_registers])+

theorem opened_lease_is_registered_witness:
  "\<exists>s''. leaser_reply (run_leaser \<lparr>pending_customer = Some ''cam'', customer_leases = []\<rparr>) (Some ''lease1'') = Inr s''
     \<and> set (load_by_customer (leaser_leases s'') ''cam'') = {''lease1''}"
  using opened_lease_is_registered [OF reachable.initial [of leaser_starts, OF run_leaser_starts] run_leaser_opens [of "[]"], of "''lease1''" None]
  by (auto simp: load_by_customer_def leaser_run_defs)

theorem finalize_lease_spec_witness:
  "leaser_execute run_leaser_env (run_leaser \<lparr>pending_customer = None, customer_leases = [(''cam'', [''lease1''])]\<rparr>)
       ''lease1'' [] (FinalizeLease ''cam'') =
     Inr (run_leaser \<lparr>pending_customer = None, customer_leases = [(''cam'', [])]\<rparr>, [], None)
   \<and> load_by_customer \<lparr>pending_customer = None, customer_leases = [(''cam'', [])]\<rparr> ''cam'' = []"
  using finalize_lease_spec [OF leaser_registry.reachable_inv [OF run_leaser_reachable],
      of run_leaser_env "''lease1''" "[]" "''cam''"] run_leaser_finalizes
  by (simp add: load_by_customer_def leaser_run_defs fun_eq_iff)

theorem leased_protocol_is_not_closed_witness:
  "(\<forall>c. load_by_customer \<lparr>pending_customer = None, customer_leases = [(''cam'', [])]\<rparr> c = [])
   \<and> leaser_sudo run_leaser_env (run_leaser \<lparr>pending_customer = None, customer_leases = [(''cam'', [])]\<rparr>)
     (CloseProtocol 9 run_spec ForceNo) = Inl (Fail ProtocolStillInUse)"
proof (intro conjI)
  show "leaser_sudo run_leaser_env (run_leaser \<lparr>pending_customer = None, customer_leases = [(''cam'', [])]\<rparr>)
     (CloseProtocol 9 run_spec ForceNo) = Inl (Fail ProtocolStillInUse)"
    by (rule leased_protocol_is_not_closed [OF run_leaser_reachable _ r_into_rtranclp,
          OF _ leaser_step.exec [OF run_leaser_finalizes], of "''cam''"])
      (simp_all add: load_by_customer_def leaser_run_defs)
qed (simp add: load_by_customer_def)

theorem migration_reaches_all_witness:
  "\<exists>s' msgs status batches.
     leaser_execute run_leaser_env
       (run_leaser \<lparr>pending_customer = None, customer_leases = [(''bob'', [''b1'', ''b2'']), (''cam'', [''lease1''])]\<rparr>)
       ''owner'' [] (MigrateLeases 9 (''1'', ''2'') 2) = Inr (s', msgs, Some status)
   \<and> migration_rounds 2 run_leaser_env s' ''owner'' 2 (''1'', ''2'') status = Some batches
   \<and> mset (map migrate_addr (migrated (concat (msgs # batches)))) = mset [''b1'', ''b2'', ''lease1'']"
proof -
  let ?ls = "\<lparr>pending_customer = None, customer_leases = [(''bob'', [''b1'', ''b2'']), (''cam'', [''lease1''])]\<rparr>"
  let ?s = "run_leaser ?ls"
  have ok: "leaser_ok ?s" "plain_customers run_leaser_env ?s"
    by (simp_all add: leaser_ok_def map_ok_def plain_customers_def leaser_run_defs)
  have customers: "customer_leases (leaser_leases ?s) = [(''bob'', [''b1'', ''b2'']), (''cam'', [''lease1''])]"
    by (simp add: run_leaser_def)
  have "\<exists>s' msgs status batches.
        leaser_execute run_leaser_env ?s ''owner'' [] (MigrateLeases 9 (''1'', ''2'') 2) = Inr (s', msgs, Some status)
        \<and> migration_rounds (length (customer_leases (leaser_leases ?s))) run_leaser_env s' ''owner'' 2 (''1'', ''2'') status = Some batches
        \<and> mset (map migrate_addr (migrated (concat (msgs # batches))))
            = mset (concat (map snd (customer_leases (leaser_leases ?s))))
        \<and> (\<forall>m \<in> set (migrated (concat (msgs # batches))). migrate_code m = 9 \<and> migrate_release m = (''1'', ''2''))
        \<and> (\<forall>b \<in> set (msgs # batches). length (migrated b) \<le> 2)"
    by (rule migration_reaches_all [OF ok(1), THEN conjunct1, THEN mp])
      (simp_all add: customers ok(2), simp_all add: leaser_run_defs)
  then show ?thesis
    unfolding customers by (simp add: numeral_2_eq_2) blast
qed

theorem quote_matches_opening_witness:
  "\<exists>p' msgs ln.
     try_open_loan (world_store run_deposited) ((run_chain (Timestamp 0))\<lparr>lpn_balance := 1000\<rparr>) ''lease'' (Coin 400)
       = Inr (p', msgs, RespLoan ln)
   \<and> leaser_quote (run_leaser no_leases) (query_quote (world_store run_deposited) ((run_chain (Timestamp 0))\<lparr>lpn_balance := 1000\<rparr>))
       (Coin 400 :: unit coin) (Some price_identity) (Some (price_identity :: (unit, unit) price)) (Some (Percent 1000))
     = Inr \<lparr>quote_total = Coin 800, quote_borrow = Coin 400, quote_interest_rate = annual_interest_rate ln,
            quote_interest_rate_margin = Percent 30\<rparr>"
proof -
  let ?env = "(run_chain (Timestamp 0))\<lparr>lpn_balance := 1000\<rparr>"
  have "\<exists>p' msgs ln. try_open_loan (world_store run_deposited) ?env ''lease'' (Coin 400) = Inr (p', msgs, RespLoan ln)"
    by (simp add: try_open_loan_def lpp_try_open_loan_def Let_def op_defs coin_order min_def percent_order
        total_new_def run_defs del: inversion_simps)
  then obtain p' msgs ln where
    loan: "try_open_loan (world_store run_deposited) ?env ''lease'' (Coin 400) = Inr (p', msgs, RespLoan ln)"
    by blast
  have margin: "cfg_interest_rate_margin (leaser_config (run_leaser no_leases)) = Percent 30"
    by (simp add: leaser_run_defs leaser_config_new_def run_leaser_init_def)
  have one: "total (Coin 400) (price_identity :: (unit, unit) price) = Some (Coin 400)"
      "total (Coin 800) (price_inv (price_identity :: (unit, unit) price)) = Some (Coin 800)"
    by (simp_all add: total_def price_identity_def price_inv_def op_defs del: inversion_simps)
  have borrow: "calc_borrow_amount (spec_new (dto_liability (cfg_position_spec (leaser_config (run_leaser no_leases))))
      \<lparr>take_profit = None, stop_loss = None\<rparr>
      (dto_min_asset (cfg_position_spec (leaser_config (run_leaser no_leases))))
      (dto_min_transaction (cfg_position_spec (leaser_config (run_leaser no_leases))))) (Coin 400) (Some (Percent 1000)) = Inr (Coin 400)"
    by (simp add: leaser_run_defs leaser_config_new_def run_leaser_init_def spec_new_def calc_borrow_amount_def
        valid_transaction_def valid_asset_def init_borrow_amount_def op_defs coin_ok_def coin_order min_def
        del: inversion_simps)
  have worth: "coin_add (Coin 400 :: unit coin) (Coin 400) = Some (Coin 800)"
    by (simp add: op_defs)
  show ?thesis
    using quote_matches_opening [OF one(1) borrow loan worth one(2)] loan margin by auto
qed

theorem migration_keeps_codes_together_witness:
  "\<exists>s' msgs status p'.
     leaser_execute run_leaser_env (run_leaser no_leases) ''owner'' [] (MigrateLeases 9 (''1'', ''2'') 5) = Inr (s', msgs, status)
   \<and> execute (world_store run_start) (run_chain (Timestamp 0)) ''leaser'' [] (NewLeaseCode 9) = Inr (p', [], RespNone)
   \<and> (\<forall>lease. validate_lease_addr p' (run_chain (Timestamp 0)) lease = Inr ()
        \<longleftrightarrow> code_id_of (run_chain (Timestamp 0)) lease = Some 9)"
proof -
  have "\<exists>s' msgs status. leaser_execute run_leaser_env (run_leaser no_leases) ''owner'' []
      (MigrateLeases 9 (''1'', ''2'') 5) = Inr (s', msgs, status)"
    by (simp add: leaser_execute_def new_code_of_def try_migrate_leases_def leases_iter_def map_range_def
        migrate_leases_def migrate_batch_new_def leaser_run_defs Let_def)
  then obtain s' msgs status where run: "leaser_execute run_leaser_env (run_leaser no_leases) ''owner'' []
      (MigrateLeases 9 (''1'', ''2'') 5) = Inr (s', msgs, status)"
    by blast
  have self: "env_contract run_leaser_env = ''leaser''" by (simp add: run_leaser_env_def)
  have "lease_code_admin (world_store run_start) = Some (env_contract run_leaser_env)"
    "reserve_lease_code_admin \<lparr>reserve_lease_code_admin = Some ''leaser'', reserve_lease_code = 7\<rparr>
      = Some (env_contract run_leaser_env)"
    by (simp_all add: self run_start_def)
  from migration_keeps_codes_together [OF run this, of "run_chain (Timestamp 0)" "run_chain (Timestamp 0)"] run
  show ?thesis unfolding self by blast
qed

end
