(* ===== verification/Treasury.thy ===== *)
theory Treasury
  imports Interest Prices Platform "HOL-Library.Product_Lexorder"
begin

text \<open>
  The treasury (\<open>platform/contracts/treasury/src\<close>): at every time alarm it rewards the lenders of
  the pools at the rate its scale gives for the total value locked, for the time since the last
  dispatch, and asks for the next alarm. What the registry, the pools and the oracles answer is
  an argument: a query that fails is \<open>None\<close>.
\<close>

section \<open>The reward scale\<close>

record bar =
  bar_tvl :: nat
  bar_apr :: percent

definition tvl_scale_factor :: nat where
  "tvl_scale_factor = 1000000000"

definition tvl_as_coin :: "nat \<Rightarrow> 's coin option" where
  "tvl_as_coin thousands = map_option Coin (checked_mul 128 thousands tvl_scale_factor)"

datatype scale_error = NoBars | NoZeroBar | DuplicateBars

definition bar_key :: "bar \<Rightarrow> nat \<times> nat" where
  "bar_key b = (bar_tvl b, units (bar_apr b))"

text \<open>The derived order of bars is that of their pairs; equal bars are the same.\<close>

definition add_non_overlapping :: "bar list \<Rightarrow> bar list \<Rightarrow> (scale_error, bar list) res" where
  "add_non_overlapping scale bars =
     (let sorted_bars = sort_key bar_key (scale @ bars)
      in if list_ex (\<lambda>(l, r). bar_tvl l = bar_tvl r) (zip sorted_bars (tl sorted_bars))
         then Inl (Fail DuplicateBars) else Inr sorted_bars)"

definition scale_try_from :: "bar list \<Rightarrow> (scale_error, bar list) res" where
  "scale_try_from bars =
     (if bars = [] then Inl (Fail NoBars)
      else if \<not> list_ex (\<lambda>b. bar_tvl b = 0) bars then Inl (Fail NoZeroBar)
      else add_non_overlapping [] bars)"

text \<open>
  \<open>partition_point\<close> on a slice the predicate splits in two is the length of its first part; the
  predicate may abort. The index then saturates at zero, and an empty scale aborts.
\<close>

fun partition_point :: "('a \<Rightarrow> bool option) \<Rightarrow> 'a list \<Rightarrow> nat option" where
  "partition_point P [] = Some 0"
| "partition_point P (x # xs) =
     (case P x of None \<Rightarrow> None | Some False \<Rightarrow> Some 0 | Some True \<Rightarrow> map_option Suc (partition_point P xs))"

definition get_apr :: "bar list \<Rightarrow> 's coin \<Rightarrow> percent option" where
  "get_apr scale tvl_total =
     do {
       n \<leftarrow> partition_point (\<lambda>b. do { c \<leftarrow> tvl_as_coin (bar_tvl b); Some (c \<le> tvl_total) }) scale;
       (if n - 1 < length scale then Some (bar_apr (scale ! (n - 1))) else None)
     }"

section \<open>State and messages\<close>

record treasury_config =
  cadence_hours :: nat
  protocols_registry :: addr
  tvl_to_apr :: "bar list"

record treasury =
  treasury_timealarms :: "addr option"
  treasury_config :: treasury_config
  dispatch_log :: "timestamp option"

record treasury_init =
  tr_cadence_hours :: nat
  tr_protocols_registry :: addr
  tr_timealarms :: addr
  tr_tvl_to_apr :: "bar list"

datatype treasury_error =
    ValidateRegistryAddr
  | ValidateTimeAlarmsAddr platform_error
  | QueryProtocols
  | ReadLppBalance
  | ConvertRewardsToNLS
  | SetupTimeAlarmStub platform_error
  | TreasuryUnauthorized access_error
  | InvalidTimeConfiguration

datatype 'n treasury_msg =
    DistributeRewardsTo addr "'n coin"
  | AddAlarmAt addr timestamp

datatype treasury_sudo_msg = TreasuryConfig nat | TreasuryRewards "bar list"

text \<open>What the contracts of a protocol answer: the balance of its pool, the price of the native coin.\<close>

record ('n, 's) protocol_answers =
  protocol_lpp :: addr
  stable_balance :: "'s coin option"
  nls_in_stable :: "('n, 's) price option"

section \<open>Rewards\<close>

record ('n, 's) pool_stub =
  pool_lpp :: addr
  pool_locked :: "'s coin"
  pool_nls_price :: "('n, 's) price option"

definition pool_stub_new :: "('n, 's) protocol_answers \<Rightarrow> (treasury_error, ('n, 's) pool_stub) res" where
  "pool_stub_new p =
     and_then (ok_or ReadLppBalance (stable_balance p)) (\<lambda>bal.
       Inr \<lparr>pool_lpp = protocol_lpp p, pool_locked = bal, pool_nls_price = nls_in_stable p\<rparr>)"

definition lpp_distribute :: "addr \<Rightarrow> 'n coin \<Rightarrow> 'n treasury_msg list" where
  "lpp_distribute lpp reward = (if coin_is_zero reward then [] else [DistributeRewardsTo lpp reward])"

definition distribute_rewards ::
  "('n, 's) pool_stub \<Rightarrow> percent \<Rightarrow> duration \<Rightarrow> (treasury_error, 'n treasury_msg list) res" where
  "distribute_rewards pool apr dur =
     and_then (or_panic (interest (percent_ratio apr) (pool_locked pool) dur)) (\<lambda>reward_in_stable.
     and_then (ok_or ConvertRewardsToNLS (pool_nls_price pool)) (\<lambda>price.
     and_then (or_panic (total reward_in_stable (price_inv price))) (\<lambda>rewards.
       Inr (lpp_distribute (pool_lpp pool) rewards))))"

record ('n, 's) reward_calculator =
  calc_pools :: "('n, 's) pool_stub list"
  calc_apr :: percent

fun tvls :: "'s coin \<Rightarrow> ('n, 's) pool_stub list \<Rightarrow> 's coin option" where
  "tvls acc [] = Some acc"
| "tvls acc (p # ps) = do { s \<leftarrow> coin_add acc (pool_locked p); tvls s ps }"

definition reward_calculator_new :: "('n, 's) pool_stub list \<Rightarrow> bar list \<Rightarrow> ('n, 's) reward_calculator option" where
  "reward_calculator_new pools scale =
     do {
       tvls_total \<leftarrow> tvls (Coin 0) pools;
       apr \<leftarrow> get_apr scale tvls_total;
       Some \<lparr>calc_pools = pools, calc_apr = apr\<rparr>
     }"

text \<open>\<open>try_fold\<close> over the pools: it stops at the first failure.\<close>

fun distribute_all ::
  "'n treasury_msg list \<Rightarrow> ('n, 's) pool_stub list \<Rightarrow> percent \<Rightarrow> duration \<Rightarrow> (treasury_error, 'n treasury_msg list) res" where
  "distribute_all resp [] apr dur = Inr resp"
| "distribute_all resp (p # ps) apr dur =
     and_then (distribute_rewards p apr dur) (\<lambda>resp2. distribute_all (resp @ resp2) ps apr dur)"

fun collect_pools :: "('n, 's) protocol_answers list \<Rightarrow> (treasury_error, ('n, 's) pool_stub list) res" where
  "collect_pools [] = Inr []"
| "collect_pools (p # ps) = and_then (pool_stub_new p) (\<lambda>q. map_res (Cons q) (collect_pools ps))"

definition try_build_reward ::
  "treasury_config \<Rightarrow> ('n, 's) protocol_answers list option \<Rightarrow> (treasury_error, ('n, 's) reward_calculator) res" where
  "try_build_reward c protocols =
     and_then (ok_or QueryProtocols protocols) (\<lambda>ps.
     and_then (collect_pools ps) (\<lambda>pools.
       or_panic (reward_calculator_new pools (tvl_to_apr c))))"

definition query_reward_apr ::
  "treasury \<Rightarrow> ('n, 's) protocol_answers list option \<Rightarrow> (treasury_error, percent) res" where
  "query_reward_apr s protocols = map_res calc_apr (try_build_reward (treasury_config s) protocols)"

section \<open>Dispatch\<close>

definition last_dispatch :: "treasury \<Rightarrow> timestamp" where
  "last_dispatch s = (case dispatch_log s of None \<Rightarrow> timestamp_default | Some t \<Rightarrow> t)"

definition log_update :: "treasury \<Rightarrow> timestamp \<Rightarrow> (treasury_error, treasury) res" where
  "log_update s current_dispatch =
     (case dispatch_log s of
        None \<Rightarrow> Inr (s\<lparr>dispatch_log := Some current_dispatch\<rparr>)
      | Some l \<Rightarrow>
          if current_dispatch < l then Inl (Fail InvalidTimeConfiguration)
          else Inr (s\<lparr>dispatch_log := Some current_dispatch\<rparr>))"

definition setup_time_alarm ::
  "(addr \<Rightarrow> nat option) \<Rightarrow> addr \<Rightarrow> timestamp \<Rightarrow> duration \<Rightarrow> (treasury_error, 'n treasury_msg list) res" where
  "setup_time_alarm code_of timealarm now alarm_in =
     and_then (map_err SetupTimeAlarmStub (validate_addr code_of timealarm)) (\<lambda>_.
     and_then (or_panic (timestamp_add now alarm_in)) (\<lambda>at. Inr [AddAlarmAt timealarm at]))"

definition try_dispatch ::
  "(addr \<Rightarrow> nat option) \<Rightarrow> ('n, 's) protocol_answers list option \<Rightarrow> treasury \<Rightarrow> timestamp \<Rightarrow> addr
     \<Rightarrow> (treasury_error, treasury \<times> 'n treasury_msg list) res" where
  "try_dispatch code_of protocols s now timealarm =
     and_then (setup_time_alarm code_of timealarm now (from_hours (cadence_hours (treasury_config s)))) (\<lambda>setup_alarm.
     and_then (log_update s now) (\<lambda>s'.
     and_then (or_panic (duration_between (last_dispatch s) now)) (\<lambda>rewards_span.
     and_then (try_build_reward (treasury_config s) protocols) (\<lambda>reward.
     map_res (\<lambda>msgs. (s', msgs @ setup_alarm))
       (distribute_all [] (calc_pools reward) (calc_apr reward) rewards_span)))))"

section \<open>Entry points\<close>

definition treasury_instantiate ::
  "(addr \<Rightarrow> bool) \<Rightarrow> (addr \<Rightarrow> nat option) \<Rightarrow> timestamp \<Rightarrow> treasury_init
     \<Rightarrow> (treasury_error, treasury \<times> 'n treasury_msg list) res" where
  "treasury_instantiate valid code_of now msg =
     and_then (fail_if (\<not> valid (tr_protocols_registry msg)) ValidateRegistryAddr) (\<lambda>_.
     and_then (map_err ValidateTimeAlarmsAddr (validate_addr code_of (tr_timealarms msg))) (\<lambda>_.
     and_then (log_update
         \<lparr>treasury_timealarms = Some (tr_timealarms msg),
          treasury_config = \<lparr>cadence_hours = tr_cadence_hours msg, protocols_registry = tr_protocols_registry msg,
            tvl_to_apr = tr_tvl_to_apr msg\<rparr>,
          dispatch_log = None\<rparr> now) (\<lambda>s.
     map_res (Pair s)
       (setup_time_alarm code_of (tr_timealarms msg) now (from_hours (tr_cadence_hours msg))))))"

text \<open>The only message is the time alarm.\<close>

definition treasury_execute ::
  "(addr \<Rightarrow> nat option) \<Rightarrow> ('n, 's) protocol_answers list option \<Rightarrow> treasury \<Rightarrow> timestamp \<Rightarrow> addr
     \<Rightarrow> (treasury_error, treasury \<times> 'n treasury_msg list) res" where
  "treasury_execute code_of protocols s now sender =
     and_then (map_err TreasuryUnauthorized (single_user_check (treasury_timealarms s) sender)) (\<lambda>_.
       try_dispatch code_of protocols s now sender)"

definition treasury_sudo :: "treasury \<Rightarrow> treasury_sudo_msg \<Rightarrow> treasury" where
  "treasury_sudo s msg =
     (case msg of
        TreasuryConfig hours \<Rightarrow> s\<lparr>treasury_config := (treasury_config s)\<lparr>cadence_hours := hours\<rparr>\<rparr>
      | TreasuryRewards scale \<Rightarrow> s\<lparr>treasury_config := (treasury_config s)\<lparr>tvl_to_apr := scale\<rparr>\<rparr>)"

end
