(* ===== verification/Treasury_Facts.thy ===== *)
theory Treasury_Facts
  imports Treasury
begin

text \<open>What a dispatch of the treasury pays, and the rate its scale gives.\<close>

section \<open>The rate of a scale\<close>

lemma partition_point_sorted:
  assumes "\<forall>x \<in> set xs. P x = Some (Q x)"
  shows "partition_point P xs = Some (length (takeWhile Q xs))"
  using assms by (induction xs) (auto split: option.splits bool.splits)

lemma tvl_as_coin_fits: "n < 2 ^ 32 \<Longrightarrow> tvl_as_coin n = Some (Coin (n * tvl_scale_factor))"
  by (simp add: tvl_as_coin_def tvl_scale_factor_def checked_mul_def fits_def)

definition scale_ok :: "bar list \<Rightarrow> bool" where
  "scale_ok scale \<longleftrightarrow> sorted_wrt (\<lambda>l r. bar_tvl l < bar_tvl r) scale \<and> (\<exists>b \<in> set scale. bar_tvl b = 0)
     \<and> (\<forall>b \<in> set scale. bar_tvl b < 2 ^ 32)"

lemma sorted_no_duplicates:
  "sorted_wrt (\<lambda>l r. bar_tvl l \<le> bar_tvl r) xs \<Longrightarrow>
    \<not> list_ex (\<lambda>(l, r). bar_tvl l = bar_tvl r) (zip xs (tl xs)) \<Longrightarrow>
    sorted_wrt (\<lambda>l r. bar_tvl l < bar_tvl r) xs"
proof (induction xs rule: induct_list012)
  case (3 x y zs)
  then have "sorted_wrt (\<lambda>l r. bar_tvl l < bar_tvl r) (y # zs)" "bar_tvl x < bar_tvl y" by auto
  moreover from this have "\<forall>z \<in> set zs. bar_tvl x < bar_tvl z" by auto
  ultimately show ?case by simp
qed simp_all

lemma scale_try_from_ok:
  assumes "scale_try_from bars = Inr scale" "\<forall>b \<in> set bars. bar_tvl b < 2 ^ 32"
  shows "scale_ok scale" "set scale = set bars"
proof -
  have scale: "scale = sort_key bar_key bars" "\<not> list_ex (\<lambda>(l, r). bar_tvl l = bar_tvl r) (zip scale (tl scale))"
    "\<exists>b \<in> set bars. bar_tvl b = 0"
    using assms(1) by (auto simp: scale_try_from_def add_non_overlapping_def Let_def list_ex_iff split: if_splits)
  have "sorted (map bar_key scale)" by (simp add: scale(1))
  then have "sorted_wrt (\<lambda>l r. bar_tvl l \<le> bar_tvl r) scale"
    by (auto simp: sorted_wrt_map bar_key_def less_eq_prod_def elim!: sorted_wrt_mono_rel [rotated])
  from sorted_no_duplicates [OF this scale(2)] show "scale_ok scale"
    using scale(1,3) assms(2) by (simp add: scale_ok_def)
  show "set scale = set bars" by (simp add: scale(1))
qed

lemma takeWhile_last:
  assumes "sorted_wrt (\<lambda>l r. bar_tvl l < bar_tvl r) scale" "takeWhile (\<lambda>b. bar_tvl b \<le> t) scale \<noteq> []"
    "b = scale ! (length (takeWhile (\<lambda>b. bar_tvl b \<le> t) scale) - 1)"
  shows "b \<in> set scale" "bar_tvl b \<le> t" "\<And>b'. b' \<in> set scale \<Longrightarrow> bar_tvl b' \<le> t \<Longrightarrow> bar_tvl b' \<le> bar_tvl b"
proof -
  let ?tw = "takeWhile (\<lambda>b. bar_tvl b \<le> t) scale"
  let ?n = "length ?tw - 1"
  have n: "?n < length ?tw" "length ?tw \<le> length scale"
    using assms(2) by (simp_all add: length_takeWhile_le)
  then have b: "b = ?tw ! ?n" by (simp add: assms(3) takeWhile_nth)
  then have "b \<in> set ?tw" using n(1) by simp
  then show "b \<in> set scale" "bar_tvl b \<le> t" by (auto dest: set_takeWhileD)
  fix b' assume b': "b' \<in> set scale" "bar_tvl b' \<le> t"
  then obtain j where j: "j < length scale" "b' = scale ! j" by (auto simp: in_set_conv_nth)
  have "j < length ?tw"
  proof (rule ccontr)
    assume "\<not> j < length ?tw"
    then have le: "length ?tw \<le> j" by simp
    then have "length ?tw < length scale" using j(1) by simp
    then have "\<not> bar_tvl (scale ! length ?tw) \<le> t" by (rule nth_length_takeWhile)
    moreover have "bar_tvl (scale ! length ?tw) \<le> bar_tvl (scale ! j)"
      using sorted_wrt_nth_less [OF assms(1)] le j(1) by (cases "length ?tw = j") (auto intro: less_imp_le)
    ultimately show False using b' j by simp
  qed
  then have "j \<le> ?n" by simp
  then show "bar_tvl b' \<le> bar_tvl b"
    using sorted_wrt_nth_less [OF assms(1), of j ?n] n j assms(3) by (cases "j = ?n") (auto intro: less_imp_le)
qed

lemma get_apr_of_scale:
  assumes "scale_ok scale"
  shows "\<exists>b \<in> set scale. get_apr scale (Coin t :: 's coin) = Some (bar_apr b) \<and> bar_tvl b * tvl_scale_factor \<le> t
    \<and> (\<forall>b' \<in> set scale. bar_tvl b' * tvl_scale_factor \<le> t \<longrightarrow> bar_tvl b' \<le> bar_tvl b)"
proof -
  define q where "q = t div tvl_scale_factor"
  have le: "n * tvl_scale_factor \<le> t \<longleftrightarrow> n \<le> q" for n
    by (simp add: q_def less_eq_div_iff_mult_less_eq tvl_scale_factor_def)
  let ?tw = "takeWhile (\<lambda>b. bar_tvl b \<le> q) scale"
  have "partition_point (\<lambda>b. do { c \<leftarrow> tvl_as_coin (bar_tvl b); Some (c \<le> (Coin t :: 's coin)) }) scale = Some (length ?tw)"
    using assms by (intro partition_point_sorted) (simp add: scale_ok_def tvl_as_coin_fits coin_order le)
  moreover have ne: "?tw \<noteq> []"
  proof -
    obtain b where b: "b \<in> set scale" "bar_tvl b = 0" using assms by (auto simp: scale_ok_def)
    obtain x xs where xs: "scale = x # xs" using b(1) by (cases scale) auto
    then have "bar_tvl x \<le> bar_tvl b" using assms b(1) by (auto simp: scale_ok_def)
    then show ?thesis using b(2) xs by simp
  qed
  moreover have "length ?tw - 1 < length scale"
  proof -
    have "length ?tw \<le> length scale" by (rule length_takeWhile_le)
    moreover have "0 < length ?tw" using ne by (rule length_greater_0_conv [THEN iffD2])
    ultimately show ?thesis by linarith
  qed
  ultimately have apr: "get_apr scale (Coin t :: 's coin) = Some (bar_apr (scale ! (length ?tw - 1)))"
    by (simp add: get_apr_def del: inversion_simps)
  note last = takeWhile_last [OF _ ne refl]
  show ?thesis
    using apr last assms by (intro bexI [of _ "scale ! (length ?tw - 1)"]) (auto simp: le scale_ok_def)
qed

section \<open>A dispatch\<close>

lemma tvls_Some: "tvls acc ps = Some r \<Longrightarrow> amount r = amount acc + (\<Sum>p \<leftarrow> ps. amount (pool_locked p))"
  by (induction acc ps rule: tvls.induct) (auto simp: coin_add_Some)

lemma collect_pools_Inr:
  "collect_pools ps = Inr pools \<longleftrightarrow>
     list_all2 (\<lambda>p q. \<exists>bal. stable_balance p = Some bal
       \<and> q = \<lparr>pool_lpp = protocol_lpp p, pool_locked = bal, pool_nls_price = nls_in_stable p\<rparr>) ps pools"
  by (induction ps arbitrary: pools) (auto simp: pool_stub_new_def list_all2_Cons1)

text \<open>The reward of a pool: the yearly percent of its balance for the period, at the price of the coin.\<close>

definition reward_of :: "percent \<Rightarrow> duration \<Rightarrow> ('n, 's) pool_stub \<Rightarrow> 'n coin \<Rightarrow> bool" where
  "reward_of apr dur pool r =
     (\<exists>price. pool_nls_price pool = Some price
       \<and> total (Coin (interest_amount (percent_ratio apr) (amount (pool_locked pool)) (nanos dur))) (price_inv price) = Some r)"

lemma distribute_all_Inr:
  "distribute_all resp pools apr dur = Inr msgs \<Longrightarrow>
     \<exists>rewards. list_all2 (reward_of apr dur) pools rewards
       \<and> msgs = resp @ concat (map2 (\<lambda>pool r. lpp_distribute (pool_lpp pool) r) pools rewards)"
proof (induction resp pools apr dur rule: distribute_all.induct)
  case (2 resp p ps apr dur)
  then obtain resp2 where first: "distribute_rewards p apr dur = Inr resp2"
    and rest: "distribute_all (resp @ resp2) ps apr dur = Inr msgs" by auto
  from first obtain r where r: "reward_of apr dur p r" "resp2 = lpp_distribute (pool_lpp p) r"
    by (auto simp: distribute_rewards_def reward_of_def dest!: interest_Some [rotated])
  from 2 first rest obtain rewards where "list_all2 (reward_of apr dur) ps rewards"
    "msgs = (resp @ resp2) @ concat (map2 (\<lambda>pool r. lpp_distribute (pool_lpp pool) r) ps rewards)" by blast
  with r show ?case by (intro exI [of _ "r # rewards"]) simp
qed simp

text \<open>
  C31. A dispatch, which only the time alarms may ask for, rewards every pool of the registry for
  the time since the last one, at the rate of the highest bar of the scale that the total value
  locked reaches, converted to the native coin; it records the time and asks for the next
  alarm after the cadence. A pool that earns nothing is sent nothing.
\<close>

theorem treasury_dispatch_spec:
  fixes protocols :: "('n, 's) protocol_answers list option"
  assumes run: "treasury_execute code_of protocols s now sender = Inr (s', msgs)"
    and scale: "scale_try_from bars = Inr (tvl_to_apr (treasury_config s))" "\<forall>b \<in> set bars. bar_tvl b < 2 ^ 32"
    and prev: "dispatch_log s = Some since"
  shows "treasury_timealarms s = Some sender \<and> since \<le> now \<and> s' = s\<lparr>dispatch_log := Some now\<rparr>
    \<and> (\<exists>ps pools b rewards at. protocols = Some ps \<and> collect_pools ps = Inr pools \<and> b \<in> set bars
        \<and> bar_tvl b * tvl_scale_factor \<le> (\<Sum>p \<leftarrow> pools. amount (pool_locked p))
        \<and> (\<forall>b' \<in> set bars. bar_tvl b' * tvl_scale_factor \<le> (\<Sum>p \<leftarrow> pools. amount (pool_locked p))
              \<longrightarrow> bar_tvl b' \<le> bar_tvl b)
        \<and> list_all2 (reward_of (bar_apr b) (Duration (at_nanos now - at_nanos since))) pools rewards
        \<and> timestamp_add now (from_hours (cadence_hours (treasury_config s))) = Some at
        \<and> msgs = concat (map2 (\<lambda>pool r. lpp_distribute (pool_lpp pool) r) pools rewards) @ [AddAlarmAt sender at])"
proof -
  obtain alarms span reward rewards_msgs where
    sender: "treasury_timealarms s = Some sender"
    and alarms: "setup_time_alarm code_of sender now (from_hours (cadence_hours (treasury_config s))) = Inr alarms"
    and s': "since \<le> now" "s' = s\<lparr>dispatch_log := Some now\<rparr>"
    and span: "duration_between since now = Some span"
    and reward: "try_build_reward (treasury_config s) protocols = Inr reward"
    and dist: "distribute_all [] (calc_pools reward) (calc_apr reward) span = Inr rewards_msgs"
    and msgs: "msgs = rewards_msgs @ alarms"
    using run prev
    by (auto simp: treasury_execute_def try_dispatch_def log_update_def last_dispatch_def not_less split: if_splits)
  obtain at where at: "timestamp_add now (from_hours (cadence_hours (treasury_config s))) = Some at"
      "alarms = [AddAlarmAt sender at]"
    using alarms by (auto simp: setup_time_alarm_def)
  obtain ps pools tvl where ps: "protocols = Some ps" "collect_pools ps = Inr pools"
    and tvl: "tvls (Coin 0) pools = Some tvl" "get_apr (tvl_to_apr (treasury_config s)) tvl = Some (calc_apr reward)"
      "calc_pools reward = pools"
    using reward by (auto simp: try_build_reward_def reward_calculator_new_def)
  have tvl_amount: "tvl = Coin (\<Sum>p \<leftarrow> pools. amount (pool_locked p))"
    using tvls_Some [OF tvl(1)] by (cases tvl) simp
  let ?tvl = "\<Sum>p \<leftarrow> pools. amount (pool_locked p)"
  obtain b where bar: "b \<in> set bars" "get_apr (tvl_to_apr (treasury_config s)) (Coin ?tvl :: 's coin) = Some (bar_apr b)"
    and b: "bar_tvl b * tvl_scale_factor \<le> ?tvl"
      "\<forall>b' \<in> set bars. bar_tvl b' * tvl_scale_factor \<le> ?tvl \<longrightarrow> bar_tvl b' \<le> bar_tvl b"
    using get_apr_of_scale [OF scale_try_from_ok(1) [OF scale], of ?tvl] unfolding scale_try_from_ok(2) [OF scale]
    by blast
  have apr: "calc_apr reward = bar_apr b"
    using bar(2) tvl(2) by (simp add: tvl_amount)
  have "span = Duration (at_nanos now - at_nanos since)"
    using span by (auto simp: duration_between_def op_defs split: if_splits)
  then obtain rewards where "list_all2 (reward_of (bar_apr b) (Duration (at_nanos now - at_nanos since))) pools rewards"
      "rewards_msgs = concat (map2 (\<lambda>pool r. lpp_distribute (pool_lpp pool) r) pools rewards)"
    using distribute_all_Inr [OF dist] tvl(3) apr by auto
  then show ?thesis
    using sender s' ps bar(1) b at msgs by blast
qed

definition run_treasury :: treasury where
  "run_treasury =
     \<lparr>treasury_timealarms = Some ''alarms'',
      treasury_config = \<lparr>cadence_hours = 24, protocols_registry = ''admin'',
        tvl_to_apr = [\<lparr>bar_tvl = 0, bar_apr = Percent 100\<rparr>, \<lparr>bar_tvl = 1, bar_apr = Percent 50\<rparr>]\<rparr>,
      dispatch_log = Some (Timestamp 0)\<rparr>"

definition run_protocols :: "(unit, unit) protocol_answers list option" where
  "run_protocols = Some [\<lparr>protocol_lpp = ''lpp'', stable_balance = Some (Coin 2000000000), nls_in_stable = Some price_identity\<rparr>]"

lemma run_treasury_dispatch:
  "treasury_execute (\<lambda>_. Some 1) run_protocols run_treasury (Timestamp (nanos duration_year)) ''alarms'' =
     Inr (run_treasury\<lparr>dispatch_log := Some (Timestamp (nanos duration_year))\<rparr>,
       [DistributeRewardsTo ''lpp'' (Coin 100000000),
        AddAlarmAt ''alarms'' (Timestamp (nanos duration_year + nanos (from_hours 24)))])"
  by (simp add: treasury_execute_def try_dispatch_def setup_time_alarm_def log_update_def last_dispatch_def
      try_build_reward_def pool_stub_new_def reward_calculator_new_def get_apr_def tvl_as_coin_def tvl_scale_factor_def
      distribute_rewards_def lpp_distribute_def interest_def annualized_slice_of_def total_def price_identity_def
      price_inv_def duration_between_def op_defs time_consts from_days_def from_hours_def from_secs_def from_nanos_def validate_addr_def timestamp_add_def coin_order
      run_treasury_def run_protocols_def coin_is_zero_def time_order del: inversion_simps)

theorem treasury_dispatch_spec_witness:
  "\<exists>pools rewards at. collect_pools (the run_protocols) = Inr pools
     \<and> list_all2 (reward_of (Percent 50) (Duration (nanos duration_year))) pools rewards
     \<and> [DistributeRewardsTo ''lpp'' (Coin 100000000), AddAlarmAt ''alarms'' (Timestamp (nanos duration_year + nanos (from_hours 24)))]
         = concat (map2 (\<lambda>pool r. lpp_distribute (pool_lpp pool) r) pools rewards) @ [AddAlarmAt ''alarms'' at]"
proof -
  let ?bars = "[\<lparr>bar_tvl = 1, bar_apr = Percent 50\<rparr>, \<lparr>bar_tvl = 0, bar_apr = Percent 100\<rparr>]"
  have scale: "scale_try_from ?bars = Inr (tvl_to_apr (treasury_config run_treasury))"
    by (simp add: scale_try_from_def add_non_overlapping_def bar_key_def run_treasury_def less_eq_prod_def)
  obtain ps pools b rewards at where ps: "run_protocols = Some ps" "collect_pools ps = Inr pools" "b \<in> set ?bars"
      "\<forall>b' \<in> set ?bars. bar_tvl b' * tvl_scale_factor \<le> (\<Sum>p \<leftarrow> pools. amount (pool_locked p)) \<longrightarrow> bar_tvl b' \<le> bar_tvl b"
    and rewards: "list_all2 (reward_of (bar_apr b) (Duration (nanos duration_year - 0))) pools rewards"
      "[DistributeRewardsTo ''lpp'' (Coin 100000000), AddAlarmAt ''alarms'' (Timestamp (nanos duration_year + nanos (from_hours 24)))]
         = concat (map2 (\<lambda>pool r. lpp_distribute (pool_lpp pool) r) pools rewards) @ [AddAlarmAt ''alarms'' at]"
    using treasury_dispatch_spec [OF run_treasury_dispatch scale, of "Timestamp 0"]
    by (auto simp: run_treasury_def)
  have "the run_protocols = ps" by (simp add: ps(1))
  then have col: "collect_pools (the run_protocols) = Inr pools" by (simp add: ps(2))
  have "pools = [\<lparr>pool_lpp = ''lpp'', pool_locked = Coin 2000000000, pool_nls_price = Some price_identity\<rparr>]"
    using ps(1,2) by (auto simp: run_protocols_def pool_stub_new_def)
  then have "bar_apr b = Percent 50"
    using ps(3,4) by (auto simp: tvl_scale_factor_def)
  then show ?thesis
    using col rewards by (intro exI [of _ pools] exI [of _ rewards] exI [of _ at]) simp
qed

end
