(* ===== verification/Swap_Client.thy ===== *)
theory Swap_Client
  imports Dex_Account Supported_Pairs
begin

text \<open>
  The clients of the exchanges (\<open>swap/src/astroport/mod.rs\<close>, \<open>swap/src/osmosis/mod.rs\<close>), the
  implementations of the trait \<open>ExactAmountIn\<close> of \<open>dex/src/swap.rs\<close>: a client builds the request
  for the swap of one coin along a path of the oracle and reads the amount that came out from
  the responses of the transaction. The protobuf and JSON decoders are fields of
  \<open>wire\<close>; the locale \<open>exact_amount_in\<close> states what a swap relies on.
\<close>

datatype swap_error =
    SwapPlatform platform_error
  | SwapStd
  | InvalidAmount string
  | MissingResponse string

record any_msg =
  type_url :: string
  any_value :: string

record wire =
  decode_trx_data :: "string \<Rightarrow> any_msg list option"
  decode_proto :: "string \<Rightarrow> string \<Rightarrow> string option"
  json_return_amount :: "string \<Rightarrow> nat option"
  parse_amount :: "string \<Rightarrow> nat option"
  json_open_ack :: "string \<Rightarrow> string option"

definition decode_msg_responses :: "wire \<Rightarrow> string \<Rightarrow> (platform_error, any_msg list) res" where
  "decode_msg_responses w resp = ok_or ProtobufDecode (decode_trx_data w resp)"

text \<open>The field of interest of the response of a type, decoded by \<open>decode_proto\<close>.\<close>

definition decode_msg_response :: "wire \<Rightarrow> any_msg \<Rightarrow> string \<Rightarrow> (platform_error, string) res" where
  "decode_msg_response w resp msg_type =
     (if type_url resp \<noteq> msg_type then Inl (Fail (ProtobufInvalidType msg_type (type_url resp)))
      else ok_or ProtobufDecode (decode_proto w msg_type (any_value resp)))"

record swap_client =
  build_request :: "network_symbols \<Rightarrow> string \<Rightarrow> coin_dto \<Rightarrow> swap_target list \<Rightarrow> trx_msg"
  parse_response :: "wire \<Rightarrow> any_msg list \<Rightarrow> (swap_error, nat \<times> any_msg list) res"

definition next_response :: "string \<Rightarrow> any_msg list \<Rightarrow> (swap_error, any_msg \<times> any_msg list) res" where
  "next_response what resps = (case resps of [] \<Rightarrow> Inl (Fail (MissingResponse what)) | r # rs \<Rightarrow> Inr (r, rs))"

section \<open>Astroport\<close>

definition ROUTER_ADDRESS :: string where
  "ROUTER_ADDRESS = ''neutron1rwj6mfxzzrwskur73v326xwuff52vygqk73lr7azkehnfzz5f5wskwekf4''"

text \<open>In percent.\<close>

definition MAX_IMPACT :: nat where
  "MAX_IMPACT = 50"

definition EXECUTE_RESPONSE :: string where
  "EXECUTE_RESPONSE = ''/cosmwasm.wasm.v1.MsgExecuteContractResponse''"

fun scan_operations :: "string \<Rightarrow> string list \<Rightarrow> swap_operation list" where
  "scan_operations last_denom [] = []"
| "scan_operations last_denom (next_denom # ds) = AstroSwap last_denom next_denom # scan_operations next_denom ds"

definition to_operations :: "network_symbols \<Rightarrow> string \<Rightarrow> swap_target list \<Rightarrow> swap_operation list" where
  "to_operations net token_in_denom swap_path =
     scan_operations token_in_denom (map (\<lambda>t. dex_symbol net (target t)) swap_path)"

definition astroport_build :: "network_symbols \<Rightarrow> string \<Rightarrow> coin_dto \<Rightarrow> swap_target list \<Rightarrow> trx_msg" where
  "astroport_build net sender token swap_path =
     (let token_in = to_cosmwasm_on_network (dex_symbol net) token
      in RouterSwap sender ROUTER_ADDRESS (to_operations net (denom token_in) swap_path) None MAX_IMPACT [token_in])"

definition astroport_parse :: "wire \<Rightarrow> any_msg list \<Rightarrow> (swap_error, nat \<times> any_msg list) res" where
  "astroport_parse w trx_resps =
     and_then (next_response ''router swap'' trx_resps) (\<lambda>(resp, rest).
     and_then (map_err SwapPlatform (decode_msg_response w resp EXECUTE_RESPONSE)) (\<lambda>data.
     map_res (\<lambda>n. (n, rest)) (ok_or SwapStd (json_return_amount w data))))"

definition astroport :: swap_client where
  "astroport = \<lparr>build_request = astroport_build, parse_response = astroport_parse\<rparr>"

section \<open>Osmosis\<close>

definition MIN_OUT_AMOUNT :: nat where
  "MIN_OUT_AMOUNT = 1"

definition SWAP_RESPONSE :: string where
  "SWAP_RESPONSE = ''/osmosis.gamm.v1beta1.MsgSwapExactAmountInResponse''"

definition to_route :: "network_symbols \<Rightarrow> swap_target list \<Rightarrow> (nat \<times> string) list" where
  "to_route net swap_path = map (\<lambda>t. (pool_id t, dex_symbol net (target t))) swap_path"

definition osmosis_build :: "network_symbols \<Rightarrow> string \<Rightarrow> coin_dto \<Rightarrow> swap_target list \<Rightarrow> trx_msg" where
  "osmosis_build net sender token swap_path =
     PoolSwap sender (to_route net swap_path) (to_cosmwasm_on_network (dex_symbol net) token) MIN_OUT_AMOUNT"

definition osmosis_parse :: "wire \<Rightarrow> any_msg list \<Rightarrow> (swap_error, nat \<times> any_msg list) res" where
  "osmosis_parse w trx_resps =
     and_then (next_response ''swap of exact amount request'' trx_resps) (\<lambda>(response, rest).
     and_then (map_err SwapPlatform (decode_msg_response w response SWAP_RESPONSE)) (\<lambda>amount.
     map_res (\<lambda>n. (n, rest)) (ok_or (InvalidAmount amount) (parse_amount w amount))))"

definition osmosis :: swap_client where
  "osmosis = \<lparr>build_request = osmosis_build, parse_response = osmosis_parse\<rparr>"

section \<open>The contract of a client\<close>

text \<open>
  The coins that a swap request takes from the account on the exchange, and where a request
  ends: the denomination it asks for last.
\<close>

fun trx_takes :: "trx_msg \<Rightarrow> cw_coin list" where
  "trx_takes (RouterSwap _ _ _ _ _ funds) = funds"
| "trx_takes (PoolSwap _ _ token _) = [token]"
| "trx_takes (MsgTransfer _ _ _ token _) = [token]"

fun operations_lead :: "string \<Rightarrow> swap_operation list \<Rightarrow> string \<Rightarrow> bool" where
  "operations_lead from [] to \<longleftrightarrow> from = to"
| "operations_lead from (AstroSwap offer ask # ops) to \<longleftrightarrow> offer = from \<and> operations_lead ask ops to"

fun trx_leads :: "trx_msg \<Rightarrow> string \<Rightarrow> string \<Rightarrow> bool" where
  "trx_leads (RouterSwap _ _ ops _ _ _) from to \<longleftrightarrow> operations_lead from ops to"
| "trx_leads (PoolSwap _ route _ _) from to \<longleftrightarrow> last (from # map snd route) = to"
| "trx_leads (MsgTransfer _ _ _ _ _) from to \<longleftrightarrow> from = to"

text \<open>The denomination at the end of a path that starts with a currency.\<close>

definition path_end :: "network_symbols \<Rightarrow> string \<Rightarrow> swap_target list \<Rightarrow> string" where
  "path_end net from swap_path = dex_symbol net (last (from # map target swap_path))"

lemma operations_lead_scan: "operations_lead f (scan_operations f ds) (last (f # ds))"
  by (induction ds arbitrary: f) auto

lemma last_map_symbol: "last (f x # map (\<lambda>t. f (g t)) ts) = f (last (x # map g ts))"
  by (induction ts rule: rev_induct) auto

locale exact_amount_in =
  fixes client :: swap_client
  assumes takes: "trx_takes (build_request client net sender token path) =
      [to_cosmwasm_on_network (dex_symbol net) token]"
    and leads: "trx_leads (build_request client net sender token path)
      (dex_symbol net (coin_ticker token)) (path_end net (coin_ticker token) path)"
    and one_response: "parse_response client w resps = Inr (n, rest) \<Longrightarrow> \<exists>r. resps = r # rest"
begin

text \<open>As many swaps, as many responses.\<close>

lemma parse_shorter: "parse_response client w resps = Inr (n, rest) \<Longrightarrow> length resps = Suc (length rest)"
  using one_response by fastforce

lemma parse_Nil: "parse_response client w [] \<noteq> Inr (n, rest)"
  using one_response by blast

end

lemma next_response_Inr [simp]: "next_response what resps = Inr (r, rest) \<longleftrightarrow> resps = r # rest"
  by (cases resps) (auto simp: next_response_def)

interpretation astroport: exact_amount_in astroport
proof (unfold_locales, goal_cases)
  case (1 net sender token path)
  then show ?case by (simp add: astroport_def astroport_build_def Let_def)
next
  case (2 net sender token path)
  show ?case
    using operations_lead_scan [of "dex_symbol net (coin_ticker token)" "map (\<lambda>t. dex_symbol net (target t)) path"]
    unfolding last_map_symbol
    by (simp add: astroport_def astroport_build_def Let_def to_operations_def to_cosmwasm_on_network_def
        path_end_def)
next
  case (3 w resps n rest)
  then show ?case by (auto simp: astroport_def astroport_parse_def)
qed

interpretation osmosis: exact_amount_in osmosis
proof (unfold_locales, goal_cases)
  case (1 net sender token path)
  then show ?case by (simp add: osmosis_def osmosis_build_def)
next
  case (2 net sender token path)
  then show ?case
    using last_map_symbol [of "dex_symbol net" "coin_ticker token" target path]
    by (simp add: osmosis_def osmosis_build_def to_route_def path_end_def comp_def)
next
  case (3 w resps n rest)
  then show ?case by (auto simp: osmosis_def osmosis_parse_def)
qed

end
