(* ===== verification/Dex_Handler.thy ===== *)
theory Dex_Handler
  imports Swap_Client
begin

text \<open>
  The ground of the swap state machines (\<open>dex/src/impl_\<close>): the swap task and the visits of its
  coins (\<open>swap_task.rs\<close>, \<open>swap_coins.rs\<close>, \<open>coin_index.rs\<close>, \<open>filter.rs\<close>), the trait \<open>Handler\<close> with its
  default operations (\<open>response.rs\<close>), and the guaranteed delivery of a response
  (\<open>resp_delivery\<close>). A trait is a record of functions and its defaults are a value of it that an
  implementation updates. The chain, the oracle and the decoders are in \<open>dex_env\<close>, that a
  contract extends with what its own operations ask for.
\<close>

section \<open>Environment and errors\<close>

record dex_env =
  dx_now :: timestamp
  dx_self :: addr
  dx_net :: network_symbols
  dx_wire :: wire
  dx_client :: swap_client
  dx_balance :: "string \<Rightarrow> nat option"
  dx_swap_path :: "string \<Rightarrow> string \<Rightarrow> swap_target list option"

datatype dex_error =
    DexFinance
  | DexPlatform platform_error
  | DexSwap swap_error
  | DexUnsupportedOperation string string
  | DexOracleSwap
  | DexTimeAlarm

definition unsupported :: "string \<Rightarrow> string \<Rightarrow> (dex_error, 'a) res" where
  "unsupported op state = Inl (Fail (DexUnsupportedOperation op state))"

section \<open>Swap tasks\<close>

record ('sp, 'e, 'r) swap_task =
  task_label :: "'sp \<Rightarrow> string"
  task_account :: "'sp \<Rightarrow> account"
  task_time_alarms :: "'sp \<Rightarrow> addr"
  task_out_currency :: "'sp \<Rightarrow> string"
  task_coins :: "'sp \<Rightarrow> coin_dto list"
  task_finish :: "'sp \<Rightarrow> coin_dto \<Rightarrow> 'e \<Rightarrow> 'r"

datatype iter_state = Complete | Incomplete

datatype iter_next = IterStop | IterContinue

type_synonym ('s, 'e) visitor = "coin_dto \<Rightarrow> 's \<Rightarrow> ('e, iter_next \<times> 's) res"

definition on_coin :: "('s, 'e) visitor \<Rightarrow> coin_dto \<Rightarrow> 's \<Rightarrow> ('e, iter_state \<times> 's) res" where
  "on_coin visit c s = map_res (\<lambda>(_, s'). (Complete, s')) (visit c s)"

definition on_two_coins :: "('s, 'e) visitor \<Rightarrow> coin_dto \<Rightarrow> coin_dto \<Rightarrow> 's \<Rightarrow> ('e, iter_state \<times> 's) res" where
  "on_two_coins visit coin1 coin2 s =
     and_then (visit coin1 s) (\<lambda>(next, s').
       case next of IterContinue \<Rightarrow> on_coin visit coin2 s' | IterStop \<Rightarrow> Inr (Incomplete, s'))"

text \<open>The visit of any number of coins, in order and up to the first stop.\<close>

fun on_coins :: "('s, 'e) visitor \<Rightarrow> coin_dto list \<Rightarrow> 's \<Rightarrow> ('e, iter_state \<times> 's) res" where
  "on_coins visit [] s = Inr (Complete, s)"
| "on_coins visit (c # cs) s =
     and_then (visit c s) (\<lambda>(next, s').
       case next of
         IterStop \<Rightarrow> Inr (if cs = [] then Complete else Incomplete, s')
       | IterContinue \<Rightarrow> on_coins visit cs s')"

lemma on_coin_eq: "on_coin visit c s = on_coins visit [c] s"
  by (auto simp: on_coin_def and_then_def map_res_def split: sum.splits prod.splits iter_next.splits)

lemma on_two_coins_eq: "on_two_coins visit c1 c2 s = on_coins visit [c1, c2] s"
  by (auto simp: on_two_coins_def on_coin_eq split: iter_next.splits intro!: arg_cong [of _ _ "and_then _"])

text \<open>The visit of the coin at an index, a number of eight bits.\<close>

definition index_visit ::
  "(coin_dto \<Rightarrow> 's \<Rightarrow> ('e, 's) res) \<Rightarrow> (nat \<times> 's, 'e) visitor" where
  "index_visit visit c = (\<lambda>(index, s).
     if index = 0 then map_res (\<lambda>s'. (IterStop, index, s')) (visit c s)
     else Inr (IterContinue, index - 1, s))"

definition visit_at_index ::
  "(coin_dto \<Rightarrow> 's \<Rightarrow> ('e, 's) res) \<Rightarrow> coin_dto list \<Rightarrow> nat \<Rightarrow> 's \<Rightarrow> ('e, iter_state \<times> 's) res" where
  "visit_at_index visit coins coin_index s =
     map_res (\<lambda>(it, _, s'). (it, s')) (on_coins (index_visit visit) coins (coin_index, s))"

text \<open>The visit of the coins that are not in a currency; the others are summed up.\<close>

record 's currency_filter =
  filter_worker :: 's
  filtered :: nat
  passed_any :: bool

definition currency_filter_new :: "'s \<Rightarrow> 's currency_filter" where
  "currency_filter_new v = \<lparr>filter_worker = v, filtered = 0, passed_any = False\<rparr>"

definition filter_visit :: "string \<Rightarrow> ('s, 'e) visitor \<Rightarrow> ('s currency_filter, 'e) visitor" where
  "filter_visit currency visit c s =
     (if coin_ticker c = currency
      then map_res (\<lambda>total. (IterContinue, s\<lparr>filtered := total\<rparr>))
             (or_panic (checked_add 128 (filtered s) (coin_units c)))
      else map_res (\<lambda>(next, v). (next, s\<lparr>filter_worker := v, passed_any := True\<rparr>))
             (visit c (filter_worker s)))"

text \<open>The count of the coins, as the index of the last one.\<close>

datatype too_many_coins = TooManyCoins

definition counter_visit :: "(nat option, too_many_coins) visitor" where
  "counter_visit c last_index =
     (case last_index of
        None \<Rightarrow> Inr (IterContinue, Some 0)
      | Some i \<Rightarrow> if i + 1 < 2 ^ 8 then Inr (IterContinue, Some (i + 1)) else Inl (Fail TooManyCoins))"

definition last_coin_index_of :: "coin_dto list \<Rightarrow> nat option" where
  "last_coin_index_of coins =
     (case on_coins counter_visit coins None of Inl _ \<Rightarrow> None | Inr (_, last_index) \<Rightarrow> last_index)"

section \<open>Handlers\<close>

type_synonym 's continue_result = "(dex_error, dex_msg list \<times> 's) res"

datatype ('s, 'r) handled = Continue "'s continue_result" | Finished 'r

record ('h, 'e, 's, 'r) handler =
  h_display :: "'h \<Rightarrow> string"
  h_on_open_ica :: "'h \<Rightarrow> string \<Rightarrow> 'e \<Rightarrow> 's continue_result"
  h_on_response :: "'h \<Rightarrow> string \<Rightarrow> 'e \<Rightarrow> ('s, 'r) handled"
  h_on_error :: "'h \<Rightarrow> 'e \<Rightarrow> 's continue_result"
  h_on_timeout :: "'h \<Rightarrow> 'e \<Rightarrow> 's continue_result"
  h_on_inner :: "'h \<Rightarrow> 'e \<Rightarrow> ('s, 'r) handled"
  h_on_inner_continue :: "'h \<Rightarrow> 'e \<Rightarrow> 's continue_result"
  h_heal :: "'h \<Rightarrow> 'e \<Rightarrow> ('s, 'r) handled"
  h_reply :: "'h \<Rightarrow> 'e \<Rightarrow> 's continue_result"
  h_on_time_alarm :: "'h \<Rightarrow> 'e \<Rightarrow> ('s, 'r) handled"

definition default_handler :: "('h \<Rightarrow> string) \<Rightarrow> ('h, 'e, 's, 'r) handler" where
  "default_handler disp =
     \<lparr>h_display = disp,
      h_on_open_ica = (\<lambda>h _ _. unsupported ''handle open ica response'' (disp h)),
      h_on_response = (\<lambda>h _ _. Continue (unsupported ''handle transaction response'' (disp h))),
      h_on_error = (\<lambda>h _. unsupported ''handle transaction error'' (disp h)),
      h_on_timeout = (\<lambda>h _. unsupported ''handle transaction timeout'' (disp h)),
      h_on_inner = (\<lambda>h _. Continue (unsupported ''handle inner'' (disp h))),
      h_on_inner_continue = (\<lambda>h _. unsupported ''handle inner to 'Continue' response'' (disp h)),
      h_heal = (\<lambda>h _. Continue (unsupported ''handle heal'' (disp h))),
      h_reply = (\<lambda>h _. unsupported ''handle reply'' (disp h)),
      h_on_time_alarm = (\<lambda>h _. Continue (unsupported ''handle time alarm'' (disp h)))\<rparr>"

text \<open>A retry enters the same state again.\<close>

definition on_timeout_retry ::
  "('h \<Rightarrow> 'e \<Rightarrow> (dex_error, dex_msg list) res) \<Rightarrow> ('h \<Rightarrow> 's) \<Rightarrow> 'h \<Rightarrow> 'e \<Rightarrow> 's continue_result" where
  "on_timeout_retry enter into current_state env =
     map_res (\<lambda>batch. (batch, into current_state)) (enter current_state env)"

section \<open>Response delivery\<close>

record ('h, 'b) resp_delivery =
  rd_handler :: 'h
  rd_response :: 'b

definition REPLY_ID :: nat where
  "REPLY_ID = 12345678901"

definition RIGHT_AFTER_NOW :: duration where
  "RIGHT_AFTER_NOW = from_nanos 1"

record ('h, 'b, 'e, 's, 'r) delivery_adapter =
  deliver :: "'h \<Rightarrow> 'b \<Rightarrow> 'e \<Rightarrow> ('s, 'r) handled"
  deliver_continue :: "'h \<Rightarrow> 'b \<Rightarrow> 'e \<Rightarrow> 's continue_result"
  deliver_again :: "'h \<Rightarrow> 'b \<Rightarrow> 'e \<Rightarrow> ('s, 'r) handled"

definition response_delivery_adapter ::
  "('h, 'e, 's, 'r) handler \<Rightarrow> ('h, string, 'e, 's, 'r) delivery_adapter" where
  "response_delivery_adapter hops =
     \<lparr>deliver = h_on_response hops,
      deliver_continue = (\<lambda>h _ _. unsupported ''deliver ica_open response'' (h_display hops h)),
      deliver_again = h_on_response hops\<rparr>"

definition ica_open_delivery_adapter ::
  "('h, 'e, 's, 'r) handler \<Rightarrow> ('h, string, 'e, 's, 'r) delivery_adapter" where
  "ica_open_delivery_adapter hops =
     \<lparr>deliver = (\<lambda>h _ _. Continue (unsupported ''deliver transaction response'' (h_display hops h))),
      deliver_continue = h_on_open_ica hops,
      deliver_again = (\<lambda>h r env. Continue (h_on_open_ica hops h r env))\<rparr>"

definition resp_delivery_enter :: "addr \<Rightarrow> callback \<Rightarrow> dex_msg list" where
  "resp_delivery_enter myself cb = [CallSelfReplyOnError myself cb REPLY_ID]"

definition setup_next_delivery ::
  "('h \<Rightarrow> timestamp \<Rightarrow> dex_msg list) \<Rightarrow> (('h, 'b) resp_delivery \<Rightarrow> 's) \<Rightarrow> ('h, 'b) resp_delivery
     \<Rightarrow> timestamp \<Rightarrow> 's continue_result" where
  "setup_next_delivery alarm into rd now =
     map_res (\<lambda>at. (alarm (rd_handler rd) at, into rd)) (or_panic (timestamp_add now RIGHT_AFTER_NOW))"

definition resp_delivery_handler ::
  "('h, 'x dex_env_scheme, 's, 'r) handler \<Rightarrow> ('h, 'b, 'x dex_env_scheme, 's, 'r) delivery_adapter
     \<Rightarrow> ('h \<Rightarrow> timestamp \<Rightarrow> dex_msg list) \<Rightarrow> (('h, 'b) resp_delivery \<Rightarrow> 's)
     \<Rightarrow> (('h, 'b) resp_delivery, 'x dex_env_scheme, 's, 'r) handler" where
  "resp_delivery_handler hops adapter alarm into =
     (default_handler (\<lambda>rd. ''ResponseDelivery('' @ h_display hops (rd_handler rd) @ '')''))
       \<lparr>h_on_inner := (\<lambda>rd env. deliver adapter (rd_handler rd) (rd_response rd) env),
        h_on_inner_continue := (\<lambda>rd env. deliver_continue adapter (rd_handler rd) (rd_response rd) env),
        h_reply := (\<lambda>rd env. setup_next_delivery alarm into rd (dx_now env)),
        h_on_time_alarm := (\<lambda>rd env. deliver_again adapter (rd_handler rd) (rd_response rd) env)\<rparr>"

text \<open>The first delivery is a message of the contract to itself, with a reply on an error.\<close>

definition forward_to_inner ::
  "(('h, string) resp_delivery \<Rightarrow> 's) \<Rightarrow> callback \<Rightarrow> 'h \<Rightarrow> string \<Rightarrow> 'x dex_env_scheme \<Rightarrow> 's continue_result" where
  "forward_to_inner into cb inner response env =
     Inr (resp_delivery_enter (dx_self env) cb, into \<lparr>rd_handler = inner, rd_response = response\<rparr>)"

lemmas resp_delivery_defs =
  resp_delivery_handler_def response_delivery_adapter_def ica_open_delivery_adapter_def
  setup_next_delivery_def forward_to_inner_def resp_delivery_enter_def

end
