(* ===== verification/Dex_Swap.thy ===== *)
theory Dex_Swap
  imports Dex_Handler
begin

text \<open>
  The states of a swap over an inter-chain account (\<open>dex/src/impl_\<close>): opening the account
  (\<open>ica_connector.rs\<close>), the transfer of the coins to the exchange one by one
  (\<open>transfer_out.rs\<close>), the swap (\<open>swap_exact_in.rs\<close>), and the transfer of what came out back in
  two stages (\<open>transfer_in_init.rs\<close>, \<open>transfer_in_finish.rs\<close>); then the two state machines made
  of them, \<open>out_local.rs\<close> that brings the result back and \<open>out_remote.rs\<close> that leaves it on the
  exchange. A state converts into the state machine by the function arguments \<open>into\<close>.
\<close>

section \<open>Transfer out\<close>

record 'sp transfer_out =
  to_spec :: 'sp
  coin_index :: nat
  last_coin_index :: nat

record 'sp swap_exact_in =
  sw_spec :: 'sp

definition transfer_out_new ::
  "('sp, 'x dex_env_scheme, 'r) swap_task \<Rightarrow> 'sp \<Rightarrow> 'sp transfer_out option" where
  "transfer_out_new task spec =
     map_option (\<lambda>last_index. \<lparr>to_spec = spec, coin_index = 0, last_coin_index = last_index\<rparr>)
       (last_coin_index_of (task_coins task spec))"

definition last_coin :: "'sp transfer_out \<Rightarrow> bool" where
  "last_coin st \<longleftrightarrow> coin_index st = last_coin_index st"

definition transfer_out_next :: "'sp transfer_out \<Rightarrow> 'sp transfer_out option" where
  "transfer_out_next st =
     map_option (\<lambda>next_index. st\<lparr>coin_index := next_index\<rparr>) (checked_add 8 (coin_index st) 1)"

definition transfer_out_enter ::
  "('sp, 'x dex_env_scheme, 'r) swap_task \<Rightarrow> 'sp transfer_out \<Rightarrow> 'x dex_env_scheme
     \<Rightarrow> (dex_error, dex_msg list) res" where
  "transfer_out_enter task st env =
     and_then (or_panic (transfer_to (task_account task (to_spec st)) (dx_now env))) (\<lambda>sender.
     map_res (\<lambda>(_, sender'). local_batch sender')
       (visit_at_index (\<lambda>c s. Inr (local_send (dx_net env) c s)) (task_coins task (to_spec st))
         (coin_index st) sender))"

section \<open>Swap\<close>

definition swap_visit :: "'x dex_env_scheme \<Rightarrow> string \<Rightarrow> string \<Rightarrow> (trx_msg list, dex_error) visitor" where
  "swap_visit env host out c trx =
     map_res (\<lambda>path. (IterContinue, trx @ [build_request (dx_client env) (dx_net env) host c path]))
       (ok_or DexOracleSwap (dx_swap_path env (coin_ticker c) out))"

definition swap_exact_in_enter ::
  "('sp, 'x dex_env_scheme, 'r) swap_task \<Rightarrow> 'sp swap_exact_in \<Rightarrow> 'x dex_env_scheme
     \<Rightarrow> (dex_error, dex_msg list) res" where
  "swap_exact_in_enter task st env =
     (let spec = sw_spec st; acc = task_account task spec; out = task_out_currency task spec
      in map_res (\<lambda>(_, filter). swap_batch acc (filter_worker filter))
           (on_coins (filter_visit out (swap_visit env (account_host acc) out)) (task_coins task spec)
             (currency_filter_new [])))"

text \<open>The responses that are left, with the amount swapped so far.\<close>

definition exact_in_response_visit :: "'x dex_env_scheme \<Rightarrow> (any_msg list \<times> nat, dex_error) visitor" where
  "exact_in_response_visit env c = (\<lambda>(resps, total).
     and_then (map_err DexSwap (parse_response (dx_client env) (dx_wire env) resps)) (\<lambda>(n, rest).
     map_res (\<lambda>total'. (IterContinue, rest, total')) (or_panic (checked_add 128 total n))))"

definition decode_response ::
  "('sp, 'x dex_env_scheme, 'r) swap_task \<Rightarrow> 'sp swap_exact_in \<Rightarrow> string \<Rightarrow> 'x dex_env_scheme
     \<Rightarrow> (dex_error, coin_dto) res" where
  "decode_response task st resp env =
     (let spec = sw_spec st; out = task_out_currency task spec
      in and_then (map_err DexPlatform (decode_msg_responses (dx_wire env) resp)) (\<lambda>resps.
         and_then (on_coins (filter_visit out (exact_in_response_visit env)) (task_coins task spec)
             (currency_filter_new (resps, 0))) (\<lambda>(_, filter).
         map_res (\<lambda>total. \<lparr>coin_ticker = out, coin_units = total\<rparr>)
           (or_panic (checked_add 128 (filtered filter) (snd (filter_worker filter)))))))"

section \<open>Transfer in\<close>

record 'sp transfer_in_init =
  ti_spec :: 'sp
  ti_amount_in :: coin_dto

record 'sp transfer_in_finish =
  tf_spec :: 'sp
  tf_amount_in :: coin_dto
  tf_timeout :: timestamp

definition POLLING_INTERVAL :: duration where
  "POLLING_INTERVAL = from_secs 5"

definition check_received :: "coin_dto \<Rightarrow> 'x dex_env_scheme \<Rightarrow> (dex_error, bool) res" where
  "check_received payment env =
     map_res (\<lambda>balance. coin_units payment \<le> balance)
       (ok_or (DexPlatform CosmWasmQueryBalance) (dx_balance env (coin_ticker payment)))"

definition setup_alarm :: "addr \<Rightarrow> timestamp \<Rightarrow> dex_msg list" where
  "setup_alarm time_alarms at = [SetupTimeAlarm time_alarms at]"

definition transfer_in_init_enter ::
  "('sp, 'x dex_env_scheme, 'r) swap_task \<Rightarrow> 'sp transfer_in_init \<Rightarrow> 'x dex_env_scheme
     \<Rightarrow> (dex_error, dex_msg list) res" where
  "transfer_in_init_enter task st env =
     map_res (\<lambda>sender. remote_batch (remote_send (dx_net env) (ti_amount_in st) sender))
       (or_panic (transfer_from (task_account task (ti_spec st)) (dx_now env)))"

definition transfer_in_try_again ::
  "('sp, 'x dex_env_scheme, 'r) swap_task \<Rightarrow> ('sp transfer_in_init \<Rightarrow> 's) \<Rightarrow> ('sp transfer_in_finish \<Rightarrow> 's)
     \<Rightarrow> 'sp transfer_in_finish \<Rightarrow> 'x dex_env_scheme \<Rightarrow> 's continue_result" where
  "transfer_in_try_again task into_init into_finish st env =
     (if tf_timeout st \<le> dx_now env
      then let next_state = \<lparr>ti_spec = tf_spec st, ti_amount_in = tf_amount_in st\<rparr>
           in map_res (\<lambda>batch. (batch, into_init next_state)) (transfer_in_init_enter task next_state env)
      else map_res (\<lambda>at. (setup_alarm (task_time_alarms task (tf_spec st)) at, into_finish st))
             (or_panic (timestamp_add (dx_now env) POLLING_INTERVAL)))"

definition transfer_in_try_complete ::
  "('sp, 'x dex_env_scheme, 'r) swap_task \<Rightarrow> ('sp transfer_in_init \<Rightarrow> 's) \<Rightarrow> ('sp transfer_in_finish \<Rightarrow> 's)
     \<Rightarrow> 'sp transfer_in_finish \<Rightarrow> 'x dex_env_scheme \<Rightarrow> ('s, 'r) handled" where
  "transfer_in_try_complete task into_init into_finish st env =
     (case check_received (tf_amount_in st) env of
        Inl e \<Rightarrow> Continue (Inl e)
      | Inr received \<Rightarrow>
          if received then Finished (task_finish task (tf_spec st) (tf_amount_in st) env)
          else Continue (transfer_in_try_again task into_init into_finish st env))"

text \<open>The inherent operation that the handler and its heal share.\<close>

definition transfer_in_init_on_response ::
  "('sp, 'x dex_env_scheme, 'r) swap_task \<Rightarrow> ('sp transfer_in_init \<Rightarrow> 's) \<Rightarrow> ('sp transfer_in_finish \<Rightarrow> 's)
     \<Rightarrow> 'sp transfer_in_init \<Rightarrow> 'x dex_env_scheme \<Rightarrow> ('s, 'r) handled" where
  "transfer_in_init_on_response task into_init into_finish st env =
     (case timestamp_add (dx_now env) IBC_TIMEOUT of
        None \<Rightarrow> Continue (Inl Panic)
      | Some expires \<Rightarrow>
          transfer_in_try_complete task into_init into_finish
            \<lparr>tf_spec = ti_spec st, tf_amount_in = ti_amount_in st, tf_timeout = expires\<rparr> env)"

section \<open>Handlers of the states\<close>

definition transfer_out_on_response ::
  "('sp, 'x dex_env_scheme, 'r) swap_task \<Rightarrow> ('sp transfer_out \<Rightarrow> 's) \<Rightarrow> ('sp swap_exact_in \<Rightarrow> 's)
     \<Rightarrow> 'sp transfer_out \<Rightarrow> 'x dex_env_scheme \<Rightarrow> 's continue_result" where
  "transfer_out_on_response task into into_swap st env =
     (if last_coin st
      then let next_state = \<lparr>sw_spec = to_spec st\<rparr>
           in map_res (\<lambda>batch. (batch, into_swap next_state)) (swap_exact_in_enter task next_state env)
      else and_then (or_panic (transfer_out_next st)) (\<lambda>next_state.
           map_res (\<lambda>batch. (batch, into next_state)) (transfer_out_enter task next_state env)))"

definition transfer_out_handler ::
  "('sp, 'x dex_env_scheme, 'r) swap_task \<Rightarrow> ('sp transfer_out \<Rightarrow> 's) \<Rightarrow> ('sp swap_exact_in \<Rightarrow> 's)
     \<Rightarrow> ('sp transfer_out, 'x dex_env_scheme, 's, 'r) handler" where
  "transfer_out_handler task into into_swap =
     (default_handler (\<lambda>st. ''TransferOut at '' @ task_label task (to_spec st)))
       \<lparr>h_on_response := (\<lambda>st _ env. Continue (transfer_out_on_response task into into_swap st env)),
        h_on_timeout := on_timeout_retry (transfer_out_enter task) into,
        h_on_error := on_timeout_retry (transfer_out_enter task) into\<rparr>"

text \<open>The swap of the two machines differs in what follows it.\<close>

definition swap_local_on_response ::
  "('sp, 'x dex_env_scheme, 'r) swap_task \<Rightarrow> ('sp transfer_in_init \<Rightarrow> 's)
     \<Rightarrow> 'sp swap_exact_in \<Rightarrow> string \<Rightarrow> 'x dex_env_scheme \<Rightarrow> ('s, 'r) handled" where
  "swap_local_on_response task into_init st resp env =
     Continue (and_then (decode_response task st resp env) (\<lambda>amount_out.
       let next_state = \<lparr>ti_spec = sw_spec st, ti_amount_in = amount_out\<rparr>
       in map_res (\<lambda>batch. (batch, into_init next_state)) (transfer_in_init_enter task next_state env)))"

definition swap_remote_on_response ::
  "('sp, 'x dex_env_scheme, 'r) swap_task \<Rightarrow> 'sp swap_exact_in \<Rightarrow> string \<Rightarrow> 'x dex_env_scheme \<Rightarrow> ('s, 'r) handled" where
  "swap_remote_on_response task st resp env =
     (case decode_response task st resp env of
        Inl e \<Rightarrow> Continue (Inl e)
      | Inr amount_out \<Rightarrow> Finished (task_finish task (sw_spec st) amount_out env))"

definition swap_exact_in_handler ::
  "('sp, 'x dex_env_scheme, 'r) swap_task \<Rightarrow> ('sp swap_exact_in \<Rightarrow> 's)
     \<Rightarrow> ('sp swap_exact_in \<Rightarrow> string \<Rightarrow> 'x dex_env_scheme \<Rightarrow> ('s, 'r) handled)
     \<Rightarrow> ('sp swap_exact_in, 'x dex_env_scheme, 's, 'r) handler" where
  "swap_exact_in_handler task into on_resp =
     (default_handler (\<lambda>st. ''SwapExactIn at '' @ task_label task (sw_spec st)))
       \<lparr>h_on_response := on_resp,
        h_on_timeout := on_timeout_retry (swap_exact_in_enter task) into,
        h_heal := (\<lambda>st env. Continue (on_timeout_retry (swap_exact_in_enter task) into st env))\<rparr>"

definition transfer_in_init_handler ::
  "('sp, 'x dex_env_scheme, 'r) swap_task \<Rightarrow> ('sp transfer_in_init \<Rightarrow> 's) \<Rightarrow> ('sp transfer_in_finish \<Rightarrow> 's)
     \<Rightarrow> ('sp transfer_in_init, 'x dex_env_scheme, 's, 'r) handler" where
  "transfer_in_init_handler task into into_finish =
     (default_handler (\<lambda>st. ''TransferInInit at '' @ task_label task (ti_spec st)))
       \<lparr>h_on_response := (\<lambda>st _ env. transfer_in_init_on_response task into into_finish st env),
        h_on_timeout := on_timeout_retry (transfer_in_init_enter task) into,
        h_heal := transfer_in_init_on_response task into into_finish\<rparr>"

definition transfer_in_finish_handler ::
  "('sp, 'x dex_env_scheme, 'r) swap_task \<Rightarrow> ('sp transfer_in_init \<Rightarrow> 's) \<Rightarrow> ('sp transfer_in_finish \<Rightarrow> 's)
     \<Rightarrow> ('sp transfer_in_finish, 'x dex_env_scheme, 's, 'r) handler" where
  "transfer_in_finish_handler task into_init into =
     (default_handler (\<lambda>st. ''TransferInFinish at '' @ task_label task (tf_spec st)))
       \<lparr>h_heal := transfer_in_try_complete task into_init into,
        h_on_time_alarm := transfer_in_try_complete task into_init into\<rparr>"

section \<open>The account connector\<close>

text \<open>The connectee of the account: what it turns into when the account is open.\<close>

record ('c, 'n, 'e) ica_connectee =
  cn_display :: "'c \<Rightarrow> string"
  cn_dex :: "'c \<Rightarrow> connection_params"
  cn_time_alarms :: "'c \<Rightarrow> addr"
  cn_connected :: "'c \<Rightarrow> account \<Rightarrow> 'n option"
  cn_enter_next :: "'n \<Rightarrow> 'e \<Rightarrow> (dex_error, dex_msg list) res"

definition ica_connector_enter :: "('c, 'n, 'e) ica_connectee \<Rightarrow> 'c \<Rightarrow> dex_msg list" where
  "ica_connector_enter ce c = register_account (connection_id (cn_dex ce c))"

definition ica_connector_on_open_ica ::
  "('c, 'n, 'x dex_env_scheme) ica_connectee \<Rightarrow> ('n \<Rightarrow> 's) \<Rightarrow> 'c \<Rightarrow> string \<Rightarrow> 'x dex_env_scheme
     \<Rightarrow> 's continue_result" where
  "ica_connector_on_open_ica ce into c counterparty_version env =
     and_then (map_err DexPlatform
         (from_register_response (json_open_ack (dx_wire env)) counterparty_version (dx_self env) (cn_dex ce c))) (\<lambda>ica.
     and_then (or_panic (cn_connected ce c ica)) (\<lambda>next_state.
     map_res (\<lambda>batch. (batch, into next_state)) (cn_enter_next ce next_state env)))"

definition ica_connector_handler ::
  "('c, 'n, 'x dex_env_scheme) ica_connectee \<Rightarrow> ('n \<Rightarrow> 's) \<Rightarrow> ('c, 'x dex_env_scheme, 's, 'r) handler" where
  "ica_connector_handler ce into =
     (default_handler (\<lambda>c. ''IcaConnector('' @ cn_display ce c @ '')''))
       \<lparr>h_on_open_ica := ica_connector_on_open_ica ce into\<rparr>"

end
