(* ===== verification/Dex_Machines.thy ===== *)
theory Dex_Machines
  imports Dex_Swap
begin

text \<open>
  The two swap state machines (\<open>dex/src/impl_/out_local.rs\<close>, \<open>dex/src/impl_/out_remote.rs\<close>): their
  states and the dispatch of each operation to the state it arrives in. The response of a
  transaction and the acknowledgement of an opened account are not handled where they arrive:
  the state is wrapped for a delivery and the contract calls itself back.
\<close>

section \<open>The machine that brings the result back\<close>

datatype 'sp out_local =
    LocalTransferOut "'sp transfer_out"
  | LocalTransferOutRespDelivery "('sp transfer_out, string) resp_delivery"
  | LocalSwapExactIn "'sp swap_exact_in"
  | LocalSwapExactInRespDelivery "('sp swap_exact_in, string) resp_delivery"
  | LocalTransferInInit "'sp transfer_in_init"
  | LocalTransferInInitRespDelivery "('sp transfer_in_init, string) resp_delivery"
  | LocalTransferInFinish "'sp transfer_in_finish"

definition start_local_local :: "('sp, 'x dex_env_scheme, 'r) swap_task \<Rightarrow> 'sp \<Rightarrow> 'sp transfer_out option" where
  "start_local_local task spec = transfer_out_new task spec"

definition start_remote_local :: "'sp \<Rightarrow> 'sp swap_exact_in" where
  "start_remote_local spec = \<lparr>sw_spec = spec\<rparr>"

definition start_transfer_in :: "'sp \<Rightarrow> coin_dto \<Rightarrow> 'sp transfer_in_init" where
  "start_transfer_in spec amount_in = \<lparr>ti_spec = spec, ti_amount_in = amount_in\<rparr>"

text \<open>The alarm of a state is set in the time alarms of its task.\<close>

definition task_alarm :: "('sp, 'x dex_env_scheme, 'r) swap_task \<Rightarrow> ('h \<Rightarrow> 'sp) \<Rightarrow> 'h \<Rightarrow> timestamp \<Rightarrow> dex_msg list" where
  "task_alarm task spec_of h at = setup_alarm (task_time_alarms task (spec_of h)) at"

definition l_transfer_out :: "('sp, 'x dex_env_scheme, 'r) swap_task \<Rightarrow> ('sp transfer_out, 'x dex_env_scheme, 'sp out_local, 'r) handler" where
  "l_transfer_out task = transfer_out_handler task LocalTransferOut LocalSwapExactIn"

definition l_swap :: "('sp, 'x dex_env_scheme, 'r) swap_task \<Rightarrow> ('sp swap_exact_in, 'x dex_env_scheme, 'sp out_local, 'r) handler" where
  "l_swap task = swap_exact_in_handler task LocalSwapExactIn (swap_local_on_response task LocalTransferInInit)"

definition l_init :: "('sp, 'x dex_env_scheme, 'r) swap_task \<Rightarrow> ('sp transfer_in_init, 'x dex_env_scheme, 'sp out_local, 'r) handler" where
  "l_init task = transfer_in_init_handler task LocalTransferInInit LocalTransferInFinish"

definition l_finish :: "('sp, 'x dex_env_scheme, 'r) swap_task \<Rightarrow> ('sp transfer_in_finish, 'x dex_env_scheme, 'sp out_local, 'r) handler" where
  "l_finish task = transfer_in_finish_handler task LocalTransferInInit LocalTransferInFinish"

definition l_transfer_out_delivery ::
  "('sp, 'x dex_env_scheme, 'r) swap_task \<Rightarrow> (('sp transfer_out, string) resp_delivery, 'x dex_env_scheme, 'sp out_local, 'r) handler" where
  "l_transfer_out_delivery task =
     resp_delivery_handler (l_transfer_out task) (response_delivery_adapter (l_transfer_out task))
       (task_alarm task to_spec) LocalTransferOutRespDelivery"

definition l_swap_delivery ::
  "('sp, 'x dex_env_scheme, 'r) swap_task \<Rightarrow> (('sp swap_exact_in, string) resp_delivery, 'x dex_env_scheme, 'sp out_local, 'r) handler" where
  "l_swap_delivery task =
     resp_delivery_handler (l_swap task) (response_delivery_adapter (l_swap task))
       (task_alarm task sw_spec) LocalSwapExactInRespDelivery"

definition l_init_delivery ::
  "('sp, 'x dex_env_scheme, 'r) swap_task \<Rightarrow> (('sp transfer_in_init, string) resp_delivery, 'x dex_env_scheme, 'sp out_local, 'r) handler" where
  "l_init_delivery task =
     resp_delivery_handler (l_init task) (response_delivery_adapter (l_init task))
       (task_alarm task ti_spec) LocalTransferInInitRespDelivery"

fun local_on_open_ica ::
  "('sp, 'x dex_env_scheme, 'r) swap_task \<Rightarrow> 'sp out_local \<Rightarrow> string \<Rightarrow> 'x dex_env_scheme
     \<Rightarrow> 'sp out_local continue_result" where
  "local_on_open_ica task (LocalTransferOut inner) v env =
     h_on_open_ica (l_transfer_out task) inner v env"
| "local_on_open_ica task (LocalTransferOutRespDelivery inner) v env =
     h_on_open_ica (l_transfer_out_delivery task) inner v env"
| "local_on_open_ica task (LocalSwapExactIn inner) v env =
     h_on_open_ica (l_swap task) inner v env"
| "local_on_open_ica task (LocalSwapExactInRespDelivery inner) v env =
     h_on_open_ica (l_swap_delivery task) inner v env"
| "local_on_open_ica task (LocalTransferInInit inner) v env =
     h_on_open_ica (l_init task) inner v env"
| "local_on_open_ica task (LocalTransferInInitRespDelivery inner) v env =
     h_on_open_ica (l_init_delivery task) inner v env"
| "local_on_open_ica task (LocalTransferInFinish inner) v env =
     h_on_open_ica (l_finish task) inner v env"

fun local_on_response ::
  "('sp, 'x dex_env_scheme, 'r) swap_task \<Rightarrow> 'sp out_local \<Rightarrow> string \<Rightarrow> 'x dex_env_scheme
     \<Rightarrow> ('sp out_local, 'r) handled" where
  "local_on_response task (LocalTransferOut inner) response env =
     Continue (forward_to_inner LocalTransferOutRespDelivery DexCallback inner response env)"
| "local_on_response task (LocalTransferOutRespDelivery inner) response env =
     h_on_response (l_transfer_out_delivery task) inner response env"
| "local_on_response task (LocalSwapExactIn inner) response env =
     Continue (forward_to_inner LocalSwapExactInRespDelivery DexCallback inner response env)"
| "local_on_response task (LocalSwapExactInRespDelivery inner) response env =
     h_on_response (l_swap_delivery task) inner response env"
| "local_on_response task (LocalTransferInInit inner) response env =
     Continue (forward_to_inner LocalTransferInInitRespDelivery DexCallback inner response env)"
| "local_on_response task (LocalTransferInInitRespDelivery inner) response env =
     h_on_response (l_init_delivery task) inner response env"
| "local_on_response task (LocalTransferInFinish inner) response env =
     h_on_response (l_finish task) inner response env"

fun local_on_error ::
  "('sp, 'x dex_env_scheme, 'r) swap_task \<Rightarrow> 'sp out_local \<Rightarrow> 'x dex_env_scheme
     \<Rightarrow> 'sp out_local continue_result" where
  "local_on_error task (LocalTransferOut inner) env =
     h_on_error (l_transfer_out task) inner env"
| "local_on_error task (LocalTransferOutRespDelivery inner) env =
     h_on_error (l_transfer_out_delivery task) inner env"
| "local_on_error task (LocalSwapExactIn inner) env =
     h_on_error (l_swap task) inner env"
| "local_on_error task (LocalSwapExactInRespDelivery inner) env =
     h_on_error (l_swap_delivery task) inner env"
| "local_on_error task (LocalTransferInInit inner) env =
     h_on_error (l_init task) inner env"
| "local_on_error task (LocalTransferInInitRespDelivery inner) env =
     h_on_error (l_init_delivery task) inner env"
| "local_on_error task (LocalTransferInFinish inner) env =
     h_on_error (l_finish task) inner env"

fun local_on_timeout ::
  "('sp, 'x dex_env_scheme, 'r) swap_task \<Rightarrow> 'sp out_local \<Rightarrow> 'x dex_env_scheme
     \<Rightarrow> 'sp out_local continue_result" where
  "local_on_timeout task (LocalTransferOut inner) env =
     h_on_timeout (l_transfer_out task) inner env"
| "local_on_timeout task (LocalTransferOutRespDelivery inner) env =
     h_on_timeout (l_transfer_out_delivery task) inner env"
| "local_on_timeout task (LocalSwapExactIn inner) env =
     h_on_timeout (l_swap task) inner env"
| "local_on_timeout task (LocalSwapExactInRespDelivery inner) env =
     h_on_timeout (l_swap_delivery task) inner env"
| "local_on_timeout task (LocalTransferInInit inner) env =
     h_on_timeout (l_init task) inner env"
| "local_on_timeout task (LocalTransferInInitRespDelivery inner) env =
     h_on_timeout (l_init_delivery task) inner env"
| "local_on_timeout task (LocalTransferInFinish inner) env =
     h_on_timeout (l_finish task) inner env"

fun local_on_inner ::
  "('sp, 'x dex_env_scheme, 'r) swap_task \<Rightarrow> 'sp out_local \<Rightarrow> 'x dex_env_scheme
     \<Rightarrow> ('sp out_local, 'r) handled" where
  "local_on_inner task (LocalTransferOut inner) env =
     h_on_inner (l_transfer_out task) inner env"
| "local_on_inner task (LocalTransferOutRespDelivery inner) env =
     h_on_inner (l_transfer_out_delivery task) inner env"
| "local_on_inner task (LocalSwapExactIn inner) env =
     h_on_inner (l_swap task) inner env"
| "local_on_inner task (LocalSwapExactInRespDelivery inner) env =
     h_on_inner (l_swap_delivery task) inner env"
| "local_on_inner task (LocalTransferInInit inner) env =
     h_on_inner (l_init task) inner env"
| "local_on_inner task (LocalTransferInInitRespDelivery inner) env =
     h_on_inner (l_init_delivery task) inner env"
| "local_on_inner task (LocalTransferInFinish inner) env =
     h_on_inner (l_finish task) inner env"

fun local_on_inner_continue ::
  "('sp, 'x dex_env_scheme, 'r) swap_task \<Rightarrow> 'sp out_local \<Rightarrow> 'x dex_env_scheme
     \<Rightarrow> 'sp out_local continue_result" where
  "local_on_inner_continue task (LocalTransferOut inner) env =
     h_on_inner_continue (l_transfer_out task) inner env"
| "local_on_inner_continue task (LocalTransferOutRespDelivery inner) env =
     h_on_inner_continue (l_transfer_out_delivery task) inner env"
| "local_on_inner_continue task (LocalSwapExactIn inner) env =
     h_on_inner_continue (l_swap task) inner env"
| "local_on_inner_continue task (LocalSwapExactInRespDelivery inner) env =
     h_on_inner_continue (l_swap_delivery task) inner env"
| "local_on_inner_continue task (LocalTransferInInit inner) env =
     h_on_inner_continue (l_init task) inner env"
| "local_on_inner_continue task (LocalTransferInInitRespDelivery inner) env =
     h_on_inner_continue (l_init_delivery task) inner env"
| "local_on_inner_continue task (LocalTransferInFinish inner) env =
     h_on_inner_continue (l_finish task) inner env"

fun local_heal ::
  "('sp, 'x dex_env_scheme, 'r) swap_task \<Rightarrow> 'sp out_local \<Rightarrow> 'x dex_env_scheme
     \<Rightarrow> ('sp out_local, 'r) handled" where
  "local_heal task (LocalTransferOut inner) env =
     h_heal (l_transfer_out task) inner env"
| "local_heal task (LocalTransferOutRespDelivery inner) env =
     h_heal (l_transfer_out_delivery task) inner env"
| "local_heal task (LocalSwapExactIn inner) env =
     h_heal (l_swap task) inner env"
| "local_heal task (LocalSwapExactInRespDelivery inner) env =
     h_heal (l_swap_delivery task) inner env"
| "local_heal task (LocalTransferInInit inner) env =
     h_heal (l_init task) inner env"
| "local_heal task (LocalTransferInInitRespDelivery inner) env =
     h_heal (l_init_delivery task) inner env"
| "local_heal task (LocalTransferInFinish inner) env =
     h_heal (l_finish task) inner env"

fun local_reply ::
  "('sp, 'x dex_env_scheme, 'r) swap_task \<Rightarrow> 'sp out_local \<Rightarrow> 'x dex_env_scheme
     \<Rightarrow> 'sp out_local continue_result" where
  "local_reply task (LocalTransferOut inner) env =
     h_reply (l_transfer_out task) inner env"
| "local_reply task (LocalTransferOutRespDelivery inner) env =
     h_reply (l_transfer_out_delivery task) inner env"
| "local_reply task (LocalSwapExactIn inner) env =
     h_reply (l_swap task) inner env"
| "local_reply task (LocalSwapExactInRespDelivery inner) env =
     h_reply (l_swap_delivery task) inner env"
| "local_reply task (LocalTransferInInit inner) env =
     h_reply (l_init task) inner env"
| "local_reply task (LocalTransferInInitRespDelivery inner) env =
     h_reply (l_init_delivery task) inner env"
| "local_reply task (LocalTransferInFinish inner) env =
     h_reply (l_finish task) inner env"

fun local_on_time_alarm ::
  "('sp, 'x dex_env_scheme, 'r) swap_task \<Rightarrow> 'sp out_local \<Rightarrow> 'x dex_env_scheme
     \<Rightarrow> ('sp out_local, 'r) handled" where
  "local_on_time_alarm task (LocalTransferOut inner) env =
     h_on_time_alarm (l_transfer_out task) inner env"
| "local_on_time_alarm task (LocalTransferOutRespDelivery inner) env =
     h_on_time_alarm (l_transfer_out_delivery task) inner env"
| "local_on_time_alarm task (LocalSwapExactIn inner) env =
     h_on_time_alarm (l_swap task) inner env"
| "local_on_time_alarm task (LocalSwapExactInRespDelivery inner) env =
     h_on_time_alarm (l_swap_delivery task) inner env"
| "local_on_time_alarm task (LocalTransferInInit inner) env =
     h_on_time_alarm (l_init task) inner env"
| "local_on_time_alarm task (LocalTransferInInitRespDelivery inner) env =
     h_on_time_alarm (l_init_delivery task) inner env"
| "local_on_time_alarm task (LocalTransferInFinish inner) env =
     h_on_time_alarm (l_finish task) inner env"

section \<open>The machine that leaves the result on the exchange\<close>

datatype ('c, 'sp) out_remote =
    RemoteOpenIca 'c
  | RemoteOpenIcaRespDelivery "('c, string) resp_delivery"
  | RemoteTransferOut "'sp transfer_out"
  | RemoteTransferOutRespDelivery "('sp transfer_out, string) resp_delivery"
  | RemoteSwapExactIn "'sp swap_exact_in"
  | RemoteSwapExactInRespDelivery "('sp swap_exact_in, string) resp_delivery"

definition r_open_ica ::
  "('c, 'sp transfer_out, 'x dex_env_scheme) ica_connectee \<Rightarrow> ('sp, 'x dex_env_scheme, 'r) swap_task
     \<Rightarrow> ('c, 'x dex_env_scheme, ('c, 'sp) out_remote, 'r) handler" where
  "r_open_ica ce task = ica_connector_handler ce RemoteTransferOut"

definition r_transfer_out :: "('sp, 'x dex_env_scheme, 'r) swap_task \<Rightarrow> ('sp transfer_out, 'x dex_env_scheme, ('c, 'sp) out_remote, 'r) handler" where
  "r_transfer_out task = transfer_out_handler task RemoteTransferOut RemoteSwapExactIn"

definition r_swap :: "('sp, 'x dex_env_scheme, 'r) swap_task \<Rightarrow> ('sp swap_exact_in, 'x dex_env_scheme, ('c, 'sp) out_remote, 'r) handler" where
  "r_swap task = swap_exact_in_handler task RemoteSwapExactIn (swap_remote_on_response task)"

definition r_open_ica_delivery ::
  "('c, 'sp transfer_out, 'x dex_env_scheme) ica_connectee \<Rightarrow> ('sp, 'x dex_env_scheme, 'r) swap_task
     \<Rightarrow> (('c, string) resp_delivery, 'x dex_env_scheme, ('c, 'sp) out_remote, 'r) handler" where
  "r_open_ica_delivery ce task =
     resp_delivery_handler (r_open_ica ce task) (ica_open_delivery_adapter (r_open_ica ce task))
       (\<lambda>c. setup_alarm (cn_time_alarms ce c)) RemoteOpenIcaRespDelivery"

definition r_transfer_out_delivery ::
  "('sp, 'x dex_env_scheme, 'r) swap_task \<Rightarrow> (('sp transfer_out, string) resp_delivery, 'x dex_env_scheme, ('c, 'sp) out_remote, 'r) handler" where
  "r_transfer_out_delivery task =
     resp_delivery_handler (r_transfer_out task) (response_delivery_adapter (r_transfer_out task))
       (task_alarm task to_spec) RemoteTransferOutRespDelivery"

definition r_swap_delivery ::
  "('sp, 'x dex_env_scheme, 'r) swap_task \<Rightarrow> (('sp swap_exact_in, string) resp_delivery, 'x dex_env_scheme, ('c, 'sp) out_remote, 'r) handler" where
  "r_swap_delivery task =
     resp_delivery_handler (r_swap task) (response_delivery_adapter (r_swap task))
       (task_alarm task sw_spec) RemoteSwapExactInRespDelivery"

fun remote_on_open_ica ::
  "('c, 'sp transfer_out, 'x dex_env_scheme) ica_connectee \<Rightarrow> ('sp, 'x dex_env_scheme, 'r) swap_task \<Rightarrow> ('c, 'sp) out_remote \<Rightarrow> string \<Rightarrow> 'x dex_env_scheme
     \<Rightarrow> ('c, 'sp) out_remote continue_result" where
  "remote_on_open_ica ce task (RemoteOpenIca inner) v env =
     forward_to_inner RemoteOpenIcaRespDelivery DexCallbackContinue inner v env"
| "remote_on_open_ica ce task (RemoteOpenIcaRespDelivery inner) v env =
     h_on_open_ica (r_open_ica_delivery ce task) inner v env"
| "remote_on_open_ica ce task (RemoteTransferOut inner) v env =
     h_on_open_ica (r_transfer_out task) inner v env"
| "remote_on_open_ica ce task (RemoteTransferOutRespDelivery inner) v env =
     h_on_open_ica (r_transfer_out_delivery task) inner v env"
| "remote_on_open_ica ce task (RemoteSwapExactIn inner) v env =
     h_on_open_ica (r_swap task) inner v env"
| "remote_on_open_ica ce task (RemoteSwapExactInRespDelivery inner) v env =
     h_on_open_ica (r_swap_delivery task) inner v env"

fun remote_on_response ::
  "('c, 'sp transfer_out, 'x dex_env_scheme) ica_connectee \<Rightarrow> ('sp, 'x dex_env_scheme, 'r) swap_task \<Rightarrow> ('c, 'sp) out_remote \<Rightarrow> string \<Rightarrow> 'x dex_env_scheme
     \<Rightarrow> (('c, 'sp) out_remote, 'r) handled" where
  "remote_on_response ce task (RemoteOpenIca inner) response env =
     h_on_response (r_open_ica ce task) inner response env"
| "remote_on_response ce task (RemoteOpenIcaRespDelivery inner) response env =
     h_on_response (r_open_ica_delivery ce task) inner response env"
| "remote_on_response ce task (RemoteTransferOut inner) response env =
     Continue (forward_to_inner RemoteTransferOutRespDelivery DexCallback inner response env)"
| "remote_on_response ce task (RemoteTransferOutRespDelivery inner) response env =
     h_on_response (r_transfer_out_delivery task) inner response env"
| "remote_on_response ce task (RemoteSwapExactIn inner) response env =
     Continue (forward_to_inner RemoteSwapExactInRespDelivery DexCallback inner response env)"
| "remote_on_response ce task (RemoteSwapExactInRespDelivery inner) response env =
     h_on_response (r_swap_delivery task) inner response env"

fun remote_on_error ::
  "('c, 'sp transfer_out, 'x dex_env_scheme) ica_connectee \<Rightarrow> ('sp, 'x dex_env_scheme, 'r) swap_task \<Rightarrow> ('c, 'sp) out_remote \<Rightarrow> 'x dex_env_scheme
     \<Rightarrow> ('c, 'sp) out_remote continue_result" where
  "remote_on_error ce task (RemoteOpenIca inner) env =
     h_on_error (r_open_ica ce task) inner env"
| "remote_on_error ce task (RemoteOpenIcaRespDelivery inner) env =
     h_on_error (r_open_ica_delivery ce task) inner env"
| "remote_on_error ce task (RemoteTransferOut inner) env =
     h_on_error (r_transfer_out task) inner env"
| "remote_on_error ce task (RemoteTransferOutRespDelivery inner) env =
     h_on_error (r_transfer_out_delivery task) inner env"
| "remote_on_error ce task (RemoteSwapExactIn inner) env =
     h_on_error (r_swap task) inner env"
| "remote_on_error ce task (RemoteSwapExactInRespDelivery inner) env =
     h_on_error (r_swap_delivery task) inner env"

fun remote_on_timeout ::
  "('c, 'sp transfer_out, 'x dex_env_scheme) ica_connectee \<Rightarrow> ('sp, 'x dex_env_scheme, 'r) swap_task \<Rightarrow> ('c, 'sp) out_remote \<Rightarrow> 'x dex_env_scheme
     \<Rightarrow> ('c, 'sp) out_remote continue_result" where
  "remote_on_timeout ce task (RemoteOpenIca inner) env =
     h_on_timeout (r_open_ica ce task) inner env"
| "remote_on_timeout ce task (RemoteOpenIcaRespDelivery inner) env =
     h_on_timeout (r_open_ica_delivery ce task) inner env"
| "remote_on_timeout ce task (RemoteTransferOut inner) env =
     h_on_timeout (r_transfer_out task) inner env"
| "remote_on_timeout ce task (RemoteTransferOutRespDelivery inner) env =
     h_on_timeout (r_transfer_out_delivery task) inner env"
| "remote_on_timeout ce task (RemoteSwapExactIn inner) env =
     h_on_timeout (r_swap task) inner env"
| "remote_on_timeout ce task (RemoteSwapExactInRespDelivery inner) env =
     h_on_timeout (r_swap_delivery task) inner env"

fun remote_on_inner ::
  "('c, 'sp transfer_out, 'x dex_env_scheme) ica_connectee \<Rightarrow> ('sp, 'x dex_env_scheme, 'r) swap_task \<Rightarrow> ('c, 'sp) out_remote \<Rightarrow> 'x dex_env_scheme
     \<Rightarrow> (('c, 'sp) out_remote, 'r) handled" where
  "remote_on_inner ce task (RemoteOpenIca inner) env =
     h_on_inner (r_open_ica ce task) inner env"
| "remote_on_inner ce task (RemoteOpenIcaRespDelivery inner) env =
     h_on_inner (r_open_ica_delivery ce task) inner env"
| "remote_on_inner ce task (RemoteTransferOut inner) env =
     h_on_inner (r_transfer_out task) inner env"
| "remote_on_inner ce task (RemoteTransferOutRespDelivery inner) env =
     h_on_inner (r_transfer_out_delivery task) inner env"
| "remote_on_inner ce task (RemoteSwapExactIn inner) env =
     h_on_inner (r_swap task) inner env"
| "remote_on_inner ce task (RemoteSwapExactInRespDelivery inner) env =
     h_on_inner (r_swap_delivery task) inner env"

fun remote_on_inner_continue ::
  "('c, 'sp transfer_out, 'x dex_env_scheme) ica_connectee \<Rightarrow> ('sp, 'x dex_env_scheme, 'r) swap_task \<Rightarrow> ('c, 'sp) out_remote \<Rightarrow> 'x dex_env_scheme
     \<Rightarrow> ('c, 'sp) out_remote continue_result" where
  "remote_on_inner_continue ce task (RemoteOpenIca inner) env =
     h_on_inner_continue (r_open_ica ce task) inner env"
| "remote_on_inner_continue ce task (RemoteOpenIcaRespDelivery inner) env =
     h_on_inner_continue (r_open_ica_delivery ce task) inner env"
| "remote_on_inner_continue ce task (RemoteTransferOut inner) env =
     h_on_inner_continue (r_transfer_out task) inner env"
| "remote_on_inner_continue ce task (RemoteTransferOutRespDelivery inner) env =
     h_on_inner_continue (r_transfer_out_delivery task) inner env"
| "remote_on_inner_continue ce task (RemoteSwapExactIn inner) env =
     h_on_inner_continue (r_swap task) inner env"
| "remote_on_inner_continue ce task (RemoteSwapExactInRespDelivery inner) env =
     h_on_inner_continue (r_swap_delivery task) inner env"

fun remote_heal ::
  "('c, 'sp transfer_out, 'x dex_env_scheme) ica_connectee \<Rightarrow> ('sp, 'x dex_env_scheme, 'r) swap_task \<Rightarrow> ('c, 'sp) out_remote \<Rightarrow> 'x dex_env_scheme
     \<Rightarrow> (('c, 'sp) out_remote, 'r) handled" where
  "remote_heal ce task (RemoteOpenIca inner) env =
     h_heal (r_open_ica ce task) inner env"
| "remote_heal ce task (RemoteOpenIcaRespDelivery inner) env =
     h_heal (r_open_ica_delivery ce task) inner env"
| "remote_heal ce task (RemoteTransferOut inner) env =
     h_heal (r_transfer_out task) inner env"
| "remote_heal ce task (RemoteTransferOutRespDelivery inner) env =
     h_heal (r_transfer_out_delivery task) inner env"
| "remote_heal ce task (RemoteSwapExactIn inner) env =
     h_heal (r_swap task) inner env"
| "remote_heal ce task (RemoteSwapExactInRespDelivery inner) env =
     h_heal (r_swap_delivery task) inner env"

fun remote_reply ::
  "('c, 'sp transfer_out, 'x dex_env_scheme) ica_connectee \<Rightarrow> ('sp, 'x dex_env_scheme, 'r) swap_task \<Rightarrow> ('c, 'sp) out_remote \<Rightarrow> 'x dex_env_scheme
     \<Rightarrow> ('c, 'sp) out_remote continue_result" where
  "remote_reply ce task (RemoteOpenIca inner) env =
     h_reply (r_open_ica ce task) inner env"
| "remote_reply ce task (RemoteOpenIcaRespDelivery inner) env =
     h_reply (r_open_ica_delivery ce task) inner env"
| "remote_reply ce task (RemoteTransferOut inner) env =
     h_reply (r_transfer_out task) inner env"
| "remote_reply ce task (RemoteTransferOutRespDelivery inner) env =
     h_reply (r_transfer_out_delivery task) inner env"
| "remote_reply ce task (RemoteSwapExactIn inner) env =
     h_reply (r_swap task) inner env"
| "remote_reply ce task (RemoteSwapExactInRespDelivery inner) env =
     h_reply (r_swap_delivery task) inner env"

fun remote_on_time_alarm ::
  "('c, 'sp transfer_out, 'x dex_env_scheme) ica_connectee \<Rightarrow> ('sp, 'x dex_env_scheme, 'r) swap_task \<Rightarrow> ('c, 'sp) out_remote \<Rightarrow> 'x dex_env_scheme
     \<Rightarrow> (('c, 'sp) out_remote, 'r) handled" where
  "remote_on_time_alarm ce task (RemoteOpenIca inner) env =
     h_on_time_alarm (r_open_ica ce task) inner env"
| "remote_on_time_alarm ce task (RemoteOpenIcaRespDelivery inner) env =
     h_on_time_alarm (r_open_ica_delivery ce task) inner env"
| "remote_on_time_alarm ce task (RemoteTransferOut inner) env =
     h_on_time_alarm (r_transfer_out task) inner env"
| "remote_on_time_alarm ce task (RemoteTransferOutRespDelivery inner) env =
     h_on_time_alarm (r_transfer_out_delivery task) inner env"
| "remote_on_time_alarm ce task (RemoteSwapExactIn inner) env =
     h_on_time_alarm (r_swap task) inner env"
| "remote_on_time_alarm ce task (RemoteSwapExactInRespDelivery inner) env =
     h_on_time_alarm (r_swap_delivery task) inner env"

section \<open>Events\<close>

text \<open>What happens to a contract in a swap: the calls of the chain, of itself and of the alarms.\<close>

datatype dex_event =
    OpenAck string
  | Response string
  | ErrorAck
  | TimeoutAck
  | InnerCall
  | InnerContinueCall
  | ReplyOnError
  | AlarmFired
  | HealCall

fun local_on ::
  "('sp, 'x dex_env_scheme, 'r) swap_task \<Rightarrow> 'sp out_local \<Rightarrow> dex_event \<Rightarrow> 'x dex_env_scheme
     \<Rightarrow> ('sp out_local, 'r) handled" where
  "local_on task st (OpenAck v) env = Continue (local_on_open_ica task st v env)"
| "local_on task st (Response data) env = local_on_response task st data env"
| "local_on task st ErrorAck env = Continue (local_on_error task st env)"
| "local_on task st TimeoutAck env = Continue (local_on_timeout task st env)"
| "local_on task st InnerCall env = local_on_inner task st env"
| "local_on task st InnerContinueCall env = Continue (local_on_inner_continue task st env)"
| "local_on task st ReplyOnError env = Continue (local_reply task st env)"
| "local_on task st AlarmFired env = local_on_time_alarm task st env"
| "local_on task st HealCall env = local_heal task st env"

fun remote_on ::
  "('c, 'sp transfer_out, 'x dex_env_scheme) ica_connectee \<Rightarrow> ('sp, 'x dex_env_scheme, 'r) swap_task
     \<Rightarrow> ('c, 'sp) out_remote \<Rightarrow> dex_event \<Rightarrow> 'x dex_env_scheme \<Rightarrow> (('c, 'sp) out_remote, 'r) handled" where
  "remote_on ce task st (OpenAck v) env = Continue (remote_on_open_ica ce task st v env)"
| "remote_on ce task st (Response data) env = remote_on_response ce task st data env"
| "remote_on ce task st ErrorAck env = Continue (remote_on_error ce task st env)"
| "remote_on ce task st TimeoutAck env = Continue (remote_on_timeout ce task st env)"
| "remote_on ce task st InnerCall env = remote_on_inner ce task st env"
| "remote_on ce task st InnerContinueCall env = Continue (remote_on_inner_continue ce task st env)"
| "remote_on ce task st ReplyOnError env = Continue (remote_reply ce task st env)"
| "remote_on ce task st AlarmFired env = remote_on_time_alarm ce task st env"
| "remote_on ce task st HealCall env = remote_heal ce task st env"

section \<open>The task in progress\<close>

text \<open>What the contract reports of a swap: the task and the stage it is in.\<close>

datatype in_swap = InTransferOut | InSwap | InTransferInInit | InTransferInFinish

fun local_state :: "'sp out_local \<Rightarrow> 'sp \<times> in_swap" where
  "local_state (LocalTransferOut inner) = (to_spec inner, InTransferOut)"
| "local_state (LocalTransferOutRespDelivery inner) = (to_spec (rd_handler inner), InTransferOut)"
| "local_state (LocalSwapExactIn inner) = (sw_spec inner, InSwap)"
| "local_state (LocalSwapExactInRespDelivery inner) = (sw_spec (rd_handler inner), InSwap)"
| "local_state (LocalTransferInInit inner) = (ti_spec inner, InTransferInInit)"
| "local_state (LocalTransferInInitRespDelivery inner) = (ti_spec (rd_handler inner), InTransferInInit)"
| "local_state (LocalTransferInFinish inner) = (tf_spec inner, InTransferInFinish)"

fun remote_state :: "('c, 'sp) out_remote \<Rightarrow> 'c + 'sp \<times> in_swap" where
  "remote_state (RemoteOpenIca inner) = Inl inner"
| "remote_state (RemoteOpenIcaRespDelivery inner) = Inl (rd_handler inner)"
| "remote_state (RemoteTransferOut inner) = Inr (to_spec inner, InTransferOut)"
| "remote_state (RemoteTransferOutRespDelivery inner) = Inr (to_spec (rd_handler inner), InTransferOut)"
| "remote_state (RemoteSwapExactIn inner) = Inr (sw_spec inner, InSwap)"
| "remote_state (RemoteSwapExactInRespDelivery inner) = Inr (sw_spec (rd_handler inner), InSwap)"

lemmas local_handlers =
  l_transfer_out_def l_swap_def l_init_def l_finish_def l_transfer_out_delivery_def l_swap_delivery_def
  l_init_delivery_def

lemmas remote_handlers =
  r_open_ica_def r_transfer_out_def r_swap_def r_open_ica_delivery_def r_transfer_out_delivery_def
  r_swap_delivery_def

lemmas state_handlers =
  default_handler_def transfer_out_handler_def swap_exact_in_handler_def transfer_in_init_handler_def
  transfer_in_finish_handler_def ica_connector_handler_def resp_delivery_defs

end
