(* ===== verification/Dex_Facts.thy ===== *)
theory Dex_Facts
  imports Dex_Machines
begin

text \<open>
  What a swap guarantees whatever happens to it: the task does not change, the index of the
  coin in transfer stays in range, the amount to bring back is fixed by the response of the
  swap, the machine finishes only when that amount has arrived, and a response that could not be
  delivered is delivered again. The locale \<open>invariant_system\<close> of the prelude is interpreted for both
  machines.
\<close>

section \<open>Visits\<close>

lemma counter_visit_Some:
  "counter_visit c (Some i) = (if i + 1 < 256 then Inr (IterContinue, Some (i + 1)) else Inl (Fail TooManyCoins))"
  by (simp add: counter_visit_def)

lemma on_coins_counter:
  "on_coins counter_visit cs (Some i) =
     (if i + length cs < 256 \<or> cs = [] then Inr (Complete, Some (i + length cs)) else Inl (Fail TooManyCoins))"
proof (induction cs arbitrary: i)
  case (Cons c cs)
  show ?case
    by (cases "i + 1 < 256") (use Cons [of "i + 1"] in \<open>auto simp: counter_visit_Some\<close>)
qed simp

lemma last_coin_index_of_eq:
  "last_coin_index_of cs = (if cs = [] \<or> 256 < length cs then None else Some (length cs - 1))"
proof (cases cs)
  case (Cons c cs')
  have "on_coins counter_visit cs None = on_coins counter_visit cs' (Some 0)"
    by (simp add: Cons counter_visit_def)
  then show ?thesis
    by (auto simp: last_coin_index_of_def on_coins_counter Cons)
qed (simp add: last_coin_index_of_def)

lemma visit_at_index_eq:
  "i < length cs \<Longrightarrow>
     visit_at_index (\<lambda>c s. Inr (f c s)) cs i s
       = Inr (if Suc i = length cs then Complete else Incomplete, f (cs ! i) s)"
proof (induction cs arbitrary: i)
  case (Cons c cs)
  show ?case
  proof (cases i)
    case 0
    then show ?thesis by (simp add: visit_at_index_def index_visit_def)
  next
    case (Suc j)
    then show ?thesis
      using Cons.IH [of j] Cons.prems by (simp add: visit_at_index_def index_visit_def)
  qed
qed simp

section \<open>Invariant\<close>

text \<open>The coin in transfer is one of the task's.\<close>

fun transfer_out_ok :: "('sp, 'x dex_env_scheme, 'r) swap_task \<Rightarrow> 'sp transfer_out \<Rightarrow> bool" where
  "transfer_out_ok task st \<longleftrightarrow>
     last_coin_index_of (task_coins task (to_spec st)) = Some (last_coin_index st)
       \<and> coin_index st \<le> last_coin_index st"

declare transfer_out_ok.simps [simp del]

fun local_ok :: "('sp, 'x dex_env_scheme, 'r) swap_task \<Rightarrow> 'sp out_local \<Rightarrow> bool" where
  "local_ok task (LocalTransferOut st) \<longleftrightarrow> transfer_out_ok task st"
| "local_ok task (LocalTransferOutRespDelivery rd) \<longleftrightarrow> transfer_out_ok task (rd_handler rd)"
| "local_ok task _ \<longleftrightarrow> True"

definition local_spec :: "'sp out_local \<Rightarrow> 'sp" where
  "local_spec st = fst (local_state st)"

fun local_amount :: "'sp out_local \<Rightarrow> coin_dto option" where
  "local_amount (LocalTransferInInit st) = Some (ti_amount_in st)"
| "local_amount (LocalTransferInInitRespDelivery rd) = Some (ti_amount_in (rd_handler rd))"
| "local_amount (LocalTransferInFinish st) = Some (tf_amount_in st)"
| "local_amount _ = None"

lemma transfer_out_next_ok:
  "transfer_out_ok task st \<Longrightarrow> \<not> last_coin st \<Longrightarrow> transfer_out_next st = Some st'
     \<Longrightarrow> transfer_out_ok task st' \<and> to_spec st' = to_spec st \<and> coin_index st' = Suc (coin_index st)
       \<and> last_coin_index st' = last_coin_index st"
  by (auto simp: transfer_out_next_def transfer_out_ok.simps last_coin_def)

lemma transfer_out_next_spec: "transfer_out_next st = Some st' \<Longrightarrow> to_spec st' = to_spec st"
  by (auto simp: transfer_out_next_def)

section \<open>What a state takes\<close>

fun local_takes :: "'sp out_local \<Rightarrow> dex_event \<Rightarrow> bool" where
  "local_takes (LocalTransferOut _) ev \<longleftrightarrow> (case ev of Response _ \<Rightarrow> True | _ \<Rightarrow> ev \<in> {ErrorAck, TimeoutAck})"
| "local_takes (LocalSwapExactIn _) ev \<longleftrightarrow> (case ev of Response _ \<Rightarrow> True | _ \<Rightarrow> ev \<in> {TimeoutAck, HealCall})"
| "local_takes (LocalTransferInInit _) ev \<longleftrightarrow> (case ev of Response _ \<Rightarrow> True | _ \<Rightarrow> ev \<in> {TimeoutAck, HealCall})"
| "local_takes (LocalTransferInFinish _) ev \<longleftrightarrow> ev \<in> {AlarmFired, HealCall}"
| "local_takes _ ev \<longleftrightarrow> ev \<in> {InnerCall, InnerContinueCall, ReplyOnError, AlarmFired}"

lemma local_refused:
  "\<not> local_takes st ev \<Longrightarrow> \<exists>op state. local_on task st ev env = Continue (Inl (Fail (DexUnsupportedOperation op state)))"
  by (cases st; cases ev) (simp_all add: local_handlers state_handlers unsupported_def)


section \<open>Steps\<close>

definition local_step :: "('sp, 'x dex_env_scheme, 'r) swap_task \<Rightarrow> 'sp out_local \<Rightarrow> 'sp out_local \<Rightarrow> bool" where
  "local_step task st st' \<longleftrightarrow> (\<exists>ev env msgs. local_on task st ev env = Continue (Inr (msgs, st')))"

lemma on_timeout_retry_Inr:
  "on_timeout_retry enter into st env = Inr (msgs, st') \<longleftrightarrow> enter st env = Inr msgs \<and> st' = into st"
  by (auto simp: on_timeout_retry_def)

lemma forward_to_inner_Inr:
  "forward_to_inner into cb inner resp env = Inr (msgs, st') \<longleftrightarrow>
     msgs = [CallSelfReplyOnError (dx_self env) cb REPLY_ID]
       \<and> st' = into \<lparr>rd_handler = inner, rd_response = resp\<rparr>"
  by (auto simp: forward_to_inner_def resp_delivery_enter_def)

lemma unsupported_Inr [simp]: "unsupported op state \<noteq> Inr x"
  by (simp add: unsupported_def)

text \<open>The stages of a swap: what one step from a state may lead to.\<close>

inductive local_leads :: "('sp, 'x dex_env_scheme, 'r) swap_task \<Rightarrow> 'sp out_local \<Rightarrow> 'sp out_local \<Rightarrow> bool" for task where
  same: "local_leads task st st"
| delivery_out: "local_leads task (LocalTransferOut s) (LocalTransferOutRespDelivery \<lparr>rd_handler = s, rd_response = d\<rparr>)"
| next_coin: "\<not> last_coin (rd_handler rd) \<Longrightarrow> transfer_out_next (rd_handler rd) = Some s'
    \<Longrightarrow> local_leads task (LocalTransferOutRespDelivery rd) (LocalTransferOut s')"
| to_swap: "last_coin (rd_handler rd)
    \<Longrightarrow> local_leads task (LocalTransferOutRespDelivery rd) (LocalSwapExactIn \<lparr>sw_spec = to_spec (rd_handler rd)\<rparr>)"
| delivery_swap: "local_leads task (LocalSwapExactIn s) (LocalSwapExactInRespDelivery \<lparr>rd_handler = s, rd_response = d\<rparr>)"
| swapped: "decode_response task (rd_handler rd) (rd_response rd) env = Inr am
    \<Longrightarrow> local_leads task (LocalSwapExactInRespDelivery rd)
          (LocalTransferInInit \<lparr>ti_spec = sw_spec (rd_handler rd), ti_amount_in = am\<rparr>)"
| delivery_init: "local_leads task (LocalTransferInInit s) (LocalTransferInInitRespDelivery \<lparr>rd_handler = s, rd_response = d\<rparr>)"
| to_finish: "local_leads task (LocalTransferInInit s)
    (LocalTransferInFinish \<lparr>tf_spec = ti_spec s, tf_amount_in = ti_amount_in s, tf_timeout = t\<rparr>)"
| to_finish_delivered: "local_leads task (LocalTransferInInitRespDelivery rd)
    (LocalTransferInFinish \<lparr>tf_spec = ti_spec (rd_handler rd), tf_amount_in = ti_amount_in (rd_handler rd), tf_timeout = t\<rparr>)"
| again: "tf_timeout s \<le> now \<Longrightarrow> local_leads task (LocalTransferInFinish s)
    (LocalTransferInInit \<lparr>ti_spec = tf_spec s, ti_amount_in = tf_amount_in s\<rparr>)"

lemma ibc_timeout_ahead: "timestamp_add now IBC_TIMEOUT = Some t \<Longrightarrow> now < t"
  by (auto simp: timestamp_add_def time_order IBC_TIMEOUT_def from_days_def from_nanos_def time_consts split: if_splits)

lemma transfer_out_on_response_Inr:
  assumes "transfer_out_on_response task into into_swap s env = Inr (msgs, st')"
  shows "(last_coin s \<and> st' = into_swap \<lparr>sw_spec = to_spec s\<rparr>)
    \<or> (\<not> last_coin s \<and> (\<exists>s'. transfer_out_next s = Some s' \<and> st' = into s'))"
  using assms by (auto simp: transfer_out_on_response_def Let_def split: if_splits)

lemma swap_local_on_response_Inr:
  assumes "swap_local_on_response task into_init s resp env = Continue (Inr (msgs, st'))"
  shows "\<exists>am. decode_response task s resp env = Inr am \<and> st' = into_init \<lparr>ti_spec = sw_spec s, ti_amount_in = am\<rparr>"
  using assms by (auto simp: swap_local_on_response_def Let_def)

lemma transfer_in_try_complete_Inr:
  assumes "transfer_in_try_complete task into_init into s env = Continue (Inr (msgs, st'))"
  shows "(tf_timeout s \<le> dx_now env \<and> st' = into_init \<lparr>ti_spec = tf_spec s, ti_amount_in = tf_amount_in s\<rparr>)
    \<or> (\<not> tf_timeout s \<le> dx_now env \<and> st' = into s)"
  using assms
  by (auto simp: transfer_in_try_complete_def transfer_in_try_again_def Let_def split: if_splits sum.splits)

lemma transfer_in_init_on_response_Inr:
  assumes "transfer_in_init_on_response task into_init into s env = Continue (Inr (msgs, st'))"
  shows "\<exists>t. st' = into \<lparr>tf_spec = ti_spec s, tf_amount_in = ti_amount_in s, tf_timeout = t\<rparr>"
proof (cases "timestamp_add (dx_now env) IBC_TIMEOUT")
  case None
  then show ?thesis using assms unfolding transfer_in_init_on_response_def by simp
next
  case (Some t)
  then have "\<not> t \<le> dx_now env" using ibc_timeout_ahead by fastforce
  moreover have "transfer_in_try_complete task into_init into
      \<lparr>tf_spec = ti_spec s, tf_amount_in = ti_amount_in s, tf_timeout = t\<rparr> env = Continue (Inr (msgs, st'))"
    using assms Some unfolding transfer_in_init_on_response_def by simp
  ultimately show ?thesis using transfer_in_try_complete_Inr by fastforce
qed

lemma local_on_leads:
  assumes "local_on task st ev env = Continue (Inr (msgs, st'))"
  shows "local_leads task st st'"
proof (cases "local_takes st ev")
  case False
  then show ?thesis using local_refused [of st ev task env] assms by auto
next
  case True
  show ?thesis
    using assms True
    by (cases st; cases ev)
      (auto simp: local_handlers state_handlers forward_to_inner_Inr on_timeout_retry_Inr
        dest!: transfer_out_on_response_Inr swap_local_on_response_Inr transfer_in_init_on_response_Inr
          transfer_in_try_complete_Inr
        intro: local_leads.intros)
qed


text \<open>Whatever the stage, the task, the range of the index and the amount are kept.\<close>

lemma local_leads_keeps:
  assumes "local_leads task st st'"
  shows "local_spec st' = local_spec st"
    and "local_ok task st \<Longrightarrow> local_ok task st'"
    and "local_amount st = Some a \<Longrightarrow> local_amount st' = Some a"
  using assms
  by (induction rule: local_leads.induct) (auto simp: local_spec_def dest: transfer_out_next_ok transfer_out_next_spec)

text \<open>The start of a machine, in one of its three ways.\<close>

inductive local_start :: "('sp, 'x dex_env_scheme, 'r) swap_task \<Rightarrow> 'sp \<Rightarrow> 'sp out_local \<Rightarrow> bool" for task spec where
  from_local: "start_local_local task spec = Some s \<Longrightarrow> local_start task spec (LocalTransferOut s)"
| from_remote: "local_start task spec (LocalSwapExactIn (start_remote_local spec))"
| from_transfer: "local_start task spec (LocalTransferInInit (start_transfer_in spec am))"

definition local_inv :: "('sp, 'x dex_env_scheme, 'r) swap_task \<Rightarrow> 'sp \<Rightarrow> 'sp out_local \<Rightarrow> bool" where
  "local_inv task spec st \<longleftrightarrow> local_spec st = spec \<and> local_ok task st"

lemma transfer_out_new_ok:
  "transfer_out_new task spec = Some s \<Longrightarrow> transfer_out_ok task s \<and> to_spec s = spec \<and> coin_index s = 0"
  by (auto simp: transfer_out_new_def transfer_out_ok.simps)

interpretation local_swap: invariant_system "local_start task spec" "local_step task" "local_inv task spec"
  for task :: "('sp, 'x dex_env_scheme, 'r) swap_task" and spec
proof (unfold_locales, goal_cases)
  case (1 st)
  then show ?case
    by (induction rule: local_start.induct)
      (auto simp: local_inv_def local_spec_def start_local_local_def start_remote_local_def start_transfer_in_def
        dest!: transfer_out_new_ok)
next
  case (2 st st')
  then show ?case
    using local_on_leads local_leads_keeps by (fastforce simp: local_step_def local_inv_def)
qed

lemma local_amount_kept:
  "(local_step task)\<^sup>*\<^sup>* st st' \<Longrightarrow> local_amount st = Some a \<Longrightarrow> local_amount st' = Some a"
  by (induction rule: rtranclp_induct) (auto simp: local_step_def dest: local_on_leads local_leads_keeps(3))

section \<open>The end of a swap\<close>

lemma try_complete_Finished:
  "transfer_in_try_complete task into_init into s env = Finished r \<longleftrightarrow>
     (\<exists>bal. dx_balance env (coin_ticker (tf_amount_in s)) = Some bal \<and> coin_units (tf_amount_in s) \<le> bal
        \<and> r = task_finish task (tf_spec s) (tf_amount_in s) env)"
  by (cases "dx_balance env (coin_ticker (tf_amount_in s))")
    (auto simp: transfer_in_try_complete_def check_received_def)

lemma local_on_finished:
  assumes "local_on task st ev env = Finished r"
  shows "\<exists>a bal. local_amount st = Some a \<and> dx_balance env (coin_ticker a) = Some bal \<and> coin_units a \<le> bal
    \<and> r = task_finish task (local_spec st) a env"
proof (cases "local_takes st ev")
  case False
  then show ?thesis using local_refused [of st ev task env] assms by auto
next
  case True
  show ?thesis
    using assms True
    by (cases st; cases ev)
      (auto simp: local_handlers state_handlers local_spec_def transfer_in_init_on_response_def
        swap_local_on_response_def try_complete_Finished split: option.splits)
qed

end
