(* ===== verification/Dex_Runs.thy ===== *)
theory Dex_Runs
  imports Dex_Facts
begin

text \<open>
  Runs of a swap: the requests it makes, the amount it reads from the responses, and a run
  that nothing disturbs, from the first transfer to the end.
\<close>

section \<open>The request of the swap and its amount\<close>

definition out_total :: "string \<Rightarrow> coin_dto list \<Rightarrow> nat" where
  "out_total out cs = sum_list (map coin_units (filter (\<lambda>c. coin_ticker c = out) cs))"

definition to_swap :: "string \<Rightarrow> coin_dto list \<Rightarrow> coin_dto list" where
  "to_swap out cs = filter (\<lambda>c. coin_ticker c \<noteq> out) cs"

lemma out_total_simps [simp]:
  "out_total out [] = 0"
  "out_total out (c # cs) = (if coin_ticker c = out then coin_units c else 0) + out_total out cs"
  by (simp_all add: out_total_def)

lemma to_swap_simps [simp]:
  "to_swap out [] = []"
  "to_swap out (c # cs) = (if coin_ticker c = out then [] else [c]) @ to_swap out cs"
  by (simp_all add: to_swap_def)

text \<open>A worker that takes every coin is run on the coins to swap, in order.\<close>

fun visit_all :: "('s, 'e) visitor \<Rightarrow> coin_dto list \<Rightarrow> 's \<Rightarrow> ('e, 's) res" where
  "visit_all visit [] s = Inr s"
| "visit_all visit (c # cs) s = and_then (visit c s) (\<lambda>(_, s'). visit_all visit cs s')"

lemma and_then_map_res: "and_then (map_res f m) g = and_then m (\<lambda>x. g (f x))"
  by (cases m) auto

lemma on_coins_filter:
  assumes "\<And>c s n s'. visit c s = Inr (n, s') \<Longrightarrow> n = IterContinue" "filtered f < 2 ^ 128"
  shows "on_coins (filter_visit out visit) cs f = Inr (it, f') \<longleftrightarrow>
    it = Complete \<and> filtered f + out_total out cs < 2 ^ 128
      \<and> visit_all visit (to_swap out cs) (filter_worker f) = Inr (filter_worker f')
      \<and> filtered f' = filtered f + out_total out cs
      \<and> passed_any f' = (passed_any f \<or> to_swap out cs \<noteq> [])"
  using assms(2)
proof (induction cs arbitrary: f)
  case Nil
  then show ?case by (auto intro: currency_filter.equality)
next
  case (Cons c cs)
  show ?case
  proof (cases "coin_ticker c = out")
    case True
    have "on_coins (filter_visit out visit) (c # cs) f =
        and_then (or_panic (checked_add 128 (filtered f) (coin_units c)))
          (\<lambda>total. on_coins (filter_visit out visit) cs (f\<lparr>filtered := total\<rparr>))"
      using True by (simp add: filter_visit_def and_then_map_res)
    then show ?thesis
      using True Cons.IH [of "f\<lparr>filtered := filtered f + coin_units c\<rparr>"] by (auto simp: add.assoc)
  next
    case False
    have "on_coins (filter_visit out visit) (c # cs) f =
        and_then (visit c (filter_worker f))
          (\<lambda>(_, v). on_coins (filter_visit out visit) cs (f\<lparr>filter_worker := v, passed_any := True\<rparr>))"
      using False assms(1) [of c "filter_worker f"]
      by (cases "visit c (filter_worker f)") (auto simp: filter_visit_def split: iter_next.splits)
    then show ?thesis
      using False Cons Cons.IH [of "f\<lparr>filter_worker := v, passed_any := True\<rparr>" for v]
      by (auto simp: split_def)
  qed
qed

text \<open>The messages of the transaction: one per coin to swap, on the path of the oracle.\<close>

definition swap_messages :: "'x dex_env_scheme \<Rightarrow> string \<Rightarrow> string \<Rightarrow> coin_dto list \<Rightarrow> trx_msg list option" where
  "swap_messages env host out cs =
     those (map (\<lambda>c. map_option (build_request (dx_client env) (dx_net env) host c)
                      (dx_swap_path env (coin_ticker c) out)) cs)"

lemma swap_messages_eq:
  "\<forall>c \<in> set cs. dx_swap_path env (coin_ticker c) out = Some (path c) \<Longrightarrow>
     swap_messages env host out cs = Some (map (\<lambda>c. build_request (dx_client env) (dx_net env) host c (path c)) cs)"
  by (induction cs) (auto simp: swap_messages_def)

lemma visit_all_swap:
  "visit_all (swap_visit env host out) cs trx = Inr trx' \<longleftrightarrow>
     (\<exists>ms. swap_messages env host out cs = Some ms \<and> trx' = trx @ ms)"
proof (induction cs arbitrary: trx)
  case (Cons c cs)
  then show ?case
    by (cases "dx_swap_path env (coin_ticker c) out") (auto simp: swap_visit_def swap_messages_def)
qed (auto simp: swap_messages_def)

lemma swap_visit_continues: "swap_visit env host out c s = Inr (n, s') \<Longrightarrow> n = IterContinue"
  by (auto simp: swap_visit_def)

lemma swap_exact_in_enter_Inr:
  "swap_exact_in_enter task st env = Inr batch \<longleftrightarrow>
     (let spec = sw_spec st; acc = task_account task spec; out = task_out_currency task spec
      in out_total out (task_coins task spec) < 2 ^ 128
        \<and> (\<exists>ms. swap_messages env (account_host acc) out (to_swap out (task_coins task spec)) = Some ms
              \<and> batch = swap_batch acc ms))"
proof -
  let ?out = "task_out_currency task (sw_spec st)" and ?cs = "task_coins task (sw_spec st)"
  let ?visit = "swap_visit env (account_host (task_account task (sw_spec st))) ?out"
  have *: "on_coins (filter_visit ?out ?visit) ?cs (currency_filter_new []) = Inr (it, f) \<longleftrightarrow>
      it = Complete \<and> out_total ?out ?cs < 2 ^ 128
        \<and> visit_all ?visit (to_swap ?out ?cs) [] = Inr (filter_worker f)
        \<and> filtered f = out_total ?out ?cs \<and> passed_any f = (to_swap ?out ?cs \<noteq> [])" for it f
    by (subst on_coins_filter) (auto simp: currency_filter_new_def dest: swap_visit_continues)
  have ex: "(\<exists>f :: trx_msg list currency_filter. filter_worker f = ms \<and> filtered f = n \<and> passed_any f = b)" for ms :: "trx_msg list" and n b
    by (rule exI [of _ "\<lparr>filter_worker = ms, filtered = n, passed_any = b\<rparr>"]) simp
  show ?thesis
    unfolding swap_exact_in_enter_def Let_def map_res_Inr split_paired_Ex
    unfolding * visit_all_swap using ex by (auto simp: split_def) metis
qed

section \<open>The amount of a swap\<close>

text \<open>The amounts of the first responses, with the responses left.\<close>

fun take_amounts :: "'x dex_env_scheme \<Rightarrow> nat \<Rightarrow> any_msg list \<Rightarrow> (dex_error, nat list \<times> any_msg list) res" where
  "take_amounts env 0 resps = Inr ([], resps)"
| "take_amounts env (Suc k) resps =
     and_then (map_err DexSwap (parse_response (dx_client env) (dx_wire env) resps)) (\<lambda>(n, rest).
     map_res (\<lambda>(ns, rest'). (n # ns, rest')) (take_amounts env k rest))"

lemma visit_all_responses:
  assumes "t < 2 ^ 128"
  shows "visit_all (exact_in_response_visit env) cs (resps, t) = Inr (rest, t') \<longleftrightarrow>
    (\<exists>ns. take_amounts env (length cs) resps = Inr (ns, rest) \<and> t' = t + sum_list ns \<and> t' < 2 ^ 128)"
  using assms
proof (induction cs arbitrary: resps t)
  case (Cons c cs)
  show ?case
  proof (cases "parse_response (dx_client env) (dx_wire env) resps")
    case (Inl e)
    then show ?thesis
      by (cases e) (simp_all add: exact_in_response_visit_def)
  next
    case (Inr p)
    obtain n rest' where p: "p = (n, rest')" by (cases p)
    show ?thesis
    proof (cases "t + n < 2 ^ 128")
      case True
      then have "or_panic (checked_add 128 t n) = (Inr (t + n) :: (dex_error, nat) res)"
        by simp
      then have "visit_all (exact_in_response_visit env) (c # cs) (resps, t)
          = visit_all (exact_in_response_visit env) cs (rest', t + n)"
        using Inr p by (simp add: exact_in_response_visit_def del: inversion_simps)
      moreover have "take_amounts env (length (c # cs)) resps
          = map_res (\<lambda>(ns, r). (n # ns, r)) (take_amounts env (length cs) rest')"
        using Inr p by (simp del: inversion_simps)
      ultimately show ?thesis
        using True Cons.IH [of "t + n" rest'] by (fastforce simp: add.assoc)
    next
      case False
      then have "or_panic (checked_add 128 t n) = (Inl Panic :: (dex_error, nat) res)"
        by (simp add: checked_add_def fits_def)
      with False show ?thesis
        using Inr p by (auto simp: exact_in_response_visit_def)
    qed
  qed
qed auto

lemma response_visit_continues: "exact_in_response_visit env c s = Inr (n, s') \<Longrightarrow> n = IterContinue"
  by (cases s) (auto simp: exact_in_response_visit_def)

lemma decode_response_Inr:
  "decode_response task st resp env = Inr am \<longleftrightarrow>
     (let spec = sw_spec st; out = task_out_currency task spec; cs = task_coins task spec
      in coin_ticker am = out \<and> coin_units am < 2 ^ 128 \<and>
         (\<exists>resps ns rest. decode_msg_responses (dx_wire env) resp = Inr resps
            \<and> take_amounts env (length (to_swap out cs)) resps = Inr (ns, rest)
            \<and> coin_units am = out_total out cs + sum_list ns))"
proof -
  let ?out = "task_out_currency task (sw_spec st)" and ?cs = "task_coins task (sw_spec st)"
  have *: "on_coins (filter_visit ?out (exact_in_response_visit env)) ?cs (currency_filter_new (resps, 0)) = Inr (it, f) \<longleftrightarrow>
      it = Complete \<and> out_total ?out ?cs < 2 ^ 128
        \<and> (\<exists>ns. take_amounts env (length (to_swap ?out ?cs)) resps = Inr (ns, fst (filter_worker f))
              \<and> snd (filter_worker f) = sum_list ns \<and> sum_list ns < 2 ^ 128)
        \<and> filtered f = out_total ?out ?cs \<and> passed_any f = (to_swap ?out ?cs \<noteq> [])" for it f resps
    using visit_all_responses [of 0 env "to_swap ?out ?cs" resps "fst (filter_worker f)" "snd (filter_worker f)"]
    by (subst on_coins_filter) (auto simp: currency_filter_new_def dest: response_visit_continues)
  have ex: "\<exists>f :: (any_msg list \<times> nat) currency_filter. filter_worker f = w \<and> filtered f = n \<and> passed_any f = b" for w n b
    by (rule exI [of _ "\<lparr>filter_worker = w, filtered = n, passed_any = b\<rparr>"]) simp
  show ?thesis (is "?l \<longleftrightarrow> ?r")
  proof
    assume ?l
    then show ?r
      unfolding decode_response_def Let_def by (auto simp: *)
  next
    assume ?r
    then obtain resps ns rest where r: "decode_msg_responses (dx_wire env) resp = Inr resps"
      "take_amounts env (length (to_swap ?out ?cs)) resps = Inr (ns, rest)"
      "coin_units am = out_total ?out ?cs + sum_list ns" "coin_ticker am = ?out" "coin_units am < 2 ^ 128"
      unfolding Let_def by auto
    obtain f :: "(any_msg list \<times> nat) currency_filter"
      where f: "filter_worker f = (rest, sum_list ns)" "filtered f = out_total ?out ?cs"
        "passed_any f = (to_swap ?out ?cs \<noteq> [])"
      using ex [of "(rest, sum_list ns)" "out_total ?out ?cs" "to_swap ?out ?cs \<noteq> []"] by (elim exE conjE) rule
    have "on_coins (filter_visit ?out (exact_in_response_visit env)) ?cs (currency_filter_new (resps, 0)) = Inr (Complete, f)"
      unfolding * by (intro conjI exI [of _ ns]) (use r f in simp_all)
    moreover have "or_panic (checked_add 128 (filtered f) (snd (filter_worker f))) = (Inr (coin_units am) :: (dex_error, nat) res)"
      using r f by simp
    moreover have "\<lparr>coin_ticker = ?out, coin_units = coin_units am\<rparr> = am"
      using r by (cases am) simp
    ultimately show ?l
      using r(1) unfolding decode_response_def Let_def by (simp del: inversion_simps)
  qed
qed

section \<open>Undisturbed runs\<close>

text \<open>The run of a machine on a list of events: the messages sent, and the last state or the result.\<close>

fun local_run ::
  "('sp, 'x dex_env_scheme, 'r) swap_task \<Rightarrow> 'sp out_local \<Rightarrow> (dex_event \<times> 'x dex_env_scheme) list
     \<Rightarrow> (dex_error, dex_msg list \<times> ('sp out_local + 'r)) res" where
  "local_run task st [] = Inr ([], Inl st)"
| "local_run task st ((ev, env) # evs) =
     (case local_on task st ev env of
        Continue (Inl e) \<Rightarrow> Inl e
      | Continue (Inr (msgs, st')) \<Rightarrow> map_res (\<lambda>(ms, end). (msgs @ ms, end)) (local_run task st' evs)
      | Finished r \<Rightarrow> Inr ([], Inr r))"

text \<open>The messages that leave for the exchange; the others are to the contract itself and to the alarms.\<close>

fun leaves :: "dex_msg \<Rightarrow> bool" where
  "leaves (CallSelfReplyOnError _ _ _) = False"
| "leaves (SetupTimeAlarm _ _) = False"
| "leaves _ = True"

definition outgoing :: "dex_msg list \<Rightarrow> dex_msg list" where
  "outgoing msgs = filter leaves msgs"

lemma outgoing_simps [simp]:
  "outgoing [] = []"
  "outgoing (xs @ ys) = outgoing xs @ outgoing ys"
  "outgoing (CallSelfReplyOnError a cb n # ms) = outgoing ms"
  "outgoing (SetupTimeAlarm a at # ms) = outgoing ms"
  "outgoing (IbcTransfer a b c d e f g # ms) = IbcTransfer a b c d e f g # outgoing ms"
  "outgoing (SubmitTx a' b' t m u v # ms) = SubmitTx a' b' t m u v # outgoing ms"
  by (simp_all add: outgoing_def)

text \<open>An acknowledged transaction is a response and the call of the contract to itself.\<close>

definition acknowledged :: "string \<Rightarrow> 'x dex_env_scheme \<Rightarrow> (dex_event \<times> 'x dex_env_scheme) list" where
  "acknowledged data env = [(Response data, env), (InnerCall, env)]"

text \<open>The moment a transaction sent now expires, which a 64-bit time reaches in year 2554.\<close>

definition expiry :: "'x dex_env_scheme \<Rightarrow> timestamp" where
  "expiry env = Timestamp (at_nanos (dx_now env) + nanos IBC_TIMEOUT)"

definition in_time :: "'x dex_env_scheme \<Rightarrow> bool" where
  "in_time env \<longleftrightarrow> at_nanos (dx_now env) + nanos IBC_TIMEOUT < 2 ^ 64"

lemma in_timeD:
  assumes "in_time env"
  shows "timestamp_add (dx_now env) IBC_TIMEOUT = Some (expiry env)"
    and "\<exists>at. timestamp_add (dx_now env) POLLING_INTERVAL = Some at"
  using assms by (simp_all add: in_time_def expiry_def timestamp_add_Some POLLING_INTERVAL_def IBC_TIMEOUT_def
      from_secs_def from_days_def time_consts)

definition transfer_message :: "account \<Rightarrow> 'x dex_env_scheme \<Rightarrow> coin_dto \<Rightarrow> dex_msg" where
  "transfer_message acc env c =
     IbcTransfer (local_endpoint (account_dex acc)) (account_owner acc) (account_host acc)
       (to_cosmwasm_on_network (bank_symbol (dx_net env)) c) (expiry env) ICA_TRANSFER_TIPS
       (''Transfer out: '' @ account_owner acc @ '' -> '' @ account_host acc)"

definition transfer_back_message :: "account \<Rightarrow> 'x dex_env_scheme \<Rightarrow> coin_dto \<Rightarrow> dex_msg" where
  "transfer_back_message acc env c =
     SubmitTx (connection_id (account_dex acc)) ICA_ACCOUNT_ID
       [MsgTransfer (remote_endpoint (account_dex acc)) (account_host acc) (account_owner acc)
          (to_cosmwasm_on_network (dex_symbol (dx_net env)) c) (expiry env)]
       ''memo'' IBC_TIMEOUT ICA_SWAP_TIPS"

lemma outgoing_transfer [simp]:
  "outgoing (transfer_message acc env c # ms) = transfer_message acc env c # outgoing ms"
  "outgoing (transfer_back_message acc env c # ms) = transfer_back_message acc env c # outgoing ms"
  by (simp_all add: transfer_message_def transfer_back_message_def)

lemma transfer_out_ok_length:
  assumes "transfer_out_ok task st"
  shows "length (task_coins task (to_spec st)) = Suc (last_coin_index st)"
    and "last_coin_index st < 256" and "coin_index st \<le> last_coin_index st"
  using assms by (cases "task_coins task (to_spec st)";
      auto simp: transfer_out_ok.simps last_coin_index_of_eq split: if_splits)+

lemma transfer_out_enter_eq:
  assumes "transfer_out_ok task st" "in_time env"
  shows "transfer_out_enter task st env =
    Inr [transfer_message (task_account task (to_spec st)) env (task_coins task (to_spec st) ! coin_index st)]"
proof -
  have "coin_index st < length (task_coins task (to_spec st))"
    using transfer_out_ok_length [OF assms(1)] by simp
  then show ?thesis
    unfolding transfer_out_enter_def dex_trx_defs in_timeD(1) [OF assms(2)]
    by (simp add: visit_at_index_eq transfer_message_def del: inversion_simps)
qed

lemma transfer_in_init_enter_eq:
  assumes "in_time env"
  shows "transfer_in_init_enter task st env =
    Inr [transfer_back_message (task_account task (ti_spec st)) env (ti_amount_in st)]"
  unfolding transfer_in_init_enter_def dex_trx_defs in_timeD(1) [OF assms]
  by (simp add: transfer_back_message_def del: inversion_simps)

text \<open>Each acknowledgement, at a moment of its own, sends the next coin, and the last one the swap.\<close>

lemma local_run_transfers:
  assumes "transfer_out_ok task s" "\<forall>(d, env) \<in> set acks. in_time env"
    and "swap_exact_in_enter task \<lparr>sw_spec = to_spec s\<rparr> (snd (last acks)) = Inr batch"
    and "local_run task (LocalSwapExactIn \<lparr>sw_spec = to_spec s\<rparr>) evs = Inr (ms, x)"
    and "length acks = Suc (last_coin_index s - coin_index s)"
  shows "\<exists>msgs. local_run task (LocalTransferOut s) (concat (map (\<lambda>(d, env). acknowledged d env) acks) @ evs)
      = Inr (msgs, x)
    \<and> outgoing msgs = map2 (transfer_message (task_account task (to_spec s))) (map snd (butlast acks))
        (drop (Suc (coin_index s)) (task_coins task (to_spec s))) @ outgoing batch @ outgoing ms"
  using assms
proof (induction acks arbitrary: s)
  case (Cons ack acks)
  obtain d env where ack: "ack = (d, env)" by fastforce
  show ?case
  proof (cases "coin_index s = last_coin_index s")
    case True
    then have "acks = []" using Cons.prems(5) by simp
    then show ?thesis
      using Cons.prems True ack
      by (auto simp: acknowledged_def local_handlers state_handlers transfer_out_on_response_def last_coin_def
          simp del: inversion_simps)
  next
    case False
    then have more: "coin_index s < last_coin_index s" "acks \<noteq> []"
      using transfer_out_ok_length(3) [OF Cons.prems(1)] Cons.prems(5) by auto
    have bound: "last_coin_index s < 256" "length (task_coins task (to_spec s)) = Suc (last_coin_index s)"
      using transfer_out_ok_length [OF Cons.prems(1)] by simp_all
    let ?s' = "s\<lparr>coin_index := Suc (coin_index s)\<rparr>"
    have next': "transfer_out_next s = Some ?s'"
      using more bound(1) by (simp add: transfer_out_next_def checked_add_def fits_def)
    have ok': "transfer_out_ok task ?s'"
      using Cons.prems(1) more by (simp add: transfer_out_ok.simps)
    have len': "length acks = Suc (last_coin_index ?s' - coin_index ?s')"
      using Cons.prems(5) more(1) by simp
    obtain msgs where msgs:
      "local_run task (LocalTransferOut ?s') (concat (map (\<lambda>(d, env). acknowledged d env) acks) @ evs) = Inr (msgs, x)"
      "outgoing msgs = map2 (transfer_message (task_account task (to_spec s))) (map snd (butlast acks))
          (drop (Suc (Suc (coin_index s))) (task_coins task (to_spec s))) @ outgoing batch @ outgoing ms"
      using Cons.IH [OF ok' _ _ _ len'] Cons.prems(2-4) more(2) by auto
    have drop: "drop (Suc (coin_index s)) (task_coins task (to_spec s))
        = task_coins task (to_spec s) ! Suc (coin_index s) # drop (Suc (Suc (coin_index s))) (task_coins task (to_spec s))"
      using more bound(2) by (simp add: Cons_nth_drop_Suc)
    have "in_time env" using Cons.prems(2) ack by simp
    then show ?thesis
      using msgs next' more transfer_out_enter_eq [OF ok'] ack
      by (auto simp: acknowledged_def local_handlers state_handlers transfer_out_on_response_def last_coin_def drop
          transfer_message_def simp del: inversion_simps)
  qed
qed simp

text \<open>
  The arrival of what was transferred back: after the acknowledgement, at the moment of the first
  of the blocks, an alarm in each of the others looks for it in the account.
\<close>

definition arrival :: "string \<Rightarrow> 'x dex_env_scheme list \<Rightarrow> 'x dex_env_scheme \<Rightarrow> (dex_event \<times> 'x dex_env_scheme) list" where
  "arrival d waits env =
     (case waits @ [env] of
        [] \<Rightarrow> []
      | env1 # envs \<Rightarrow> acknowledged d env1 @ map (Pair AlarmFired) envs)"

definition missing :: "coin_dto \<Rightarrow> 'x dex_env_scheme \<Rightarrow> bool" where
  "missing am env \<longleftrightarrow> in_time env \<and> (\<exists>bal. dx_balance env (coin_ticker am) = Some bal \<and> bal < coin_units am)"

definition arrived :: "coin_dto \<Rightarrow> 'x dex_env_scheme \<Rightarrow> bool" where
  "arrived am env \<longleftrightarrow> in_time env \<and> (\<exists>bal. dx_balance env (coin_ticker am) = Some bal \<and> coin_units am \<le> bal)"

lemma try_complete_arrived:
  "arrived (tf_amount_in st) env \<Longrightarrow>
     transfer_in_try_complete task into_init into_finish st env = Finished (task_finish task (tf_spec st) (tf_amount_in st) env)"
  by (auto simp: arrived_def try_complete_Finished)

lemma try_complete_missing:
  assumes "missing (tf_amount_in st) env" "dx_now env < tf_timeout st"
  shows "\<exists>at. transfer_in_try_complete task into_init into_finish st env
    = Continue (Inr ([SetupTimeAlarm (task_time_alarms task (tf_spec st)) at], into_finish st))"
  using assms in_timeD(2) [of env]
  by (auto simp: missing_def transfer_in_try_complete_def check_received_def transfer_in_try_again_def setup_alarm_def
      not_le simp del: timestamp_add_Some)

lemma local_run_polls:
  assumes "\<forall>env \<in> set waits. missing (tf_amount_in st) env \<and> dx_now env < tf_timeout st"
    and "arrived (tf_amount_in st) env"
  shows "\<exists>msgs. local_run task (LocalTransferInFinish st) (map (Pair AlarmFired) (waits @ [env]))
      = Inr (msgs, Inr (task_finish task (tf_spec st) (tf_amount_in st) env)) \<and> outgoing msgs = []"
  using assms(1)
proof (induction waits)
  case Nil
  then show ?case
    using assms(2) by (simp add: local_handlers state_handlers try_complete_arrived)
next
  case (Cons w waits)
  then obtain msgs where msgs: "local_run task (LocalTransferInFinish st) (map (Pair AlarmFired) (waits @ [env]))
      = Inr (msgs, Inr (task_finish task (tf_spec st) (tf_amount_in st) env))" "outgoing msgs = []"
    by auto
  moreover obtain at where "transfer_in_try_complete task LocalTransferInInit LocalTransferInFinish st w
      = Continue (Inr ([SetupTimeAlarm (task_time_alarms task (tf_spec st)) at], LocalTransferInFinish st))"
    using try_complete_missing [of st w task LocalTransferInInit LocalTransferInFinish] Cons.prems by auto
  ultimately show ?case
    by (simp add: local_handlers state_handlers)
qed

lemma local_run_arrival:
  assumes "\<forall>env \<in> set waits. missing am env \<and> dx_now env < expiry (hd waits)" "arrived am env"
  shows "\<exists>msgs. local_run task (LocalTransferInInit \<lparr>ti_spec = spec, ti_amount_in = am\<rparr>) (arrival d waits env)
      = Inr (msgs, Inr (task_finish task spec am env)) \<and> outgoing msgs = []"
proof (cases waits)
  case Nil
  have "in_time env" using assms(2) by (simp add: arrived_def)
  then show ?thesis
    using Nil assms(2)
    by (simp add: arrival_def acknowledged_def local_handlers state_handlers in_timeD(1) try_complete_arrived
        transfer_in_init_on_response_def del: inversion_simps timestamp_add_Some)
next
  case (Cons w ws)
  let ?st = "\<lparr>tf_spec = spec, tf_amount_in = am, tf_timeout = expiry w\<rparr>"
  have w: "in_time w" "missing am w" "dx_now w < expiry w"
    using assms(1) Cons by (auto simp: missing_def)
  obtain at where at: "transfer_in_try_complete task LocalTransferInInit LocalTransferInFinish ?st w
      = Continue (Inr ([SetupTimeAlarm (task_time_alarms task spec) at], LocalTransferInFinish ?st))"
    using try_complete_missing [of ?st w task LocalTransferInInit LocalTransferInFinish] w by auto
  obtain msgs where "local_run task (LocalTransferInFinish ?st) (map (Pair AlarmFired) (ws @ [env]))
      = Inr (msgs, Inr (task_finish task spec am env))" "outgoing msgs = []"
    using local_run_polls [of ws ?st env] assms Cons by auto
  then show ?thesis
    using Cons at w(1)
    by (simp add: arrival_def acknowledged_def local_handlers state_handlers in_timeD(1)
        transfer_in_init_on_response_def del: inversion_simps timestamp_add_Some)
qed

text \<open>
  C15. A swap that no error, timeout or failed delivery disturbs, over as many blocks as it takes,
  each with a time, balances and exchange rates of its own: entering its first state sends the
  first coin; every acknowledgement sends the next one, and the last one the swap of exactly the
  coins that are not yet in the out currency, each along the path the oracle gives for it then, in
  one transaction; its whole result is transferred back; and once it has arrived, which the
  contract looks for at every alarm until the transfer expires, the task is finished with
  exactly that amount. Every coin is sent once and in order, and nothing else leaves for the
  exchange.
\<close>

theorem undisturbed_swap_finishes:
  assumes "start_local_local task spec = Some s"
    and "length acks = length (task_coins task spec)"
    and "in_time first_env" "in_time swap_env" "\<forall>(d, env) \<in> set acks. in_time env"
    and "\<forall>c \<in> set (to_swap (task_out_currency task spec) (task_coins task spec)).
           dx_swap_path (snd (last acks)) (coin_ticker c) (task_out_currency task spec) = Some (path c)"
    and "decode_response task \<lparr>sw_spec = spec\<rparr> data swap_env = Inr am"
    and "\<forall>env \<in> set waits. missing am env \<and> dx_now env < expiry (hd waits)"
    and "arrived am end_env"
  shows "\<exists>first msgs. transfer_out_enter task s first_env = Inr first
    \<and> local_run task (LocalTransferOut s)
        (concat (map (\<lambda>(d, env). acknowledged d env) acks) @ acknowledged data swap_env @ arrival d waits end_env)
      = Inr (msgs, Inr (task_finish task spec am end_env))
    \<and> outgoing (first @ msgs) =
        map2 (transfer_message (task_account task spec)) (first_env # map snd (butlast acks)) (task_coins task spec)
          @ swap_batch (task_account task spec)
              (map (\<lambda>c. build_request (dx_client (snd (last acks))) (dx_net (snd (last acks)))
                          (account_host (task_account task spec)) c (path c))
                 (to_swap (task_out_currency task spec) (task_coins task spec)))
          @ [transfer_back_message (task_account task spec) swap_env am]"
proof -
  let ?acc = "task_account task spec" and ?coins = "task_coins task spec"
  let ?trx = "map (\<lambda>c. build_request (dx_client (snd (last acks))) (dx_net (snd (last acks))) (account_host ?acc) c (path c))
      (to_swap (task_out_currency task spec) ?coins)"
  have s: "transfer_out_ok task s" "to_spec s = spec" "coin_index s = 0"
    using assms(1) by (auto simp: start_local_local_def dest: transfer_out_new_ok)
  note len = transfer_out_ok_length [OF s(1)]
  have "out_total (task_out_currency task spec) ?coins < 2 ^ 128"
    using assms(7) unfolding decode_response_Inr Let_def by auto
  then have request: "swap_exact_in_enter task \<lparr>sw_spec = to_spec s\<rparr> (snd (last acks)) = Inr (swap_batch ?acc ?trx)"
    unfolding swap_exact_in_enter_Inr Let_def s(2) swap_exact_in.simps swap_messages_eq [OF assms(6)] by simp
  obtain msgs where arrive: "local_run task (LocalTransferInInit \<lparr>ti_spec = spec, ti_amount_in = am\<rparr>) (arrival d waits end_env)
      = Inr (msgs, Inr (task_finish task spec am end_env))" "outgoing msgs = []"
    using local_run_arrival [OF assms(8,9), where task = task and spec = spec and d = d] by (elim exE conjE) rule
  obtain msgs2 where swapped: "local_run task (LocalSwapExactIn \<lparr>sw_spec = to_spec s\<rparr>)
      (acknowledged data swap_env @ arrival d waits end_env) = Inr (msgs2, Inr (task_finish task spec am end_env))"
    "outgoing msgs2 = [transfer_back_message ?acc swap_env am]"
    using arrive s(2) transfer_in_init_enter_eq [OF assms(4), of task "\<lparr>ti_spec = spec, ti_amount_in = am\<rparr>"] assms(7)
    by (simp add: acknowledged_def local_handlers state_handlers swap_local_on_response_def transfer_back_message_def
        del: inversion_simps)
  have coins: "?coins = ?coins ! 0 # drop (Suc 0) ?coins"
    using len(1) s(2) by (cases ?coins) auto
  obtain msgs3 where run: "local_run task (LocalTransferOut s)
      (concat (map (\<lambda>(d, env). acknowledged d env) acks) @ acknowledged data swap_env @ arrival d waits end_env)
      = Inr (msgs3, Inr (task_finish task spec am end_env))"
    "outgoing msgs3 = map2 (transfer_message ?acc) (map snd (butlast acks)) (drop (Suc 0) ?coins)
      @ swap_batch ?acc ?trx @ [transfer_back_message ?acc swap_env am]"
    using local_run_transfers [OF s(1) assms(5) request swapped(1)] assms(2) len(1) s swapped(2)
    by (auto simp: swap_batch_def submit_transaction_def)
  have "outgoing ([transfer_message ?acc first_env (?coins ! 0)] @ msgs3)
      = map2 (transfer_message ?acc) (first_env # map snd (butlast acks)) ?coins
        @ swap_batch ?acc ?trx @ [transfer_back_message ?acc swap_env am]"
    using run(2) by (subst (2) coins) simp
  then show ?thesis
    using run(1) transfer_out_enter_eq [OF s(1) assms(3)] s(2,3) by (intro exI conjI) (assumption | simp)+
qed

section \<open>Guarantees\<close>

text \<open>The two clients take one response for one swap, whatever follows it.\<close>

lemma parse_one:
  assumes "client = astroport \<or> client = osmosis"
  shows "parse_response client w resps = Inr (n, rest) \<longleftrightarrow>
    (\<exists>r. resps = r # rest \<and> parse_response client w [r] = Inr (n, []))"
  using assms by (auto simp: astroport_def astroport_parse_def osmosis_def osmosis_parse_def)

lemma take_amounts_nth:
  assumes "dx_client env = astroport \<or> dx_client env = osmosis"
  shows "take_amounts env k resps = Inr (ns, rest) \<longleftrightarrow>
    length ns = k \<and> k \<le> length resps \<and> rest = drop k resps
      \<and> (\<forall>i < k. parse_response (dx_client env) (dx_wire env) [resps ! i] = Inr (ns ! i, []))"
proof (induction k arbitrary: resps ns)
  case (Suc k)
  show ?case
  proof (cases resps)
    case Nil
    then show ?thesis using parse_one [OF assms, of _ "[]"] by auto
  next
    case (Cons r rs)
    then show ?thesis
      using Suc.IH parse_one [OF assms, of _ resps]
      by (cases ns) (auto simp: less_Suc_eq_0_disj)
  qed
qed auto

text \<open>
  C22. The amount a swap is worth is read from the response of its transaction exactly when it
  carries an answer for each coin that was not yet in the out currency, the answers being in the
  order of the coins, and each of them is one the exchange gives for a swap; the amount is then
  the sum of the amounts in these answers and of the coins that already were in the out
  currency, is in the out currency, and fits 128 bits.
\<close>

theorem swap_amount_spec:
  assumes "dx_client env = astroport \<or> dx_client env = osmosis"
  shows "decode_response task st resp env = Inr am \<longleftrightarrow>
    (let out = task_out_currency task (sw_spec st); coins = task_coins task (sw_spec st); swapped = length (to_swap out coins)
     in \<exists>resps ns. decode_trx_data (dx_wire env) resp = Some resps
       \<and> swapped \<le> length resps \<and> length ns = swapped
       \<and> (\<forall>i < swapped. parse_response (dx_client env) (dx_wire env) [resps ! i] = Inr (ns ! i, []))
       \<and> am = \<lparr>coin_ticker = out, coin_units = out_total out coins + sum_list ns\<rparr>
       \<and> out_total out coins + sum_list ns < 2 ^ 128)"
  unfolding decode_response_Inr Let_def take_amounts_nth [OF assms]
  by (cases am) (auto simp: decode_msg_responses_def)

text \<open>
  C14. Whatever acknowledgements, errors, timeouts, alarms, failed deliveries and heals come in,
  and in any order: when a swap ends, it ends with the result of the very task it was started
  for, on an amount that has arrived in the account of the contract, and, if it started from
  a known amount to bring in, on that amount.
\<close>

theorem swap_ends_with_received_amount:
  assumes "local_start task spec st" "(local_step task)\<^sup>*\<^sup>* st st'" "local_on task st' ev env = Finished r"
  shows "\<exists>a bal. r = task_finish task spec a env \<and> local_amount st' = Some a
    \<and> dx_balance env (coin_ticker a) = Some bal \<and> coin_units a \<le> bal
    \<and> (local_amount st = None \<or> local_amount st = Some a)"
proof -
  have "local_inv task spec st'"
    by (rule local_swap.steps_inv [OF assms(2) local_swap.init_inv [OF assms(1)]])
  then have "local_spec st' = spec" by (simp add: local_inv_def)
  moreover obtain a bal where a: "local_amount st' = Some a" "dx_balance env (coin_ticker a) = Some bal"
    "coin_units a \<le> bal" "r = task_finish task (local_spec st') a env"
    using local_on_finished [OF assms(3)] by blast
  moreover have "local_amount st = None \<or> local_amount st = Some a"
    using local_amount_kept [OF assms(2)] a(1) by (cases "local_amount st") auto
  ultimately show ?thesis by auto
qed

text \<open>A response in delivery, whatever the state that waits for it.\<close>

fun local_in_delivery :: "'sp out_local \<Rightarrow> bool" where
  "local_in_delivery (LocalTransferOutRespDelivery _) = True"
| "local_in_delivery (LocalSwapExactInRespDelivery _) = True"
| "local_in_delivery (LocalTransferInInitRespDelivery _) = True"
| "local_in_delivery _ = False"

text \<open>
  C23. A response that failed to be delivered is not lost: the error makes the machine ask for an
  alarm one nanosecond later and stay as it is, the alarm delivers just as the first attempt
  did, and no acknowledgement, error, timeout or heal is accepted meanwhile.
\<close>

theorem failed_delivery_is_repeated:
  assumes "local_in_delivery st" "timestamp_add (dx_now env) RIGHT_AFTER_NOW = Some at"
  shows "local_on task st ReplyOnError env =
      Continue (Inr ([SetupTimeAlarm (task_time_alarms task (local_spec st)) at], st))
    \<and> local_on task st AlarmFired env' = local_on task st InnerCall env'
    \<and> (\<forall>ev. ev \<in> {ErrorAck, TimeoutAck, HealCall} \<or> (\<exists>x. ev \<in> {Response x, OpenAck x}) \<longrightarrow>
        (\<exists>op state. local_on task st ev env' = Continue (Inl (Fail (DexUnsupportedOperation op state)))))"
proof (intro conjI allI impI)
  show "local_on task st ReplyOnError env =
      Continue (Inr ([SetupTimeAlarm (task_time_alarms task (local_spec st)) at], st))"
    using assms(1) by (cases st)
      (simp_all add: local_handlers state_handlers assms(2) task_alarm_def setup_alarm_def
        local_spec_def del: timestamp_add_Some inversion_simps)
  show "local_on task st AlarmFired env' = local_on task st InnerCall env'"
    using assms(1) by (cases st) (simp_all add: local_handlers state_handlers)
  fix ev assume "ev \<in> {ErrorAck, TimeoutAck, HealCall} \<or> (\<exists>x. ev \<in> {Response x, OpenAck x})"
  then have "\<not> local_takes st ev"
    using assms(1) by (cases st) auto
  then show "\<exists>op state. local_on task st ev env' = Continue (Inl (Fail (DexUnsupportedOperation op state)))"
    by (rule local_refused)
qed

section \<open>The machine that leaves the result on the exchange\<close>

lemma remote_on_finished:
  assumes "remote_on ce task st ev env = Finished r"
  shows "\<exists>rd am. st = RemoteSwapExactInRespDelivery rd
    \<and> decode_response task (rd_handler rd) (rd_response rd) env = Inr am
    \<and> r = task_finish task (sw_spec (rd_handler rd)) am env"
  using assms
  by (cases st; cases ev)
    (auto simp: remote_handlers state_handlers swap_remote_on_response_def split: sum.splits)

end
