(* ===== verification/Dex_Examples.thy ===== *)
theory Dex_Examples
  imports Dex_Runs
begin

text \<open>A concrete swap on Osmosis, at which the guarantees of the swaps are instantiated.\<close>

definition example_account :: account where
  "example_account =
     \<lparr>account_owner = ''lease'', account_host = ''ica'',
      account_dex = \<lparr>connection_id = ''connection-0'', local_endpoint = ''channel-0'', remote_endpoint = ''channel-1''\<rparr>\<rparr>"

definition example_swap :: "(coin_dto list, dex_env, coin_dto) swap_task" where
  "example_swap =
     \<lparr>task_label = (\<lambda>_. ''example''), task_account = (\<lambda>_. example_account), task_time_alarms = (\<lambda>_. ''alarms''),
      task_out_currency = (\<lambda>_. ''USDC''), task_coins = (\<lambda>cs. cs), task_finish = (\<lambda>_ am _. am)\<rparr>"

definition example_wire :: wire where
  "example_wire =
     \<lparr>decode_trx_data = (\<lambda>_. Some [\<lparr>type_url = SWAP_RESPONSE, any_value = ''7''\<rparr>]),
      decode_proto = (\<lambda>_ v. Some v), json_return_amount = (\<lambda>_. None),
      parse_amount = (\<lambda>v. if v = ''7'' then Some 7 else None), json_open_ack = Some\<rparr>"

definition example_dex :: dex_env where
  "example_dex =
     \<lparr>dx_now = Timestamp 0, dx_self = ''lease'', dx_net = \<lparr>bank_symbol = (\<lambda>t. t), dex_symbol = (\<lambda>t. t)\<rparr>,
      dx_wire = example_wire, dx_client = osmosis, dx_balance = (\<lambda>_. Some 100),
      dx_swap_path = (\<lambda>_ out. Some [\<lparr>pool_id = 1, target = out\<rparr>])\<rparr>"

text \<open>An hour later nothing has arrived yet.\<close>

definition example_later :: dex_env where
  "example_later = example_dex\<lparr>dx_now := Timestamp 3600000000000, dx_balance := (\<lambda>_. Some 0)\<rparr>"

definition example_coins :: "coin_dto list" where
  "example_coins = [\<lparr>coin_ticker = ''ATOM'', coin_units = 5\<rparr>, \<lparr>coin_ticker = ''USDC'', coin_units = 3\<rparr>]"

definition example_out :: coin_dto where
  "example_out = \<lparr>coin_ticker = ''USDC'', coin_units = 10\<rparr>"

lemmas example_defs =
  example_account_def example_swap_def example_wire_def example_dex_def example_coins_def example_out_def

lemma example_expires: "timestamp_add (dx_now example_dex) IBC_TIMEOUT = Some (Timestamp 8640000000000000)"
  by (simp add: example_dex_def IBC_TIMEOUT_def from_days_def from_nanos_def time_consts)

lemma example_coins_split [simp]:
  "out_total ''USDC'' example_coins = 3"
  "to_swap ''USDC'' example_coins = [\<lparr>coin_ticker = ''ATOM'', coin_units = 5\<rparr>]"
  "length example_coins = 2"
  by (simp_all add: example_coins_def)

lemma example_task [simp]:
  "task_account example_swap spec = example_account" "task_out_currency example_swap spec = ''USDC''"
  "task_coins example_swap spec = spec" "task_finish example_swap spec am env = am"
  "task_time_alarms example_swap spec = ''alarms''"
  by (simp_all add: example_swap_def)

lemma example_decoded:
  "decode_response example_swap \<lparr>sw_spec = example_coins\<rparr> ''data'' example_dex = Inr example_out"
  unfolding decode_response_Inr
  by (simp add: example_dex_def example_wire_def example_out_def osmosis_def osmosis_parse_def next_response_def
      decode_msg_responses_def decode_msg_response_def del: inversion_simps)

lemma example_requested:
  "\<forall>c \<in> set (to_swap ''USDC'' example_coins).
     dx_swap_path example_later (coin_ticker c) ''USDC'' = Some [\<lparr>pool_id = 1, target = ''USDC''\<rparr>]"
  by (simp add: example_later_def example_dex_def)

lemma example_started:
  "start_local_local example_swap example_coins = Some \<lparr>to_spec = example_coins, coin_index = 0, last_coin_index = 1\<rparr>"
  by (simp add: start_local_local_def transfer_out_new_def last_coin_index_of_eq) (simp add: example_coins_def)

lemma example_balance: "dx_balance example_dex (coin_ticker example_out) = Some 100" "coin_units example_out \<le> 100"
  by (simp_all add: example_dex_def example_out_def)

text \<open>
  The answer comes when nothing has arrived, the first look for it finds nothing, the next one all.
\<close>

lemma example_arrives:
  "in_time example_dex" "in_time example_later"
  "\<forall>env \<in> set [example_later]. missing example_out env \<and> dx_now env < expiry (hd [example_later])"
  "arrived example_out (example_dex\<lparr>dx_now := Timestamp 7200000000000\<rparr>)"
  by (simp_all add: in_time_def missing_def arrived_def example_later_def example_dex_def example_out_def expiry_def
      IBC_TIMEOUT_def from_days_def time_consts time_order)

theorem undisturbed_swap_finishes_witness:
  "\<exists>first msgs. transfer_out_enter example_swap \<lparr>to_spec = example_coins, coin_index = 0, last_coin_index = 1\<rparr> example_dex = Inr first
    \<and> local_run example_swap (LocalTransferOut \<lparr>to_spec = example_coins, coin_index = 0, last_coin_index = 1\<rparr>)
        (acknowledged ''ok'' example_dex @ acknowledged ''ok'' example_later @ acknowledged ''data'' example_dex
          @ arrival ''ok'' [example_later] (example_dex\<lparr>dx_now := Timestamp 7200000000000\<rparr>))
      = Inr (msgs, Inr example_out)
    \<and> outgoing (first @ msgs) =
        [transfer_message example_account example_dex \<lparr>coin_ticker = ''ATOM'', coin_units = 5\<rparr>,
         transfer_message example_account example_dex \<lparr>coin_ticker = ''USDC'', coin_units = 3\<rparr>]
        @ swap_batch example_account [PoolSwap ''ica'' [(1, ''USDC'')] \<lparr>denom = ''ATOM'', cw_amount = 5\<rparr> 1]
        @ [transfer_back_message example_account example_dex example_out]"
proof -
  have request: "build_request (dx_client example_later) (dx_net example_later) (account_host example_account)
        \<lparr>coin_ticker = ''ATOM'', coin_units = 5\<rparr> [\<lparr>pool_id = Suc 0, target = ''USDC''\<rparr>]
      = PoolSwap ''ica'' [(Suc 0, ''USDC'')] \<lparr>denom = ''ATOM'', cw_amount = 5\<rparr> (Suc 0)"
    by (simp add: example_later_def example_dex_def example_account_def osmosis_def osmosis_build_def to_route_def
        to_cosmwasm_on_network_def MIN_OUT_AMOUNT_def)
  have sent: "map2 (transfer_message example_account) (example_dex # map snd (butlast [(''ok'', example_dex), (''ok'', example_later)]))
      example_coins = [transfer_message example_account example_dex \<lparr>coin_ticker = ''ATOM'', coin_units = 5\<rparr>,
         transfer_message example_account example_dex \<lparr>coin_ticker = ''USDC'', coin_units = 3\<rparr>]"
    by (simp add: example_coins_def)
  have acks: "length [(''ok'', example_dex), (''ok'', example_later)] = length (task_coins example_swap example_coins)"
    "\<forall>(d, env) \<in> set [(''ok'', example_dex), (''ok'', example_later)]. in_time env"
    "\<forall>c \<in> set (to_swap (task_out_currency example_swap example_coins) (task_coins example_swap example_coins)).
       dx_swap_path (snd (last [(''ok'', example_dex), (''ok'', example_later)])) (coin_ticker c)
         (task_out_currency example_swap example_coins) = Some [\<lparr>pool_id = 1, target = ''USDC''\<rparr>]"
    using example_requested by (simp_all add: example_arrives)
  show ?thesis
    using undisturbed_swap_finishes [OF example_started acks(1) example_arrives(1,1) acks(2,3) example_decoded
        example_arrives(3,4), of "''ok''"]
    unfolding example_task sent by (simp add: request)
qed

theorem swap_amount_spec_witness:
  "\<exists>resps ns. decode_trx_data example_wire ''data'' = Some resps \<and> length ns = 1
    \<and> parse_response osmosis example_wire [resps ! 0] = Inr (ns ! 0, []) \<and> coin_units example_out = 3 + sum_list ns"
proof -
  have client: "dx_client example_dex = astroport \<or> dx_client example_dex = osmosis"
    and env: "dx_wire example_dex = example_wire" "dx_client example_dex = osmosis"
    by (simp_all add: example_dex_def)
  obtain resps ns where *: "decode_trx_data example_wire ''data'' = Some resps" "length ns = 1"
    "parse_response osmosis example_wire [resps ! 0] = Inr (ns ! 0, [])"
    "example_out = \<lparr>coin_ticker = ''USDC'', coin_units = 3 + sum_list ns\<rparr>"
    using iffD1 [OF swap_amount_spec [OF client] example_decoded] unfolding env Let_def
    by (elim exE conjE) simp
  have "coin_units example_out = 3 + sum_list ns" by (subst *(4)) simp
  with *(1-3) show ?thesis by (intro exI conjI)
qed

lemma example_in: "local_on example_swap (LocalTransferInInit (start_transfer_in example_coins example_out)) HealCall example_dex
    = Finished example_out"
  unfolding local_on.simps local_heal.simps local_handlers state_handlers
  by (simp add: transfer_in_init_on_response_def example_expires try_complete_Finished start_transfer_in_def
      example_balance del: timestamp_add_Some)

theorem swap_ends_with_received_amount_witness:
  "\<exists>a bal. example_out = a \<and> dx_balance example_dex (coin_ticker a) = Some bal \<and> coin_units a \<le> bal"
proof -
  have "local_start example_swap example_coins (LocalTransferInInit (start_transfer_in example_coins example_out))"
    by (rule from_transfer)
  from swap_ends_with_received_amount [OF this rtranclp.rtrancl_refl example_in]
  show ?thesis by auto
qed

theorem failed_delivery_is_repeated_witness:
  "local_on example_swap (LocalSwapExactInRespDelivery \<lparr>rd_handler = \<lparr>sw_spec = example_coins\<rparr>, rd_response = ''data''\<rparr>)
     ReplyOnError example_dex
   = Continue (Inr ([SetupTimeAlarm ''alarms'' (Timestamp 1)],
       LocalSwapExactInRespDelivery \<lparr>rd_handler = \<lparr>sw_spec = example_coins\<rparr>, rd_response = ''data''\<rparr>))"
proof -
  have at: "timestamp_add (dx_now example_dex) RIGHT_AFTER_NOW = Some (Timestamp 1)"
    by (simp add: example_dex_def RIGHT_AFTER_NOW_def from_nanos_def)
  have d: "local_in_delivery
      (LocalSwapExactInRespDelivery \<lparr>rd_handler = \<lparr>sw_spec = example_coins\<rparr>, rd_response = ''data''\<rparr>)" by simp
  show ?thesis
    using failed_delivery_is_repeated [OF d at, of example_swap] by simp
qed

end
