(* ===== verification/Lease_Machine.thy ===== *)
theory Lease_Machine
  imports Lease Leaser Dex_Machines
begin

text \<open>
  The states of the contract of a lease (\<open>lease/src/contract/state\<close>) and the swap tasks between
  them. The lease is stored as data (\<open>lease/src/lease/dto.rs\<close>): each operation builds it with the
  loan and the price the other contracts answer, which are fields of \<open>lease_env\<close>. The states that
  wait for the exchange hold a swap state machine of \<open>Dex_Machines\<close> over one of the tasks below;
  what a task finishes with is the response of the contract.
\<close>

section \<open>Stored data\<close>

record loan_dto =
  ln_lpp :: addr
  ln_lpn :: string
  ln_profit :: addr
  ln_due_period :: duration
  ln_margin_interest :: percent
  ln_margin_paid_by :: timestamp

text \<open>The currency of the amount of the position is stored with it.\<close>

record ('a, 'l) lease_dto =
  ld_addr :: addr
  ld_customer :: addr
  ld_currency :: string
  ld_position :: "('a, 'l) position"
  ld_loan :: loan_dto
  ld_time_alarms :: addr
  ld_oracle :: addr
  ld_reserve :: addr

record ('a, 'l) contract_lease =
  cl_lease :: "('a, 'l) lease_dto"
  cl_dex :: account
  cl_finalizer :: addr

record lease_deps =
  dep_lpp :: addr
  dep_lpn :: string
  dep_oracle :: addr
  dep_time_alarms :: addr
  dep_finalizer :: addr

record open_loan_resp =
  resp_principal :: coin_dto
  resp_interest_rate :: percent

record 'l request_loan =
  rl_new_lease :: "'l new_lease_contract"
  rl_downpayment :: coin_dto
  rl_deps :: lease_deps

record 'l open_ica_account =
  oi_new_lease :: "'l new_lease_contract"
  oi_downpayment :: coin_dto
  oi_loan :: open_loan_resp
  oi_deps :: lease_deps
  oi_start_opening_at :: timestamp

record 'l buy_asset =
  ba_form :: "'l new_lease_form"
  ba_account :: account
  ba_downpayment :: coin_dto
  ba_loan :: open_loan_resp
  ba_deps :: lease_deps
  ba_start_opening_at :: timestamp

record ('a, 'l) buy_lpn =
  bl_lease :: "('a, 'l) contract_lease"
  bl_payment :: coin_dto

text \<open>What a sale of the asset is for: each is a specification of its own in the code.\<close>

datatype 'a repayable =
    LiquidatePart "'a coin" cause
  | LiquidateAll cause
  | ClosePart "'a coin"
  | CloseAll

record ('a, 'l) sell_asset =
  sa_lease :: "('a, 'l) contract_lease"
  sa_repayable :: "'a repayable"

record ('a, 'l) transfer_in_task =
  tt_lease :: "('a, 'l) contract_lease"

datatype ('a, 'l) lease_machine =
    RequestLoan "'l request_loan"
  | BuyAsset "('l open_ica_account, 'l buy_asset) out_remote"
  | OpenedActive "('a, 'l) contract_lease"
  | BuyLpn "('a, 'l) buy_lpn out_local"
  | PartialLiquidation "('a, 'l) sell_asset out_local"
  | FullLiquidation "('a, 'l) sell_asset out_local"
  | PartialClose "('a, 'l) sell_asset out_local"
  | FullClose "('a, 'l) sell_asset out_local"
  | PaidActive "('a, 'l) contract_lease"
  | ClosingTransferIn "('a, 'l) transfer_in_task out_local"
  | Closed
  | Liquidated

section \<open>Environment and messages\<close>

text \<open>
  The phantom type of the payment currency, known at run time only, is \<open>unit\<close>. The currencies of
  a group are given by their symbols in the bank.
\<close>

record ('a, 'l) lease_env = dex_env +
  le_loan :: "'l loan option"
  le_price :: "('a, 'l) price option"
  le_payment_price :: "string \<Rightarrow> (unit, 'l) price option"
  le_payments :: "string \<Rightarrow> string option"
  le_lpns :: "string \<Rightarrow> string option"
  le_all_balances :: "cw_coin list option"
  le_code_of :: "addr \<Rightarrow> nat option"
  le_valid :: "addr \<Rightarrow> bool"
  le_lpp_refused :: "addr \<Rightarrow> lpp_error option"
  le_answers :: "addr \<Rightarrow> bool"

datatype ('a, 'l) lease_out =
    OutLease addr "('a, 'l) lease_msg"
  | OutDex dex_msg
  | OutFinalize addr addr
  | OutSend addr cw_coin
  | OutOpenLoan addr "'l coin"

type_synonym ('a, 'l) response = "('l lease_error, ('a, 'l) lease_out list \<times> ('a, 'l) lease_machine) res"

text \<open>Whom a message of the lease is for; the change of a full close has a receiver of its own.\<close>

definition receiver_of :: "('a, 'l) lease_dto \<Rightarrow> addr \<Rightarrow> ('a, 'l) lease_msg \<Rightarrow> addr" where
  "receiver_of dto change_to m =
     (case m of
        CoverLiquidationLosses _ \<Rightarrow> ld_reserve dto
      | RepayLoan _ \<Rightarrow> ln_lpp (ld_loan dto)
      | SendProfit _ \<Rightarrow> ln_profit (ld_loan dto)
      | SendChange _ \<Rightarrow> change_to
      | AddTimeAlarm _ \<Rightarrow> ld_time_alarms dto
      | AddPriceAlarm _ _ \<Rightarrow> ld_oracle dto
      | SendSurplus _ to \<Rightarrow> to
      | SendAsset _ to \<Rightarrow> to)"

definition outs :: "('a, 'l) lease_dto \<Rightarrow> addr \<Rightarrow> ('a, 'l) lease_msg list \<Rightarrow> ('a, 'l) lease_out list" where
  "outs dto change_to ms = map (\<lambda>m. OutLease (receiver_of dto change_to m) m) ms"

definition finalizer_notify :: "('a, 'l) contract_lease \<Rightarrow> ('a, 'l) lease_out list" where
  "finalizer_notify l = [OutFinalize (cl_finalizer l) (ld_customer (cl_lease l))]"

text \<open>The first coin of a group.\<close>

fun may_received :: "(string \<Rightarrow> string option) \<Rightarrow> cw_coin list \<Rightarrow> coin_dto option" where
  "may_received ticker_of [] = None"
| "may_received ticker_of (c # cs) =
     (case ticker_of (denom c) of
        Some ticker \<Rightarrow> Some \<lparr>coin_ticker = ticker, coin_units = cw_amount c\<rparr>
      | None \<Rightarrow> may_received ticker_of cs)"

section \<open>From the stored lease and back\<close>

definition loan_from_dto :: "loan_dto \<Rightarrow> 'l loan \<Rightarrow> 'l lease_loan" where
  "loan_from_dto dto the_loan =
     \<lparr>lpp_loan = stub_new the_loan, due_period_length = ln_due_period dto,
      margin_interest = ln_margin_interest dto, margin_paid_by = ln_margin_paid_by dto\<rparr>"

definition lease_from_dto :: "('a, 'l) lease_dto \<Rightarrow> 'l loan \<Rightarrow> ('a, 'l) price option \<Rightarrow> ('a, 'l) lease" where
  "lease_from_dto dto the_loan price =
     \<lparr>lease_addr = ld_addr dto, lease_customer = ld_customer dto, lease_position = ld_position dto,
      lease_loan_of = loan_from_dto (ld_loan dto) the_loan, lease_oracle = price\<rparr>"

definition with_lease ::
  "('a, 'l) lease_dto \<Rightarrow> ('a, 'l) lease_env \<Rightarrow> (('a, 'l) lease \<Rightarrow> ('l lease_error, 'r) res) \<Rightarrow> ('l lease_error, 'r) res" where
  "with_lease dto env cmd =
     and_then (ok_or (LeaseLpp NoLoan) (le_loan env)) (\<lambda>the_loan.
       cmd (lease_from_dto dto the_loan (le_price env)))"

definition lease_into_dto :: "('a, 'l) lease_dto \<Rightarrow> ('a, 'l) lease \<Rightarrow> ('a, 'l) lease_dto" where
  "lease_into_dto dto l =
     dto\<lparr>ld_addr := lease_addr l, ld_customer := lease_customer l, ld_position := lease_position l,
         ld_loan := (ld_loan dto)
           \<lparr>ln_due_period := due_period_length (lease_loan_of l),
            ln_margin_interest := margin_interest (lease_loan_of l),
            ln_margin_paid_by := margin_paid_by (lease_loan_of l)\<rparr>\<rparr>"

definition update_lease :: "('a, 'l) contract_lease \<Rightarrow> ('a, 'l) lease \<Rightarrow> ('a, 'l) contract_lease" where
  "update_lease l ls = l\<lparr>cl_lease := lease_into_dto (cl_lease l) ls\<rparr>"

text \<open>The answer of a swap state machine as the response of the contract.\<close>

definition of_continue :: "('s \<Rightarrow> ('a, 'l) lease_machine) \<Rightarrow> 's continue_result \<Rightarrow> ('a, 'l) response" where
  "of_continue into r = map_res (\<lambda>(msgs, s). (map OutDex msgs, into s)) (map_err (\<lambda>_. LeaseDex) r)"

definition of_handled :: "('s \<Rightarrow> ('a, 'l) lease_machine) \<Rightarrow> ('s, ('a, 'l) response) handled \<Rightarrow> ('a, 'l) response" where
  "of_handled into h = (case h of Continue r \<Rightarrow> of_continue into r | Finished r \<Rightarrow> r)"

definition with_finish :: "('sp, 'e, 'q) swap_task \<Rightarrow> ('sp \<Rightarrow> coin_dto \<Rightarrow> 'e \<Rightarrow> 'r) \<Rightarrow> ('sp, 'e, 'r) swap_task" where
  "with_finish t f =
     \<lparr>task_label = task_label t, task_account = task_account t, task_time_alarms = task_time_alarms t,
      task_out_currency = task_out_currency t, task_coins = task_coins t, task_finish = f\<rparr>"

end
