(* ===== verification/Lease_Tasks.thy ===== *)
theory Lease_Tasks
  imports Lease_Machine
begin

text \<open>
  What follows a repayment, a sale or a purchase of the asset (\<open>lease/src/contract/state/opened\<close>,
  \<open>opening/buy_asset.rs\<close>, \<open>paid/transfer_in.rs\<close>), and the swap tasks themselves. A sale is entered
  before its outcome is known, so the entry uses the part of its task that does not depend on it.
\<close>

section \<open>Selling the asset\<close>

definition closable_amount :: "'a repayable \<Rightarrow> ('a, 'l) contract_lease \<Rightarrow> 'a coin" where
  "closable_amount r l =
     (case r of
        LiquidatePart am _ \<Rightarrow> am
      | LiquidateAll _ \<Rightarrow> position_amount (ld_position (cl_lease l))
      | ClosePart am \<Rightarrow> am
      | CloseAll \<Rightarrow> position_amount (ld_position (cl_lease l)))"

definition closable_event_type :: "'a repayable \<Rightarrow> string" where
  "closable_event_type r =
     (case r of
        LiquidatePart _ _ \<Rightarrow> ''ls-liquidation-swap''
      | LiquidateAll _ \<Rightarrow> ''ls-liquidation-swap''
      | ClosePart _ \<Rightarrow> ''ls-close-position''
      | CloseAll \<Rightarrow> ''ls-close-position'')"

definition sell_state :: "'a repayable \<Rightarrow> ('a, 'l) sell_asset out_local \<Rightarrow> ('a, 'l) lease_machine" where
  "sell_state r =
     (case r of
        LiquidatePart _ _ \<Rightarrow> PartialLiquidation
      | LiquidateAll _ \<Rightarrow> FullLiquidation
      | ClosePart _ \<Rightarrow> PartialClose
      | CloseAll \<Rightarrow> FullClose)"

definition position_coin :: "('a, 'l) contract_lease \<Rightarrow> 'a coin \<Rightarrow> coin_dto" where
  "position_coin l am = \<lparr>coin_ticker = ld_currency (cl_lease l), coin_units = amount am\<rparr>"

definition sell_asset_spec :: "(('a, 'l) sell_asset, ('a, 'l) lease_env, unit) swap_task" where
  "sell_asset_spec =
     \<lparr>task_label = (\<lambda>sp. closable_event_type (sa_repayable sp)),
      task_account = (\<lambda>sp. cl_dex (sa_lease sp)),
      task_time_alarms = (\<lambda>sp. ld_time_alarms (cl_lease (sa_lease sp))),
      task_out_currency = (\<lambda>sp. ln_lpn (ld_loan (cl_lease (sa_lease sp)))),
      task_coins = (\<lambda>sp. [position_coin (sa_lease sp) (closable_amount (sa_repayable sp) (sa_lease sp))]),
      task_finish = (\<lambda>_ _ _. ())\<rparr>"

definition sell_asset_start ::
  "'a repayable \<Rightarrow> ('a, 'l) contract_lease \<Rightarrow> ('a, 'l) lease_out list \<Rightarrow> ('a, 'l) lease_env \<Rightarrow> ('a, 'l) response" where
  "sell_asset_start r l curr_request_response env =
     (let start_state = start_remote_local \<lparr>sa_lease = l, sa_repayable = r\<rparr>
      in map_res (\<lambda>swap_msg. (curr_request_response @ map OutDex swap_msg, sell_state r (LocalSwapExactIn start_state)))
           (map_err (\<lambda>_. LeaseDex) (swap_exact_in_enter sell_asset_spec start_state env)))"

definition liquidation_start ::
  "('a, 'l) contract_lease \<Rightarrow> 'a liquidation \<Rightarrow> ('a, 'l) lease_out list \<Rightarrow> ('a, 'l) lease_env \<Rightarrow> ('a, 'l) response" where
  "liquidation_start l liq curr_request_response env =
     (case liq of
        Partial am cause \<Rightarrow> sell_asset_start (LiquidatePart am cause) l curr_request_response env
      | Full cause \<Rightarrow> sell_asset_start (LiquidateAll cause) l curr_request_response env)"

text \<open>The response to a close asked by the policy has an event and no message of before.\<close>

definition auto_start ::
  "strategy \<Rightarrow> ('a, 'l) contract_lease \<Rightarrow> ('a, 'l) lease_env \<Rightarrow> ('a, 'l) response" where
  "auto_start strat l env = sell_asset_start CloseAll l [] env"

section \<open>Repayment and close\<close>

definition alarm_resp :: "('a, 'l) contract_lease \<Rightarrow> ('a, 'l) lease_msg list \<Rightarrow> ('a, 'l) lease_out list" where
  "alarm_resp l alarms = outs (cl_lease l) (ld_customer (cl_lease l)) alarms"

definition repay_try_repay ::
  "'a repay_fn \<Rightarrow> ('a, 'l) contract_lease \<Rightarrow> coin_dto \<Rightarrow> ('a, 'l) lease_env \<Rightarrow> ('a, 'l) response" where
  "repay_try_repay f l am env =
     and_then (with_lease (cl_lease l) env (\<lambda>ls. repay_exec f ls (Coin (coin_units am)) (dx_now env))) (\<lambda>res.
       let l' = update_lease l (result_lease res);
           response = outs (cl_lease l) (ld_customer (cl_lease l)) (result_messages res)
       in case result_status res of
            DtoPaid \<Rightarrow> Inr (response, PaidActive l')
          | DtoNone _ alarms \<Rightarrow> Inr (alarm_resp l' alarms @ response, OpenedActive l')
          | DtoNeedLiquidation liq \<Rightarrow> liquidation_start l' liq response env
          | DtoCloseAsked strat \<Rightarrow>
              (case strat of TakeProfit _ \<Rightarrow> Inl Panic | _ \<Rightarrow> auto_start strat l' env))"

text \<open>The receiver of the change and the state a full close ends in are those of its kind.\<close>

definition close_try_repay ::
  "addr \<Rightarrow> ('a, 'l) lease_machine \<Rightarrow> ('a, 'l) contract_lease \<Rightarrow> coin_dto \<Rightarrow> ('a, 'l) lease_env \<Rightarrow> ('a, 'l) response" where
  "close_try_repay change_to out_state l am env =
     map_res (\<lambda>(receipt, msgs). (outs (cl_lease l) change_to msgs @ finalizer_notify l, out_state))
       (with_lease (cl_lease l) env (\<lambda>ls.
          or_panic (lease_close_full ls (Coin (coin_units am)) (dx_now env) [] None [])))"

definition try_repay ::
  "'a repayable \<Rightarrow> ('a, 'l) contract_lease \<Rightarrow> coin_dto \<Rightarrow> ('a, 'l) lease_env \<Rightarrow> ('a, 'l) response" where
  "try_repay r l am env =
     (case r of
        LiquidatePart part _ \<Rightarrow> repay_try_repay (CloseFn part) l am env
      | LiquidateAll _ \<Rightarrow> close_try_repay (ln_profit (ld_loan (cl_lease l))) Liquidated l am env
      | ClosePart part \<Rightarrow> repay_try_repay (CloseFn part) l am env
      | CloseAll \<Rightarrow> close_try_repay (ld_customer (cl_lease l)) Closed l am env)"

definition sell_asset_task :: "(('a, 'l) sell_asset, ('a, 'l) lease_env, ('a, 'l) response) swap_task" where
  "sell_asset_task =
     with_finish sell_asset_spec (\<lambda>sp am env. try_repay (sa_repayable sp) (sa_lease sp) am env)"

section \<open>Repaying in another currency\<close>

definition customer_repay :: "('a, 'l) contract_lease \<Rightarrow> coin_dto \<Rightarrow> ('a, 'l) lease_env \<Rightarrow> ('a, 'l) response" where
  "customer_repay l am env = repay_try_repay RepayLeaseFn l am env"

definition buy_lpn_task :: "(('a, 'l) buy_lpn, ('a, 'l) lease_env, ('a, 'l) response) swap_task" where
  "buy_lpn_task =
     \<lparr>task_label = (\<lambda>_. ''ls-repay-swap''),
      task_account = (\<lambda>sp. cl_dex (bl_lease sp)),
      task_time_alarms = (\<lambda>sp. ld_time_alarms (cl_lease (bl_lease sp))),
      task_out_currency = (\<lambda>sp. ln_lpn (ld_loan (cl_lease (bl_lease sp)))),
      task_coins = (\<lambda>sp. [bl_payment sp]),
      task_finish = (\<lambda>sp am env. customer_repay (bl_lease sp) am env)\<rparr>"

section \<open>Opening\<close>

definition spec_from_dto :: "'l position_spec_dto \<Rightarrow> 'l spec" where
  "spec_from_dto dto =
     spec_new (dto_liability dto) \<lparr>take_profit = None, stop_loss = None\<rparr> (dto_min_asset dto) (dto_min_transaction dto)"

definition answer_from :: "('a, 'l) lease_env \<Rightarrow> addr \<Rightarrow> 'l lease_error \<Rightarrow> ('l lease_error, unit) res" where
  "answer_from env a e = (if le_answers env a then Inr () else Inl (Fail e))"

definition opening_dto :: "'l buy_asset \<Rightarrow> coin_dto \<Rightarrow> ('a, 'l) lease_dto" where
  "opening_dto sp am =
     \<lparr>ld_addr = account_owner (ba_account sp), ld_customer = form_customer (ba_form sp),
      ld_currency = coin_ticker am,
      ld_position = position_new (Coin (coin_units am)) (spec_from_dto (form_position_spec (ba_form sp))),
      ld_loan =
        \<lparr>ln_lpp = dep_lpp (ba_deps sp), ln_lpn = dep_lpn (ba_deps sp),
         ln_profit = form_profit (form_loan (ba_form sp)),
         ln_due_period = form_due_period (form_loan (ba_form sp)),
         ln_margin_interest = form_margin_interest (form_loan (ba_form sp)),
         ln_margin_paid_by = ba_start_opening_at sp\<rparr>,
      ld_time_alarms = dep_time_alarms (ba_deps sp), ld_oracle = dep_oracle (ba_deps sp),
      ld_reserve = form_reserve (ba_form sp)\<rparr>"

definition buy_asset_finish :: "'l buy_asset \<Rightarrow> coin_dto \<Rightarrow> ('a, 'l) lease_env \<Rightarrow> ('a, 'l) response" where
  "buy_asset_finish sp am env =
     (let dto = opening_dto sp am in
      and_then (answer_from env (form_profit (form_loan (ba_form sp))) LeaseProfit) (\<lambda>_.
      and_then (answer_from env (form_reserve (ba_form sp)) LeaseReserve) (\<lambda>_.
      and_then (ok_or (LeaseLpp NoLoan) (le_loan env)) (\<lambda>the_loan.
      and_then (open_exec (ld_addr dto) (ld_customer dto) (ld_position dto) (stub_new the_loan) (le_price env)
          (ln_margin_interest (ld_loan dto)) (ln_due_period (ld_loan dto)) (ba_start_opening_at sp) (dx_now env))
        (\<lambda>(ls, status).
          let active = \<lparr>cl_lease = lease_into_dto dto ls, cl_dex = ba_account sp,
                        cl_finalizer = dep_finalizer (ba_deps sp)\<rparr>
          in case status of
               DtoPaid \<Rightarrow> Inl Panic
             | DtoNone _ alarms \<Rightarrow> Inr (alarm_resp active alarms, OpenedActive active)
             | DtoNeedLiquidation liq \<Rightarrow> liquidation_start active liq [] env
             | DtoCloseAsked _ \<Rightarrow> Inl Panic)))))"

definition buy_asset_task :: "('l buy_asset, ('a, 'l) lease_env, ('a, 'l) response) swap_task" where
  "buy_asset_task =
     \<lparr>task_label = (\<lambda>_. ''ls-open-swap''),
      task_account = ba_account,
      task_time_alarms = (\<lambda>sp. dep_time_alarms (ba_deps sp)),
      task_out_currency = (\<lambda>sp. form_currency (ba_form sp)),
      task_coins = (\<lambda>sp. [ba_downpayment sp, resp_principal (ba_loan sp)]),
      task_finish = buy_asset_finish\<rparr>"

text \<open>The account of the lease on the exchange is opened first.\<close>

definition ica_connected :: "'l open_ica_account \<Rightarrow> account \<Rightarrow> 'l buy_asset" where
  "ica_connected c ica =
     \<lparr>ba_form = lease_form (oi_new_lease c), ba_account = ica, ba_downpayment = oi_downpayment c,
      ba_loan = oi_loan c, ba_deps = oi_deps c, ba_start_opening_at = oi_start_opening_at c\<rparr>"

definition open_ica_connectee ::
  "('l open_ica_account, 'l buy_asset transfer_out, ('a, 'l) lease_env) ica_connectee" where
  "open_ica_connectee =
     \<lparr>cn_display = (\<lambda>_. ''OpenIcaAccount''),
      cn_dex = (\<lambda>c. lease_dex (oi_new_lease c)),
      cn_time_alarms = (\<lambda>c. dep_time_alarms (oi_deps c)),
      cn_connected = (\<lambda>c ica. transfer_out_new (buy_asset_task :: (_, ('a, 'l) lease_env, _) swap_task) (ica_connected c ica)),
      cn_enter_next = transfer_out_enter buy_asset_task\<rparr>"

section \<open>Closing a paid lease\<close>

definition closing_finish ::
  "('a, 'l) transfer_in_task \<Rightarrow> coin_dto \<Rightarrow> ('a, 'l) lease_env \<Rightarrow> ('a, 'l) response" where
  "closing_finish sp am env =
     (let l = tt_lease sp; dto = cl_lease l
      in map_res (\<lambda>surplus.
           (outs dto (ld_customer dto)
              (paid_lease_close (ld_customer dto) (position_amount (ld_position dto)) (Coin surplus))
              @ finalizer_notify l, Closed))
           (ok_or (LeasePlatform CosmWasmQueryBalance) (dx_balance env (ln_lpn (ld_loan dto)))))"

definition transfer_in_asset_task :: "(('a, 'l) transfer_in_task, ('a, 'l) lease_env, ('a, 'l) response) swap_task" where
  "transfer_in_asset_task =
     \<lparr>task_label = (\<lambda>_. ''ls-close-transfer-in''),
      task_account = (\<lambda>sp. cl_dex (tt_lease sp)),
      task_time_alarms = (\<lambda>sp. ld_time_alarms (cl_lease (tt_lease sp))),
      task_out_currency = (\<lambda>sp. ld_currency (cl_lease (tt_lease sp))),
      task_coins = (\<lambda>sp. [position_coin (tt_lease sp) (position_amount (ld_position (cl_lease (tt_lease sp))))]),
      task_finish = closing_finish\<rparr>"

end
