(* ===== verification/Lease_Contract.thy ===== *)
theory Lease_Contract
  imports Lease_Tasks
begin

text \<open>
  The contract of a lease: the handlers of its states (\<open>lease/src/contract/state\<close>), each operation
  dispatched to the state it arrives in, and the entry points (\<open>lease/src/contract/endpoins.rs\<close>).
  A state that does not define an operation refuses it.
\<close>

section \<open>Requests\<close>

datatype position_close = CloseWhole | ClosePosition coin_dto

datatype lease_execute_msg =
    MsgRepay
  | MsgChangeClosePolicy close_policy_change
  | MsgClosePosition position_close
  | MsgClose
  | MsgPriceAlarm
  | MsgTimeAlarm
  | MsgDexCallback
  | MsgDexCallbackContinue
  | MsgHeal

datatype lease_sudo_msg =
    SudoOpenAck string
  | SudoResponse string
  | SudoTimeout
  | SudoError
  | SudoOther

definition unsupported_op :: "string \<Rightarrow> ('l lease_error, 'r) res" where
  "unsupported_op op = Inl (Fail (UnsupportedOperation op))"

definition ignore_msg :: "('a, 'l) lease_machine \<Rightarrow> ('a, 'l) response" where
  "ignore_msg st = Inr ([], st)"

section \<open>An active lease\<close>

definition obtain_payment :: "cw_coin list \<Rightarrow> ('a, 'l) lease_env \<Rightarrow> ('a, 'l) lease \<Rightarrow> ('l lease_error, coin_dto) res" where
  "obtain_payment funds env ls =
     and_then (ok_or NoPaymentError (may_received (le_payments env) funds)) (\<lambda>payment.
       map_res (\<lambda>_. payment)
         (lease_validate_repay ls (Coin (coin_units payment)) (le_payment_price env (coin_ticker payment))))"

definition start_swap ::
  "('a, 'l) contract_lease \<Rightarrow> cw_coin list \<Rightarrow> ('a, 'l) lease_env \<Rightarrow> ('a, 'l) response" where
  "start_swap l funds env =
     and_then (with_lease (cl_lease l) env (obtain_payment funds env)) (\<lambda>payment.
     and_then (or_panic (start_local_local buy_lpn_task \<lparr>bl_lease = l, bl_payment = payment\<rparr>)) (\<lambda>start_state.
     map_res (\<lambda>batch. (map OutDex batch, BuyLpn (LocalTransferOut start_state)))
       (map_err (\<lambda>_. LeaseDex) (transfer_out_enter buy_lpn_task start_state env))))"

definition active_repay ::
  "('a, 'l) contract_lease \<Rightarrow> cw_coin list \<Rightarrow> ('a, 'l) lease_env \<Rightarrow> ('a, 'l) response" where
  "active_repay l funds env =
     (case may_received (le_lpns env) funds of
        Some payment \<Rightarrow> customer_repay l payment env
      | None \<Rightarrow> start_swap l funds env)"

definition try_on_alarm :: "('a, 'l) contract_lease \<Rightarrow> ('a, 'l) lease_env \<Rightarrow> ('a, 'l) response" where
  "try_on_alarm l env =
     and_then (with_lease (cl_lease l) env (\<lambda>ls. check ls (dx_now env))) (\<lambda>status.
       case status of
         DtoPaid \<Rightarrow> Inl Panic
       | DtoNone _ alarms \<Rightarrow> Inr (alarm_resp l alarms, OpenedActive l)
       | DtoNeedLiquidation liq \<Rightarrow> liquidation_start l liq [] env
       | DtoCloseAsked strat \<Rightarrow> auto_start strat l env)"

definition owned_by :: "addr \<Rightarrow> addr \<Rightarrow> ('l lease_error, unit) res" where
  "owned_by owner sender = (if owner = sender then Inr () else Inl (Fail (LeaseUnauthorized Unauthorized)))"

definition try_on_price_alarm :: "('a, 'l) contract_lease \<Rightarrow> addr \<Rightarrow> ('a, 'l) lease_env \<Rightarrow> ('a, 'l) response" where
  "try_on_price_alarm l sender env =
     and_then (owned_by (ld_oracle (cl_lease l)) sender) (\<lambda>_. try_on_alarm l env)"

definition try_on_time_alarm :: "('a, 'l) contract_lease \<Rightarrow> addr \<Rightarrow> ('a, 'l) lease_env \<Rightarrow> ('a, 'l) response" where
  "try_on_time_alarm l sender env =
     and_then (owned_by (ld_time_alarms (cl_lease l)) sender) (\<lambda>_. try_on_alarm l env)"

definition customer_check :: "('a, 'l) contract_lease \<Rightarrow> addr \<Rightarrow> ('l lease_error, unit) res" where
  "customer_check l sender = map_err LeaseUnauthorized (access_check (ld_customer (cl_lease l)) sender)"

definition active_change_close_policy ::
  "('a, 'l) contract_lease \<Rightarrow> close_policy_change \<Rightarrow> addr \<Rightarrow> ('a, 'l) lease_env \<Rightarrow> ('a, 'l) response" where
  "active_change_close_policy l cmd sender env =
     and_then (customer_check l sender) (\<lambda>_.
     map_res (\<lambda>(ls, msgs). (outs (cl_lease l) (ld_customer (cl_lease l)) msgs, OpenedActive (update_lease l ls)))
       (with_lease (cl_lease l) env (\<lambda>ls. change_policy_exec cmd ls (dx_now env))))"

definition validate_close_position ::
  "('a, 'l) contract_lease \<Rightarrow> coin_dto \<Rightarrow> ('a, 'l) lease_env \<Rightarrow> ('l lease_error, 'a coin) res" where
  "validate_close_position l close_amount env =
     with_lease (cl_lease l) env (\<lambda>ls.
       if coin_ticker close_amount \<noteq> ld_currency (cl_lease l) then Inl (Fail (LeaseFinance CurrencyError))
       else map_res (\<lambda>_. Coin (coin_units close_amount)) (lease_validate_close ls (Coin (coin_units close_amount))))"

definition customer_close_start ::
  "position_close \<Rightarrow> ('a, 'l) contract_lease \<Rightarrow> ('a, 'l) lease_env \<Rightarrow> ('a, 'l) response" where
  "customer_close_start what l env =
     (case what of
        ClosePosition close_amount \<Rightarrow>
          and_then (validate_close_position l close_amount env) (\<lambda>am. sell_asset_start (ClosePart am) l [] env)
      | CloseWhole \<Rightarrow> sell_asset_start CloseAll l [] env)"

definition active_close_position ::
  "('a, 'l) contract_lease \<Rightarrow> position_close \<Rightarrow> addr \<Rightarrow> ('a, 'l) lease_env \<Rightarrow> ('a, 'l) response" where
  "active_close_position l what sender env =
     and_then (customer_check l sender) (\<lambda>_. customer_close_start what l env)"

definition active_heal :: "('a, 'l) contract_lease \<Rightarrow> ('a, 'l) lease_env \<Rightarrow> ('a, 'l) response" where
  "active_heal l env =
     (let lpn = ln_lpn (ld_loan (cl_lease l)) in
      and_then (ok_or (LeasePlatform CosmWasmQueryBalance) (dx_balance env lpn)) (\<lambda>balance.
        if balance = 0 then Inl (Fail InconsistencyNotDetected)
        else customer_repay l \<lparr>coin_ticker = lpn, coin_units = balance\<rparr> env))"

section \<open>Other states at rest\<close>

definition paid_close :: "('a, 'l) contract_lease \<Rightarrow> addr \<Rightarrow> ('a, 'l) lease_env \<Rightarrow> ('a, 'l) response" where
  "paid_close l sender env =
     and_then (customer_check l sender) (\<lambda>_.
       let start_state =
             start_transfer_in \<lparr>tt_lease = l\<rparr> (position_coin l (position_amount (ld_position (cl_lease l))))
       in map_res (\<lambda>batch. (map OutDex batch, ClosingTransferIn (LocalTransferInInit start_state)))
            (map_err (\<lambda>_. LeaseDex) (transfer_in_init_enter transfer_in_asset_task start_state env)))"

text \<open>A final state sends all it has, in the currencies of the payments, to who asks for it.\<close>

definition bank_send_all :: "(string \<Rightarrow> string option) \<Rightarrow> cw_coin list \<Rightarrow> addr \<Rightarrow> ('a, 'l) lease_out list" where
  "bank_send_all ticker_of balances to = map (OutSend to) (filter (\<lambda>c. ticker_of (denom c) \<noteq> None \<and> cw_amount c \<noteq> 0) balances)"

definition drain :: "('a, 'l) lease_machine \<Rightarrow> addr \<Rightarrow> ('a, 'l) lease_env \<Rightarrow> ('a, 'l) response" where
  "drain st to env =
     and_then (ok_or (LeasePlatform CosmWasmQueryAllBalances) (le_all_balances env)) (\<lambda>balances.
       let msgs = bank_send_all (le_payments env) balances to
       in if msgs = [] then Inl (Fail InconsistencyNotDetected) else Inr (msgs, st))"

definition request_loan_on_response ::
  "'l request_loan \<Rightarrow> (platform_error, open_loan_resp option) res \<Rightarrow> ('a, 'l) lease_env \<Rightarrow> ('a, 'l) response" where
  "request_loan_on_response r reply_data env =
     map_res (\<lambda>resp.
       let connectee =
             \<lparr>oi_new_lease = rl_new_lease r, oi_downpayment = rl_downpayment r, oi_loan = resp,
              oi_deps = rl_deps r, oi_start_opening_at = dx_now env\<rparr>
       in (map OutDex (ica_connector_enter
             (open_ica_connectee :: (_, _, ('a, 'l) lease_env) ica_connectee) connectee),
           BuyAsset (RemoteOpenIca connectee)))
     (and_then (map_err (\<lambda>e. LeaseLpp (LppPlatform e)) reply_data) (ok_or (LeaseLpp NoResponseStubError)))"

section \<open>Operations\<close>

text \<open>What happens in a swap goes to its state machine; the other states have no such operation.\<close>

fun dex_on :: "('a, 'l) lease_machine \<Rightarrow> dex_event \<Rightarrow> ('a, 'l) lease_env \<Rightarrow> ('a, 'l) response option" where
  "dex_on (BuyAsset inner) ev env = Some (of_handled BuyAsset (remote_on open_ica_connectee buy_asset_task inner ev env))"
| "dex_on (BuyLpn inner) ev env = Some (of_handled BuyLpn (local_on buy_lpn_task inner ev env))"
| "dex_on (PartialLiquidation inner) ev env = Some (of_handled PartialLiquidation (local_on sell_asset_task inner ev env))"
| "dex_on (FullLiquidation inner) ev env = Some (of_handled FullLiquidation (local_on sell_asset_task inner ev env))"
| "dex_on (PartialClose inner) ev env = Some (of_handled PartialClose (local_on sell_asset_task inner ev env))"
| "dex_on (FullClose inner) ev env = Some (of_handled FullClose (local_on sell_asset_task inner ev env))"
| "dex_on (ClosingTransferIn inner) ev env =
     Some (of_handled ClosingTransferIn (local_on transfer_in_asset_task inner ev env))"
| "dex_on _ ev env = None"

definition dex_or_unsupported ::
  "string \<Rightarrow> dex_event \<Rightarrow> ('a, 'l) lease_machine \<Rightarrow> ('a, 'l) lease_env \<Rightarrow> ('a, 'l) response" where
  "dex_or_unsupported op ev st env = (case dex_on st ev env of Some r \<Rightarrow> r | None \<Rightarrow> unsupported_op op)"

definition lease_on_open_ica :: "('a, 'l) lease_machine \<Rightarrow> string \<Rightarrow> ('a, 'l) lease_env \<Rightarrow> ('a, 'l) response" where
  "lease_on_open_ica st counterparty_version = dex_or_unsupported ''open ica response'' (OpenAck counterparty_version) st"

definition lease_on_dex_response :: "('a, 'l) lease_machine \<Rightarrow> string \<Rightarrow> ('a, 'l) lease_env \<Rightarrow> ('a, 'l) response" where
  "lease_on_dex_response st data = dex_or_unsupported ''dex response'' (Response data) st"

definition lease_on_dex_error :: "('a, 'l) lease_machine \<Rightarrow> ('a, 'l) lease_env \<Rightarrow> ('a, 'l) response" where
  "lease_on_dex_error = dex_or_unsupported ''dex error'' ErrorAck"

definition lease_on_dex_timeout :: "('a, 'l) lease_machine \<Rightarrow> ('a, 'l) lease_env \<Rightarrow> ('a, 'l) response" where
  "lease_on_dex_timeout = dex_or_unsupported ''dex timeout'' TimeoutAck"

definition lease_on_dex_inner :: "('a, 'l) lease_machine \<Rightarrow> ('a, 'l) lease_env \<Rightarrow> ('a, 'l) response" where
  "lease_on_dex_inner = dex_or_unsupported ''dex inner'' InnerCall"

definition lease_on_dex_inner_continue :: "('a, 'l) lease_machine \<Rightarrow> ('a, 'l) lease_env \<Rightarrow> ('a, 'l) response" where
  "lease_on_dex_inner_continue = dex_or_unsupported ''dex inner continue'' InnerContinueCall"

definition lease_heal :: "('a, 'l) lease_machine \<Rightarrow> addr \<Rightarrow> ('a, 'l) lease_env \<Rightarrow> ('a, 'l) response" where
  "lease_heal st sender env =
     (case st of
        OpenedActive l \<Rightarrow> active_heal l env
      | Closed \<Rightarrow> drain st sender env
      | Liquidated \<Rightarrow> drain st sender env
      | _ \<Rightarrow> dex_or_unsupported ''heal'' HealCall st env)"

definition lease_reply ::
  "('a, 'l) lease_machine \<Rightarrow> (platform_error, open_loan_resp option) res \<Rightarrow> ('a, 'l) lease_env \<Rightarrow> ('a, 'l) response" where
  "lease_reply st reply_data env =
     (case st of
        RequestLoan r \<Rightarrow> request_loan_on_response r reply_data env
      | _ \<Rightarrow> dex_or_unsupported ''reply'' ReplyOnError st env)"

definition lease_repay_op :: "('a, 'l) lease_machine \<Rightarrow> cw_coin list \<Rightarrow> ('a, 'l) lease_env \<Rightarrow> ('a, 'l) response" where
  "lease_repay_op st funds env =
     (case st of OpenedActive l \<Rightarrow> active_repay l funds env | _ \<Rightarrow> unsupported_op ''repay'')"

definition lease_change_close_policy_op ::
  "('a, 'l) lease_machine \<Rightarrow> close_policy_change \<Rightarrow> addr \<Rightarrow> ('a, 'l) lease_env \<Rightarrow> ('a, 'l) response" where
  "lease_change_close_policy_op st cmd sender env =
     (case st of
        OpenedActive l \<Rightarrow> active_change_close_policy l cmd sender env
      | _ \<Rightarrow> unsupported_op ''change close policy'')"

definition lease_close_position_op ::
  "('a, 'l) lease_machine \<Rightarrow> position_close \<Rightarrow> addr \<Rightarrow> ('a, 'l) lease_env \<Rightarrow> ('a, 'l) response" where
  "lease_close_position_op st what sender env =
     (case st of
        OpenedActive l \<Rightarrow> active_close_position l what sender env
      | _ \<Rightarrow> unsupported_op ''close position'')"

definition lease_close_op :: "('a, 'l) lease_machine \<Rightarrow> addr \<Rightarrow> ('a, 'l) lease_env \<Rightarrow> ('a, 'l) response" where
  "lease_close_op st sender env =
     (case st of PaidActive l \<Rightarrow> paid_close l sender env | _ \<Rightarrow> unsupported_op ''close'')"

definition lease_on_time_alarm :: "('a, 'l) lease_machine \<Rightarrow> addr \<Rightarrow> ('a, 'l) lease_env \<Rightarrow> ('a, 'l) response" where
  "lease_on_time_alarm st sender env =
     (case st of
        OpenedActive l \<Rightarrow> try_on_time_alarm l sender env
      | PaidActive _ \<Rightarrow> ignore_msg st
      | Closed \<Rightarrow> ignore_msg st
      | Liquidated \<Rightarrow> ignore_msg st
      | _ \<Rightarrow> dex_or_unsupported ''on time alarm'' AlarmFired st env)"

definition lease_on_price_alarm :: "('a, 'l) lease_machine \<Rightarrow> addr \<Rightarrow> ('a, 'l) lease_env \<Rightarrow> ('a, 'l) response" where
  "lease_on_price_alarm st sender env =
     (case st of
        OpenedActive l \<Rightarrow> try_on_price_alarm l sender env
      | RequestLoan _ \<Rightarrow> unsupported_op ''on price alarm''
      | _ \<Rightarrow> ignore_msg st)"

section \<open>Entry points\<close>

definition process_execute ::
  "('a, 'l) lease_env \<Rightarrow> ('a, 'l) lease_machine \<Rightarrow> addr \<Rightarrow> cw_coin list \<Rightarrow> lease_execute_msg \<Rightarrow> ('a, 'l) response" where
  "process_execute env st sender funds msg =
     (case msg of
        MsgRepay \<Rightarrow> lease_repay_op st funds env
      | MsgChangeClosePolicy cmd \<Rightarrow> lease_change_close_policy_op st cmd sender env
      | MsgClosePosition what \<Rightarrow> lease_close_position_op st what sender env
      | MsgClose \<Rightarrow> lease_close_op st sender env
      | MsgTimeAlarm \<Rightarrow> lease_on_time_alarm st sender env
      | MsgPriceAlarm \<Rightarrow> lease_on_price_alarm st sender env
      | MsgDexCallback \<Rightarrow>
          and_then (map_err LeaseUnauthorized (access_check sender (dx_self env))) (\<lambda>_. lease_on_dex_inner st env)
      | MsgDexCallbackContinue \<Rightarrow>
          and_then (map_err LeaseUnauthorized (access_check sender (dx_self env))) (\<lambda>_.
            lease_on_dex_inner_continue st env)
      | MsgHeal \<Rightarrow> lease_heal st sender env)"

definition process_sudo ::
  "('a, 'l) lease_env \<Rightarrow> ('a, 'l) lease_machine \<Rightarrow> lease_sudo_msg \<Rightarrow> ('a, 'l) response" where
  "process_sudo env st msg =
     (case msg of
        SudoOpenAck counterparty_version \<Rightarrow> lease_on_open_ica st counterparty_version env
      | SudoResponse data \<Rightarrow> lease_on_dex_response st data env
      | SudoTimeout \<Rightarrow> lease_on_dex_timeout st env
      | SudoError \<Rightarrow> lease_on_dex_error st env
      | SudoOther \<Rightarrow> Inl Panic)"

section \<open>Instantiation\<close>

definition open_loan_req ::
  "'l new_lease_contract \<Rightarrow> cw_coin list \<Rightarrow> ('a, 'l) lease_env
     \<Rightarrow> ('l lease_error, ('a, 'l) lease_out list \<times> coin_dto) res" where
  "open_loan_req spec funds env =
     and_then (ok_or NoPaymentError (may_received (le_payments env) funds)) (\<lambda>downpayment.
     and_then (ok_or LeaseOracle (le_payment_price env (coin_ticker downpayment))) (\<lambda>price.
     and_then (or_panic (total (Coin (coin_units downpayment)) price)) (\<lambda>downpayment_lpn.
     map_res (\<lambda>borrow. ([OutOpenLoan (form_lpp (form_loan (lease_form spec))) borrow], downpayment))
       (map_err LeasePosition
         (calc_borrow_amount (spec_from_dto (form_position_spec (lease_form spec))) downpayment_lpn
           (form_max_ltd (lease_form spec)))))))"

definition request_loan_new ::
  "string \<Rightarrow> cw_coin list \<Rightarrow> 'l new_lease_contract \<Rightarrow> ('a, 'l) lease_env \<Rightarrow> ('a, 'l) response" where
  "request_loan_new lpn funds spec env =
     (let form = lease_form spec; lpp = form_lpp (form_loan form) in
      and_then (case le_lpp_refused env lpp of None \<Rightarrow> Inr () | Some e \<Rightarrow> Inl (Fail (LeaseLpp e))) (\<lambda>_.
      and_then (answer_from env (form_market_price_oracle form) LeaseOracle) (\<lambda>_.
      and_then (map_err (\<lambda>_. LeaseTimeAlarms) (validate_addr (le_code_of env) (form_time_alarms form))) (\<lambda>_.
      and_then (map_err LeasePlatform (validate_addr (le_code_of env) (lease_finalizer spec))) (\<lambda>_.
      map_res (\<lambda>(batch, downpayment).
          (batch, RequestLoan
            \<lparr>rl_new_lease = spec, rl_downpayment = downpayment,
             rl_deps = \<lparr>dep_lpp = lpp, dep_lpn = lpn, dep_oracle = form_market_price_oracle form,
                        dep_time_alarms = form_time_alarms form, dep_finalizer = lease_finalizer spec\<rparr>\<rparr>))
        (open_loan_req spec funds env))))))"

text \<open>The currency of the pool is known when the contract is built, and is an argument here.\<close>

definition lease_instantiate ::
  "string \<Rightarrow> ('a, 'l) lease_env \<Rightarrow> cw_coin list \<Rightarrow> 'l new_lease_contract \<Rightarrow> ('a, 'l) response" where
  "lease_instantiate lpn env funds spec =
     (let form = lease_form spec; has_code = (\<lambda>a. map_err LeasePlatform (validate_addr (le_code_of env) a)) in
      and_then (fail_if (\<not> le_valid env (lease_finalizer spec)) LeaseStd) (\<lambda>_.
      and_then (fail_if (\<not> le_valid env (form_customer form)) LeaseStd) (\<lambda>_.
      and_then (has_code (form_time_alarms form)) (\<lambda>_.
      and_then (has_code (form_market_price_oracle form)) (\<lambda>_.
      and_then (has_code (form_lpp (form_loan form))) (\<lambda>_.
      and_then (has_code (form_profit (form_loan form))) (\<lambda>_.
        request_loan_new lpn funds spec env)))))))"

end
