(* ===== verification/Lease_Query.thy ===== *)
theory Lease_Query
  imports Lease_Contract
begin

text \<open>
  The query of the state of a lease (\<open>lease/src/api/query.rs\<close>, \<open>lease/src/contract/msg/query.rs\<close>
  and the queries of the states and of the swap tasks). The stages a task never goes through
  are \<open>unreachable!\<close> in the code.
\<close>

datatype opening_trx = TrxOpenIcaAccount | TrxTransferOut string | TrxBuyAsset string

datatype close_trx = CloseTrxSwap | CloseTrxTransferInInit | CloseTrxTransferInFinish

datatype 'a opened_trx =
    TrxRepayment coin_dto in_swap
  | TrxLiquidation "'a coin" close_trx
  | TrxClose "'a coin" close_trx

datatype closing_trx = ClosingTransferInInit | ClosingTransferInFinish

datatype ('a, 'l) lease_state_response =
    StateOpening string coin_dto coin_dto percent opening_trx
  | StateOpened "('a, 'l) lease_state" "'a opened_trx option"
  | StatePaid "'a coin" "closing_trx option"
  | StateClosed
  | StateLiquidated

definition opened_state ::
  "('a, 'l) contract_lease \<Rightarrow> 'a opened_trx option \<Rightarrow> duration \<Rightarrow> ('a, 'l) lease_env
     \<Rightarrow> ('l lease_error, ('a, 'l) lease_state_response) res" where
  "opened_state l in_progress due_projection env =
     with_lease (cl_lease l) env (\<lambda>ls.
       map_res (\<lambda>state. StateOpened state in_progress) (or_panic (lease_state_at ls (dx_now env) due_projection)))"

definition close_trx_of :: "in_swap \<Rightarrow> close_trx option" where
  "close_trx_of stage =
     (case stage of
        InTransferOut \<Rightarrow> None
      | InSwap \<Rightarrow> Some CloseTrxSwap
      | InTransferInInit \<Rightarrow> Some CloseTrxTransferInInit
      | InTransferInFinish \<Rightarrow> Some CloseTrxTransferInFinish)"

definition closable_transaction :: "'a repayable \<Rightarrow> ('a, 'l) contract_lease \<Rightarrow> close_trx \<Rightarrow> 'a opened_trx" where
  "closable_transaction r l in_progress =
     (case r of
        LiquidatePart _ _ \<Rightarrow> TrxLiquidation (closable_amount r l) in_progress
      | LiquidateAll _ \<Rightarrow> TrxLiquidation (closable_amount r l) in_progress
      | ClosePart _ \<Rightarrow> TrxClose (closable_amount r l) in_progress
      | CloseAll \<Rightarrow> TrxClose (closable_amount r l) in_progress)"

definition sell_asset_query ::
  "('a, 'l) sell_asset out_local \<Rightarrow> duration \<Rightarrow> ('a, 'l) lease_env
     \<Rightarrow> ('l lease_error, ('a, 'l) lease_state_response) res" where
  "sell_asset_query inner due_projection env =
     (case local_state inner of (sp, stage) \<Rightarrow>
       and_then (or_panic (close_trx_of stage)) (\<lambda>in_progress.
         opened_state (sa_lease sp) (Some (closable_transaction (sa_repayable sp) (sa_lease sp) in_progress))
           due_projection env))"

definition buy_lpn_query ::
  "('a, 'l) buy_lpn out_local \<Rightarrow> duration \<Rightarrow> ('a, 'l) lease_env
     \<Rightarrow> ('l lease_error, ('a, 'l) lease_state_response) res" where
  "buy_lpn_query inner due_projection env =
     (case local_state inner of (sp, stage) \<Rightarrow>
       opened_state (bl_lease sp) (Some (TrxRepayment (bl_payment sp) stage)) due_projection env)"

definition closing_trx_of :: "in_swap \<Rightarrow> closing_trx option" where
  "closing_trx_of stage =
     (case stage of
        InTransferOut \<Rightarrow> None
      | InSwap \<Rightarrow> None
      | InTransferInInit \<Rightarrow> Some ClosingTransferInInit
      | InTransferInFinish \<Rightarrow> Some ClosingTransferInFinish)"

definition transfer_in_query ::
  "('a, 'l) transfer_in_task out_local \<Rightarrow> ('l lease_error, ('a, 'l) lease_state_response) res" where
  "transfer_in_query inner =
     (case local_state inner of (sp, stage) \<Rightarrow>
       map_res (\<lambda>trx. StatePaid (position_amount (ld_position (cl_lease (tt_lease sp)))) (Some trx))
         (or_panic (closing_trx_of stage)))"

definition open_ica_query :: "'l open_ica_account \<Rightarrow> ('a, 'l) lease_state_response" where
  "open_ica_query c =
     StateOpening (form_currency (lease_form (oi_new_lease c))) (oi_downpayment c) (resp_principal (oi_loan c))
       (resp_interest_rate (oi_loan c)) TrxOpenIcaAccount"

definition buy_asset_query :: "'l buy_asset \<Rightarrow> (string \<Rightarrow> opening_trx) \<Rightarrow> ('a, 'l) lease_state_response" where
  "buy_asset_query sp in_progress_fn =
     StateOpening (form_currency (ba_form sp)) (ba_downpayment sp) (resp_principal (ba_loan sp))
       (resp_interest_rate (ba_loan sp)) (in_progress_fn (account_host (ba_account sp)))"

definition opening_query ::
  "('l open_ica_account, 'l buy_asset) out_remote \<Rightarrow> ('a, 'l) lease_state_response" where
  "opening_query inner =
     (case remote_state inner of
        Inl c \<Rightarrow> open_ica_query c
      | Inr (sp, stage) \<Rightarrow> buy_asset_query sp (case stage of InTransferOut \<Rightarrow> TrxTransferOut | _ \<Rightarrow> TrxBuyAsset))"

definition query_state ::
  "('a, 'l) lease_machine \<Rightarrow> duration \<Rightarrow> ('a, 'l) lease_env
     \<Rightarrow> ('l lease_error, ('a, 'l) lease_state_response) res" where
  "query_state st due_projection env =
     (case st of
        RequestLoan _ \<Rightarrow> Inl Panic
      | BuyAsset inner \<Rightarrow> Inr (opening_query inner)
      | OpenedActive l \<Rightarrow> opened_state l None due_projection env
      | BuyLpn inner \<Rightarrow> buy_lpn_query inner due_projection env
      | PartialLiquidation inner \<Rightarrow> sell_asset_query inner due_projection env
      | FullLiquidation inner \<Rightarrow> sell_asset_query inner due_projection env
      | PartialClose inner \<Rightarrow> sell_asset_query inner due_projection env
      | FullClose inner \<Rightarrow> sell_asset_query inner due_projection env
      | PaidActive l \<Rightarrow> Inr (StatePaid (position_amount (ld_position (cl_lease l))) None)
      | ClosingTransferIn inner \<Rightarrow> transfer_in_query inner
      | Closed \<Rightarrow> Inr StateClosed
      | Liquidated \<Rightarrow> Inr StateLiquidated)"

end
