(* ===== verification/Lease_Parties.thy ===== *)
theory Lease_Parties
  imports Lease_Query Dex_Runs
begin

text \<open>
  The life of a lease contract as a run of its entry points. The lease belongs to one customer and
  reports to one finalizer from its request on; the finalizer is told exactly once, by the last
  message of the response that ends the lease, and the final states are left by nothing.
\<close>

section \<open>Parties and finalizer calls\<close>

definition lease_parties :: "('a, 'l) contract_lease \<Rightarrow> addr \<times> addr" where
  "lease_parties l = (cl_finalizer l, ld_customer (cl_lease l))"

definition connectee_parties :: "'l open_ica_account \<Rightarrow> addr \<times> addr" where
  "connectee_parties c = (dep_finalizer (oi_deps c), form_customer (lease_form (oi_new_lease c)))"

definition buy_asset_parties :: "'l buy_asset \<Rightarrow> addr \<times> addr" where
  "buy_asset_parties sp = (dep_finalizer (ba_deps sp), form_customer (ba_form sp))"

definition opening_parties :: "('l open_ica_account, 'l buy_asset) out_remote \<Rightarrow> addr \<times> addr" where
  "opening_parties inner =
     (case remote_state inner of Inl c \<Rightarrow> connectee_parties c | Inr (sp, _) \<Rightarrow> buy_asset_parties sp)"

fun parties :: "('a, 'l) lease_machine \<Rightarrow> (addr \<times> addr) option" where
  "parties (RequestLoan r) = Some (dep_finalizer (rl_deps r), form_customer (lease_form (rl_new_lease r)))"
| "parties (BuyAsset inner) = Some (opening_parties inner)"
| "parties (OpenedActive l) = Some (lease_parties l)"
| "parties (BuyLpn inner) = Some (lease_parties (bl_lease (local_spec inner)))"
| "parties (PartialLiquidation inner) = Some (lease_parties (sa_lease (local_spec inner)))"
| "parties (FullLiquidation inner) = Some (lease_parties (sa_lease (local_spec inner)))"
| "parties (PartialClose inner) = Some (lease_parties (sa_lease (local_spec inner)))"
| "parties (FullClose inner) = Some (lease_parties (sa_lease (local_spec inner)))"
| "parties (PaidActive l) = Some (lease_parties l)"
| "parties (ClosingTransferIn inner) = Some (lease_parties (tt_lease (local_spec inner)))"
| "parties Closed = None"
| "parties Liquidated = None"

fun finalizer_calls :: "('a, 'l) lease_out list \<Rightarrow> (addr \<times> addr) list" where
  "finalizer_calls [] = []"
| "finalizer_calls (OutFinalize f c # ms) = (f, c) # finalizer_calls ms"
| "finalizer_calls (_ # ms) = finalizer_calls ms"

lemma finalizer_calls_append [simp]: "finalizer_calls (ms @ ms') = finalizer_calls ms @ finalizer_calls ms'"
  by (induction ms rule: finalizer_calls.induct) simp_all

lemma finalizer_calls_outs [simp]: "finalizer_calls (outs dto to ms) = []"
  by (induction ms) (simp_all add: outs_def)

lemma finalizer_calls_dex [simp]: "finalizer_calls (map OutDex ms) = []"
  by (induction ms) simp_all

lemma finalizer_calls_send_all [simp]: "finalizer_calls (bank_send_all f bs to) = []"
  by (induction bs) (simp_all add: bank_send_all_def)

lemma finalizer_calls_alarm [simp]: "finalizer_calls (alarm_resp l alarms) = []"
  by (simp add: alarm_resp_def)

text \<open>A response that keeps the parties, and tells the finalizer when, and only when, it ends the lease.\<close>

definition orderly :: "addr \<times> addr \<Rightarrow> ('a, 'l) response \<Rightarrow> bool" where
  "orderly p r \<longleftrightarrow> (\<forall>ms st. r = Inr (ms, st) \<longrightarrow>
     (parties st = Some p \<and> finalizer_calls ms = [])
       \<or> (parties st = None \<and> (\<exists>ms'. ms = ms' @ [OutFinalize (fst p) (snd p)] \<and> finalizer_calls ms' = [])))"

named_theorems orderly_intros

lemma orderly_failed [simp]: "orderly p (Inl e)"
  by (simp add: orderly_def)

lemma orderly_unsupported [simp]: "orderly p (unsupported_op op)"
  by (simp add: unsupported_op_def)

lemma orderly_open [simp]:
  "finalizer_calls ms = [] \<Longrightarrow> parties st = Some q \<Longrightarrow> orderly p (Inr (ms, st)) \<longleftrightarrow> q = p"
  by (auto simp: orderly_def)

lemma orderly_and_then: "(\<And>x. m = Inr x \<Longrightarrow> orderly p (f x)) \<Longrightarrow> orderly p (and_then m f)"
  by (cases m) auto

lemma orderly_map_res:
  "(\<And>x. m = Inr x \<Longrightarrow> orderly p (Inr (f x))) \<Longrightarrow> orderly p (map_res f m)"
  by (cases m) auto

section \<open>Commands keep the customer\<close>

text \<open>What no command changes: the customer, the price and the least worth of the position.\<close>

definition lease_kept :: "('a, 'l) lease \<Rightarrow> ('a, 'l) lease \<Rightarrow> bool" where
  "lease_kept l l' \<longleftrightarrow> lease_customer l' = lease_customer l \<and> lease_oracle l' = lease_oracle l
     \<and> min_asset (position_spec (lease_position l')) = min_asset (position_spec (lease_position l))"

lemma lease_repay_kept: "lease_repay l am now profit = Some (l', rest) \<Longrightarrow> lease_kept l l'"
  by (auto simp: lease_repay_def lease_kept_def split: option.splits bind_splits)

lemma position_close_spec: "position_close pos asset = Some pos' \<Longrightarrow> position_spec pos' = position_spec pos"
  by (auto simp: position_close_def split: bind_splits)

lemma do_repay_kept:
  assumes "do_repay f l am now profit = Some (l', rest)"
  shows "lease_kept l l'"
proof (cases f)
  case RepayLeaseFn
  then show ?thesis using assms by (simp add: do_repay_def lease_repay_kept)
next
  case (CloseFn asset)
  then obtain pos where "position_close (lease_position l) asset = Some pos"
    "lease_repay (l\<lparr>lease_position := pos\<rparr>) am now profit = Some (l', rest)"
    using assms by (auto simp: do_repay_def lease_close_partial_def split: bind_splits)
  then show ?thesis
    using lease_repay_kept position_close_spec by (fastforce simp: lease_kept_def)
qed

lemma change_policy_kept: "lease_change_close_policy l cmd now = Inr l' \<Longrightarrow> lease_kept l l'"
  by (auto simp: lease_change_close_policy_def position_change_close_policy_def spec_change_close_policy_def
      spec_new_def lease_kept_def split: option.split_asm)

text \<open>After a repayment the status is the one of the lease as it is then.\<close>

lemma check_close_with_init_kept:
  assumes "check_close_with_init l now = Inr (l', status)"
  shows "lease_kept l l'" and "check l' now = Inr status"
proof -
  from assms obtain x where x: "check l now = Inr x" by (auto simp: check_close_with_init_def)
  have "lease_kept l l' \<and> check l' now = Inr status"
  proof (cases x)
    case (DtoCloseAsked strat)
    then show ?thesis
      using assms x
      by (cases strat) (auto simp: check_close_with_init_def dest: change_policy_kept simp: lease_kept_def)
  qed (use assms x in \<open>auto simp: check_close_with_init_def lease_kept_def\<close>)
  then show "lease_kept l l'" "check l' now = Inr status" by auto
qed

lemma repay_exec_kept:
  assumes "repay_exec f l am now = Inr res"
  shows "lease_kept l (result_lease res)" and "check (result_lease res) now = Inr (result_status res)"
proof -
  obtain l1 rest where l1: "do_repay f l am now [] = Some (l1, rest)"
    "check_close_with_init l1 now = Inr (result_lease res, result_status res)"
    using assms by (auto simp: repay_exec_def)
  then have "lease_kept l l1" "lease_kept l1 (result_lease res)"
    using do_repay_kept check_close_with_init_kept(1) by blast+
  then show "lease_kept l (result_lease res)" by (simp add: lease_kept_def)
  show "check (result_lease res) now = Inr (result_status res)"
    using check_close_with_init_kept(2) [OF l1(2)] .
qed

lemma change_policy_exec_kept:
  assumes "change_policy_exec cmd l now = Inr (l', ms)"
  shows "lease_kept l l'"
proof -
  from assms obtain l1 x y where x: "lease_change_close_policy l cmd now = Inr l1"
    "check_close_policy l1 now = Inr x" "status_try_from_do x now = Inr y"
    by (auto simp: change_policy_exec_def)
  then show ?thesis
    using assms by (cases y) (auto simp: change_policy_exec_def dest: change_policy_kept)
qed

lemma lease_from_dto_customer [simp]: "lease_customer (lease_from_dto dto the_loan price) = ld_customer dto"
  by (simp add: lease_from_dto_def)

lemma update_lease_parties [simp]:
  "lease_customer ls = ld_customer (cl_lease l) \<Longrightarrow> lease_parties (update_lease l ls) = lease_parties l"
  by (simp add: lease_parties_def update_lease_def lease_into_dto_def)

lemma with_lease_Inr:
  "with_lease dto env cmd = Inr x \<longleftrightarrow>
     (\<exists>the_loan. le_loan env = Some the_loan \<and> cmd (lease_from_dto dto the_loan (le_price env)) = Inr x)"
  by (auto simp: with_lease_def)

section \<open>Every response is orderly\<close>

lemma orderly_sell_asset_start:
  assumes "finalizer_calls ms = []" "lease_parties l = p"
  shows "orderly p (sell_asset_start r l ms env)"
proof -
  have "parties (sell_state r (LocalSwapExactIn (start_remote_local \<lparr>sa_lease = l, sa_repayable = r\<rparr>))) = Some p"
    using assms(2) by (cases r) (simp_all add: sell_state_def local_spec_def start_remote_local_def)
  then show ?thesis
    using assms(1) by (auto simp: sell_asset_start_def Let_def intro!: orderly_map_res)
qed

lemma orderly_liquidation_start:
  "finalizer_calls ms = [] \<Longrightarrow> lease_parties l = p \<Longrightarrow> orderly p (liquidation_start l liq ms env)"
  by (auto simp: liquidation_start_def intro: orderly_sell_asset_start split: liquidation.split)

lemma orderly_auto_start: "lease_parties l = p \<Longrightarrow> orderly p (auto_start strat l env)"
  by (simp add: auto_start_def orderly_sell_asset_start)

lemmas orderly_starts = orderly_sell_asset_start orderly_liquidation_start orderly_auto_start

lemma orderly_repay:
  assumes "lease_parties l = p"
  shows "orderly p (repay_try_repay f l am env)"
  unfolding repay_try_repay_def
proof (rule orderly_and_then)
  fix res assume "with_lease (cl_lease l) env (\<lambda>ls. repay_exec f ls (Coin (coin_units am)) (dx_now env)) = Inr res"
  then have "lease_customer (result_lease res) = ld_customer (cl_lease l)"
    by (auto simp: with_lease_Inr lease_kept_def dest: repay_exec_kept(1))
  then show "orderly p (let l' = update_lease l (result_lease res);
           response = outs (cl_lease l) (ld_customer (cl_lease l)) (result_messages res)
       in case result_status res of
            DtoPaid \<Rightarrow> Inr (response, PaidActive l')
          | DtoNone _ alarms \<Rightarrow> Inr (alarm_resp l' alarms @ response, OpenedActive l')
          | DtoNeedLiquidation liq \<Rightarrow> liquidation_start l' liq response env
          | DtoCloseAsked strat \<Rightarrow>
              (case strat of TakeProfit _ \<Rightarrow> Inl Panic | _ \<Rightarrow> auto_start strat l' env))"
    using assms by (auto simp: Let_def intro: orderly_starts split: close_status_dto.split strategy.split)
qed

lemma orderly_ends:
  "parties st = None \<Longrightarrow> finalizer_calls ms = [] \<Longrightarrow> lease_parties l = p
     \<Longrightarrow> orderly p (Inr (ms @ finalizer_notify l, st))"
  by (auto simp: orderly_def finalizer_notify_def lease_parties_def)

lemma orderly_close:
  "parties out_state = None \<Longrightarrow> lease_parties l = p \<Longrightarrow> orderly p (close_try_repay to out_state l am env)"
  by (auto simp: close_try_repay_def intro!: orderly_map_res orderly_ends)

lemma orderly_try_repay: "lease_parties l = p \<Longrightarrow> orderly p (try_repay r l am env)"
  by (auto simp: try_repay_def intro: orderly_repay orderly_close split: repayable.split)

lemma open_exec_customer:
  "open_exec a customer pos stub price margin max_due at now = Inr (ls, status) \<Longrightarrow> lease_customer ls = customer"
  by (auto simp: open_exec_def Let_def)

lemma orderly_buy_asset:
  assumes "buy_asset_parties sp = p"
  shows "orderly p (buy_asset_finish sp am env)"
proof -
  have active: "lease_parties \<lparr>cl_lease = lease_into_dto (opening_dto sp am) ls, cl_dex = ba_account sp,
      cl_finalizer = dep_finalizer (ba_deps sp)\<rparr> = p"
    if "lease_customer ls = ld_customer (opening_dto sp am)" for ls
    using assms that by (simp add: lease_parties_def buy_asset_parties_def lease_into_dto_def opening_dto_def)
  show ?thesis
    unfolding buy_asset_finish_def Let_def
    by (intro orderly_and_then)
      (auto simp: active dest!: open_exec_customer intro!: orderly_starts active split: close_status_dto.split)
qed

lemma orderly_closing: "lease_parties (tt_lease sp) = p \<Longrightarrow> orderly p (closing_finish sp am env)"
  unfolding closing_finish_def Let_def
  by (intro orderly_map_res orderly_ends) auto

section \<open>Swaps\<close>

lemma orderly_continue:
  assumes "\<And>ms s. r = Inr (ms, s) \<Longrightarrow> parties (into s) = Some p"
  shows "orderly p (of_continue into r)"
  using assms unfolding of_continue_def by (intro orderly_map_res) (auto split: prod.split)

lemma orderly_local:
  assumes "\<And>s. local_spec s = local_spec inner \<Longrightarrow> parties (into s) = Some p"
    and "\<And>a. orderly p (task_finish task (local_spec inner) a env)"
  shows "orderly p (of_handled into (local_on task inner ev env))"
proof (cases "local_on task inner ev env")
  case (Continue r)
  then show ?thesis
    by (auto simp: of_handled_def intro!: orderly_continue assms(1) local_leads_keeps(1)
        dest!: local_on_leads)
next
  case (Finished r)
  then show ?thesis
    using local_on_finished [OF Finished] assms(2) by (auto simp: of_handled_def)
qed

lemma remote_on_task:
  assumes "remote_on ce task st ev env = Continue (Inr (msgs, st'))"
  shows "case remote_state st of
      Inl c \<Rightarrow> remote_state st' = Inl c
        \<or> (\<exists>ica s. cn_connected ce c ica = Some s \<and> remote_state st' = Inr (to_spec s, InTransferOut))
    | Inr (spec, _) \<Rightarrow> \<exists>stage. remote_state st' = Inr (spec, stage)"
  using assms
  by (cases st; cases ev;
    auto simp: remote_handlers state_handlers forward_to_inner_Inr on_timeout_retry_Inr
      ica_connector_on_open_ica_def swap_remote_on_response_def
      dest!: transfer_out_on_response_Inr transfer_out_next_spec split: sum.split_asm; blast)

lemma opening_parties_kept:
  assumes "remote_on (open_ica_connectee :: (_, _, ('a, 'l) lease_env) ica_connectee) buy_asset_task st ev env
    = Continue (Inr (msgs, st'))"
  shows "opening_parties st' = opening_parties st"
proof -
  have "buy_asset_parties (to_spec s) = connectee_parties c"
    if "cn_connected (open_ica_connectee :: (_, _, ('a, 'l) lease_env) ica_connectee) c ica = Some s" for c ica s
    using that transfer_out_new_ok
    by (fastforce simp: open_ica_connectee_def ica_connected_def buy_asset_parties_def connectee_parties_def)
  then show ?thesis
    using remote_on_task [OF assms] by (fastforce simp: opening_parties_def split: sum.split_asm prod.split_asm)
qed

lemma remote_finished_spec:
  assumes "remote_on ce task st ev env = Finished r"
  shows "\<exists>sp stage am. remote_state st = Inr (sp, stage) \<and> r = task_finish task sp am env"
  using remote_on_finished [OF assms] by auto

lemma orderly_remote: "orderly (opening_parties inner) (of_handled BuyAsset (remote_on open_ica_connectee buy_asset_task inner ev env))"
proof (cases "remote_on open_ica_connectee buy_asset_task inner ev env")
  case (Continue r)
  then show ?thesis
    using opening_parties_kept by (auto simp: of_handled_def intro!: orderly_continue)
next
  case (Finished r)
  then show ?thesis
    using remote_finished_spec [OF Finished]
    by (auto simp: of_handled_def opening_parties_def buy_asset_task_def intro!: orderly_buy_asset)
qed

lemma orderly_dex_on:
  assumes "parties st = Some p" "dex_on st ev env = Some r"
  shows "orderly p r"
proof -
  have sell: "orderly (lease_parties (sa_lease (local_spec inner)))
      (of_handled into (local_on sell_asset_task inner ev env))"
    if "\<And>s. parties (into s) = Some (lease_parties (sa_lease (local_spec s)))" for inner into
    using that by (intro orderly_local) (auto simp: sell_asset_task_def with_finish_def intro: orderly_try_repay)
  show ?thesis
    using assms
    by (cases st)
      (auto simp: buy_lpn_task_def transfer_in_asset_task_def customer_repay_def
        intro!: sell orderly_remote orderly_local orderly_repay orderly_closing)
qed

lemma orderly_dex_or_unsupported:
  "parties st = Some p \<Longrightarrow> orderly p (dex_or_unsupported op ev st env)"
  by (cases "dex_on st ev env") (auto simp: dex_or_unsupported_def intro: orderly_dex_on)

end
