(* ===== verification/Lease_Life.thy ===== *)
theory Lease_Life
  imports Lease_Parties
begin

text \<open>
  The life of the contract of a lease as a run of its calls, and two of its guarantees: what
  ends it and who is told, and who may do what in which state.\<close>

section \<open>Runs\<close>

datatype lease_call =
    CallExecute addr "cw_coin list" lease_execute_msg
  | CallSudo lease_sudo_msg
  | CallReply "(platform_error, open_loan_resp option) res"

definition lease_call :: "('a, 'l) lease_env \<Rightarrow> ('a, 'l) lease_machine \<Rightarrow> lease_call \<Rightarrow> ('a, 'l) response" where
  "lease_call env st c =
     (case c of
        CallExecute sender funds msg \<Rightarrow> process_execute env st sender funds msg
      | CallSudo msg \<Rightarrow> process_sudo env st msg
      | CallReply reply_data \<Rightarrow> lease_reply st reply_data env)"

text \<open>
  A failed call leaves the state as it was and sends nothing. What the oracle answers is a price,
  which its data type checks.
\<close>

definition answers_prices :: "('a, 'l) lease_env \<Rightarrow> bool" where
  "answers_prices env \<longleftrightarrow> (\<forall>p. le_price env = Some p \<longrightarrow> price_ok p)"

inductive lease_run :: "('a, 'l) lease_machine \<Rightarrow> ('a, 'l) lease_out list \<Rightarrow> ('a, 'l) lease_machine \<Rightarrow> bool" for st where
  start: "lease_run st [] st"
| call: "lease_run st ms st' \<Longrightarrow> answers_prices env \<Longrightarrow> lease_call env st' c = Inr (ms', st'')
    \<Longrightarrow> lease_run st (ms @ ms') st''"

lemmas lease_operations =
  lease_on_open_ica_def lease_on_dex_response_def lease_on_dex_error_def lease_on_dex_timeout_def
  lease_on_dex_inner_def lease_on_dex_inner_continue_def lease_heal_def lease_reply_def lease_repay_op_def
  lease_change_close_policy_op_def lease_close_position_op_def lease_close_op_def lease_on_time_alarm_def
  lease_on_price_alarm_def

lemma orderly_active:
  assumes "lease_parties l = p"
  shows "orderly p (active_repay l funds env)" "orderly p (try_on_alarm l env)"
    "orderly p (active_change_close_policy l cmd sender env)" "orderly p (active_close_position l what sender env)"
    "orderly p (active_heal l env)" "orderly p (paid_close l sender env)"
proof -
  have "parties (BuyLpn (LocalTransferOut s)) = Some p"
    if "start_local_local buy_lpn_task \<lparr>bl_lease = l, bl_payment = payment\<rparr> = Some s" for s payment
    using that transfer_out_new_ok assms by (fastforce simp: start_local_local_def local_spec_def)
  then show "orderly p (active_repay l funds env)"
    using assms unfolding active_repay_def start_swap_def
    by (auto simp: customer_repay_def intro!: orderly_and_then orderly_map_res orderly_repay split: option.split)
  show "orderly p (try_on_alarm l env)"
    using assms unfolding try_on_alarm_def
    by (auto intro!: orderly_and_then orderly_starts split: close_status_dto.split)
  show "orderly p (active_change_close_policy l cmd sender env)"
    using assms unfolding active_change_close_policy_def
    by (auto intro!: orderly_and_then orderly_map_res simp: with_lease_Inr lease_kept_def dest!: change_policy_exec_kept)
  show "orderly p (active_close_position l what sender env)"
    using assms unfolding active_close_position_def customer_close_start_def
    by (auto intro!: orderly_and_then orderly_starts split: position_close.split)
  show "orderly p (active_heal l env)"
    using assms unfolding active_heal_def Let_def
    by (auto simp: customer_repay_def intro!: orderly_and_then orderly_repay)
  show "orderly p (paid_close l sender env)"
    using assms unfolding paid_close_def Let_def
    by (auto intro!: orderly_and_then orderly_map_res simp: local_spec_def start_transfer_in_def)
qed

lemma orderly_ignore [simp]: "parties st = Some q \<Longrightarrow> orderly p (ignore_msg st) \<longleftrightarrow> q = p"
  by (simp add: ignore_msg_def)

lemma orderly_request_loan:
  "parties (RequestLoan r) = Some p \<Longrightarrow> orderly p (request_loan_on_response r reply_data env)"
  unfolding request_loan_on_response_def Let_def
  by (intro orderly_map_res) (simp add: opening_parties_def connectee_parties_def)

lemma orderly_execute:
  assumes "parties st = Some p"
  shows "orderly p (process_execute env st sender funds msg)"
  using assms unfolding process_execute_def lease_operations try_on_time_alarm_def try_on_price_alarm_def
  by (cases msg; cases st)
    (auto intro!: orderly_and_then orderly_active orderly_dex_or_unsupported)

lemma orderly_call:
  assumes "parties st = Some p"
  shows "orderly p (lease_call env st c)"
proof (cases c)
  case (CallExecute sender funds msg)
  then show ?thesis using orderly_execute [OF assms] by (simp add: lease_call_def)
next
  case (CallSudo msg)
  then show ?thesis
    using assms by (cases msg) (auto simp: lease_call_def process_sudo_def lease_operations
        intro: orderly_dex_or_unsupported)
next
  case (CallReply reply_data)
  then show ?thesis
    using assms by (cases st) (auto simp: lease_call_def lease_operations
        intro: orderly_dex_or_unsupported intro!: orderly_request_loan)
qed

text \<open>A final state answers alarms with nothing and a heal with all it has, and stays.\<close>

lemma final_call:
  assumes "parties st = None" "lease_call env st c = Inr (ms, st')"
  shows "st' = st" and "finalizer_calls ms = []"
    and "ms = [] \<or> (\<exists>sender funds balances. c = CallExecute sender funds MsgHeal
      \<and> le_all_balances env = Some balances \<and> ms = bank_send_all (le_payments env) balances sender)"
proof -
  have final: "st = Closed \<or> st = Liquidated" using assms(1) by (cases st) auto
  have dex: "dex_or_unsupported op ev st env = unsupported_op op" for op ev env
    using final by (auto simp: dex_or_unsupported_def)
  have call: "\<exists>sender funds msg. c = CallExecute sender funds msg
      \<and> ((msg \<in> {MsgTimeAlarm, MsgPriceAlarm} \<and> ms = [] \<and> st' = st) \<or> (msg = MsgHeal \<and> drain st sender env = Inr (ms, st')))"
  proof (cases c)
    case (CallExecute sender funds msg)
    then show ?thesis
      using assms(2) final dex
      by (cases msg) (auto simp: lease_call_def process_execute_def lease_operations ignore_msg_def unsupported_op_def)
  next
    case (CallSudo msg)
    then show ?thesis
      using assms(2) dex by (cases msg) (auto simp: lease_call_def process_sudo_def lease_operations unsupported_op_def)
  next
    case (CallReply reply_data)
    then show ?thesis
      using assms(2) final dex by (auto simp: lease_call_def lease_operations unsupported_op_def)
  qed
  then show "st' = st" "finalizer_calls ms = []"
    "ms = [] \<or> (\<exists>sender funds balances. c = CallExecute sender funds MsgHeal
      \<and> le_all_balances env = Some balances \<and> ms = bank_send_all (le_payments env) balances sender)"
    by (auto simp: drain_def Let_def split: if_splits)
qed

definition at_rest :: "('a, 'l) lease_machine \<Rightarrow> bool" where
  "at_rest st \<longleftrightarrow> st = Closed \<or> st = Liquidated"

lemma parties_None: "parties st = None \<longleftrightarrow> at_rest st"
  by (cases st) (auto simp: at_rest_def)

lemma run_orderly:
  assumes "lease_run st ms st'" "parties st = Some p"
  shows "(parties st' = Some p \<and> finalizer_calls ms = []) \<or> (parties st' = None \<and> finalizer_calls ms = [p])"
  using assms
proof (induction rule: lease_run.induct)
  case (call ms st1 env c ms' st2)
  show ?case
  proof (cases "parties st1")
    case None
    then show ?thesis
      using call final_call(1,2) [OF None call.hyps(3)] by auto
  next
    case (Some q)
    then have "parties st1 = Some p" "finalizer_calls ms = []" using call by auto
    then show ?thesis
      using orderly_call [of st1 p env c] call.hyps(3) by (fastforce simp: orderly_def)
  qed
qed simp

text \<open>Instantiation leads to the request of the loan.\<close>

lemma lease_instantiate_Inr:
  assumes "lease_instantiate lpn env funds spec = Inr (ms, st)"
  shows "\<exists>r downpayment borrow. st = RequestLoan r \<and> rl_new_lease r = spec \<and> rl_downpayment r = downpayment
    \<and> dep_finalizer (rl_deps r) = lease_finalizer spec
    \<and> ms = [OutOpenLoan (form_lpp (form_loan (lease_form spec))) borrow]"
  using assms by (auto simp: lease_instantiate_def request_loan_new_def open_loan_req_def Let_def)

section \<open>The end of a lease\<close>

text \<open>
  C10. The registry of the leases is told of the end of a lease exactly once: in any run from the
  instantiation on, the messages of the contract tell the finalizer it was given, on behalf of
  the customer it was opened for, once if the lease has ended and never otherwise; the
  message is the last one of the response that ends the lease; and an ended lease stays as it is
  whatever is called after that.
\<close>

theorem lease_ends_once:
  assumes "lease_instantiate lpn env0 funds spec = Inr (ms0, st0)" "lease_run st0 ms st"
  shows "finalizer_calls (ms0 @ ms) =
      (if at_rest st then [(lease_finalizer spec, form_customer (lease_form spec))] else [])
    \<and> (\<forall>env c ms' st'. \<not> at_rest st \<and> lease_call env st c = Inr (ms', st') \<and> at_rest st' \<longrightarrow>
        (\<exists>before. ms' = before @ [OutFinalize (lease_finalizer spec) (form_customer (lease_form spec))]))
    \<and> (\<forall>ms' st'. at_rest st \<and> lease_run st ms' st' \<longrightarrow> st' = st \<and> finalizer_calls ms' = [])"
proof -
  define p where "p = (lease_finalizer spec, form_customer (lease_form spec))"
  have st0: "parties st0 = Some p" "finalizer_calls ms0 = []"
    using lease_instantiate_Inr [OF assms(1)] by (auto simp: p_def)
  have run: "(parties st = Some p \<and> finalizer_calls ms = []) \<or> (parties st = None \<and> finalizer_calls ms = [p])"
    by (rule run_orderly [OF assms(2) st0(1)])
  have ending: "\<exists>before. ms' = before @ [OutFinalize (fst p) (snd p)]"
    if "parties st = Some p" "lease_call env st c = Inr (ms', st')" "at_rest st'" for env c ms' st'
    using orderly_call [OF that(1), of env c] that(2,3) by (auto simp: orderly_def simp flip: parties_None)
  have "st' = st \<and> finalizer_calls ms' = []" if "lease_run st ms' st'" "parties st = None" for ms' st'
    using that
  proof (induction rule: lease_run.induct)
    case (call ms1 st1 env c ms2 st2)
    then show ?case using final_call(1,2) [of st1 env c ms2 st2] by auto
  qed simp
  with run ending st0(2) show ?thesis
    unfolding p_def by (auto simp flip: parties_None)
qed

section \<open>Who may do what\<close>

text \<open>
  C13. Who may do what with an open lease. The close policy and the position are changed by
  the customer only, and so is a paid lease closed; an alarm is taken from the contract of the
  time alarms or of the oracle only, and the calls that deliver a response of the exchange
  from the lease itself only; everyone else gets the same refusal. In any other state a repayment,
  a change of the policy or a close is not supported, and nothing is repaid to a lease before it is open.
\<close>

theorem lease_access:
  fixes l :: "('a, 'l) contract_lease" and env :: "('a, 'l) lease_env"
  defines "denied \<equiv> Inl (Fail (LeaseUnauthorized Unauthorized)) :: ('a, 'l) response"
  shows "(sender \<noteq> ld_customer (cl_lease l) \<longrightarrow>
      process_execute env (OpenedActive l) sender funds (MsgChangeClosePolicy cmd) = denied
        \<and> process_execute env (OpenedActive l) sender funds (MsgClosePosition what) = denied
        \<and> process_execute env (PaidActive l) sender funds MsgClose = denied)
    \<and> (sender \<noteq> ld_time_alarms (cl_lease l) \<longrightarrow>
        process_execute env (OpenedActive l) sender funds MsgTimeAlarm = denied)
    \<and> (sender \<noteq> ld_oracle (cl_lease l) \<longrightarrow>
        process_execute env (OpenedActive l) sender funds MsgPriceAlarm = denied)
    \<and> (sender \<noteq> dx_self env \<longrightarrow>
        (\<forall>st. process_execute env st sender funds MsgDexCallback = denied
           \<and> process_execute env st sender funds MsgDexCallbackContinue = denied))
    \<and> (\<forall>st msg. (\<nexists>l'. st = OpenedActive l')
          \<and> msg \<in> {MsgRepay, MsgChangeClosePolicy cmd, MsgClosePosition what} \<longrightarrow>
        (\<exists>op. process_execute env st sender funds msg = Inl (Fail (UnsupportedOperation op))))
    \<and> (\<forall>st. (\<nexists>l'. st = PaidActive l') \<longrightarrow>
        process_execute env st sender funds MsgClose = Inl (Fail (UnsupportedOperation ''close'')))"
proof -
  have other: "\<exists>op. process_execute env st sender funds msg = Inl (Fail (UnsupportedOperation op))"
    if "\<nexists>l'. st = OpenedActive l'" "msg \<in> {MsgRepay, MsgChangeClosePolicy cmd, MsgClosePosition what}" for st msg
    using that by (cases st) (auto simp: process_execute_def lease_operations unsupported_op_def)
  have close: "process_execute env st sender funds MsgClose = Inl (Fail (UnsupportedOperation ''close''))"
    if "\<nexists>l'. st = PaidActive l'" for st
    using that by (cases st) (auto simp: process_execute_def lease_operations unsupported_op_def)
  show ?thesis
    using other close
    by (auto simp: denied_def process_execute_def lease_operations try_on_time_alarm_def try_on_price_alarm_def
        owned_by_def active_change_close_policy_def active_close_position_def paid_close_def customer_check_def
        access_check_def)
qed

end
