(* ===== verification/Lease_Sales.thy ===== *)
theory Lease_Sales
  imports Lease_Life Position_Debt
begin

text \<open>
  What the swaps of a lease rest on: in every state a lease can reach, a sale in part asks for
  less than the whole position, and each task goes through the stages it is meant for only,
  so that neither the close of a part nor the query of the state aborts for it. The invariant is
  proved by the locale \<open>invariant_system\<close> of the prelude.
\<close>

section \<open>A part is less than the position\<close>

lemma part_less:
  assumes "validate_close_amount s asset part p = Inr u" "price_ok p" "0 < amount (min_asset s)"
  shows "part < asset"
proof (rule ccontr)
  assume "\<not> part < asset"
  then have "coin_saturating_sub asset part = Coin 0"
    by (simp add: coin_saturating_sub_def coin_order not_less)
  then show False
    using assms
    by (auto simp: validate_close_amount_def valid_asset_def total_Some coin_order split: if_splits bind_splits)
qed

lemma may_ask_part:
  assumes "may_ask_liquidation s asset why asked p = Some (Some (Partial part w))"
  shows "validate_close_amount s asset part p = Inr ()"
  using assms
  by (cases "validate_close_amount s asset asked p")
    (auto simp: may_ask_liquidation_def split: failure.split_asm position_error.split_asm)

lemma debt_part_less:
  assumes "spec_debt s asset d p = Some (DebtBad (Partial part w))" "price_ok p" "0 < amount (min_asset s)"
  shows "part < asset"
proof (rule spec_debt_Some [OF assms(1)], goal_cases)
  case (1 l1 o1 al ao)
  then have "l1 = Some (Partial part w) \<or> o1 = Some (Partial part w)"
    by (auto simp: no_liquidation_not_bad max_def split: option.split_asm if_splits)
  then show ?case
    using 1(3,4) part_less [OF may_ask_part assms(2,3)] by blast
qed

lemma status_of_bad:
  "status_of_debt d = StatusNeedLiquidation liq \<longleftrightarrow> d = DebtBad liq"
  "StatusNeedLiquidation liq = status_of_debt d \<longleftrightarrow> d = DebtBad liq"
  by (cases d; auto simp: status_of_debt_def)+

lemma check_part_less:
  assumes "check l now = Inr (DtoNeedLiquidation (Partial part w))" "lease_oracle l = Some p" "price_ok p"
    and "0 < amount (min_asset (position_spec (lease_position l)))"
  shows "part < position_amount (lease_position l)"
proof -
  obtain status where status: "check_close_policy l now = Inr status"
    "status_try_from_do status now = Inr (DtoNeedLiquidation (Partial part w))"
    using assms(1) by (auto simp: check_def)
  then have "status = StatusNeedLiquidation (Partial part w)"
    by (cases status) (auto simp: status_try_from_do_def)
  then obtain d where "position_debt (lease_position l) d p = Some (DebtBad (Partial part w))"
    using status(1) assms(2)
    by (auto simp: check_close_policy_def price_of_lease_currency_def status_of_bad split: option.split_asm)
  then show ?thesis
    using debt_part_less assms(3,4) by (fastforce simp: position_debt_def)
qed

section \<open>The invariant\<close>

definition worth_kept :: "('a, 'l) contract_lease \<Rightarrow> bool" where
  "worth_kept l \<longleftrightarrow> 0 < amount (min_asset (position_spec (ld_position (cl_lease l))))"

definition form_worth :: "'l new_lease_form \<Rightarrow> bool" where
  "form_worth form \<longleftrightarrow> 0 < amount (dto_min_asset (form_position_spec form))"

fun part_of :: "'a repayable \<Rightarrow> 'a coin option" where
  "part_of (LiquidatePart am _) = Some am"
| "part_of (ClosePart am) = Some am"
| "part_of _ = None"

definition sale_allowed :: "'a repayable \<Rightarrow> ('a, 'l) contract_lease \<Rightarrow> bool" where
  "sale_allowed r l \<longleftrightarrow> worth_kept l
     \<and> (case part_of r of None \<Rightarrow> True | Some part \<Rightarrow> part < position_amount (ld_position (cl_lease l)))"

definition sale_sound :: "('a, 'l) lease_machine \<Rightarrow> ('a, 'l) sell_asset out_local \<Rightarrow> bool" where
  "sale_sound st inner \<longleftrightarrow>
     sell_state (sa_repayable (local_spec inner)) inner = st
       \<and> sale_allowed (sa_repayable (local_spec inner)) (sa_lease (local_spec inner))
       \<and> snd (local_state inner) \<noteq> InTransferOut"

fun lease_sound :: "('a, 'l) lease_machine \<Rightarrow> bool" where
  "lease_sound (RequestLoan r) \<longleftrightarrow> form_worth (lease_form (rl_new_lease r))"
| "lease_sound (BuyAsset inner) \<longleftrightarrow>
     (case remote_state inner of
        Inl c \<Rightarrow> form_worth (lease_form (oi_new_lease c))
      | Inr (sp, _) \<Rightarrow> form_worth (ba_form sp))"
| "lease_sound (OpenedActive l) \<longleftrightarrow> worth_kept l"
| "lease_sound (BuyLpn inner) \<longleftrightarrow> worth_kept (bl_lease (local_spec inner))"
| "lease_sound (PartialLiquidation inner) \<longleftrightarrow> sale_sound (PartialLiquidation inner) inner"
| "lease_sound (FullLiquidation inner) \<longleftrightarrow> sale_sound (FullLiquidation inner) inner"
| "lease_sound (PartialClose inner) \<longleftrightarrow> sale_sound (PartialClose inner) inner"
| "lease_sound (FullClose inner) \<longleftrightarrow> sale_sound (FullClose inner) inner"
| "lease_sound (ClosingTransferIn inner) \<longleftrightarrow>
     snd (local_state inner) = InTransferInInit \<or> snd (local_state inner) = InTransferInFinish"
| "lease_sound _ \<longleftrightarrow> True"

definition leads_soundly :: "('a, 'l) response \<Rightarrow> bool" where
  "leads_soundly r \<longleftrightarrow> (\<forall>ms st. r = Inr (ms, st) \<longrightarrow> lease_sound st)"

lemma soundly_simps [simp]:
  "leads_soundly (Inl e)" "leads_soundly (unsupported_op op)"
  "leads_soundly (Inr (ms, st)) \<longleftrightarrow> lease_sound st" "leads_soundly (ignore_msg st) \<longleftrightarrow> lease_sound st"
  by (auto simp: leads_soundly_def unsupported_op_def ignore_msg_def)

lemma soundly_and_then: "(\<And>x. m = Inr x \<Longrightarrow> leads_soundly (f x)) \<Longrightarrow> leads_soundly (and_then m f)"
  by (cases m) auto

lemma soundly_map_res: "(\<And>x. m = Inr x \<Longrightarrow> leads_soundly (Inr (f x))) \<Longrightarrow> leads_soundly (map_res f m)"
  by (cases m) auto

lemmas soundly = soundly_and_then soundly_map_res

section \<open>Every response keeps it\<close>

lemma soundly_sell_asset_start: "sale_allowed r l \<Longrightarrow> leads_soundly (sell_asset_start r l ms env)"
  unfolding sell_asset_start_def Let_def
  by (cases r) (auto simp: sell_state_def sale_sound_def local_spec_def start_remote_local_def intro!: soundly)

lemma soundly_auto_start: "worth_kept l \<Longrightarrow> leads_soundly (auto_start strat l env)"
  unfolding auto_start_def by (rule soundly_sell_asset_start) (simp add: sale_allowed_def)

lemma soundly_liquidation_start:
  assumes "worth_kept l"
    and "\<And>part w. liq = Partial part w \<Longrightarrow> part < position_amount (ld_position (cl_lease l))"
  shows "leads_soundly (liquidation_start l liq ms env)"
  using assms
  by (cases liq) (auto simp: liquidation_start_def sale_allowed_def intro!: soundly_sell_asset_start)

text \<open>What a status asks for is less than the position it was found on.\<close>

lemma status_part:
  assumes "check ls now = Inr (DtoNeedLiquidation (Partial part w))" "\<And>p. lease_oracle ls = Some p \<Longrightarrow> price_ok p"
    and "0 < amount (min_asset (position_spec (lease_position ls)))"
  shows "part < position_amount (lease_position ls)"
proof -
  obtain p where "lease_oracle ls = Some p"
    using assms(1) by (auto simp: check_def check_close_policy_def price_of_lease_currency_def)
  then show ?thesis using assms check_part_less by blast
qed

lemma stored_lease [simp]:
  "ld_position (cl_lease (update_lease l ls)) = lease_position ls"
  "ld_position (lease_into_dto dto ls) = lease_position ls"
  "lease_position (lease_from_dto dto the_loan price) = ld_position dto"
  "lease_oracle (lease_from_dto dto the_loan price) = price"
  by (simp_all add: update_lease_def lease_into_dto_def lease_from_dto_def)

lemma worth_update:
  "worth_kept l \<Longrightarrow> lease_kept (lease_from_dto (cl_lease l) the_loan price) ls \<Longrightarrow> worth_kept (update_lease l ls)"
  by (simp add: worth_kept_def lease_kept_def)

lemma soundly_repay:
  assumes "worth_kept l" "answers_prices env"
  shows "leads_soundly (repay_try_repay f l am env)"
  unfolding repay_try_repay_def
proof (rule soundly_and_then)
  fix res assume "with_lease (cl_lease l) env (\<lambda>ls. repay_exec f ls (Coin (coin_units am)) (dx_now env)) = Inr res"
  then obtain the_loan where
    res: "repay_exec f (lease_from_dto (cl_lease l) the_loan (le_price env)) (Coin (coin_units am)) (dx_now env) = Inr res"
    by (auto simp: with_lease_Inr)
  then have worth: "worth_kept (update_lease l (result_lease res))"
    and price: "lease_oracle (result_lease res) = le_price env"
    using worth_update [OF assms(1)] repay_exec_kept(1) by (blast, force simp: lease_kept_def)
  have part: "part < position_amount (lease_position (result_lease res))"
    if "result_status res = DtoNeedLiquidation (Partial part w)" for part w
    using that worth price assms(2) repay_exec_kept(2) [OF res]
    by (intro status_part [of _ "dx_now env"]) (auto simp: answers_prices_def worth_kept_def)
  show "leads_soundly (let l' = update_lease l (result_lease res);
           response = outs (cl_lease l) (ld_customer (cl_lease l)) (result_messages res)
       in case result_status res of
            DtoPaid \<Rightarrow> Inr (response, PaidActive l')
          | DtoNone _ alarms \<Rightarrow> Inr (alarm_resp l' alarms @ response, OpenedActive l')
          | DtoNeedLiquidation liq \<Rightarrow> liquidation_start l' liq response env
          | DtoCloseAsked strat \<Rightarrow>
              (case strat of TakeProfit _ \<Rightarrow> Inl Panic | _ \<Rightarrow> auto_start strat l' env))"
    using worth part
    by (auto simp: Let_def intro!: soundly_liquidation_start soundly_auto_start
        split: close_status_dto.split strategy.split)
qed

lemma soundly_close: "parties out_state = None \<Longrightarrow> leads_soundly (close_try_repay to out_state l am env)"
  unfolding close_try_repay_def by (cases out_state) (auto intro!: soundly)

lemma soundly_try_repay:
  "worth_kept l \<Longrightarrow> answers_prices env \<Longrightarrow> leads_soundly (try_repay r l am env)"
  by (auto simp: try_repay_def intro: soundly_repay soundly_close split: repayable.split)

lemma soundly_closing: "leads_soundly (closing_finish sp am env)"
  unfolding closing_finish_def Let_def by (auto intro!: soundly)

lemma open_exec_Inr:
  assumes "open_exec a customer pos stub price margin max_due at now = Inr (ls, status)"
  shows "lease_position ls = pos \<and> lease_oracle ls = price \<and> check ls now = Inr status"
  using assms by (auto simp: open_exec_def Let_def)

lemma opening_worth: "form_worth (ba_form sp) \<Longrightarrow> 0 < amount (min_asset (position_spec (ld_position (opening_dto sp am))))"
  by (simp add: form_worth_def opening_dto_def position_new_def spec_from_dto_def spec_new_def)

lemma soundly_buy_asset:
  fixes env :: "('a, 'l) lease_env"
  assumes "form_worth (ba_form sp)" "answers_prices env"
  shows "leads_soundly (buy_asset_finish sp am env)"
proof -
  have active: "worth_kept \<lparr>cl_lease = lease_into_dto (opening_dto sp am) ls, cl_dex = dex, cl_finalizer = fin\<rparr>"
    if "lease_position ls = ld_position (opening_dto sp am)" for ls dex fin
    using that opening_worth [OF assms(1), of am] by (simp add: worth_kept_def)
  have part: "part < position_amount (ld_position (opening_dto sp am :: ('a, 'l) lease_dto))"
    if "check ls (dx_now env) = Inr (DtoNeedLiquidation (Partial part w))" "lease_oracle ls = le_price env"
      "lease_position ls = ld_position (opening_dto sp am)" for ls :: "('a, 'l) lease" and part w
    using that(1) unfolding that(3) [symmetric] using that assms(2) opening_worth [OF assms(1), of am]
    by (intro status_part [of _ "dx_now env"]) (auto simp: answers_prices_def)
  show ?thesis
    unfolding buy_asset_finish_def Let_def
    by (intro soundly_and_then)
      (auto simp: active dest!: open_exec_Inr intro!: soundly_liquidation_start active
        split: close_status_dto.split, rule part, assumption+)
qed

section \<open>Swaps\<close>

lemma soundly_continue:
  "(\<And>ms s. r = Inr (ms, s) \<Longrightarrow> lease_sound (into s)) \<Longrightarrow> leads_soundly (of_continue into r)"
  unfolding of_continue_def by (intro soundly_map_res) (auto split: prod.split)

lemma leads_stage:
  assumes "local_leads task st st'"
  shows "snd (local_state st) \<noteq> InTransferOut \<Longrightarrow> snd (local_state st') \<noteq> InTransferOut"
    and "snd (local_state st) = InTransferInInit \<or> snd (local_state st) = InTransferInFinish \<Longrightarrow>
      snd (local_state st') = InTransferInInit \<or> snd (local_state st') = InTransferInFinish"
  using assms by (induction rule: local_leads.induct) auto

lemma soundly_local:
  assumes "\<And>s. local_leads task inner s \<Longrightarrow> lease_sound (into s)"
    and "\<And>a. leads_soundly (task_finish task (local_spec inner) a env)"
  shows "leads_soundly (of_handled into (local_on task inner ev env))"
proof (cases "local_on task inner ev env")
  case (Continue r)
  then show ?thesis
    by (auto simp: of_handled_def intro!: soundly_continue assms(1) dest!: local_on_leads)
next
  case (Finished r)
  then show ?thesis
    using local_on_finished [OF Finished] assms(2) by (auto simp: of_handled_def)
qed

lemma soundly_sale:
  assumes "sale_sound (into inner) inner" "answers_prices env"
    and "\<And>s. lease_sound (into s) \<longleftrightarrow> sale_sound (into s) s"
    and "\<And>r s. sell_state r inner = into inner \<Longrightarrow> sell_state r s = into s"
  shows "leads_soundly (of_handled into (local_on sell_asset_task inner ev env))"
proof (rule soundly_local)
  fix s assume "local_leads sell_asset_task inner s"
  then show "lease_sound (into s)"
    using assms(1,3,4) leads_stage(1) local_leads_keeps(1) by (metis sale_sound_def)
next
  fix a show "leads_soundly (task_finish sell_asset_task (local_spec inner) a env)"
    using assms(1,2) by (auto simp: sell_asset_task_def with_finish_def sale_sound_def sale_allowed_def
        intro: soundly_try_repay)
qed

lemma soundly_remote:
  fixes env :: "('a, 'l) lease_env"
  assumes "lease_sound (BuyAsset inner :: ('a, 'l) lease_machine)" "answers_prices env"
  shows "leads_soundly (of_handled BuyAsset (remote_on open_ica_connectee buy_asset_task inner ev env))"
proof (cases "remote_on open_ica_connectee buy_asset_task inner ev env")
  case (Continue r)
  have kept: "form_worth (ba_form (to_spec s)) \<longleftrightarrow> form_worth (lease_form (oi_new_lease c))"
    if "cn_connected (open_ica_connectee :: (_, _, ('a, 'l) lease_env) ica_connectee) c ica = Some s" for c ica s
    using that transfer_out_new_ok by (fastforce simp: open_ica_connectee_def ica_connected_def)
  have "lease_sound (BuyAsset s :: ('a, 'l) lease_machine)" if "r = Inr (ms, s)" for ms s
    using remote_on_task [OF Continue [unfolded that]] assms(1) kept
    by (auto split: sum.split_asm prod.split_asm)
  then show ?thesis
    using Continue by (auto simp: of_handled_def intro!: soundly_continue)
next
  case (Finished r)
  then show ?thesis
    using remote_finished_spec [OF Finished] assms
    by (auto simp: of_handled_def buy_asset_task_def intro!: soundly_buy_asset)
qed

lemma soundly_dex_on:
  fixes env :: "('a, 'l) lease_env"
  assumes "lease_sound st" "answers_prices env" "dex_on st ev env = Some r"
  shows "leads_soundly r"
proof -
  have buy: "leads_soundly (of_handled BuyLpn (local_on buy_lpn_task inner ev env))"
    if "worth_kept (bl_lease (local_spec inner))" for inner
    using that assms(2) local_leads_keeps(1)
    by (intro soundly_local) (force simp: buy_lpn_task_def customer_repay_def intro: soundly_repay)+
  have closing: "leads_soundly (of_handled ClosingTransferIn (local_on transfer_in_asset_task inner ev env))"
    if "lease_sound (ClosingTransferIn inner :: ('a, 'l) lease_machine)" for inner
    using that leads_stage(2) by (intro soundly_local) (auto simp: transfer_in_asset_task_def soundly_closing)
  show ?thesis
    using assms buy closing soundly_remote
    by (cases st) (auto intro!: soundly_sale simp: sell_state_def split: repayable.split_asm)
qed

lemma soundly_dex_or_unsupported:
  "lease_sound st \<Longrightarrow> answers_prices env \<Longrightarrow> leads_soundly (dex_or_unsupported op ev st env)"
  by (cases "dex_on st ev env") (auto simp: dex_or_unsupported_def intro: soundly_dex_on)

section \<open>Calls\<close>

lemma soundly_close_position:
  assumes "worth_kept l" "answers_prices env"
  shows "leads_soundly (active_close_position l what sender env)"
proof -
  have part: "sale_allowed (ClosePart am) l" if valid: "validate_close_position l close_amount env = Inr am" for close_amount am
  proof -
    obtain p where "le_price env = Some p"
      "position_validate_close_amount (ld_position (cl_lease l)) am p = Inr ()"
      using valid by (auto simp: validate_close_position_def with_lease_Inr lease_validate_close_def
          price_of_lease_currency_def split: if_splits option.split_asm)
    then show ?thesis
      using assms part_less
      by (fastforce simp: position_validate_close_amount_def sale_allowed_def worth_kept_def answers_prices_def)
  qed
  show ?thesis
    using assms(1) part unfolding active_close_position_def customer_close_start_def
    by (auto simp: sale_allowed_def intro!: soundly_and_then soundly_sell_asset_start split: position_close.split)
qed

lemma soundly_active:
  assumes "worth_kept l" "answers_prices env"
  shows "leads_soundly (active_repay l funds env)" "leads_soundly (try_on_alarm l env)"
    "leads_soundly (active_change_close_policy l cmd sender env)" "leads_soundly (active_heal l env)"
proof -
  have "local_spec (LocalTransferOut s) = \<lparr>bl_lease = l, bl_payment = payment\<rparr>"
    if "start_local_local buy_lpn_task \<lparr>bl_lease = l, bl_payment = payment\<rparr> = Some s" for s payment
    using that transfer_out_new_ok by (fastforce simp: start_local_local_def local_spec_def)
  then show "leads_soundly (active_repay l funds env)"
    using assms unfolding active_repay_def start_swap_def
    by (auto simp: customer_repay_def intro!: soundly soundly_repay split: option.split)
  have part: "part < position_amount (ld_position (cl_lease l))"
    if "check (lease_from_dto (cl_lease l) the_loan (le_price env)) (dx_now env) = Inr (DtoNeedLiquidation (Partial part w))"
    for the_loan part w
    using status_part [OF that] assms by (simp add: worth_kept_def answers_prices_def)
  then show "leads_soundly (try_on_alarm l env)"
    using assms unfolding try_on_alarm_def
    by (auto simp: with_lease_Inr intro!: soundly soundly_liquidation_start soundly_auto_start
        split: close_status_dto.split)
  show "leads_soundly (active_change_close_policy l cmd sender env)"
    using assms unfolding active_change_close_policy_def
    by (auto intro!: soundly simp: with_lease_Inr dest!: change_policy_exec_kept intro: worth_update)
  show "leads_soundly (active_heal l env)"
    using assms unfolding active_heal_def Let_def
    by (auto simp: customer_repay_def intro!: soundly soundly_repay)
qed

lemma soundly_paid: "leads_soundly (paid_close l sender env)"
  unfolding paid_close_def Let_def by (auto intro!: soundly simp: start_transfer_in_def)

lemma soundly_execute:
  assumes "lease_sound st" "answers_prices env"
  shows "leads_soundly (process_execute env st sender funds msg)"
proof -
  have drained: "leads_soundly (drain st sender env)"
    using assms(1) by (auto simp: drain_def Let_def intro!: soundly split: if_splits)
  show ?thesis
    using assms drained unfolding process_execute_def lease_operations try_on_time_alarm_def try_on_price_alarm_def
    by (cases msg; cases st)
      (auto intro!: soundly_and_then soundly_active soundly_paid soundly_close_position soundly_dex_or_unsupported)
qed

lemma soundly_call:
  assumes "lease_sound st" "answers_prices env"
  shows "leads_soundly (lease_call env st c)"
proof (cases c)
  case (CallExecute sender funds msg)
  then show ?thesis using soundly_execute [OF assms] by (simp add: lease_call_def)
next
  case (CallSudo msg)
  then show ?thesis
    using assms by (cases msg) (auto simp: lease_call_def process_sudo_def lease_operations
        intro: soundly_dex_or_unsupported)
next
  case (CallReply reply_data)
  have "leads_soundly (request_loan_on_response r reply_data env)" if "st = RequestLoan r" for r
    using that assms(1) unfolding request_loan_on_response_def Let_def by (auto intro!: soundly_map_res)
  then show ?thesis
    using CallReply assms by (cases st) (auto simp: lease_call_def lease_operations
        intro: soundly_dex_or_unsupported)
qed

section \<open>Reachable states\<close>

definition lease_created :: "('a, 'l) lease_machine \<Rightarrow> bool" where
  "lease_created st \<longleftrightarrow>
     (\<exists>lpn env funds spec ms. lease_instantiate lpn env funds spec = Inr (ms, st) \<and> form_worth (lease_form spec))"

definition lease_called :: "('a, 'l) lease_machine \<Rightarrow> ('a, 'l) lease_machine \<Rightarrow> bool" where
  "lease_called st st' \<longleftrightarrow> (\<exists>env c ms. answers_prices env \<and> lease_call env st c = Inr (ms, st'))"

interpretation lease_life: invariant_system lease_created lease_called lease_sound
proof (unfold_locales, goal_cases)
  case (1 st)
  then show ?case by (auto simp: lease_created_def dest!: lease_instantiate_Inr)
next
  case (2 st st')
  then show ?case unfolding lease_called_def using soundly_call [unfolded leads_soundly_def] by blast
qed

text \<open>
  C11. The sales of a lease. In every state a lease can reach, given that the least worth of its
  position is not zero, the sale under way is the one of the state: one in part asks for less
  than the position, so that closing that part succeeds and leaves a position; none is in a
  transfer to the exchange, and the close of a paid lease is in one of the two stages of a
  transfer back. So the query of the state has an answer for each of them.
\<close>

theorem sales_within_position:
  assumes "reachable lease_created lease_called st"
  shows "(\<forall>inner l r. st \<in> {PartialLiquidation inner, FullLiquidation inner, PartialClose inner, FullClose inner}
          \<and> local_spec inner = \<lparr>sa_lease = l, sa_repayable = r\<rparr> \<longrightarrow>
        st = sell_state r inner
          \<and> (\<forall>part. part_of r = Some part \<longrightarrow>
               (\<exists>pos. position_close (ld_position (cl_lease l)) part = Some pos \<and> 0 < amount (position_amount pos)))
          \<and> close_trx_of (snd (local_state inner)) \<noteq> None)
    \<and> (\<forall>inner. st = ClosingTransferIn inner \<longrightarrow> closing_trx_of (snd (local_state inner)) \<noteq> None)"
proof -
  have sound: "lease_sound st" by (rule lease_life.reachable_inv [OF assms])
  have part: "\<exists>pos'. position_close pos part = Some pos' \<and> 0 < amount (position_amount pos')"
    if "part < position_amount pos" for pos :: "('a, 'b) position" and part
    using that by (auto simp: position_close_def coin_sub_assign_def checked_sub_def coin_order)
  have trx: "close_trx_of stage \<noteq> None \<longleftrightarrow> stage \<noteq> InTransferOut"
    "closing_trx_of stage \<noteq> None \<longleftrightarrow> stage = InTransferInInit \<or> stage = InTransferInFinish" for stage
    by (cases stage; simp add: close_trx_of_def closing_trx_of_def)+
  have "sale_sound st inner"
    if "st \<in> {PartialLiquidation inner, FullLiquidation inner, PartialClose inner, FullClose inner}" for inner
    using sound that by auto
  then show ?thesis
    using sound part unfolding trx by (fastforce simp: sale_sound_def sale_allowed_def split: option.split_asm)
qed

end
