(* ===== verification/Lease_Repayments.thy ===== *)
theory Lease_Repayments
  imports Lease_Sales Lease_Facts Dex_Examples
begin

text \<open>
  What a repayment sends, in each of its outcomes, and concrete runs of the contract of a lease
  at which its guarantees are instantiated.
\<close>

section \<open>The messages of a repayment\<close>

lemma sell_asset_start_Inr:
  "sell_asset_start r l before env = Inr (ms, st) \<longleftrightarrow>
     (\<exists>swap_msg. swap_exact_in_enter sell_asset_spec (start_remote_local \<lparr>sa_lease = l, sa_repayable = r\<rparr>) env = Inr swap_msg
        \<and> ms = before @ map OutDex swap_msg
        \<and> st = sell_state r (LocalSwapExactIn (start_remote_local \<lparr>sa_lease = l, sa_repayable = r\<rparr>)))"
  by (auto simp: sell_asset_start_def Let_def)

lemma liquidation_start_sends:
  "liquidation_start l liq before env = Inr (ms, st) \<Longrightarrow> \<exists>ms'. ms = before @ map OutDex ms'"
  by (cases liq) (auto simp: liquidation_start_def sell_asset_start_Inr)

text \<open>
  C12. What a repayment sends. The messages of a repayment, the part of the pool to the pool
  and the margin to the profit, go out with the response in every outcome but one: when what is
  left of the debt is above the stop loss of the customer, the sale of the whole position starts,
  with the loan as it is after the repayment, and the response has the swap only. The
  pool is then not told of the repayment, and its part stays with the lease.
\<close>

theorem repayment_is_sent_unless_stop_loss:
  fixes env :: "('a, 'l) lease_env"
  assumes "with_lease (cl_lease l) env (\<lambda>ls. repay_exec f ls (Coin (coin_units am)) (dx_now env)) = Inr res"
    and "repay_try_repay f l am env = Inr (ms, st)"
  shows "case result_status res of
      DtoCloseAsked strat \<Rightarrow>
        (\<exists>sl swap_msg. strat = StopLoss sl \<and> ms = map OutDex swap_msg)
          \<and> (\<exists>inner. st = FullClose inner
               \<and> local_spec inner = \<lparr>sa_lease = update_lease l (result_lease res), sa_repayable = CloseAll\<rparr>)
    | _ \<Rightarrow> (\<exists>before after. ms = before @ outs (cl_lease l) (ld_customer (cl_lease l)) (result_messages res) @ after)"
proof (cases "result_status res")
  case DtoPaid
  then show ?thesis
    using assms by (auto simp: repay_try_repay_def Let_def intro: exI [of _ "[]"])
next
  case (DtoNone zn alarms)
  then show ?thesis
    using assms by (auto simp: repay_try_repay_def Let_def intro: exI [of _ "[]"])
next
  case (DtoNeedLiquidation liq)
  then show ?thesis
    using assms by (auto simp: repay_try_repay_def Let_def dest!: liquidation_start_sends
        intro: exI [of _ "[]"])
next
  case (DtoCloseAsked strat)
  then show ?thesis
    using assms
    by (cases strat) (auto simp: repay_try_repay_def auto_start_def sell_asset_start_Inr sell_state_def Let_def
        local_spec_def start_remote_local_def)
qed

section \<open>A lease and its world\<close>

definition example_form :: "unit new_lease_form" where
  "example_form =
     \<lparr>form_customer = ''alice'', form_currency = ''ATOM'', form_max_ltd = None,
      form_position_spec =
        \<lparr>dto_liability = spec_liability sample_spec, dto_min_asset = Coin 150, dto_min_transaction = Coin 10\<rparr>,
      form_loan =
        \<lparr>form_lpp = ''lpp'', form_profit = ''profit'', form_margin_interest = Percent 40, form_due_period = from_days 90\<rparr>,
      form_reserve = ''reserve'', form_time_alarms = ''alarms'', form_market_price_oracle = ''feeds''\<rparr>"

definition example_spec :: "unit new_lease_contract" where
  "example_spec =
     \<lparr>lease_form = example_form, lease_dex = account_dex example_account, lease_finalizer = ''leaser''\<rparr>"

definition example_env :: "(bool, unit) lease_env" where
  "example_env =
     \<lparr>dx_now = sample_now, dx_self = ''lease'', dx_net = \<lparr>bank_symbol = (\<lambda>t. t), dex_symbol = (\<lambda>t. t)\<rparr>,
      dx_wire = example_wire, dx_client = osmosis, dx_balance = (\<lambda>_. Some 100),
      dx_swap_path = (\<lambda>_ out. Some [\<lparr>pool_id = 1, target = out\<rparr>]),
      le_loan = Some \<lparr>principal_due = Coin 1000, annual_interest_rate = Percent 100, interest_paid = Timestamp 0\<rparr>,
      le_price = Some sample_price, le_payment_price = (\<lambda>_. Some \<lparr>price_amount = Coin 1, price_amount_quote = Coin 1\<rparr>),
      le_payments = Some, le_lpns = (\<lambda>d. if d = ''USDC'' then Some d else None), le_all_balances = Some [],
      le_code_of = (\<lambda>_. Some 1), le_valid = (\<lambda>_. True), le_lpp_refused = (\<lambda>_. None), le_answers = (\<lambda>_. True)\<rparr>"

definition example_lease :: "(bool, unit) contract_lease" where
  "example_lease =
     \<lparr>cl_lease =
        \<lparr>ld_addr = ''lease'', ld_customer = ''alice'', ld_currency = ''ATOM'',
         ld_position = lease_position (sample_lease 4000 \<lparr>take_profit = None, stop_loss = Some (Percent 200)\<rparr>),
         ld_loan =
           \<lparr>ln_lpp = ''lpp'', ln_lpn = ''USDC'', ln_profit = ''profit'', ln_due_period = from_days 90,
            ln_margin_interest = Percent 40, ln_margin_paid_by = Timestamp 0\<rparr>,
         ld_time_alarms = ''alarms'', ld_oracle = ''feeds'', ld_reserve = ''reserve''\<rparr>,
      cl_dex = example_account, cl_finalizer = ''leaser''\<rparr>"

lemma example_built:
  "lease_from_dto (cl_lease example_lease) \<lparr>principal_due = Coin 1000, annual_interest_rate = Percent 100, interest_paid = Timestamp 0\<rparr>
     (le_price example_env) = sample_lease 4000 \<lparr>take_profit = None, stop_loss = Some (Percent 200)\<rparr>"
  by (simp add: example_lease_def example_env_def lease_from_dto_def loan_from_dto_def sample_lease_def
      sample_loan_def lease_loan_new_def)

definition example_paid_loan :: "unit lease_loan" where
  "example_paid_loan = sample_loan
     \<lparr>lpp_loan := \<lparr>stub_loan = \<lparr>principal_due = Coin 900, annual_interest_rate = Percent 100, interest_paid = sample_now\<rparr>,
                    stub_repayment = Coin 200\<rparr>,
      margin_paid_by := sample_now\<rparr>"

lemma example_margin: "repay_margin sample_loan (Coin 1000) (Coin 40) sample_now = Some (sample_loan\<lparr>margin_paid_by := sample_now\<rparr>)"
  by (simp add: repay_margin_def sample_loan_def lease_loan_new_def sample_now_def duration_between_def pay_def
      interest_def annualized_slice_of_def time_order op_defs coin_order Let_def timestamp_add_def del: inversion_simps)

lemma example_principal:
  "repay_loan (sample_loan\<lparr>margin_paid_by := sample_now\<rparr>) (Coin 100) (Coin 100) sample_now = Some example_paid_loan"
  by (simp add: repay_loan_def stub_repay_def loan_repay_def example_paid_loan_def sample_loan_def lease_loan_new_def
      stub_new_def sample_now_def due_period_def pay_def interest_def annualized_slice_of_def time_order op_defs
      coin_order Let_def timestamp_add_def del: inversion_simps)

lemma example_loan_repaid:
  "\<exists>receipt. lease_loan_repay sample_loan (Coin 240) sample_now [] = Some (example_paid_loan, [Coin 40], receipt)"
  by (simp add: lease_loan_repay_def sample_loan_state overdue_interest_def overdue_margin_def op_defs coin_order
      min_def example_margin example_principal lazy_send_def Let_def del: inversion_simps)

lemma example_paid_state:
  "loan_state_at example_paid_loan sample_now = Some
     \<lparr>annual_interest = Percent 100, annual_interest_margin = Percent 40, state_principal_due = Coin 900,
      due_interest = Coin 0, due_margin_interest = Coin 0, overdue = StartIn (from_days 90)\<rparr>"
  by (simp add: example_paid_loan_def lease_run_defs op_defs Let_def time_order from_days_def time_consts max_def min_def
      timestamp_default_def duration_zero_def del: inversion_simps)

lemma example_stop_loss:
  fixes l :: "(bool, unit) lease"
  assumes "l = sample_lease 4000 \<lparr>take_profit = None, stop_loss = Some (Percent 200)\<rparr>\<lparr>lease_loan_of := example_paid_loan\<rparr>"
  shows "check_close_with_init l sample_now = Inr (l, DtoCloseAsked (StopLoss (Percent 200)))"
proof -
  have "check l sample_now = Inr (DtoCloseAsked (StopLoss (Percent 200)))"
    by (simp add: assms check_def check_close_policy_def example_paid_state price_of_lease_currency_def status_try_from_do_def
        position_check_close_def spec_check_close_def state_due_def due_run_defs sample_lease_def sample_spec_def
        to_assets_def sample_price_def price_inv_def may_trigger_def may_stop_loss_def may_take_profit_def op_defs
        coin_order percent_order total_def del: inversion_simps)
  then show ?thesis by (simp add: check_close_with_init_def)
qed

lemma example_position: "amount (position_amount (lease_position (sample_lease n pol))) = n"
  by (simp add: sample_lease_def)

lemma example_repaid:
  "\<exists>res. repay_exec RepayLeaseFn (sample_lease 4000 \<lparr>take_profit = None, stop_loss = Some (Percent 200)\<rparr>) (Coin 240) sample_now = Inr res
     \<and> result_messages res = [RepayLoan (Coin 200), SendProfit [Coin 40]]
     \<and> result_status res = DtoCloseAsked (StopLoss (Percent 200))
     \<and> amount (position_amount (lease_position (result_lease res))) = 4000"
proof -
  obtain receipt where "lease_loan_repay sample_loan (Coin 240) sample_now [] = Some (example_paid_loan, [Coin 40], receipt)"
    using example_loan_repaid by blast
  then show ?thesis
    using example_stop_loss [OF refl]
    by (simp add: repay_exec_def do_repay_def lease_repay_def loan_messages_def sender_messages_def stub_into_batch_def
        example_paid_loan_def example_position del: inversion_simps)
qed

lemma example_sale:
  "\<exists>batch. swap_exact_in_enter sell_asset_spec (start_remote_local \<lparr>sa_lease = update_lease example_lease ls, sa_repayable = CloseAll\<rparr>)
     example_env = Inr batch"
  if "amount (position_amount (lease_position ls)) = 4000"
  using that unfolding swap_exact_in_enter_Inr
  by (simp add: sell_asset_spec_def start_remote_local_def closable_amount_def position_coin_def swap_messages_def
      to_swap_def out_total_def example_env_def osmosis_def osmosis_build_def to_route_def to_cosmwasm_on_network_def
      update_lease_def lease_into_dto_def example_lease_def)

theorem repayment_is_sent_unless_stop_loss_witness:
  "\<exists>ms inner. repay_try_repay RepayLeaseFn example_lease \<lparr>coin_ticker = ''USDC'', coin_units = 240\<rparr> example_env
       = Inr (map OutDex ms, FullClose inner)
     \<and> (\<exists>res. with_lease (cl_lease example_lease) example_env (\<lambda>ls. repay_exec RepayLeaseFn ls (Coin 240) sample_now) = Inr res
          \<and> result_messages res = [RepayLoan (Coin 200), SendProfit [Coin 40]])"
proof -
  let ?am = "\<lparr>coin_ticker = ''USDC'', coin_units = 240\<rparr>"
  obtain res where res: "with_lease (cl_lease example_lease) example_env
       (\<lambda>ls. repay_exec RepayLeaseFn ls (Coin (coin_units ?am)) (dx_now example_env)) = Inr res"
    "result_messages res = [RepayLoan (Coin 200), SendProfit [Coin 40]]"
    "result_status res = DtoCloseAsked (StopLoss (Percent 200))"
    "amount (position_amount (lease_position (result_lease res))) = 4000"
    using example_repaid example_built by (force simp: with_lease_def example_env_def)
  then obtain ms st where run: "repay_try_repay RepayLeaseFn example_lease ?am example_env = Inr (ms, st)"
    using example_sale [OF res(4)] by (fastforce simp: repay_try_repay_def auto_start_def sell_asset_start_def Let_def)
  from repayment_is_sent_unless_stop_loss [OF res(1) run] run res(2,3) res(1) show ?thesis
    by (auto simp: example_env_def)
qed

section \<open>Runs\<close>

definition example_request :: "unit request_loan" where
  "example_request =
     \<lparr>rl_new_lease = example_spec, rl_downpayment = \<lparr>coin_ticker = ''USDC'', coin_units = 600\<rparr>,
      rl_deps = \<lparr>dep_lpp = ''lpp'', dep_lpn = ''USDC'', dep_oracle = ''feeds'', dep_time_alarms = ''alarms'',
                 dep_finalizer = ''leaser''\<rparr>\<rparr>"

lemma example_borrow:
  "calc_borrow_amount (spec_from_dto (form_position_spec example_form)) (Coin 600) None = Inr (Coin 900)"
  by (simp add: spec_from_dto_def example_form_def spec_new_def sample_spec_def calc_borrow_amount_def
      valid_transaction_def valid_asset_def init_borrow_amount_def percent_sub_Some coin_safe_mul_Some_iff
      total_def price_identity_def mk_ratio_def percent_hundred_def coin_order op_defs del: inversion_simps)

lemma example_total: "total (Coin 600) \<lparr>price_amount = Coin 1, price_amount_quote = Coin 1\<rparr> = Some (Coin 600)"
  by (simp add: total_def op_defs del: inversion_simps)

lemma example_instantiated:
  "lease_instantiate ''USDC'' example_env [\<lparr>denom = ''USDC'', cw_amount = 600\<rparr>] example_spec =
     Inr ([OutOpenLoan ''lpp'' (Coin 900)], RequestLoan example_request)"
proof -
  have form: "lease_form example_spec = example_form" "lease_finalizer example_spec = ''leaser''"
    "form_max_ltd example_form = None" "form_lpp (form_loan example_form) = ''lpp''"
    "form_market_price_oracle example_form = ''feeds''" "form_time_alarms example_form = ''alarms''"
    by (simp_all add: example_spec_def example_form_def)
  have env: "le_valid example_env a" "le_code_of example_env a = Some 1" "le_lpp_refused example_env a = None"
    "le_answers example_env a" "le_payments example_env = Some"
    "le_payment_price example_env t = Some \<lparr>price_amount = Coin 1, price_amount_quote = Coin 1\<rparr>" for a t
    by (simp_all add: example_env_def)
  show ?thesis
    by (simp add: lease_instantiate_def request_loan_new_def open_loan_req_def form env example_borrow example_total [simplified]
        example_request_def validate_addr_def answer_from_def fail_if_def Let_def del: inversion_simps)
qed

lemma example_prices: "answers_prices example_env"
  by (simp add: answers_prices_def example_env_def sample_price_ok)

text \<open>The loan is given, and the account of the lease on the exchange is asked for.\<close>

definition example_loan_resp :: open_loan_resp where
  "example_loan_resp = \<lparr>resp_principal = \<lparr>coin_ticker = ''USDC'', coin_units = 900\<rparr>, resp_interest_rate = Percent 100\<rparr>"

definition example_connectee :: "unit open_ica_account" where
  "example_connectee =
     \<lparr>oi_new_lease = example_spec, oi_downpayment = \<lparr>coin_ticker = ''USDC'', coin_units = 600\<rparr>,
      oi_loan = example_loan_resp, oi_deps = rl_deps example_request, oi_start_opening_at = sample_now\<rparr>"

lemma example_opening:
  "lease_call example_env (RequestLoan example_request) (CallReply (Inr (Some example_loan_resp))) =
     Inr (map OutDex (register_account ''connection-0''), BuyAsset (RemoteOpenIca example_connectee))"
  by (simp add: lease_call_def lease_reply_def request_loan_on_response_def ica_connector_enter_def
      open_ica_connectee_def example_connectee_def example_request_def example_spec_def example_account_def
      example_env_def Let_def)

lemma example_run: "\<exists>ms. lease_run (RequestLoan example_request :: (bool, unit) lease_machine) ms (BuyAsset (RemoteOpenIca example_connectee))"
  using lease_run.call [OF lease_run.start example_prices example_opening] by blast

theorem lease_ends_once_witness:
  "\<exists>ms st. lease_run (RequestLoan example_request :: (bool, unit) lease_machine) ms st \<and> \<not> at_rest st
     \<and> finalizer_calls (OutOpenLoan ''lpp'' (Coin 900) # ms) = []"
proof -
  obtain ms where run: "lease_run (RequestLoan example_request :: (bool, unit) lease_machine) ms (BuyAsset (RemoteOpenIca example_connectee))"
    using example_run by blast
  show ?thesis
    using lease_ends_once [OF example_instantiated run] run by (auto simp: at_rest_def)
qed

theorem lease_access_witness:
  "process_execute example_env (OpenedActive example_lease) ''bob'' [] MsgTimeAlarm
       = Inl (Fail (LeaseUnauthorized Unauthorized))
     \<and> process_execute example_env (OpenedActive example_lease) ''bob'' [] (MsgClosePosition CloseWhole)
       = Inl (Fail (LeaseUnauthorized Unauthorized))"
  using lease_access [of "''bob''" example_lease example_env "[]" _ CloseWhole] by (simp add: example_lease_def)

end
