(* ===== verification/Lease_Sale_Run.thy ===== *)
theory Lease_Sale_Run
  imports Lease_Repayments
begin

text \<open>
  A run of a lease up to a sale: the account on the exchange is opened, the two coins are transferred and swapped
  for an amount whose worth is so low that a part of the position is liquidated as soon as the lease opens.
\<close>

definition buying_env :: "(bool, unit) lease_env" where
  "buying_env = example_env
     \<lparr>dx_wire := example_wire\<lparr>decode_trx_data := (\<lambda>_. Some [\<lparr>type_url = SWAP_RESPONSE, any_value = ''n''\<rparr>, \<lparr>type_url = SWAP_RESPONSE, any_value = ''n''\<rparr>]),
        parse_amount := (\<lambda>_. Some 1125)\<rparr>,
      le_loan := Some \<lparr>principal_due = Coin 900, annual_interest_rate = Percent 100, interest_paid = sample_now\<rparr>\<rparr>"

definition buying :: "unit buy_asset" where
  "buying = ica_connected example_connectee example_account"

definition buying_at :: "nat \<Rightarrow> unit buy_asset transfer_out" where
  "buying_at i = \<lparr>to_spec = buying, coin_index = i, last_coin_index = 1\<rparr>"

lemma buying_parts [simp]:
  "ba_downpayment buying = \<lparr>coin_ticker = ''USDC'', coin_units = 600\<rparr>"
  "resp_principal (ba_loan buying) = \<lparr>coin_ticker = ''USDC'', coin_units = 900\<rparr>"
  "ba_account buying = example_account" "ba_form buying = example_form" "form_currency example_form = ''ATOM''"
  "ba_deps buying = rl_deps example_request" "ba_start_opening_at buying = sample_now"
  by (simp_all add: buying_def ica_connected_def example_connectee_def example_loan_resp_def example_spec_def example_form_def)

lemma buying_env_parts [simp]:
  "dx_now buying_env = sample_now" "dx_self buying_env = ''lease''" "dx_client buying_env = osmosis"
  "dx_swap_path buying_env c out = Some [\<lparr>pool_id = 1, target = out\<rparr>]" "le_answers buying_env a"
  "le_price buying_env = Some sample_price"
  "le_loan buying_env = Some \<lparr>principal_due = Coin 900, annual_interest_rate = Percent 100, interest_paid = sample_now\<rparr>"
  by (simp_all add: buying_env_def example_env_def)

lemma buying_sends: "\<exists>batch. transfer_out_enter buy_asset_task (buying_at i) buying_env = Inr batch" if "i < 2"
proof -
  have "\<exists>t. timestamp_add sample_now IBC_TIMEOUT = Some t"
    by (simp add: sample_now_def IBC_TIMEOUT_def timestamp_add_def checked_add_def fits_def from_days_def time_consts from_nanos_def)
  then show ?thesis using that
    by (simp add: transfer_out_enter_def transfer_to_def transfer_out_trx_def buy_asset_task_def buying_at_def visit_at_index_eq)
qed


lemma buying_swaps: "\<exists>batch. swap_exact_in_enter buy_asset_task \<lparr>sw_spec = buying\<rparr> buying_env = Inr batch"
  unfolding swap_exact_in_enter_Inr by (simp add: buy_asset_task_def swap_messages_def Let_def)

lemma buying_swapped:
  "decode_response buy_asset_task \<lparr>sw_spec = buying\<rparr> ''data'' buying_env = Inr \<lparr>coin_ticker = ''ATOM'', coin_units = 2250\<rparr>"
  by (simp add: decode_response_def buy_asset_task_def filter_visit_def exact_in_response_visit_def currency_filter_new_def
      osmosis_def osmosis_parse_def next_response_def decode_msg_responses_def decode_msg_response_def
      buying_env_def example_env_def example_wire_def checked_add_def fits_def del: inversion_simps)

text \<open>The steps of the purchase.\<close>

definition buying_called :: "(bool, unit) lease_machine \<Rightarrow> (bool, unit) lease_machine \<Rightarrow> bool" where
  "buying_called st st' \<longleftrightarrow> (\<exists>c ms. lease_call buying_env st c = Inr (ms, st'))"

lemma called_by: "lease_call buying_env st c = Inr (ms, st') \<Longrightarrow> buying_called st st'"
  unfolding buying_called_def by blast

lemmas dex_calls = lease_call_def process_sudo_def process_execute_def lease_operations dex_or_unsupported_def of_handled_def
  of_continue_def forward_to_inner_def access_check_def fail_if_def remote_handlers state_handlers

lemma buying_at_simps [simp]:
  "to_spec (buying_at i) = buying" "coin_index (buying_at i) = i" "last_coin_index (buying_at i) = 1"
  "buying_at i\<lparr>coin_index := j\<rparr> = buying_at j"
  by (simp_all add: buying_at_def)

lemma buying_connected:
  "from_register_response (json_open_ack (dx_wire buying_env)) ''ica'' ''lease'' (account_dex example_account) = Inr example_account"
  "cn_connected (open_ica_connectee :: (_, _, (bool, unit) lease_env) ica_connectee) example_connectee example_account
     = Some (buying_at 0)"
  "cn_dex (open_ica_connectee :: (_, _, (bool, unit) lease_env) ica_connectee) example_connectee = account_dex example_account"
  "cn_enter_next (open_ica_connectee :: (_, _, (bool, unit) lease_env) ica_connectee) = transfer_out_enter buy_asset_task"
proof -
  have "last_coin_index_of (task_coins (buy_asset_task :: (_, (bool, unit) lease_env, _) swap_task) buying) = Some 1"
    by (simp add: last_coin_index_of_eq buy_asset_task_def)
  then show "cn_connected (open_ica_connectee :: (_, _, (bool, unit) lease_env) ica_connectee) example_connectee example_account
     = Some (buying_at 0)"
    by (simp add: open_ica_connectee_def transfer_out_new_def buying_at_def flip: buying_def)
qed (simp_all add: from_register_response_def parse_register_response_def host_account_try_from_def fail_if_def buying_env_def example_env_def example_wire_def
      example_account_def open_ica_connectee_def example_connectee_def example_spec_def)

lemma buying_steps:
  "lease_call buying_env (BuyAsset (RemoteOpenIca example_connectee)) (CallSudo (SudoOpenAck ''ica'')) =
     Inr (map OutDex (resp_delivery_enter ''lease'' DexCallbackContinue),
       BuyAsset (RemoteOpenIcaRespDelivery \<lparr>rd_handler = example_connectee, rd_response = ''ica''\<rparr>))"
  "lease_call buying_env (BuyAsset (RemoteTransferOut (buying_at i))) (CallSudo (SudoResponse ''ok'')) =
     Inr (map OutDex (resp_delivery_enter ''lease'' DexCallback),
       BuyAsset (RemoteTransferOutRespDelivery \<lparr>rd_handler = buying_at i, rd_response = ''ok''\<rparr>))"
  "lease_call buying_env (BuyAsset (RemoteSwapExactIn \<lparr>sw_spec = buying\<rparr>)) (CallSudo (SudoResponse ''data'')) =
     Inr (map OutDex (resp_delivery_enter ''lease'' DexCallback),
       BuyAsset (RemoteSwapExactInRespDelivery \<lparr>rd_handler = \<lparr>sw_spec = buying\<rparr>, rd_response = ''data''\<rparr>))"
  by (simp_all add: dex_calls)

lemma buying_transfers:
  assumes "transfer_out_enter buy_asset_task (buying_at 0) buying_env = Inr batch0"
    "transfer_out_enter buy_asset_task (buying_at 1) buying_env = Inr batch1"
    "swap_exact_in_enter buy_asset_task \<lparr>sw_spec = buying\<rparr> buying_env = Inr batch2"
  shows "lease_call buying_env (BuyAsset (RemoteOpenIcaRespDelivery \<lparr>rd_handler = example_connectee, rd_response = ''ica''\<rparr>))
        (CallExecute ''lease'' [] MsgDexCallbackContinue) = Inr (map OutDex batch0, BuyAsset (RemoteTransferOut (buying_at 0)))"
    and "lease_call buying_env (BuyAsset (RemoteTransferOutRespDelivery \<lparr>rd_handler = buying_at 0, rd_response = ''ok''\<rparr>))
        (CallExecute ''lease'' [] MsgDexCallback) = Inr (map OutDex batch1, BuyAsset (RemoteTransferOut (buying_at 1)))"
    and "lease_call buying_env (BuyAsset (RemoteTransferOutRespDelivery \<lparr>rd_handler = buying_at 1, rd_response = ''ok''\<rparr>))
        (CallExecute ''lease'' [] MsgDexCallback) = Inr (map OutDex batch2, BuyAsset (RemoteSwapExactIn \<lparr>sw_spec = buying\<rparr>))"
  using assms
  by (simp_all add: dex_calls ica_connector_on_open_ica_def buying_connected transfer_out_on_response_def last_coin_def
      transfer_out_next_def Let_def)

definition bought :: "(bool, unit) lease" where
  "bought =
     \<lparr>lease_addr = ''lease'', lease_customer = ''alice'',
      lease_position = \<lparr>position_amount = Coin 2250, position_spec = sample_spec\<lparr>spec_close := \<lparr>take_profit = None, stop_loss = None\<rparr>\<rparr>\<rparr>,
      lease_loan_of = lease_loan_new
        (stub_new \<lparr>principal_due = Coin 900, annual_interest_rate = Percent 100, interest_paid = sample_now\<rparr>)
        sample_now (Percent 40) (from_days 90),
      lease_oracle = Some sample_price\<rparr>"

lemma bought_state:
  "loan_state_at (lease_loan_of bought) sample_now = Some
     \<lparr>annual_interest = Percent 100, annual_interest_margin = Percent 40, state_principal_due = Coin 900,
      due_interest = Coin 0, due_margin_interest = Coin 0, overdue = StartIn (from_days 90)\<rparr>"
  by (simp add: bought_def lease_run_defs op_defs Let_def time_order from_days_def time_consts max_def min_def
      timestamp_default_def duration_zero_def del: inversion_simps)

lemma bought_debt:
  "position_debt (lease_position bought)
     (state_due \<lparr>annual_interest = Percent 100, annual_interest_margin = Percent 40, state_principal_due = Coin 900,
        due_interest = Coin 0, due_margin_interest = Coin 0, overdue = StartIn (from_days 90)\<rparr>) sample_price
   = Some (DebtBad (Partial (Coin 965) (CauseLiability (Percent 800) (Percent 650))))"
  by (simp add: bought_def position_debt_def state_due_def due_run_defs debt_run_defs op_defs Let_def coin_order percent_order
      max_def time_order duration_eq_iff from_days_def time_consts gcd_numeral_rec del: inversion_simps)

lemma bought_liquidated:
  "check bought sample_now = Inr (DtoNeedLiquidation (Partial (Coin 965) (CauseLiability (Percent 800) (Percent 650))))"
proof -
  have "lease_oracle bought = Some sample_price" by (simp add: bought_def)
  moreover have "position_check_close (lease_position bought)
      (state_due \<lparr>annual_interest = Percent 100, annual_interest_margin = Percent 40, state_principal_due = Coin 900,
        due_interest = Coin 0, due_margin_interest = Coin 0, overdue = StartIn (from_days 90)\<rparr>) sample_price = Some None"
    by (simp add: bought_def position_check_close_def spec_check_close_def state_due_def due_run_defs sample_spec_def
        to_assets_def sample_price_def price_inv_def may_trigger_def may_stop_loss_def may_take_profit_def op_defs
        coin_order percent_order total_def del: inversion_simps)
  ultimately show ?thesis
    using bought_debt by (simp add: status_of_debt_def check_def check_close_policy_def status_of_debt_def bought_state price_of_lease_currency_def status_try_from_do_def
        del: inversion_simps)
qed

definition bought_lease :: "(bool, unit) contract_lease" where
  "bought_lease =
     \<lparr>cl_lease = lease_into_dto (opening_dto buying \<lparr>coin_ticker = ''ATOM'', coin_units = 2250\<rparr>) bought,
      cl_dex = example_account, cl_finalizer = ''leaser''\<rparr>"

definition bought_sale :: "(bool, unit) sell_asset" where
  "bought_sale = \<lparr>sa_lease = bought_lease, sa_repayable = LiquidatePart (Coin 965) (CauseLiability (Percent 800) (Percent 650))\<rparr>"

lemma bought_opens:
  "open_exec (ld_addr (opening_dto buying am)) (ld_customer (opening_dto buying am))
      (ld_position (opening_dto buying \<lparr>coin_ticker = ''ATOM'', coin_units = 2250\<rparr>))
      (stub_new \<lparr>principal_due = Coin 900, annual_interest_rate = Percent 100, interest_paid = sample_now\<rparr>) (Some sample_price)
      (ln_margin_interest (ld_loan (opening_dto buying am))) (ln_due_period (ld_loan (opening_dto buying am))) sample_now sample_now
    = Inr (bought, DtoNeedLiquidation (Partial (Coin 965) (CauseLiability (Percent 800) (Percent 650))))"
proof -
  have "\<lparr>lease_addr = ''lease'', lease_customer = ''alice'',
      lease_position = position_new (Coin 2250) (spec_from_dto (form_position_spec example_form)),
      lease_loan_of = lease_loan_new
        (stub_new \<lparr>principal_due = Coin 900, annual_interest_rate = Percent 100, interest_paid = sample_now\<rparr>)
        sample_now (Percent 40) (from_days 90), lease_oracle = Some sample_price\<rparr> = bought"
    by (simp add: bought_def position_new_def spec_from_dto_def spec_new_def example_form_def sample_spec_def)
  moreover have "form_customer example_form = ''alice''" "form_margin_interest (form_loan example_form) = Percent 40"
    "form_due_period (form_loan example_form) = from_days 90" "account_owner example_account = ''lease''"
    by (simp_all add: example_form_def example_account_def)
  ultimately show ?thesis
    by (simp add: open_exec_def opening_dto_def bought_liquidated Let_def)
qed

lemma bought_sells: "\<exists>batch. swap_exact_in_enter sell_asset_spec (start_remote_local bought_sale) buying_env = Inr batch"
  unfolding swap_exact_in_enter_Inr
  by (simp add: sell_asset_spec_def start_remote_local_def closable_amount_def position_coin_def swap_messages_def
      to_swap_def out_total_def Let_def bought_sale_def)

lemma buying_finished:
  assumes "swap_exact_in_enter sell_asset_spec (start_remote_local bought_sale) buying_env = Inr batch"
  shows "lease_call buying_env (BuyAsset (RemoteSwapExactInRespDelivery \<lparr>rd_handler = \<lparr>sw_spec = buying\<rparr>, rd_response = ''data''\<rparr>))
      (CallExecute ''lease'' [] MsgDexCallback)
    = Inr (map OutDex batch, PartialLiquidation (LocalSwapExactIn (start_remote_local bought_sale)))"
proof -
  have "buy_asset_finish buying \<lparr>coin_ticker = ''ATOM'', coin_units = 2250\<rparr> buying_env
      = Inr (map OutDex batch, PartialLiquidation (LocalSwapExactIn (start_remote_local bought_sale)))"
    using assms
    by (simp add: buy_asset_finish_def bought_opens answer_from_def Let_def liquidation_start_def sell_asset_start_def
        sell_state_def bought_sale_def bought_lease_def example_request_def)
  moreover have "task_finish (buy_asset_task :: (_, (bool, unit) lease_env, _) swap_task) = buy_asset_finish"
    by (simp add: buy_asset_task_def)
  ultimately show ?thesis
    by (simp add: dex_calls swap_remote_on_response_def buying_swapped)
qed

lemma buying_prices: "answers_prices buying_env"
  by (simp add: answers_prices_def sample_price_ok)

lemma sale_reached:
  "reachable lease_created lease_called (PartialLiquidation (LocalSwapExactIn (start_remote_local bought_sale)) :: (bool, unit) lease_machine)"
proof -
  obtain batch0 batch1 batch2 batch3 where out: "transfer_out_enter buy_asset_task (buying_at 0) buying_env = Inr batch0"
    "transfer_out_enter buy_asset_task (buying_at 1) buying_env = Inr batch1"
    "swap_exact_in_enter buy_asset_task \<lparr>sw_spec = buying\<rparr> buying_env = Inr batch2"
    "swap_exact_in_enter sell_asset_spec (start_remote_local bought_sale) buying_env = Inr batch3"
    using buying_sends [of 0] buying_sends [of 1] buying_swaps bought_sells by auto
  have step: "reachable lease_created lease_called st'"
    if "reachable lease_created lease_called st" "lease_call buying_env st c = Inr (ms, st')" for c ms st st'
    using that(1) by (rule reachable.next_state) (use buying_prices that(2) in \<open>auto simp: lease_called_def\<close>)
  have "reachable lease_created lease_called (RequestLoan example_request :: (bool, unit) lease_machine)"
    unfolding lease_created_def
    by (intro reachable.initial exI conjI, rule example_instantiated) (simp add: example_spec_def example_form_def form_worth_def)
  moreover have "lease_called (RequestLoan example_request :: (bool, unit) lease_machine) (BuyAsset (RemoteOpenIca example_connectee))"
    unfolding lease_called_def using example_prices example_opening by blast
  ultimately have "reachable lease_created lease_called (BuyAsset (RemoteOpenIca example_connectee) :: (bool, unit) lease_machine)"
    by (rule reachable.next_state)
  from step [OF step [OF step [OF step [OF step [OF step [OF step [OF step [OF this buying_steps(1)]
    buying_transfers(1) [OF out(1-3)]] buying_steps(2)] buying_transfers(2) [OF out(1-3)]] buying_steps(2)]
    buying_transfers(3) [OF out(1-3)]] buying_steps(3)] buying_finished [OF out(4)]]
  show ?thesis .
qed

text \<open>The sale asks for 965 of 2250, and closing these leaves a position.\<close>

theorem sales_within_position_witness:
  "reachable lease_created lease_called (PartialLiquidation (LocalSwapExactIn (start_remote_local bought_sale)) :: (bool, unit) lease_machine)
    \<and> position_amount (ld_position (cl_lease bought_lease)) = Coin 2250
    \<and> (\<exists>pos. position_close (ld_position (cl_lease bought_lease)) (Coin 965) = Some pos \<and> 0 < amount (position_amount pos))
    \<and> close_trx_of InSwap \<noteq> None"
proof -
  let ?inner = "LocalSwapExactIn (start_remote_local bought_sale) :: (bool, unit) sell_asset out_local"
  have spec: "local_spec ?inner = \<lparr>sa_lease = bought_lease,
      sa_repayable = LiquidatePart (Coin 965) (CauseLiability (Percent 800) (Percent 650))\<rparr>" "snd (local_state ?inner) = InSwap"
    by (simp_all add: local_spec_def start_remote_local_def bought_sale_def)
  have "position_amount (ld_position (cl_lease bought_lease)) = Coin 2250"
    by (simp add: bought_lease_def lease_into_dto_def bought_def)
  then show ?thesis
    using sales_within_position [OF sale_reached] sale_reached spec by auto
qed

end
