(* ===== verification/Profit.thy ===== *)
theory Profit
  imports Dex_Machines
begin

text \<open>
  The profit contract (\<open>protocol/contracts/profit/src\<close>). It opens an account on the exchange; then,
  at every alarm, it sends the native coin it has got to the treasury and asks for the next alarm,
  or, if it has got other coins, buys the native coin with them first. What the bank and the other
  contracts answer is in \<open>profit_env\<close>.
\<close>

section \<open>Data\<close>

record profit_config =
  pf_cadence_hours :: nat
  pf_treasury :: addr
  pf_oracle :: addr
  pf_time_alarms :: addr

record profit_open_ica =
  po_config :: profit_config
  po_dex :: connection_params

record profit_idle =
  pi_config :: profit_config
  pi_account :: account

record buy_back =
  bb_contract :: addr
  bb_config :: profit_config
  bb_account :: account
  bb_coins :: "coin_dto list"

datatype profit_state =
    ProfitOpenIca profit_open_ica
  | ProfitIdle profit_idle
  | ProfitBuyBack "buy_back out_local"

record profit_contract =
  pc_owner :: "addr option"
  pc_timealarms :: "addr option"
  pc_state :: profit_state

record profit_init =
  in_cadence_hours :: nat
  in_treasury :: addr
  in_oracle :: addr
  in_timealarms :: addr
  in_dex :: connection_params

record profit_env = dex_env +
  pe_balances :: "cw_coin list option"
  pe_payments :: "string \<Rightarrow> string option"
  pe_code_of :: "addr \<Rightarrow> nat option"
  pe_answers :: "addr \<Rightarrow> bool"

datatype profit_error =
    ProfitDex dex_error
  | ProfitOracle
  | ProfitPlatform platform_error
  | ProfitUnauthorized access_error
  | ProfitTimeAlarmStub
  | ProfitUnsupported string

datatype profit_out = ProfitDexMsg dex_msg | ProfitBank cosmos_msg

type_synonym profit_response = "(profit_error, profit_out list \<times> profit_state) res"

definition config_update :: "profit_config \<Rightarrow> nat \<Rightarrow> profit_config" where
  "config_update cfg hours = cfg\<lparr>pf_cadence_hours := hours\<rparr>"

text \<open>The currency \<open>Nls\<close>.\<close>

definition NLS_TICKER :: string where
  "NLS_TICKER = ''NLS''"

section \<open>Transfer to the treasury\<close>

definition IBC_FEE_RESERVE :: nat where
  "IBC_FEE_RESERVE = 100"

definition transfer_nls :: "profit_env \<Rightarrow> addr \<Rightarrow> nat \<Rightarrow> profit_out list" where
  "transfer_nls env to_treasury am =
     (let am' = am - IBC_FEE_RESERVE in
      if am' = 0 then []
      else [ProfitBank (BankSend to_treasury [\<lparr>denom = bank_symbol (dx_net env) NLS_TICKER, cw_amount = am'\<rparr>])])"

section \<open>Idle\<close>

definition setup_time_alarm :: "profit_config \<Rightarrow> timestamp \<Rightarrow> dex_msg list option" where
  "setup_time_alarm cfg now =
     map_option (setup_alarm (pf_time_alarms cfg)) (timestamp_add now (from_hours (pf_cadence_hours cfg)))"

definition idle_enter :: "profit_idle \<Rightarrow> profit_env \<Rightarrow> (dex_error, dex_msg list) res" where
  "idle_enter i env = or_panic (setup_time_alarm (pi_config i) (dx_now env))"

definition send_nls :: "profit_idle \<Rightarrow> profit_env \<Rightarrow> nat \<Rightarrow> (profit_error, profit_out list) res" where
  "send_nls i env nls =
     map_res (\<lambda>alarms. transfer_nls env (pf_treasury (pi_config i)) nls @ map ProfitDexMsg alarms)
       (map_err ProfitDex (idle_enter i env))"

text \<open>The balances in the currencies of the payments, the native one apart; their sum may abort.\<close>

fun split_balances :: "(string \<Rightarrow> string option) \<Rightarrow> cw_coin list \<Rightarrow> nat \<Rightarrow> coin_dto list \<Rightarrow> (nat \<times> coin_dto list) option" where
  "split_balances ticker_of [] nls others = Some (nls, others)"
| "split_balances ticker_of (c # cs) nls others =
     (case ticker_of (denom c) of
        None \<Rightarrow> split_balances ticker_of cs nls others
      | Some ticker \<Rightarrow>
          if ticker = NLS_TICKER then
            do { nls' \<leftarrow> checked_add 128 nls (cw_amount c);
                 split_balances ticker_of cs nls' others }
          else split_balances ticker_of cs nls (others @ [\<lparr>coin_ticker = ticker, coin_units = cw_amount c\<rparr>]))"

section \<open>Buying back\<close>

text \<open>What arrives is not the amount to send: all the native balance is.\<close>

definition buy_back_finish :: "buy_back \<Rightarrow> coin_dto \<Rightarrow> profit_env \<Rightarrow> profit_response" where
  "buy_back_finish bb am env =
     and_then (ok_or (ProfitPlatform CosmWasmQueryBalance) (dx_balance env NLS_TICKER)) (\<lambda>balance_nls.
       let next_state = \<lparr>pi_config = bb_config bb, pi_account = bb_account bb\<rparr>
       in map_res (\<lambda>alarms.
            (map ProfitDexMsg alarms @ transfer_nls env (pf_treasury (bb_config bb)) balance_nls, ProfitIdle next_state))
            (map_err ProfitDex (idle_enter next_state env)))"

definition buy_back_task :: "(buy_back, profit_env, profit_response) swap_task" where
  "buy_back_task =
     \<lparr>task_label = (\<lambda>_. ''BuyBack''), task_account = bb_account,
      task_time_alarms = (\<lambda>bb. pf_time_alarms (bb_config bb)),
      task_out_currency = (\<lambda>_. NLS_TICKER), task_coins = bb_coins, task_finish = buy_back_finish\<rparr>"

definition try_enter_buy_back :: "profit_idle \<Rightarrow> profit_env \<Rightarrow> coin_dto list \<Rightarrow> profit_response" where
  "try_enter_buy_back i env balances =
     and_then (or_panic (start_local_local buy_back_task
         \<lparr>bb_contract = dx_self env, bb_config = pi_config i, bb_account = pi_account i, bb_coins = balances\<rparr>)) (\<lambda>st.
     map_res (\<lambda>batch. (map ProfitDexMsg batch, ProfitBuyBack (LocalTransferOut st)))
       (map_err ProfitDex (transfer_out_enter buy_back_task st env)))"

definition idle_on_time_alarm :: "profit_idle \<Rightarrow> profit_env \<Rightarrow> profit_response" where
  "idle_on_time_alarm i env =
     and_then (ok_or (ProfitPlatform CosmWasmQueryAllBalances) (pe_balances env)) (\<lambda>balances.
     and_then (or_panic (split_balances (pe_payments env) balances 0 [])) (\<lambda>(nls, others).
       if others = [] then map_res (\<lambda>ms. (ms, ProfitIdle i)) (send_nls i env nls)
       else try_enter_buy_back i env others))"

definition idle_handler :: "(profit_idle, profit_env, profit_state, profit_response) handler" where
  "idle_handler =
     (default_handler (\<lambda>_. ''Idle''))\<lparr>h_on_time_alarm := (\<lambda>i env. Finished (idle_on_time_alarm i env))\<rparr>"

section \<open>The account\<close>

text \<open>The connector is in no delivery here, so the alarm of a delivery is never set.\<close>

definition profit_connectee :: "(profit_open_ica, profit_idle, profit_env) ica_connectee" where
  "profit_connectee =
     \<lparr>cn_display = (\<lambda>_. ''Idle''), cn_dex = po_dex, cn_time_alarms = (\<lambda>c. pf_time_alarms (po_config c)),
      cn_connected = (\<lambda>c ica. Some \<lparr>pi_config = po_config c, pi_account = ica\<rparr>), cn_enter_next = idle_enter\<rparr>"

definition profit_start :: "profit_config \<Rightarrow> connection_params \<Rightarrow> profit_state \<times> profit_out list" where
  "profit_start cfg dex =
     (let c = \<lparr>po_config = cfg, po_dex = dex\<rparr>
      in (ProfitOpenIca c, map ProfitDexMsg (ica_connector_enter profit_connectee c)))"

section \<open>Operations\<close>

definition handler_on :: "('h, 'e, 's, 'r) handler \<Rightarrow> 'h \<Rightarrow> dex_event \<Rightarrow> 'e \<Rightarrow> ('s, 'r) handled" where
  "handler_on hops h ev env =
     (case ev of
        OpenAck v \<Rightarrow> Continue (h_on_open_ica hops h v env)
      | Response data \<Rightarrow> h_on_response hops h data env
      | ErrorAck \<Rightarrow> Continue (h_on_error hops h env)
      | TimeoutAck \<Rightarrow> Continue (h_on_timeout hops h env)
      | InnerCall \<Rightarrow> h_on_inner hops h env
      | InnerContinueCall \<Rightarrow> Continue (h_on_inner_continue hops h env)
      | ReplyOnError \<Rightarrow> Continue (h_reply hops h env)
      | AlarmFired \<Rightarrow> h_on_time_alarm hops h env
      | HealCall \<Rightarrow> h_heal hops h env)"

definition profit_handled :: "('s \<Rightarrow> profit_state) \<Rightarrow> ('s, profit_response) handled \<Rightarrow> profit_response" where
  "profit_handled into h =
     (case h of
        Continue r \<Rightarrow> map_res (\<lambda>(ms, s). (map ProfitDexMsg ms, into s)) (map_err ProfitDex r)
      | Finished r \<Rightarrow> r)"

definition profit_on :: "profit_state \<Rightarrow> dex_event \<Rightarrow> profit_env \<Rightarrow> profit_response" where
  "profit_on st ev env =
     (case st of
        ProfitOpenIca ica \<Rightarrow>
          profit_handled (\<lambda>s. s) (handler_on (ica_connector_handler profit_connectee ProfitIdle) ica ev env)
      | ProfitIdle i \<Rightarrow> profit_handled (\<lambda>s. s) (handler_on idle_handler i ev env)
      | ProfitBuyBack bb \<Rightarrow> profit_handled ProfitBuyBack (local_on buy_back_task bb ev env))"

definition try_update_config :: "profit_state \<Rightarrow> timestamp \<Rightarrow> nat \<Rightarrow> profit_response" where
  "try_update_config st now hours =
     (case st of
        ProfitIdle i \<Rightarrow>
          (let cfg = config_update (pi_config i) hours
           in map_res (\<lambda>alarms. (map ProfitDexMsg alarms, ProfitIdle (i\<lparr>pi_config := cfg\<rparr>)))
                (or_panic (setup_time_alarm cfg now)))
      | _ \<Rightarrow> Inl (Fail (ProfitUnsupported ''Configuration changes are not allowed in this state!'')))"

section \<open>Entry points\<close>

datatype profit_execute_msg = ProfitTimeAlarm | ProfitConfig nat | ProfitDexCallback | ProfitDexCallbackContinue

datatype profit_sudo_msg =
    ProfitResponse string
  | ProfitError
  | ProfitTimeout
  | ProfitOpenAck string
  | ProfitQueryResult

definition profit_store :: "profit_contract \<Rightarrow> profit_response \<Rightarrow> (profit_error, profit_out list \<times> profit_contract) res" where
  "profit_store s r = map_res (\<lambda>(ms, st). (ms, s\<lparr>pc_state := st\<rparr>)) r"

definition profit_instantiate ::
  "profit_env \<Rightarrow> addr \<Rightarrow> profit_init \<Rightarrow> (profit_error, profit_out list \<times> profit_contract) res" where
  "profit_instantiate env sender msg =
     (let has_code = (\<lambda>a. map_err ProfitPlatform (validate_addr (pe_code_of env) a)) in
      and_then (has_code (in_treasury msg)) (\<lambda>_.
      and_then (has_code (in_oracle msg)) (\<lambda>_.
      and_then (has_code (in_timealarms msg)) (\<lambda>_.
      and_then (if pe_answers env (in_oracle msg) then Inr () else Inl (Fail ProfitOracle)) (\<lambda>_.
      and_then (map_err (\<lambda>_. ProfitTimeAlarmStub) (validate_addr (pe_code_of env) (in_timealarms msg))) (\<lambda>_.
        case profit_start
            \<lparr>pf_cadence_hours = in_cadence_hours msg, pf_treasury = in_treasury msg, pf_oracle = in_oracle msg,
             pf_time_alarms = in_timealarms msg\<rparr> (in_dex msg) of
          (st, ms) \<Rightarrow>
            Inr (ms, \<lparr>pc_owner = Some sender, pc_timealarms = Some (in_timealarms msg), pc_state = st\<rparr>)))))))"

definition profit_execute ::
  "profit_env \<Rightarrow> profit_contract \<Rightarrow> addr \<Rightarrow> profit_execute_msg
     \<Rightarrow> (profit_error, profit_out list \<times> profit_contract) res" where
  "profit_execute env s sender msg =
     (case msg of
        ProfitTimeAlarm \<Rightarrow>
          and_then (map_err ProfitUnauthorized (single_user_check (pc_timealarms s) sender)) (\<lambda>_.
            profit_store s (profit_on (pc_state s) AlarmFired env))
      | ProfitConfig hours \<Rightarrow>
          and_then (map_err ProfitUnauthorized (single_user_check (pc_owner s) sender)) (\<lambda>_.
            profit_store s (try_update_config (pc_state s) (dx_now env) hours))
      | ProfitDexCallback \<Rightarrow>
          and_then (map_err ProfitUnauthorized (access_check (dx_self env) sender)) (\<lambda>_.
            profit_store s (profit_on (pc_state s) InnerCall env))
      | ProfitDexCallbackContinue \<Rightarrow>
          and_then (map_err ProfitUnauthorized (access_check (dx_self env) sender)) (\<lambda>_.
            profit_store s (profit_on (pc_state s) InnerContinueCall env)))"

definition profit_sudo ::
  "profit_env \<Rightarrow> profit_contract \<Rightarrow> profit_sudo_msg \<Rightarrow> (profit_error, profit_out list \<times> profit_contract) res" where
  "profit_sudo env s msg =
     profit_store s
       (case msg of
          ProfitResponse data \<Rightarrow> profit_on (pc_state s) (Response data) env
        | ProfitError \<Rightarrow> profit_on (pc_state s) ErrorAck env
        | ProfitTimeout \<Rightarrow> profit_on (pc_state s) TimeoutAck env
        | ProfitOpenAck v \<Rightarrow> profit_on (pc_state s) (OpenAck v) env
        | ProfitQueryResult \<Rightarrow> Inl Panic)"

definition profit_reply ::
  "profit_env \<Rightarrow> profit_contract \<Rightarrow> (profit_error, profit_out list \<times> profit_contract) res" where
  "profit_reply env s = profit_store s (profit_on (pc_state s) ReplyOnError env)"

definition profit_state_config :: "profit_state \<Rightarrow> profit_config" where
  "profit_state_config st =
     (case st of
        ProfitOpenIca ica \<Rightarrow> po_config ica
      | ProfitIdle i \<Rightarrow> pi_config i
      | ProfitBuyBack bb \<Rightarrow> bb_config (fst (local_state bb)))"

definition profit_query_config :: "profit_contract \<Rightarrow> nat" where
  "profit_query_config s = pf_cadence_hours (profit_state_config (pc_state s))"

end
