(* ===== verification/Profit_Facts.thy ===== *)
theory Profit_Facts
  imports Profit Dex_Runs
begin

text \<open>
  What the profit contract guarantees in any order of its calls: it never comes to rest without an
  alarm set, and the native coin goes nowhere but to the treasury.
\<close>

section \<open>Calls\<close>

datatype profit_call = ProfitExec addr profit_execute_msg | ProfitSudo profit_sudo_msg | ProfitReply

definition profit_call ::
  "profit_env \<Rightarrow> profit_contract \<Rightarrow> profit_call \<Rightarrow> (profit_error, profit_out list \<times> profit_contract) res" where
  "profit_call env s c =
     (case c of
        ProfitExec sender msg \<Rightarrow> profit_execute env s sender msg
      | ProfitSudo msg \<Rightarrow> profit_sudo env s msg
      | ProfitReply \<Rightarrow> profit_reply env s)"

fun banked :: "profit_out list \<Rightarrow> cosmos_msg list" where
  "banked [] = []"
| "banked (ProfitBank m # ms) = m # banked ms"
| "banked (ProfitDexMsg _ # ms) = banked ms"

lemma banked_simps [simp]:
  "banked (xs @ ys) = banked xs @ banked ys" "banked (map ProfitDexMsg ds) = []"
  by (induction xs rule: banked.induct; simp) (induction ds; simp)

text \<open>What a balance of the native coin sends.\<close>

lemma banked_transfer:
  "banked (transfer_nls env to n) =
     (if n \<le> 100 then []
      else [BankSend to [\<lparr>denom = bank_symbol (dx_net env) NLS_TICKER, cw_amount = n - 100\<rparr>]])"
  by (simp add: transfer_nls_def IBC_FEE_RESERVE_def Let_def)

text \<open>The addresses of a configuration, which nothing changes.\<close>

definition same_parties :: "profit_state \<Rightarrow> profit_state \<Rightarrow> bool" where
  "same_parties st st' \<longleftrightarrow>
     (let cfg = profit_state_config st; cfg' = profit_state_config st'
      in pf_treasury cfg' = pf_treasury cfg \<and> pf_oracle cfg' = pf_oracle cfg \<and> pf_time_alarms cfg' = pf_time_alarms cfg)"

text \<open>A call that comes to rest sets the alarm of its cadence, and sends what \<open>sent\<close> allows.\<close>

definition armed :: "profit_env \<Rightarrow> profit_state \<Rightarrow> profit_response \<Rightarrow> bool" where
  "armed env st r \<longleftrightarrow> (\<forall>ms st'. r = Inr (ms, st') \<longrightarrow>
     same_parties st st'
     \<and> (case st' of
          ProfitIdle i \<Rightarrow>
            (\<exists>at. timestamp_add (dx_now env) (from_hours (pf_cadence_hours (pi_config i))) = Some at
              \<and> ProfitDexMsg (SetupTimeAlarm (pf_time_alarms (pi_config i)) at) \<in> set ms)
            \<and> (banked ms = [] \<or> (\<exists>n. banked ms = banked (transfer_nls env (pf_treasury (pi_config i)) n)))
        | _ \<Rightarrow> banked ms = []))"

lemma armed_failed [simp]: "armed env st (Inl e)"
  by (simp add: armed_def)

lemma armed_and_then: "(\<And>x. m = Inr x \<Longrightarrow> armed env st (f x)) \<Longrightarrow> armed env st (and_then m f)"
  by (cases m) auto

lemma armed_map_res: "(\<And>x. m = Inr x \<Longrightarrow> armed env st (Inr (f x))) \<Longrightarrow> armed env st (map_res f m)"
  by (cases m) auto

lemma setup_time_alarm_Some:
  "setup_time_alarm cfg now = Some ms \<longleftrightarrow>
     (\<exists>at. timestamp_add now (from_hours (pf_cadence_hours cfg)) = Some at \<and> ms = [SetupTimeAlarm (pf_time_alarms cfg) at])"
  by (auto simp: setup_time_alarm_def setup_alarm_def)

lemma armed_finish:
  assumes "profit_state_config st = bb_config bb"
  shows "armed env st (buy_back_finish bb am env)"
  unfolding buy_back_finish_def Let_def
  by (intro armed_and_then armed_map_res)
    (use assms in \<open>auto simp: armed_def idle_enter_def setup_time_alarm_Some same_parties_def profit_state_config_def Let_def
        simp del: timestamp_add_Some\<close>)

lemma armed_alarm:
  assumes "st = ProfitIdle i"
  shows "armed env st (idle_on_time_alarm i env)"
proof -
  have "armed env st (try_enter_buy_back i env balances)" for balances
    unfolding try_enter_buy_back_def
    by (intro armed_and_then armed_map_res)
      (use assms in \<open>auto simp: armed_def same_parties_def profit_state_config_def start_local_local_def Let_def
        dest!: transfer_out_new_ok\<close>)
  moreover have "armed env st (map_res (\<lambda>ms. (ms, ProfitIdle i)) (send_nls i env nls))" for nls
    unfolding send_nls_def
    by (intro armed_map_res)
      (use assms in \<open>auto simp: armed_def idle_enter_def setup_time_alarm_Some same_parties_def
        simp del: timestamp_add_Some\<close>)
  ultimately show ?thesis
    unfolding idle_on_time_alarm_def by (auto intro!: armed_and_then)
qed

lemma armed_ica:
  assumes "st = ProfitOpenIca c"
  shows "armed env st (profit_handled (\<lambda>s. s) (handler_on (ica_connector_handler profit_connectee ProfitIdle) c ev env))"
  using assms
  by (cases ev)
    (auto simp: handler_on_def profit_handled_def state_handlers ica_connector_on_open_ica_def profit_connectee_def
        unsupported_def armed_def idle_enter_def setup_time_alarm_Some same_parties_def profit_state_config_def Let_def
      simp del: timestamp_add_Some)

lemma armed_idle:
  assumes "st = ProfitIdle i"
  shows "armed env st (profit_handled (\<lambda>s. s) (handler_on idle_handler i ev env))"
  using armed_alarm [OF assms]
  by (cases ev) (simp_all add: handler_on_def profit_handled_def idle_handler_def default_handler_def unsupported_def)

lemma armed_buy_back:
  assumes "st = ProfitBuyBack s"
  shows "armed env st (profit_handled ProfitBuyBack (local_on buy_back_task s ev env))"
proof (cases "local_on buy_back_task s ev env")
  case (Continue r)
  have "local_spec b = local_spec s" if "r = Inr (a, b)" for a b
    by (rule local_leads_keeps(1) [OF local_on_leads [OF Continue [unfolded that]]])
  then show ?thesis
    using Continue assms
    by (auto simp: profit_handled_def armed_def same_parties_def profit_state_config_def local_spec_def Let_def
        intro!: armed_map_res)
next
  case (Finished r)
  then have "\<exists>a. r = buy_back_finish (local_spec s) a env"
    using local_on_finished by (fastforce simp: buy_back_task_def)
  then show ?thesis
    using Finished armed_finish [of st "local_spec s"] assms
    by (auto simp: profit_handled_def profit_state_config_def local_spec_def)
qed

lemma armed_on: "armed env st (profit_on st ev env)"
  unfolding profit_on_def by (cases st) (simp_all add: armed_ica armed_idle armed_buy_back)

lemma armed_config: "armed env st (try_update_config st (dx_now env) hours)"
  by (cases st)
    (auto simp: try_update_config_def Let_def armed_def setup_time_alarm_Some same_parties_def profit_state_config_def
      config_update_def simp del: timestamp_add_Some)

lemma profit_store_Inr:
  "profit_store s r = Inr (ms, s') \<longleftrightarrow> (\<exists>st. r = Inr (ms, st) \<and> s' = s\<lparr>pc_state := st\<rparr>)"
  by (auto simp: profit_store_def)

lemma profit_call_Inr:
  assumes "profit_call env s c = Inr (ms, s')"
  shows "\<exists>r st. armed env (pc_state s) r \<and> r = Inr (ms, st) \<and> s' = s\<lparr>pc_state := st\<rparr>"
proof (cases c)
  case (ProfitExec sender msg)
  then show ?thesis
    using assms armed_on armed_config
    by (cases msg) (fastforce simp: profit_call_def profit_execute_def profit_store_Inr)+
next
  case (ProfitSudo msg)
  then show ?thesis
    using assms armed_on by (cases msg) (fastforce simp: profit_call_def profit_sudo_def profit_store_Inr)+
next
  case ProfitReply
  then show ?thesis
    using assms armed_on by (fastforce simp: profit_call_def profit_reply_def profit_store_Inr)
qed

text \<open>
  The profit contract never comes to rest without its next alarm, and never sends the native
  coin anywhere but to the treasury. Whatever the call and the state, a call that succeeds and
  leaves the contract idle has asked for an alarm one cadence ahead, the one just configured
  included; only such a call may send coins, at most one transfer of the native coin to the
  treasury, which keeps back the reserve for the fees; and the owner, the treasury, the
  oracle and the time alarms stay as they were set.
\<close>

theorem profit_stays_armed:
  assumes "profit_call env s c = Inr (ms, s')"
  shows "(\<forall>i. pc_state s' = ProfitIdle i \<longrightarrow>
        (\<exists>at. timestamp_add (dx_now env) (from_hours (pf_cadence_hours (pi_config i))) = Some at
          \<and> ProfitDexMsg (SetupTimeAlarm (pf_time_alarms (pi_config i)) at) \<in> set ms))
    \<and> (banked ms \<noteq> [] \<longrightarrow>
        (\<exists>i n. pc_state s' = ProfitIdle i \<and> 0 < n
          \<and> banked ms = [BankSend (pf_treasury (pi_config i)) [\<lparr>denom = bank_symbol (dx_net env) NLS_TICKER, cw_amount = n\<rparr>]]))
    \<and> same_parties (pc_state s) (pc_state s') \<and> pc_owner s' = pc_owner s \<and> pc_timealarms s' = pc_timealarms s"
proof -
  obtain st where st: "armed env (pc_state s) (Inr (ms, st))" "s' = s\<lparr>pc_state := st\<rparr>"
    using profit_call_Inr [OF assms] by blast
  then show ?thesis
    by (cases st) (auto simp: armed_def banked_transfer)
qed

section \<open>A round\<close>

definition example_profit :: profit_contract where
  "example_profit =
     \<lparr>pc_owner = Some ''leaser'', pc_timealarms = Some ''alarms'',
      pc_state = ProfitIdle
        \<lparr>pi_config = \<lparr>pf_cadence_hours = 16, pf_treasury = ''treasury'', pf_oracle = ''feeds'', pf_time_alarms = ''alarms''\<rparr>,
         pi_account =
           \<lparr>account_owner = ''profit'', account_host = ''ica'',
            account_dex = \<lparr>connection_id = ''connection-0'', local_endpoint = ''channel-0'', remote_endpoint = ''channel-1''\<rparr>\<rparr>\<rparr>\<rparr>"

definition example_profit_env :: profit_env where
  "example_profit_env =
     \<lparr>dx_now = Timestamp 0, dx_self = ''profit'', dx_net = \<lparr>bank_symbol = (\<lambda>t. ''u'' @ t), dex_symbol = (\<lambda>t. t)\<rparr>,
      dx_wire =
        \<lparr>decode_trx_data = (\<lambda>_. None), decode_proto = (\<lambda>_ v. Some v), json_return_amount = (\<lambda>_. None),
         parse_amount = (\<lambda>_. None), json_open_ack = Some\<rparr>,
      dx_client = osmosis, dx_balance = (\<lambda>_. Some 350), dx_swap_path = (\<lambda>_ _. None),
      pe_balances = Some [\<lparr>denom = ''uNLS'', cw_amount = 350\<rparr>, \<lparr>denom = ''dust'', cw_amount = 7\<rparr>],
      pe_payments = (\<lambda>d. if d = ''uNLS'' then Some ''NLS'' else None), pe_code_of = (\<lambda>_. Some 1), pe_answers = (\<lambda>_. True)\<rparr>"

lemma example_round:
  "profit_call example_profit_env example_profit (ProfitExec ''alarms'' ProfitTimeAlarm) =
     Inr ([ProfitBank (BankSend ''treasury'' [\<lparr>denom = ''uNLS'', cw_amount = 250\<rparr>]),
           ProfitDexMsg (SetupTimeAlarm ''alarms'' (Timestamp 57600000000000))], example_profit)"
  by (simp add: profit_call_def profit_execute_def example_profit_def example_profit_env_def single_user_check_def
      access_check_def profit_store_def profit_on_def handler_on_def idle_handler_def profit_handled_def
      default_handler_def idle_on_time_alarm_def NLS_TICKER_def send_nls_def idle_enter_def setup_time_alarm_def
      setup_alarm_def timestamp_add_def from_hours_def from_secs_def from_nanos_def time_consts transfer_nls_def
      IBC_FEE_RESERVE_def op_defs Let_def del: inversion_simps)

theorem profit_stays_armed_witness:
  "\<exists>ms. profit_call example_profit_env example_profit (ProfitExec ''alarms'' ProfitTimeAlarm) = Inr (ms, example_profit)
     \<and> ProfitDexMsg (SetupTimeAlarm ''alarms'' (Timestamp 57600000000000)) \<in> set ms
     \<and> same_parties (pc_state example_profit) (pc_state example_profit)"
  using profit_stays_armed [OF example_round] example_round by simp

end
