(* ===== verification/Versioning.thy ===== *)
theory Versioning
  imports Prelude "HOL-Library.List_Lexorder" "HOL-Library.Char_ord"
begin

text \<open>
  The versions of the contracts (\<open>platform/packages/versioning/src\<close>): semantic versions with their
  text, packages of software, releases, and the checks a contract makes when it is migrated. A
  segment of a version is 16 bits wide; the next storage version wraps around.
\<close>

section \<open>Semantic versions\<close>

datatype semver = SemVer (major: nat) (minor: nat) (patch: nat)

definition semver_key :: "semver \<Rightarrow> nat list" where
  "semver_key v = [major v, minor v, patch v]"

lemma semver_key_inject: "semver_key v = semver_key w \<longleftrightarrow> v = w"
  by (cases v; cases w) (simp add: semver_key_def)

instantiation semver :: linorder
begin

definition less_eq_semver :: "semver \<Rightarrow> semver \<Rightarrow> bool" where
  "v \<le> w \<longleftrightarrow> semver_key v \<le> semver_key w"

definition less_semver :: "semver \<Rightarrow> semver \<Rightarrow> bool" where
  "v < w \<longleftrightarrow> semver_key v < semver_key w"

instance
  by standard
    (auto simp: less_eq_semver_def less_semver_def semver_key_inject less_le_not_le
      dest: order.antisym simp flip: semver_key_inject)

end

definition is_digit :: "char \<Rightarrow> bool" where
  "is_digit c \<longleftrightarrow> 48 \<le> (of_char c :: nat) \<and> (of_char c :: nat) \<le> 57"

definition digit_value :: "char \<Rightarrow> nat" where
  "digit_value c = of_char c - 48"

text \<open>The loop of \<open>parse\<close>: the segments so far and the index of the current one.\<close>

fun parse_segments :: "string \<Rightarrow> nat \<Rightarrow> nat list \<Rightarrow> (nat \<times> nat list) option" where
  "parse_segments [] segment_index segments = Some (segment_index, segments)"
| "parse_segments (c # cs) segment_index segments =
     (if is_digit c then
        do {
          shifted \<leftarrow> checked_mul 16 (segments ! segment_index) 10;
          value \<leftarrow> checked_add 16 shifted (digit_value c);
          parse_segments cs segment_index (segments[segment_index := value])
        }
      else if c = CHR ''.'' then
        (if segment_index + 1 = length segments \<or> cs = [] then None
         else parse_segments cs (segment_index + 1) segments)
      else None)"

definition semver_parse :: "string \<Rightarrow> semver option" where
  "semver_parse version =
     do {
       (segment_index, segments) \<leftarrow> parse_segments version 0 [0, 0, 0];
       (if segment_index + 1 = length segments
        then Some (SemVer (segments ! 0) (segments ! 1) (segments ! 2)) else None)
     }"

text \<open>The decimal text of a number, as the formatter writes it.\<close>

definition digit_char :: "nat \<Rightarrow> char" where
  "digit_char n = char_of (48 + n)"

fun decimal :: "nat \<Rightarrow> string" where
  "decimal n = (if n < 10 then [digit_char n] else decimal (n div 10) @ [digit_char (n mod 10)])"

declare decimal.simps [simp del]

definition semver_display :: "semver \<Rightarrow> string" where
  "semver_display v = decimal (major v) @ ''.'' @ decimal (minor v) @ ''.'' @ decimal (patch v)"

definition semver_ok :: "semver \<Rightarrow> bool" where
  "semver_ok v \<longleftrightarrow> major v < 2 ^ 16 \<and> minor v < 2 ^ 16 \<and> patch v < 2 ^ 16"

lemma digit_char:
  assumes "n < 10"
  shows "is_digit (digit_char n)" "digit_value (digit_char n) = n"
proof -
  have "of_char (digit_char n) = 48 + n" using assms by (simp add: digit_char_def)
  then show "is_digit (digit_char n)" "digit_value (digit_char n) = n"
    using assms by (simp_all add: is_digit_def digit_value_def)
qed

lemma parse_digit:
  assumes "n < 10" "i < length segs" "10 * segs ! i + n < 2 ^ 16"
  shows "parse_segments (digit_char n # cs) i segs = parse_segments cs i (segs[i := 10 * segs ! i + n])"
  using assms digit_char [OF assms(1)]
  by (simp add: checked_mul_def checked_add_def fits_def mult.commute)

lemma parse_decimal:
  "n < 2 ^ 16 \<Longrightarrow> i < length segs \<Longrightarrow> segs ! i = 0
     \<Longrightarrow> parse_segments (decimal n @ cs) i segs = parse_segments cs i (segs[i := n])"
proof (induction n arbitrary: cs rule: decimal.induct)
  case (1 n)
  show ?case
  proof (cases "n < 10")
    case True
    then show ?thesis using 1 by (simp add: decimal.simps [of n] parse_digit del: parse_segments.simps)
  next
    case False
    then have "n div 10 < 2 ^ 16" using "1.prems"(1) by linarith
    then have "parse_segments (decimal (n div 10) @ digit_char (n mod 10) # cs) i segs
        = parse_segments (digit_char (n mod 10) # cs) i (segs[i := n div 10])"
      using 1 False by blast
    then show ?thesis
      using False 1 by (simp add: decimal.simps [of n] parse_digit del: parse_segments.simps)
  qed
qed

lemma decimal_nonempty: "decimal n \<noteq> []"
  by (subst decimal.simps) simp

lemma parse_dot:
  "cs \<noteq> [] \<Longrightarrow> i + 1 \<noteq> length segs
     \<Longrightarrow> parse_segments (CHR ''.'' # cs) i segs = parse_segments cs (i + 1) segs"
  by (simp add: is_digit_def)

text \<open>
  The text of a version is read back as the same version.
\<close>

theorem semver_display_parse:
  assumes "semver_ok v"
  shows "semver_parse (semver_display v) = Some v"
proof -
  have seg: "parse_segments (decimal n @ []) 2 [a, b, 0] = Some (2, [a, b, n])" if "n < 2 ^ 16" for n a b
    using parse_decimal [of n 2 "[a, b, 0]" "[]"] that by (simp add: numeral_2_eq_2)
  have "parse_segments (semver_display v) 0 [0, 0, 0] = Some (2, [major v, minor v, patch v])"
    using assms seg [of "patch v" "major v" "minor v"]
    by (simp add: semver_ok_def semver_display_def parse_decimal parse_dot decimal_nonempty numeral_2_eq_2 del: parse_segments.simps)
  then show ?thesis by (simp add: semver_parse_def)
qed

theorem semver_display_parse_witness:
  "semver_parse (semver_display (SemVer 0 7 65535)) = Some (SemVer 0 7 65535)"
  by (rule semver_display_parse) (simp add: semver_ok_def)

section \<open>Packages and releases\<close>

record package =
  pkg_name :: string
  pkg_version :: semver
  pkg_storage :: nat

record package_release =
  rel_id :: string
  rel_code :: package

record protocol_name =
  protocol_called :: string
  protocol_network :: string

record protocol_release =
  prel_id :: string
  prel_protocol :: protocol_name

record protocol_package_release =
  ppr_software :: package_release
  ppr_protocol :: protocol_release

datatype versioning_error =
    LoadPrevVersion
  | SoftwareReleaseMismatch string string
  | ProtocolReleaseMismatch string string
  | PackageNamesMismatch string string
  | OlderPackageCode string string
  | PackageStorageVersionMismatch string string
  | PackageStorageVersionNotAdjacent string string
  | ProtocolMismatch string string

definition package_display :: "package \<Rightarrow> string" where
  "package_display p =
     ''name: '' @ pkg_name p @ '', version: '' @ semver_display (pkg_version p) @ '', storage: '' @ decimal (pkg_storage p)"

definition protocol_display :: "protocol_name \<Rightarrow> string" where
  "protocol_display p = ''name: '' @ protocol_called p @ '', network: '' @ protocol_network p"

text \<open>The order of packages: by name, then by version; the storage version has no part in it.\<close>

definition package_le :: "package \<Rightarrow> package \<Rightarrow> bool" where
  "package_le p q \<longleftrightarrow> pkg_name p < pkg_name q \<or> (pkg_name p = pkg_name q \<and> pkg_version p \<le> pkg_version q)"

definition same_storage :: "package \<Rightarrow> package \<Rightarrow> bool" where
  "same_storage p q \<longleftrightarrow> pkg_storage p = pkg_storage q"

definition next_storage :: "package \<Rightarrow> package \<Rightarrow> bool" where
  "next_storage p q \<longleftrightarrow> pkg_storage q = (pkg_storage p + 1) mod 2 ^ 16"

section \<open>Updates\<close>

definition check_release_match :: "package_release \<Rightarrow> string \<Rightarrow> (versioning_error, unit) res" where
  "check_release_match r target =
     (if rel_id r = target then Inr () else Inl (Fail (SoftwareReleaseMismatch (rel_id r) target)))"

definition check_name_match :: "package_release \<Rightarrow> package \<Rightarrow> (versioning_error, unit) res" where
  "check_name_match r other =
     (if pkg_name (rel_code r) = pkg_name other then Inr ()
      else Inl (Fail (PackageNamesMismatch (package_display (rel_code r)) (package_display other))))"

definition check_code_same_or_newer :: "package_release \<Rightarrow> package \<Rightarrow> (versioning_error, unit) res" where
  "check_code_same_or_newer r other =
     (if package_le (rel_code r) other then Inr ()
      else Inl (Fail (OlderPackageCode (package_display (rel_code r)) (package_display other))))"

definition check_storage_match :: "package_release \<Rightarrow> package \<Rightarrow> (versioning_error, unit) res" where
  "check_storage_match r other =
     (if same_storage (rel_code r) other then Inr ()
      else Inl (Fail (PackageStorageVersionMismatch (package_display (rel_code r)) (package_display other))))"

definition check_storage_adjacent :: "package_release \<Rightarrow> package \<Rightarrow> (versioning_error, unit) res" where
  "check_storage_adjacent r other =
     (if next_storage (rel_code r) other then Inr ()
      else Inl (Fail (PackageStorageVersionNotAdjacent (package_display (rel_code r)) (package_display other))))"

definition check_software_update_allowed ::
  "(package_release \<Rightarrow> package \<Rightarrow> (versioning_error, unit) res) \<Rightarrow> package_release \<Rightarrow> package_release
     \<Rightarrow> (versioning_error, unit) res" where
  "check_software_update_allowed storage_check r to =
     and_then (check_name_match r (rel_code to)) (\<lambda>_.
     and_then (check_code_same_or_newer r (rel_code to)) (\<lambda>_. storage_check r (rel_code to)))"

definition update_software :: "package_release \<Rightarrow> package_release \<Rightarrow> string \<Rightarrow> (versioning_error, unit) res" where
  "update_software r to to_release =
     and_then (check_release_match to to_release) (\<lambda>_. check_software_update_allowed check_storage_match r to)"

definition update_software_and_storage ::
  "package_release \<Rightarrow> package_release \<Rightarrow> string \<Rightarrow> (versioning_error, unit) res" where
  "update_software_and_storage r to to_release =
     and_then (check_release_match to to_release) (\<lambda>_. check_software_update_allowed check_storage_adjacent r to)"

text \<open>The error for another protocol is the one for another package.\<close>

definition check_protocol_match :: "protocol_release \<Rightarrow> protocol_release \<Rightarrow> (versioning_error, unit) res" where
  "check_protocol_match r to =
     (if prel_protocol r = prel_protocol to then Inr ()
      else Inl (Fail (PackageNamesMismatch (protocol_display (prel_protocol r)) (protocol_display (prel_protocol to)))))"

definition check_protocol_release_match :: "protocol_release \<Rightarrow> string \<Rightarrow> (versioning_error, unit) res" where
  "check_protocol_release_match r target =
     (if prel_id r = target then Inr () else Inl (Fail (ProtocolReleaseMismatch (prel_id r) target)))"

definition check_update_allowed ::
  "protocol_release \<Rightarrow> protocol_release \<Rightarrow> string \<Rightarrow> (versioning_error, unit) res" where
  "check_update_allowed r to to_release =
     and_then (check_protocol_release_match to to_release) (\<lambda>_. check_protocol_match r to)"

definition protocol_update_software ::
  "protocol_package_release \<Rightarrow> protocol_package_release \<Rightarrow> string \<times> string \<Rightarrow> (versioning_error, unit) res" where
  "protocol_update_software r to to_release =
     and_then (check_update_allowed (ppr_protocol r) (ppr_protocol to) (snd to_release)) (\<lambda>_.
       update_software (ppr_software r) (ppr_software to) (fst to_release))"

definition protocol_update_software_and_storage ::
  "protocol_package_release \<Rightarrow> protocol_package_release \<Rightarrow> string \<times> string \<Rightarrow> (versioning_error, unit) res" where
  "protocol_update_software_and_storage r to to_release =
     and_then (check_update_allowed (ppr_protocol r) (ppr_protocol to) (snd to_release)) (\<lambda>_.
       update_software_and_storage (ppr_software r) (ppr_software to) (fst to_release))"

text \<open>The stored version of an earlier contract is read once, and removed.\<close>

record legacy_package =
  leg_storage :: nat
  leg_software :: semver

definition PREV_ID :: string where
  "PREV_ID = ''v0.7.6''"

definition pull_prev ::
  "string \<Rightarrow> legacy_package option \<Rightarrow> (versioning_error, package_release \<times> legacy_package option) res" where
  "pull_prev name stored =
     map_res (\<lambda>leg.
         (\<lparr>rel_id = PREV_ID,
           rel_code = \<lparr>pkg_name = name, pkg_version = leg_software leg, pkg_storage = leg_storage leg\<rparr>\<rparr>, None))
       (ok_or LoadPrevVersion stored)"

definition protocol_pull_prev ::
  "protocol_release \<Rightarrow> string \<Rightarrow> legacy_package option
     \<Rightarrow> (versioning_error, protocol_package_release \<times> legacy_package option) res" where
  "protocol_pull_prev current name stored =
     map_res (\<lambda>(software, stored'). (\<lparr>ppr_software = software, ppr_protocol = current\<rparr>, stored')) (pull_prev name stored)"


section \<open>The migration of a contract\<close>

text \<open>
  The migration entry point of a contract of the platform and of a contract of a protocol, with
  the release the code is built in, and the package name. What it answers is the stored version.
\<close>

definition platform_migrate ::
  "package_release \<Rightarrow> string \<Rightarrow> legacy_package option \<Rightarrow> string \<Rightarrow> (versioning_error, legacy_package option) res" where
  "platform_migrate current name stored to_release =
     and_then (pull_prev name stored) (\<lambda>(previous, stored').
       map_res (\<lambda>_. stored') (update_software previous current to_release))"

definition protocol_migrate ::
  "protocol_package_release \<Rightarrow> string \<Rightarrow> legacy_package option \<Rightarrow> string \<times> string
     \<Rightarrow> (versioning_error, legacy_package option) res" where
  "protocol_migrate current name stored to_release =
     and_then (protocol_pull_prev (ppr_protocol current) name stored) (\<lambda>(previous, stored').
       map_res (\<lambda>_. stored') (protocol_update_software previous current to_release))"

lemmas check_defs = check_release_match_def check_name_match_def check_code_same_or_newer_def check_storage_match_def
  check_storage_adjacent_def check_software_update_allowed_def check_protocol_match_def
  check_protocol_release_match_def check_update_allowed_def package_le_def same_storage_def next_storage_def

lemma update_software_ok:
  "update_software r to target = Inr () \<longleftrightarrow>
     rel_id to = target \<and> pkg_name (rel_code r) = pkg_name (rel_code to)
       \<and> pkg_version (rel_code r) \<le> pkg_version (rel_code to) \<and> pkg_storage (rel_code r) = pkg_storage (rel_code to)"
  by (auto simp: update_software_def check_defs)

lemma update_software_and_storage_ok:
  "update_software_and_storage r to target = Inr () \<longleftrightarrow>
     rel_id to = target \<and> pkg_name (rel_code r) = pkg_name (rel_code to)
       \<and> pkg_version (rel_code r) \<le> pkg_version (rel_code to)
       \<and> pkg_storage (rel_code to) = (pkg_storage (rel_code r) + 1) mod 2 ^ 16"
  by (auto simp: update_software_and_storage_def check_defs)

lemma check_update_allowed_ok:
  "check_update_allowed r to target = Inr () \<longleftrightarrow> prel_id to = target \<and> prel_protocol r = prel_protocol to"
  by (auto simp: check_defs)

text \<open>
  A contract of a protocol is migrated once, and only forward. Its migration succeeds exactly when
  it is sent for the release the code is built in, and a version of an earlier contract is stored
  that is not newer than the code and has its storage version; that stored version is gone then,
  so another migration by the same entry point fails, whatever it is asked for.
\<close>

theorem migrates_once:
  "(protocol_migrate current (pkg_name (rel_code (ppr_software current))) stored to_release = Inr stored') =
     (stored' = None \<and> to_release = (rel_id (ppr_software current), prel_id (ppr_protocol current))
       \<and> (\<exists>leg. stored = Some leg \<and> leg_software leg \<le> pkg_version (rel_code (ppr_software current))
            \<and> leg_storage leg = pkg_storage (rel_code (ppr_software current))))
   \<and> protocol_migrate current name None to_release = Inl (Fail LoadPrevVersion)"
  by (cases stored; cases to_release)
    (auto simp: protocol_migrate_def protocol_pull_prev_def pull_prev_def protocol_update_software_def
      update_software_ok check_update_allowed_ok)

text \<open>
  A package that has gone from one release to another by updates, so many of which have changed
  the storage.
\<close>

inductive upgrades :: "protocol_package_release \<Rightarrow> nat \<Rightarrow> protocol_package_release \<Rightarrow> bool" where
  no_upgrade: "upgrades r 0 r"
| software_upgrade: "upgrades r n s \<Longrightarrow> protocol_update_software s t target = Inr () \<Longrightarrow> upgrades r n t"
| storage_upgrade:
    "upgrades r n s \<Longrightarrow> protocol_update_software_and_storage s t target = Inr () \<Longrightarrow> upgrades r (Suc n) t"

text \<open>
  Updates never lead a package astray. After any sequence of updates that were allowed, the
  package has the name it had and is of the protocol it was of, its version is not below the one
  it had, and its storage version is ahead by the number of the updates of the storage, wrapping
  around at 16 bits.
\<close>

theorem upgrades_are_safe:
  assumes "upgrades r n s" and "pkg_storage (rel_code (ppr_software r)) < 2 ^ 16"
  shows "pkg_name (rel_code (ppr_software s)) = pkg_name (rel_code (ppr_software r))
    \<and> prel_protocol (ppr_protocol s) = prel_protocol (ppr_protocol r)
    \<and> pkg_version (rel_code (ppr_software r)) \<le> pkg_version (rel_code (ppr_software s))
    \<and> pkg_storage (rel_code (ppr_software s)) = (pkg_storage (rel_code (ppr_software r)) + n) mod 2 ^ 16"
  using assms
proof (induction rule: upgrades.induct)
  case (software_upgrade r n s t target)
  then show ?case
    by (auto simp: protocol_update_software_def update_software_ok check_update_allowed_ok)
next
  case (storage_upgrade r n s t target)
  then show ?case
    by (auto simp: protocol_update_software_and_storage_def update_software_and_storage_ok check_update_allowed_ok
        mod_Suc_eq)
qed simp

definition example_release :: "semver \<Rightarrow> nat \<Rightarrow> string \<Rightarrow> protocol_package_release" where
  "example_release v storage release =
     \<lparr>ppr_software =
        \<lparr>rel_id = release, rel_code = \<lparr>pkg_name = ''lpp'', pkg_version = v, pkg_storage = storage\<rparr>\<rparr>,
      ppr_protocol = \<lparr>prel_id = release, prel_protocol = \<lparr>protocol_called = ''USDC'', protocol_network = ''OSMOSIS''\<rparr>\<rparr>\<rparr>"

lemma example_upgrades: "upgrades (example_release (SemVer 0 6 9) 65535 ''r1'') 1 (example_release (SemVer 0 7 0) 0 ''r2'')"
proof -
  have "protocol_update_software_and_storage (example_release (SemVer 0 6 9) 65535 ''r1'')
      (example_release (SemVer 0 7 0) 0 ''r2'') (''r2'', ''r2'') = Inr ()"
    by (simp add: protocol_update_software_and_storage_def update_software_and_storage_ok check_update_allowed_ok
        example_release_def less_eq_semver_def semver_key_def)
  then show ?thesis using storage_upgrade [OF no_upgrade] by (metis One_nat_def)
qed

theorem upgrades_are_safe_witness:
  "SemVer 0 6 9 \<le> SemVer 0 7 0 \<and> (0 :: nat) = (65535 + 1) mod 2 ^ 16"
  using upgrades_are_safe [OF example_upgrades] by (simp add: example_release_def)

end
