(* ===== verification/Admin.thy ===== *)
theory Admin
  imports Leaser Versioning
begin

text \<open>
  The admin contract (\<open>platform/contracts/admin/src\<close>): the registry of the contracts of the platform
  and of the protocols. It instantiates contracts at addresses known ahead, migrates them all by a
  specification that has to name each protocol, and closes a protocol at the request of its leaser.
  A structure of contracts, the platform's or a protocol's, is traversed in the order of its
  fields, which is the list \<open>*_items\<close> of its units.
\<close>

section \<open>Contracts\<close>

record 'a platform_contracts =
  plat_timealarms :: 'a
  plat_treasury :: 'a

record 'a platform_all =
  all_admin :: 'a
  all_timealarms :: 'a
  all_treasury :: 'a

record 'a contract_set =
  set_leaser :: 'a
  set_lpp :: 'a
  set_oracle :: 'a
  set_profit :: 'a
  set_reserve :: 'a

datatype network = Neutron | OsmosisNetwork

datatype dex_kind = Astroport string | OsmosisDex

record protocol =
  pr_network :: network
  pr_dex :: dex_kind
  pr_contracts :: "addr contract_set"

definition with_admin :: "'a platform_contracts \<Rightarrow> 'a \<Rightarrow> 'a platform_all" where
  "with_admin p admin =
     \<lparr>all_admin = admin, all_timealarms = plat_timealarms p, all_treasury = plat_treasury p\<rparr>"

definition platform_items :: "'a platform_contracts \<Rightarrow> 'a list" where
  "platform_items p = [plat_timealarms p, plat_treasury p]"

definition all_items :: "'a platform_all \<Rightarrow> 'a list" where
  "all_items p = [all_admin p, all_timealarms p, all_treasury p]"

definition set_items :: "'a contract_set \<Rightarrow> 'a list" where
  "set_items c = [set_leaser c, set_lpp c, set_oracle c, set_profit c, set_reserve c]"

text \<open>The units of a structure, one by one, or all of them at once.\<close>

datatype ('o, 'u) granularity = GranularSome 'o | GranularAll "'u option"

section \<open>Messages\<close>

datatype release_target = PlatformTarget string | ProtocolTarget release_id

text \<open>The messages sent; the instantiation alone is with a reply on success.\<close>

datatype admin_out =
    MigrateContract addr nat release_target string
  | ExecuteContract addr string
  | Instantiate2 addr nat string string "cw_coin list" string

record expected_instantiation =
  expected_code_id :: nat
  expected_address :: addr

record admin_init =
  ai_dex_admin :: addr
  ai_platform :: "addr platform_contracts"
  ai_protocols :: "(string \<times> protocol) list"

record contracts_migration =
  cm_platform :: "(migration_spec option platform_all, migration_spec platform_all) granularity"
  cm_protocols ::
    "(string \<times> string \<times> (migration_spec option contract_set, migration_spec contract_set) granularity) list"

record contracts_execute =
  ce_platform :: "(string option platform_contracts, string platform_contracts) granularity"
  ce_protocols :: "(string \<times> (string option contract_set, string contract_set) granularity) list"

datatype admin_msg =
    AdminInstantiate nat addr string string string
  | AdminRegisterProtocol string protocol
  | AdminDeregisterProtocol "migration_spec contract_set"

datatype admin_sudo_msg =
    ChangeDexAdmin addr
  | SudoRegisterProtocol string protocol
  | MigrateContracts string contracts_migration
  | ExecuteContracts contracts_execute

datatype admin_error =
    AdminStd
  | StdInstantiate2Addr
  | AdminAccessControl access_error
  | AdminPlatform platform_error
  | AdminVersioning versioning_error
  | NoMigrationResponseData
  | WrongRelease string string
  | DifferentInstantiatedAddress addr addr
  | DifferentInstantiatedCodeId nat nat
  | MissingProtocol string
  | SenderNotARegisteredLeaser
  | ProtocolSetAlreadyExists string
  | UnknownProtocol string

record admin_state =
  ad_owner :: "addr option"
  ad_platform :: "addr platform_contracts option"
  ad_protocols :: "(string \<times> protocol) list"
  ad_expected :: "expected_instantiation option"
  ad_version :: "legacy_package option"

text \<open>What the chain answers: the code of a contract, the valid addresses, the checksum of a code, the
  two forms of an address, and the address of an instantiation.\<close>

record admin_env =
  ae_contract :: addr
  ae_code_of :: "addr \<Rightarrow> nat option"
  ae_valid :: "addr \<Rightarrow> bool"
  ae_checksum :: "nat \<Rightarrow> string option"
  ae_canonical :: "addr \<Rightarrow> string option"
  ae_human :: "string \<Rightarrow> addr option"
  ae_instantiate2 :: "string \<Rightarrow> string \<Rightarrow> string \<Rightarrow> string option"

type_synonym admin_response = "(admin_error, admin_state \<times> admin_out list) res"

section \<open>Registry\<close>

definition store_contracts ::
  "admin_state \<Rightarrow> addr platform_contracts \<Rightarrow> (string \<times> protocol) list \<Rightarrow> admin_state" where
  "store_contracts s platform protocols =
     s\<lparr>ad_platform := Some platform,
       ad_protocols := foldl (\<lambda>m (name, protocol). map_put m name protocol) (ad_protocols s) protocols\<rparr>"

definition add_protocol :: "admin_state \<Rightarrow> string \<Rightarrow> protocol \<Rightarrow> (admin_error, admin_state) res" where
  "add_protocol s name protocol =
     (if map_of (ad_protocols s) name \<noteq> None then Inl (Fail (ProtocolSetAlreadyExists name))
      else Inr (s\<lparr>ad_protocols := map_put (ad_protocols s) name protocol\<rparr>))"

definition remove_protocol :: "admin_state \<Rightarrow> string \<Rightarrow> admin_state" where
  "remove_protocol s name = s\<lparr>ad_protocols := filter (\<lambda>e. fst e \<noteq> name) (ad_protocols s)\<rparr>"

definition protocol_names :: "admin_state \<Rightarrow> string list" where
  "protocol_names s = map fst (ad_protocols s)"

definition load_platform :: "admin_state \<Rightarrow> (admin_error, addr platform_contracts) res" where
  "load_platform s = ok_or AdminStd (ad_platform s)"

definition load_protocol :: "admin_state \<Rightarrow> string \<Rightarrow> (admin_error, protocol) res" where
  "load_protocol s name = ok_or AdminStd (map_of (ad_protocols s) name)"

definition load_all ::
  "admin_state \<Rightarrow> (admin_error, addr platform_contracts \<times> (string \<times> protocol) list) res" where
  "load_all s = map_res (\<lambda>platform. (platform, ad_protocols s)) (load_platform s)"

section \<open>Traversals\<close>

fun try_for_each :: "('a \<Rightarrow> 's \<Rightarrow> ('e, 's) res) \<Rightarrow> 'a list \<Rightarrow> 's \<Rightarrow> ('e, 's) res" where
  "try_for_each f [] st = Inr st"
| "try_for_each f (x # xs) st = and_then (f x st) (try_for_each f xs)"

definition validate_all :: "('a \<Rightarrow> ('e, unit) res) \<Rightarrow> 'a list \<Rightarrow> ('e, unit) res" where
  "validate_all check xs = try_for_each (\<lambda>x _. check x) xs ()"

definition try_for_each_pair ::
  "('u \<Rightarrow> 'p \<Rightarrow> 's \<Rightarrow> ('e, 's) res) \<Rightarrow> 'u list \<Rightarrow> 'p list \<Rightarrow> 's \<Rightarrow> ('e, 's) res" where
  "try_for_each_pair f left right = try_for_each (\<lambda>(unit, paired_with). f unit paired_with) (zip left right)"

text \<open>The structure comes as its items, next to the items of the two shapes it is paired with.\<close>

definition try_paired_with_granular ::
  "('u \<Rightarrow> 'p \<Rightarrow> 's \<Rightarrow> ('e, 's) res) \<Rightarrow> ('o \<Rightarrow> 'p option list) \<Rightarrow> ('c \<Rightarrow> 'p list) \<Rightarrow> 'u list
     \<Rightarrow> ('o, 'c) granularity \<Rightarrow> 's \<Rightarrow> ('e, 's) res" where
  "try_paired_with_granular f some_items items instance_items paired_with st =
     (case paired_with of
        GranularSome some \<Rightarrow>
          try_for_each_pair (\<lambda>unit p st. case p of None \<Rightarrow> Inr st | Some p \<Rightarrow> f unit p st)
            instance_items (some_items some) st
      | GranularAll (Some p) \<Rightarrow> try_for_each_pair f instance_items (items p) st
      | GranularAll None \<Rightarrow> Inr st)"

text \<open>\<open>remove\<close> of the specification of a protocol from the ordered map of all of them.\<close>

definition remove_key :: "(string \<times> 't) list \<Rightarrow> string \<Rightarrow> (string \<times> 't) list" where
  "remove_key m k = filter (\<lambda>e. fst e \<noteq> k) m"

fun try_protocols ::
  "(addr contract_set \<Rightarrow> 't \<Rightarrow> 's \<Rightarrow> (admin_error, 's) res) \<Rightarrow> (string \<times> protocol) list \<Rightarrow> (string \<times> 't) list \<Rightarrow> 's
     \<Rightarrow> (admin_error, 's \<times> (string \<times> 't) list) res" where
  "try_protocols f [] paired_with st = Inr (st, paired_with)"
| "try_protocols f ((name, protocol) # protocols) paired_with st =
     and_then (ok_or (MissingProtocol name) (map_of paired_with name)) (\<lambda>p.
     and_then (f (pr_contracts protocol) p st) (\<lambda>st'. try_protocols f protocols (remove_key paired_with name) st'))"

definition try_for_each_protocol_pair ::
  "(addr contract_set \<Rightarrow> 't \<Rightarrow> 's \<Rightarrow> (admin_error, 's) res) \<Rightarrow> (string \<times> protocol) list \<Rightarrow> (string \<times> 't) list \<Rightarrow> 's
     \<Rightarrow> (admin_error, 's) res" where
  "try_for_each_protocol_pair f protocols paired_with st =
     and_then (try_protocols f protocols paired_with st) (\<lambda>(st', left).
       case left of [] \<Rightarrow> Inr st' | (name, _) # _ \<Rightarrow> Inl (Fail (UnknownProtocol name)))"

section \<open>Migration and execution\<close>

text \<open>The two batches: the migrations, and what is executed after them.\<close>

type_synonym batches = "admin_out list \<times> admin_out list"

definition merge_batches :: "batches \<Rightarrow> admin_out list" where
  "merge_batches b = fst b @ snd b"

definition execute_contract :: "addr \<Rightarrow> string \<Rightarrow> admin_out list \<Rightarrow> (admin_error, admin_out list) res" where
  "execute_contract address message batch = Inr (batch @ [ExecuteContract address message])"

definition migrate_contract ::
  "release_target \<Rightarrow> addr \<Rightarrow> migration_spec \<Rightarrow> batches \<Rightarrow> (admin_error, batches) res" where
  "migrate_contract to_release address migration b =
     and_then
       (case spec_post_migrate_execute migration of
          None \<Rightarrow> Inr (snd b)
        | Some message \<Rightarrow> execute_contract address message (snd b))
       (\<lambda>post. Inr
         (fst b @ [MigrateContract address (spec_code_id migration) to_release (spec_migrate_message migration)], post))"

definition migrate_platform ::
  "string \<Rightarrow> addr platform_all \<Rightarrow> (migration_spec option platform_all, migration_spec platform_all) granularity
     \<Rightarrow> batches \<Rightarrow> (admin_error, batches) res" where
  "migrate_platform to_release contracts specs =
     try_paired_with_granular (migrate_contract (PlatformTarget to_release)) all_items all_items (all_items contracts) specs"

definition migrate_protocols ::
  "string \<Rightarrow> (string \<times> protocol) list
     \<Rightarrow> (string \<times> string \<times> (migration_spec option contract_set, migration_spec contract_set) granularity) list
     \<Rightarrow> batches \<Rightarrow> (admin_error, batches) res" where
  "migrate_protocols software_release =
     try_for_each_protocol_pair (\<lambda>contracts (protocol_release, specs).
       try_paired_with_granular (migrate_contract (ProtocolTarget (software_release, protocol_release)))
         set_items set_items (set_items contracts) specs)"

definition contracts_migrate ::
  "addr platform_contracts \<Rightarrow> (string \<times> protocol) list \<Rightarrow> addr \<Rightarrow> string \<Rightarrow> contracts_migration
     \<Rightarrow> (admin_error, batches) res" where
  "contracts_migrate platform protocols admin_contract release spec =
     and_then (migrate_platform release (with_admin platform admin_contract) (cm_platform spec) ([], []))
       (migrate_protocols release protocols (cm_protocols spec))"

definition admin_migrate_contracts ::
  "admin_state \<Rightarrow> addr \<Rightarrow> string \<Rightarrow> contracts_migration \<Rightarrow> (admin_error, admin_out list) res" where
  "admin_migrate_contracts s admin_contract release spec =
     and_then (load_all s) (\<lambda>(platform, protocols).
       map_res merge_batches (contracts_migrate platform protocols admin_contract release spec))"

definition execute_platform ::
  "addr platform_contracts \<Rightarrow> (string option platform_contracts, string platform_contracts) granularity
     \<Rightarrow> admin_out list \<Rightarrow> (admin_error, admin_out list) res" where
  "execute_platform contracts specs =
     try_paired_with_granular execute_contract platform_items platform_items (platform_items contracts) specs"

definition execute_protocols ::
  "(string \<times> protocol) list \<Rightarrow> (string \<times> (string option contract_set, string contract_set) granularity) list
     \<Rightarrow> admin_out list \<Rightarrow> (admin_error, admin_out list) res" where
  "execute_protocols =
     try_for_each_protocol_pair (\<lambda>contracts specs.
       try_paired_with_granular execute_contract set_items set_items (set_items contracts) specs)"

definition admin_execute_contracts ::
  "admin_state \<Rightarrow> contracts_execute \<Rightarrow> (admin_error, admin_out list) res" where
  "admin_execute_contracts s spec =
     and_then (load_all s) (\<lambda>(platform, protocols).
     and_then (execute_platform platform (ce_platform spec) []) (execute_protocols protocols (ce_protocols spec)))"

definition migrate_standalone ::
  "addr contract_set \<Rightarrow> release_id \<Rightarrow> migration_spec contract_set \<Rightarrow> (admin_error, admin_out list) res" where
  "migrate_standalone contracts to_release specs =
     map_res merge_batches
       (try_for_each_pair (migrate_contract (ProtocolTarget to_release)) (set_items contracts) (set_items specs) ([], []))"

section \<open>Entry points\<close>

definition validate_contract :: "admin_env \<Rightarrow> addr \<Rightarrow> (admin_error, unit) res" where
  "validate_contract env a = map_err AdminPlatform (validate_addr (ae_code_of env) a)"

definition validate_protocol :: "admin_env \<Rightarrow> protocol \<Rightarrow> (admin_error, unit) res" where
  "validate_protocol env p = validate_all (validate_contract env) (set_items (pr_contracts p))"

definition validate_contracts ::
  "admin_env \<Rightarrow> addr platform_contracts \<Rightarrow> (string \<times> protocol) list \<Rightarrow> (admin_error, unit) res" where
  "validate_contracts env platform protocols =
     and_then (validate_all (validate_contract env) (platform_items platform)) (\<lambda>_.
       validate_all (validate_protocol env) (map snd protocols))"

definition admin_instantiate :: "admin_env \<Rightarrow> admin_init \<Rightarrow> (admin_error, admin_state) res" where
  "admin_instantiate env msg =
     map_res (\<lambda>_.
         store_contracts
           \<lparr>ad_owner = Some (ai_dex_admin msg), ad_platform = None, ad_protocols = [], ad_expected = None,
            ad_version = None\<rparr>
           (ai_platform msg) (ai_protocols msg))
       (validate_contracts env (ai_platform msg) (ai_protocols msg))"

definition ensure_sender_is_owner :: "admin_state \<Rightarrow> addr \<Rightarrow> (admin_error, unit) res" where
  "ensure_sender_is_owner s sender = map_err AdminAccessControl (single_user_check (ad_owner s) sender)"

definition register_protocol :: "admin_env \<Rightarrow> admin_state \<Rightarrow> string \<Rightarrow> protocol \<Rightarrow> admin_response" where
  "register_protocol env s name protocol =
     and_then (validate_protocol env protocol) (\<lambda>_. map_res (\<lambda>s'. (s', [])) (add_protocol s name protocol))"

text \<open>The first of the protocols whose leaser is the sender is removed; none is found with \<open>None\<close>.\<close>

fun take_protocol_of ::
  "admin_state \<Rightarrow> addr \<Rightarrow> string list \<Rightarrow> (admin_error, admin_state \<times> addr contract_set) res option" where
  "take_protocol_of s sender [] = None"
| "take_protocol_of s sender (name # names) =
     (case load_protocol s name of
        Inl e \<Rightarrow> Some (Inl e)
      | Inr protocol \<Rightarrow>
          if set_leaser (pr_contracts protocol) = sender
          then Some (Inr (remove_protocol s name, pr_contracts protocol))
          else take_protocol_of s sender names)"

definition deregister_protocol :: "admin_state \<Rightarrow> addr \<Rightarrow> migration_spec contract_set \<Rightarrow> admin_response" where
  "deregister_protocol s sender specs =
     and_then (case take_protocol_of s sender (protocol_names s) of
         None \<Rightarrow> Inl (Fail SenderNotARegisteredLeaser)
       | Some r \<Rightarrow> r)
       (\<lambda>(s', contracts). map_res (\<lambda>msgs. (s', msgs)) (migrate_standalone contracts void_release specs))"

definition admin_execute :: "admin_env \<Rightarrow> admin_state \<Rightarrow> addr \<Rightarrow> cw_coin list \<Rightarrow> admin_msg \<Rightarrow> admin_response" where
  "admin_execute env s sender funds msg =
     (case msg of
        AdminInstantiate code_id expected protocol label message \<Rightarrow>
          map_res (\<lambda>_.
              (s\<lparr>ad_expected := Some \<lparr>expected_code_id = code_id, expected_address = expected\<rparr>\<rparr>,
               [Instantiate2 (ae_contract env) code_id label message funds protocol]))
            (ensure_sender_is_owner s sender)
      | AdminRegisterProtocol name protocol \<Rightarrow>
          and_then (ensure_sender_is_owner s sender) (\<lambda>_. register_protocol env s name protocol)
      | AdminDeregisterProtocol specs \<Rightarrow> deregister_protocol s sender specs)"

definition admin_sudo :: "admin_env \<Rightarrow> admin_state \<Rightarrow> admin_sudo_msg \<Rightarrow> admin_response" where
  "admin_sudo env s msg =
     (case msg of
        ChangeDexAdmin new_dex_admin \<Rightarrow>
          map_res (\<lambda>_. (s\<lparr>ad_owner := Some new_dex_admin\<rparr>, [])) (fail_if (\<not> ae_valid env new_dex_admin) AdminStd)
      | SudoRegisterProtocol name protocol \<Rightarrow> register_protocol env s name protocol
      | MigrateContracts release spec \<Rightarrow>
          map_res (\<lambda>msgs. (s, msgs)) (admin_migrate_contracts s (ae_contract env) release spec)
      | ExecuteContracts spec \<Rightarrow> map_res (\<lambda>msgs. (s, msgs)) (admin_execute_contracts s spec))"

text \<open>The reply carries the address, when it can be parsed.\<close>

definition instantiate_reply ::
  "admin_env \<Rightarrow> (platform_error, addr) res \<Rightarrow> expected_instantiation \<Rightarrow> (admin_error, unit) res" where
  "instantiate_reply env reply_addr expected =
     and_then (map_err AdminPlatform reply_addr) (\<lambda>instantiated.
       if instantiated \<noteq> expected_address expected
       then Inl (Fail (DifferentInstantiatedAddress instantiated (expected_address expected)))
       else
         and_then (ok_or AdminStd (ae_code_of env instantiated)) (\<lambda>reported.
           if reported = expected_code_id expected then Inr ()
           else Inl (Fail (DifferentInstantiatedCodeId reported (expected_code_id expected)))))"

definition admin_reply :: "admin_env \<Rightarrow> admin_state \<Rightarrow> (platform_error, addr) res \<Rightarrow> (admin_error, admin_state) res" where
  "admin_reply env s reply_addr =
     and_then (ok_or AdminStd (ad_expected s)) (\<lambda>expected.
       map_res (\<lambda>_. s\<lparr>ad_expected := None\<rparr>) (instantiate_reply env reply_addr expected))"

definition admin_migrate :: "package_release \<Rightarrow> admin_state \<Rightarrow> string \<Rightarrow> (admin_error, admin_state) res" where
  "admin_migrate current s to_release =
     map_res (\<lambda>stored. s\<lparr>ad_version := stored\<rparr>)
       (map_err AdminVersioning (platform_migrate current ''admin_contract'' (ad_version s) to_release))"

definition query_instantiate_address :: "admin_env \<Rightarrow> nat \<Rightarrow> string \<Rightarrow> (admin_error, addr) res" where
  "query_instantiate_address env code_id protocol =
     and_then (ok_or AdminStd (ae_checksum env code_id)) (\<lambda>checksum.
     and_then (ok_or AdminStd (ae_canonical env (ae_contract env))) (\<lambda>creator.
     and_then (ok_or StdInstantiate2Addr (ae_instantiate2 env checksum creator protocol)) (\<lambda>canonical_addr.
       ok_or AdminStd (ae_human env canonical_addr))))"

end
