(* ===== verification/Admin_Facts.thy ===== *)
theory Admin_Facts
  imports Admin
begin

text \<open>
  What the admin contract guarantees: a migration reaches the contracts its specification names, all
  of them before anything is executed on them; a protocol leaves the registry only by its leaser,
  and enters it only with contracts that exist.
\<close>

section \<open>Traversals\<close>

text \<open>The units of a structure next to what is meant for them.\<close>

definition granular_pairs ::
  "('o \<Rightarrow> 'p option list) \<Rightarrow> ('c \<Rightarrow> 'p list) \<Rightarrow> 'u list \<Rightarrow> ('o, 'c) granularity \<Rightarrow> ('u \<times> 'p) list" where
  "granular_pairs some_items items us g =
     (case g of
        GranularSome some \<Rightarrow> List.map_filter (\<lambda>(u, p). map_option (Pair u) p) (zip us (some_items some))
      | GranularAll (Some p) \<Rightarrow> zip us (items p)
      | GranularAll None \<Rightarrow> [])"

lemma try_for_each_some:
  "try_for_each (\<lambda>(u, p) st. case p of None \<Rightarrow> Inr st | Some p \<Rightarrow> f u p st) ups st =
     try_for_each (\<lambda>(u, p). f u p) (List.map_filter (\<lambda>(u, p). map_option (Pair u) p) ups) st"
proof (induction ups arbitrary: st)
  case (Cons up ups)
  obtain u p where "up = (u, p)" by fastforce
  then show ?case using Cons by (cases p) (auto simp: map_filter_simps and_then_def split: sum.splits)
qed (simp add: map_filter_simps)

lemma try_paired_with_granular_pairs:
  "try_paired_with_granular f some_items items us g st =
     try_for_each (\<lambda>(u, p). f u p) (granular_pairs some_items items us g) st"
  by (simp add: try_paired_with_granular_def granular_pairs_def try_for_each_pair_def try_for_each_some
      split: granularity.split option.split)

lemma map_of_remove_key: "map_of (remove_key m k) = (map_of m)(k := None)"
  by (induction m) (auto simp: remove_key_def fun_eq_iff)

text \<open>A step that does not fail, for every protocol; what is left is not of a protocol.\<close>

lemma try_protocols_total:
  assumes "\<And>c p st. f c p st = Inr (g c p st)"
  shows "distinct (map fst protocols) \<Longrightarrow> try_protocols f protocols paired st = Inr (st', left) \<longleftrightarrow>
     fst ` set protocols \<subseteq> fst ` set paired
       \<and> left = filter (\<lambda>e. fst e \<notin> fst ` set protocols) paired
       \<and> st' = foldl (\<lambda>st (name, p). g (pr_contracts p) (the (map_of paired name)) st) st protocols"
proof (induction protocols arbitrary: paired st)
  case (Cons e protocols)
  obtain name protocol where e: "e = (name, protocol)" by fastforce
  have "name \<notin> fst ` set protocols" using Cons.prems e by simp
  then have same: "the (map_of (remove_key paired name) n) = the (map_of paired n)" if "n \<in> fst ` set protocols" for n
    using that by (auto simp: map_of_remove_key)
  have folded: "foldl (\<lambda>st (name, p). g (pr_contracts p) (the (map_of (remove_key paired name') name)) st) st protocols
      = foldl (\<lambda>st (name, p). g (pr_contracts p) (the (map_of paired name)) st) st protocols"
    if "name' = name" for name' st
    by (intro foldl_cong) (use same that in \<open>force simp: image_iff\<close>)+
  have keys: "fst ` set protocols \<subseteq> fst ` set (remove_key paired name) \<longleftrightarrow> fst ` set protocols \<subseteq> fst ` set paired"
    using \<open>name \<notin> fst ` set protocols\<close> by (force simp: remove_key_def)
  have left: "filter (\<lambda>e. fst e \<notin> fst ` set protocols) (remove_key paired name) =
      filter (\<lambda>e. fst e \<notin> fst ` set (e' # protocols)) paired" if "fst e' = name" for e'
    using that by (auto simp: remove_key_def intro: filter_cong)
  show ?case
  proof (cases "map_of paired name")
    case None
    then have "name \<notin> fst ` set paired" by (simp add: map_of_eq_None_iff)
    with None show ?thesis by (simp add: e ok_or_def)
  next
    case (Some p)
    then have "name \<in> fst ` set paired" by (metis map_of_eq_None_iff option.distinct(1))
    moreover have "try_protocols f (e # protocols) paired st =
        try_protocols f protocols (remove_key paired name) (g (pr_contracts protocol) p st)"
      by (simp add: e ok_or_def Some assms)
    ultimately show ?thesis
      using Cons.IH [of "remove_key paired name" "g (pr_contracts protocol) p st"] Cons.prems left [of e] Some
      by (simp add: e keys folded)
  qed
qed auto

lemma try_for_each_protocol_pair_total:
  assumes "\<And>c p st. f c p st = Inr (g c p st)" and "distinct (map fst protocols)"
  shows "try_for_each_protocol_pair f protocols paired st = Inr st' \<longleftrightarrow>
     fst ` set protocols = fst ` set paired
       \<and> st' = foldl (\<lambda>st (name, p). g (pr_contracts p) (the (map_of paired name)) st) st protocols"
proof -
  have "filter (\<lambda>e. fst e \<notin> fst ` set protocols) paired = [] \<longleftrightarrow> fst ` set paired \<subseteq> fst ` set protocols"
    by (auto simp: filter_empty_conv)
  moreover have "try_for_each_protocol_pair f protocols paired st = Inr st' \<longleftrightarrow>
      try_protocols f protocols paired st = Inr (st', [])"
    by (auto simp: try_for_each_protocol_pair_def and_then_def split: sum.splits list.splits prod.splits)
  ultimately show ?thesis
    unfolding try_protocols_total [of f g, OF assms] by auto
qed


section \<open>Migrations\<close>

definition migrations :: "release_target \<Rightarrow> (addr \<times> migration_spec) list \<Rightarrow> admin_out list" where
  "migrations to_release =
     map (\<lambda>(a, m). MigrateContract a (spec_code_id m) to_release (spec_migrate_message m))"

definition post_executions :: "(addr \<times> migration_spec) list \<Rightarrow> admin_out list" where
  "post_executions ps =
     concat (map (\<lambda>(a, m). case spec_post_migrate_execute m of None \<Rightarrow> [] | Some x \<Rightarrow> [ExecuteContract a x]) ps)"

definition migrated :: "release_target \<Rightarrow> (addr \<times> migration_spec) list \<Rightarrow> batches \<Rightarrow> batches" where
  "migrated to_release ps b = (fst b @ migrations to_release ps, snd b @ post_executions ps)"

lemma migrate_each:
  "try_for_each (\<lambda>(a, m). migrate_contract to_release a m) ps b = Inr (migrated to_release ps b)"
proof (induction ps arbitrary: b)
  case (Cons p ps)
  then show ?case
    by (cases p)
      (simp add: migrate_contract_def execute_contract_def migrated_def migrations_def post_executions_def
        split: option.split)
qed (simp add: migrated_def migrations_def post_executions_def)

text \<open>
  What a specification asks for: the release each group of contracts goes to, and the contracts of
  the group to migrate; first the platform with the admin contract itself, then each protocol.
\<close>

definition migration_jobs ::
  "addr \<Rightarrow> addr platform_contracts \<Rightarrow> (string \<times> protocol) list \<Rightarrow> string \<Rightarrow> contracts_migration
     \<Rightarrow> (release_target \<times> (addr \<times> migration_spec) list) list" where
  "migration_jobs admin platform protocols release spec =
     (PlatformTarget release, granular_pairs all_items all_items (all_items (with_admin platform admin)) (cm_platform spec))
     # map (\<lambda>(name, p). case the (map_of (cm_protocols spec) name) of (protocol_release, g) \<Rightarrow>
         (ProtocolTarget (release, protocol_release),
          granular_pairs set_items set_items (set_items (pr_contracts p)) g)) protocols"

lemma foldl_migrated:
  "foldl (\<lambda>b e. migrated (fst (job e)) (snd (job e)) b) b es =
     (fst b @ concat (map (\<lambda>(t, ps). migrations t ps) (map job es)),
      snd b @ concat (map (\<lambda>(t, ps). post_executions ps) (map job es)))"
  by (induction es arbitrary: b) (auto simp: migrated_def split: prod.splits)

text \<open>
  A migration of the contracts is all or nothing, and in order. It succeeds exactly when the
  platform is registered and its specification names each registered protocol and no other; then it
  sends, to every contract that has a migration specified and to no other, the migration to the
  code and the release meant for it, the admin contract first, then the rest of the platform, then
  the protocols in the order of their names; what is to be executed after a migration comes only
  after all migrations; and the registry stays as it is.
\<close>

theorem contracts_migration_in_order:
  assumes "distinct (map fst (ad_protocols s))"
  shows "admin_sudo env s (MigrateContracts release spec) = Inr (s', msgs) \<longleftrightarrow>
    (\<exists>platform. ad_platform s = Some platform \<and> s' = s
      \<and> fst ` set (ad_protocols s) = fst ` set (cm_protocols spec)
      \<and> (let jobs = migration_jobs (ae_contract env) platform (ad_protocols s) release spec
         in msgs = concat (map (\<lambda>(t, ps). migrations t ps) jobs) @ concat (map (\<lambda>(t, ps). post_executions ps) jobs)))"
proof (cases "ad_platform s")
  case (Some platform)
  define job where "job = (\<lambda>(name, p :: protocol). case the (map_of (cm_protocols spec) name) of (protocol_release, g) \<Rightarrow>
     (ProtocolTarget (release, protocol_release), granular_pairs set_items set_items (set_items (pr_contracts p)) g))"
  define b where "b = migrated (PlatformTarget release)
     (granular_pairs all_items all_items (all_items (with_admin platform (ae_contract env))) (cm_platform spec)) ([], [])"
  have platform: "migrate_platform release (with_admin platform (ae_contract env)) (cm_platform spec) ([], []) = Inr b"
    by (simp add: migrate_platform_def try_paired_with_granular_pairs migrate_each b_def)
  have steps: "(\<lambda>st (name, p). case the (map_of (cm_protocols spec) name) of (protocol_release, g) \<Rightarrow>
        migrated (ProtocolTarget (release, protocol_release))
          (granular_pairs set_items set_items (set_items (pr_contracts p)) g) st)
     = (\<lambda>b e. migrated (fst (job e)) (snd (job e)) b)"
    by (auto simp: job_def fun_eq_iff split: prod.splits)
  have "migrate_protocols release (ad_protocols s) (cm_protocols spec) b = Inr b' \<longleftrightarrow>
      fst ` set (ad_protocols s) = fst ` set (cm_protocols spec)
        \<and> b' = foldl (\<lambda>b e. migrated (fst (job e)) (snd (job e)) b) b (ad_protocols s)" for b'
    unfolding migrate_protocols_def steps [symmetric]
    by (rule trans [OF try_for_each_protocol_pair_total
          [where g = "\<lambda>c (protocol_release, g). migrated (ProtocolTarget (release, protocol_release))
             (granular_pairs set_items set_items (set_items c) g)"]])
      (auto simp: try_paired_with_granular_pairs migrate_each assms case_prod_beta split: prod.splits)
  note protocols = this
  let ?pairs = "granular_pairs all_items all_items (all_items (with_admin platform (ae_contract env))) (cm_platform spec)"
  have jobs: "migration_jobs (ae_contract env) platform (ad_protocols s) release spec
      = (PlatformTarget release, ?pairs) # map job (ad_protocols s)"
    by (simp add: migration_jobs_def job_def)
  have b: "fst b = migrations (PlatformTarget release) ?pairs" "snd b = post_executions ?pairs"
    by (simp_all add: b_def migrated_def)
  show ?thesis
    using Some
    by (auto simp: admin_sudo_def admin_migrate_contracts_def load_all_def load_platform_def ok_or_def
        contracts_migrate_def platform merge_batches_def protocols foldl_migrated b jobs Let_def)
next
  case None
  then show ?thesis
    by (simp add: admin_sudo_def admin_migrate_contracts_def load_all_def load_platform_def ok_or_def)
qed

section \<open>Who changes the registry\<close>

lemma take_protocol_of_found:
  "take_protocol_of s sender names = Some (Inr (s', contracts)) \<Longrightarrow>
     \<exists>name p. name \<in> set names \<and> map_of (ad_protocols s) name = Some p \<and> contracts = pr_contracts p
       \<and> set_leaser (pr_contracts p) = sender \<and> s' = remove_protocol s name"
  by (induction names) (auto simp: load_protocol_def ok_or_def split: option.splits sum.splits if_splits)

lemma validate_all_ok: "validate_all check xs = Inr u \<longleftrightarrow> (\<forall>x \<in> set xs. check x = Inr ())"
proof -
  have "try_for_each (\<lambda>x _. check x) xs v = Inr u \<longleftrightarrow> (\<forall>x \<in> set xs. check x = Inr ())" for v
    by (induction xs arbitrary: v) auto
  then show ?thesis by (simp add: validate_all_def)
qed

text \<open>
  A message changes the registry of the protocols in two ways only. The owner adds a protocol of a new
  name, whose addresses are all of contracts. The leaser of a registered protocol removes this one, and then the
  contracts of it are migrated to the void. Neither the owner nor the platform changes by a message.
\<close>

theorem registry_access:
  assumes "admin_execute env s sender funds msg = Inr (s', ms)"
  shows "ad_owner s' = ad_owner s \<and> ad_platform s' = ad_platform s
    \<and> (case msg of
        AdminInstantiate _ _ _ _ _ \<Rightarrow> ad_owner s = Some sender \<and> ad_protocols s' = ad_protocols s
      | AdminRegisterProtocol name p \<Rightarrow> ad_owner s = Some sender \<and> map_of (ad_protocols s) name = None
          \<and> (\<forall>a \<in> set (set_items (pr_contracts p)). ae_code_of env a \<noteq> None)
          \<and> s' = s\<lparr>ad_protocols := map_put (ad_protocols s) name p\<rparr> \<and> ms = []
      | AdminDeregisterProtocol specs \<Rightarrow>
          \<exists>name p. map_of (ad_protocols s) name = Some p \<and> set_leaser (pr_contracts p) = sender
            \<and> s' = s\<lparr>ad_protocols := filter (\<lambda>e. fst e \<noteq> name) (ad_protocols s)\<rparr>
            \<and> migrate_standalone (pr_contracts p) void_release specs = Inr ms)"
proof (cases msg)
  case (AdminDeregisterProtocol specs)
  then obtain r contracts where r: "take_protocol_of s sender (protocol_names s) = Some (Inr (s', contracts))"
      "migrate_standalone contracts void_release specs = Inr ms"
    using assms by (auto simp: admin_execute_def deregister_protocol_def split: option.splits)
  then show ?thesis
    using take_protocol_of_found [OF r(1)] AdminDeregisterProtocol by (auto simp: remove_protocol_def)
next
  case (AdminRegisterProtocol name p)
  then show ?thesis
    using assms
    by (auto simp: admin_execute_def ensure_sender_is_owner_def register_protocol_def add_protocol_def validate_protocol_def
        validate_all_ok validate_contract_def validate_addr_def split: if_splits)
next
  case (AdminInstantiate code_id expected protocol label message)
  then show ?thesis
    using assms by (auto simp: admin_execute_def ensure_sender_is_owner_def)
qed

end
