(* ===== verification/Spec2Isabelle.thy ===== *)
theory Spec2Isabelle
  imports Interest Prices Liabilities Fund Lpp_Guarantees Lease_Loan Position_Facts Position_Debt Lease_Due Lease_Facts
    Time_Alarms Oracle_Runs Leaser_Runs Treasury_Facts Dex_Examples
    Lease_Sale_Run Profit_Facts Admin_Facts
begin

text \<open>
  A model of the Nolus money market: the finance library, the liquidity pool, the leases with
  their loans, positions and contracts, their swaps on an exchange, the price oracle with its
  feeds, swap tree and price alarms, the time alarms, the leaser, the reserve, the profit, the treasury, the
  versions of the contracts and their registry, with the theorems that make them correct.

  The parts and how they interact. Lenders deposit a stable coin, the LPN, into the liquidity
  pool (\<open>protocol/contracts/lpp\<close>) and get receipts; the price of a receipt is the assets of
  the pool per receipt. A lease (\<open>protocol/contracts/lease\<close>) borrows from the pool against a
  downpayment, buys an asset, and repays the pool's interest, a margin of the protocol
  and the principal. The position of the lease decides on the debt: nothing to do within a price
  range, warnings by zones, a partial or a full liquidation, or a close by the policy of the
  customer. The oracle (\<open>protocol/contracts/oracle\<close>) keeps a tree of the pairs of currencies that
  may be swapped, averages what its feeders report on each pair, and tells the subscribers when a
  price passes their bounds; the time alarms (\<open>platform/contracts/timealarms\<close>) tell them when a
  time has come. Both send the alarms in batches and settle each by the reply of its subscriber. The
  margins of the leases go to the profit (\<open>protocol/contracts/profit\<close>), which buys the native coin
  with them and sends it to the treasury, and the treasury rewards the lenders of the pools. The leaser keeps the registry of
  the leases, the admin contract (\<open>platform/contracts/admin\<close>) that of all other contracts. All
  amounts, prices and periods are those of \<open>platform/packages/finance\<close>.

  Which theory models what.
  \<^item> \<open>Prelude\<close>: checked integers, results of entry points, facts on truncating division,
    transition systems with the locales \<open>invariant_system\<close> and \<open>monotone_system\<close>.
  \<^item> \<open>Fractions\<close>, \<open>Percent\<close>, \<open>Coins\<close>, \<open>Durations\<close>, \<open>Interest\<close>, \<open>Ranges\<close>, \<open>Prices\<close>,
    \<open>Liabilities\<close>: the files of \<open>finance/src\<close> of the same names. A coin, a percent, a
    duration and a timestamp are their integers; a \<open>u128\<close>, \<open>u64\<close> or \<open>u32\<close> is a natural
    number, and every operation that may leave its width is an \<open>option\<close>.
  \<^item> \<open>Platform\<close>: received coins, bank messages, code ids (\<open>platform/packages/platform\<close>),
    permissions (\<open>access-control\<close>), and the locale \<open>storage_map\<close> of a storage item per key.
  \<^item> \<open>Lpp_Loan\<close>, \<open>Lpp_Rates\<close>, \<open>Lpp_Total\<close>, \<open>Lpp_Deposit\<close>, \<open>Lpp_Pool\<close>, \<open>Lpp_Contract\<close>: the
    modules of the pool, up to its \<open>execute\<close> and \<open>sudo\<close> entry points. \<open>Lpp_Books\<close> states
    the invariant of the books and proves that each operation keeps it; \<open>Lpp_System\<close> puts the
    pool together with its bank account and proves the properties of its runs; \<open>Fund\<close> is the
    abstract fund the pool refines; \<open>Lpp_Runs\<close> holds concrete runs, \<open>Lpp_Guarantees\<close> what
    the entry points guarantee.
  \<^item> \<open>Lease_Loan\<close>: the loan of a lease, over the locale \<open>pool_loan\<close> interpreted by the loan of
    the pool. \<open>Close_Policy\<close>, \<open>Position\<close>: the position. \<open>Position_Facts\<close>, \<open>Position_Debt\<close>,
    \<open>Lease_Due\<close>: their properties, and the due of the loan as the position's due, over the
    locale \<open>position_due\<close>. \<open>Lease\<close>, \<open>Lease_Facts\<close>: the lease itself and its commands
    (\<open>lease/src/lease\<close>, \<open>lease/src/contract/cmd\<close>): open, repay, close in full or in part,
    check and change of the close policy.
  \<^item> \<open>Time_Alarms\<close>: \<open>timealarms/src\<close> and the dispatcher of \<open>platform\<close>. \<open>Alarm_Index\<close>: the
    indexed map of the storage library as its laws, the locale \<open>indexed_map\<close>; \<open>Base_Prices\<close>,
    \<open>Price_Alarms\<close>: \<open>marketprice/src/alarms\<close> and the alarms of the oracle over it.
    \<open>Price_Delivery\<close>: the batches in delivery, over the locale
    \<open>alarm_delivery\<close>. \<open>Price_Dispatch\<close>: a dispatch over any prices, errors included, what the store
    keeps whoever asks for an alarm and whenever (\<open>alarms_kept\<close>), and the pairs mixed of two alarms.
  \<^item> \<open>Price_Feed\<close>, \<open>Feed_Samples\<close>: the feed of a pair and its samples
    (\<open>marketprice/src/feed\<close>); \<open>Feed_Guarantees\<close>: what its price is.
  \<^item> \<open>Swap_Tree\<close>, \<open>Tree_Order\<close>: \<open>platform/packages/tree\<close>; \<open>Supported_Pairs\<close>, \<open>Swap_Paths\<close>:
    the pairs of the oracle and the paths over them.
  \<^item> \<open>Oracle_Prices\<close>, \<open>Oracle_Tree\<close>: the prices over several feeds, and their agreement with a
    recursive description over the tree. \<open>Oracle\<close>: the contract, its entry points over the record
    \<open>price_oracle\<close>, with what comes from the chain (time, sender, the currencies of the build)
    in the record \<open>oracle_env\<close>. \<open>Oracle_Guarantees\<close>, \<open>Oracle_Runs\<close>: its invariant, the
    guarantees of its entry points, a concrete run.

  \<^item> \<open>Reserve\<close>: the reserve, and the full close of a lease with its losses covered. \<open>Leases\<close>,
    \<open>Leaser\<close>: the leaser, its registry of the leases and their migration in batches;
    \<open>Leaser_Guarantees\<close>, \<open>Leaser_Runs\<close>: its invariant, its guarantees together with the pool,
    the position and the reserve, and concrete runs. The migration as its owner runs it has the
    number of customers as fuel, one continuation for each at most.
  \<^item> \<open>Treasury\<close>, \<open>Treasury_Facts\<close>: the rewards of the lenders (\<open>platform/contracts/treasury\<close>).
  \<^item> \<open>Dex_Account\<close>: the account on the exchange and the messages that go over the inter-chain
    connection (\<open>dex/src/impl_/account.rs\<close>, \<open>trx.rs\<close>, \<open>platform/src/ica.rs\<close>, \<open>bank_ibc\<close>).
    \<open>Swap_Client\<close>: the two exchanges (\<open>protocol/packages/swap\<close>), over the locale
    \<open>exact_amount_in\<close>. \<open>Dex_Handler\<close>, \<open>Dex_Swap\<close>, \<open>Dex_Machines\<close>: the states of a swap with their
    handlers, and the two state machines made of them (\<open>dex/src/impl_\<close>); a trait with default
    operations is a record of functions with a default value. \<open>Dex_Facts\<close>, \<open>Dex_Runs\<close>,
    \<open>Dex_Examples\<close>: which operations a state takes and where they lead, the invariant of a swap
    under any order of events, its undisturbed run with each callback in a block of its own, and concrete runs.
  \<^item> \<open>Lease_Machine\<close>, \<open>Lease_Tasks\<close>, \<open>Lease_Contract\<close>, \<open>Lease_Query\<close>: the contract of a lease
    (\<open>lease/src/contract\<close>): its twelve states, of which seven hold a swap machine over one of the
    swap tasks, the handlers of the states, the entry points and the query of the state. The lease
    is stored as data; an operation builds it with the loan and the price that the other contracts
    answer, given in the record \<open>lease_env\<close>. \<open>Lease_Parties\<close>, \<open>Lease_Life\<close>: the runs of a lease
    from its instantiation to its end, and who may do what; \<open>Lease_Sales\<close>: the invariant of the
    sales; \<open>Lease_Repayments\<close>: what a repayment sends, and concrete runs; \<open>Lease_Sale_Run\<close>: a run up
    to the partial liquidation of a lease.
  \<^item> \<open>Profit\<close>, \<open>Profit_Facts\<close>: the profit, with the third use of the swap machine; it never rests
    without an alarm, and its native coin goes to the treasury only.
  \<^item> \<open>Versioning\<close>: semantic versions, packages and releases (\<open>platform/packages/versioning\<close>), the
    checks of an update, and the migration entry points of a contract of the platform and of one of a
    protocol: when they succeed, and where sequences of updates lead.
  \<^item> \<open>Admin\<close>, \<open>Admin_Facts\<close>: the registry of the contracts of the platform and of the protocols,
    their instantiation, migration and execution in the order of their structures, who may change the
    registry, and what a migration sends.

  What the lemmas show. The finance lemmas bound every truncation and state when an operation
  cannot abort. The lemmas of the pool show that its books balance, that lenders never lose from
  the operation of the pool, and that it refines the fund. The lemmas of the lease
  show how a payment is split to the last unit, when a position is liquidated, and that a
  position is left alone exactly at the prices its alarms do not cover. The lemmas of the oracle
  show that every reachable state is sound, that the iterative computation of prices is the
  recursive one, that a price is the discounted average of the observations, that swap paths are
  paths of the tree, and that no alarm is lost or left in delivery after a round. The lemmas of
  the swaps and of the contract of a lease hold for any order of the calls of the chain, of the
  alarms, of the customer and of anyone else.

  Modelling conventions. The contracts are built with overflow checks and without debug
  assertions, so an integer overflow, an \<open>expect\<close> on \<open>None\<close> and a division by zero abort the
  message: \<open>None\<close>, or \<open>Inl Panic\<close> at an entry point. A debug assertion is not part of the
  model; where one matters it is proved. An aborted or failed message leaves the state as it
  was, as the chain does. The currency type parameters of the code are type variables. But for
  the migration of the leases no loop needs fuel: every recursion is structural or has a measure.

  Not modelled: JSON, protobuf and storage encodings, the dispatch over currency groups, events, the
  messages of the log; the migration entry points over the state of the contracts other than the
  admin: they are those of \<open>Versioning\<close> on the stored version and change nothing else, and the one of the oracle fails also
  when its swap tree is no longer valid.
\<close>

end
